(* ===== verification/Prelude.thy ===== *)
theory Prelude
  imports Main "HOL-Library.Word"
begin

text \<open>
  Shared foundations of the development: the machine-integer types, the result type of
  fallible code (a \<^verbatim>\<open>longjmp\<close> out of the simulator, a fatal exit and a crash are values), the
  combinators that thread the machine state through calls, the notion of a computation that
  keeps an invariant, and the generic lemmas on words that the components use.
\<close>

unbundle bit_operations_syntax

named_theorems field_simps_inst \<open>reading an instruction field after writing one\<close>
named_theorems keeps_intros \<open>computations that keep an invariant\<close>
named_theorems handler_defs \<open>definitions of the instruction handlers\<close>

type_synonym byte = "8 word"
type_synonym half = "16 word"
type_synonym reg_word = "32 word"
type_synonym mem_addr = "32 word"

subsection \<open>Results\<close>

text \<open>
  \<open>Run_Error\<close> is \<^verbatim>\<open>run_error\<close> (a \<^verbatim>\<open>longjmp\<close> to the command loop), \<open>Fatal_Error\<close> is
  \<^verbatim>\<open>fatal_error\<close> (process exit), \<open>Exit_Spim\<close> is \<^verbatim>\<open>exit (0)\<close> of the command loop, \<open>Crash\<close> is a null or dangling pointer dereference and
  \<open>Out_Of_Fuel\<close> is a recursion of the C code deeper than the model's fuel.
  Every abort carries the state at that moment, because the C globals keep it.
\<close>

datatype abort = Run_Error string | Fatal_Error string | Exit_Spim | Crash | Out_Of_Fuel

type_synonym ('s, 'a) result = "(abort \<times> 's) + ('a \<times> 's)"
type_synonym ('s, 'a) comp = "'s \<Rightarrow> ('s, 'a) result"

definition ret :: "'a \<Rightarrow> ('s, 'a) comp" where
  "ret x s = Inr (x, s)"

definition bnd :: "('s, 'a) comp \<Rightarrow> ('a \<Rightarrow> ('s, 'b) comp) \<Rightarrow> ('s, 'b) comp" where
  "bnd m f s = (case m s of Inl e \<Rightarrow> Inl e | Inr (x, t) \<Rightarrow> f x t)"

definition modify :: "('s \<Rightarrow> 's) \<Rightarrow> ('s, unit) comp" where
  "modify f s = Inr ((), f s)"

definition gets :: "('s \<Rightarrow> 'a) \<Rightarrow> ('s, 'a) comp" where
  "gets f s = Inr (f s, s)"

definition throw :: "abort \<Rightarrow> ('s, 'a) comp" where
  "throw e s = Inl (e, s)"

definition whn :: "bool \<Rightarrow> ('s, unit) comp \<Rightarrow> ('s, unit) comp" where
  "whn b m = (if b then m else ret ())"

definition seq :: "('s, unit) comp \<Rightarrow> ('s, 'a) comp \<Rightarrow> ('s, 'a) comp" where
  "seq m n = bnd m (\<lambda>_. n)"

lemma ret_app [simp]: "ret x s = Inr (x, s)"
  by (simp add: ret_def)

lemma modify_app [simp]: "modify f s = Inr ((), f s)"
  by (simp add: modify_def)

lemma gets_app [simp]: "gets f s = Inr (f s, s)"
  by (simp add: gets_def)

lemma throw_app [simp]: "throw e s = Inl (e, s)"
  by (simp add: throw_def)

lemma bnd_Inl [simp]: "m s = Inl e \<Longrightarrow> bnd m f s = Inl e"
  by (simp add: bnd_def)

lemma bnd_Inr [simp]: "m s = Inr (x, t) \<Longrightarrow> bnd m f s = f x t"
  by (simp add: bnd_def)

lemma seq_Inl [simp]: "m s = Inl e \<Longrightarrow> seq m n s = Inl e"
  by (simp add: seq_def)

lemma seq_Inr [simp]: "m s = Inr (x, t) \<Longrightarrow> seq m n s = n t"
  by (simp add: seq_def)

lemma whn_app [simp]: "whn b m s = (if b then m s else Inr ((), s))"
  by (simp add: whn_def)

lemma bnd_Inr_iff: "bnd m f s = Inr r \<longleftrightarrow> (\<exists>x t. m s = Inr (x, t) \<and> f x t = Inr r)"
  by (auto simp: bnd_def split: sum.splits)

lemma seq_Inr_iff: "seq m n s = Inr r \<longleftrightarrow> (\<exists>x t. m s = Inr (x, t) \<and> n t = Inr r)"
  by (auto simp: seq_def bnd_Inr_iff)

lemma bnd_assoc: "bnd (bnd m f) g = bnd m (\<lambda>x. bnd (f x) g)"
  by (auto simp: bnd_def fun_eq_iff split: sum.splits)

subsection \<open>The state a computation ends in\<close>

fun final :: "('s, 'a) result \<Rightarrow> 's" where
  "final (Inl (e, s)) = s"
| "final (Inr (x, s)) = s"

text \<open>
  \<open>keeps I m\<close>: from a state with \<open>I\<close> the computation ends in one with \<open>I\<close>, also when it
  ends in an abort. The rules below make a preservation proof follow the shape of the code.
\<close>

definition keeps :: "('s \<Rightarrow> bool) \<Rightarrow> ('s, 'a) comp \<Rightarrow> bool" where
  "keeps I m \<longleftrightarrow> (\<forall>s. I s \<longrightarrow> I (final (m s)))"

lemma keepsI: "(\<And>s. I s \<Longrightarrow> I (final (m s))) \<Longrightarrow> keeps I m"
  by (simp add: keeps_def)

lemma keepsD: "keeps I m \<Longrightarrow> I s \<Longrightarrow> I (final (m s))"
  by (simp add: keeps_def)

lemma keeps_Inr: "keeps I m \<Longrightarrow> I s \<Longrightarrow> m s = Inr (x, t) \<Longrightarrow> I t"
  by (metis final.simps(2) keepsD)

lemma keeps_ret [intro!, keeps_intros]: "keeps I (ret x)"
  by (simp add: keeps_def)

lemma keeps_throw [intro!, keeps_intros]: "keeps I (throw e)"
  by (simp add: keeps_def)

lemma keeps_gets [intro!, keeps_intros]: "keeps I (gets f)"
  by (simp add: keeps_def)

lemma keeps_modify: "(\<And>s. I s \<Longrightarrow> I (f s)) \<Longrightarrow> keeps I (modify f)"
  by (simp add: keeps_def)

lemma keeps_bnd [intro, keeps_intros]:
  assumes "keeps I m" and "\<And>x. keeps I (f x)"
  shows "keeps I (bnd m f)"
proof (rule keepsI)
  fix s assume s: "I s"
  show "I (final (bnd m f s))"
  proof (cases "m s")
    case (Inl e)
    with s assms(1) show ?thesis by (cases e) (auto dest: keepsD)
  next
    case (Inr r)
    obtain x t where r: "r = (x, t)" by (cases r)
    from assms(1) s Inr r have "I t" by (auto dest: keeps_Inr)
    with assms(2) Inr r show ?thesis by (auto dest: keepsD)
  qed
qed

lemma keeps_seq [intro, keeps_intros]: "keeps I m \<Longrightarrow> keeps I n \<Longrightarrow> keeps I (seq m n)"
  by (auto simp: seq_def)

lemma keeps_whn [intro, keeps_intros]: "(b \<Longrightarrow> keeps I m) \<Longrightarrow> keeps I (whn b m)"
  by (auto simp: whn_def)

lemma keeps_if [intro, keeps_intros]:
  "(b \<Longrightarrow> keeps I m) \<Longrightarrow> (\<not> b \<Longrightarrow> keeps I n) \<Longrightarrow> keeps I (if b then m else n)"
  by simp

lemma keeps_let [intro, keeps_intros]: "(\<And>x. keeps I (f x)) \<Longrightarrow> keeps I (Let a f)"
  by simp

lemma keeps_option [intro, keeps_intros]:
  "keeps I m \<Longrightarrow> (\<And>x. keeps I (f x)) \<Longrightarrow> keeps I (case a of None \<Rightarrow> m | Some x \<Rightarrow> f x)"
  by (cases a) auto

subsection \<open>Words\<close>

text \<open>C's macros \<^verbatim>\<open>ROUND_UP\<close> and \<^verbatim>\<open>ROUND_DOWN\<close> (the bound is a power of two).\<close>

definition ROUND_UP :: "32 word \<Rightarrow> 32 word \<Rightarrow> 32 word" where
  "ROUND_UP v b = (v + b - 1) AND NOT (b - 1)"

definition ROUND_DOWN :: "32 word \<Rightarrow> 32 word \<Rightarrow> 32 word" where
  "ROUND_DOWN v b = v AND NOT (b - 1)"

text \<open>The sign extension \<^verbatim>\<open>(int32_t)(int16_t)x\<close> of the low half of a word.\<close>

definition sign_ex :: "32 word \<Rightarrow> 32 word" where
  "sign_ex x = scast (ucast x :: 16 word)"

text \<open>
  Equality of words of a known width, bit by bit at concrete positions, so that masks
  written as numerals are evaluated.
\<close>

lemma all_less_8: "(\<forall>n<(8::nat). P n) \<longleftrightarrow> (P 0 \<and> P 1 \<and> P 2 \<and> P 3 \<and> P 4 \<and> P 5 \<and> P 6 \<and> P 7)"
  by (simp add: numeral_eq_Suc All_less_Suc conj_ac)

lemma all_less_16: "(\<forall>n<(16::nat). P n) \<longleftrightarrow> (\<forall>n<8. P n) \<and> (\<forall>n<8. P (n + 8))"
proof
  assume *: "(\<forall>n<8. P n) \<and> (\<forall>n<8. P (n + 8))"
  show "\<forall>n<16. P n"
  proof (intro allI impI)
    fix n :: nat assume "n < 16"
    with * show "P n" by (cases "n < 8") (auto dest: spec [of _ "n - 8"])
  qed
qed auto

lemma all_less_32: "(\<forall>n<(32::nat). P n) \<longleftrightarrow> (\<forall>n<16. P n) \<and> (\<forall>n<16. P (n + 16))"
proof
  assume *: "(\<forall>n<16. P n) \<and> (\<forall>n<16. P (n + 16))"
  show "\<forall>n<32. P n"
  proof (intro allI impI)
    fix n :: nat assume "n < 32"
    with * show "P n" by (cases "n < 16") (auto dest: spec [of _ "n - 16"])
  qed
qed auto

lemma word8_eq_iff: "(a::8 word) = b \<longleftrightarrow> (\<forall>n<8. bit a n = bit b n)"
  by (auto simp: bit_eq_iff)

lemma word16_eq_iff: "(a::16 word) = b \<longleftrightarrow> (\<forall>n<16. bit a n = bit b n)"
  by (auto simp: bit_eq_iff)

lemma word32_eq_iff: "(a::32 word) = b \<longleftrightarrow> (\<forall>n<32. bit a n = bit b n)"
  by (auto simp: bit_eq_iff)

lemma bit8_out: "8 \<le> n \<Longrightarrow> \<not> bit (w::8 word) n"
  by (simp add: impossible_bit)

lemma bit16_out: "16 \<le> n \<Longrightarrow> \<not> bit (w::16 word) n"
  by (simp add: impossible_bit)

lemmas word_eq_bits = bit8_out bit16_out word8_eq_iff word16_eq_iff word32_eq_iff all_less_8 all_less_16 all_less_32

lemma and_mask2_le: "(w::32 word) AND 3 \<le> 3"
  by (rule word_and_le1)

lemma and_3_cases:
  fixes w :: "32 word"
  obtains "w AND 3 = 0" | "w AND 3 = 1" | "w AND 3 = 2" | "w AND 3 = 3"
proof -
  have "unat (w AND 3) \<le> 3"
    using word_and_le1 [of w 3] by (simp add: word_le_nat_alt)
  then have "unat (w AND 3) = 0 \<or> unat (w AND 3) = 1 \<or> unat (w AND 3) = 2 \<or> unat (w AND 3) = 3"
    by arith
  then have "w AND 3 = 0 \<or> w AND 3 = 1 \<or> w AND 3 = 2 \<or> w AND 3 = 3"
    by (auto simp: word_unat_eq_iff)
  with that show thesis by blast
qed

lemma and_3_mod: "unat ((w::32 word) AND 3) = unat w mod 4"
proof -
  have "w AND 3 = take_bit 2 w"
    by (simp add: take_bit_eq_mask mask_eq_exp_minus_1)
  then have "unat (w AND 3) = take_bit 2 (unat w)"
    by (simp add: unsigned_take_bit_eq)
  then show ?thesis by (simp add: take_bit_eq_mod)
qed

lemma and_1_mod: "unat ((w::32 word) AND 1) = unat w mod 2"
  by (simp add: and_one_eq unat_mod)

lemma aligned4_iff: "(w::32 word) AND 3 = 0 \<longleftrightarrow> unat w mod 4 = 0"
  by (metis and_3_mod unat_0 unat_eq_zero)

lemma aligned2_iff: "(w::32 word) AND 1 = 0 \<longleftrightarrow> unat w mod 2 = 0"
  by (metis and_1_mod unat_0 unat_eq_zero)

lemma unat_sub32: "(b::32 word) \<le> a \<Longrightarrow> unat (a - b) = unat a - unat b"
  by (simp add: unat_sub)

end
