(* ===== verification/Machine.thy ===== *)
theory Machine
  imports Prelude
begin

text \<open>
  The data of the simulator: instructions and their overlaid fields
  (\<^verbatim>\<open>include/instruction.h\<close>), labels (\<^verbatim>\<open>include/symbol-table.h\<close>), the global variables of the
  machine (\<^verbatim>\<open>memory.c\<close>, \<^verbatim>\<open>registers.h\<close>, \<^verbatim>\<open>run.c\<close>, \<^verbatim>\<open>spim-utils.c\<close>, \<^verbatim>\<open>data.c\<close>,
  \<^verbatim>\<open>instruction.c\<close>) as one record, and the entry of an exception (\<^verbatim>\<open>raise_exception\<close>).
  The build modelled is the default one: little-endian, MIPS32.
\<close>

subsection \<open>Address map\<close>

abbreviation TEXT_BOT :: mem_addr where "TEXT_BOT \<equiv> 0x400000"
abbreviation DATA_BOT :: mem_addr where "DATA_BOT \<equiv> 0x10000000"
abbreviation STACK_TOP :: mem_addr where "STACK_TOP \<equiv> 0x80000000"
abbreviation K_TEXT_BOT :: mem_addr where "K_TEXT_BOT \<equiv> 0x80000000"
abbreviation K_DATA_BOT :: mem_addr where "K_DATA_BOT \<equiv> 0x90000000"
abbreviation MM_IO_BOT :: mem_addr where "MM_IO_BOT \<equiv> 0xffff0000"
abbreviation MM_IO_TOP :: mem_addr where "MM_IO_TOP \<equiv> 0xffffffff"
abbreviation RECV_CTRL_ADDR :: mem_addr where "RECV_CTRL_ADDR \<equiv> 0xffff0000"
abbreviation RECV_BUFFER_ADDR :: mem_addr where "RECV_BUFFER_ADDR \<equiv> 0xffff0004"
abbreviation TRANS_CTRL_ADDR :: mem_addr where "TRANS_CTRL_ADDR \<equiv> 0xffff0008"
abbreviation TRANS_BUFFER_ADDR :: mem_addr where "TRANS_BUFFER_ADDR \<equiv> 0xffff000c"
abbreviation EXCEPTION_ADDR :: mem_addr where "EXCEPTION_ADDR \<equiv> 0x80000180"
abbreviation BYTES_PER_WORD :: "32 word" where "BYTES_PER_WORD \<equiv> 4"
abbreviation kilo :: "32 word" where "kilo \<equiv> 1024"
abbreviation mega :: "32 word" where "mega \<equiv> 1048576"

subsection \<open>Instructions and labels\<close>

text \<open>
  A pointer to a heap object is a number or \<open>None\<close> (\<^verbatim>\<open>nullptr\<close>). An instruction's
  \<^verbatim>\<open>imm_expr\<close> is never shared between instructions (\<^verbatim>\<open>copy_imm_expr\<close>), so it is stored by
  value; instructions and labels are shared and live in heaps.
\<close>

type_synonym ptr = "nat option"

record imm_expr =
  expr_offset :: "32 word"
  expr_symbol :: ptr
  expr_bits :: int
  expr_pc_relative :: bool

text \<open>
  The union \<^verbatim>\<open>r_t\<close> of \<^verbatim>\<open>mips_instruction\<close>: \<^verbatim>\<open>rs\<close>, \<^verbatim>\<open>rt\<close> and the 16-bit \<^verbatim>\<open>imm\<close>, which overlays
  \<^verbatim>\<open>rd\<close> (low byte) and \<^verbatim>\<open>shamt\<close> (high byte); the 32-bit \<^verbatim>\<open>target\<close> overlays all of them.
\<close>

record mips_instruction =
  inst_opcode :: int
  inst_rs :: byte
  inst_rt :: byte
  inst_imm :: half
  inst_encoding :: "32 word"
  inst_expr :: "imm_expr option"
  inst_source :: "string option"

record label_use =
  use_inst :: ptr
  use_addr :: mem_addr

record label =
  label_name :: string
  label_addr :: "64 word"
  global_flag :: bool
  gp_flag :: bool
  const_flag :: bool
  next_local :: ptr
  label_uses :: "label_use list"

definition OPCODE :: "mips_instruction \<Rightarrow> int" where
  "OPCODE i = inst_opcode i"

definition RS :: "mips_instruction \<Rightarrow> byte" where
  "RS i = inst_rs i"

definition RT :: "mips_instruction \<Rightarrow> byte" where
  "RT i = inst_rt i"

definition IMM :: "mips_instruction \<Rightarrow> half" where
  "IMM i = inst_imm i"

definition RD :: "mips_instruction \<Rightarrow> byte" where
  "RD i = ucast (inst_imm i)"

definition SHAMT :: "mips_instruction \<Rightarrow> byte" where
  "SHAMT i = ucast (drop_bit 8 (inst_imm i))"

definition TARGET :: "mips_instruction \<Rightarrow> 32 word" where
  "TARGET i = ucast (inst_rs i) OR push_bit 8 (ucast (inst_rt i)) OR push_bit 16 (ucast (inst_imm i))"

definition SET_RS :: "byte \<Rightarrow> mips_instruction \<Rightarrow> mips_instruction" where
  "SET_RS v i = i\<lparr>inst_rs := v\<rparr>"

definition SET_RT :: "byte \<Rightarrow> mips_instruction \<Rightarrow> mips_instruction" where
  "SET_RT v i = i\<lparr>inst_rt := v\<rparr>"

definition SET_IMM :: "half \<Rightarrow> mips_instruction \<Rightarrow> mips_instruction" where
  "SET_IMM v i = i\<lparr>inst_imm := v\<rparr>"

definition SET_RD :: "byte \<Rightarrow> mips_instruction \<Rightarrow> mips_instruction" where
  "SET_RD v i = i\<lparr>inst_imm := (inst_imm i AND 0xff00) OR ucast v\<rparr>"

definition SET_SHAMT :: "byte \<Rightarrow> mips_instruction \<Rightarrow> mips_instruction" where
  "SET_SHAMT v i = i\<lparr>inst_imm := (inst_imm i AND 0x00ff) OR push_bit 8 (ucast v)\<rparr>"

definition SET_TARGET :: "32 word \<Rightarrow> mips_instruction \<Rightarrow> mips_instruction" where
  "SET_TARGET v i = i\<lparr>inst_rs := ucast v, inst_rt := ucast (drop_bit 8 v),
     inst_imm := ucast (drop_bit 16 v)\<rparr>"

text \<open>The aliases of the floating-point formats.\<close>

abbreviation FS :: "mips_instruction \<Rightarrow> byte" where "FS \<equiv> RD"
abbreviation FT :: "mips_instruction \<Rightarrow> byte" where "FT \<equiv> RT"
abbreviation FD :: "mips_instruction \<Rightarrow> byte" where "FD \<equiv> SHAMT"
abbreviation BASE :: "mips_instruction \<Rightarrow> byte" where "BASE \<equiv> RS"
abbreviation COND :: "mips_instruction \<Rightarrow> byte" where "COND \<equiv> RS"

text \<open>\<^verbatim>\<open>(u_reg_word)IOFFSET\<close>: the immediate, sign-extended by the conversion from \<^verbatim>\<open>int16_t\<close>.\<close>

definition IOFFSET :: "mips_instruction \<Rightarrow> 32 word" where
  "IOFFSET i = scast (IMM i)"

definition BRANCH_OFFSET :: "mips_instruction \<Rightarrow> 32 word" where
  "BRANCH_OFFSET i = sign_ex (push_bit 2 (IOFFSET i))"

definition CC :: "mips_instruction \<Rightarrow> nat" where
  "CC i = unat (drop_bit 2 (RT i))"

definition ND :: "mips_instruction \<Rightarrow> bool" where
  "ND i = (drop_bit 1 (RT i AND 2) \<noteq> 0)"

definition TF :: "mips_instruction \<Rightarrow> byte" where
  "TF i = RT i AND 1"

definition CCFP :: "mips_instruction \<Rightarrow> nat" where
  "CCFP i = unat (drop_bit 2 (FD i))"

subsection \<open>Field algebra\<close>

lemma RD_SET_RD [simp, field_simps_inst]: "RD (SET_RD v i) = v"
  unfolding RD_def SET_RD_def by (simp add: word_eq_bits bit_simps)

lemma SHAMT_SET_SHAMT [simp, field_simps_inst]: "SHAMT (SET_SHAMT v i) = v"
  unfolding SHAMT_def SET_SHAMT_def by (simp add: word_eq_bits bit_simps)

lemma RD_SET_SHAMT [simp, field_simps_inst]: "RD (SET_SHAMT v i) = RD i"
  unfolding RD_def SET_SHAMT_def by (simp add: word_eq_bits bit_simps)

lemma SHAMT_SET_RD [simp, field_simps_inst]: "SHAMT (SET_RD v i) = SHAMT i"
  unfolding SHAMT_def SET_RD_def by (simp add: word_eq_bits bit_simps)

lemma TARGET_SET_TARGET [simp, field_simps_inst]: "TARGET (SET_TARGET v i) = v"
  unfolding TARGET_def SET_TARGET_def by (simp add: word_eq_bits bit_simps)

text \<open>A register number is in range: the precondition of every array access \<^verbatim>\<open>gpr[RS]\<close>.\<close>

definition inst_wf :: "mips_instruction \<Rightarrow> bool" where
  "inst_wf i \<longleftrightarrow> RS i < 32 \<and> RT i < 32 \<and> RD i < 32"

subsection \<open>The machine state\<close>

text \<open>Where a delayed load delivers its value: an integer or a floating-point register.\<close>

datatype reg_loc = Gpr_Loc nat | Fpr_Loc nat

text \<open>
  Output, one constructor per kind of \<^verbatim>\<open>write_output\<close>, \<^verbatim>\<open>putc\<close> or \<^verbatim>\<open>error\<close> call, with the value that
  is formatted; a message carries its format string and its numbers, or the name it mentions.
\<close>

datatype con_event =
    Con_Char byte
  | Con_Int int
  | Con_Float "32 word"
  | Con_Double "64 word"
  | Con_String "byte list"
  | Con_Message string "32 word list"
  | Con_Text string string

text \<open>
  The state of the teaching mode (\<^verbatim>\<open>explain.c\<close>): its level, the snapshot of the registers before an instruction and
  of the word a store overwrites, what the narration has named, and the lists it offers for completion.
\<close>

record narration =
  explain_level :: nat
  snap_R :: "nat \<Rightarrow> reg_word"
  snap_HI :: reg_word
  snap_LO :: reg_word
  snap_PC :: mem_addr
  snap_has_mem :: bool
  snap_mem_addr :: mem_addr
  snap_mem_val :: reg_word
  touched_reg :: "nat \<Rightarrow> bool"
  touched_hi :: bool
  touched_lo :: bool
  legend_emitted :: bool
  listing_shown :: bool
  suggestions :: "string list"
  pending_pseudo_name :: "string option"
  pending_pseudo_multi :: bool
  try_block_active :: bool
  try_lines_emitted :: nat

definition silent :: narration where
  "silent = \<lparr>explain_level = 0, snap_R = (\<lambda>_. 0), snap_HI = 0, snap_LO = 0, snap_PC = 0, snap_has_mem = False,
     snap_mem_addr = 0, snap_mem_val = 0, touched_reg = (\<lambda>_. False), touched_hi = False, touched_lo = False,
     legend_emitted = False, listing_shown = False, suggestions = [], pending_pseudo_name = None,
     pending_pseudo_multi = False, try_block_active = False, try_lines_emitted = 0\<rparr>"

record machine =
  gpr :: "nat \<Rightarrow> reg_word"
  HI :: reg_word
  LO :: reg_word
  PC :: mem_addr
  nPC :: mem_addr
  fp_int_view :: "nat \<Rightarrow> 32 word"
  coprocessor_control_0 :: "nat \<Rightarrow> reg_word"
  coprocessor_0 :: "nat \<Rightarrow> reg_word"
  coprocessor_1 :: "nat \<Rightarrow> reg_word"
  text_seg :: "nat \<Rightarrow> ptr"
  text_top :: mem_addr
  text_modified :: bool
  data_seg_b :: "nat \<Rightarrow> byte"
  data_top :: mem_addr
  data_modified :: bool
  gp_midpoint :: mem_addr
  stack_seg_b :: "nat \<Rightarrow> byte"
  stack_bot :: mem_addr
  k_text_seg :: "nat \<Rightarrow> ptr"
  k_text_top :: mem_addr
  k_data_seg_b :: "nat \<Rightarrow> byte"
  k_data_top :: mem_addr
  data_size_limit :: "32 word"
  stack_size_limit :: "32 word"
  k_data_size_limit :: "32 word"
  recv_control :: "32 word"
  recv_buffer :: "32 word"
  recv_buffer_full_timer :: int
  trans_control :: "32 word"
  trans_buffer :: "32 word"
  trans_buffer_full_timer :: int
  inst_heap :: "nat \<Rightarrow> mips_instruction option"
  label_heap :: "nat \<Rightarrow> label option"
  next_obj :: nat
  break_inst :: ptr
  bkpts :: "(mem_addr \<times> nat) list"
  exception_occurred :: bool
  first_bad_exception :: int
  running_in_delay_slot :: bool
  delayed_load_addr1 :: "reg_loc option"
  delayed_load_value1 :: reg_word
  delayed_load_addr2 :: "reg_loc option"
  delayed_load_value2 :: reg_word
  force_break :: bool
  bare_machine :: bool
  delayed_branches :: bool
  delayed_loads :: bool
  mapped_io :: bool
  quiet :: bool
  spim_return_value :: "32 word"
  console_in :: "byte list"
  console_out :: "con_event list"
  timer_polls :: nat
  console_polls :: nat
  os_calls :: nat
  label_hash_table :: "nat \<Rightarrow> nat list"
  local_labels :: ptr
  this_line_labels :: "nat list"
  auto_align :: bool
  accept_pseudo_insts :: bool
  parse_error_occurred :: bool
  parse_errors_seen :: int
  line_no :: "32 word"
  saved_line :: "string option"
  emit_source_active :: bool
  emit_source_text :: "string option"
  next_text_pc :: mem_addr
  next_k_text_pc :: mem_addr
  text_in_kernel :: bool
  next_data_pc :: mem_addr
  next_k_data_pc :: mem_addr
  data_in_kernel :: bool
  next_gp_item_addr :: mem_addr
  data_auto_alignment :: bool
  text_auto_alignment :: bool
  data_dir :: bool
  text_dir :: bool
  explain :: narration

text \<open>The globals of the C program before \<^verbatim>\<open>main\<close>: zero, or their initialisers.\<close>

definition zero_machine :: machine where
  "zero_machine = \<lparr>
  gpr = (\<lambda>_. 0), HI = 0, LO = 0, PC = 0, nPC = 0, fp_int_view = (\<lambda>_. 0),
    coprocessor_control_0 = (\<lambda>_. 0), coprocessor_0 = (\<lambda>_. 0),
    coprocessor_1 = (\<lambda>_. 0), text_seg = (\<lambda>_. None), text_top = 0,
    text_modified = False, data_seg_b = (\<lambda>_. 0), data_top = 0, data_modified = False,
    gp_midpoint = 0, stack_seg_b = (\<lambda>_. 0), stack_bot = 0,
    k_text_seg = (\<lambda>_. None), k_text_top = 0, k_data_seg_b = (\<lambda>_. 0),
    k_data_top = 0, data_size_limit = 0, stack_size_limit = 0, k_data_size_limit = 0,
    recv_control = 0, recv_buffer = 0, recv_buffer_full_timer = 0, trans_control = 1,
    trans_buffer = 0, trans_buffer_full_timer = 0, inst_heap = (\<lambda>_. None),
    label_heap = (\<lambda>_. None), next_obj = 0, break_inst = None, bkpts = [],
    exception_occurred = False, first_bad_exception = -1, running_in_delay_slot = False,
    delayed_load_addr1 = None, delayed_load_value1 = 0, delayed_load_addr2 = None,
    delayed_load_value2 = 0, force_break = False, bare_machine = False, delayed_branches = False,
    delayed_loads = False, mapped_io = False, quiet = False, spim_return_value = 0,
    console_in = [], console_out = [], timer_polls = 0, console_polls = 0, os_calls = 0,
    label_hash_table = (\<lambda>_. []), local_labels = None, this_line_labels = [],
    auto_align = True, accept_pseudo_insts = False, parse_error_occurred = False, parse_errors_seen = 0,
    line_no = 0, saved_line = None, emit_source_active = False, emit_source_text = None, next_text_pc = 0, next_k_text_pc = 0,
    text_in_kernel = False, next_data_pc = 0, next_k_data_pc = 0, data_in_kernel = False,
    next_gp_item_addr = 0, data_auto_alignment = True, text_auto_alignment = True,
    data_dir = False, text_dir = True, explain = silent\<rparr>"

type_synonym 'a mcomp = "(machine, 'a) comp"

text \<open>
  What the simulator takes from the host and the model takes as a parameter: whether the n-th
  poll of the interval timer finds it expired, whether the n-th \<^verbatim>\<open>select\<close> on standard input
  reports it readable, which allocation sizes the C library grants, the bytes a grown block
  holds beyond its old end, the host's floating-point arithmetic, and the answer of its n-th file system
  call.
\<close>

record host =
  timer_expired :: "nat \<Rightarrow> bool"
  input_ready :: "nat \<Rightarrow> bool"
  alloc_ok :: "nat \<Rightarrow> bool"
  heap_garbage :: "nat \<Rightarrow> byte"
  fadd_s :: "32 word \<Rightarrow> 32 word \<Rightarrow> 32 word"
  fsub_s :: "32 word \<Rightarrow> 32 word \<Rightarrow> 32 word"
  fmul_s :: "32 word \<Rightarrow> 32 word \<Rightarrow> 32 word"
  fdiv_s :: "32 word \<Rightarrow> 32 word \<Rightarrow> 32 word"
  fadd_d :: "64 word \<Rightarrow> 64 word \<Rightarrow> 64 word"
  fsub_d :: "64 word \<Rightarrow> 64 word \<Rightarrow> 64 word"
  fmul_d :: "64 word \<Rightarrow> 64 word \<Rightarrow> 64 word"
  fdiv_d :: "64 word \<Rightarrow> 64 word \<Rightarrow> 64 word"
  fsqrt_d :: "64 word \<Rightarrow> 64 word"
  fceil_d :: "64 word \<Rightarrow> 64 word"
  ffloor_d :: "64 word \<Rightarrow> 64 word"
  s_to_d :: "32 word \<Rightarrow> 64 word"
  d_to_s :: "64 word \<Rightarrow> 32 word"
  w_to_d :: "32 word \<Rightarrow> 64 word"
  w_to_s :: "32 word \<Rightarrow> 32 word"
  d_to_w :: "64 word \<Rightarrow> 32 word"
  s_to_w :: "32 word \<Rightarrow> 32 word"
  parse_double :: "byte list \<Rightarrow> 64 word"
  printf_g :: "string \<Rightarrow> 64 word \<Rightarrow> string"
  os_open :: "nat \<Rightarrow> byte list \<Rightarrow> 32 word \<Rightarrow> 32 word \<Rightarrow> 32 word"
  os_read :: "nat \<Rightarrow> 32 word \<Rightarrow> nat \<Rightarrow> 32 word \<times> byte list"
  os_write :: "nat \<Rightarrow> 32 word \<Rightarrow> byte list \<Rightarrow> 32 word"
  os_close :: "nat \<Rightarrow> 32 word \<Rightarrow> 32 word"

subsection \<open>Coprocessor 0\<close>

abbreviation CP0_BadVAddr_Reg :: nat where "CP0_BadVAddr_Reg \<equiv> 8"
abbreviation CP0_Count_Reg :: nat where "CP0_Count_Reg \<equiv> 9"
abbreviation CP0_Compare_Reg :: nat where "CP0_Compare_Reg \<equiv> 11"
abbreviation CP0_Status_Reg :: nat where "CP0_Status_Reg \<equiv> 12"
abbreviation CP0_Cause_Reg :: nat where "CP0_Cause_Reg \<equiv> 13"
abbreviation CP0_EPC_Reg :: nat where "CP0_EPC_Reg \<equiv> 14"
abbreviation CP0_Config_Reg :: nat where "CP0_Config_Reg \<equiv> 16"

abbreviation CP0_BadVAddr :: "machine \<Rightarrow> reg_word" where
  "CP0_BadVAddr s \<equiv> coprocessor_0 s CP0_BadVAddr_Reg"
abbreviation CP0_Count :: "machine \<Rightarrow> reg_word" where "CP0_Count s \<equiv> coprocessor_0 s CP0_Count_Reg"
abbreviation CP0_Compare :: "machine \<Rightarrow> reg_word" where
  "CP0_Compare s \<equiv> coprocessor_0 s CP0_Compare_Reg"
abbreviation CP0_Status :: "machine \<Rightarrow> reg_word" where "CP0_Status s \<equiv> coprocessor_0 s CP0_Status_Reg"
abbreviation CP0_Cause :: "machine \<Rightarrow> reg_word" where "CP0_Cause s \<equiv> coprocessor_0 s CP0_Cause_Reg"
abbreviation CP0_EPC :: "machine \<Rightarrow> reg_word" where "CP0_EPC s \<equiv> coprocessor_0 s CP0_EPC_Reg"

abbreviation CP0_Status_CU :: "32 word" where "CP0_Status_CU \<equiv> 0xf0000000"
abbreviation CP0_Status_IM :: "32 word" where "CP0_Status_IM \<equiv> 0x0000ff00"
abbreviation CP0_Status_UM :: "32 word" where "CP0_Status_UM \<equiv> 0x00000010"
abbreviation CP0_Status_EXL :: "32 word" where "CP0_Status_EXL \<equiv> 0x00000002"
abbreviation CP0_Status_IE :: "32 word" where "CP0_Status_IE \<equiv> 0x00000001"
abbreviation CP0_Cause_BD :: "32 word" where "CP0_Cause_BD \<equiv> 0x80000000"
abbreviation CP0_Cause_IP :: "32 word" where "CP0_Cause_IP \<equiv> 0x0000ff00"
abbreviation CP0_Cause_IP7 :: "32 word" where "CP0_Cause_IP7 \<equiv> 0x00008000"
abbreviation CP0_Cause_ExcCode :: "32 word" where "CP0_Cause_ExcCode \<equiv> 0x0000007c"
abbreviation CP0_Config_BE :: "32 word" where "CP0_Config_BE \<equiv> 0x00080000"

definition CP0_Status_Mask :: "32 word" where
  "CP0_Status_Mask = CP0_Status_CU OR CP0_Status_UM OR CP0_Status_IM OR CP0_Status_EXL OR CP0_Status_IE"

definition CP0_Cause_Mask :: "32 word" where
  "CP0_Cause_Mask = CP0_Cause_BD OR CP0_Cause_IP OR CP0_Cause_ExcCode"

definition CP0_Config_Mask :: "32 word" where
  "CP0_Config_Mask = CP0_Config_BE OR 0x00060000 OR 0x0001c000 OR 0x00000380"

definition set_cp0 :: "nat \<Rightarrow> reg_word \<Rightarrow> machine \<Rightarrow> machine" where
  "set_cp0 n v s = s\<lparr>coprocessor_0 := (coprocessor_0 s)(n := v)\<rparr>"

definition CP0_ExCode :: "machine \<Rightarrow> 32 word" where
  "CP0_ExCode s = drop_bit 2 (CP0_Cause s AND CP0_Cause_ExcCode)"

text \<open>\<^verbatim>\<open>RAISE_INTERRUPT\<close> and \<^verbatim>\<open>CLEAR_INTERRUPT\<close>: the pending bit of an interrupt level.\<close>

definition RAISE_INTERRUPT :: "nat \<Rightarrow> machine \<Rightarrow> machine" where
  "RAISE_INTERRUPT level s = set_cp0 CP0_Cause_Reg (CP0_Cause s OR push_bit (level + 8) 1) s"

definition CLEAR_INTERRUPT :: "nat \<Rightarrow> machine \<Rightarrow> machine" where
  "CLEAR_INTERRUPT level s = set_cp0 CP0_Cause_Reg (CP0_Cause s AND NOT (push_bit (level + 8) 1)) s"

subsection \<open>Exceptions\<close>

datatype mips_exc_code =
    ExcCode_Int | ExcCode_Mod | ExcCode_TLBL | ExcCode_TLBS | ExcCode_AdEL | ExcCode_AdES
  | ExcCode_IBE | ExcCode_DBE | ExcCode_Sys | ExcCode_Bp | ExcCode_RI | ExcCode_CpU
  | ExcCode_Ov | ExcCode_Tr | ExcCode_FPE | ExcCode_C2E | ExcCode_MDMX | ExcCode_WATCH
  | ExcCode_MCheck | ExcCode_CacheErr

fun exc_val :: "mips_exc_code \<Rightarrow> int" where
  "exc_val ExcCode_Int = 0"
| "exc_val ExcCode_Mod = 1"
| "exc_val ExcCode_TLBL = 2"
| "exc_val ExcCode_TLBS = 3"
| "exc_val ExcCode_AdEL = 4"
| "exc_val ExcCode_AdES = 5"
| "exc_val ExcCode_IBE = 6"
| "exc_val ExcCode_DBE = 7"
| "exc_val ExcCode_Sys = 8"
| "exc_val ExcCode_Bp = 9"
| "exc_val ExcCode_RI = 10"
| "exc_val ExcCode_CpU = 11"
| "exc_val ExcCode_Ov = 12"
| "exc_val ExcCode_Tr = 13"
| "exc_val ExcCode_FPE = 15"
| "exc_val ExcCode_C2E = 18"
| "exc_val ExcCode_MDMX = 22"
| "exc_val ExcCode_WATCH = 23"
| "exc_val ExcCode_MCheck = 24"
| "exc_val ExcCode_CacheErr = 30"

definition status_exl :: "machine \<Rightarrow> bool" where
  "status_exl s \<longleftrightarrow> CP0_Status s AND CP0_Status_EXL \<noteq> 0"

definition status_ie :: "machine \<Rightarrow> bool" where
  "status_ie s \<longleftrightarrow> CP0_Status s AND CP0_Status_IE \<noteq> 0"

text \<open>
  \<^verbatim>\<open>raise_exception\<close>, in the order of its assignments: the latch of the first fault, the
  exception PC (only while EXL is clear), the cause code, the EXL bit.
\<close>

definition latch_first_bad :: "mips_exc_code \<Rightarrow> machine \<Rightarrow> machine" where
  "latch_first_bad e s =
     (if first_bad_exception s = -1 \<and> e \<noteq> ExcCode_Int \<and> e \<noteq> ExcCode_Sys \<and> e \<noteq> ExcCode_Bp
      then s\<lparr>first_bad_exception := exc_val e\<rparr> else s)"

definition record_epc :: "machine \<Rightarrow> machine" where
  "record_epc s =
     (if running_in_delay_slot s
      then (if \<not> status_exl s
            then let s = set_cp0 CP0_EPC_Reg (ROUND_DOWN (PC s - BYTES_PER_WORD) BYTES_PER_WORD) s
                 in set_cp0 CP0_Cause_Reg (CP0_Cause s OR CP0_Cause_BD) s
            else s)
      else (if \<not> status_exl s
            then set_cp0 CP0_EPC_Reg (ROUND_DOWN (PC s) BYTES_PER_WORD) s
            else s))"

definition set_exc_code :: "mips_exc_code \<Rightarrow> 32 word \<Rightarrow> 32 word" where
  "set_exc_code e c = (c AND NOT CP0_Cause_ExcCode) OR push_bit 2 (word_of_int (exc_val e))"

definition raise_exception :: "mips_exc_code \<Rightarrow> machine \<Rightarrow> machine" where
  "raise_exception e s =
     (if e \<noteq> ExcCode_Int \<or> (status_ie s \<and> \<not> status_exl s)
      then let s = s\<lparr>exception_occurred := True\<rparr>;
               s = latch_first_bad e s;
               s = record_epc s;
               s = set_cp0 CP0_Cause_Reg (set_exc_code e (CP0_Cause s)) s
           in set_cp0 CP0_Status_Reg (CP0_Status s OR CP0_Status_EXL) s
      else s)"

text \<open>\<^verbatim>\<open>RAISE_EXCEPTION(code, CP0_BadVAddr = addr)\<close>.\<close>

definition raise_bad_vaddr :: "mips_exc_code \<Rightarrow> mem_addr \<Rightarrow> machine \<Rightarrow> machine" where
  "raise_bad_vaddr e addr s = set_cp0 CP0_BadVAddr_Reg addr (raise_exception e s)"

end
