(* ===== verification/Opcodes.thy ===== *)
theory Opcodes
  imports Machine
begin

text \<open>
  The instruction list of \<^verbatim>\<open>include/opcodes.h\<close> with the token numbers \<^verbatim>\<open>include/tokens.h\<close> gives
  its rows, the operand-shape tags of \<^verbatim>\<open>include/opcode-types.h\<close>, the three lookup tables
  \<^verbatim>\<open>instruction.c\<close> builds from it, and \<^verbatim>\<open>map_int_to_name_val_val\<close> (a C \<^verbatim>\<open>bsearch\<close> over the
  \<^verbatim>\<open>qsort\<close>ed table). The lemmas show that a lookup returns the row with its key whenever that
  key occurs once, which is all the C library promises.
\<close>

subsection \<open>Tokens\<close>

text \<open>The enumeration starts at \<^verbatim>\<open>TOK_EOF = 256\<close>; the rows of \<^verbatim>\<open>opcodes.h\<close> follow \<^verbatim>\<open>TOK_FP\<close>.\<close>

abbreviation TOK_EOF :: int where "TOK_EOF \<equiv> 256"
abbreviation TOK_NL :: int where "TOK_NL \<equiv> 257"
abbreviation TOK_INT :: int where "TOK_INT \<equiv> 258"
abbreviation TOK_ID :: int where "TOK_ID \<equiv> 259"
abbreviation TOK_REG :: int where "TOK_REG \<equiv> 260"
abbreviation TOK_FP_REG :: int where "TOK_FP_REG \<equiv> 261"
abbreviation TOK_STR :: int where "TOK_STR \<equiv> 262"
abbreviation TOK_FP :: int where "TOK_FP \<equiv> 263"
abbreviation TOK_ALIAS_DIRECTIVE :: int where "TOK_ALIAS_DIRECTIVE \<equiv> 264"
abbreviation TOK_ALIGN_DIRECTIVE :: int where "TOK_ALIGN_DIRECTIVE \<equiv> 265"
abbreviation TOK_ASCII_DIRECTIVE :: int where "TOK_ASCII_DIRECTIVE \<equiv> 266"
abbreviation TOK_ASCIIZ_DIRECTIVE :: int where "TOK_ASCIIZ_DIRECTIVE \<equiv> 267"
abbreviation TOK_ASM0_DIRECTIVE :: int where "TOK_ASM0_DIRECTIVE \<equiv> 268"
abbreviation TOK_BGNB_DIRECTIVE :: int where "TOK_BGNB_DIRECTIVE \<equiv> 269"
abbreviation TOK_BYTE_DIRECTIVE :: int where "TOK_BYTE_DIRECTIVE \<equiv> 270"
abbreviation TOK_COMM_DIRECTIVE :: int where "TOK_COMM_DIRECTIVE \<equiv> 271"
abbreviation TOK_DATA_DIRECTIVE :: int where "TOK_DATA_DIRECTIVE \<equiv> 272"
abbreviation TOK_DOUBLE_DIRECTIVE :: int where "TOK_DOUBLE_DIRECTIVE \<equiv> 273"
abbreviation TOK_END_DIRECTIVE :: int where "TOK_END_DIRECTIVE \<equiv> 274"
abbreviation TOK_ENDB_DIRECTIVE :: int where "TOK_ENDB_DIRECTIVE \<equiv> 275"
abbreviation TOK_ENDR_DIRECTIVE :: int where "TOK_ENDR_DIRECTIVE \<equiv> 276"
abbreviation TOK_ENT_DIRECTIVE :: int where "TOK_ENT_DIRECTIVE \<equiv> 277"
abbreviation TOK_ERR_DIRECTIVE :: int where "TOK_ERR_DIRECTIVE \<equiv> 278"
abbreviation TOK_EXTERN_DIRECTIVE :: int where "TOK_EXTERN_DIRECTIVE \<equiv> 279"
abbreviation TOK_FILE_DIRECTIVE :: int where "TOK_FILE_DIRECTIVE \<equiv> 280"
abbreviation TOK_FLOAT_DIRECTIVE :: int where "TOK_FLOAT_DIRECTIVE \<equiv> 281"
abbreviation TOK_FMASK_DIRECTIVE :: int where "TOK_FMASK_DIRECTIVE \<equiv> 282"
abbreviation TOK_FRAME_DIRECTIVE :: int where "TOK_FRAME_DIRECTIVE \<equiv> 283"
abbreviation TOK_GLOBAL_DIRECTIVE :: int where "TOK_GLOBAL_DIRECTIVE \<equiv> 284"
abbreviation TOK_HALF_DIRECTIVE :: int where "TOK_HALF_DIRECTIVE \<equiv> 285"
abbreviation TOK_K_DATA_DIRECTIVE :: int where "TOK_K_DATA_DIRECTIVE \<equiv> 286"
abbreviation TOK_K_TEXT_DIRECTIVE :: int where "TOK_K_TEXT_DIRECTIVE \<equiv> 287"
abbreviation TOK_LABEL_DIRECTIVE :: int where "TOK_LABEL_DIRECTIVE \<equiv> 288"
abbreviation TOK_LCOMM_DIRECTIVE :: int where "TOK_LCOMM_DIRECTIVE \<equiv> 289"
abbreviation TOK_LIVEREG_DIRECTIVE :: int where "TOK_LIVEREG_DIRECTIVE \<equiv> 290"
abbreviation TOK_LOC_DIRECTIVE :: int where "TOK_LOC_DIRECTIVE \<equiv> 291"
abbreviation TOK_MASK_DIRECTIVE :: int where "TOK_MASK_DIRECTIVE \<equiv> 292"
abbreviation TOK_NOALIAS_DIRECTIVE :: int where "TOK_NOALIAS_DIRECTIVE \<equiv> 293"
abbreviation TOK_OPTIONS_DIRECTIVE :: int where "TOK_OPTIONS_DIRECTIVE \<equiv> 294"
abbreviation TOK_RDATA_DIRECTIVE :: int where "TOK_RDATA_DIRECTIVE \<equiv> 295"
abbreviation TOK_REPEAT_DIRECTIVE :: int where "TOK_REPEAT_DIRECTIVE \<equiv> 296"
abbreviation TOK_SDATA_DIRECTIVE :: int where "TOK_SDATA_DIRECTIVE \<equiv> 297"
abbreviation TOK_SET_DIRECTIVE :: int where "TOK_SET_DIRECTIVE \<equiv> 298"
abbreviation TOK_SPACE_DIRECTIVE :: int where "TOK_SPACE_DIRECTIVE \<equiv> 299"
abbreviation TOK_STRUCT_DIRECTIVE :: int where "TOK_STRUCT_DIRECTIVE \<equiv> 300"
abbreviation TOK_TEXT_DIRECTIVE :: int where "TOK_TEXT_DIRECTIVE \<equiv> 301"
abbreviation TOK_VERSTAMP_DIRECTIVE :: int where "TOK_VERSTAMP_DIRECTIVE \<equiv> 302"
abbreviation TOK_VREG_DIRECTIVE :: int where "TOK_VREG_DIRECTIVE \<equiv> 303"
abbreviation TOK_WORD_DIRECTIVE :: int where "TOK_WORD_DIRECTIVE \<equiv> 304"
abbreviation TOK_ABS_PSEUDO_OP :: int where "TOK_ABS_PSEUDO_OP \<equiv> 305"
abbreviation TOK_ABS_D_OPCODE :: int where "TOK_ABS_D_OPCODE \<equiv> 306"
abbreviation TOK_ABS_PS_OPCODE :: int where "TOK_ABS_PS_OPCODE \<equiv> 307"
abbreviation TOK_ABS_S_OPCODE :: int where "TOK_ABS_S_OPCODE \<equiv> 308"
abbreviation TOK_ADD_OPCODE :: int where "TOK_ADD_OPCODE \<equiv> 309"
abbreviation TOK_ADD_D_OPCODE :: int where "TOK_ADD_D_OPCODE \<equiv> 310"
abbreviation TOK_ADD_PS_OPCODE :: int where "TOK_ADD_PS_OPCODE \<equiv> 311"
abbreviation TOK_ADD_S_OPCODE :: int where "TOK_ADD_S_OPCODE \<equiv> 312"
abbreviation TOK_ADDI_OPCODE :: int where "TOK_ADDI_OPCODE \<equiv> 313"
abbreviation TOK_ADDIU_OPCODE :: int where "TOK_ADDIU_OPCODE \<equiv> 314"
abbreviation TOK_ADDU_OPCODE :: int where "TOK_ADDU_OPCODE \<equiv> 315"
abbreviation TOK_ALNV_PS_OPCODE :: int where "TOK_ALNV_PS_OPCODE \<equiv> 316"
abbreviation TOK_AND_OPCODE :: int where "TOK_AND_OPCODE \<equiv> 317"
abbreviation TOK_ANDI_OPCODE :: int where "TOK_ANDI_OPCODE \<equiv> 318"
abbreviation TOK_B_PSEUDO_OP :: int where "TOK_B_PSEUDO_OP \<equiv> 319"
abbreviation TOK_BAL_PSEUDO_OP :: int where "TOK_BAL_PSEUDO_OP \<equiv> 320"
abbreviation TOK_BC1F_OPCODE :: int where "TOK_BC1F_OPCODE \<equiv> 321"
abbreviation TOK_BC1FL_OPCODE :: int where "TOK_BC1FL_OPCODE \<equiv> 322"
abbreviation TOK_BC1T_OPCODE :: int where "TOK_BC1T_OPCODE \<equiv> 323"
abbreviation TOK_BC1TL_OPCODE :: int where "TOK_BC1TL_OPCODE \<equiv> 324"
abbreviation TOK_BC2F_OPCODE :: int where "TOK_BC2F_OPCODE \<equiv> 325"
abbreviation TOK_BC2FL_OPCODE :: int where "TOK_BC2FL_OPCODE \<equiv> 326"
abbreviation TOK_BC2T_OPCODE :: int where "TOK_BC2T_OPCODE \<equiv> 327"
abbreviation TOK_BC2TL_OPCODE :: int where "TOK_BC2TL_OPCODE \<equiv> 328"
abbreviation TOK_BEQ_OPCODE :: int where "TOK_BEQ_OPCODE \<equiv> 329"
abbreviation TOK_BEQL_OPCODE :: int where "TOK_BEQL_OPCODE \<equiv> 330"
abbreviation TOK_BEQZ_PSEUDO_OP :: int where "TOK_BEQZ_PSEUDO_OP \<equiv> 331"
abbreviation TOK_BGE_PSEUDO_OP :: int where "TOK_BGE_PSEUDO_OP \<equiv> 332"
abbreviation TOK_BGEU_PSEUDO_OP :: int where "TOK_BGEU_PSEUDO_OP \<equiv> 333"
abbreviation TOK_BGEZ_OPCODE :: int where "TOK_BGEZ_OPCODE \<equiv> 334"
abbreviation TOK_BGEZAL_OPCODE :: int where "TOK_BGEZAL_OPCODE \<equiv> 335"
abbreviation TOK_BGEZALL_OPCODE :: int where "TOK_BGEZALL_OPCODE \<equiv> 336"
abbreviation TOK_BGEZL_OPCODE :: int where "TOK_BGEZL_OPCODE \<equiv> 337"
abbreviation TOK_BGT_PSEUDO_OP :: int where "TOK_BGT_PSEUDO_OP \<equiv> 338"
abbreviation TOK_BGTU_PSEUDO_OP :: int where "TOK_BGTU_PSEUDO_OP \<equiv> 339"
abbreviation TOK_BGTZ_OPCODE :: int where "TOK_BGTZ_OPCODE \<equiv> 340"
abbreviation TOK_BGTZL_OPCODE :: int where "TOK_BGTZL_OPCODE \<equiv> 341"
abbreviation TOK_BLE_PSEUDO_OP :: int where "TOK_BLE_PSEUDO_OP \<equiv> 342"
abbreviation TOK_BLEU_PSEUDO_OP :: int where "TOK_BLEU_PSEUDO_OP \<equiv> 343"
abbreviation TOK_BLEZ_OPCODE :: int where "TOK_BLEZ_OPCODE \<equiv> 344"
abbreviation TOK_BLEZL_OPCODE :: int where "TOK_BLEZL_OPCODE \<equiv> 345"
abbreviation TOK_BLT_PSEUDO_OP :: int where "TOK_BLT_PSEUDO_OP \<equiv> 346"
abbreviation TOK_BLTU_PSEUDO_OP :: int where "TOK_BLTU_PSEUDO_OP \<equiv> 347"
abbreviation TOK_BLTZ_OPCODE :: int where "TOK_BLTZ_OPCODE \<equiv> 348"
abbreviation TOK_BLTZAL_OPCODE :: int where "TOK_BLTZAL_OPCODE \<equiv> 349"
abbreviation TOK_BLTZALL_OPCODE :: int where "TOK_BLTZALL_OPCODE \<equiv> 350"
abbreviation TOK_BLTZL_OPCODE :: int where "TOK_BLTZL_OPCODE \<equiv> 351"
abbreviation TOK_BNE_OPCODE :: int where "TOK_BNE_OPCODE \<equiv> 352"
abbreviation TOK_BNEL_OPCODE :: int where "TOK_BNEL_OPCODE \<equiv> 353"
abbreviation TOK_BNEZ_PSEUDO_OP :: int where "TOK_BNEZ_PSEUDO_OP \<equiv> 354"
abbreviation TOK_BREAK_OPCODE :: int where "TOK_BREAK_OPCODE \<equiv> 355"
abbreviation TOK_C_EQ_D_OPCODE :: int where "TOK_C_EQ_D_OPCODE \<equiv> 356"
abbreviation TOK_C_EQ_PS_OPCODE :: int where "TOK_C_EQ_PS_OPCODE \<equiv> 357"
abbreviation TOK_C_EQ_S_OPCODE :: int where "TOK_C_EQ_S_OPCODE \<equiv> 358"
abbreviation TOK_C_F_D_OPCODE :: int where "TOK_C_F_D_OPCODE \<equiv> 359"
abbreviation TOK_C_F_PS_OPCODE :: int where "TOK_C_F_PS_OPCODE \<equiv> 360"
abbreviation TOK_C_F_S_OPCODE :: int where "TOK_C_F_S_OPCODE \<equiv> 361"
abbreviation TOK_C_LE_D_OPCODE :: int where "TOK_C_LE_D_OPCODE \<equiv> 362"
abbreviation TOK_C_LE_PS_OPCODE :: int where "TOK_C_LE_PS_OPCODE \<equiv> 363"
abbreviation TOK_C_LE_S_OPCODE :: int where "TOK_C_LE_S_OPCODE \<equiv> 364"
abbreviation TOK_C_LT_D_OPCODE :: int where "TOK_C_LT_D_OPCODE \<equiv> 365"
abbreviation TOK_C_LT_PS_OPCODE :: int where "TOK_C_LT_PS_OPCODE \<equiv> 366"
abbreviation TOK_C_LT_S_OPCODE :: int where "TOK_C_LT_S_OPCODE \<equiv> 367"
abbreviation TOK_C_NGE_D_OPCODE :: int where "TOK_C_NGE_D_OPCODE \<equiv> 368"
abbreviation TOK_C_NGE_PS_OPCODE :: int where "TOK_C_NGE_PS_OPCODE \<equiv> 369"
abbreviation TOK_C_NGE_S_OPCODE :: int where "TOK_C_NGE_S_OPCODE \<equiv> 370"
abbreviation TOK_C_NGL_D_OPCODE :: int where "TOK_C_NGL_D_OPCODE \<equiv> 371"
abbreviation TOK_C_NGL_PS_OPCODE :: int where "TOK_C_NGL_PS_OPCODE \<equiv> 372"
abbreviation TOK_C_NGL_S_OPCODE :: int where "TOK_C_NGL_S_OPCODE \<equiv> 373"
abbreviation TOK_C_NGLE_D_OPCODE :: int where "TOK_C_NGLE_D_OPCODE \<equiv> 374"
abbreviation TOK_C_NGLE_PS_OPCODE :: int where "TOK_C_NGLE_PS_OPCODE \<equiv> 375"
abbreviation TOK_C_NGLE_S_OPCODE :: int where "TOK_C_NGLE_S_OPCODE \<equiv> 376"
abbreviation TOK_C_NGT_D_OPCODE :: int where "TOK_C_NGT_D_OPCODE \<equiv> 377"
abbreviation TOK_C_NGT_PS_OPCODE :: int where "TOK_C_NGT_PS_OPCODE \<equiv> 378"
abbreviation TOK_C_NGT_S_OPCODE :: int where "TOK_C_NGT_S_OPCODE \<equiv> 379"
abbreviation TOK_C_OLE_D_OPCODE :: int where "TOK_C_OLE_D_OPCODE \<equiv> 380"
abbreviation TOK_C_OLE_PS_OPCODE :: int where "TOK_C_OLE_PS_OPCODE \<equiv> 381"
abbreviation TOK_C_OLE_S_OPCODE :: int where "TOK_C_OLE_S_OPCODE \<equiv> 382"
abbreviation TOK_C_OLT_D_OPCODE :: int where "TOK_C_OLT_D_OPCODE \<equiv> 383"
abbreviation TOK_C_OLT_PS_OPCODE :: int where "TOK_C_OLT_PS_OPCODE \<equiv> 384"
abbreviation TOK_C_OLT_S_OPCODE :: int where "TOK_C_OLT_S_OPCODE \<equiv> 385"
abbreviation TOK_C_SEQ_D_OPCODE :: int where "TOK_C_SEQ_D_OPCODE \<equiv> 386"
abbreviation TOK_C_SEQ_PS_OPCODE :: int where "TOK_C_SEQ_PS_OPCODE \<equiv> 387"
abbreviation TOK_C_SEQ_S_OPCODE :: int where "TOK_C_SEQ_S_OPCODE \<equiv> 388"
abbreviation TOK_C_SF_D_OPCODE :: int where "TOK_C_SF_D_OPCODE \<equiv> 389"
abbreviation TOK_C_SF_PS_OPCODE :: int where "TOK_C_SF_PS_OPCODE \<equiv> 390"
abbreviation TOK_C_SF_S_OPCODE :: int where "TOK_C_SF_S_OPCODE \<equiv> 391"
abbreviation TOK_C_UEQ_D_OPCODE :: int where "TOK_C_UEQ_D_OPCODE \<equiv> 392"
abbreviation TOK_C_UEQ_PS_OPCODE :: int where "TOK_C_UEQ_PS_OPCODE \<equiv> 393"
abbreviation TOK_C_UEQ_S_OPCODE :: int where "TOK_C_UEQ_S_OPCODE \<equiv> 394"
abbreviation TOK_C_ULE_D_OPCODE :: int where "TOK_C_ULE_D_OPCODE \<equiv> 395"
abbreviation TOK_C_ULE_PS_OPCODE :: int where "TOK_C_ULE_PS_OPCODE \<equiv> 396"
abbreviation TOK_C_ULE_S_OPCODE :: int where "TOK_C_ULE_S_OPCODE \<equiv> 397"
abbreviation TOK_C_ULT_D_OPCODE :: int where "TOK_C_ULT_D_OPCODE \<equiv> 398"
abbreviation TOK_C_ULT_PS_OPCODE :: int where "TOK_C_ULT_PS_OPCODE \<equiv> 399"
abbreviation TOK_C_ULT_S_OPCODE :: int where "TOK_C_ULT_S_OPCODE \<equiv> 400"
abbreviation TOK_C_UN_D_OPCODE :: int where "TOK_C_UN_D_OPCODE \<equiv> 401"
abbreviation TOK_C_UN_PS_OPCODE :: int where "TOK_C_UN_PS_OPCODE \<equiv> 402"
abbreviation TOK_C_UN_S_OPCODE :: int where "TOK_C_UN_S_OPCODE \<equiv> 403"
abbreviation TOK_CACHE_OPCODE :: int where "TOK_CACHE_OPCODE \<equiv> 404"
abbreviation TOK_CEIL_L_D_OPCODE :: int where "TOK_CEIL_L_D_OPCODE \<equiv> 405"
abbreviation TOK_CEIL_L_S_OPCODE :: int where "TOK_CEIL_L_S_OPCODE \<equiv> 406"
abbreviation TOK_CEIL_W_D_OPCODE :: int where "TOK_CEIL_W_D_OPCODE \<equiv> 407"
abbreviation TOK_CEIL_W_S_OPCODE :: int where "TOK_CEIL_W_S_OPCODE \<equiv> 408"
abbreviation TOK_CFC0_OPCODE :: int where "TOK_CFC0_OPCODE \<equiv> 409"
abbreviation TOK_CFC1_OPCODE :: int where "TOK_CFC1_OPCODE \<equiv> 410"
abbreviation TOK_CFC2_OPCODE :: int where "TOK_CFC2_OPCODE \<equiv> 411"
abbreviation TOK_CLO_OPCODE :: int where "TOK_CLO_OPCODE \<equiv> 412"
abbreviation TOK_CLZ_OPCODE :: int where "TOK_CLZ_OPCODE \<equiv> 413"
abbreviation TOK_COP2_OPCODE :: int where "TOK_COP2_OPCODE \<equiv> 414"
abbreviation TOK_CTC0_OPCODE :: int where "TOK_CTC0_OPCODE \<equiv> 415"
abbreviation TOK_CTC1_OPCODE :: int where "TOK_CTC1_OPCODE \<equiv> 416"
abbreviation TOK_CTC2_OPCODE :: int where "TOK_CTC2_OPCODE \<equiv> 417"
abbreviation TOK_CVT_D_L_OPCODE :: int where "TOK_CVT_D_L_OPCODE \<equiv> 418"
abbreviation TOK_CVT_D_S_OPCODE :: int where "TOK_CVT_D_S_OPCODE \<equiv> 419"
abbreviation TOK_CVT_D_W_OPCODE :: int where "TOK_CVT_D_W_OPCODE \<equiv> 420"
abbreviation TOK_CVT_L_D_OPCODE :: int where "TOK_CVT_L_D_OPCODE \<equiv> 421"
abbreviation TOK_CVT_L_S_OPCODE :: int where "TOK_CVT_L_S_OPCODE \<equiv> 422"
abbreviation TOK_CVT_PS_S_OPCODE :: int where "TOK_CVT_PS_S_OPCODE \<equiv> 423"
abbreviation TOK_CVT_S_D_OPCODE :: int where "TOK_CVT_S_D_OPCODE \<equiv> 424"
abbreviation TOK_CVT_S_L_OPCODE :: int where "TOK_CVT_S_L_OPCODE \<equiv> 425"
abbreviation TOK_CVT_S_PL_OPCODE :: int where "TOK_CVT_S_PL_OPCODE \<equiv> 426"
abbreviation TOK_CVT_S_PU_OPCODE :: int where "TOK_CVT_S_PU_OPCODE \<equiv> 427"
abbreviation TOK_CVT_S_W_OPCODE :: int where "TOK_CVT_S_W_OPCODE \<equiv> 428"
abbreviation TOK_CVT_W_D_OPCODE :: int where "TOK_CVT_W_D_OPCODE \<equiv> 429"
abbreviation TOK_CVT_W_S_OPCODE :: int where "TOK_CVT_W_S_OPCODE \<equiv> 430"
abbreviation TOK_DERET_OPCODE :: int where "TOK_DERET_OPCODE \<equiv> 431"
abbreviation TOK_DI_OPCODE :: int where "TOK_DI_OPCODE \<equiv> 432"
abbreviation TOK_DIV_OPCODE :: int where "TOK_DIV_OPCODE \<equiv> 433"
abbreviation TOK_DIV_D_OPCODE :: int where "TOK_DIV_D_OPCODE \<equiv> 434"
abbreviation TOK_DIV_S_OPCODE :: int where "TOK_DIV_S_OPCODE \<equiv> 435"
abbreviation TOK_DIVU_OPCODE :: int where "TOK_DIVU_OPCODE \<equiv> 436"
abbreviation TOK_EHB_OPCODE :: int where "TOK_EHB_OPCODE \<equiv> 437"
abbreviation TOK_EI_OPCODE :: int where "TOK_EI_OPCODE \<equiv> 438"
abbreviation TOK_ERET_OPCODE :: int where "TOK_ERET_OPCODE \<equiv> 439"
abbreviation TOK_EXT_OPCODE :: int where "TOK_EXT_OPCODE \<equiv> 440"
abbreviation TOK_FLOOR_L_D_OPCODE :: int where "TOK_FLOOR_L_D_OPCODE \<equiv> 441"
abbreviation TOK_FLOOR_L_S_OPCODE :: int where "TOK_FLOOR_L_S_OPCODE \<equiv> 442"
abbreviation TOK_FLOOR_W_D_OPCODE :: int where "TOK_FLOOR_W_D_OPCODE \<equiv> 443"
abbreviation TOK_FLOOR_W_S_OPCODE :: int where "TOK_FLOOR_W_S_OPCODE \<equiv> 444"
abbreviation TOK_INS_OPCODE :: int where "TOK_INS_OPCODE \<equiv> 445"
abbreviation TOK_J_OPCODE :: int where "TOK_J_OPCODE \<equiv> 446"
abbreviation TOK_JAL_OPCODE :: int where "TOK_JAL_OPCODE \<equiv> 447"
abbreviation TOK_JALR_OPCODE :: int where "TOK_JALR_OPCODE \<equiv> 448"
abbreviation TOK_JALR_HB_OPCODE :: int where "TOK_JALR_HB_OPCODE \<equiv> 449"
abbreviation TOK_JR_OPCODE :: int where "TOK_JR_OPCODE \<equiv> 450"
abbreviation TOK_JR_HB_OPCODE :: int where "TOK_JR_HB_OPCODE \<equiv> 451"
abbreviation TOK_L_D_PSEUDO_OP :: int where "TOK_L_D_PSEUDO_OP \<equiv> 452"
abbreviation TOK_L_S_PSEUDO_OP :: int where "TOK_L_S_PSEUDO_OP \<equiv> 453"
abbreviation TOK_LA_PSEUDO_OP :: int where "TOK_LA_PSEUDO_OP \<equiv> 454"
abbreviation TOK_LB_OPCODE :: int where "TOK_LB_OPCODE \<equiv> 455"
abbreviation TOK_LBU_OPCODE :: int where "TOK_LBU_OPCODE \<equiv> 456"
abbreviation TOK_LD_PSEUDO_OP :: int where "TOK_LD_PSEUDO_OP \<equiv> 457"
abbreviation TOK_LDC1_OPCODE :: int where "TOK_LDC1_OPCODE \<equiv> 458"
abbreviation TOK_LDC2_OPCODE :: int where "TOK_LDC2_OPCODE \<equiv> 459"
abbreviation TOK_LDXC1_OPCODE :: int where "TOK_LDXC1_OPCODE \<equiv> 460"
abbreviation TOK_LH_OPCODE :: int where "TOK_LH_OPCODE \<equiv> 461"
abbreviation TOK_LHU_OPCODE :: int where "TOK_LHU_OPCODE \<equiv> 462"
abbreviation TOK_LI_PSEUDO_OP :: int where "TOK_LI_PSEUDO_OP \<equiv> 463"
abbreviation TOK_LI_D_PSEUDO_OP :: int where "TOK_LI_D_PSEUDO_OP \<equiv> 464"
abbreviation TOK_LI_S_PSEUDO_OP :: int where "TOK_LI_S_PSEUDO_OP \<equiv> 465"
abbreviation TOK_LL_OPCODE :: int where "TOK_LL_OPCODE \<equiv> 466"
abbreviation TOK_LUI_OPCODE :: int where "TOK_LUI_OPCODE \<equiv> 467"
abbreviation TOK_LUXC1_OPCODE :: int where "TOK_LUXC1_OPCODE \<equiv> 468"
abbreviation TOK_LW_OPCODE :: int where "TOK_LW_OPCODE \<equiv> 469"
abbreviation TOK_LWC1_OPCODE :: int where "TOK_LWC1_OPCODE \<equiv> 470"
abbreviation TOK_LWC2_OPCODE :: int where "TOK_LWC2_OPCODE \<equiv> 471"
abbreviation TOK_LWL_OPCODE :: int where "TOK_LWL_OPCODE \<equiv> 472"
abbreviation TOK_LWR_OPCODE :: int where "TOK_LWR_OPCODE \<equiv> 473"
abbreviation TOK_LWXC1_OPCODE :: int where "TOK_LWXC1_OPCODE \<equiv> 474"
abbreviation TOK_MADD_OPCODE :: int where "TOK_MADD_OPCODE \<equiv> 475"
abbreviation TOK_MADD_D_OPCODE :: int where "TOK_MADD_D_OPCODE \<equiv> 476"
abbreviation TOK_MADD_PS_OPCODE :: int where "TOK_MADD_PS_OPCODE \<equiv> 477"
abbreviation TOK_MADD_S_OPCODE :: int where "TOK_MADD_S_OPCODE \<equiv> 478"
abbreviation TOK_MADDU_OPCODE :: int where "TOK_MADDU_OPCODE \<equiv> 479"
abbreviation TOK_MFC0_OPCODE :: int where "TOK_MFC0_OPCODE \<equiv> 480"
abbreviation TOK_MFC1_OPCODE :: int where "TOK_MFC1_OPCODE \<equiv> 481"
abbreviation TOK_MFC1_D_PSEUDO_OP :: int where "TOK_MFC1_D_PSEUDO_OP \<equiv> 482"
abbreviation TOK_MFC2_OPCODE :: int where "TOK_MFC2_OPCODE \<equiv> 483"
abbreviation TOK_MFHC1_OPCODE :: int where "TOK_MFHC1_OPCODE \<equiv> 484"
abbreviation TOK_MFHC2_OPCODE :: int where "TOK_MFHC2_OPCODE \<equiv> 485"
abbreviation TOK_MFHI_OPCODE :: int where "TOK_MFHI_OPCODE \<equiv> 486"
abbreviation TOK_MFLO_OPCODE :: int where "TOK_MFLO_OPCODE \<equiv> 487"
abbreviation TOK_MOV_D_OPCODE :: int where "TOK_MOV_D_OPCODE \<equiv> 488"
abbreviation TOK_MOV_PS_OPCODE :: int where "TOK_MOV_PS_OPCODE \<equiv> 489"
abbreviation TOK_MOV_S_OPCODE :: int where "TOK_MOV_S_OPCODE \<equiv> 490"
abbreviation TOK_MOVE_PSEUDO_OP :: int where "TOK_MOVE_PSEUDO_OP \<equiv> 491"
abbreviation TOK_MOVF_OPCODE :: int where "TOK_MOVF_OPCODE \<equiv> 492"
abbreviation TOK_MOVF_D_OPCODE :: int where "TOK_MOVF_D_OPCODE \<equiv> 493"
abbreviation TOK_MOVF_PS_OPCODE :: int where "TOK_MOVF_PS_OPCODE \<equiv> 494"
abbreviation TOK_MOVF_S_OPCODE :: int where "TOK_MOVF_S_OPCODE \<equiv> 495"
abbreviation TOK_MOVN_OPCODE :: int where "TOK_MOVN_OPCODE \<equiv> 496"
abbreviation TOK_MOVN_D_OPCODE :: int where "TOK_MOVN_D_OPCODE \<equiv> 497"
abbreviation TOK_MOVN_PS_OPCODE :: int where "TOK_MOVN_PS_OPCODE \<equiv> 498"
abbreviation TOK_MOVN_S_OPCODE :: int where "TOK_MOVN_S_OPCODE \<equiv> 499"
abbreviation TOK_MOVT_OPCODE :: int where "TOK_MOVT_OPCODE \<equiv> 500"
abbreviation TOK_MOVT_D_OPCODE :: int where "TOK_MOVT_D_OPCODE \<equiv> 501"
abbreviation TOK_MOVT_PS_OPCODE :: int where "TOK_MOVT_PS_OPCODE \<equiv> 502"
abbreviation TOK_MOVT_S_OPCODE :: int where "TOK_MOVT_S_OPCODE \<equiv> 503"
abbreviation TOK_MOVZ_OPCODE :: int where "TOK_MOVZ_OPCODE \<equiv> 504"
abbreviation TOK_MOVZ_D_OPCODE :: int where "TOK_MOVZ_D_OPCODE \<equiv> 505"
abbreviation TOK_MOVZ_PS_OPCODE :: int where "TOK_MOVZ_PS_OPCODE \<equiv> 506"
abbreviation TOK_MOVZ_S_OPCODE :: int where "TOK_MOVZ_S_OPCODE \<equiv> 507"
abbreviation TOK_MSUB_OPCODE :: int where "TOK_MSUB_OPCODE \<equiv> 508"
abbreviation TOK_MSUB_D_OPCODE :: int where "TOK_MSUB_D_OPCODE \<equiv> 509"
abbreviation TOK_MSUB_PS_OPCODE :: int where "TOK_MSUB_PS_OPCODE \<equiv> 510"
abbreviation TOK_MSUB_S_OPCODE :: int where "TOK_MSUB_S_OPCODE \<equiv> 511"
abbreviation TOK_MSUBU_OPCODE :: int where "TOK_MSUBU_OPCODE \<equiv> 512"
abbreviation TOK_MTC0_OPCODE :: int where "TOK_MTC0_OPCODE \<equiv> 513"
abbreviation TOK_MTC1_OPCODE :: int where "TOK_MTC1_OPCODE \<equiv> 514"
abbreviation TOK_MTC1_D_PSEUDO_OP :: int where "TOK_MTC1_D_PSEUDO_OP \<equiv> 515"
abbreviation TOK_MTC2_OPCODE :: int where "TOK_MTC2_OPCODE \<equiv> 516"
abbreviation TOK_MTHC1_OPCODE :: int where "TOK_MTHC1_OPCODE \<equiv> 517"
abbreviation TOK_MTHC2_OPCODE :: int where "TOK_MTHC2_OPCODE \<equiv> 518"
abbreviation TOK_MTHI_OPCODE :: int where "TOK_MTHI_OPCODE \<equiv> 519"
abbreviation TOK_MTLO_OPCODE :: int where "TOK_MTLO_OPCODE \<equiv> 520"
abbreviation TOK_MUL_OPCODE :: int where "TOK_MUL_OPCODE \<equiv> 521"
abbreviation TOK_MUL_D_OPCODE :: int where "TOK_MUL_D_OPCODE \<equiv> 522"
abbreviation TOK_MUL_PS_OPCODE :: int where "TOK_MUL_PS_OPCODE \<equiv> 523"
abbreviation TOK_MUL_S_OPCODE :: int where "TOK_MUL_S_OPCODE \<equiv> 524"
abbreviation TOK_MULO_PSEUDO_OP :: int where "TOK_MULO_PSEUDO_OP \<equiv> 525"
abbreviation TOK_MULOU_PSEUDO_OP :: int where "TOK_MULOU_PSEUDO_OP \<equiv> 526"
abbreviation TOK_MULT_OPCODE :: int where "TOK_MULT_OPCODE \<equiv> 527"
abbreviation TOK_MULTU_OPCODE :: int where "TOK_MULTU_OPCODE \<equiv> 528"
abbreviation TOK_NEG_PSEUDO_OP :: int where "TOK_NEG_PSEUDO_OP \<equiv> 529"
abbreviation TOK_NEG_D_OPCODE :: int where "TOK_NEG_D_OPCODE \<equiv> 530"
abbreviation TOK_NEG_PS_OPCODE :: int where "TOK_NEG_PS_OPCODE \<equiv> 531"
abbreviation TOK_NEG_S_OPCODE :: int where "TOK_NEG_S_OPCODE \<equiv> 532"
abbreviation TOK_NEGU_PSEUDO_OP :: int where "TOK_NEGU_PSEUDO_OP \<equiv> 533"
abbreviation TOK_NMADD_D_OPCODE :: int where "TOK_NMADD_D_OPCODE \<equiv> 534"
abbreviation TOK_NMADD_PS_OPCODE :: int where "TOK_NMADD_PS_OPCODE \<equiv> 535"
abbreviation TOK_NMADD_S_OPCODE :: int where "TOK_NMADD_S_OPCODE \<equiv> 536"
abbreviation TOK_NMSUB_D_OPCODE :: int where "TOK_NMSUB_D_OPCODE \<equiv> 537"
abbreviation TOK_NMSUB_PS_OPCODE :: int where "TOK_NMSUB_PS_OPCODE \<equiv> 538"
abbreviation TOK_NMSUB_S_OPCODE :: int where "TOK_NMSUB_S_OPCODE \<equiv> 539"
abbreviation TOK_NOP_PSEUDO_OP :: int where "TOK_NOP_PSEUDO_OP \<equiv> 540"
abbreviation TOK_NOR_OPCODE :: int where "TOK_NOR_OPCODE \<equiv> 541"
abbreviation TOK_NOT_PSEUDO_OP :: int where "TOK_NOT_PSEUDO_OP \<equiv> 542"
abbreviation TOK_OR_OPCODE :: int where "TOK_OR_OPCODE \<equiv> 543"
abbreviation TOK_ORI_OPCODE :: int where "TOK_ORI_OPCODE \<equiv> 544"
abbreviation TOK_PLL_PS_OPCODE :: int where "TOK_PLL_PS_OPCODE \<equiv> 545"
abbreviation TOK_PLU_PS_OPCODE :: int where "TOK_PLU_PS_OPCODE \<equiv> 546"
abbreviation TOK_PREF_OPCODE :: int where "TOK_PREF_OPCODE \<equiv> 547"
abbreviation TOK_PREFX_OPCODE :: int where "TOK_PREFX_OPCODE \<equiv> 548"
abbreviation TOK_PUL_PS_OPCODE :: int where "TOK_PUL_PS_OPCODE \<equiv> 549"
abbreviation TOK_PUU_PS_OPCODE :: int where "TOK_PUU_PS_OPCODE \<equiv> 550"
abbreviation TOK_RDHWR_OPCODE :: int where "TOK_RDHWR_OPCODE \<equiv> 551"
abbreviation TOK_RDPGPR_OPCODE :: int where "TOK_RDPGPR_OPCODE \<equiv> 552"
abbreviation TOK_RECIP_D_OPCODE :: int where "TOK_RECIP_D_OPCODE \<equiv> 553"
abbreviation TOK_RECIP_S_OPCODE :: int where "TOK_RECIP_S_OPCODE \<equiv> 554"
abbreviation TOK_REM_PSEUDO_OP :: int where "TOK_REM_PSEUDO_OP \<equiv> 555"
abbreviation TOK_REMU_PSEUDO_OP :: int where "TOK_REMU_PSEUDO_OP \<equiv> 556"
abbreviation TOK_RFE_OPCODE :: int where "TOK_RFE_OPCODE \<equiv> 557"
abbreviation TOK_ROL_PSEUDO_OP :: int where "TOK_ROL_PSEUDO_OP \<equiv> 558"
abbreviation TOK_ROR_PSEUDO_OP :: int where "TOK_ROR_PSEUDO_OP \<equiv> 559"
abbreviation TOK_ROTR_OPCODE :: int where "TOK_ROTR_OPCODE \<equiv> 560"
abbreviation TOK_ROTRV_OPCODE :: int where "TOK_ROTRV_OPCODE \<equiv> 561"
abbreviation TOK_ROUND_L_D_OPCODE :: int where "TOK_ROUND_L_D_OPCODE \<equiv> 562"
abbreviation TOK_ROUND_L_S_OPCODE :: int where "TOK_ROUND_L_S_OPCODE \<equiv> 563"
abbreviation TOK_ROUND_W_D_OPCODE :: int where "TOK_ROUND_W_D_OPCODE \<equiv> 564"
abbreviation TOK_ROUND_W_S_OPCODE :: int where "TOK_ROUND_W_S_OPCODE \<equiv> 565"
abbreviation TOK_RSQRT_D_OPCODE :: int where "TOK_RSQRT_D_OPCODE \<equiv> 566"
abbreviation TOK_RSQRT_S_OPCODE :: int where "TOK_RSQRT_S_OPCODE \<equiv> 567"
abbreviation TOK_S_D_PSEUDO_OP :: int where "TOK_S_D_PSEUDO_OP \<equiv> 568"
abbreviation TOK_S_S_PSEUDO_OP :: int where "TOK_S_S_PSEUDO_OP \<equiv> 569"
abbreviation TOK_SB_OPCODE :: int where "TOK_SB_OPCODE \<equiv> 570"
abbreviation TOK_SC_OPCODE :: int where "TOK_SC_OPCODE \<equiv> 571"
abbreviation TOK_SD_PSEUDO_OP :: int where "TOK_SD_PSEUDO_OP \<equiv> 572"
abbreviation TOK_SDBBP_OPCODE :: int where "TOK_SDBBP_OPCODE \<equiv> 573"
abbreviation TOK_SDC1_OPCODE :: int where "TOK_SDC1_OPCODE \<equiv> 574"
abbreviation TOK_SDC2_OPCODE :: int where "TOK_SDC2_OPCODE \<equiv> 575"
abbreviation TOK_SDXC1_OPCODE :: int where "TOK_SDXC1_OPCODE \<equiv> 576"
abbreviation TOK_SEB_OPCODE :: int where "TOK_SEB_OPCODE \<equiv> 577"
abbreviation TOK_SEH_OPCODE :: int where "TOK_SEH_OPCODE \<equiv> 578"
abbreviation TOK_SEQ_PSEUDO_OP :: int where "TOK_SEQ_PSEUDO_OP \<equiv> 579"
abbreviation TOK_SGE_PSEUDO_OP :: int where "TOK_SGE_PSEUDO_OP \<equiv> 580"
abbreviation TOK_SGEU_PSEUDO_OP :: int where "TOK_SGEU_PSEUDO_OP \<equiv> 581"
abbreviation TOK_SGT_PSEUDO_OP :: int where "TOK_SGT_PSEUDO_OP \<equiv> 582"
abbreviation TOK_SGTU_PSEUDO_OP :: int where "TOK_SGTU_PSEUDO_OP \<equiv> 583"
abbreviation TOK_SH_OPCODE :: int where "TOK_SH_OPCODE \<equiv> 584"
abbreviation TOK_SLE_PSEUDO_OP :: int where "TOK_SLE_PSEUDO_OP \<equiv> 585"
abbreviation TOK_SLEU_PSEUDO_OP :: int where "TOK_SLEU_PSEUDO_OP \<equiv> 586"
abbreviation TOK_SLL_OPCODE :: int where "TOK_SLL_OPCODE \<equiv> 587"
abbreviation TOK_SLLV_OPCODE :: int where "TOK_SLLV_OPCODE \<equiv> 588"
abbreviation TOK_SLT_OPCODE :: int where "TOK_SLT_OPCODE \<equiv> 589"
abbreviation TOK_SLTI_OPCODE :: int where "TOK_SLTI_OPCODE \<equiv> 590"
abbreviation TOK_SLTIU_OPCODE :: int where "TOK_SLTIU_OPCODE \<equiv> 591"
abbreviation TOK_SLTU_OPCODE :: int where "TOK_SLTU_OPCODE \<equiv> 592"
abbreviation TOK_SNE_PSEUDO_OP :: int where "TOK_SNE_PSEUDO_OP \<equiv> 593"
abbreviation TOK_SQRT_D_OPCODE :: int where "TOK_SQRT_D_OPCODE \<equiv> 594"
abbreviation TOK_SQRT_S_OPCODE :: int where "TOK_SQRT_S_OPCODE \<equiv> 595"
abbreviation TOK_SRA_OPCODE :: int where "TOK_SRA_OPCODE \<equiv> 596"
abbreviation TOK_SRAV_OPCODE :: int where "TOK_SRAV_OPCODE \<equiv> 597"
abbreviation TOK_SRL_OPCODE :: int where "TOK_SRL_OPCODE \<equiv> 598"
abbreviation TOK_SRLV_OPCODE :: int where "TOK_SRLV_OPCODE \<equiv> 599"
abbreviation TOK_SSNOP_OPCODE :: int where "TOK_SSNOP_OPCODE \<equiv> 600"
abbreviation TOK_SUB_OPCODE :: int where "TOK_SUB_OPCODE \<equiv> 601"
abbreviation TOK_SUB_D_OPCODE :: int where "TOK_SUB_D_OPCODE \<equiv> 602"
abbreviation TOK_SUB_PS_OPCODE :: int where "TOK_SUB_PS_OPCODE \<equiv> 603"
abbreviation TOK_SUB_S_OPCODE :: int where "TOK_SUB_S_OPCODE \<equiv> 604"
abbreviation TOK_SUBU_OPCODE :: int where "TOK_SUBU_OPCODE \<equiv> 605"
abbreviation TOK_SUXC1_OPCODE :: int where "TOK_SUXC1_OPCODE \<equiv> 606"
abbreviation TOK_SW_OPCODE :: int where "TOK_SW_OPCODE \<equiv> 607"
abbreviation TOK_SWC1_OPCODE :: int where "TOK_SWC1_OPCODE \<equiv> 608"
abbreviation TOK_SWC2_OPCODE :: int where "TOK_SWC2_OPCODE \<equiv> 609"
abbreviation TOK_SWL_OPCODE :: int where "TOK_SWL_OPCODE \<equiv> 610"
abbreviation TOK_SWR_OPCODE :: int where "TOK_SWR_OPCODE \<equiv> 611"
abbreviation TOK_SWXC1_OPCODE :: int where "TOK_SWXC1_OPCODE \<equiv> 612"
abbreviation TOK_SYNC_OPCODE :: int where "TOK_SYNC_OPCODE \<equiv> 613"
abbreviation TOK_SYNCI_OPCODE :: int where "TOK_SYNCI_OPCODE \<equiv> 614"
abbreviation TOK_SYSCALL_OPCODE :: int where "TOK_SYSCALL_OPCODE \<equiv> 615"
abbreviation TOK_TEQ_OPCODE :: int where "TOK_TEQ_OPCODE \<equiv> 616"
abbreviation TOK_TEQI_OPCODE :: int where "TOK_TEQI_OPCODE \<equiv> 617"
abbreviation TOK_TGE_OPCODE :: int where "TOK_TGE_OPCODE \<equiv> 618"
abbreviation TOK_TGEI_OPCODE :: int where "TOK_TGEI_OPCODE \<equiv> 619"
abbreviation TOK_TGEIU_OPCODE :: int where "TOK_TGEIU_OPCODE \<equiv> 620"
abbreviation TOK_TGEU_OPCODE :: int where "TOK_TGEU_OPCODE \<equiv> 621"
abbreviation TOK_TLBP_OPCODE :: int where "TOK_TLBP_OPCODE \<equiv> 622"
abbreviation TOK_TLBR_OPCODE :: int where "TOK_TLBR_OPCODE \<equiv> 623"
abbreviation TOK_TLBWI_OPCODE :: int where "TOK_TLBWI_OPCODE \<equiv> 624"
abbreviation TOK_TLBWR_OPCODE :: int where "TOK_TLBWR_OPCODE \<equiv> 625"
abbreviation TOK_TLT_OPCODE :: int where "TOK_TLT_OPCODE \<equiv> 626"
abbreviation TOK_TLTI_OPCODE :: int where "TOK_TLTI_OPCODE \<equiv> 627"
abbreviation TOK_TLTIU_OPCODE :: int where "TOK_TLTIU_OPCODE \<equiv> 628"
abbreviation TOK_TLTU_OPCODE :: int where "TOK_TLTU_OPCODE \<equiv> 629"
abbreviation TOK_TNE_OPCODE :: int where "TOK_TNE_OPCODE \<equiv> 630"
abbreviation TOK_TNEI_OPCODE :: int where "TOK_TNEI_OPCODE \<equiv> 631"
abbreviation TOK_TRUNC_L_D_OPCODE :: int where "TOK_TRUNC_L_D_OPCODE \<equiv> 632"
abbreviation TOK_TRUNC_L_S_OPCODE :: int where "TOK_TRUNC_L_S_OPCODE \<equiv> 633"
abbreviation TOK_TRUNC_W_D_OPCODE :: int where "TOK_TRUNC_W_D_OPCODE \<equiv> 634"
abbreviation TOK_TRUNC_W_S_OPCODE :: int where "TOK_TRUNC_W_S_OPCODE \<equiv> 635"
abbreviation TOK_ULH_PSEUDO_OP :: int where "TOK_ULH_PSEUDO_OP \<equiv> 636"
abbreviation TOK_ULHU_PSEUDO_OP :: int where "TOK_ULHU_PSEUDO_OP \<equiv> 637"
abbreviation TOK_ULW_PSEUDO_OP :: int where "TOK_ULW_PSEUDO_OP \<equiv> 638"
abbreviation TOK_USH_PSEUDO_OP :: int where "TOK_USH_PSEUDO_OP \<equiv> 639"
abbreviation TOK_USW_PSEUDO_OP :: int where "TOK_USW_PSEUDO_OP \<equiv> 640"
abbreviation TOK_WRPGPR_OPCODE :: int where "TOK_WRPGPR_OPCODE \<equiv> 641"
abbreviation TOK_WSBH_OPCODE :: int where "TOK_WSBH_OPCODE \<equiv> 642"
abbreviation TOK_XOR_OPCODE :: int where "TOK_XOR_OPCODE \<equiv> 643"
abbreviation TOK_XORI_OPCODE :: int where "TOK_XORI_OPCODE \<equiv> 644"

subsection \<open>Operand shapes\<close>

datatype op_type =
    ASM_DIR | PSEUDO_OP | BRANCH_COPROC_COND_INST | BRANCH_RS_LABEL_INST | RS_IMM_INST
  | RT_IMM_INST | RT_RS_IMM_INST | BRANCH_RS_RT_LABEL_INST | RT_ADDR_INST | RS_INST | RD_INST
  | RS_RT_INST | RD_RS_INST | RT_COPREG_INST | RD_RT_SHAMT_INST | RD_RS_RT_INST
  | RD_RT_RS_INST | FP_FT_ADDR_INST | FP_FD_FS_INST | FP_RT_COPREG_INST | FP_CMP_FS_FT_INST
  | FP_FD_FS_FT_INST | FP_FD_FR_FS_FT_INST | FP_MOVC_TYPE_INST | MOVC_TYPE_INST
  | J_TYPE_INST | NOARG_TYPE_INST

record op_row =
  op_name :: string
  op_tok :: int
  op_kind :: op_type
  op_enc :: "32 word"

abbreviation OP :: "string \<Rightarrow> int \<Rightarrow> op_type \<Rightarrow> 32 word \<Rightarrow> op_row" where
  "OP n t k e \<equiv> \<lparr>op_name = n, op_tok = t, op_kind = k, op_enc = e\<rparr>"

subsection \<open>The instruction list\<close>

definition opcode_rows_1 :: "op_row list" where
  "opcode_rows_1 = [
    OP ''.alias'' TOK_ALIAS_DIRECTIVE ASM_DIR 0xffffffff,
    OP ''.align'' TOK_ALIGN_DIRECTIVE ASM_DIR 0xffffffff,
    OP ''.ascii'' TOK_ASCII_DIRECTIVE ASM_DIR 0xffffffff,
    OP ''.asciiz'' TOK_ASCIIZ_DIRECTIVE ASM_DIR 0xffffffff,
    OP ''.asm0'' TOK_ASM0_DIRECTIVE ASM_DIR 0xffffffff,
    OP ''.bgnb'' TOK_BGNB_DIRECTIVE ASM_DIR 0xffffffff,
    OP ''.byte'' TOK_BYTE_DIRECTIVE ASM_DIR 0xffffffff,
    OP ''.comm'' TOK_COMM_DIRECTIVE ASM_DIR 0xffffffff,
    OP ''.data'' TOK_DATA_DIRECTIVE ASM_DIR 0xffffffff,
    OP ''.double'' TOK_DOUBLE_DIRECTIVE ASM_DIR 0xffffffff,
    OP ''.end'' TOK_END_DIRECTIVE ASM_DIR 0xffffffff,
    OP ''.endb'' TOK_ENDB_DIRECTIVE ASM_DIR 0xffffffff,
    OP ''.endr'' TOK_ENDR_DIRECTIVE ASM_DIR 0xffffffff,
    OP ''.ent'' TOK_ENT_DIRECTIVE ASM_DIR 0xffffffff,
    OP ''.err'' TOK_ERR_DIRECTIVE ASM_DIR 0xffffffff,
    OP ''.extern'' TOK_EXTERN_DIRECTIVE ASM_DIR 0xffffffff]"

definition opcode_rows_2 :: "op_row list" where
  "opcode_rows_2 = [
    OP ''.file'' TOK_FILE_DIRECTIVE ASM_DIR 0xffffffff,
    OP ''.float'' TOK_FLOAT_DIRECTIVE ASM_DIR 0xffffffff,
    OP ''.fmask'' TOK_FMASK_DIRECTIVE ASM_DIR 0xffffffff,
    OP ''.frame'' TOK_FRAME_DIRECTIVE ASM_DIR 0xffffffff,
    OP ''.globl'' TOK_GLOBAL_DIRECTIVE ASM_DIR 0xffffffff,
    OP ''.half'' TOK_HALF_DIRECTIVE ASM_DIR 0xffffffff,
    OP ''.kdata'' TOK_K_DATA_DIRECTIVE ASM_DIR 0xffffffff,
    OP ''.ktext'' TOK_K_TEXT_DIRECTIVE ASM_DIR 0xffffffff,
    OP ''.lab'' TOK_LABEL_DIRECTIVE ASM_DIR 0xffffffff,
    OP ''.lcomm'' TOK_LCOMM_DIRECTIVE ASM_DIR 0xffffffff,
    OP ''.livereg'' TOK_LIVEREG_DIRECTIVE ASM_DIR 0xffffffff,
    OP ''.loc'' TOK_LOC_DIRECTIVE ASM_DIR 0xffffffff,
    OP ''.mask'' TOK_MASK_DIRECTIVE ASM_DIR 0xffffffff,
    OP ''.noalias'' TOK_NOALIAS_DIRECTIVE ASM_DIR 0xffffffff,
    OP ''.option'' TOK_OPTIONS_DIRECTIVE ASM_DIR 0xffffffff,
    OP ''.rdata'' TOK_RDATA_DIRECTIVE ASM_DIR 0xffffffff]"

definition opcode_rows_3 :: "op_row list" where
  "opcode_rows_3 = [
    OP ''.repeat'' TOK_REPEAT_DIRECTIVE ASM_DIR 0xffffffff,
    OP ''.sdata'' TOK_SDATA_DIRECTIVE ASM_DIR 0xffffffff,
    OP ''.set'' TOK_SET_DIRECTIVE ASM_DIR 0xffffffff,
    OP ''.space'' TOK_SPACE_DIRECTIVE ASM_DIR 0xffffffff,
    OP ''.struct'' TOK_STRUCT_DIRECTIVE ASM_DIR 0xffffffff,
    OP ''.text'' TOK_TEXT_DIRECTIVE ASM_DIR 0xffffffff,
    OP ''.verstamp'' TOK_VERSTAMP_DIRECTIVE ASM_DIR 0xffffffff,
    OP ''.vreg'' TOK_VREG_DIRECTIVE ASM_DIR 0xffffffff,
    OP ''.word'' TOK_WORD_DIRECTIVE ASM_DIR 0xffffffff,
    OP ''abs'' TOK_ABS_PSEUDO_OP PSEUDO_OP 0xffffffff,
    OP ''abs.d'' TOK_ABS_D_OPCODE FP_FD_FS_INST 0x46200005,
    OP ''abs.ps'' TOK_ABS_PS_OPCODE FP_FD_FS_INST 0x46600005,
    OP ''abs.s'' TOK_ABS_S_OPCODE FP_FD_FS_INST 0x46000005,
    OP ''add'' TOK_ADD_OPCODE RD_RS_RT_INST 0x00000020,
    OP ''add.d'' TOK_ADD_D_OPCODE FP_FD_FS_FT_INST 0x46200000,
    OP ''add.ps'' TOK_ADD_PS_OPCODE FP_FD_FS_FT_INST 0x46600000]"

definition opcode_rows_4 :: "op_row list" where
  "opcode_rows_4 = [
    OP ''add.s'' TOK_ADD_S_OPCODE FP_FD_FS_FT_INST 0x46000000,
    OP ''addi'' TOK_ADDI_OPCODE RT_RS_IMM_INST 0x20000000,
    OP ''addiu'' TOK_ADDIU_OPCODE RT_RS_IMM_INST 0x24000000,
    OP ''addu'' TOK_ADDU_OPCODE RD_RS_RT_INST 0x00000021,
    OP ''alnv.ps'' TOK_ALNV_PS_OPCODE FP_FD_FR_FS_FT_INST 0x4c00001e,
    OP ''and'' TOK_AND_OPCODE RD_RS_RT_INST 0x00000024,
    OP ''andi'' TOK_ANDI_OPCODE RT_RS_IMM_INST 0x30000000,
    OP ''b'' TOK_B_PSEUDO_OP PSEUDO_OP 0xffffffff,
    OP ''bal'' TOK_BAL_PSEUDO_OP PSEUDO_OP 0xffffffff,
    OP ''bc1f'' TOK_BC1F_OPCODE BRANCH_COPROC_COND_INST 0x45000000,
    OP ''bc1fl'' TOK_BC1FL_OPCODE BRANCH_COPROC_COND_INST 0x45020000,
    OP ''bc1t'' TOK_BC1T_OPCODE BRANCH_COPROC_COND_INST 0x45010000,
    OP ''bc1tl'' TOK_BC1TL_OPCODE BRANCH_COPROC_COND_INST 0x45030000,
    OP ''bc2f'' TOK_BC2F_OPCODE BRANCH_COPROC_COND_INST 0x49000000,
    OP ''bc2fl'' TOK_BC2FL_OPCODE BRANCH_COPROC_COND_INST 0x49020000,
    OP ''bc2t'' TOK_BC2T_OPCODE BRANCH_COPROC_COND_INST 0x49010000]"

definition opcode_rows_5 :: "op_row list" where
  "opcode_rows_5 = [
    OP ''bc2tl'' TOK_BC2TL_OPCODE BRANCH_COPROC_COND_INST 0x49030000,
    OP ''beq'' TOK_BEQ_OPCODE BRANCH_RS_RT_LABEL_INST 0x10000000,
    OP ''beql'' TOK_BEQL_OPCODE BRANCH_RS_RT_LABEL_INST 0x50000000,
    OP ''beqz'' TOK_BEQZ_PSEUDO_OP PSEUDO_OP 0xffffffff,
    OP ''bge'' TOK_BGE_PSEUDO_OP PSEUDO_OP 0xffffffff,
    OP ''bgeu'' TOK_BGEU_PSEUDO_OP PSEUDO_OP 0xffffffff,
    OP ''bgez'' TOK_BGEZ_OPCODE BRANCH_RS_LABEL_INST 0x04010000,
    OP ''bgezal'' TOK_BGEZAL_OPCODE BRANCH_RS_LABEL_INST 0x04110000,
    OP ''bgezall'' TOK_BGEZALL_OPCODE BRANCH_RS_LABEL_INST 0x04130000,
    OP ''bgezl'' TOK_BGEZL_OPCODE BRANCH_RS_LABEL_INST 0x04030000,
    OP ''bgt'' TOK_BGT_PSEUDO_OP PSEUDO_OP 0xffffffff,
    OP ''bgtu'' TOK_BGTU_PSEUDO_OP PSEUDO_OP 0xffffffff,
    OP ''bgtz'' TOK_BGTZ_OPCODE BRANCH_RS_LABEL_INST 0x1c000000,
    OP ''bgtzl'' TOK_BGTZL_OPCODE BRANCH_RS_LABEL_INST 0x5c000000,
    OP ''ble'' TOK_BLE_PSEUDO_OP PSEUDO_OP 0xffffffff,
    OP ''bleu'' TOK_BLEU_PSEUDO_OP PSEUDO_OP 0xffffffff]"

definition opcode_rows_6 :: "op_row list" where
  "opcode_rows_6 = [
    OP ''blez'' TOK_BLEZ_OPCODE BRANCH_RS_LABEL_INST 0x18000000,
    OP ''blezl'' TOK_BLEZL_OPCODE BRANCH_RS_LABEL_INST 0x58000000,
    OP ''blt'' TOK_BLT_PSEUDO_OP PSEUDO_OP 0xffffffff,
    OP ''bltu'' TOK_BLTU_PSEUDO_OP PSEUDO_OP 0xffffffff,
    OP ''bltz'' TOK_BLTZ_OPCODE BRANCH_RS_LABEL_INST 0x04000000,
    OP ''bltzal'' TOK_BLTZAL_OPCODE BRANCH_RS_LABEL_INST 0x04100000,
    OP ''bltzall'' TOK_BLTZALL_OPCODE BRANCH_RS_LABEL_INST 0x04120000,
    OP ''bltzl'' TOK_BLTZL_OPCODE BRANCH_RS_LABEL_INST 0x04020000,
    OP ''bne'' TOK_BNE_OPCODE BRANCH_RS_RT_LABEL_INST 0x14000000,
    OP ''bnel'' TOK_BNEL_OPCODE BRANCH_RS_RT_LABEL_INST 0x54000000,
    OP ''bnez'' TOK_BNEZ_PSEUDO_OP PSEUDO_OP 0xffffffff,
    OP ''break'' TOK_BREAK_OPCODE NOARG_TYPE_INST 0x0000000d,
    OP ''c.eq.d'' TOK_C_EQ_D_OPCODE FP_CMP_FS_FT_INST 0x46200032,
    OP ''c.eq.ps'' TOK_C_EQ_PS_OPCODE FP_CMP_FS_FT_INST 0x46600032,
    OP ''c.eq.s'' TOK_C_EQ_S_OPCODE FP_CMP_FS_FT_INST 0x46000032,
    OP ''c.f.d'' TOK_C_F_D_OPCODE FP_CMP_FS_FT_INST 0x46200030]"

definition opcode_rows_7 :: "op_row list" where
  "opcode_rows_7 = [
    OP ''c.f.ps'' TOK_C_F_PS_OPCODE FP_CMP_FS_FT_INST 0x46600030,
    OP ''c.f.s'' TOK_C_F_S_OPCODE FP_CMP_FS_FT_INST 0x46000030,
    OP ''c.le.d'' TOK_C_LE_D_OPCODE FP_CMP_FS_FT_INST 0x4620003e,
    OP ''c.le.ps'' TOK_C_LE_PS_OPCODE FP_CMP_FS_FT_INST 0x4660003e,
    OP ''c.le.s'' TOK_C_LE_S_OPCODE FP_CMP_FS_FT_INST 0x4600003e,
    OP ''c.lt.d'' TOK_C_LT_D_OPCODE FP_CMP_FS_FT_INST 0x4620003c,
    OP ''c.lt.ps'' TOK_C_LT_PS_OPCODE FP_CMP_FS_FT_INST 0x4660003c,
    OP ''c.lt.s'' TOK_C_LT_S_OPCODE FP_CMP_FS_FT_INST 0x4600003c,
    OP ''c.nge.d'' TOK_C_NGE_D_OPCODE FP_CMP_FS_FT_INST 0x4620003d,
    OP ''c.nge.ps'' TOK_C_NGE_PS_OPCODE FP_CMP_FS_FT_INST 0x4660003d,
    OP ''c.nge.s'' TOK_C_NGE_S_OPCODE FP_CMP_FS_FT_INST 0x4600003d,
    OP ''c.ngl.d'' TOK_C_NGL_D_OPCODE FP_CMP_FS_FT_INST 0x4620003b,
    OP ''c.ngl.ps'' TOK_C_NGL_PS_OPCODE FP_CMP_FS_FT_INST 0x4660003b,
    OP ''c.ngl.s'' TOK_C_NGL_S_OPCODE FP_CMP_FS_FT_INST 0x4600003b,
    OP ''c.ngle.d'' TOK_C_NGLE_D_OPCODE FP_CMP_FS_FT_INST 0x46200039,
    OP ''c.ngle.ps'' TOK_C_NGLE_PS_OPCODE FP_CMP_FS_FT_INST 0x46600039]"

definition opcode_rows_8 :: "op_row list" where
  "opcode_rows_8 = [
    OP ''c.ngle.s'' TOK_C_NGLE_S_OPCODE FP_CMP_FS_FT_INST 0x46000039,
    OP ''c.ngt.d'' TOK_C_NGT_D_OPCODE FP_CMP_FS_FT_INST 0x4620003f,
    OP ''c.ngt.ps'' TOK_C_NGT_PS_OPCODE FP_CMP_FS_FT_INST 0x4660003f,
    OP ''c.ngt.s'' TOK_C_NGT_S_OPCODE FP_CMP_FS_FT_INST 0x4600003f,
    OP ''c.ole.d'' TOK_C_OLE_D_OPCODE FP_CMP_FS_FT_INST 0x46200036,
    OP ''c.ole.ps'' TOK_C_OLE_PS_OPCODE FP_CMP_FS_FT_INST 0x46600036,
    OP ''c.ole.s'' TOK_C_OLE_S_OPCODE FP_CMP_FS_FT_INST 0x46000036,
    OP ''c.olt.d'' TOK_C_OLT_D_OPCODE FP_CMP_FS_FT_INST 0x46200034,
    OP ''c.olt.ps'' TOK_C_OLT_PS_OPCODE FP_CMP_FS_FT_INST 0x46600034,
    OP ''c.olt.s'' TOK_C_OLT_S_OPCODE FP_CMP_FS_FT_INST 0x46000034,
    OP ''c.seq.d'' TOK_C_SEQ_D_OPCODE FP_CMP_FS_FT_INST 0x4620003a,
    OP ''c.seq.ps'' TOK_C_SEQ_PS_OPCODE FP_CMP_FS_FT_INST 0x4660003a,
    OP ''c.seq.s'' TOK_C_SEQ_S_OPCODE FP_CMP_FS_FT_INST 0x4600003a,
    OP ''c.sf.d'' TOK_C_SF_D_OPCODE FP_CMP_FS_FT_INST 0x46200038,
    OP ''c.sf.ps'' TOK_C_SF_PS_OPCODE FP_CMP_FS_FT_INST 0x46600038,
    OP ''c.sf.s'' TOK_C_SF_S_OPCODE FP_CMP_FS_FT_INST 0x46000038]"

definition opcode_rows_9 :: "op_row list" where
  "opcode_rows_9 = [
    OP ''c.ueq.d'' TOK_C_UEQ_D_OPCODE FP_CMP_FS_FT_INST 0x46200033,
    OP ''c.ueq.ps'' TOK_C_UEQ_PS_OPCODE FP_CMP_FS_FT_INST 0x46600033,
    OP ''c.ueq.s'' TOK_C_UEQ_S_OPCODE FP_CMP_FS_FT_INST 0x46000033,
    OP ''c.ule.d'' TOK_C_ULE_D_OPCODE FP_CMP_FS_FT_INST 0x46200037,
    OP ''c.ule.ps'' TOK_C_ULE_PS_OPCODE FP_CMP_FS_FT_INST 0x46600037,
    OP ''c.ule.s'' TOK_C_ULE_S_OPCODE FP_CMP_FS_FT_INST 0x46000037,
    OP ''c.ult.d'' TOK_C_ULT_D_OPCODE FP_CMP_FS_FT_INST 0x46200035,
    OP ''c.ult.ps'' TOK_C_ULT_PS_OPCODE FP_CMP_FS_FT_INST 0x46600035,
    OP ''c.ult.s'' TOK_C_ULT_S_OPCODE FP_CMP_FS_FT_INST 0x46000035,
    OP ''c.un.d'' TOK_C_UN_D_OPCODE FP_CMP_FS_FT_INST 0x46200031,
    OP ''c.un.ps'' TOK_C_UN_PS_OPCODE FP_CMP_FS_FT_INST 0x46600031,
    OP ''c.un.s'' TOK_C_UN_S_OPCODE FP_CMP_FS_FT_INST 0x46000031,
    OP ''cache'' TOK_CACHE_OPCODE RT_RS_IMM_INST 0xbc000000,
    OP ''ceil.l.d'' TOK_CEIL_L_D_OPCODE FP_FD_FS_INST 0x4620000a,
    OP ''ceil.l.s'' TOK_CEIL_L_S_OPCODE FP_FD_FS_INST 0x4600000a,
    OP ''ceil.w.d'' TOK_CEIL_W_D_OPCODE FP_FD_FS_INST 0x4620000e]"

definition opcode_rows_10 :: "op_row list" where
  "opcode_rows_10 = [
    OP ''ceil.w.s'' TOK_CEIL_W_S_OPCODE FP_FD_FS_INST 0x4600000e,
    OP ''cfc0'' TOK_CFC0_OPCODE FP_RT_COPREG_INST 0x40400000,
    OP ''cfc1'' TOK_CFC1_OPCODE FP_RT_COPREG_INST 0x44400000,
    OP ''cfc2'' TOK_CFC2_OPCODE FP_RT_COPREG_INST 0x48400000,
    OP ''clo'' TOK_CLO_OPCODE RD_RS_RT_INST 0x70000021,
    OP ''clz'' TOK_CLZ_OPCODE RD_RS_RT_INST 0x70000020,
    OP ''cop2'' TOK_COP2_OPCODE J_TYPE_INST 0x4a000000,
    OP ''ctc0'' TOK_CTC0_OPCODE FP_RT_COPREG_INST 0x40c00000,
    OP ''ctc1'' TOK_CTC1_OPCODE FP_RT_COPREG_INST 0x44c00000,
    OP ''ctc2'' TOK_CTC2_OPCODE FP_RT_COPREG_INST 0x48c00000,
    OP ''cvt.d.l'' TOK_CVT_D_L_OPCODE FP_FD_FS_INST 0x46b00021,
    OP ''cvt.d.s'' TOK_CVT_D_S_OPCODE FP_FD_FS_INST 0x46000021,
    OP ''cvt.d.w'' TOK_CVT_D_W_OPCODE FP_FD_FS_INST 0x46200021,
    OP ''cvt.l.d'' TOK_CVT_L_D_OPCODE FP_FD_FS_INST 0x46200025,
    OP ''cvt.l.s'' TOK_CVT_L_S_OPCODE FP_FD_FS_INST 0x46000025,
    OP ''cvt.ps.s'' TOK_CVT_PS_S_OPCODE FP_FD_FS_INST 0x46000026]"

definition opcode_rows_11 :: "op_row list" where
  "opcode_rows_11 = [
    OP ''cvt.s.d'' TOK_CVT_S_D_OPCODE FP_FD_FS_INST 0x46200020,
    OP ''cvt.s.l'' TOK_CVT_S_L_OPCODE FP_FD_FS_INST 0x46b00020,
    OP ''cvt.s.pl'' TOK_CVT_S_PL_OPCODE FP_FD_FS_INST 0x46c00024,
    OP ''cvt.s.pu'' TOK_CVT_S_PU_OPCODE FP_FD_FS_INST 0x46c00020,
    OP ''cvt.s.w'' TOK_CVT_S_W_OPCODE FP_FD_FS_INST 0x46800020,
    OP ''cvt.w.d'' TOK_CVT_W_D_OPCODE FP_FD_FS_INST 0x46200024,
    OP ''cvt.w.s'' TOK_CVT_W_S_OPCODE FP_FD_FS_INST 0x46000024,
    OP ''deret'' TOK_DERET_OPCODE NOARG_TYPE_INST 0x4200001f,
    OP ''di'' TOK_DI_OPCODE RT_IMM_INST 0x41606000,
    OP ''div'' TOK_DIV_OPCODE RS_RT_INST 0x0000001a,
    OP ''div.d'' TOK_DIV_D_OPCODE FP_FD_FS_FT_INST 0x46200003,
    OP ''div.s'' TOK_DIV_S_OPCODE FP_FD_FS_FT_INST 0x46000003,
    OP ''divu'' TOK_DIVU_OPCODE RS_RT_INST 0x0000001b,
    OP ''ehb'' TOK_EHB_OPCODE NOARG_TYPE_INST 0x000000c0,
    OP ''ei'' TOK_EI_OPCODE RT_IMM_INST 0x41606020,
    OP ''eret'' TOK_ERET_OPCODE NOARG_TYPE_INST 0x42000018]"

definition opcode_rows_12 :: "op_row list" where
  "opcode_rows_12 = [
    OP ''ext'' TOK_EXT_OPCODE FP_FD_FS_INST 0x7c000000,
    OP ''floor.l.d'' TOK_FLOOR_L_D_OPCODE FP_FD_FS_INST 0x4620000b,
    OP ''floor.l.s'' TOK_FLOOR_L_S_OPCODE FP_FD_FS_INST 0x4600000b,
    OP ''floor.w.d'' TOK_FLOOR_W_D_OPCODE FP_FD_FS_INST 0x4620000f,
    OP ''floor.w.s'' TOK_FLOOR_W_S_OPCODE FP_FD_FS_INST 0x4600000f,
    OP ''ins'' TOK_INS_OPCODE FP_FD_FS_INST 0x7c000004,
    OP ''j'' TOK_J_OPCODE J_TYPE_INST 0x08000000,
    OP ''jal'' TOK_JAL_OPCODE J_TYPE_INST 0x0c000000,
    OP ''jalr'' TOK_JALR_OPCODE RD_RS_INST 0x00000009,
    OP ''jalr.hb'' TOK_JALR_HB_OPCODE RD_RS_INST 0x00000409,
    OP ''jr'' TOK_JR_OPCODE RS_INST 0x00000008,
    OP ''jr.hb'' TOK_JR_HB_OPCODE RS_INST 0x00000408,
    OP ''l.d'' TOK_L_D_PSEUDO_OP PSEUDO_OP 0xffffffff,
    OP ''l.s'' TOK_L_S_PSEUDO_OP PSEUDO_OP 0xffffffff,
    OP ''la'' TOK_LA_PSEUDO_OP PSEUDO_OP 0xffffffff,
    OP ''lb'' TOK_LB_OPCODE RT_ADDR_INST 0x80000000]"

definition opcode_rows_13 :: "op_row list" where
  "opcode_rows_13 = [
    OP ''lbu'' TOK_LBU_OPCODE RT_ADDR_INST 0x90000000,
    OP ''ld'' TOK_LD_PSEUDO_OP PSEUDO_OP 0xffffffff,
    OP ''ldc1'' TOK_LDC1_OPCODE FP_FT_ADDR_INST 0xd4000000,
    OP ''ldc2'' TOK_LDC2_OPCODE RT_ADDR_INST 0xd8000000,
    OP ''ldxc1'' TOK_LDXC1_OPCODE FP_FD_FS_FT_INST 0x4c000001,
    OP ''lh'' TOK_LH_OPCODE RT_ADDR_INST 0x84000000,
    OP ''lhu'' TOK_LHU_OPCODE RT_ADDR_INST 0x94000000,
    OP ''li'' TOK_LI_PSEUDO_OP PSEUDO_OP 0xffffffff,
    OP ''li.d'' TOK_LI_D_PSEUDO_OP PSEUDO_OP 0xffffffff,
    OP ''li.s'' TOK_LI_S_PSEUDO_OP PSEUDO_OP 0xffffffff,
    OP ''ll'' TOK_LL_OPCODE RT_ADDR_INST 0xc0000000,
    OP ''lui'' TOK_LUI_OPCODE RT_IMM_INST 0x3c000000,
    OP ''luxc1'' TOK_LUXC1_OPCODE FP_FD_FS_FT_INST 0x4c000005,
    OP ''lw'' TOK_LW_OPCODE RT_ADDR_INST 0x8c000000,
    OP ''lwc1'' TOK_LWC1_OPCODE FP_FT_ADDR_INST 0xc4000000,
    OP ''lwc2'' TOK_LWC2_OPCODE RT_ADDR_INST 0xc8000000]"

definition opcode_rows_14 :: "op_row list" where
  "opcode_rows_14 = [
    OP ''lwl'' TOK_LWL_OPCODE RT_ADDR_INST 0x88000000,
    OP ''lwr'' TOK_LWR_OPCODE RT_ADDR_INST 0x98000000,
    OP ''lwxc1'' TOK_LWXC1_OPCODE FP_FD_FS_FT_INST 0x4c000000,
    OP ''madd'' TOK_MADD_OPCODE RS_RT_INST 0x70000000,
    OP ''madd.d'' TOK_MADD_D_OPCODE FP_FD_FR_FS_FT_INST 0x4c000001,
    OP ''madd.ps'' TOK_MADD_PS_OPCODE FP_FD_FR_FS_FT_INST 0x4c000006,
    OP ''madd.s'' TOK_MADD_S_OPCODE FP_FD_FR_FS_FT_INST 0x4c000000,
    OP ''maddu'' TOK_MADDU_OPCODE RS_RT_INST 0x70000001,
    OP ''mfc0'' TOK_MFC0_OPCODE RT_COPREG_INST 0x40000000,
    OP ''mfc1'' TOK_MFC1_OPCODE FP_RT_COPREG_INST 0x44000000,
    OP ''mfc1.d'' TOK_MFC1_D_PSEUDO_OP PSEUDO_OP 0xffffffff,
    OP ''mfc2'' TOK_MFC2_OPCODE RT_COPREG_INST 0x48000000,
    OP ''mfhc1'' TOK_MFHC1_OPCODE FP_RT_COPREG_INST 0x44600000,
    OP ''mfhc2'' TOK_MFHC2_OPCODE RT_COPREG_INST 0x48600000,
    OP ''mfhi'' TOK_MFHI_OPCODE RD_INST 0x00000010,
    OP ''mflo'' TOK_MFLO_OPCODE RD_INST 0x00000012]"

definition opcode_rows_15 :: "op_row list" where
  "opcode_rows_15 = [
    OP ''mov.d'' TOK_MOV_D_OPCODE FP_FD_FS_INST 0x46200006,
    OP ''mov.ps'' TOK_MOV_PS_OPCODE FP_FD_FS_INST 0x46c00006,
    OP ''mov.s'' TOK_MOV_S_OPCODE FP_FD_FS_INST 0x46000006,
    OP ''move'' TOK_MOVE_PSEUDO_OP PSEUDO_OP 0xffffffff,
    OP ''movf'' TOK_MOVF_OPCODE MOVC_TYPE_INST 0x00000001,
    OP ''movf.d'' TOK_MOVF_D_OPCODE FP_MOVC_TYPE_INST 0x46200011,
    OP ''movf.ps'' TOK_MOVF_PS_OPCODE FP_MOVC_TYPE_INST 0x46c00011,
    OP ''movf.s'' TOK_MOVF_S_OPCODE FP_MOVC_TYPE_INST 0x46000011,
    OP ''movn'' TOK_MOVN_OPCODE RD_RS_RT_INST 0x0000000b,
    OP ''movn.d'' TOK_MOVN_D_OPCODE FP_MOVC_TYPE_INST 0x46200013,
    OP ''movn.ps'' TOK_MOVN_PS_OPCODE FP_MOVC_TYPE_INST 0x46c00013,
    OP ''movn.s'' TOK_MOVN_S_OPCODE FP_MOVC_TYPE_INST 0x46000013,
    OP ''movt'' TOK_MOVT_OPCODE MOVC_TYPE_INST 0x00010001,
    OP ''movt.d'' TOK_MOVT_D_OPCODE FP_MOVC_TYPE_INST 0x46210011,
    OP ''movt.ps'' TOK_MOVT_PS_OPCODE FP_MOVC_TYPE_INST 0x46c10011,
    OP ''movt.s'' TOK_MOVT_S_OPCODE FP_MOVC_TYPE_INST 0x46010011]"

definition opcode_rows_16 :: "op_row list" where
  "opcode_rows_16 = [
    OP ''movz'' TOK_MOVZ_OPCODE RD_RS_RT_INST 0x0000000a,
    OP ''movz.d'' TOK_MOVZ_D_OPCODE FP_MOVC_TYPE_INST 0x46200012,
    OP ''movz.ps'' TOK_MOVZ_PS_OPCODE FP_MOVC_TYPE_INST 0x46c00012,
    OP ''movz.s'' TOK_MOVZ_S_OPCODE FP_MOVC_TYPE_INST 0x46000012,
    OP ''msub'' TOK_MSUB_OPCODE RS_RT_INST 0x70000004,
    OP ''msub.d'' TOK_MSUB_D_OPCODE FP_FD_FR_FS_FT_INST 0x4c000021,
    OP ''msub.ps'' TOK_MSUB_PS_OPCODE FP_FD_FR_FS_FT_INST 0x4c000026,
    OP ''msub.s'' TOK_MSUB_S_OPCODE FP_FD_FR_FS_FT_INST 0x4c000020,
    OP ''msubu'' TOK_MSUBU_OPCODE RS_RT_INST 0x70000005,
    OP ''mtc0'' TOK_MTC0_OPCODE RT_COPREG_INST 0x40800000,
    OP ''mtc1'' TOK_MTC1_OPCODE FP_RT_COPREG_INST 0x44800000,
    OP ''mtc1.d'' TOK_MTC1_D_PSEUDO_OP PSEUDO_OP 0xffffffff,
    OP ''mtc2'' TOK_MTC2_OPCODE RT_COPREG_INST 0x48800000,
    OP ''mthc1'' TOK_MTHC1_OPCODE FP_RT_COPREG_INST 0x44e00000,
    OP ''mthc2'' TOK_MTHC2_OPCODE RT_COPREG_INST 0x48e00000,
    OP ''mthi'' TOK_MTHI_OPCODE RS_INST 0x00000011]"

definition opcode_rows_17 :: "op_row list" where
  "opcode_rows_17 = [
    OP ''mtlo'' TOK_MTLO_OPCODE RS_INST 0x00000013,
    OP ''mul'' TOK_MUL_OPCODE RD_RS_RT_INST 0x70000002,
    OP ''mul.d'' TOK_MUL_D_OPCODE FP_FD_FS_FT_INST 0x46200002,
    OP ''mul.ps'' TOK_MUL_PS_OPCODE FP_FD_FS_FT_INST 0x46c00002,
    OP ''mul.s'' TOK_MUL_S_OPCODE FP_FD_FS_FT_INST 0x46000002,
    OP ''mulo'' TOK_MULO_PSEUDO_OP PSEUDO_OP 0xffffffff,
    OP ''mulou'' TOK_MULOU_PSEUDO_OP PSEUDO_OP 0xffffffff,
    OP ''mult'' TOK_MULT_OPCODE RS_RT_INST 0x00000018,
    OP ''multu'' TOK_MULTU_OPCODE RS_RT_INST 0x00000019,
    OP ''neg'' TOK_NEG_PSEUDO_OP PSEUDO_OP 0xffffffff,
    OP ''neg.d'' TOK_NEG_D_OPCODE FP_FD_FS_INST 0x46200007,
    OP ''neg.ps'' TOK_NEG_PS_OPCODE FP_FD_FS_INST 0x46c00007,
    OP ''neg.s'' TOK_NEG_S_OPCODE FP_FD_FS_INST 0x46000007,
    OP ''negu'' TOK_NEGU_PSEUDO_OP PSEUDO_OP 0xffffffff,
    OP ''nmadd.d'' TOK_NMADD_D_OPCODE FP_FD_FR_FS_FT_INST 0x4c000031,
    OP ''nmadd.ps'' TOK_NMADD_PS_OPCODE FP_FD_FR_FS_FT_INST 0x4c000036]"

definition opcode_rows_18 :: "op_row list" where
  "opcode_rows_18 = [
    OP ''nmadd.s'' TOK_NMADD_S_OPCODE FP_FD_FR_FS_FT_INST 0x4c000030,
    OP ''nmsub.d'' TOK_NMSUB_D_OPCODE FP_FD_FR_FS_FT_INST 0x4c000039,
    OP ''nmsub.ps'' TOK_NMSUB_PS_OPCODE FP_FD_FR_FS_FT_INST 0x4c00003e,
    OP ''nmsub.s'' TOK_NMSUB_S_OPCODE FP_FD_FR_FS_FT_INST 0x4c000038,
    OP ''nop'' TOK_NOP_PSEUDO_OP PSEUDO_OP 0xffffffff,
    OP ''nor'' TOK_NOR_OPCODE RD_RS_RT_INST 0x00000027,
    OP ''not'' TOK_NOT_PSEUDO_OP PSEUDO_OP 0xffffffff,
    OP ''or'' TOK_OR_OPCODE RD_RS_RT_INST 0x00000025,
    OP ''ori'' TOK_ORI_OPCODE RT_RS_IMM_INST 0x34000000,
    OP ''pll.ps'' TOK_PLL_PS_OPCODE FP_FD_FS_FT_INST 0x46c0002c,
    OP ''plu.ps'' TOK_PLU_PS_OPCODE FP_FD_FS_FT_INST 0x46c0002d,
    OP ''pref'' TOK_PREF_OPCODE RT_RS_IMM_INST 0xcc000000,
    OP ''prefx'' TOK_PREFX_OPCODE RS_RT_INST 0x4600000f,
    OP ''pul.ps'' TOK_PUL_PS_OPCODE FP_FD_FS_FT_INST 0x46c0002e,
    OP ''puu.ps'' TOK_PUU_PS_OPCODE FP_FD_FS_FT_INST 0x46c0002f,
    OP ''rdhwr'' TOK_RDHWR_OPCODE RD_RS_RT_INST 0x7c00003b]"

definition opcode_rows_19 :: "op_row list" where
  "opcode_rows_19 = [
    OP ''rdpgpr'' TOK_RDPGPR_OPCODE RT_COPREG_INST 0x41400000,
    OP ''recip.d'' TOK_RECIP_D_OPCODE FP_FD_FS_INST 0x46200015,
    OP ''recip.s'' TOK_RECIP_S_OPCODE FP_FD_FS_INST 0x46000015,
    OP ''rem'' TOK_REM_PSEUDO_OP PSEUDO_OP 0xffffffff,
    OP ''remu'' TOK_REMU_PSEUDO_OP PSEUDO_OP 0xffffffff,
    OP ''rfe'' TOK_RFE_OPCODE NOARG_TYPE_INST 0x42000010,
    OP ''rol'' TOK_ROL_PSEUDO_OP PSEUDO_OP 0xffffffff,
    OP ''ror'' TOK_ROR_PSEUDO_OP PSEUDO_OP 0xffffffff,
    OP ''rotr'' TOK_ROTR_OPCODE RD_RT_SHAMT_INST 0x00200002,
    OP ''rotrv'' TOK_ROTRV_OPCODE RD_RT_SHAMT_INST 0x00200003,
    OP ''round.l.d'' TOK_ROUND_L_D_OPCODE FP_FD_FS_INST 0x46200008,
    OP ''round.l.s'' TOK_ROUND_L_S_OPCODE FP_FD_FS_INST 0x46000008,
    OP ''round.w.d'' TOK_ROUND_W_D_OPCODE FP_FD_FS_INST 0x4620000c,
    OP ''round.w.s'' TOK_ROUND_W_S_OPCODE FP_FD_FS_INST 0x4600000c,
    OP ''rsqrt.d'' TOK_RSQRT_D_OPCODE FP_FD_FS_INST 0x46200016,
    OP ''rsqrt.s'' TOK_RSQRT_S_OPCODE FP_FD_FS_INST 0x46000016]"

definition opcode_rows_20 :: "op_row list" where
  "opcode_rows_20 = [
    OP ''s.d'' TOK_S_D_PSEUDO_OP PSEUDO_OP 0xffffffff,
    OP ''s.s'' TOK_S_S_PSEUDO_OP PSEUDO_OP 0xffffffff,
    OP ''sb'' TOK_SB_OPCODE RT_ADDR_INST 0xa0000000,
    OP ''sc'' TOK_SC_OPCODE RT_ADDR_INST 0xe0000000,
    OP ''sd'' TOK_SD_PSEUDO_OP PSEUDO_OP 0xffffffff,
    OP ''sdbbp'' TOK_SDBBP_OPCODE NOARG_TYPE_INST 0x7000003f,
    OP ''sdc1'' TOK_SDC1_OPCODE FP_FT_ADDR_INST 0xf4000000,
    OP ''sdc2'' TOK_SDC2_OPCODE RT_ADDR_INST 0xf8000000,
    OP ''sdxc1'' TOK_SDXC1_OPCODE FP_FD_FS_FT_INST 0x46000009,
    OP ''seb'' TOK_SEB_OPCODE RT_COPREG_INST 0x7c000420,
    OP ''seh'' TOK_SEH_OPCODE RT_COPREG_INST 0x7c000620,
    OP ''seq'' TOK_SEQ_PSEUDO_OP PSEUDO_OP 0xffffffff,
    OP ''sge'' TOK_SGE_PSEUDO_OP PSEUDO_OP 0xffffffff,
    OP ''sgeu'' TOK_SGEU_PSEUDO_OP PSEUDO_OP 0xffffffff,
    OP ''sgt'' TOK_SGT_PSEUDO_OP PSEUDO_OP 0xffffffff,
    OP ''sgtu'' TOK_SGTU_PSEUDO_OP PSEUDO_OP 0xffffffff]"

definition opcode_rows_21 :: "op_row list" where
  "opcode_rows_21 = [
    OP ''sh'' TOK_SH_OPCODE RT_ADDR_INST 0xa4000000,
    OP ''sle'' TOK_SLE_PSEUDO_OP PSEUDO_OP 0xffffffff,
    OP ''sleu'' TOK_SLEU_PSEUDO_OP PSEUDO_OP 0xffffffff,
    OP ''sll'' TOK_SLL_OPCODE RD_RT_SHAMT_INST 0x00000000,
    OP ''sllv'' TOK_SLLV_OPCODE RD_RT_RS_INST 0x00000004,
    OP ''slt'' TOK_SLT_OPCODE RD_RS_RT_INST 0x0000002a,
    OP ''slti'' TOK_SLTI_OPCODE RT_RS_IMM_INST 0x28000000,
    OP ''sltiu'' TOK_SLTIU_OPCODE RT_RS_IMM_INST 0x2c000000,
    OP ''sltu'' TOK_SLTU_OPCODE RD_RS_RT_INST 0x0000002b,
    OP ''sne'' TOK_SNE_PSEUDO_OP PSEUDO_OP 0xffffffff,
    OP ''sqrt.d'' TOK_SQRT_D_OPCODE FP_FD_FS_INST 0x46200004,
    OP ''sqrt.s'' TOK_SQRT_S_OPCODE FP_FD_FS_INST 0x46000004,
    OP ''sra'' TOK_SRA_OPCODE RD_RT_SHAMT_INST 0x00000003,
    OP ''srav'' TOK_SRAV_OPCODE RD_RT_RS_INST 0x00000007,
    OP ''srl'' TOK_SRL_OPCODE RD_RT_SHAMT_INST 0x00000002,
    OP ''srlv'' TOK_SRLV_OPCODE RD_RT_RS_INST 0x00000006]"

definition opcode_rows_22 :: "op_row list" where
  "opcode_rows_22 = [
    OP ''ssnop'' TOK_SSNOP_OPCODE RD_RT_SHAMT_INST 0x00000040,
    OP ''sub'' TOK_SUB_OPCODE RD_RS_RT_INST 0x00000022,
    OP ''sub.d'' TOK_SUB_D_OPCODE FP_FD_FS_FT_INST 0x46200001,
    OP ''sub.ps'' TOK_SUB_PS_OPCODE FP_FD_FS_FT_INST 0x46600001,
    OP ''sub.s'' TOK_SUB_S_OPCODE FP_FD_FS_FT_INST 0x46000001,
    OP ''subu'' TOK_SUBU_OPCODE RD_RS_RT_INST 0x00000023,
    OP ''suxc1'' TOK_SUXC1_OPCODE FP_FD_FS_FT_INST 0x4600000d,
    OP ''sw'' TOK_SW_OPCODE RT_ADDR_INST 0xac000000,
    OP ''swc1'' TOK_SWC1_OPCODE FP_FT_ADDR_INST 0xe4000000,
    OP ''swc2'' TOK_SWC2_OPCODE RT_ADDR_INST 0xe8000000,
    OP ''swl'' TOK_SWL_OPCODE RT_ADDR_INST 0xa8000000,
    OP ''swr'' TOK_SWR_OPCODE RT_ADDR_INST 0xb8000000,
    OP ''swxc1'' TOK_SWXC1_OPCODE FP_FD_FS_FT_INST 0x46000008,
    OP ''sync'' TOK_SYNC_OPCODE NOARG_TYPE_INST 0x0000000f,
    OP ''synci'' TOK_SYNCI_OPCODE RT_RS_IMM_INST 0x04140000,
    OP ''syscall'' TOK_SYSCALL_OPCODE NOARG_TYPE_INST 0x0000000c]"

definition opcode_rows_23 :: "op_row list" where
  "opcode_rows_23 = [
    OP ''teq'' TOK_TEQ_OPCODE RS_RT_INST 0x00000034,
    OP ''teqi'' TOK_TEQI_OPCODE RS_IMM_INST 0x040c0000,
    OP ''tge'' TOK_TGE_OPCODE RS_RT_INST 0x00000030,
    OP ''tgei'' TOK_TGEI_OPCODE RS_IMM_INST 0x04080000,
    OP ''tgeiu'' TOK_TGEIU_OPCODE RS_IMM_INST 0x04090000,
    OP ''tgeu'' TOK_TGEU_OPCODE RS_RT_INST 0x00000031,
    OP ''tlbp'' TOK_TLBP_OPCODE NOARG_TYPE_INST 0x42000008,
    OP ''tlbr'' TOK_TLBR_OPCODE NOARG_TYPE_INST 0x42000001,
    OP ''tlbwi'' TOK_TLBWI_OPCODE NOARG_TYPE_INST 0x42000002,
    OP ''tlbwr'' TOK_TLBWR_OPCODE NOARG_TYPE_INST 0x42000006,
    OP ''tlt'' TOK_TLT_OPCODE RS_RT_INST 0x00000032,
    OP ''tlti'' TOK_TLTI_OPCODE RS_IMM_INST 0x040a0000,
    OP ''tltiu'' TOK_TLTIU_OPCODE RS_IMM_INST 0x040b0000,
    OP ''tltu'' TOK_TLTU_OPCODE RS_RT_INST 0x00000033,
    OP ''tne'' TOK_TNE_OPCODE RS_RT_INST 0x00000036,
    OP ''tnei'' TOK_TNEI_OPCODE RS_IMM_INST 0x040e0000]"

definition opcode_rows_24 :: "op_row list" where
  "opcode_rows_24 = [
    OP ''trunc.l.d'' TOK_TRUNC_L_D_OPCODE FP_FD_FS_INST 0x46200009,
    OP ''trunc.l.s'' TOK_TRUNC_L_S_OPCODE FP_FD_FS_INST 0x46000009,
    OP ''trunc.w.d'' TOK_TRUNC_W_D_OPCODE FP_FD_FS_INST 0x4620000d,
    OP ''trunc.w.s'' TOK_TRUNC_W_S_OPCODE FP_FD_FS_INST 0x4600000d,
    OP ''ulh'' TOK_ULH_PSEUDO_OP PSEUDO_OP 0xffffffff,
    OP ''ulhu'' TOK_ULHU_PSEUDO_OP PSEUDO_OP 0xffffffff,
    OP ''ulw'' TOK_ULW_PSEUDO_OP PSEUDO_OP 0xffffffff,
    OP ''ush'' TOK_USH_PSEUDO_OP PSEUDO_OP 0xffffffff,
    OP ''usw'' TOK_USW_PSEUDO_OP PSEUDO_OP 0xffffffff,
    OP ''wrpgpr'' TOK_WRPGPR_OPCODE RT_COPREG_INST 0x41c00000,
    OP ''wsbh'' TOK_WSBH_OPCODE RT_COPREG_INST 0x7c0000a0,
    OP ''xor'' TOK_XOR_OPCODE RD_RS_RT_INST 0x00000026,
    OP ''xori'' TOK_XORI_OPCODE RT_RS_IMM_INST 0x38000000]"

definition opcode_rows :: "op_row list" where
  "opcode_rows =
     opcode_rows_1 @ opcode_rows_2 @ opcode_rows_3 @ opcode_rows_4 @ opcode_rows_5 @
     opcode_rows_6 @ opcode_rows_7 @ opcode_rows_8 @ opcode_rows_9 @ opcode_rows_10 @
     opcode_rows_11 @ opcode_rows_12 @ opcode_rows_13 @ opcode_rows_14 @ opcode_rows_15 @
     opcode_rows_16 @ opcode_rows_17 @ opcode_rows_18 @ opcode_rows_19 @ opcode_rows_20 @
     opcode_rows_21 @ opcode_rows_22 @ opcode_rows_23 @ opcode_rows_24"

subsection \<open>The lookup tables\<close>

record 'v name_val_val =
  nvv_name :: string
  value1 :: int
  value2 :: 'v

definition name_tbl :: "op_type name_val_val list" where
  "name_tbl = map (\<lambda>r. \<lparr>nvv_name = op_name r, value1 = op_tok r, value2 = op_kind r\<rparr>) opcode_rows"

definition i_opcode_tbl :: "32 word name_val_val list" where
  "i_opcode_tbl = map (\<lambda>r. \<lparr>nvv_name = op_name r, value1 = op_tok r, value2 = op_enc r\<rparr>) opcode_rows"

definition a_opcode_tbl :: "int name_val_val list" where
  "a_opcode_tbl = map (\<lambda>r. \<lparr>nvv_name = op_name r, value1 = sint (op_enc r), value2 = op_tok r\<rparr>) opcode_rows"

text \<open>\<^verbatim>\<open>compare_pair_value\<close>, the order \<^verbatim>\<open>qsort\<close> is given, and the sorted table.\<close>

definition compare_pair_value :: "'v name_val_val \<Rightarrow> 'v name_val_val \<Rightarrow> int" where
  "compare_pair_value p1 p2 = (if value1 p1 < value1 p2 then -1 else if value1 p1 > value1 p2 then 1 else 0)"

definition sort_table :: "'v name_val_val list \<Rightarrow> 'v name_val_val list" where
  "sort_table t = sort_key value1 t"

definition cmp_key_to_value1 :: "int \<Rightarrow> 'v name_val_val \<Rightarrow> int" where
  "cmp_key_to_value1 k e = (if k > value1 e then 1 else 0) - (if k < value1 e then 1 else 0)"

text \<open>C's \<^verbatim>\<open>bsearch\<close> over the half-open interval \<open>[l, u)\<close>.\<close>

function bsearch :: "('e \<Rightarrow> int) \<Rightarrow> 'e list \<Rightarrow> nat \<Rightarrow> nat \<Rightarrow> 'e option" where
  "bsearch cmp t l u =
     (if l < u
      then let i = (l + u) div 2; c = cmp (t ! i)
           in if c < 0 then bsearch cmp t l i
              else if c > 0 then bsearch cmp t (Suc i) u
              else Some (t ! i)
      else None)"
  by pat_completeness auto
termination
  by (relation "measure (\<lambda>(cmp, t, l, u). u - l)") auto

declare bsearch.simps [simp del]

definition map_int_to_name_val_val :: "'v name_val_val list \<Rightarrow> int \<Rightarrow> 'v name_val_val option" where
  "map_int_to_name_val_val tbl num = bsearch (cmp_key_to_value1 num) tbl 0 (length tbl)"

subsection \<open>Correctness of the binary search\<close>

lemma bsearch_sound:
  "bsearch cmp t l u = Some e \<Longrightarrow> u \<le> length t \<Longrightarrow> \<exists>i. l \<le> i \<and> i < u \<and> e = t ! i \<and> cmp e = 0"
proof (induction cmp t l u rule: bsearch.induct)
  case (1 cmp t l u)
  let ?i = "(l + u) div 2"
  have lu: "l < u" using "1.prems"(1) by (subst (asm) bsearch.simps) (auto split: if_splits)
  consider "cmp (t ! ?i) < 0" | "cmp (t ! ?i) > 0" | "cmp (t ! ?i) = 0" by linarith
  then show ?case
  proof cases
    case 1
    with lu "1.prems" have "bsearch cmp t l ?i = Some e"
      by (simp add: bsearch.simps [of cmp t l u] Let_def)
    with "1.IH"(1) [OF lu refl refl 1] lu "1.prems"(2) show ?thesis by fastforce
  next
    case 2
    with lu "1.prems" have "bsearch cmp t (Suc ?i) u = Some e"
      by (simp add: bsearch.simps [of cmp t l u] Let_def)
    with "1.IH"(2) [OF lu refl refl _ 2] 2 "1.prems"(2) obtain i
      where "Suc ?i \<le> i" "i < u" "e = t ! i" "cmp e = 0" by auto
    with lu show ?thesis by (intro exI [of _ i]) auto
  next
    case 3
    with lu "1.prems" have "e = t ! ?i"
      by (simp add: bsearch.simps [of cmp t l u] Let_def)
    with lu 3 show ?thesis by (intro exI [of _ ?i]) auto
  qed
qed

text \<open>
  Completeness, for a comparison that is antitone along the table: everything before the key
  compares positive and everything after it negative.
\<close>

lemma bsearch_complete:
  assumes "\<And>i j. i \<le> j \<Longrightarrow> j < length t \<Longrightarrow> cmp (t ! j) \<le> cmp (t ! i)"
  shows "l \<le> k \<Longrightarrow> k < u \<Longrightarrow> u \<le> length t \<Longrightarrow> cmp (t ! k) = 0 \<Longrightarrow> bsearch cmp t l u \<noteq> None"
  using assms
proof (induction cmp t l u rule: bsearch.induct)
  case (1 cmp t l u)
  let ?i = "(l + u) div 2"
  have lu: "l < u" and i: "?i < u" "?i < length t" using "1.prems" by auto
  consider "cmp (t ! ?i) < 0" | "cmp (t ! ?i) > 0" | "cmp (t ! ?i) = 0" by linarith
  then show ?case
  proof cases
    case 1
    have "k < ?i"
      using "1.prems"(5) [of ?i k] "1.prems" 1 by (cases "k < ?i") auto
    with "1.IH"(1) [OF lu refl refl 1] "1.prems" i have "bsearch cmp t l ?i \<noteq> None" by auto
    with lu 1 show ?thesis by (simp add: bsearch.simps [of cmp t l u] Let_def)
  next
    case 2
    have "?i < k"
      using "1.prems"(5) [of k ?i] i "1.prems"(4) 2 by (cases "?i < k") auto
    with "1.IH"(2) [OF lu refl refl _ 2] "1.prems" 2 have "bsearch cmp t (Suc ?i) u \<noteq> None" by auto
    with lu 2 show ?thesis by (simp add: bsearch.simps [of cmp t l u] Let_def)
  next
    case 3
    with lu show ?thesis by (simp add: bsearch.simps [of cmp t l u] Let_def)
  qed
qed

lemma cmp_key_zero [simp]: "cmp_key_to_value1 k e = 0 \<longleftrightarrow> value1 e = k"
  by (auto simp: cmp_key_to_value1_def)

lemma lookup_sound:
  assumes "map_int_to_name_val_val (sort_table t) k = Some e"
  shows "e \<in> set t \<and> value1 e = k"
proof -
  from assms have "bsearch (cmp_key_to_value1 k) (sort_table t) 0 (length (sort_table t)) = Some e"
    by (simp add: map_int_to_name_val_val_def)
  from bsearch_sound [OF this] obtain i where i: "i < length (sort_table t)"
    "e = sort_table t ! i" "cmp_key_to_value1 k e = 0" by auto
  from i(1,2) have "e \<in> set (sort_table t)" by simp
  with i(3) show ?thesis by (simp add: sort_table_def)
qed

lemma lookup_complete:
  assumes "e \<in> set t"
  shows "map_int_to_name_val_val (sort_table t) (value1 e) \<noteq> None"
proof -
  let ?s = "sort_table t"
  from assms have "e \<in> set ?s" by (simp add: sort_table_def)
  then obtain n where n: "n < length ?s" "?s ! n = e" by (auto simp: in_set_conv_nth)
  have srt: "sorted (map value1 ?s)" by (simp add: sort_table_def)
  have anti: "cmp_key_to_value1 k (?s ! j) \<le> cmp_key_to_value1 k (?s ! i)"
    if "i \<le> j" "j < length ?s" for i j k
  proof -
    have "map value1 ?s ! i \<le> map value1 ?s ! j"
      using srt that by (intro sorted_nth_mono) auto
    then have "value1 (?s ! i) \<le> value1 (?s ! j)" using that by simp
    then show ?thesis by (auto simp: cmp_key_to_value1_def)
  qed
  have "bsearch (cmp_key_to_value1 (value1 e)) ?s 0 (length ?s) \<noteq> None"
    by (rule bsearch_complete [where k = n]) (use n anti in auto)
  then show ?thesis by (simp add: map_int_to_name_val_val_def)
qed

text \<open>
  The interface the encoder and the decoder rely on: a lookup returns a row with the key, and
  finds one whenever there is one.
\<close>

locale lookup_table =
  fixes rows :: "'e list" and key :: "'e \<Rightarrow> int" and find_row :: "int \<Rightarrow> 'e option"
  assumes found: "find_row k = Some e \<Longrightarrow> e \<in> set rows \<and> key e = k"
    and finds: "e \<in> set rows \<Longrightarrow> find_row (key e) \<noteq> None"
begin

lemma find_unique:
  assumes "filter (\<lambda>e. key e = k) rows = [e]"
  shows "find_row k = Some e"
proof -
  have "e \<in> set (filter (\<lambda>e. key e = k) rows)" using assms by simp
  then have e: "e \<in> set rows" "key e = k" by auto
  with finds [of e] obtain e' where e': "find_row k = Some e'" by auto
  from found [OF this] have "e' \<in> set (filter (\<lambda>e. key e = k) rows)" by simp
  with assms e' show ?thesis by simp
qed

lemma find_none: "k \<notin> key ` set rows \<Longrightarrow> find_row k = None"
  using found by (cases "find_row k") auto

lemma find_distinct:
  assumes "distinct (map key rows)" and "e \<in> set rows"
  shows "find_row (key e) = Some e"
proof -
  from finds [OF assms(2)] obtain e' where e': "find_row (key e) = Some e'" by auto
  from found [OF this] assms have "e' = e" by (auto simp: distinct_map inj_on_def)
  with e' show ?thesis by simp
qed

end

interpretation name_table: lookup_table name_tbl value1 "map_int_to_name_val_val (sort_table name_tbl)"
  by unfold_locales (auto dest: lookup_sound lookup_complete)

interpretation i_opcode_table:
  lookup_table i_opcode_tbl value1 "map_int_to_name_val_val (sort_table i_opcode_tbl)"
  by unfold_locales (auto dest: lookup_sound lookup_complete)

interpretation a_opcode_table:
  lookup_table a_opcode_tbl value1 "map_int_to_name_val_val (sort_table a_opcode_tbl)"
  by unfold_locales (auto dest: lookup_sound lookup_complete)

subsection \<open>Facts about the instruction list\<close>

lemmas opcode_rows_defs = opcode_rows_def
  opcode_rows_1_def opcode_rows_2_def opcode_rows_3_def opcode_rows_4_def opcode_rows_5_def
  opcode_rows_6_def opcode_rows_7_def opcode_rows_8_def opcode_rows_9_def opcode_rows_10_def
  opcode_rows_11_def opcode_rows_12_def opcode_rows_13_def opcode_rows_14_def opcode_rows_15_def
  opcode_rows_16_def opcode_rows_17_def opcode_rows_18_def opcode_rows_19_def opcode_rows_20_def
  opcode_rows_21_def opcode_rows_22_def opcode_rows_23_def opcode_rows_24_def

lemma tokens_consecutive: "map op_tok opcode_rows = map int [264..<645]"
  by (simp add: opcode_rows_defs upt_rec)

lemma tokens_distinct: "distinct (map op_tok opcode_rows)"
  by (simp add: tokens_consecutive distinct_map)

lemma name_tbl_distinct: "distinct (map value1 name_tbl)"
  using tokens_distinct by (simp add: name_tbl_def comp_def)

lemma i_opcode_tbl_distinct: "distinct (map value1 i_opcode_tbl)"
  using tokens_distinct by (simp add: i_opcode_tbl_def comp_def)

text \<open>The operand shape and the encoding the tables give for a row's token.\<close>

lemma name_tbl_row:
  assumes "r \<in> set opcode_rows"
  shows "map_int_to_name_val_val (sort_table name_tbl) (op_tok r) =
    Some \<lparr>nvv_name = op_name r, value1 = op_tok r, value2 = op_kind r\<rparr>"
  using name_table.find_distinct [OF name_tbl_distinct,
      of "\<lparr>nvv_name = op_name r, value1 = op_tok r, value2 = op_kind r\<rparr>"] assms
  by (auto simp: name_tbl_def)

lemma i_opcode_tbl_row:
  assumes "r \<in> set opcode_rows"
  shows "map_int_to_name_val_val (sort_table i_opcode_tbl) (op_tok r) =
    Some \<lparr>nvv_name = op_name r, value1 = op_tok r, value2 = op_enc r\<rparr>"
  using i_opcode_table.find_distinct [OF i_opcode_tbl_distinct,
      of "\<lparr>nvv_name = op_name r, value1 = op_tok r, value2 = op_enc r\<rparr>"] assms
  by (auto simp: i_opcode_tbl_def)

text \<open>The encoding of a row is its own: no other row has it.\<close>

definition enc_unique :: "op_row \<Rightarrow> bool" where
  "enc_unique r = (filter (\<lambda>r'. op_enc r' = op_enc r) opcode_rows = [r])"

lemma sint_eq_iff: "sint (a::'a::len word) = sint b \<longleftrightarrow> a = b"
  by (auto intro: signed_word_eqI)

lemma a_opcode_tbl_row:
  assumes "enc_unique r"
  shows "map_int_to_name_val_val (sort_table a_opcode_tbl) (sint (op_enc r)) =
    Some \<lparr>nvv_name = op_name r, value1 = sint (op_enc r), value2 = op_tok r\<rparr>"
proof (rule a_opcode_table.find_unique)
  have "filter (\<lambda>e. value1 e = sint (op_enc r)) a_opcode_tbl =
      map (\<lambda>r. \<lparr>nvv_name = op_name r, value1 = sint (op_enc r), value2 = op_tok r\<rparr>)
        (filter (\<lambda>r'. op_enc r' = op_enc r) opcode_rows)"
    by (simp add: a_opcode_tbl_def filter_map comp_def sint_eq_iff)
  with assms show "filter (\<lambda>e. value1 e = sint (op_enc r)) a_opcode_tbl =
      [\<lparr>nvv_name = op_name r, value1 = sint (op_enc r), value2 = op_tok r\<rparr>]"
    by (simp add: enc_unique_def)
qed

end
