(* ===== verification/Codec.thy ===== *)
theory Codec
  imports Opcodes
begin

text \<open>
  The binary form of instructions: \<^verbatim>\<open>inst_encode\<close> and \<^verbatim>\<open>inst_decode\<close> of \<^verbatim>\<open>instruction.c\<close>, with
  the constructors of decoded instructions. \<open>Encodings\<close> shows for which instructions decoding undoes
  encoding, and which rows of the instruction list the decoder confuses.
\<close>

subsection \<open>Building instructions\<close>

text \<open>A zeroed instruction (\<^verbatim>\<open>zmalloc\<close>).\<close>

definition zero_inst :: mips_instruction where
  "zero_inst = \<lparr>inst_opcode = 0, inst_rs = 0, inst_rt = 0, inst_imm = 0, inst_encoding = 0,
     inst_expr = None, inst_source = None\<rparr>"

definition SET_OPCODE :: "int \<Rightarrow> mips_instruction \<Rightarrow> mips_instruction" where
  "SET_OPCODE v i = i\<lparr>inst_opcode := v\<rparr>"

definition SET_ENCODING :: "32 word \<Rightarrow> mips_instruction \<Rightarrow> mips_instruction" where
  "SET_ENCODING v i = i\<lparr>inst_encoding := v\<rparr>"

definition make_r_type_inst :: "int \<Rightarrow> byte \<Rightarrow> byte \<Rightarrow> byte \<Rightarrow> mips_instruction" where
  "make_r_type_inst opcode rd rs rt =
     SET_SHAMT 0 (SET_RD rd (SET_RT rt (SET_RS rs (SET_OPCODE opcode zero_inst))))"

definition mk_r_inst :: "32 word \<Rightarrow> int \<Rightarrow> byte \<Rightarrow> byte \<Rightarrow> byte \<Rightarrow> byte \<Rightarrow> mips_instruction" where
  "mk_r_inst val opcode rs rt rd shamt =
     SET_ENCODING val (SET_SHAMT shamt (SET_RD rd (SET_RT rt (SET_RS rs (SET_OPCODE opcode zero_inst)))))"

definition mk_co_r_inst :: "32 word \<Rightarrow> int \<Rightarrow> byte \<Rightarrow> byte \<Rightarrow> byte \<Rightarrow> mips_instruction" where
  "mk_co_r_inst val opcode fs ft fd =
     SET_ENCODING val (SET_SHAMT fd (SET_RT ft (SET_RD fs (SET_OPCODE opcode zero_inst))))"

definition mk_i_inst :: "32 word \<Rightarrow> int \<Rightarrow> byte \<Rightarrow> byte \<Rightarrow> half \<Rightarrow> mips_instruction" where
  "mk_i_inst val opcode rs rt offset =
     SET_ENCODING val (SET_IMM offset (SET_RT rt (SET_RS rs (SET_OPCODE opcode zero_inst))))"

definition mk_j_inst :: "32 word \<Rightarrow> int \<Rightarrow> 32 word \<Rightarrow> mips_instruction" where
  "mk_j_inst val opcode target =
     SET_ENCODING val (SET_TARGET target (SET_OPCODE opcode zero_inst))"

subsection \<open>Encoding\<close>

definition REGS :: "32 word \<Rightarrow> nat \<Rightarrow> 32 word" where
  "REGS r off = push_bit off (r AND 0x1f)"

text \<open>The operand bits of an instruction, by operand shape; \<open>None\<close> is \<^verbatim>\<open>fatal_error\<close>.\<close>

fun encode_fields :: "op_type \<Rightarrow> mips_instruction \<Rightarrow> 32 word option" where
  "encode_fields BRANCH_COPROC_COND_INST i = Some (REGS (push_bit 2 (of_nat (CC i))) 16 OR ucast (IMM i))"
| "encode_fields BRANCH_RS_LABEL_INST i = Some (REGS (ucast (RS i)) 21 OR ucast (IMM i))"
| "encode_fields RS_IMM_INST i = Some (REGS (ucast (RS i)) 21 OR ucast (IMM i))"
| "encode_fields RT_IMM_INST i = Some (REGS (ucast (RS i)) 21 OR REGS (ucast (RT i)) 16 OR ucast (IMM i))"
| "encode_fields RT_RS_IMM_INST i = Some (REGS (ucast (RS i)) 21 OR REGS (ucast (RT i)) 16 OR ucast (IMM i))"
| "encode_fields BRANCH_RS_RT_LABEL_INST i =
     Some (REGS (ucast (RS i)) 21 OR REGS (ucast (RT i)) 16 OR ucast (IMM i))"
| "encode_fields RT_ADDR_INST i = Some (REGS (ucast (BASE i)) 21 OR REGS (ucast (RT i)) 16 OR ucast (IMM i))"
| "encode_fields RS_INST i = Some (REGS (ucast (RS i)) 21)"
| "encode_fields RD_INST i = Some (REGS (ucast (RD i)) 11)"
| "encode_fields RT_COPREG_INST i = Some (REGS (ucast (RT i)) 16 OR REGS (ucast (RD i)) 11)"
| "encode_fields RS_RT_INST i = Some (REGS (ucast (RS i)) 21 OR REGS (ucast (RT i)) 16)"
| "encode_fields RD_RS_INST i = Some (REGS (ucast (RS i)) 21 OR REGS (ucast (RD i)) 11)"
| "encode_fields RD_RT_SHAMT_INST i =
     Some (REGS (ucast (RT i)) 16 OR REGS (ucast (RD i)) 11 OR REGS (ucast (SHAMT i)) 6)"
| "encode_fields RD_RS_RT_INST i =
     Some (REGS (ucast (RS i)) 21 OR REGS (ucast (RT i)) 16 OR REGS (ucast (RD i)) 11)"
| "encode_fields RD_RT_RS_INST i =
     Some (REGS (ucast (RS i)) 21 OR REGS (ucast (RT i)) 16 OR REGS (ucast (RD i)) 11)"
| "encode_fields FP_FT_ADDR_INST i = Some (REGS (ucast (BASE i)) 21 OR REGS (ucast (RT i)) 16 OR ucast (IMM i))"
| "encode_fields FP_FD_FS_INST i = Some (REGS (ucast (FS i)) 11 OR REGS (ucast (FD i)) 6)"
| "encode_fields FP_RT_COPREG_INST i = Some (REGS (ucast (RT i)) 16 OR REGS (ucast (FS i)) 11)"
| "encode_fields FP_CMP_FS_FT_INST i =
     Some (REGS (ucast (FT i)) 16 OR REGS (ucast (FS i)) 11 OR REGS (ucast (FD i)) 6 OR ucast (COND i))"
| "encode_fields FP_FD_FS_FT_INST i =
     Some (REGS (ucast (FT i)) 16 OR REGS (ucast (FS i)) 11 OR REGS (ucast (FD i)) 6)"
| "encode_fields MOVC_TYPE_INST i =
     Some (REGS (ucast (RS i)) 21 OR REGS (ucast (RT i)) 16 OR REGS (ucast (RD i)) 11)"
| "encode_fields FP_MOVC_TYPE_INST i =
     Some (REGS (of_nat (CC i)) 18 OR REGS (ucast (FS i)) 11 OR REGS (ucast (FD i)) 6)"
| "encode_fields J_TYPE_INST i = Some (TARGET i)"
| "encode_fields NOARG_TYPE_INST i = Some 0"
| "encode_fields ASM_DIR i = None"
| "encode_fields PSEUDO_OP i = None"
| "encode_fields FP_FD_FR_FS_FT_INST i = None"

text \<open>\<^verbatim>\<open>inst_encode\<close> of an instruction that is there; a token without a row encodes to 0.\<close>

definition inst_encode :: "mips_instruction \<Rightarrow> 32 word option" where
  "inst_encode i =
     (case map_int_to_name_val_val (sort_table i_opcode_tbl) (OPCODE i) of
        None \<Rightarrow> Some 0
      | Some entry \<Rightarrow>
          (case map_int_to_name_val_val (sort_table name_tbl) (OPCODE i) of
             None \<Rightarrow> None
           | Some e2 \<Rightarrow> map_option (\<lambda>fields. value2 entry OR fields) (encode_fields (value2 e2) i)))"

subsection \<open>Decoding\<close>

definition BIN_REG :: "32 word \<Rightarrow> nat \<Rightarrow> byte" where
  "BIN_REG v off = ucast (drop_bit off v AND 0x1f)"

abbreviation BIN_RS :: "32 word \<Rightarrow> byte" where "BIN_RS v \<equiv> BIN_REG v 21"
abbreviation BIN_RT :: "32 word \<Rightarrow> byte" where "BIN_RT v \<equiv> BIN_REG v 16"
abbreviation BIN_RD :: "32 word \<Rightarrow> byte" where "BIN_RD v \<equiv> BIN_REG v 11"
abbreviation BIN_SHAMT :: "32 word \<Rightarrow> byte" where "BIN_SHAMT v \<equiv> BIN_REG v 6"
abbreviation BIN_FT :: "32 word \<Rightarrow> byte" where "BIN_FT v \<equiv> BIN_REG v 16"
abbreviation BIN_FS :: "32 word \<Rightarrow> byte" where "BIN_FS v \<equiv> BIN_REG v 11"
abbreviation BIN_FD :: "32 word \<Rightarrow> byte" where "BIN_FD v \<equiv> BIN_REG v 6"

text \<open>The bits the decoder looks the operation up with.\<close>

definition a_opcode_of :: "32 word \<Rightarrow> 32 word" where
  "a_opcode_of val =
     (let a = val AND 0xfc000000 in
      if a = 0 \<or> a = 0x70000000 then a OR (val AND 0x3f)
      else if a = 0x04000000 then a OR (val AND 0x001f0000)
      else if a = 0x40000000 then a OR ((val AND 0x03e00000) OR (val AND 0x1f))
      else if a = 0x44000000 then
        (let a = a OR (val AND 0x03e00000) in
         if val AND 0xff000000 = 0x45000000 then a OR (val AND 0x00010000)
         else a OR (val AND 0x3f))
      else if a = 0x48000000 \<or> a = 0x4c000000 then a OR (val AND 0x03e00000)
      else a)"

fun decode_fields :: "op_type \<Rightarrow> 32 word \<Rightarrow> int \<Rightarrow> mips_instruction" where
  "decode_fields BRANCH_COPROC_COND_INST v op = mk_i_inst v op (BIN_RS v) (BIN_RT v) (ucast v)"
| "decode_fields BRANCH_RS_LABEL_INST v op = mk_i_inst v op (BIN_RS v) 0 (ucast v)"
| "decode_fields RS_IMM_INST v op = mk_i_inst v op (BIN_RS v) 0 (ucast v)"
| "decode_fields RT_IMM_INST v op = mk_i_inst v op (BIN_RS v) (BIN_RT v) (ucast v)"
| "decode_fields RT_RS_IMM_INST v op = mk_i_inst v op (BIN_RS v) (BIN_RT v) (ucast v)"
| "decode_fields BRANCH_RS_RT_LABEL_INST v op = mk_i_inst v op (BIN_RS v) (BIN_RT v) (ucast v)"
| "decode_fields RT_ADDR_INST v op = mk_i_inst v op (BIN_RS v) (BIN_RT v) (ucast v)"
| "decode_fields RS_INST v op = mk_r_inst v op (BIN_RS v) 0 0 0"
| "decode_fields RD_INST v op = mk_r_inst v op 0 0 (BIN_RD v) 0"
| "decode_fields RT_COPREG_INST v op = mk_r_inst v op 0 (BIN_RT v) (BIN_RD v) 0"
| "decode_fields RS_RT_INST v op = mk_r_inst v op (BIN_RS v) (BIN_RT v) 0 0"
| "decode_fields RD_RS_INST v op = mk_r_inst v op (BIN_RS v) 0 (BIN_RD v) 0"
| "decode_fields RD_RT_SHAMT_INST v op = mk_r_inst v op 0 (BIN_RT v) (BIN_RD v) (BIN_SHAMT v)"
| "decode_fields RD_RS_RT_INST v op = mk_r_inst v op (BIN_RS v) (BIN_RT v) (BIN_RD v) 0"
| "decode_fields RD_RT_RS_INST v op = mk_r_inst v op (BIN_RS v) (BIN_RT v) (BIN_RD v) 0"
| "decode_fields FP_FT_ADDR_INST v op = mk_i_inst v op (BIN_RS v) (BIN_FT v) (ucast v)"
| "decode_fields FP_FD_FS_INST v op = mk_co_r_inst v op (BIN_FS v) 0 (BIN_FD v)"
| "decode_fields FP_RT_COPREG_INST v op = mk_r_inst v op 0 (BIN_RT v) (BIN_FS v) 0"
| "decode_fields FP_CMP_FS_FT_INST v op =
     SET_RS (ucast (v AND 0xf)) (mk_r_inst v op (BIN_FS v) (BIN_FT v) (BIN_FD v) 0)"
| "decode_fields FP_FD_FS_FT_INST v op = mk_co_r_inst v op (BIN_FS v) (BIN_FT v) (BIN_FD v)"
| "decode_fields MOVC_TYPE_INST v op = mk_r_inst v op (BIN_RS v) (BIN_RT v) (BIN_RD v) 0"
| "decode_fields FP_MOVC_TYPE_INST v op = mk_r_inst v op (BIN_FS v) (BIN_RT v) (BIN_FD v) 0"
| "decode_fields J_TYPE_INST v op = mk_j_inst v op (v AND 0x3ffffff)"
| "decode_fields NOARG_TYPE_INST v op = mk_r_inst v op 0 0 0 0"
| "decode_fields ASM_DIR v op = mk_r_inst v 0 0 0 0 0"
| "decode_fields PSEUDO_OP v op = mk_r_inst v 0 0 0 0 0"
| "decode_fields FP_FD_FR_FS_FT_INST v op = mk_r_inst v 0 0 0 0 0"

text \<open>
  \<^verbatim>\<open>inst_decode\<close>. The row found by its encoding has a token of the same list, so the second
  lookup always succeeds (lemma \<open>decode_second_lookup\<close>); its \<open>None\<close> branch is a null
  dereference in C and is mapped to the invalid instruction here.
\<close>

definition inst_decode :: "32 word \<Rightarrow> mips_instruction" where
  "inst_decode val =
     (case map_int_to_name_val_val (sort_table a_opcode_tbl) (sint (a_opcode_of val)) of
        None \<Rightarrow> mk_r_inst val 0 0 0 0 0
      | Some entry \<Rightarrow>
          (case map_int_to_name_val_val (sort_table name_tbl) (value2 entry) of
             None \<Rightarrow> mk_r_inst val 0 0 0 0 0
           | Some e2 \<Rightarrow> decode_fields (value2 e2) val (value2 entry)))"

subsection \<open>Bit fields\<close>

lemma BIN_REG_or: "BIN_REG (a OR b) off = BIN_REG a off OR BIN_REG b off"
  by (simp add: BIN_REG_def word_eq_bits bit_simps)

lemma BIN_REG_REGS [simp]:
  "BIN_REG (REGS r 21) 21 = ucast (r AND 0x1f)" "BIN_REG (REGS r 16) 21 = 0"
  "BIN_REG (REGS r 11) 21 = 0" "BIN_REG (REGS r 6) 21 = 0"
  "BIN_REG (REGS r 21) 16 = 0" "BIN_REG (REGS r 16) 16 = ucast (r AND 0x1f)"
  "BIN_REG (REGS r 11) 16 = 0" "BIN_REG (REGS r 6) 16 = 0"
  "BIN_REG (REGS r 21) 11 = 0" "BIN_REG (REGS r 16) 11 = 0"
  "BIN_REG (REGS r 11) 11 = ucast (r AND 0x1f)" "BIN_REG (REGS r 6) 11 = 0"
  "BIN_REG (REGS r 21) 6 = 0" "BIN_REG (REGS r 16) 6 = 0"
  "BIN_REG (REGS r 11) 6 = 0" "BIN_REG (REGS r 6) 6 = ucast (r AND 0x1f)"
  by (simp_all add: BIN_REG_def REGS_def word_eq_bits bit_simps)

lemma BIN_REG_imm [simp]: "BIN_REG (ucast (h::half)) 21 = 0" "BIN_REG (ucast (h::half)) 16 = 0"
  by (simp_all add: BIN_REG_def word_eq_bits bit_simps)

lemma imm_REGS [simp]: "(ucast (REGS r 21) :: half) = 0" "(ucast (REGS r 16) :: half) = 0"
  by (simp_all add: REGS_def word_eq_bits bit_simps)

lemma ucast_or: "(ucast (a OR b) :: 'b::len word) = ucast a OR ucast (b :: 'a::len word)"
  by (rule bit_word_eqI) (auto simp: bit_simps)

lemma ucast_ucast_half [simp]: "(ucast (ucast (h::half) :: 32 word) :: half) = h"
  by (rule bit_word_eqI) (auto simp: bit_simps)

lemma reg5 [simp]:
  fixes r :: byte
  assumes "r < 32"
  shows "ucast ((ucast r :: 32 word) AND 0x1f) = r"
proof -
  from assms have "unat r < 32" by (simp add: word_less_nat_alt)
  then have "take_bit 5 r = r"
    by (simp add: word_unat_eq_iff unsigned_take_bit_eq take_bit_nat_eq_self)
  then have "bit r n \<Longrightarrow> n < 5" for n by (metis bit_take_bit_iff)
  from this [of 5] this [of 6] this [of 7] have "\<not> bit r 5" "\<not> bit r 6" "\<not> bit r 7" by auto
  then show ?thesis by (simp add: word_eq_bits bit_simps)
qed

text \<open>A masked-out field reads 0.\<close>

lemma and_zero_sub:
  fixes e m k :: "32 word"
  assumes "e AND m = 0" and "k AND m = k"
  shows "e AND k = 0"
proof -
  have "e AND k = (e AND m) AND k" using assms(2) by (metis and.assoc and.commute)
  with assms(1) show ?thesis by simp
qed

lemma BIN_REG_masked:
  assumes "e AND m = 0" and "push_bit off 0x1f AND m = push_bit off (0x1f :: 32 word)"
  shows "BIN_REG e off = 0"
proof -
  from assms have "e AND push_bit off 0x1f = 0" by (rule and_zero_sub)
  then have "drop_bit off (e AND push_bit off 0x1f) = 0" by simp
  then have "drop_bit off e AND drop_bit off (push_bit off 0x1f) = 0"
    by (simp only: drop_bit_and)
  moreover have "drop_bit off e AND 0x1f = drop_bit off e AND 0x1f AND drop_bit off (push_bit off 0x1f)"
    by (rule bit_word_eqI) (auto simp: bit_simps dest: bit_imp_le_length)
  ultimately have "drop_bit off e AND 0x1f = 0" by (metis and.left_commute and_zero_eq)
  then show ?thesis by (simp add: BIN_REG_def)
qed

lemma imm_masked:
  assumes "e AND m = 0" and "0xffff AND m = (0xffff :: 32 word)"
  shows "(ucast e :: half) = 0"
proof -
  from assms have "e AND 0xffff = 0" by (rule and_zero_sub)
  then show ?thesis by (simp add: word_eq_bits bit_simps)
qed

lemma imm_rd_shamt: "inst_imm i = push_bit 8 (ucast (SHAMT i)) OR ucast (RD i)"
  by (simp add: SHAMT_def RD_def word_eq_bits bit_simps)

lemmas set_field_defs = SET_ENCODING_def SET_SHAMT_def SET_RD_def SET_RT_def SET_RS_def
  SET_OPCODE_def SET_IMM_def SET_TARGET_def
lemmas get_field_defs = RS_def RT_def RD_def SHAMT_def IMM_def TARGET_def OPCODE_def

text \<open>An instruction as the decoder rebuilds it.\<close>

definition rebuilt :: "32 word \<Rightarrow> mips_instruction \<Rightarrow> mips_instruction" where
  "rebuilt v i = i\<lparr>inst_encoding := v, inst_expr := None, inst_source := None\<rparr>"

lemma mk_r_inst_rebuilt:
  "rs = RS i \<Longrightarrow> rt = RT i \<Longrightarrow> rd = RD i \<Longrightarrow> sh = SHAMT i \<Longrightarrow>
   mk_r_inst v (OPCODE i) rs rt rd sh = rebuilt v i"
  by (simp add: mk_r_inst_def rebuilt_def set_field_defs get_field_defs zero_inst_def
      word_eq_bits bit_simps)

lemma mk_co_r_inst_rebuilt:
  "RS i = 0 \<Longrightarrow> rt = RT i \<Longrightarrow> rd = RD i \<Longrightarrow> sh = SHAMT i \<Longrightarrow>
   mk_co_r_inst v (OPCODE i) rd rt sh = rebuilt v i"
  by (simp add: mk_co_r_inst_def rebuilt_def set_field_defs get_field_defs zero_inst_def
      word_eq_bits bit_simps)

lemma mk_i_inst_rebuilt:
  "rs = RS i \<Longrightarrow> rt = RT i \<Longrightarrow> im = IMM i \<Longrightarrow> mk_i_inst v (OPCODE i) rs rt im = rebuilt v i"
  by (simp add: mk_i_inst_def rebuilt_def set_field_defs get_field_defs zero_inst_def)

lemma mk_j_inst_rebuilt: "tg = TARGET i \<Longrightarrow> mk_j_inst v (OPCODE i) tg = rebuilt v i"
  by (simp add: mk_j_inst_def rebuilt_def set_field_defs get_field_defs zero_inst_def
      word_eq_bits bit_simps)

subsection \<open>The decoder's key\<close>

definition key_mask :: "32 word \<Rightarrow> 32 word" where
  "key_mask v =
     (let a = v AND 0xfc000000 in
      if a = 0 \<or> a = 0x70000000 then 0xfc00003f
      else if a = 0x04000000 then 0xfc1f0000
      else if a = 0x40000000 then 0xffe0001f
      else if a = 0x44000000 then (if v AND 0xff000000 = 0x45000000 then 0xffe10000 else 0xffe0003f)
      else if a = 0x48000000 \<or> a = 0x4c000000 then 0xffe00000
      else 0xfc000000)"

lemma and_or_masks: "(v AND a) OR (v AND b) = (v::32 word) AND (a OR b)"
  by (simp add: bit.conj_disj_distrib)

lemma a_opcode_of_mask: "a_opcode_of v = v AND key_mask v"
  unfolding a_opcode_of_def key_mask_def Let_def
  by (simp only: and_or_masks if_distrib [of "\<lambda>m. v AND m"]) simp

lemma key_mask_or:
  assumes "f AND key_mask e = 0"
  shows "key_mask (e OR f) = key_mask e"
proof -
  have "0xfc000000 AND key_mask e = 0xfc000000" by (simp add: key_mask_def Let_def)
  with assms have fc: "f AND 0xfc000000 = 0" by (rule and_zero_sub)
  then have a: "(e OR f) AND 0xfc000000 = e AND 0xfc000000"
    by (simp add: bit.conj_disj_distrib2)
  show ?thesis
  proof (cases "e AND 0xfc000000 = 0x44000000")
    case True
    then have "0xff000000 AND key_mask e = 0xff000000" by (simp add: key_mask_def Let_def)
    with assms have "f AND 0xff000000 = 0" by (rule and_zero_sub)
    then have "(e OR f) AND 0xff000000 = e AND 0xff000000"
      by (simp add: bit.conj_disj_distrib2)
    with a show ?thesis by (simp add: key_mask_def Let_def)
  next
    case False
    with a show ?thesis by (simp add: key_mask_def Let_def)
  qed
qed

subsection \<open>Decoding undoes encoding\<close>

text \<open>The bits of the word that the operands of a shape occupy.\<close>

definition kind_mask :: "op_type \<Rightarrow> 32 word" where
  "kind_mask k = (case k of
     RD_RS_RT_INST \<Rightarrow> 0x03fff800 | RD_RT_RS_INST \<Rightarrow> 0x03fff800 | MOVC_TYPE_INST \<Rightarrow> 0x03fff800
   | RT_RS_IMM_INST \<Rightarrow> 0x03ffffff | BRANCH_RS_RT_LABEL_INST \<Rightarrow> 0x03ffffff
   | RT_ADDR_INST \<Rightarrow> 0x03ffffff | RT_IMM_INST \<Rightarrow> 0x03ffffff | FP_FT_ADDR_INST \<Rightarrow> 0x03ffffff
   | BRANCH_RS_LABEL_INST \<Rightarrow> 0x03e0ffff | RS_IMM_INST \<Rightarrow> 0x03e0ffff
   | RS_INST \<Rightarrow> 0x03e00000 | RD_INST \<Rightarrow> 0x0000f800 | RS_RT_INST \<Rightarrow> 0x03ff0000
   | RD_RS_INST \<Rightarrow> 0x03e0f800 | RT_COPREG_INST \<Rightarrow> 0x001ff800 | FP_RT_COPREG_INST \<Rightarrow> 0x001ff800
   | RD_RT_SHAMT_INST \<Rightarrow> 0x001fffc0 | FP_FD_FS_INST \<Rightarrow> 0x0000ffc0 | FP_FD_FS_FT_INST \<Rightarrow> 0x001fffc0
   | J_TYPE_INST \<Rightarrow> 0x03ffffff
   | _ \<Rightarrow> 0)"

text \<open>
  The shapes whose decoder reads the fields the encoder wrote, and the instructions of such a
  shape that leave the fields the shape does not use at 0.
\<close>

fun canonical :: "op_type \<Rightarrow> mips_instruction \<Rightarrow> bool" where
  "canonical RD_RS_RT_INST i = (inst_wf i \<and> SHAMT i = 0)"
| "canonical RD_RT_RS_INST i = (inst_wf i \<and> SHAMT i = 0)"
| "canonical MOVC_TYPE_INST i = (inst_wf i \<and> SHAMT i = 0)"
| "canonical RT_RS_IMM_INST i = (RS i < 32 \<and> RT i < 32)"
| "canonical BRANCH_RS_RT_LABEL_INST i = (RS i < 32 \<and> RT i < 32)"
| "canonical RT_ADDR_INST i = (RS i < 32 \<and> RT i < 32)"
| "canonical RT_IMM_INST i = (RS i < 32 \<and> RT i < 32)"
| "canonical FP_FT_ADDR_INST i = (RS i < 32 \<and> RT i < 32)"
| "canonical BRANCH_RS_LABEL_INST i = (RS i < 32 \<and> RT i = 0)"
| "canonical RS_IMM_INST i = (RS i < 32 \<and> RT i = 0)"
| "canonical RS_INST i = (RS i < 32 \<and> RT i = 0 \<and> RD i = 0 \<and> SHAMT i = 0)"
| "canonical RD_INST i = (RS i = 0 \<and> RT i = 0 \<and> RD i < 32 \<and> SHAMT i = 0)"
| "canonical RS_RT_INST i = (RS i < 32 \<and> RT i < 32 \<and> RD i = 0 \<and> SHAMT i = 0)"
| "canonical RD_RS_INST i = (RS i < 32 \<and> RT i = 0 \<and> RD i < 32 \<and> SHAMT i = 0)"
| "canonical RT_COPREG_INST i = (RS i = 0 \<and> RT i < 32 \<and> RD i < 32 \<and> SHAMT i = 0)"
| "canonical FP_RT_COPREG_INST i = (RS i = 0 \<and> RT i < 32 \<and> RD i < 32 \<and> SHAMT i = 0)"
| "canonical RD_RT_SHAMT_INST i = (RS i = 0 \<and> RT i < 32 \<and> RD i < 32 \<and> SHAMT i < 32)"
| "canonical FP_FD_FS_INST i = (RS i = 0 \<and> RT i = 0 \<and> RD i < 32 \<and> SHAMT i < 32)"
| "canonical FP_FD_FS_FT_INST i = (RS i = 0 \<and> RT i < 32 \<and> RD i < 32 \<and> SHAMT i < 32)"
| "canonical J_TYPE_INST i = (TARGET i AND 0x03ffffff = TARGET i)"
| "canonical NOARG_TYPE_INST i = (RS i = 0 \<and> RT i = 0 \<and> RD i = 0 \<and> SHAMT i = 0)"
| "canonical k i = False"

lemma encode_within:
  assumes "canonical k i" and "encode_fields k i = Some f"
  shows "f AND kind_mask k = f"
  using assms
  by (cases k) (auto simp: kind_mask_def REGS_def word_eq_bits bit_simps)

lemma decode_encode_fields:
  assumes "canonical k i" and "encode_fields k i = Some f" and "e AND kind_mask k = 0"
  shows "decode_fields k (e OR f) (OPCODE i) = rebuilt (e OR f) i"
proof -
  note masked = BIN_REG_masked [OF assms(3)] imm_masked [OF assms(3)]
  have j: "k = J_TYPE_INST \<Longrightarrow> (e OR f) AND 0x3ffffff = TARGET i"
    using assms by (auto simp: kind_mask_def bit.conj_disj_distrib2)
  show ?thesis
    using assms(1,2) j
    by (cases k)
      (auto simp: BIN_REG_or ucast_or masked kind_mask_def inst_wf_def
        intro!: mk_r_inst_rebuilt mk_co_r_inst_rebuilt mk_i_inst_rebuilt mk_j_inst_rebuilt)
qed

text \<open>
  A row the decoder recognises by its own encoding: the encoding leaves the operand bits
  free, and the bits the decoder looks at are exactly those of the encoding.
\<close>

definition decodable :: "op_row \<Rightarrow> bool" where
  "decodable r \<longleftrightarrow> op_enc r AND kind_mask (op_kind r) = 0 \<and> a_opcode_of (op_enc r) = op_enc r \<and>
     key_mask (op_enc r) AND kind_mask (op_kind r) = 0"

lemma a_opcode_of_encoded:
  assumes "decodable r" and "f AND kind_mask (op_kind r) = f"
  shows "a_opcode_of (op_enc r OR f) = op_enc r"
proof -
  have km: "f AND key_mask (op_enc r) = 0"
    using and_zero_sub [of "key_mask (op_enc r)" "kind_mask (op_kind r)" f] assms
    by (simp add: decodable_def and.commute)
  have "a_opcode_of (op_enc r OR f) = (op_enc r OR f) AND key_mask (op_enc r)"
    by (simp add: a_opcode_of_mask key_mask_or [OF km])
  also have "\<dots> = a_opcode_of (op_enc r)"
    by (simp add: a_opcode_of_mask bit.conj_disj_distrib2 km)
  finally show ?thesis using assms(1) by (simp add: decodable_def)
qed

lemma encode_row:
  assumes "r \<in> set opcode_rows" and "OPCODE i = op_tok r"
  shows "inst_encode i = map_option (\<lambda>f. op_enc r OR f) (encode_fields (op_kind r) i)"
  by (simp add: inst_encode_def assms i_opcode_tbl_row name_tbl_row)

lemma decode_row:
  assumes "r \<in> set opcode_rows" and "enc_unique r" and "a_opcode_of v = op_enc r"
  shows "inst_decode v = decode_fields (op_kind r) v (op_tok r)"
  by (simp add: inst_decode_def assms a_opcode_tbl_row name_tbl_row)

lemma decode_inst_encode:
  assumes "r \<in> set opcode_rows" and "enc_unique r" and "decodable r"
    and "OPCODE i = op_tok r" and "canonical (op_kind r) i" and "inst_encode i = Some v"
  shows "inst_decode v = rebuilt v i"
proof -
  from assms(6) obtain f where f: "encode_fields (op_kind r) i = Some f" "v = op_enc r OR f"
    by (auto simp: encode_row [OF assms(1,4)])
  have "a_opcode_of v = op_enc r"
    unfolding f(2) by (rule a_opcode_of_encoded [OF assms(3) encode_within [OF assms(5) f(1)]])
  from decode_row [OF assms(1,2) this]
  have "inst_decode v = decode_fields (op_kind r) v (OPCODE i)" by (simp add: assms(4))
  also have "\<dots> = rebuilt v i"
    unfolding f(2) using assms(3)
    by (intro decode_encode_fields [OF assms(5) f(1)]) (simp add: decodable_def)
  finally show ?thesis .
qed

lemma canonical_encodes: "canonical k i \<Longrightarrow> \<exists>f. encode_fields k i = Some f"
  by (cases k) auto

text \<open>The second lookup of \<^verbatim>\<open>inst_decode\<close> always succeeds.\<close>

lemma decode_second_lookup:
  assumes "map_int_to_name_val_val (sort_table a_opcode_tbl) k = Some entry"
  shows "map_int_to_name_val_val (sort_table name_tbl) (value2 entry) \<noteq> None"
proof -
  from a_opcode_table.found [OF assms] obtain r where "r \<in> set opcode_rows" "value2 entry = op_tok r"
    by (auto simp: a_opcode_tbl_def)
  then show ?thesis by (simp add: name_tbl_row)
qed

lemma BIN_REG_bound: "BIN_REG v off < 32"
proof -
  have "drop_bit off v AND 0x1f \<le> 0x1f" by (rule word_and_le1)
  then have "unat (drop_bit off v AND 0x1f) < 32" by (simp add: word_le_nat_alt)
  then have "unat (BIN_REG v off) < 32" by (simp add: BIN_REG_def unsigned_ucast_eq take_bit_nat_eq_self)
  then show ?thesis by (simp add: word_less_nat_alt)
qed

end
