(* ===== verification/Encodings.thy ===== *)
theory Encodings
  imports Codec
begin

text \<open>
  Facts about the concrete instruction list: which encodings occur once, hence for which
  instructions the decoder inverts the encoder, and the instructions it confuses.
\<close>

subsection \<open>Which encodings occur once\<close>

text \<open>
  The encodings of the rows as integers, in blocks, so that the simplifier evaluates facts
  about the whole list quickly.
\<close>

definition row_encs :: "int list" where
  "row_encs = map (\<lambda>r. uint (op_enc r)) opcode_rows"

lemma encs_1: "map (\<lambda>r. uint (op_enc r)) opcode_rows_1 = [
     4294967295, 4294967295, 4294967295, 4294967295, 4294967295, 4294967295, 4294967295,
      4294967295, 4294967295, 4294967295, 4294967295, 4294967295, 4294967295, 4294967295,
      4294967295, 4294967295]"
  by (simp add: opcode_rows_1_def)

lemma encs_2: "map (\<lambda>r. uint (op_enc r)) opcode_rows_2 = [
     4294967295, 4294967295, 4294967295, 4294967295, 4294967295, 4294967295, 4294967295,
      4294967295, 4294967295, 4294967295, 4294967295, 4294967295, 4294967295, 4294967295,
      4294967295, 4294967295]"
  by (simp add: opcode_rows_2_def)

lemma encs_3: "map (\<lambda>r. uint (op_enc r)) opcode_rows_3 = [
     4294967295, 4294967295, 4294967295, 4294967295, 4294967295, 4294967295, 4294967295,
      4294967295, 4294967295, 4294967295, 1176502277, 1180696581, 1174405125, 32,
      1176502272, 1180696576]"
  by (simp add: opcode_rows_3_def)

lemma encs_4: "map (\<lambda>r. uint (op_enc r)) opcode_rows_4 = [
     1174405120, 536870912, 603979776, 33, 1275068446, 36, 805306368, 4294967295,
      4294967295, 1157627904, 1157758976, 1157693440, 1157824512, 1224736768, 1224867840,
      1224802304]"
  by (simp add: opcode_rows_4_def)

lemma encs_5: "map (\<lambda>r. uint (op_enc r)) opcode_rows_5 = [
     1224933376, 268435456, 1342177280, 4294967295, 4294967295, 4294967295, 67174400,
      68222976, 68354048, 67305472, 4294967295, 4294967295, 469762048, 1543503872,
      4294967295, 4294967295]"
  by (simp add: opcode_rows_5_def)

lemma encs_6: "map (\<lambda>r. uint (op_enc r)) opcode_rows_6 = [
     402653184, 1476395008, 4294967295, 4294967295, 67108864, 68157440, 68288512,
      67239936, 335544320, 1409286144, 4294967295, 13, 1176502322, 1180696626, 1174405170,
      1176502320]"
  by (simp add: opcode_rows_6_def)

lemma encs_7: "map (\<lambda>r. uint (op_enc r)) opcode_rows_7 = [
     1180696624, 1174405168, 1176502334, 1180696638, 1174405182, 1176502332, 1180696636,
      1174405180, 1176502333, 1180696637, 1174405181, 1176502331, 1180696635, 1174405179,
      1176502329, 1180696633]"
  by (simp add: opcode_rows_7_def)

lemma encs_8: "map (\<lambda>r. uint (op_enc r)) opcode_rows_8 = [
     1174405177, 1176502335, 1180696639, 1174405183, 1176502326, 1180696630, 1174405174,
      1176502324, 1180696628, 1174405172, 1176502330, 1180696634, 1174405178, 1176502328,
      1180696632, 1174405176]"
  by (simp add: opcode_rows_8_def)

lemma encs_9: "map (\<lambda>r. uint (op_enc r)) opcode_rows_9 = [
     1176502323, 1180696627, 1174405171, 1176502327, 1180696631, 1174405175, 1176502325,
      1180696629, 1174405173, 1176502321, 1180696625, 1174405169, 3154116608, 1176502282,
      1174405130, 1176502286]"
  by (simp add: opcode_rows_9_def)

lemma encs_10: "map (\<lambda>r. uint (op_enc r)) opcode_rows_10 = [
     1174405134, 1077936128, 1145044992, 1212153856, 1879048225, 1879048224, 1241513984,
      1086324736, 1153433600, 1220542464, 1185939489, 1174405153, 1176502305, 1176502309,
      1174405157, 1174405158]"
  by (simp add: opcode_rows_10_def)

lemma encs_11: "map (\<lambda>r. uint (op_enc r)) opcode_rows_11 = [
     1176502304, 1185939488, 1186988068, 1186988064, 1182793760, 1176502308, 1174405156,
      1107296287, 1096835072, 26, 1176502275, 1174405123, 27, 192, 1096835104, 1107296280]"
  by (simp add: opcode_rows_11_def)

lemma encs_12: "map (\<lambda>r. uint (op_enc r)) opcode_rows_12 = [
     2080374784, 1176502283, 1174405131, 1176502287, 1174405135, 2080374788, 134217728,
      201326592, 9, 1033, 8, 1032, 4294967295, 4294967295, 4294967295, 2147483648]"
  by (simp add: opcode_rows_12_def)

lemma encs_13: "map (\<lambda>r. uint (op_enc r)) opcode_rows_13 = [
     2415919104, 4294967295, 3556769792, 3623878656, 1275068417, 2214592512, 2483027968,
      4294967295, 4294967295, 4294967295, 3221225472, 1006632960, 1275068421, 2348810240,
      3288334336, 3355443200]"
  by (simp add: opcode_rows_13_def)

lemma encs_14: "map (\<lambda>r. uint (op_enc r)) opcode_rows_14 = [
     2281701376, 2550136832, 1275068416, 1879048192, 1275068417, 1275068422, 1275068416,
      1879048193, 1073741824, 1140850688, 4294967295, 1207959552, 1147142144, 1214251008,
      16, 18]"
  by (simp add: opcode_rows_14_def)

lemma encs_15: "map (\<lambda>r. uint (op_enc r)) opcode_rows_15 = [
     1176502278, 1186988038, 1174405126, 4294967295, 1, 1176502289, 1186988049,
      1174405137, 11, 1176502291, 1186988051, 1174405139, 65537, 1176567825, 1187053585,
      1174470673]"
  by (simp add: opcode_rows_15_def)

lemma encs_16: "map (\<lambda>r. uint (op_enc r)) opcode_rows_16 = [
     10, 1176502290, 1186988050, 1174405138, 1879048196, 1275068449, 1275068454,
      1275068448, 1879048197, 1082130432, 1149239296, 4294967295, 1216348160, 1155530752,
      1222639616, 17]"
  by (simp add: opcode_rows_16_def)

lemma encs_17: "map (\<lambda>r. uint (op_enc r)) opcode_rows_17 = [
     19, 1879048194, 1176502274, 1186988034, 1174405122, 4294967295, 4294967295, 24, 25,
      4294967295, 1176502279, 1186988039, 1174405127, 4294967295, 1275068465, 1275068470]"
  by (simp add: opcode_rows_17_def)

lemma encs_18: "map (\<lambda>r. uint (op_enc r)) opcode_rows_18 = [
     1275068464, 1275068473, 1275068478, 1275068472, 4294967295, 39, 4294967295, 37,
      872415232, 1186988076, 1186988077, 3422552064, 1174405135, 1186988078, 1186988079,
      2080374843]"
  by (simp add: opcode_rows_18_def)

lemma encs_19: "map (\<lambda>r. uint (op_enc r)) opcode_rows_19 = [
     1094713344, 1176502293, 1174405141, 4294967295, 4294967295, 1107296272, 4294967295,
      4294967295, 2097154, 2097155, 1176502280, 1174405128, 1176502284, 1174405132,
      1176502294, 1174405142]"
  by (simp add: opcode_rows_19_def)

lemma encs_20: "map (\<lambda>r. uint (op_enc r)) opcode_rows_20 = [
     4294967295, 4294967295, 2684354560, 3758096384, 4294967295, 1879048255, 4093640704,
      4160749568, 1174405129, 2080375840, 2080376352, 4294967295, 4294967295, 4294967295,
      4294967295, 4294967295]"
  by (simp add: opcode_rows_20_def)

lemma encs_21: "map (\<lambda>r. uint (op_enc r)) opcode_rows_21 = [
     2751463424, 4294967295, 4294967295, 0, 4, 42, 671088640, 738197504, 43, 4294967295,
      1176502276, 1174405124, 3, 7, 2, 6]"
  by (simp add: opcode_rows_21_def)

lemma encs_22: "map (\<lambda>r. uint (op_enc r)) opcode_rows_22 = [
     64, 34, 1176502273, 1180696577, 1174405121, 35, 1174405133, 2885681152, 3825205248,
      3892314112, 2818572288, 3087007744, 1174405128, 15, 68419584, 12]"
  by (simp add: opcode_rows_22_def)

lemma encs_23: "map (\<lambda>r. uint (op_enc r)) opcode_rows_23 = [
     52, 67895296, 48, 67633152, 67698688, 49, 1107296264, 1107296257, 1107296258,
      1107296262, 50, 67764224, 67829760, 51, 54, 68026368]"
  by (simp add: opcode_rows_23_def)

lemma encs_24: "map (\<lambda>r. uint (op_enc r)) opcode_rows_24 = [
     1176502281, 1174405129, 1176502285, 1174405133, 4294967295, 4294967295, 4294967295,
      4294967295, 4294967295, 1103101952, 2080374944, 38, 939524096]"
  by (simp add: opcode_rows_24_def)

lemmas encs = encs_1 encs_2 encs_3 encs_4 encs_5 encs_6 encs_7 encs_8 encs_9 encs_10 encs_11 encs_12
  encs_13 encs_14 encs_15 encs_16 encs_17 encs_18 encs_19 encs_20 encs_21 encs_22 encs_23
  encs_24

lemma filter_row_encs: "filter P row_encs =
     filter P (map (\<lambda>r. uint (op_enc r)) opcode_rows_1) @ filter P (map (\<lambda>r.
     uint (op_enc r)) opcode_rows_2) @ filter P (map (\<lambda>r. uint (op_enc r))
     opcode_rows_3) @ filter P (map (\<lambda>r. uint (op_enc r)) opcode_rows_4) @ filter P
     (map (\<lambda>r. uint (op_enc r)) opcode_rows_5) @ filter P (map (\<lambda>r. uint
     (op_enc r)) opcode_rows_6) @ filter P (map (\<lambda>r. uint (op_enc r)) opcode_rows_7) @
     filter P (map (\<lambda>r. uint (op_enc r)) opcode_rows_8) @ filter P (map (\<lambda>r.
     uint (op_enc r)) opcode_rows_9) @ filter P (map (\<lambda>r. uint (op_enc r))
     opcode_rows_10) @ filter P (map (\<lambda>r. uint (op_enc r)) opcode_rows_11) @ filter P
     (map (\<lambda>r. uint (op_enc r)) opcode_rows_12) @ filter P (map (\<lambda>r. uint
     (op_enc r)) opcode_rows_13) @ filter P (map (\<lambda>r. uint (op_enc r)) opcode_rows_14)
     @ filter P (map (\<lambda>r. uint (op_enc r)) opcode_rows_15) @ filter P (map (\<lambda>r.
     uint (op_enc r)) opcode_rows_16) @ filter P (map (\<lambda>r. uint (op_enc r))
     opcode_rows_17) @ filter P (map (\<lambda>r. uint (op_enc r)) opcode_rows_18) @ filter P
     (map (\<lambda>r. uint (op_enc r)) opcode_rows_19) @ filter P (map (\<lambda>r. uint
     (op_enc r)) opcode_rows_20) @ filter P (map (\<lambda>r. uint (op_enc r)) opcode_rows_21)
     @ filter P (map (\<lambda>r. uint (op_enc r)) opcode_rows_22) @ filter P (map (\<lambda>r.
     uint (op_enc r)) opcode_rows_23) @ filter P (map (\<lambda>r. uint (op_enc r))
     opcode_rows_24)"
  by (simp add: row_encs_def opcode_rows_def)

text \<open>The SPECIAL group, and the groups other than COP1, COP1X, SPECIAL3 and the rows without encoding.\<close>

lemma special_encs: "filter (\<lambda>e. e div 67108864 = 0) row_encs = [
     32, 33, 36, 13, 26, 27, 192, 9, 1033, 8, 1032, 16, 18, 1, 11, 65537, 10, 17, 19,
      24, 25, 39, 37, 2097154, 2097155, 0, 4, 42, 43, 3, 7, 2, 6, 64, 34, 35, 15, 12,
      52, 48, 49, 50, 51, 54, 38]"
  by (simp add: filter_row_encs encs)

lemma other_encs: "filter (\<lambda>e. e div 67108864 \<notin> {0, 17, 19, 31, 63}) row_encs = [
     536870912, 603979776, 805306368, 1224736768, 1224867840, 1224802304, 1224933376,
      268435456, 1342177280, 67174400, 68222976, 68354048, 67305472, 469762048,
      1543503872, 402653184, 1476395008, 67108864, 68157440, 68288512, 67239936,
      335544320, 1409286144, 3154116608, 1077936128, 1212153856, 1879048225, 1879048224,
      1241513984, 1086324736, 1220542464, 1107296287, 1096835072, 1096835104,
      1107296280, 134217728, 201326592, 2147483648, 2415919104, 3556769792, 3623878656,
      2214592512, 2483027968, 3221225472, 1006632960, 2348810240, 3288334336,
      3355443200, 2281701376, 2550136832, 1879048192, 1879048193, 1073741824,
      1207959552, 1214251008, 1879048196, 1879048197, 1082130432, 1216348160,
      1222639616, 1879048194, 872415232, 3422552064, 1094713344, 1107296272, 2684354560,
      3758096384, 1879048255, 4093640704, 4160749568, 2751463424, 671088640, 738197504,
      2885681152, 3825205248, 3892314112, 2818572288, 3087007744, 68419584, 67895296,
      67633152, 67698688, 1107296264, 1107296257, 1107296258, 1107296262, 67764224,
      67829760, 68026368, 1103101952, 939524096]"
  by (simp add: filter_row_encs encs)

lemma special_distinct: "distinct (filter (\<lambda>e. e div 67108864 = 0) row_encs)"
  unfolding special_encs by simp

lemma other_distinct: "distinct (filter (\<lambda>e. e div 67108864 \<notin> {0, 17, 19, 31, 63}) row_encs)"
  unfolding other_encs by simp

lemma distinct_filter_unique:
  assumes "distinct (filter P (map f xs))" and "x \<in> set xs" and "P (f x)"
  shows "filter (\<lambda>y. f y = f x) xs = [x]"
  using assms
proof (induction xs)
  case Nil
  then show ?case by simp
next
  case (Cons y ys)
  show ?case
  proof (cases "x = y")
    case True
    with Cons.prems have "f x \<notin> f ` set ys" by auto
    then have "\<forall>z\<in>set ys. f z \<noteq> f x" by (metis imageI)
    then have "filter (\<lambda>y. f y = f x) ys = []" by (simp add: filter_empty_conv)
    with True show ?thesis by simp
  next
    case False
    with Cons.prems have "x \<in> set ys" "f y \<noteq> f x" by auto
    moreover have "distinct (filter P (map f ys))" using Cons.prems(1) by (auto split: if_splits)
    ultimately show ?thesis using Cons by simp
  qed
qed

text \<open>The primary opcode of a row's encoding is outside the groups with clashes.\<close>

definition clash_free :: "op_row \<Rightarrow> bool" where
  "clash_free r \<longleftrightarrow> uint (op_enc r) div 67108864 \<notin> {17, 19, 31, 63}"

lemma clash_free_unique:
  assumes "r \<in> set opcode_rows" and "clash_free r"
  shows "enc_unique r"
proof -
  let ?f = "\<lambda>r. uint (op_enc r)"
  have "filter (\<lambda>r'. ?f r' = ?f r) opcode_rows = [r]"
  proof (cases "?f r div 67108864 = 0")
    case True
    show ?thesis
      by (rule distinct_filter_unique [OF special_distinct [unfolded row_encs_def] assms(1)])
        (use True in simp)
  next
    case False
    show ?thesis
      by (rule distinct_filter_unique [OF other_distinct [unfolded row_encs_def] assms(1)])
        (use False assms(2) in \<open>auto simp: clash_free_def\<close>)
  qed
  then show ?thesis by (simp add: enc_unique_def word_uint_eq_iff)
qed

subsection \<open>What an encoding holds\<close>

text \<open>
  The shapes of the rows outside the clashing groups: all but the floating-point compares and moves, the fused operations and
  the rows that are no instructions; and the four rows of \<^verbatim>\<open>bc2\<close>.
\<close>

fun plain_kind :: "op_type \<Rightarrow> bool" where
  "plain_kind BRANCH_COPROC_COND_INST = False"
| "plain_kind FP_CMP_FS_FT_INST = False"
| "plain_kind FP_MOVC_TYPE_INST = False"
| "plain_kind FP_FD_FR_FS_FT_INST = False"
| "plain_kind ASM_DIR = False"
| "plain_kind PSEUDO_OP = False"
| "plain_kind _ = True"

definition row_kind_ok :: "op_row \<Rightarrow> bool" where
  "row_kind_ok r \<longleftrightarrow> (if plain_kind (op_kind r) then True else if uint (op_enc r) div 67108864 \<in> {17, 19, 31, 63} then True
     else op_kind r = BRANCH_COPROC_COND_INST \<and> op_enc r \<in> {0x49000000, 0x49010000, 0x49020000, 0x49030000})"

lemma row_kinds: "list_all row_kind_ok opcode_rows"
  by (simp add: row_kind_ok_def opcode_rows_def
      opcode_rows_1_def opcode_rows_2_def opcode_rows_3_def opcode_rows_4_def opcode_rows_5_def opcode_rows_6_def
      opcode_rows_7_def opcode_rows_8_def opcode_rows_9_def opcode_rows_10_def opcode_rows_11_def opcode_rows_12_def
      opcode_rows_13_def opcode_rows_14_def opcode_rows_15_def opcode_rows_16_def opcode_rows_17_def
      opcode_rows_18_def opcode_rows_19_def opcode_rows_20_def opcode_rows_21_def opcode_rows_22_def
      opcode_rows_23_def opcode_rows_24_def)

lemma clash_free_kinds:
  assumes "r \<in> set opcode_rows" and "clash_free r" and "decodable r"
  obtains "plain_kind (op_kind r)" | "op_kind r = BRANCH_COPROC_COND_INST" "op_enc r = 0x49000000"
proof -
  have "row_kind_ok r" using row_kinds assms(1) by (simp add: list_all_iff)
  then have "plain_kind (op_kind r) \<or>
      op_kind r = BRANCH_COPROC_COND_INST \<and> op_enc r \<in> {0x49000000, 0x49010000, 0x49020000, 0x49030000}"
    using assms(2) by (auto simp: row_kind_ok_def clash_free_def split: if_splits)
  then show ?thesis using assms(3) that by (auto simp: decodable_def a_opcode_of_def)
qed

text \<open>The operands that a shape encodes fit their fields; the fields that it does not encode may hold anything.\<close>

fun fits :: "op_type \<Rightarrow> mips_instruction \<Rightarrow> bool" where
  "fits RD_RS_RT_INST i = (RS i < 32 \<and> RT i < 32 \<and> RD i < 32)"
| "fits RD_RT_RS_INST i = (RS i < 32 \<and> RT i < 32 \<and> RD i < 32)"
| "fits MOVC_TYPE_INST i = (RS i < 32 \<and> RT i < 32 \<and> RD i < 32)"
| "fits RT_RS_IMM_INST i = (RS i < 32 \<and> RT i < 32)"
| "fits BRANCH_RS_RT_LABEL_INST i = (RS i < 32 \<and> RT i < 32)"
| "fits RT_ADDR_INST i = (RS i < 32 \<and> RT i < 32)"
| "fits RT_IMM_INST i = (RS i < 32 \<and> RT i < 32)"
| "fits FP_FT_ADDR_INST i = (RS i < 32 \<and> RT i < 32)"
| "fits BRANCH_RS_LABEL_INST i = (RS i < 32)"
| "fits RS_IMM_INST i = (RS i < 32)"
| "fits RS_INST i = (RS i < 32)"
| "fits RD_INST i = (RD i < 32)"
| "fits RS_RT_INST i = (RS i < 32 \<and> RT i < 32)"
| "fits RD_RS_INST i = (RS i < 32 \<and> RD i < 32)"
| "fits RT_COPREG_INST i = (RT i < 32 \<and> RD i < 32)"
| "fits FP_RT_COPREG_INST i = (RT i < 32 \<and> RD i < 32)"
| "fits RD_RT_SHAMT_INST i = (RT i < 32 \<and> RD i < 32 \<and> SHAMT i < 32)"
| "fits FP_FD_FS_INST i = (RD i < 32 \<and> SHAMT i < 32)"
| "fits FP_FD_FS_FT_INST i = (RT i < 32 \<and> RD i < 32 \<and> SHAMT i < 32)"
| "fits J_TYPE_INST i = (TARGET i AND 0x03ffffff = TARGET i)"
| "fits BRANCH_COPROC_COND_INST i = (RT i < 32)"
| "fits _ i = True"

text \<open>
  The instruction with the fields that its encoding has no room for at 0. A branch on a condition of
  coprocessor 2 encodes the condition code only, and reads the bits of its own encoding back as \<open>rs\<close>.
\<close>

fun held :: "op_type \<Rightarrow> mips_instruction \<Rightarrow> mips_instruction" where
  "held RD_RS_RT_INST i = SET_SHAMT 0 i"
| "held RD_RT_RS_INST i = SET_SHAMT 0 i"
| "held MOVC_TYPE_INST i = SET_SHAMT 0 i"
| "held BRANCH_RS_LABEL_INST i = SET_RT 0 i"
| "held RS_IMM_INST i = SET_RT 0 i"
| "held RS_INST i = SET_RT 0 (SET_IMM 0 i)"
| "held RD_INST i = SET_RS 0 (SET_RT 0 (SET_SHAMT 0 i))"
| "held RS_RT_INST i = SET_IMM 0 i"
| "held RD_RS_INST i = SET_RT 0 (SET_SHAMT 0 i)"
| "held RT_COPREG_INST i = SET_RS 0 (SET_SHAMT 0 i)"
| "held FP_RT_COPREG_INST i = SET_RS 0 (SET_SHAMT 0 i)"
| "held RD_RT_SHAMT_INST i = SET_RS 0 i"
| "held FP_FD_FS_INST i = SET_RS 0 (SET_RT 0 i)"
| "held FP_FD_FS_FT_INST i = SET_RS 0 i"
| "held NOARG_TYPE_INST i = SET_RS 0 (SET_RT 0 (SET_IMM 0 i))"
| "held BRANCH_COPROC_COND_INST i = SET_RS 8 (SET_RT (push_bit 2 (drop_bit 2 (RT i))) i)"
| "held _ i = i"

lemma get_set_imm [simp]:
  "RD (SET_IMM v i) = ucast v" "SHAMT (SET_IMM v i) = ucast (drop_bit 8 v)" "RS (SET_IMM v i) = RS i" "RT (SET_IMM v i) = RT i"
  "IMM (SET_RS b i) = IMM i" "IMM (SET_RT b i) = IMM i" "RS (SET_RT b i) = RS i" "RS (SET_SHAMT b i) = RS i"
  "RT (SET_SHAMT b i) = RT i" "OPCODE (SET_IMM v i) = OPCODE i" "OPCODE (SET_SHAMT b i) = OPCODE i" "OPCODE (SET_RT b i) = OPCODE i"
  "RT (SET_RT b i) = b" "RD (SET_RT b i) = RD i" "SHAMT (SET_RT b i) = SHAMT i" "OPCODE (SET_RS b i) = OPCODE i"
  "RS (SET_RS b i) = b" "RT (SET_RS b i) = RT i" "RD (SET_RS b i) = RD i" "SHAMT (SET_RS b i) = SHAMT i"
  by (simp_all add: set_field_defs get_field_defs)

lemma held_canonical:
  assumes "plain_kind k" and "fits k i"
  shows "canonical k (held k i)" and "encode_fields k (held k i) = encode_fields k i" and "OPCODE (held k i) = OPCODE i"
  using assms by (cases k; simp add: inst_wf_def)+

lemma held_of_canonical: "canonical k i \<Longrightarrow> held k i = i"
  by (cases k) (simp_all add: set_field_defs get_field_defs word_eq_bits bit_simps)

lemma roundtrip_plain:
  assumes "r \<in> set opcode_rows" and "clash_free r" and "decodable r"
    and "OPCODE i = op_tok r" and "plain_kind (op_kind r)" and "fits (op_kind r) i"
  shows "\<exists>v. inst_encode i = Some v \<and> inst_decode v = rebuilt v (held (op_kind r) i)"
proof -
  note c = held_canonical [OF assms(5,6)]
  let ?j = "held (op_kind r) i"
  from canonical_encodes [OF c(1)] obtain f where "encode_fields (op_kind r) i = Some f" unfolding c(2) ..
  then have v: "inst_encode i = Some (op_enc r OR f)" "inst_encode ?j = Some (op_enc r OR f)"
    using assms(4) c(2,3) by (simp_all add: encode_row [OF assms(1)])
  have "OPCODE ?j = op_tok r" using assms(4) c(3) by simp
  from decode_inst_encode [OF assms(1) clash_free_unique [OF assms(1,2)] assms(3) this c(1) v(2)] v(1)
  show ?thesis by blast
qed

lemma roundtrip_bc2:
  assumes "r \<in> set opcode_rows" and "clash_free r" and "op_kind r = BRANCH_COPROC_COND_INST" and "op_enc r = 0x49000000"
    and "OPCODE i = op_tok r" and "RT i < 32"
  shows "\<exists>v. inst_encode i = Some v \<and> inst_decode v = rebuilt v (held (op_kind r) i)"
proof -
  let ?v = "0x49000000 OR (REGS (push_bit 2 (of_nat (CC i))) 16 OR ucast (IMM i)) :: 32 word"
  have cc: "of_nat (CC i) = (ucast (drop_bit 2 (RT i)) :: 32 word)" by (simp add: CC_def)
  have v: "inst_encode i = Some ?v" by (simp add: encode_row [OF assms(1,5)] assms(3,4))
  have a: "a_opcode_of ?v = op_enc r"
    unfolding assms(4) a_opcode_of_def Let_def
    by (simp add: word_eq_bits bit_simps REGS_def)
  have bc2: "BIN_RS 0x49000000 = 8" "BIN_RT 0x49000000 = 0"
    by (simp_all add: BIN_REG_def word_eq_bits bit_simps)
  have "(ucast ((ucast (RT i) :: 32 word) AND 0x1f) :: byte) = RT i" using assms(6) by simp
  then have "\<not> bit (RT i) 5 \<and> \<not> bit (RT i) 6 \<and> \<not> bit (RT i) 7" by (auto simp: word_eq_bits bit_simps)
  then have "(ucast (push_bit 2 (ucast (drop_bit 2 (RT i))) AND 0x1f :: 32 word) :: byte) = push_bit 2 (drop_bit 2 (RT i))"
    by (simp add: word_eq_bits bit_simps)
  then have "BIN_RS ?v = 8" "BIN_RT ?v = push_bit 2 (drop_bit 2 (RT i))"
    using bc2 unfolding cc BIN_REG_or ucast_or by simp_all
  moreover have "(ucast ?v :: half) = IMM i" by (simp add: word_eq_bits bit_simps REGS_def)
  ultimately show ?thesis
    using decode_row [OF assms(1) clash_free_unique [OF assms(1,2)] a] v assms(3,5)
    by (simp add: mk_i_inst_def rebuilt_def set_field_defs get_field_defs zero_inst_def)
qed

subsection \<open>Properties\<close>

text \<open>
  C1: for every row of the instruction list whose primary opcode is outside the groups with
  clashing encodings (COP1, COP1X, SPECIAL3) and that the decoder recognises, and every instruction
  of the row whose operands fit their fields, \<open>inst_decode\<close> rebuilds from what \<open>inst_encode\<close> produced
  the same token and every operand of the row's shape; a field that the encoding has no room for
  (the code of \<^verbatim>\<open>break\<close>, the low bits of the condition of \<^verbatim>\<open>bc2f\<close>) comes back as 0, except that \<^verbatim>\<open>bc2f\<close>
  comes back with 8 in \<open>rs\<close>. An instruction whose other fields are 0 comes back whole.
\<close>

theorem decode_encode_roundtrip:
  assumes "r \<in> set opcode_rows" and "clash_free r" and "decodable r"
    and "OPCODE i = op_tok r" and "fits (op_kind r) i"
  shows "\<exists>v. inst_encode i = Some v \<and> inst_decode v = rebuilt v (held (op_kind r) i) \<and>
    (canonical (op_kind r) i \<longrightarrow> inst_decode v = rebuilt v i)"
proof -
  from assms(1-3) have "\<exists>v. inst_encode i = Some v \<and> inst_decode v = rebuilt v (held (op_kind r) i)"
  proof (cases rule: clash_free_kinds)
    case 1
    then show ?thesis using assms by (intro roundtrip_plain)
  next
    case 2
    then show ?thesis using assms by (intro roundtrip_bc2) simp_all
  qed
  then show ?thesis using held_of_canonical by metis
qed

theorem decode_encode_roundtrip_witness:
  "(\<exists>v. inst_encode (make_r_type_inst TOK_ADDU_OPCODE 3 1 2) = Some v \<and>
       inst_decode v = rebuilt v (make_r_type_inst TOK_ADDU_OPCODE 3 1 2)) \<and>
   (\<exists>v. inst_encode (make_r_type_inst TOK_BREAK_OPCODE 5 0 0) = Some v \<and>
       inst_decode v = rebuilt v (make_r_type_inst TOK_BREAK_OPCODE 0 0 0))"
proof
  let ?r = "OP ''addu'' TOK_ADDU_OPCODE RD_RS_RT_INST 0x00000021" and ?i = "make_r_type_inst TOK_ADDU_OPCODE 3 1 2"
  have "?r \<in> set opcode_rows" by (simp add: opcode_rows_def opcode_rows_4_def)
  then show "\<exists>v. inst_encode ?i = Some v \<and> inst_decode v = rebuilt v ?i"
    using decode_encode_roundtrip [of ?r ?i]
    by (auto simp: clash_free_def decodable_def kind_mask_def key_mask_def a_opcode_of_def make_r_type_inst_def set_field_defs
        get_field_defs inst_wf_def zero_inst_def)
next
  let ?r = "OP ''break'' TOK_BREAK_OPCODE NOARG_TYPE_INST 0x0000000d" and ?i = "make_r_type_inst TOK_BREAK_OPCODE 5 0 0"
  have "?r \<in> set opcode_rows" by (simp add: opcode_rows_def opcode_rows_6_def)
  moreover have "held NOARG_TYPE_INST ?i = make_r_type_inst TOK_BREAK_OPCODE 0 0 0"
    by (simp add: make_r_type_inst_def set_field_defs zero_inst_def)
  ultimately show "\<exists>v. inst_encode ?i = Some v \<and> inst_decode v = rebuilt v (make_r_type_inst TOK_BREAK_OPCODE 0 0 0)"
    using decode_encode_roundtrip [of ?r ?i]
    by (auto simp: clash_free_def decodable_def kind_mask_def key_mask_def a_opcode_of_def)
      (simp_all add: make_r_type_inst_def set_field_defs get_field_defs zero_inst_def)
qed

definition immediate_kind :: "op_type \<Rightarrow> bool" where
  "immediate_kind k \<longleftrightarrow> k \<in> {BRANCH_COPROC_COND_INST, BRANCH_RS_LABEL_INST, RS_IMM_INST, RT_IMM_INST,
     RT_RS_IMM_INST, BRANCH_RS_RT_LABEL_INST, RT_ADDR_INST, FP_FT_ADDR_INST}"

lemma mk_field_simps:
  "RS (mk_r_inst v op a b c d) = a" "RT (mk_r_inst v op a b c d) = b" "RD (mk_r_inst v op a b c d) = c"
  "SHAMT (mk_r_inst v op a b c d) = d" "OPCODE (mk_r_inst v op a b c d) = op"
  "RS (mk_co_r_inst v op a b d) = 0" "RT (mk_co_r_inst v op a b d) = b"
  "RD (mk_co_r_inst v op a b d) = a" "SHAMT (mk_co_r_inst v op a b d) = d"
  "RS (mk_i_inst v op a b e) = a" "RT (mk_i_inst v op a b e) = b" "OPCODE (mk_i_inst v op a b e) = op"
  "OPCODE (mk_co_r_inst v op a b d) = op" "OPCODE (mk_j_inst v op t) = op"
  "RS (SET_RS x i) = x" "RT (SET_RS x i) = RT i" "RD (SET_RS x i) = RD i" "SHAMT (SET_RS x i) = SHAMT i"
  "OPCODE (SET_RS x i) = OPCODE i"
  by (simp_all add: mk_r_inst_def mk_co_r_inst_def mk_i_inst_def mk_j_inst_def set_field_defs
      get_field_defs zero_inst_def word_eq_bits bit_simps)

lemma nibble_bound: "(ucast (v AND 0xf :: 32 word) :: byte) < 32"
proof -
  have "v AND 0xf \<le> 0xf" by (rule word_and_le1)
  then have "unat (v AND 0xf) < 32" by (simp add: word_le_nat_alt)
  then have "unat (ucast (v AND 0xf :: 32 word) :: byte) < 32"
    by (simp add: unsigned_ucast_eq take_bit_nat_eq_self)
  then show ?thesis by (simp add: word_less_nat_alt)
qed

lemma decode_fields_bounds:
  "k \<noteq> J_TYPE_INST \<Longrightarrow> RS (decode_fields k v op) < 32 \<and> RT (decode_fields k v op) < 32 \<and>
     (\<not> immediate_kind k \<longrightarrow> RD (decode_fields k v op) < 32 \<and> SHAMT (decode_fields k v op) < 32)"
  by (cases k) (simp_all add: mk_field_simps immediate_kind_def BIN_REG_bound nibble_bound)

definition decoded_kind :: "32 word \<Rightarrow> op_type" where
  "decoded_kind v =
     (case map_int_to_name_val_val (sort_table a_opcode_tbl) (sint (a_opcode_of v)) of
        None \<Rightarrow> NOARG_TYPE_INST
      | Some entry \<Rightarrow>
          (case map_int_to_name_val_val (sort_table name_tbl) (value2 entry) of
             None \<Rightarrow> NOARG_TYPE_INST | Some e2 \<Rightarrow> value2 e2))"

text \<open>
  C20: the decoder never produces a register number outside the register files: for every word, the
  rs and rt fields of the decoded instruction are below 32 unless its shape is the jump shape (whose
  target overlays them), and so are rd (the fs of the floating-point formats) and shamt (their fd)
  unless the shape carries an immediate, which overlays these two.
\<close>

theorem decoded_registers_in_range:
  assumes "decoded_kind v \<noteq> J_TYPE_INST"
  shows "RS (inst_decode v) < 32 \<and> RT (inst_decode v) < 32 \<and>
    (\<not> immediate_kind (decoded_kind v) \<longrightarrow> RD (inst_decode v) < 32 \<and> SHAMT (inst_decode v) < 32)"
  using assms
  by (auto simp: inst_decode_def decoded_kind_def mk_field_simps decode_fields_bounds
      split: option.splits)

lemma decoded_kind_row:
  assumes "r \<in> set opcode_rows" and "enc_unique r" and "a_opcode_of v = op_enc r"
  shows "decoded_kind v = op_kind r"
  by (simp add: decoded_kind_def assms a_opcode_tbl_row name_tbl_row)

theorem decoded_registers_in_range_witness:
  "decoded_kind 0x00221821 = RD_RS_RT_INST \<and> RD (inst_decode 0x00221821) < 32"
proof -
  let ?r = "OP ''addu'' TOK_ADDU_OPCODE RD_RS_RT_INST 0x00000021"
  have r: "?r \<in> set opcode_rows" by (simp add: opcode_rows_def opcode_rows_4_def)
  have "enc_unique ?r" by (rule clash_free_unique [OF r]) (simp add: clash_free_def)
  with decoded_kind_row [OF r, of "0x00221821"]
  have k: "decoded_kind 0x00221821 = RD_RS_RT_INST" by (simp add: a_opcode_of_def)
  with decoded_registers_in_range [of "0x00221821"] show ?thesis
    by (simp add: immediate_kind_def)
qed

text \<open>
  C21: the encoding of \<^verbatim>\<open>movt\<close> decodes as \<^verbatim>\<open>movf\<close>. The bit that tells the two apart (bit 16) is not
  among the bits \<^verbatim>\<open>inst_decode\<close> looks at in the SPECIAL group, so the sense of the condition is
  inverted by a trip through memory.
\<close>

theorem movt_decodes_as_movf:
  assumes "OPCODE i = TOK_MOVT_OPCODE" and "canonical MOVC_TYPE_INST i"
  shows "\<exists>v. inst_encode i = Some v \<and> OPCODE (inst_decode v) = TOK_MOVF_OPCODE"
proof -
  let ?t = "OP ''movt'' TOK_MOVT_OPCODE MOVC_TYPE_INST 0x00010001"
  let ?m = "OP ''movf'' TOK_MOVF_OPCODE MOVC_TYPE_INST 0x00000001"
  have t: "?t \<in> set opcode_rows" and m: "?m \<in> set opcode_rows"
    by (simp_all add: opcode_rows_def opcode_rows_15_def opcode_rows_16_def)
  from canonical_encodes [OF assms(2)] obtain f where f: "encode_fields MOVC_TYPE_INST i = Some f" ..
  with encode_row [OF t] assms(1) have v: "inst_encode i = Some (0x00010001 OR f)" by simp
  have fm: "f AND 0x03fff800 = f"
    using encode_within [OF assms(2) f] by (simp add: kind_mask_def)
  have f2: "f AND 0xfc000000 = 0" "f AND 0x3f = 0"
    using and_zero_sub [of "0xfc000000" "0x03fff800" f] and_zero_sub [of "0x3f" "0x03fff800" f] fm
    by (simp_all add: and.commute)
  have a: "a_opcode_of (0x00010001 OR f) = op_enc ?m"
    by (simp add: a_opcode_of_def bit.conj_disj_distrib2 f2)
  have "enc_unique ?m" by (rule clash_free_unique [OF m]) (simp add: clash_free_def)
  from decode_row [OF m this a] v show ?thesis by (simp add: mk_field_simps)
qed

theorem movt_decodes_as_movf_witness:
  "\<exists>v. inst_encode (make_r_type_inst TOK_MOVT_OPCODE 3 1 4) = Some v \<and>
     OPCODE (inst_decode v) = TOK_MOVF_OPCODE"
  by (rule movt_decodes_as_movf)
    (simp_all add: make_r_type_inst_def set_field_defs get_field_defs inst_wf_def zero_inst_def)

text \<open>The rows of the floating-point compares: the encodings are distinct and leave the operand bits free.\<close>

lemma compare_distinct: "distinct (filter (\<lambda>e. e div 67108864 = 17 \<and> 48 \<le> e mod 64) row_encs)"
  by (simp add: filter_row_encs encs)

definition compare_row_ok :: "op_row \<Rightarrow> bool" where
  "compare_row_ok r \<longleftrightarrow> (if op_kind r = FP_CMP_FS_FT_INST
     then uint (op_enc r) div 67108864 = 17 \<and> 48 \<le> uint (op_enc r) mod 64 \<and> a_opcode_of (op_enc r) = op_enc r \<and>
       op_enc r AND 0x001fffc0 = 0 \<and> key_mask (op_enc r) = 0xffe0003f
     else True)"

lemma compare_rows: "list_all compare_row_ok opcode_rows"
  by (simp add: compare_row_ok_def a_opcode_of_def key_mask_def opcode_rows_def
      opcode_rows_1_def opcode_rows_2_def opcode_rows_3_def opcode_rows_4_def opcode_rows_5_def opcode_rows_6_def
      opcode_rows_7_def opcode_rows_8_def opcode_rows_9_def opcode_rows_10_def opcode_rows_11_def opcode_rows_12_def
      opcode_rows_13_def opcode_rows_14_def opcode_rows_15_def opcode_rows_16_def opcode_rows_17_def
      opcode_rows_18_def opcode_rows_19_def opcode_rows_20_def opcode_rows_21_def opcode_rows_22_def
      opcode_rows_23_def opcode_rows_24_def)

lemma compare_row:
  assumes "r \<in> set opcode_rows" and "op_kind r = FP_CMP_FS_FT_INST"
  shows "enc_unique r" and "a_opcode_of (op_enc r) = op_enc r" and "op_enc r AND 0x001fffc0 = 0"
    and "key_mask (op_enc r) = 0xffe0003f"
proof -
  from compare_rows assms have c: "compare_row_ok r" by (simp add: list_all_iff)
  then show "a_opcode_of (op_enc r) = op_enc r" "op_enc r AND 0x001fffc0 = 0" "key_mask (op_enc r) = 0xffe0003f"
    using assms(2) by (simp_all add: compare_row_ok_def)
  have "filter (\<lambda>y. uint (op_enc y) = uint (op_enc r)) opcode_rows = [r]"
    by (rule distinct_filter_unique [OF compare_distinct [unfolded row_encs_def] assms(1)])
      (use c assms(2) in \<open>simp add: compare_row_ok_def\<close>)
  then show "enc_unique r" by (simp add: enc_unique_def word_uint_eq_iff)
qed

lemma a_opcode_of_or:
  assumes "a_opcode_of e = e" and "f AND key_mask e = 0"
  shows "a_opcode_of (e OR f) = e"
  using assms(1) by (simp add: a_opcode_of_mask key_mask_or [OF assms(2)] bit.conj_disj_distrib2 assms(2))

lemma get_set_rd [simp]:
  "RD (SET_RD b i) = b" "SHAMT (SET_RD b i) = SHAMT i" "RS (SET_RD b i) = RS i" "RT (SET_RD b i) = RT i"
  "OPCODE (SET_RD b i) = OPCODE i"
  by (simp_all add: set_field_defs get_field_defs word_eq_bits bit_simps)

text \<open>
  C22: decoding a floating-point compare loses its first operand, for every compare of the
  instruction list (16 conditions, 3 formats) whose condition field is that of its row. The decoder
  hands the \<^verbatim>\<open>fs\<close> field of the word to \<open>rs\<close>, which it then overwrites by the condition, and the \<^verbatim>\<open>fd\<close> field,
  which holds the condition-code number, to the \<open>fs\<close> slot: the result has the old \<open>fd\<close> as \<open>fs\<close> and 0 as
  \<open>fd\<close>, and two compares that differ in their first operand only decode to the same instruction.
\<close>

theorem fp_compare_decode_loses_operand:
  assumes "r \<in> set opcode_rows" and "op_kind r = FP_CMP_FS_FT_INST" and "OPCODE i = op_tok r"
    and "ucast (COND i) OR op_enc r = op_enc r" and "FS i < 32" and "FT i < 32" and "FD i < 32"
  shows "\<exists>v w. inst_encode i = Some v \<and> inst_encode (SET_RD fs i) = Some w \<and>
     OPCODE (inst_decode v) = OPCODE i \<and> FT (inst_decode v) = FT i \<and> FS (inst_decode v) = FD i \<and> FD (inst_decode v) = 0 \<and>
     SET_ENCODING 0 (inst_decode v) = SET_ENCODING 0 (inst_decode w)"
proof -
  note r = compare_row [OF assms(1,2)]
  let ?g = "\<lambda>s. REGS (ucast (FT i)) 16 OR REGS s 11 OR REGS (ucast (FD i)) 6"
  have "op_enc r OR (?g s OR ucast (COND i)) = (ucast (COND i) OR op_enc r) OR ?g s" for s
    by (simp only: ac_simps)
  then have e: "op_enc r OR (?g s OR ucast (COND i)) = op_enc r OR ?g s" for s by (simp only: assms(4))
  have enc: "inst_encode i = Some (op_enc r OR ?g (ucast (FS i)))" "inst_encode (SET_RD fs i) = Some (op_enc r OR ?g (ucast fs))"
    by (simp_all only: encode_row [OF assms(1)] assms(2,3) get_set_rd encode_fields.simps option.map or.assoc e [unfolded or.assoc])
  have k: "?g s AND key_mask (op_enc r) = 0" for s unfolding r(4) by (simp add: word_eq_bits bit_simps REGS_def)
  have key: "a_opcode_of (op_enc r OR ?g s) = op_enc r" for s by (rule a_opcode_of_or [OF r(2) k])
  have b: "BIN_FT (op_enc r) = 0" "BIN_FS (op_enc r) = 0" "BIN_FD (op_enc r) = 0" 
    by (rule BIN_REG_masked [OF r(3)], simp)+
  have f: "BIN_FT (op_enc r OR ?g s) = FT i" "BIN_FD (op_enc r OR ?g s) = FD i" "(op_enc r OR ?g s) AND 0xf = op_enc r AND 0xf" for s
  proof -
    show "BIN_FT (op_enc r OR ?g s) = FT i" "BIN_FD (op_enc r OR ?g s) = FD i" using assms(6,7) by (simp_all add: BIN_REG_or b)
    have "?g s AND 0xf = 0" by (simp add: word_eq_bits bit_simps REGS_def)
    then show "(op_enc r OR ?g s) AND 0xf = op_enc r AND 0xf" by (simp add: bit.conj_disj_distrib2)
  qed
  have d: "inst_decode (op_enc r OR ?g s) = SET_RS (ucast (op_enc r AND 0xf))
      (mk_r_inst (op_enc r OR ?g s) (op_tok r) (BIN_FS (op_enc r OR ?g s)) (FT i) (FD i) 0)" for s
    using decode_row [OF assms(1) r(1) key] assms(2) by (simp only: decode_fields.simps f)
  have "SET_ENCODING 0 (inst_decode (op_enc r OR ?g s)) = SET_ENCODING 0 (inst_decode (op_enc r OR ?g t))" for s t
    unfolding d by (simp add: mk_r_inst_def set_field_defs)
  with enc d show ?thesis using assms(3) by (simp add: mk_field_simps)
qed

theorem fp_compare_decode_loses_operand_witness:
  "\<exists>v w. inst_encode (SET_RS 2 (make_r_type_inst TOK_C_EQ_S_OPCODE 6 0 4)) = Some v \<and>
     inst_encode (SET_RD 8 (SET_RS 2 (make_r_type_inst TOK_C_EQ_S_OPCODE 6 0 4))) = Some w \<and>
     FS (inst_decode v) = 0 \<and> SET_ENCODING 0 (inst_decode v) = SET_ENCODING 0 (inst_decode w)"
proof -
  let ?r = "OP ''c.eq.s'' TOK_C_EQ_S_OPCODE FP_CMP_FS_FT_INST 0x46000032"
  have "?r \<in> set opcode_rows" by (simp add: opcode_rows_def opcode_rows_6_def)
  from fp_compare_decode_loses_operand [OF this, of "SET_RS 2 (make_r_type_inst TOK_C_EQ_S_OPCODE 6 0 4)" 8]
  show ?thesis by (auto simp: make_r_type_inst_def set_field_defs get_field_defs zero_inst_def)
qed

end
