(* ===== verification/Exceptions.thy ===== *)
theory Exceptions
  imports Machine
begin

text \<open>
  Exceptions: the frame of \<^verbatim>\<open>raise_exception\<close> (\<^verbatim>\<open>run.c\<close>), the dispatch \<^verbatim>\<open>handle_exception\<close>
  (\<^verbatim>\<open>syscall.c\<close>) and the timer of coprocessor 0 (\<^verbatim>\<open>bump_CP0_timer\<close>), with the properties that make
  an exception precise: the program counter, the cause and the EXL bit.
\<close>

subsection \<open>Definitions\<close>

text \<open>\<^verbatim>\<open>error\<close>: a message, with the arguments of its format.\<close>

definition error_out :: "string \<Rightarrow> 32 word list \<Rightarrow> machine \<Rightarrow> machine" where
  "error_out fmt args s = s\<lparr>console_out := console_out s @ [Con_Message fmt args]\<rparr>"

definition error_unless_quiet :: "string \<Rightarrow> 32 word list \<Rightarrow> machine \<Rightarrow> machine" where
  "error_unless_quiet fmt args s = (if \<not> quiet s then error_out fmt args s else s)"

definition handle_exception :: "machine \<Rightarrow> machine" where
  "handle_exception s =
    (let s = (if \<not> quiet s \<and> CP0_ExCode s \<noteq> 0
              then error_out ''Exception occurred at PC=0x%08x'' [CP0_EPC s] s else s);
         s = s\<lparr>exception_occurred := False, PC := EXCEPTION_ADDR\<rparr>;
         c = CP0_ExCode s
     in if c = 0 then s
        else if c = 4 then error_unless_quiet ''  Unaligned address in instruction/data fetch: 0x%08x'' [CP0_BadVAddr s] s
        else if c = 5 then error_unless_quiet ''  Unaligned address in store: 0x%08x'' [CP0_BadVAddr s] s
        else if c = 6 then error_unless_quiet ''  Bad address in text read: 0x%08x'' [CP0_BadVAddr s] s
        else if c = 7 then error_unless_quiet ''  Bad address in data/stack read: 0x%08x'' [CP0_BadVAddr s] s
        else if c = 8 then error_unless_quiet ''  Error in syscall'' [] s
        else if c = 9 then s\<lparr>exception_occurred := False\<rparr>
        else if c = 10 then error_unless_quiet ''  Reserved instruction execution'' [] s
        else if c = 11 then error_unless_quiet ''  Coprocessor unuable'' [] s
        else if c = 12 then error_unless_quiet ''  Arithmetic overflow'' [] s
        else if c = 13 then error_unless_quiet ''  Trap'' [] s
        else if c = 15 then error_unless_quiet ''  Floating point'' [] s
        else error_unless_quiet ''Unknown exception: %d'' [c] s)"

definition bump_CP0_timer :: "machine \<Rightarrow> machine" where
  "bump_CP0_timer s =
    (let s = set_cp0 CP0_Count_Reg (CP0_Count s + 1) s
     in if CP0_Count s = CP0_Compare s then RAISE_INTERRUPT 7 s else s)"

text \<open>The test of \<^verbatim>\<open>run_spim\<close> for an interrupt to take before the next instruction.\<close>

definition interrupt_pending :: "machine \<Rightarrow> bool" where
  "interrupt_pending s \<longleftrightarrow> status_ie s \<and> \<not> status_exl s \<and>
     (CP0_Cause s AND CP0_Cause_IP) AND (CP0_Status s AND CP0_Status_IM) \<noteq> 0"

subsection \<open>Frames\<close>

text \<open>
  Raising an exception only touches coprocessor 0, the exception flag and the fault latch;
  dispatching it only the program counter, the flag and the message output.
\<close>

lemma raise_exception_frame:
  "raise_exception e s = s\<lparr>exception_occurred := exception_occurred (raise_exception e s),
     first_bad_exception := first_bad_exception (raise_exception e s),
     coprocessor_0 := coprocessor_0 (raise_exception e s)\<rparr>"
  by (simp add: raise_exception_def latch_first_bad_def record_epc_def set_cp0_def Let_def)

lemma error_unless_quiet_frame: "\<exists>c. error_unless_quiet f a s = s\<lparr>console_out := c\<rparr>"
  by (cases "quiet s") (auto simp: error_unless_quiet_def error_out_def intro: exI [of _ "console_out s"])

lemma handle_exception_frame:
  "\<exists>c. handle_exception s = s\<lparr>exception_occurred := False, PC := EXCEPTION_ADDR, console_out := c\<rparr>"
proof -
  let ?P = "\<lambda>t. \<exists>c. t = s\<lparr>exception_occurred := False, PC := EXCEPTION_ADDR, console_out := c\<rparr>"
  have err: "?P (error_unless_quiet f a t)" if "?P t" for f a t
    using that error_unless_quiet_frame [of f a t] by auto
  have ifP: "?P (if b then t else u)" if "?P t" "?P u" for b t u
    using that by simp
  have start: "?P ((if b then error_out f a s else s)\<lparr>exception_occurred := False, PC := EXCEPTION_ADDR\<rparr>)" for b f a
    by (rule exI [of _ "console_out (if b then error_out f a s else s)"]) (simp add: error_out_def)
  have bp: "?P (t\<lparr>exception_occurred := False\<rparr>)" if "?P t" for t
  proof -
    from that obtain c where "t = s\<lparr>exception_occurred := False, PC := EXCEPTION_ADDR, console_out := c\<rparr>" ..
    then show ?thesis by (intro exI [of _ c]) simp
  qed
  show ?thesis
    unfolding handle_exception_def Let_def by (intro ifP err bp start)
qed

lemma set_cp0_simps [simp]:
  "coprocessor_0 (set_cp0 n v s) = (coprocessor_0 s)(n := v)"
  "exception_occurred (set_cp0 n v s) = exception_occurred s"
  "first_bad_exception (set_cp0 n v s) = first_bad_exception s"
  "running_in_delay_slot (set_cp0 n v s) = running_in_delay_slot s"
  "PC (set_cp0 n v s) = PC s"
  by (simp_all add: set_cp0_def)

lemma latch_simps [simp]:
  "coprocessor_0 (latch_first_bad e s) = coprocessor_0 s"
  "exception_occurred (latch_first_bad e s) = exception_occurred s"
  "running_in_delay_slot (latch_first_bad e s) = running_in_delay_slot s"
  "PC (latch_first_bad e s) = PC s"
  by (simp_all add: latch_first_bad_def)

subsection \<open>Precision\<close>

text \<open>The exceptions that are taken: all but an interrupt while interrupts are off.\<close>

definition taken :: "mips_exc_code \<Rightarrow> machine \<Rightarrow> bool" where
  "taken e s \<longleftrightarrow> e \<noteq> ExcCode_Int \<or> (status_ie s \<and> \<not> status_exl s)"

lemma exc_code_field:
  "drop_bit 2 (set_exc_code e c AND CP0_Cause_ExcCode) = word_of_int (exc_val e)"
  unfolding set_exc_code_def by (cases e) (simp_all add: word_eq_bits bit_simps)

lemma exc_code_bd:
  "set_exc_code e c AND CP0_Cause_BD = c AND CP0_Cause_BD"
  unfolding set_exc_code_def by (cases e) (simp_all add: word_eq_bits bit_simps)

lemma exl_set: "(w OR CP0_Status_EXL) AND CP0_Status_EXL \<noteq> (0 :: 32 word)"
  by (simp add: bit.conj_disj_distrib2)

lemma raise_exception_not_taken: "\<not> taken e s \<Longrightarrow> raise_exception e s = s"
  by (auto simp: raise_exception_def taken_def)

lemma raise_exception_exl: "taken e s \<Longrightarrow> status_exl (raise_exception e s)"
  by (simp add: raise_exception_def taken_def Let_def status_exl_def exl_set)

lemma raise_exception_code:
  "taken e s \<Longrightarrow> CP0_ExCode (raise_exception e s) = word_of_int (exc_val e)"
  by (simp add: raise_exception_def taken_def Let_def CP0_ExCode_def exc_code_field del: drop_bit_and)

text \<open>The address an exception records: that of the branch when in its delay slot.\<close>

definition faulting_pc :: "machine \<Rightarrow> mem_addr" where
  "faulting_pc s = ROUND_DOWN (if running_in_delay_slot s then PC s - BYTES_PER_WORD else PC s) BYTES_PER_WORD"

lemma raise_exception_epc:
  "taken e s \<Longrightarrow> CP0_EPC (raise_exception e s) = (if status_exl s then CP0_EPC s else faulting_pc s)"
  by (simp add: raise_exception_def taken_def Let_def record_epc_def status_exl_def faulting_pc_def)

lemma raise_exception_bd:
  "taken e s \<Longrightarrow> (CP0_Cause (raise_exception e s) AND CP0_Cause_BD \<noteq> 0) =
     (CP0_Cause s AND CP0_Cause_BD \<noteq> 0 \<or> running_in_delay_slot s \<and> \<not> status_exl s)"
  by (simp add: raise_exception_def taken_def Let_def record_epc_def status_exl_def exc_code_bd
      bit.conj_disj_distrib2)

lemma raise_exception_occurred: "taken e s \<Longrightarrow> exception_occurred (raise_exception e s)"
  by (simp add: raise_exception_def taken_def Let_def record_epc_def)

lemma raise_exception_keeps_cp0:
  "n \<noteq> CP0_EPC_Reg \<Longrightarrow> n \<noteq> CP0_Cause_Reg \<Longrightarrow> n \<noteq> CP0_Status_Reg \<Longrightarrow>
     coprocessor_0 (raise_exception e s) n = coprocessor_0 s n"
  by (simp add: raise_exception_def Let_def record_epc_def)

lemma raise_exception_first_bad:
  "first_bad_exception (raise_exception e s) =
     (if first_bad_exception s = -1 \<and> e \<notin> {ExcCode_Int, ExcCode_Sys, ExcCode_Bp}
      then exc_val e else first_bad_exception s)"
  by (simp add: raise_exception_def Let_def record_epc_def latch_first_bad_def)

text \<open>The Cause register after an exception: the new code, BD for a delay slot, and the other bits unchanged.\<close>

definition raised_cause :: "mips_exc_code \<Rightarrow> machine \<Rightarrow> 32 word" where
  "raised_cause e s = ((CP0_Cause s AND NOT 0x7c) OR push_bit 2 (word_of_int (exc_val e))) OR
     (if running_in_delay_slot s \<and> \<not> status_exl s then 0x80000000 else 0)"

lemma raise_exception_status: "taken e s \<Longrightarrow> CP0_Status (raise_exception e s) = CP0_Status s OR CP0_Status_EXL"
  by (simp add: raise_exception_def taken_def Let_def record_epc_def)

lemma set_exc_code_or_bd: "set_exc_code e (c OR CP0_Cause_BD) = set_exc_code e c OR 0x80000000"
  unfolding set_exc_code_def bit.conj_disj_distrib2 by (simp add: ac_simps)

lemma raise_exception_cause: "taken e s \<Longrightarrow> CP0_Cause (raise_exception e s) = raised_cause e s"
  by (simp add: raise_exception_def taken_def Let_def record_epc_def raised_cause_def set_exc_code_or_bd)
    (simp add: set_exc_code_def status_exl_def)

lemma raised_cause_ip: "raised_cause e s AND CP0_Cause_IP = CP0_Cause s AND CP0_Cause_IP"
  unfolding raised_cause_def by (cases e) (simp_all add: word_eq_bits bit_simps)

lemma handle_exception_context:
  "coprocessor_0 (handle_exception s) = coprocessor_0 s" "first_bad_exception (handle_exception s) = first_bad_exception s"
  "status_exl (handle_exception s) = status_exl s"
  using handle_exception_frame [of s] by (auto simp: status_exl_def)

lemma exc_val_nonneg: "0 \<le> exc_val e"
  by (cases e) simp_all

lemmas raise_exception_facts = raise_exception_exl raise_exception_code raise_exception_epc
  raise_exception_bd raise_exception_occurred raise_exception_first_bad raise_exception_keeps_cp0

subsection \<open>Properties\<close>

text \<open>
  C5: entry to an exception is precise. An exception that is taken records its code in the code field of Cause
  and leaves the other bits of Cause (the pending interrupts among them) as they were, except that BD is
  set when the exception is raised in a delay slot and none is being handled; it records the address of the faulting instruction (of the
  branch, in a delay slot) in EPC unless one is already being handled, sets EXL, the exception flag and, for the first fault
  that is no interrupt, system call or breakpoint, the latch of the exit status, and changes nothing else.
\<close>

theorem exception_entry_precise:
  assumes "taken e s"
  shows "raise_exception e s = s\<lparr>exception_occurred := True,
      first_bad_exception := (if first_bad_exception s = -1 \<and> e \<notin> {ExcCode_Int, ExcCode_Sys, ExcCode_Bp}
                              then exc_val e else first_bad_exception s),
      coprocessor_0 := (coprocessor_0 s)(
        CP0_EPC_Reg := (if status_exl s then CP0_EPC s else faulting_pc s),
        CP0_Cause_Reg := ((CP0_Cause s AND NOT 0x7c) OR push_bit 2 (word_of_int (exc_val e))) OR
          (if running_in_delay_slot s \<and> \<not> status_exl s then 0x80000000 else 0),
        CP0_Status_Reg := CP0_Status s OR CP0_Status_EXL)\<rparr> \<and>
    CP0_ExCode (raise_exception e s) = word_of_int (exc_val e) \<and>
    CP0_Cause (raise_exception e s) AND CP0_Cause_IP = CP0_Cause s AND CP0_Cause_IP \<and>
    (CP0_Cause (raise_exception e s) AND CP0_Cause_BD \<noteq> 0) =
      (CP0_Cause s AND CP0_Cause_BD \<noteq> 0 \<or> running_in_delay_slot s \<and> \<not> status_exl s) \<and>
    status_exl (raise_exception e s)"
proof -
  have "coprocessor_0 (raise_exception e s) = (coprocessor_0 s)(
      CP0_EPC_Reg := (if status_exl s then CP0_EPC s else faulting_pc s),
      CP0_Cause_Reg := raised_cause e s, CP0_Status_Reg := CP0_Status s OR CP0_Status_EXL)"
    unfolding raise_exception_cause [OF assms, symmetric] raise_exception_epc [OF assms, symmetric] raise_exception_status [OF assms, symmetric]
    by (auto simp: fun_eq_iff raise_exception_keeps_cp0)
  then have "raise_exception e s = s\<lparr>exception_occurred := True,
      first_bad_exception := (if first_bad_exception s = -1 \<and> e \<notin> {ExcCode_Int, ExcCode_Sys, ExcCode_Bp}
                              then exc_val e else first_bad_exception s),
      coprocessor_0 := (coprocessor_0 s)(
        CP0_EPC_Reg := (if status_exl s then CP0_EPC s else faulting_pc s),
        CP0_Cause_Reg := raised_cause e s, CP0_Status_Reg := CP0_Status s OR CP0_Status_EXL)\<rparr>"
    by (intro trans [OF raise_exception_frame]) (simp only: raise_exception_occurred [OF assms] raise_exception_first_bad)
  moreover have "CP0_Cause (raise_exception e s) AND CP0_Cause_IP = CP0_Cause s AND CP0_Cause_IP"
    unfolding raise_exception_cause [OF assms] by (rule raised_cause_ip)
  ultimately show ?thesis
    using raise_exception_code [OF assms] raise_exception_bd [OF assms] raise_exception_exl [OF assms]
    unfolding raised_cause_def by blast
qed

theorem exception_entry_precise_witness:
  "\<exists>s. CP0_ExCode (raise_exception ExcCode_Ov s) = 12 \<and> CP0_EPC (raise_exception ExcCode_Ov s) = 0x400100 \<and>
     CP0_Cause (raise_exception ExcCode_Ov s) = 0x430"
proof -
  define s :: machine where "s = zero_machine\<lparr>coprocessor_0 := (\<lambda>_. 0)(CP0_Cause_Reg := 0x414), running_in_delay_slot := False,
      PC := 0x400100\<rparr>"
  have "taken ExcCode_Ov s" and "\<not> status_exl s" and "faulting_pc s = 0x400100" and "\<not> running_in_delay_slot s" and "CP0_Cause s = 0x414"
    by (simp_all add: taken_def status_exl_def faulting_pc_def ROUND_DOWN_def s_def)
  with exception_entry_precise [of ExcCode_Ov s] show ?thesis by auto
qed

text \<open>
  C16: an exception raised while another is handled keeps the return context. Taking an exception
  leaves EXL set when the handler is entered, and its fault latched for the exit status unless it is an interrupt, a system call or a
  breakpoint. From any state with EXL set, whatever the handler has executed since, every further exception that is raised
  and dispatched keeps EPC, BD and EXL, an interrupt changes nothing at all, and a latch that holds a fault is kept; a latch that
  is empty (the handler was entered by a system call, say) takes a nested fault.
\<close>

theorem nested_exception_keeps_context:
  assumes "taken e u" and "status_exl s"
  shows "status_exl (handle_exception (raise_exception e u)) \<and>
    (e \<notin> {ExcCode_Int, ExcCode_Sys, ExcCode_Bp} \<longrightarrow> first_bad_exception (handle_exception (raise_exception e u)) \<noteq> -1) \<and>
    CP0_EPC (handle_exception (raise_exception e' s)) = CP0_EPC s \<and>
    (CP0_Cause (handle_exception (raise_exception e' s)) AND CP0_Cause_BD \<noteq> 0) = (CP0_Cause s AND CP0_Cause_BD \<noteq> 0) \<and>
    status_exl (handle_exception (raise_exception e' s)) \<and>
    raise_exception ExcCode_Int s = s \<and>
    first_bad_exception (handle_exception (raise_exception e' s)) =
      (if first_bad_exception s = -1 \<and> e' \<notin> {ExcCode_Int, ExcCode_Sys, ExcCode_Bp} then exc_val e' else first_bad_exception s)"
proof -
  have int: "raise_exception ExcCode_Int s = s"
    using assms(2) by (intro raise_exception_not_taken) (simp add: taken_def)
  have "CP0_EPC (raise_exception e' s) = CP0_EPC s"
    using assms(2) raise_exception_epc [of e' s] raise_exception_not_taken [of e' s] by metis
  moreover have "(CP0_Cause (raise_exception e' s) AND CP0_Cause_BD \<noteq> 0) = (CP0_Cause s AND CP0_Cause_BD \<noteq> 0)"
    using assms(2) raise_exception_bd [of e' s] raise_exception_not_taken [of e' s] by metis
  moreover have "status_exl (raise_exception e' s)"
    using assms(2) raise_exception_exl [of e' s] raise_exception_not_taken [of e' s] by metis
  moreover have "first_bad_exception (raise_exception e u) \<noteq> -1" if "e \<notin> {ExcCode_Int, ExcCode_Sys, ExcCode_Bp}"
    using that exc_val_nonneg [of e] by (auto simp: raise_exception_first_bad)
  ultimately show ?thesis
    using int raise_exception_exl [OF assms(1)]
    by (simp add: handle_exception_context raise_exception_first_bad [of e' s])
qed

theorem nested_exception_keeps_context_witness:
  "\<exists>s. status_exl s \<and> CP0_EPC s = 0x400100 \<and> CP0_EPC (handle_exception (raise_exception ExcCode_DBE s)) = 0x400100 \<and>
     first_bad_exception (handle_exception (raise_exception ExcCode_DBE s)) = 4"
proof -
  define s :: machine where "s = zero_machine\<lparr>coprocessor_0 := (\<lambda>_. 0)(CP0_EPC_Reg := 0x400100, CP0_Status_Reg := CP0_Status_EXL),
      first_bad_exception := 4\<rparr>"
  have "taken ExcCode_AdEL zero_machine" and "status_exl s" and "CP0_EPC s = 0x400100" and "first_bad_exception s = 4"
    by (simp_all add: taken_def status_exl_def s_def)
  with nested_exception_keeps_context [of ExcCode_AdEL zero_machine s ExcCode_DBE] show ?thesis by auto
qed

lemma bump_count: "CP0_Count (bump_CP0_timer s) = CP0_Count s + 1"
  by (simp add: bump_CP0_timer_def RAISE_INTERRUPT_def Let_def)

lemma bump_compare: "CP0_Compare (bump_CP0_timer s) = CP0_Compare s"
  by (simp add: bump_CP0_timer_def RAISE_INTERRUPT_def Let_def)

lemma bump_cause:
  "CP0_Cause (bump_CP0_timer s) =
     (if CP0_Count s + 1 = CP0_Compare s then CP0_Cause s OR push_bit 15 1 else CP0_Cause s)"
  by (simp add: bump_CP0_timer_def RAISE_INTERRUPT_def Let_def)

lemma bumps_regs:
  "CP0_Count ((bump_CP0_timer ^^ k) s) = CP0_Count s + of_nat k \<and>
   CP0_Compare ((bump_CP0_timer ^^ k) s) = CP0_Compare s"
  by (induction k) (simp_all add: bump_count bump_compare)

lemma bumps_quiet:
  assumes "k < unat (CP0_Compare s - CP0_Count s)"
  shows "CP0_Cause ((bump_CP0_timer ^^ k) s) = CP0_Cause s"
  using assms
proof (induction k)
  case (Suc k)
  have "CP0_Count s + of_nat (Suc k) \<noteq> CP0_Compare s"
  proof
    assume "CP0_Count s + of_nat (Suc k) = CP0_Compare s"
    then have "CP0_Compare s - CP0_Count s = of_nat (Suc k)" by (metis add_diff_cancel_left')
    moreover have "unat (of_nat (Suc k) :: 32 word) \<le> Suc k" by (simp only: unat_of_nat mod_less_eq_dividend)
    ultimately show False using Suc.prems by simp
  qed
  with Suc bumps_regs [of k s] show ?case by (simp add: bump_cause ac_simps)
qed simp

text \<open>
  C17: the timer. From a count below the compare register the timer leaves Cause alone until
  the two meet and then raises interrupt 7; the distance is taken modulo 2 to the 32.
\<close>

theorem timer_interrupts_on_match:
  assumes "0 < unat (CP0_Compare s - CP0_Count s)" and "k < unat (CP0_Compare s - CP0_Count s)"
  shows "CP0_Cause ((bump_CP0_timer ^^ k) s) = CP0_Cause s \<and>
    CP0_Cause ((bump_CP0_timer ^^ unat (CP0_Compare s - CP0_Count s)) s) = CP0_Cause s OR CP0_Cause_IP7"
proof -
  obtain n where n: "unat (CP0_Compare s - CP0_Count s) = Suc n"
    using assms(1) by (cases "unat (CP0_Compare s - CP0_Count s)") simp_all
  have "of_nat (unat (CP0_Compare s - CP0_Count s)) = CP0_Compare s - CP0_Count s" by simp
  then have "CP0_Count s + of_nat (Suc n) = CP0_Compare s"
    unfolding n by (metis add.commute diff_add_cancel)
  then show ?thesis
    using bumps_quiet [OF assms(2)] bumps_quiet [of n s] bumps_regs [of n s] n
    by (simp add: bump_cause ac_simps)
qed

theorem timer_interrupts_on_match_witness:
  "\<exists>s. CP0_Cause ((bump_CP0_timer ^^ 2) s) = 0 \<and> CP0_Cause ((bump_CP0_timer ^^ 3) s) = CP0_Cause_IP7"
proof -
  define s :: machine where "s = zero_machine\<lparr>coprocessor_0 := (\<lambda>_. 0)(CP0_Count_Reg := 7, CP0_Compare_Reg := 10)\<rparr>"
  have "CP0_Compare s - CP0_Count s = 3" and "CP0_Cause s = 0" by (simp_all add: s_def)
  with timer_interrupts_on_match [of s 2] show ?thesis by auto
qed

end
