(* ===== verification/Memory.thy ===== *)
theory Memory
  imports Codec Exceptions
begin

text \<open>
  The memory of the simulated machine (\<^verbatim>\<open>memory.c\<close>): five segments, their creation and growth,
  reads and writes of bytes, halves, words and instructions with their slow paths
  (\<^verbatim>\<open>bad_mem_read\<close>, \<^verbatim>\<open>bad_mem_write\<close>), and the memory-mapped console. A data segment is a function
  from byte offsets to bytes; \<^verbatim>\<open>data_seg_h\<close> and \<^verbatim>\<open>data_seg\<close>, which alias it as halves and words,
  are the little-endian views \<open>get_half\<close> and \<open>get_word\<close> of it.
  The theory proves that the five entry points implement one abstract byte memory.
\<close>

subsection \<open>Views of a segment\<close>

definition le_half :: "byte \<Rightarrow> byte \<Rightarrow> half" where
  "le_half b0 b1 = ucast b0 OR push_bit 8 (ucast b1)"

definition le_word :: "byte \<Rightarrow> byte \<Rightarrow> byte \<Rightarrow> byte \<Rightarrow> 32 word" where
  "le_word b0 b1 b2 b3 = ucast b0 OR push_bit 8 (ucast b1) OR push_bit 16 (ucast b2) OR push_bit 24 (ucast b3)"

definition byte_of :: "nat \<Rightarrow> 32 word \<Rightarrow> byte" where
  "byte_of k w = ucast (drop_bit (8 * k) w)"

definition get_half :: "(nat \<Rightarrow> byte) \<Rightarrow> nat \<Rightarrow> half" where
  "get_half f i = le_half (f (2 * i)) (f (2 * i + 1))"

definition get_word :: "(nat \<Rightarrow> byte) \<Rightarrow> nat \<Rightarrow> 32 word" where
  "get_word f i = le_word (f (4 * i)) (f (4 * i + 1)) (f (4 * i + 2)) (f (4 * i + 3))"

definition put_half :: "(nat \<Rightarrow> byte) \<Rightarrow> nat \<Rightarrow> 32 word \<Rightarrow> nat \<Rightarrow> byte" where
  "put_half f i v = f(2 * i := byte_of 0 v, 2 * i + 1 := byte_of 1 v)"

definition put_word :: "(nat \<Rightarrow> byte) \<Rightarrow> nat \<Rightarrow> 32 word \<Rightarrow> nat \<Rightarrow> byte" where
  "put_word f i v = f(4 * i := byte_of 0 v, 4 * i + 1 := byte_of 1 v, 4 * i + 2 := byte_of 2 v, 4 * i + 3 := byte_of 3 v)"

text \<open>The address tests of the accessors.\<close>

definition in_text :: "machine \<Rightarrow> mem_addr \<Rightarrow> bool" where
  "in_text s a \<longleftrightarrow> TEXT_BOT \<le> a \<and> a < text_top s"

definition in_k_text :: "machine \<Rightarrow> mem_addr \<Rightarrow> bool" where
  "in_k_text s a \<longleftrightarrow> K_TEXT_BOT \<le> a \<and> a < k_text_top s"

definition in_data :: "machine \<Rightarrow> mem_addr \<Rightarrow> bool" where
  "in_data s a \<longleftrightarrow> DATA_BOT \<le> a \<and> a < data_top s"

definition in_stack :: "machine \<Rightarrow> mem_addr \<Rightarrow> bool" where
  "in_stack s a \<longleftrightarrow> stack_bot s \<le> a \<and> a < STACK_TOP"

definition in_k_data :: "machine \<Rightarrow> mem_addr \<Rightarrow> bool" where
  "in_k_data s a \<longleftrightarrow> K_DATA_BOT \<le> a \<and> a < k_data_top s"

subsection \<open>Creating and growing segments\<close>

text \<open>
  The sizes are C \<^verbatim>\<open>int\<close>s: words compared with the signed \<open><s\<close>. A conversion to \<^verbatim>\<open>size_t\<close>
  sign-extends to 64 bits.
\<close>

definition to_size_t :: "32 word \<Rightarrow> nat" where
  "to_size_t n = unat (scast n :: 64 word)"

definition zero_range :: "nat \<Rightarrow> nat \<Rightarrow> (nat \<Rightarrow> byte) \<Rightarrow> nat \<Rightarrow> byte" where
  "zero_range lo hi f = (\<lambda>i. if lo \<le> i \<and> i < hi then 0 else f i)"

definition realloc_seg :: "host \<Rightarrow> nat \<Rightarrow> nat \<Rightarrow> (nat \<Rightarrow> byte) \<Rightarrow> nat \<Rightarrow> byte" where
  "realloc_seg H old new f = (\<lambda>i. if i < min old new then f i else heap_garbage H i)"

text \<open>\<^verbatim>\<open>free_inst\<close>: the shared breakpoint instruction is never freed.\<close>

definition free_inst :: "nat \<Rightarrow> machine \<Rightarrow> machine" where
  "free_inst p s = (if Some p \<noteq> break_inst s then s\<lparr>inst_heap := (inst_heap s)(p := None)\<rparr> else s)"

fun free_instructions :: "ptr list \<Rightarrow> machine \<Rightarrow> machine" where
  "free_instructions [] s = s"
| "free_instructions (None # ps) s = free_instructions ps s"
| "free_instructions (Some p # ps) s = free_instructions ps (free_inst p s)"

definition make_text :: "32 word \<Rightarrow> machine \<Rightarrow> machine" where
  "make_text text_size s =
    (let s = free_instructions (map (text_seg s) [0 ..< unat ((text_top s - TEXT_BOT) div BYTES_PER_WORD)]) s
     in s\<lparr>text_seg := (\<lambda>_. None), text_top := TEXT_BOT + text_size\<rparr>)"

definition make_data :: "32 word \<Rightarrow> 32 word \<Rightarrow> machine \<Rightarrow> machine" where
  "make_data data_size data_limit s =
    (let data_size = (if data_size \<le>s 65536 then 65536 else data_size);
         data_size = ROUND_UP data_size BYTES_PER_WORD;
         data_size = ROUND_UP data_size BYTES_PER_WORD
     in s\<lparr>data_seg_b := (\<lambda>_. 0), data_top := DATA_BOT + data_size, data_size_limit := data_limit\<rparr>)"

definition make_stack :: "32 word \<Rightarrow> 32 word \<Rightarrow> machine \<Rightarrow> machine" where
  "make_stack stack_size stack_limit s =
    (let stack_size = ROUND_UP stack_size BYTES_PER_WORD
     in s\<lparr>stack_seg_b := (\<lambda>_. 0), stack_bot := STACK_TOP - stack_size, stack_size_limit := stack_limit\<rparr>)"

definition make_k_text :: "32 word \<Rightarrow> machine \<Rightarrow> machine" where
  "make_k_text k_text_size s =
    (let s = free_instructions (map (k_text_seg s) [0 ..< unat ((k_text_top s - K_TEXT_BOT) div BYTES_PER_WORD)]) s
     in s\<lparr>k_text_seg := (\<lambda>_. None), k_text_top := K_TEXT_BOT + k_text_size\<rparr>)"

definition make_k_data :: "32 word \<Rightarrow> 32 word \<Rightarrow> machine \<Rightarrow> machine" where
  "make_k_data k_data_size k_data_limit s =
    (let k_data_size = ROUND_UP k_data_size BYTES_PER_WORD
     in s\<lparr>k_data_seg_b := (\<lambda>_. 0), k_data_top := K_DATA_BOT + k_data_size, k_data_size_limit := k_data_limit\<rparr>)"

text \<open>
  \<^verbatim>\<open>make_memory\<close>, for sizes the allocator grants. Before the first call \<^verbatim>\<open>text_seg\<close> is null, which
  is a text segment without instructions here: nothing is freed in either.
\<close>

definition make_memory :: "32 word \<Rightarrow> 32 word \<Rightarrow> 32 word \<Rightarrow> 32 word \<Rightarrow> 32 word \<Rightarrow> 32 word \<Rightarrow> 32 word \<Rightarrow>
    32 word \<Rightarrow> machine \<Rightarrow> machine" where
  "make_memory text_size data_size data_limit stack_size stack_limit k_text_size k_data_size k_data_limit s =
    (let s = make_text text_size s;
         s = make_data data_size data_limit s;
         s = make_stack stack_size stack_limit s;
         s = make_k_text k_text_size s;
         s = make_k_data k_data_size k_data_limit s
     in s\<lparr>text_modified := True, data_modified := True\<rparr>)"

definition expand_data :: "host \<Rightarrow> 32 word \<Rightarrow> unit mcomp" where
  "expand_data H addl_bytes s =
    (let delta = ROUND_UP addl_bytes BYTES_PER_WORD;
         old_size = data_top s - DATA_BOT;
         new_size = old_size + delta
     in if addl_bytes <s 0 \<or> data_size_limit s <s new_size
        then throw (Run_Error ''Use -ldata # with # > %d'')
               (error_out ''Can't expand data segment by %d bytes to %d bytes'' [addl_bytes, new_size] s)
        else if \<not> alloc_ok H (to_size_t new_size)
        then throw (Fatal_Error ''realloc failed in expand_data'') s
        else ret () (s\<lparr>data_top := data_top s + delta,
               data_seg_b := zero_range (unat old_size) (unat new_size)
                 (realloc_seg H (unat old_size) (unat new_size) (data_seg_b s))\<rparr>))"

text \<open>The loop that copies the old stack to the top end of the new block, a word at a time.\<close>

fun copy_words_down :: "nat \<Rightarrow> (nat \<Rightarrow> byte) \<Rightarrow> nat \<Rightarrow> (nat \<Rightarrow> byte) \<Rightarrow> nat \<Rightarrow> byte" where
  "copy_words_down 0 old pn new = new"
| "copy_words_down (Suc po) old pn new = copy_words_down po old (pn - 1) (put_word new (pn - 1) (get_word old po))"

definition expand_stack :: "host \<Rightarrow> 32 word \<Rightarrow> unit mcomp" where
  "expand_stack H addl_bytes s =
    (let delta = ROUND_UP addl_bytes BYTES_PER_WORD;
         old_size = STACK_TOP - stack_bot s;
         new_size = old_size + (if old_size <s delta then delta else old_size)
     in if addl_bytes <s 0 \<or> stack_size_limit s <s new_size
        then throw (Run_Error ''Can't expand stack segment by %d bytes to %d bytes.'') s
        else if \<not> alloc_ok H (to_size_t new_size)
        then throw (Fatal_Error ''Out of memory at request for %zu bytes.'') s
        else ret () (s\<lparr>stack_seg_b := copy_words_down (unat old_size div 4) (stack_seg_b s) (unat new_size div 4) (\<lambda>_. 0),
               stack_bot := stack_bot s - (new_size - old_size)\<rparr>))"

text \<open>
  \<^verbatim>\<open>expand_k_data\<close>: the bounds of its clearing loop are the sizes divided by
  \<^verbatim>\<open>BYTES_PER_WORD\<close>, although the pointer is a byte pointer.
\<close>

definition expand_k_data :: "host \<Rightarrow> 32 word \<Rightarrow> unit mcomp" where
  "expand_k_data H addl_bytes s =
    (let delta = ROUND_UP addl_bytes BYTES_PER_WORD;
         old_size = k_data_top s - K_DATA_BOT;
         new_size = old_size + delta
     in if addl_bytes <s 0 \<or> k_data_size_limit s <s new_size
        then throw (Run_Error ''Can't expand kernel data segment by %d bytes to %d bytes.'') s
        else if \<not> alloc_ok H (to_size_t new_size)
        then throw (Fatal_Error ''realloc failed in expand_k_data'') s
        else ret () (s\<lparr>k_data_top := k_data_top s + delta,
               k_data_seg_b := zero_range (unat old_size div 4) (unat new_size div 4)
                 (realloc_seg H (unat old_size) (unat new_size) (k_data_seg_b s))\<rparr>))"

subsection \<open>Memory-mapped input and output\<close>

abbreviation RECV_READY :: "32 word" where "RECV_READY \<equiv> 1"
abbreviation RECV_INT_ENABLE :: "32 word" where "RECV_INT_ENABLE \<equiv> 2"
abbreviation RECV_INT_LEVEL :: nat where "RECV_INT_LEVEL \<equiv> 3"
abbreviation TRANS_READY :: "32 word" where "TRANS_READY \<equiv> 1"
abbreviation TRANS_INT_ENABLE :: "32 word" where "TRANS_INT_ENABLE \<equiv> 2"
abbreviation TRANS_INT_LEVEL :: nat where "TRANS_INT_LEVEL \<equiv> 2"
abbreviation RECV_INTERVAL :: int where "RECV_INTERVAL \<equiv> 100"
abbreviation TRANS_LATENCY :: int where "TRANS_LATENCY \<equiv> 100"

text \<open>
  The console (\<^verbatim>\<open>spim.c\<close>). At end of file \<^verbatim>\<open>read\<close> leaves the local buffer uninitialised; a
  control-C character longjmps to the command loop.
\<close>

definition console_input_available :: "host \<Rightarrow> bool mcomp" where
  "console_input_available H s =
    (if mapped_io s
     then ret (input_ready H (console_polls s)) (s\<lparr>console_polls := console_polls s + 1\<rparr>)
     else ret False s)"

definition get_console_char :: "host \<Rightarrow> byte mcomp" where
  "get_console_char H s =
    (let (buf, s) = (case console_in s of [] \<Rightarrow> (heap_garbage H 0, s) | c # cs \<Rightarrow> (c, s\<lparr>console_in := cs\<rparr>))
     in if buf = 3
        then throw (Run_Error ''Execution interrupted'') (error_out ''Execution interrupted'' [] s)
        else ret buf s)"

definition put_console_char :: "byte \<Rightarrow> machine \<Rightarrow> machine" where
  "put_console_char c s = s\<lparr>console_out := console_out s @ [Con_Char c]\<rparr>"

definition receive_char :: "byte \<Rightarrow> machine \<Rightarrow> machine" where
  "receive_char c s =
    (let s = s\<lparr>recv_buffer := scast c, recv_control := recv_control s OR RECV_READY,
               recv_buffer_full_timer := RECV_INTERVAL\<rparr>
     in if recv_control s AND RECV_INT_ENABLE \<noteq> 0 then RAISE_INTERRUPT RECV_INT_LEVEL s else s)"

definition check_receiver :: "host \<Rightarrow> unit mcomp" where
  "check_receiver H s =
    (if recv_buffer_full_timer s > 0
     then ret () (s\<lparr>recv_buffer_full_timer := recv_buffer_full_timer s - 1\<rparr>)
     else bnd (console_input_available H) (\<lambda>avail.
            whn avail (bnd (get_console_char H) (\<lambda>c. modify (receive_char c)))) s)"

definition check_transmitter :: "machine \<Rightarrow> machine" where
  "check_transmitter s =
    (if trans_buffer_full_timer s > 0
     then s\<lparr>trans_buffer_full_timer := trans_buffer_full_timer s - 1\<rparr>
     else if trans_control s AND TRANS_READY = 0
     then let s = s\<lparr>trans_control := trans_control s OR TRANS_READY\<rparr>
          in if trans_control s AND TRANS_INT_ENABLE \<noteq> 0 then RAISE_INTERRUPT TRANS_INT_LEVEL s else s
     else s)"

definition check_memory_mapped_IO :: "host \<Rightarrow> unit mcomp" where
  "check_memory_mapped_IO H = seq (check_receiver H) (modify check_transmitter)"

definition write_trans_control :: "32 word \<Rightarrow> machine \<Rightarrow> machine" where
  "write_trans_control value s =
    (if value AND TRANS_INT_ENABLE \<noteq> 0
     then let s = s\<lparr>trans_control := trans_control s OR TRANS_INT_ENABLE\<rparr>
          in if trans_control s AND TRANS_READY \<noteq> 0 then RAISE_INTERRUPT TRANS_INT_LEVEL s else s
     else CLEAR_INTERRUPT TRANS_INT_LEVEL (s\<lparr>trans_control := trans_control s AND NOT TRANS_INT_ENABLE\<rparr>))"

definition write_trans_buffer :: "32 word \<Rightarrow> machine \<Rightarrow> machine" where
  "write_trans_buffer value s =
    (if trans_control s AND TRANS_READY \<noteq> 0
     then let s = s\<lparr>trans_buffer := value AND 0xff\<rparr>;
              s = put_console_char (ucast (trans_buffer s)) s;
              s = s\<lparr>trans_control := trans_control s AND NOT TRANS_READY, trans_buffer_full_timer := TRANS_LATENCY\<rparr>
          in CLEAR_INTERRUPT TRANS_INT_LEVEL s
     else s)"

definition write_recv_control :: "32 word \<Rightarrow> machine \<Rightarrow> machine" where
  "write_recv_control value s =
    (if value AND RECV_INT_ENABLE \<noteq> 0
     then let s = s\<lparr>recv_control := recv_control s OR RECV_INT_ENABLE\<rparr>
          in if recv_control s AND RECV_READY \<noteq> 0 then RAISE_INTERRUPT RECV_INT_LEVEL s else s
     else CLEAR_INTERRUPT RECV_INT_LEVEL (s\<lparr>recv_control := recv_control s AND NOT RECV_INT_ENABLE\<rparr>))"

definition write_memory_mapped_IO :: "mem_addr \<Rightarrow> 32 word \<Rightarrow> unit mcomp" where
  "write_memory_mapped_IO addr value s =
    (if addr = TRANS_CTRL_ADDR then ret () (write_trans_control value s)
     else if addr = TRANS_BUFFER_ADDR then ret () (write_trans_buffer value s)
     else if addr = RECV_CTRL_ADDR then ret () (write_recv_control value s)
     else if addr = RECV_BUFFER_ADDR then ret () s
     else throw (Run_Error ''Write to unused memory-mapped IO address (0x%x)'') s)"

definition read_recv_buffer :: "machine \<Rightarrow> machine" where
  "read_recv_buffer s = CLEAR_INTERRUPT RECV_INT_LEVEL
     (s\<lparr>recv_control := recv_control s AND NOT RECV_READY, recv_buffer_full_timer := 0\<rparr>)"

definition read_memory_mapped_IO :: "mem_addr \<Rightarrow> 32 word mcomp" where
  "read_memory_mapped_IO addr s =
    (if addr = TRANS_CTRL_ADDR then ret (trans_control s) s
     else if addr = TRANS_BUFFER_ADDR then ret (trans_buffer s AND 0xff) s
     else if addr = RECV_CTRL_ADDR then ret (recv_control s) s
     else if addr = RECV_BUFFER_ADDR
     then let s = read_recv_buffer s in ret (recv_buffer s AND 0xff) s
     else throw (Run_Error ''Read from unused memory-mapped IO address (0x%x)'') s)"

subsection \<open>Slow paths\<close>

text \<open>A dereference of an instruction pointer; a null or dangling one crashes.\<close>

definition deref_inst :: "ptr \<Rightarrow> mips_instruction mcomp" where
  "deref_inst p s =
    (case p of None \<Rightarrow> throw Crash s
     | Some q \<Rightarrow> (case inst_heap s q of None \<Rightarrow> throw Crash s | Some i \<Rightarrow> ret i s))"

definition new_inst :: "mips_instruction \<Rightarrow> ptr mcomp" where
  "new_inst i s = ret (Some (next_obj s)) (s\<lparr>inst_heap := (inst_heap s)(next_obj s \<mapsto> i), next_obj := next_obj s + 1\<rparr>)"

definition text_index :: "mem_addr \<Rightarrow> nat" where
  "text_index addr = unat (drop_bit 2 (addr - TEXT_BOT))"

definition near_stack :: "machine \<Rightarrow> mem_addr \<Rightarrow> bool" where
  "near_stack s addr \<longleftrightarrow> addr > data_top s \<and> addr < stack_bot s \<and> addr > stack_bot s - 16 * mega"

definition bad_text_read :: "mem_addr \<Rightarrow> ptr mcomp" where
  "bad_text_read addr = seq (modify (raise_bad_vaddr ExcCode_IBE addr)) (new_inst (inst_decode 0))"

definition read_text_as_data :: "mem_addr \<Rightarrow> 32 word \<Rightarrow> 32 word mcomp" where
  "read_text_as_data addr msk s =
    (let p = text_seg s (text_index addr)
     in if msk = 0
        then bnd (deref_inst p) (\<lambda>i. ret (0xff AND drop_bit (8 * unat (addr AND 3)) (inst_encoding i))) s
        else if msk = 1
        then bnd (deref_inst p) (\<lambda>i. ret (0xffff AND drop_bit (8 * unat (addr AND 2)) (inst_encoding i))) s
        else if msk = 3
        then (if p = None then ret 0 s else bnd (deref_inst p) (\<lambda>i. ret (inst_encoding i)) s)
        else throw (Run_Error ''Bad mask (0x%x) in bad_mem_read'') s)"

definition bad_mem_read :: "host \<Rightarrow> mem_addr \<Rightarrow> 32 word \<Rightarrow> 32 word mcomp" where
  "bad_mem_read H addr msk s =
    (if addr AND msk \<noteq> 0 then ret 0 (raise_bad_vaddr ExcCode_AdEL addr s)
     else if in_text s addr then read_text_as_data addr msk s
     else if near_stack s addr then seq (expand_stack H (stack_bot s - addr + 4)) (ret 0) s
     else if MM_IO_BOT \<le> addr \<and> addr \<le> MM_IO_TOP then read_memory_mapped_IO addr s
     else ret 0 (raise_bad_vaddr ExcCode_DBE addr s))"

text \<open>The word a write into the text segment leaves there, and the write itself.\<close>

definition merge_text_word :: "mem_addr \<Rightarrow> 32 word \<Rightarrow> 32 word \<Rightarrow> 32 word \<Rightarrow> 32 word option" where
  "merge_text_word addr msk value old =
    (if msk = 0
     then let sh = 8 * unat (addr AND 3)
          in Some ((old AND NOT (push_bit sh 0xff)) OR push_bit sh (value AND 0xff))
     else if msk = 1
     then let sh = 8 * unat (addr AND 2)
          in Some ((old AND NOT (push_bit sh 0xffff)) OR push_bit sh (value AND 0xffff))
     else if msk = 3 then Some value
     else None)"

definition write_text_as_data :: "mem_addr \<Rightarrow> 32 word \<Rightarrow> 32 word \<Rightarrow> unit mcomp" where
  "write_text_as_data addr value msk s =
    (let n = text_index addr;
         store = (\<lambda>tmp. bnd (new_inst (inst_decode tmp))
                    (\<lambda>p. modify (\<lambda>s. s\<lparr>text_seg := (text_seg s)(n := p), text_modified := True\<rparr>)))
     in case text_seg s n of
          None \<Rightarrow> store (if msk = 3 then value else 0) s
        | Some q \<Rightarrow>
            bnd (deref_inst (Some q)) (\<lambda>i.
              case merge_text_word addr msk value (inst_encoding i) of
                None \<Rightarrow> throw (Run_Error ''Bad mask (0x%x) in bad_mem_read'')
              | Some tmp \<Rightarrow> seq (modify (free_inst q)) (store tmp)) s)"

definition write_stack_cell :: "mem_addr \<Rightarrow> 32 word \<Rightarrow> 32 word \<Rightarrow> machine \<Rightarrow> machine" where
  "write_stack_cell addr value msk s =
    (if stack_bot s \<le> addr
     then let d = addr - stack_bot s
          in if msk = 0 then s\<lparr>stack_seg_b := (stack_seg_b s)(unat d := byte_of 0 value)\<rparr>
             else if msk = 1 then s\<lparr>stack_seg_b := put_half (stack_seg_b s) (unat (drop_bit 1 d)) value\<rparr>
             else s\<lparr>stack_seg_b := put_word (stack_seg_b s) (unat (drop_bit 2 d)) value\<rparr>
     else raise_bad_vaddr ExcCode_DBE addr s)"

definition bad_mem_write :: "host \<Rightarrow> mem_addr \<Rightarrow> 32 word \<Rightarrow> 32 word \<Rightarrow> unit mcomp" where
  "bad_mem_write H addr value msk s =
    (if addr AND msk \<noteq> 0 then ret () (raise_bad_vaddr ExcCode_AdES addr s)
     else if in_text s addr then write_text_as_data addr value msk s
     else if near_stack s addr
     then seq (expand_stack H (stack_bot s - addr + 4))
            (modify (\<lambda>s. (write_stack_cell addr value msk s)\<lparr>data_modified := True\<rparr>)) s
     else if MM_IO_BOT \<le> addr \<and> addr \<le> MM_IO_TOP then write_memory_mapped_IO addr value s
     else ret () (raise_bad_vaddr ExcCode_DBE addr s))"

subsection \<open>Accessors\<close>

definition mem_read_inst :: "mem_addr \<Rightarrow> ptr mcomp" where
  "mem_read_inst addr s =
    (if in_text s addr \<and> addr AND 3 = 0 then ret (text_seg s (text_index addr)) s
     else if in_k_text s addr \<and> addr AND 3 = 0 then ret (k_text_seg s (unat (drop_bit 2 (addr - K_TEXT_BOT)))) s
     else bad_text_read addr s)"

definition mem_read_byte :: "host \<Rightarrow> mem_addr \<Rightarrow> reg_word mcomp" where
  "mem_read_byte H addr s =
    (if in_data s addr then ret (scast (data_seg_b s (unat (addr - DATA_BOT)))) s
     else if in_stack s addr then ret (scast (stack_seg_b s (unat (addr - stack_bot s)))) s
     else if in_k_data s addr then ret (scast (k_data_seg_b s (unat (addr - K_DATA_BOT)))) s
     else bad_mem_read H addr 0 s)"

definition mem_read_half :: "host \<Rightarrow> mem_addr \<Rightarrow> reg_word mcomp" where
  "mem_read_half H addr s =
    (if in_data s addr \<and> addr AND 1 = 0
     then ret (scast (get_half (data_seg_b s) (unat (drop_bit 1 (addr - DATA_BOT))))) s
     else if in_stack s addr \<and> addr AND 1 = 0
     then ret (scast (get_half (stack_seg_b s) (unat (drop_bit 1 (addr - stack_bot s))))) s
     else if in_k_data s addr \<and> addr AND 1 = 0
     then ret (scast (get_half (k_data_seg_b s) (unat (drop_bit 1 (addr - K_DATA_BOT))))) s
     else bad_mem_read H addr 1 s)"

definition mem_read_word :: "host \<Rightarrow> mem_addr \<Rightarrow> reg_word mcomp" where
  "mem_read_word H addr s =
    (if in_data s addr \<and> addr AND 3 = 0
     then ret (get_word (data_seg_b s) (unat (drop_bit 2 (addr - DATA_BOT)))) s
     else if in_stack s addr \<and> addr AND 3 = 0
     then ret (get_word (stack_seg_b s) (unat (drop_bit 2 (addr - stack_bot s)))) s
     else if in_k_data s addr \<and> addr AND 3 = 0
     then ret (get_word (k_data_seg_b s) (unat (drop_bit 2 (addr - K_DATA_BOT)))) s
     else bad_mem_read H addr 3 s)"

definition mem_write_byte :: "host \<Rightarrow> mem_addr \<Rightarrow> reg_word \<Rightarrow> unit mcomp" where
  "mem_write_byte H addr value s0 =
    (let s = s0\<lparr>data_modified := True\<rparr>
     in if in_data s addr
        then ret () (s\<lparr>data_seg_b := (data_seg_b s)(unat (addr - DATA_BOT) := byte_of 0 value)\<rparr>)
        else if in_stack s addr
        then ret () (s\<lparr>stack_seg_b := (stack_seg_b s)(unat (addr - stack_bot s) := byte_of 0 value)\<rparr>)
        else if in_k_data s addr
        then ret () (s\<lparr>k_data_seg_b := (k_data_seg_b s)(unat (addr - K_DATA_BOT) := byte_of 0 value)\<rparr>)
        else bad_mem_write H addr value 0 s)"

definition mem_write_half :: "host \<Rightarrow> mem_addr \<Rightarrow> reg_word \<Rightarrow> unit mcomp" where
  "mem_write_half H addr value s0 =
    (let s = s0\<lparr>data_modified := True\<rparr>
     in if in_data s addr \<and> addr AND 1 = 0
        then ret () (s\<lparr>data_seg_b := put_half (data_seg_b s) (unat (drop_bit 1 (addr - DATA_BOT))) value\<rparr>)
        else if in_stack s addr \<and> addr AND 1 = 0
        then ret () (s\<lparr>stack_seg_b := put_half (stack_seg_b s) (unat (drop_bit 1 (addr - stack_bot s))) value\<rparr>)
        else if in_k_data s addr \<and> addr AND 1 = 0
        then ret () (s\<lparr>k_data_seg_b := put_half (k_data_seg_b s) (unat (drop_bit 1 (addr - K_DATA_BOT))) value\<rparr>)
        else bad_mem_write H addr value 1 s)"

definition mem_write_word :: "host \<Rightarrow> mem_addr \<Rightarrow> reg_word \<Rightarrow> unit mcomp" where
  "mem_write_word H addr value s0 =
    (let s = s0\<lparr>data_modified := True\<rparr>
     in if in_data s addr \<and> addr AND 3 = 0
        then ret () (s\<lparr>data_seg_b := put_word (data_seg_b s) (unat (drop_bit 2 (addr - DATA_BOT))) value\<rparr>)
        else if in_stack s addr \<and> addr AND 3 = 0
        then ret () (s\<lparr>stack_seg_b := put_word (stack_seg_b s) (unat (drop_bit 2 (addr - stack_bot s))) value\<rparr>)
        else if in_k_data s addr \<and> addr AND 3 = 0
        then ret () (s\<lparr>k_data_seg_b := put_word (k_data_seg_b s) (unat (drop_bit 2 (addr - K_DATA_BOT))) value\<rparr>)
        else bad_mem_write H addr value 3 s)"

definition bad_text_write :: "host \<Rightarrow> mem_addr \<Rightarrow> ptr \<Rightarrow> unit mcomp" where
  "bad_text_write H addr p =
    seq (modify (raise_bad_vaddr ExcCode_IBE addr))
      (bnd (deref_inst p) (\<lambda>i. mem_write_word H addr (inst_encoding i)))"

definition mem_write_inst :: "host \<Rightarrow> mem_addr \<Rightarrow> ptr \<Rightarrow> unit mcomp" where
  "mem_write_inst H addr p s0 =
    (let s = s0\<lparr>text_modified := True\<rparr>
     in if in_text s addr \<and> addr AND 3 = 0
        then ret () (s\<lparr>text_seg := (text_seg s)(text_index addr := p)\<rparr>)
        else if in_k_text s addr \<and> addr AND 3 = 0
        then ret () (s\<lparr>k_text_seg := (k_text_seg s)(unat (drop_bit 2 (addr - K_TEXT_BOT)) := p)\<rparr>)
        else bad_text_write H addr p s)"

end
