(* ===== verification/WordArith.thy ===== *)
theory WordArith
  imports Prelude
begin

text \<open>
  Arithmetic on 32-bit words that the components share: the value of a signed word, signed
  comparison, rounding to a multiple of four, and 64-bit products split in two words.
\<close>

lemma unat32_less: "unat (w::32 word) < 4294967296"
  by (rule order_less_le_trans [OF unsigned_less]) simp

lemma sint32: "sint (w::32 word) = (if unat w < 2147483648 then int (unat w) else int (unat w) - 4294967296)"
proof -
  have r: "- 2147483648 \<le> sint w" "sint w < 2147483648"
    using sint_ge [of w] sint_lt [of w] by simp_all
  have u: "int (unat w) = sint w mod 4294967296"
    using uint_sint [of w] by (simp add: take_bit_eq_mod)
  show ?thesis
  proof (cases "0 \<le> sint w")
    case True
    with r u have "int (unat w) = sint w" by (simp del: of_nat_unat)
    with r show ?thesis by (simp del: of_nat_unat)
  next
    case False
    have "sint w mod 4294967296 = (sint w + 4294967296) mod 4294967296" by simp
    also have "\<dots> = sint w + 4294967296" using False r by (intro mod_pos_pos_trivial) auto
    finally show ?thesis using u r False by (simp del: of_nat_unat)
  qed
qed

lemma sless32: "(a::32 word) <s b \<longleftrightarrow> sint a < sint b"
  by (rule word_sless_alt)

lemma sless_0_iff: "(a::32 word) <s 0 \<longleftrightarrow> 2147483648 \<le> unat a"
  using unat32_less [of a] by (auto simp: sless32 sint32 [of a] simp del: of_nat_unat)

lemma sless_nonneg:
  "unat (a::32 word) < 2147483648 \<Longrightarrow> unat b < 2147483648 \<Longrightarrow> a <s b \<longleftrightarrow> unat a < unat b"
  by (simp add: sless32 sint32 del: of_nat_unat)

lemma and_not_3: "unat ((w::32 word) AND NOT 3) = unat w - unat w mod 4"
proof -
  have "(w AND 3) + (w AND NOT 3) = (w AND 3) OR (w AND NOT 3)"
    by (rule disjunctive_add) (auto simp: bit_simps)
  also have "\<dots> = w" by (rule bit_eqI) (auto simp: bit_simps)
  finally have "w AND NOT 3 = w - (w AND 3)" by (metis add_diff_cancel_left')
  moreover have "w AND 3 \<le> w" by (rule word_and_le2)
  ultimately show ?thesis by (metis unat_sub and_3_mod)
qed

lemma unat_ROUND_UP:
  assumes "unat n + 3 < 4294967296"
  shows "unat (ROUND_UP n 4) = (unat n + 3) div 4 * 4"
proof -
  have "unat (n + 3) = unat n + 3" using assms by (simp add: unat_word_ariths)
  then have "unat ((n + 3) AND NOT 3) = unat n + 3 - (unat n + 3) mod 4" by (simp only: and_not_3)
  then show ?thesis by (simp add: ROUND_UP_def minus_mod_eq_div_mult [symmetric] add.commute)
qed

end
