(* ===== verification/MemoryLaws.thy ===== *)
theory MemoryLaws
  imports Memory WordArith
begin

text \<open>
  What \<^verbatim>\<open>memory.c\<close> promises. A \<open>segment\<close> is the contract the three data segments share; it is
  interpreted on each of them, and its lemmas give the refinement: the accessors of \<^verbatim>\<open>memory.c\<close>
  implement one partial map \<open>mem_byte\<close> from addresses to bytes. Then the growth of the segments,
  the faults, and the memory-mapped devices.
\<close>

subsection \<open>Bytes, halves and words\<close>

lemma byte_of_le_word [simp]:
  "byte_of 0 (le_word b0 b1 b2 b3) = b0" "byte_of (Suc 0) (le_word b0 b1 b2 b3) = b1"
  "byte_of 2 (le_word b0 b1 b2 b3) = b2" "byte_of 3 (le_word b0 b1 b2 b3) = b3"
  by (simp_all add: byte_of_def le_word_def word_eq_bits bit_simps)

lemma le_word_byte_of [simp]: "le_word (byte_of 0 w) (byte_of (Suc 0) w) (byte_of 2 w) (byte_of 3 w) = w"
  by (simp add: byte_of_def le_word_def word_eq_bits bit_simps)

lemma le_half_byte_of [simp]: "le_half (byte_of 0 w) (byte_of (Suc 0) w) = ucast w"
  by (simp add: byte_of_def le_half_def word_eq_bits bit_simps)

lemma get_put_word: "get_word (put_word f i v) j = (if i = j then v else get_word f j)"
proof (cases "i = j")
  case False
  then have "4 * j + k \<noteq> 4 * i + l" if "k < 4" "l < 4" for k l using that by arith
  from this [of 0] this [of 1] this [of 2] this [of 3] False show ?thesis
    by (simp add: get_word_def put_word_def)
qed (simp add: get_word_def put_word_def)

lemma unat_drop2: "(w::32 word) AND 3 = 0 \<Longrightarrow> 4 * unat (drop_bit 2 w) = unat w"
  by (auto simp: aligned4_iff unat_drop_bit_eq drop_bit_eq_div [of 2 "unat w"])

lemma unat_drop1: "(w::32 word) AND 1 = 0 \<Longrightarrow> 2 * unat (drop_bit 1 w) = unat w"
  by (auto simp: aligned2_iff unat_drop_bit_eq drop_bit_eq_div [of "Suc 0" "unat w"])

lemma unat_plus32: "unat (w::32 word) + k < 4294967296 \<Longrightarrow> unat (w + of_nat k) = unat w + k"
  by (simp add: unat_word_ariths unat_of_nat)

lemma aligned4_plus: "(w::32 word) AND 3 = 0 \<Longrightarrow> k < 4 \<Longrightarrow> unat (w + of_nat k) = unat w + k"
  by (rule unat_plus32) (use unat32_less [of w] aligned4_iff [of w] in arith)

lemma aligned2_plus: "(w::32 word) AND 1 = 0 \<Longrightarrow> unat (w + 1) = unat w + 1"
  using unat_plus32 [of w 1] unat32_less [of w] aligned2_iff [of w] by simp presburger

lemma diff_shift: "(a::32 word) + k - b = a - b + k"
  by simp

text \<open>The index of a byte of an aligned word or half, from its address.\<close>

lemma word_cell_index:
  fixes a b :: "32 word"
  assumes "(a - b) AND 3 = 0"
  shows "unat (a - b) = 4 * unat (drop_bit 2 (a - b))"
    and "unat (a + 1 - b) = 4 * unat (drop_bit 2 (a - b)) + 1"
    and "unat (a + 2 - b) = 4 * unat (drop_bit 2 (a - b)) + 2"
    and "unat (a + 3 - b) = 4 * unat (drop_bit 2 (a - b)) + 3"
  using aligned4_plus [OF assms, of 1] aligned4_plus [OF assms, of 2] aligned4_plus [OF assms, of 3]
  by (simp_all only: diff_shift unat_drop2 [OF assms]) simp_all

lemma half_cell_index:
  fixes a b :: "32 word"
  assumes "(a - b) AND 1 = 0"
  shows "unat (a - b) = 2 * unat (drop_bit 1 (a - b))"
    and "unat (a + 1 - b) = 2 * unat (drop_bit 1 (a - b)) + 1"
  using aligned2_plus [OF assms] by (simp_all only: diff_shift unat_drop1 [OF assms])

lemma unat_diff_inj: "unat (x - b) = unat (y - b) \<longleftrightarrow> x = (y :: 32 word)"
  by (simp flip: word_unat_eq_iff)

subsection \<open>Alignment and order\<close>

lemma next_below:
  fixes a t :: "32 word"
  assumes "a < t" and "a AND 1 = 0" and "t AND 1 = 0"
  shows "a + 1 < t" and "a \<le> a + 1"
proof -
  have "unat a < unat t" and "unat a mod 2 = 0" and "unat t mod 2 = 0"
    using assms by (simp_all add: word_less_nat_alt aligned2_iff)
  then have "unat a + 1 < unat t" by presburger
  then show "a + 1 < t" and "a \<le> a + 1"
    using aligned2_plus [OF assms(2)] by (simp_all add: word_less_nat_alt word_le_nat_alt)
qed

lemma next2_below:
  fixes a t :: "32 word"
  assumes "a < t" and "a AND 3 = 0" and "t AND 3 = 0"
  shows "a + 2 < t" and "a \<le> a + 2"
proof -
  have "unat a < unat t" and "unat a mod 4 = 0" and "unat t mod 4 = 0"
    using assms by (simp_all add: word_less_nat_alt aligned4_iff)
  then have "unat a + 2 < unat t" by presburger
  then show "a + 2 < t" and "a \<le> a + 2"
    using aligned4_plus [OF assms(2), of 2] by (simp_all add: word_less_nat_alt word_le_nat_alt)
qed

lemma aligned4_2: "(w::32 word) AND 3 = 0 \<Longrightarrow> w AND 1 = 0"
  using aligned4_iff [of w] aligned2_iff [of w] by presburger

lemma aligned4_diff: "(b::32 word) \<le> a \<Longrightarrow> a AND 3 = 0 \<Longrightarrow> b AND 3 = 0 \<Longrightarrow> (a - b) AND 3 = 0"
  by (auto simp: aligned4_iff unat_sub32 word_le_nat_alt mod_eq_0_iff_dvd)

lemma aligned2_diff: "(b::32 word) \<le> a \<Longrightarrow> a AND 1 = 0 \<Longrightarrow> b AND 1 = 0 \<Longrightarrow> (a - b) AND 1 = 0"
  by (auto simp: aligned2_iff unat_sub32 word_le_nat_alt mod_eq_0_iff_dvd)

lemma aligned4_add2: "(a::32 word) AND 3 = 0 \<Longrightarrow> (a + 2) AND 1 = 0"
  using aligned4_plus [of a 2] aligned4_iff [of a] by (simp add: aligned2_iff) presburger

subsection \<open>The invariant of the address space\<close>

definition mem_ok :: "machine \<Rightarrow> bool" where
  "mem_ok s \<longleftrightarrow> DATA_BOT \<le> data_top s \<and> data_top s \<le> stack_bot s \<and> stack_bot s \<le> STACK_TOP \<and>
     K_DATA_BOT \<le> k_data_top s \<and> k_data_top s \<le> MM_IO_BOT \<and>
     data_top s AND 3 = 0 \<and> stack_bot s AND 3 = 0 \<and> k_data_top s AND 3 = 0"

text \<open>The abstract memory: the byte at an address of one of the three data segments.\<close>

definition mem_byte :: "machine \<Rightarrow> mem_addr \<Rightarrow> byte option" where
  "mem_byte s a =
    (if in_data s a then Some (data_seg_b s (unat (a - DATA_BOT)))
     else if in_stack s a then Some (stack_seg_b s (unat (a - stack_bot s)))
     else if in_k_data s a then Some (k_data_seg_b s (unat (a - K_DATA_BOT)))
     else None)"

definition data_ref :: "machine \<Rightarrow> mem_addr \<Rightarrow> bool" where
  "data_ref s a \<longleftrightarrow> in_data s a \<or> in_stack s a \<or> in_k_data s a"

subsection \<open>Segments\<close>

text \<open>
  The contract of a data segment: replacing its contents moves neither its bounds nor its
  base, and on the states with the invariant it holds whole words.
\<close>

locale segment =
  fixes inside :: "machine \<Rightarrow> mem_addr \<Rightarrow> bool"
    and contents :: "machine \<Rightarrow> nat \<Rightarrow> byte"
    and set_contents :: "(nat \<Rightarrow> byte) \<Rightarrow> machine \<Rightarrow> machine"
    and base :: "machine \<Rightarrow> mem_addr"
  assumes contents_set: "contents (set_contents f s) = f"
    and base_set: "base (set_contents f s) = base s"
    and inside_set: "inside (set_contents f s) = inside s"
    and next1: "mem_ok s \<Longrightarrow> inside s a \<Longrightarrow> a AND 1 = 0 \<Longrightarrow> inside s (a + 1)"
    and next2: "mem_ok s \<Longrightarrow> inside s a \<Longrightarrow> a AND 3 = 0 \<Longrightarrow> inside s (a + 2)"
    and offset2: "mem_ok s \<Longrightarrow> inside s a \<Longrightarrow> a AND 1 = 0 \<Longrightarrow> (a - base s) AND 1 = 0"
    and offset4: "mem_ok s \<Longrightarrow> inside s a \<Longrightarrow> a AND 3 = 0 \<Longrightarrow> (a - base s) AND 3 = 0"
begin

lemma inside_word:
  assumes "mem_ok s" and "inside s a" and "a AND 3 = 0"
  shows "inside s (a + 1)" and "inside s (a + 2)" and "inside s (a + 3)"
proof -
  show "inside s (a + 1)" by (rule next1 [OF assms(1,2) aligned4_2 [OF assms(3)]])
  show two: "inside s (a + 2)" by (rule next2 [OF assms])
  from next1 [OF assms(1) two aligned4_add2 [OF assms(3)]] show "inside s (a + 3)" by (simp add: add.assoc)
qed

lemma read_word:
  assumes "mem_ok s" and "inside s a" and "a AND 3 = 0"
  shows "get_word (contents s) (unat (drop_bit 2 (a - base s))) =
    le_word (contents s (unat (a - base s))) (contents s (unat (a + 1 - base s)))
      (contents s (unat (a + 2 - base s))) (contents s (unat (a + 3 - base s)))"
  unfolding get_word_def word_cell_index [OF offset4 [OF assms]] ..

lemma read_half:
  assumes "mem_ok s" and "inside s a" and "a AND 1 = 0"
  shows "get_half (contents s) (unat (drop_bit 1 (a - base s))) =
    le_half (contents s (unat (a - base s))) (contents s (unat (a + 1 - base s)))"
  unfolding get_half_def half_cell_index [OF offset2 [OF assms]] ..

lemma write_byte:
  "contents (set_contents ((contents s)(unat (a - base s) := v)) s) (unat (x - base s)) =
    (if x = a then v else contents s (unat (x - base s)))"
  by (simp only: contents_set fun_upd_apply unat_diff_inj)

lemma write_half:
  assumes "mem_ok s" and "inside s a" and "a AND 1 = 0"
  shows "contents (set_contents (put_half (contents s) (unat (drop_bit 1 (a - base s))) v) s) (unat (x - base s)) =
    (if x = a + 1 then byte_of 1 v else if x = a then byte_of 0 v else contents s (unat (x - base s)))"
  unfolding contents_set put_half_def half_cell_index(2) [OF offset2 [OF assms], symmetric]
  unfolding half_cell_index(1) [OF offset2 [OF assms], symmetric]
  by (simp only: fun_upd_apply unat_diff_inj)

lemma write_word:
  assumes "mem_ok s" and "inside s a" and "a AND 3 = 0"
  shows "contents (set_contents (put_word (contents s) (unat (drop_bit 2 (a - base s))) v) s) (unat (x - base s)) =
    (if x = a + 3 then byte_of 3 v else if x = a + 2 then byte_of 2 v else if x = a + 1 then byte_of 1 v
     else if x = a then byte_of 0 v else contents s (unat (x - base s)))"
  unfolding contents_set put_word_def word_cell_index(2-4) [OF offset4 [OF assms], symmetric]
  unfolding word_cell_index(1) [OF offset4 [OF assms], symmetric]
  by (simp only: fun_upd_apply unat_diff_inj)

end

interpretation data_segment: segment in_data data_seg_b "\<lambda>f s. s\<lparr>data_seg_b := f\<rparr>" "\<lambda>_. DATA_BOT"
proof unfold_locales
  fix s a assume ok: "mem_ok s" and a: "in_data s a"
  show "a AND 1 = 0 \<Longrightarrow> in_data s (a + 1)"
    using ok a next_below [of a "data_top s"] by (auto simp: in_data_def mem_ok_def aligned4_2)
  show "a AND 3 = 0 \<Longrightarrow> in_data s (a + 2)"
    using ok a next2_below [of a "data_top s"] by (auto simp: in_data_def mem_ok_def)
  show "a AND 1 = 0 \<Longrightarrow> (a - DATA_BOT) AND 1 = 0"
    using a by (intro aligned2_diff) (simp_all add: in_data_def)
  show "a AND 3 = 0 \<Longrightarrow> (a - DATA_BOT) AND 3 = 0"
    using a by (intro aligned4_diff) (simp_all add: in_data_def)
qed (simp_all add: in_data_def fun_eq_iff)

interpretation stack_segment: segment in_stack stack_seg_b "\<lambda>f s. s\<lparr>stack_seg_b := f\<rparr>" stack_bot
proof unfold_locales
  fix s a assume ok: "mem_ok s" and a: "in_stack s a"
  show "a AND 1 = 0 \<Longrightarrow> in_stack s (a + 1)"
    using a next_below [of a STACK_TOP] by (auto simp: in_stack_def)
  show "a AND 3 = 0 \<Longrightarrow> in_stack s (a + 2)"
    using a next2_below [of a STACK_TOP] by (auto simp: in_stack_def)
  show "a AND 1 = 0 \<Longrightarrow> (a - stack_bot s) AND 1 = 0"
    using ok a by (intro aligned2_diff) (simp_all add: in_stack_def mem_ok_def aligned4_2)
  show "a AND 3 = 0 \<Longrightarrow> (a - stack_bot s) AND 3 = 0"
    using ok a by (intro aligned4_diff) (simp_all add: in_stack_def mem_ok_def)
qed (simp_all add: in_stack_def fun_eq_iff)

interpretation k_data_segment: segment in_k_data k_data_seg_b "\<lambda>f s. s\<lparr>k_data_seg_b := f\<rparr>" "\<lambda>_. K_DATA_BOT"
proof unfold_locales
  fix s a assume ok: "mem_ok s" and a: "in_k_data s a"
  show "a AND 1 = 0 \<Longrightarrow> in_k_data s (a + 1)"
    using ok a next_below [of a "k_data_top s"] by (auto simp: in_k_data_def mem_ok_def aligned4_2)
  show "a AND 3 = 0 \<Longrightarrow> in_k_data s (a + 2)"
    using ok a next2_below [of a "k_data_top s"] by (auto simp: in_k_data_def mem_ok_def)
  show "a AND 1 = 0 \<Longrightarrow> (a - K_DATA_BOT) AND 1 = 0"
    using a by (intro aligned2_diff) (simp_all add: in_k_data_def)
  show "a AND 3 = 0 \<Longrightarrow> (a - K_DATA_BOT) AND 3 = 0"
    using a by (intro aligned4_diff) (simp_all add: in_k_data_def)
qed (simp_all add: in_k_data_def fun_eq_iff)

subsection \<open>Refinement\<close>

lemma data_stack_disjoint: "mem_ok s \<Longrightarrow> in_stack s a \<Longrightarrow> \<not> in_data s a"
  by (simp add: mem_ok_def in_data_def in_stack_def word_less_nat_alt word_le_nat_alt)

lemma data_k_data_disjoint: "mem_ok s \<Longrightarrow> in_k_data s a \<Longrightarrow> \<not> in_data s a"
  by (simp add: mem_ok_def in_data_def in_k_data_def word_less_nat_alt word_le_nat_alt)

lemma stack_k_data_disjoint: "in_k_data s a \<Longrightarrow> \<not> in_stack s a"
  by (simp add: in_stack_def in_k_data_def word_less_nat_alt word_le_nat_alt)

lemma in_segment_upd [simp]:
  "in_data (s\<lparr>data_seg_b := f\<rparr>) = in_data s" "in_stack (s\<lparr>data_seg_b := f\<rparr>) = in_stack s"
  "in_k_data (s\<lparr>data_seg_b := f\<rparr>) = in_k_data s" "in_data (s\<lparr>stack_seg_b := f\<rparr>) = in_data s"
  "in_stack (s\<lparr>stack_seg_b := f\<rparr>) = in_stack s" "in_k_data (s\<lparr>stack_seg_b := f\<rparr>) = in_k_data s"
  "in_data (s\<lparr>k_data_seg_b := f\<rparr>) = in_data s" "in_stack (s\<lparr>k_data_seg_b := f\<rparr>) = in_stack s"
  "in_k_data (s\<lparr>k_data_seg_b := f\<rparr>) = in_k_data s" "in_data (s\<lparr>data_modified := b\<rparr>) = in_data s"
  "in_stack (s\<lparr>data_modified := b\<rparr>) = in_stack s" "in_k_data (s\<lparr>data_modified := b\<rparr>) = in_k_data s"
  by (simp_all add: in_data_def in_stack_def in_k_data_def fun_eq_iff)

lemma mem_ok_upd [simp]:
  "mem_ok (s\<lparr>data_seg_b := f\<rparr>) = mem_ok s" "mem_ok (s\<lparr>stack_seg_b := f\<rparr>) = mem_ok s"
  "mem_ok (s\<lparr>k_data_seg_b := f\<rparr>) = mem_ok s" "mem_ok (s\<lparr>data_modified := b\<rparr>) = mem_ok s"
  by (simp_all add: mem_ok_def)

lemma mem_byte_upd:
  "mem_byte (s\<lparr>data_seg_b := f\<rparr>) x = (if in_data s x then Some (f (unat (x - DATA_BOT))) else mem_byte s x)"
  "mem_ok s \<Longrightarrow> mem_byte (s\<lparr>stack_seg_b := f\<rparr>) x =
     (if in_stack s x then Some (f (unat (x - stack_bot s))) else mem_byte s x)"
  "mem_ok s \<Longrightarrow> mem_byte (s\<lparr>k_data_seg_b := f\<rparr>) x =
     (if in_k_data s x then Some (f (unat (x - K_DATA_BOT))) else mem_byte s x)"
  "mem_byte (s\<lparr>data_modified := b\<rparr>) x = mem_byte s x"
  by (auto simp: mem_byte_def dest: data_stack_disjoint data_k_data_disjoint stack_k_data_disjoint)

lemma mem_byte_seg:
  "in_data s x \<Longrightarrow> mem_byte s x = Some (data_seg_b s (unat (x - DATA_BOT)))"
  "mem_ok s \<Longrightarrow> in_stack s x \<Longrightarrow> mem_byte s x = Some (stack_seg_b s (unat (x - stack_bot s)))"
  "mem_ok s \<Longrightarrow> in_k_data s x \<Longrightarrow> mem_byte s x = Some (k_data_seg_b s (unat (x - K_DATA_BOT)))"
  by (auto simp: mem_byte_def dest: data_stack_disjoint data_k_data_disjoint stack_k_data_disjoint)

text \<open>The abstract operations: a word is four bytes, the low one first.\<close>

definition abs_write_byte :: "mem_addr \<Rightarrow> 32 word \<Rightarrow> (mem_addr \<Rightarrow> byte option) \<Rightarrow> mem_addr \<Rightarrow> byte option" where
  "abs_write_byte a v m = m(a \<mapsto> byte_of 0 v)"

definition abs_write_half :: "mem_addr \<Rightarrow> 32 word \<Rightarrow> (mem_addr \<Rightarrow> byte option) \<Rightarrow> mem_addr \<Rightarrow> byte option" where
  "abs_write_half a v m = m(a \<mapsto> byte_of 0 v, a + 1 \<mapsto> byte_of 1 v)"

definition abs_write_word :: "mem_addr \<Rightarrow> 32 word \<Rightarrow> (mem_addr \<Rightarrow> byte option) \<Rightarrow> mem_addr \<Rightarrow> byte option" where
  "abs_write_word a v m = m(a \<mapsto> byte_of 0 v, a + 1 \<mapsto> byte_of 1 v, a + 2 \<mapsto> byte_of 2 v, a + 3 \<mapsto> byte_of 3 v)"

definition abs_read_half :: "mem_addr \<Rightarrow> (mem_addr \<Rightarrow> byte option) \<Rightarrow> half" where
  "abs_read_half a m = le_half (the (m a)) (the (m (a + 1)))"

definition abs_read_word :: "mem_addr \<Rightarrow> (mem_addr \<Rightarrow> byte option) \<Rightarrow> 32 word" where
  "abs_read_word a m = le_word (the (m a)) (the (m (a + 1))) (the (m (a + 2))) (the (m (a + 3)))"

lemmas segment_words = data_segment.inside_word stack_segment.inside_word k_data_segment.inside_word
lemmas segment_next = data_segment.next1 stack_segment.next1 k_data_segment.next1

lemma mem_read_byte_in:
  "mem_ok s \<Longrightarrow> data_ref s a \<Longrightarrow> mem_read_byte H a s = Inr (scast (the (mem_byte s a)), s)"
  by (auto simp: mem_read_byte_def mem_byte_def data_ref_def)

lemma mem_read_half_in:
  assumes ok: "mem_ok s" and a: "data_ref s a" and al: "a AND 1 = 0"
  shows "mem_read_half H a s = Inr (scast (abs_read_half a (mem_byte s)), s)"
proof -
  consider (d) "in_data s a" | (k) "in_stack s a" "\<not> in_data s a"
    | (kd) "in_k_data s a" "\<not> in_stack s a" "\<not> in_data s a"
    using a by (auto simp: data_ref_def)
  then show ?thesis
  proof cases
    case d
    with data_segment.read_half [OF ok d al] ok al show ?thesis
      by (simp add: mem_read_half_def abs_read_half_def mem_byte_seg segment_next)
  next
    case k
    with stack_segment.read_half [OF ok k(1) al] ok al show ?thesis
      by (simp add: mem_read_half_def abs_read_half_def mem_byte_seg segment_next)
  next
    case kd
    with k_data_segment.read_half [OF ok kd(1) al] ok al show ?thesis
      by (simp add: mem_read_half_def abs_read_half_def mem_byte_seg segment_next)
  qed
qed

lemma mem_read_word_in:
  assumes ok: "mem_ok s" and a: "data_ref s a" and al: "a AND 3 = 0"
  shows "mem_read_word H a s = Inr (abs_read_word a (mem_byte s), s)"
proof -
  consider (d) "in_data s a" | (k) "in_stack s a" "\<not> in_data s a"
    | (kd) "in_k_data s a" "\<not> in_stack s a" "\<not> in_data s a"
    using a by (auto simp: data_ref_def)
  then show ?thesis
  proof cases
    case d
    with data_segment.read_word [OF ok d al] ok al show ?thesis
      by (simp add: mem_read_word_def abs_read_word_def mem_byte_seg segment_words)
  next
    case k
    with stack_segment.read_word [OF ok k(1) al] ok al show ?thesis
      by (simp add: mem_read_word_def abs_read_word_def mem_byte_seg segment_words)
  next
    case kd
    with k_data_segment.read_word [OF ok kd(1) al] ok al show ?thesis
      by (simp add: mem_read_word_def abs_read_word_def mem_byte_seg segment_words)
  qed
qed

text \<open>What a write in range leaves alone: all but the three arrays and the modification flag.\<close>

definition same_but_data :: "machine \<Rightarrow> machine \<Rightarrow> bool" where
  "same_but_data s t \<longleftrightarrow> t = s\<lparr>data_modified := True, data_seg_b := data_seg_b t,
     stack_seg_b := stack_seg_b t, k_data_seg_b := k_data_seg_b t\<rparr>"

lemma same_but_data_mem_ok: "same_but_data s t \<Longrightarrow> mem_ok t = mem_ok s"
  unfolding same_but_data_def by (metis mem_ok_upd)

lemma write_in_segment:
  assumes "mem_ok s"
  shows "in_data s a \<Longrightarrow> (\<And>x. m x = (if in_data s x then Some (f (unat (x - DATA_BOT))) else mem_byte s x)) \<Longrightarrow>
      mem_byte (s\<lparr>data_modified := True, data_seg_b := f\<rparr>) = m"
    and "in_stack s a \<Longrightarrow> (\<And>x. m x = (if in_stack s x then Some (f (unat (x - stack_bot s))) else mem_byte s x)) \<Longrightarrow>
      mem_byte (s\<lparr>data_modified := True, stack_seg_b := f\<rparr>) = m"
    and "in_k_data s a \<Longrightarrow> (\<And>x. m x = (if in_k_data s x then Some (f (unat (x - K_DATA_BOT))) else mem_byte s x)) \<Longrightarrow>
      mem_byte (s\<lparr>data_modified := True, k_data_seg_b := f\<rparr>) = m"
  using assms by (auto simp: fun_eq_iff mem_byte_upd)

text \<open>The three segments, one at a time, for an access in range.\<close>

lemma data_ref_cases [consumes 2, case_names data stack k_data]:
  assumes "mem_ok s" and "data_ref s a"
  obtains "in_data s a" | "in_stack s a" "\<not> in_data s a" | "in_k_data s a" "\<not> in_stack s a" "\<not> in_data s a"
  using assms by (auto simp: data_ref_def)

lemma mem_write_byte_in:
  assumes ok: "mem_ok s" and a: "data_ref s a"
  shows "\<exists>t. mem_write_byte H a v s = Inr ((), t) \<and> mem_byte t = abs_write_byte a v (mem_byte s) \<and> same_but_data s t"
  using ok a
proof (cases rule: data_ref_cases)
  case data
  then show ?thesis using data_segment.write_byte [of s a "byte_of 0 v"] ok
    by (auto simp: mem_write_byte_def abs_write_byte_def same_but_data_def mem_byte_seg intro!: write_in_segment)
next
  case stack
  then show ?thesis using stack_segment.write_byte [of s a "byte_of 0 v"] ok
    by (auto simp: mem_write_byte_def abs_write_byte_def same_but_data_def mem_byte_seg intro!: write_in_segment)
next
  case k_data
  then show ?thesis using k_data_segment.write_byte [of s a "byte_of 0 v"] ok
    by (auto simp: mem_write_byte_def abs_write_byte_def same_but_data_def mem_byte_seg intro!: write_in_segment)
qed

lemma mem_write_half_in:
  assumes ok: "mem_ok s" and a: "data_ref s a" and al: "a AND 1 = 0"
  shows "\<exists>t. mem_write_half H a v s = Inr ((), t) \<and> mem_byte t = abs_write_half a v (mem_byte s) \<and> same_but_data s t"
  using ok a
proof (cases rule: data_ref_cases)
  case data
  then show ?thesis using data_segment.write_half [OF ok data al, of v] ok al segment_next [OF ok]
    by (auto simp: mem_write_half_def abs_write_half_def same_but_data_def mem_byte_seg intro!: write_in_segment)
next
  case stack
  then show ?thesis using stack_segment.write_half [OF ok stack(1) al, of v] ok al segment_next [OF ok]
    by (auto simp: mem_write_half_def abs_write_half_def same_but_data_def mem_byte_seg intro!: write_in_segment)
next
  case k_data
  then show ?thesis using k_data_segment.write_half [OF ok k_data(1) al, of v] ok al segment_next [OF ok]
    by (auto simp: mem_write_half_def abs_write_half_def same_but_data_def mem_byte_seg intro!: write_in_segment)
qed

lemma mem_write_word_in:
  assumes ok: "mem_ok s" and a: "data_ref s a" and al: "a AND 3 = 0"
  shows "\<exists>t. mem_write_word H a v s = Inr ((), t) \<and> mem_byte t = abs_write_word a v (mem_byte s) \<and> same_but_data s t"
  using ok a
proof (cases rule: data_ref_cases)
  case data
  then show ?thesis using data_segment.write_word [OF ok data al, of v] ok al segment_words [OF ok]
    by (auto simp: mem_write_word_def abs_write_word_def same_but_data_def mem_byte_seg intro!: write_in_segment)
next
  case stack
  then show ?thesis using stack_segment.write_word [OF ok stack(1) al, of v] ok al segment_words [OF ok]
    by (auto simp: mem_write_word_def abs_write_word_def same_but_data_def mem_byte_seg intro!: write_in_segment)
next
  case k_data
  then show ?thesis using k_data_segment.write_word [OF ok k_data(1) al, of v] ok al segment_words [OF ok]
    by (auto simp: mem_write_word_def abs_write_word_def same_but_data_def mem_byte_seg intro!: write_in_segment)
qed

subsection \<open>Growth\<close>

text \<open>
  The limits that keep the growing segments apart: what the options \<^verbatim>\<open>-ldata\<close>, \<^verbatim>\<open>-lstack\<close> and
  \<^verbatim>\<open>-lkdata\<close> must respect for \<^verbatim>\<open>memory.c\<close>'s own checks to be enough.
\<close>

definition limits_ok :: "machine \<Rightarrow> bool" where
  "limits_ok s \<longleftrightarrow> unat (data_top s - DATA_BOT) \<le> unat (data_size_limit s) \<and>
     unat (STACK_TOP - stack_bot s) \<le> unat (stack_size_limit s) \<and>
     unat (k_data_top s - K_DATA_BOT) \<le> unat (k_data_size_limit s) \<and>
     unat (data_size_limit s) + unat (stack_size_limit s) \<le> 0x70000000 \<and>
     unat (k_data_size_limit s) \<le> 0x6fff0000"

definition mem_inv :: "machine \<Rightarrow> bool" where
  "mem_inv s \<longleftrightarrow> mem_ok s \<and> limits_ok s"

text \<open>The C library grants no block larger than \<^verbatim>\<open>PTRDIFF_MAX\<close>.\<close>

definition alloc_bounded :: "host \<Rightarrow> bool" where
  "alloc_bounded H \<longleftrightarrow> (\<forall>n. alloc_ok H n \<longrightarrow> n < 2 ^ 63)"

lemma len64: "LENGTH(64) = 64"
  by simp

lemma to_size_t_nonneg:
  assumes "to_size_t w < 2 ^ 63"
  shows "unat w < 2147483648"
proof (rule ccontr)
  assume "\<not> unat w < 2147483648"
  then have neg: "sint w = int (unat w) - 4294967296" by (simp add: sint32 del: of_nat_unat)
  have "int (to_size_t w) = uint (word_of_int (sint w) :: 64 word)"
    by (simp only: to_size_t_def scast_eq of_nat_unat)
  also have "\<dots> = sint w mod 2 ^ 64"
    by (simp only: uint_word_of_int_eq take_bit_eq_mod len64)
  also have "\<dots> = (sint w + 2 ^ 64) mod 2 ^ 64" by simp
  also have "\<dots> = sint w + 2 ^ 64"
    using unat32_less [of w] neg by (intro mod_pos_pos_trivial) (auto simp del: of_nat_unat)
  finally show False using assms neg by (simp del: of_nat_unat)
qed

lemma unat_add32: "unat (a::32 word) + unat b < 4294967296 \<Longrightarrow> unat (a + b) = unat a + unat b"
  by (simp add: unat_word_ariths)

text \<open>The sizes of a growth request that passes the checks, as natural numbers.\<close>

lemma grown_size:
  assumes "alloc_bounded H" and "alloc_ok H (to_size_t (old + delta))"
    and "unat old \<le> unat lim" and "unat lim < 2147483648" and "\<not> lim <s old + delta"
    and "unat delta \<le> 2147483648"
  shows "unat (old + delta) = unat old + unat delta" and "unat (old + delta) \<le> unat lim"
proof -
  show sum: "unat (old + delta) = unat old + unat delta"
    using assms(3,4,6) by (intro unat_add32) simp
  have "unat (old + delta) < 2147483648"
    using assms(1,2) by (intro to_size_t_nonneg) (simp add: alloc_bounded_def)
  with assms(4,5) show "unat (old + delta) \<le> unat lim"
    by (simp add: sless_nonneg)
qed

lemma round_up_request:
  assumes "\<not> n <s (0::32 word)"
  shows "unat n \<le> unat (ROUND_UP n 4)" and "unat (ROUND_UP n 4) \<le> 2147483648"
    and "unat (ROUND_UP n 4) mod 4 = 0"
proof -
  have n: "unat n < 2147483648" using assms by (simp add: sless_0_iff)
  then have r: "unat (ROUND_UP n 4) = (unat n + 3) div 4 * 4" by (intro unat_ROUND_UP) simp
  show "unat n \<le> unat (ROUND_UP n 4)" and "unat (ROUND_UP n 4) \<le> 2147483648"
    using n unfolding r by presburger+
  show "unat (ROUND_UP n 4) mod 4 = 0" unfolding r by simp
qed

lemma expand_data_result:
  assumes inv: "mem_inv s" and H: "alloc_bounded H" and t: "expand_data H n s = Inr ((), t)"
  shows "t = s\<lparr>data_top := data_top t, data_seg_b := data_seg_b t\<rparr>"
    and "unat (data_top t) = unat (data_top s) + unat (ROUND_UP n 4)"
    and "unat n \<le> unat (ROUND_UP n 4)"
    and "mem_inv t"
    and "data_seg_b t i = (if i < unat (data_top s - DATA_BOT) then data_seg_b s i
      else if i < unat (data_top t - DATA_BOT) then 0 else heap_garbage H i)"
proof -
  let ?old = "data_top s - DATA_BOT" and ?d = "ROUND_UP n 4"
  from t have n: "\<not> n <s 0" and lim: "\<not> data_size_limit s <s ?old + ?d" and ok: "alloc_ok H (to_size_t (?old + ?d))"
    and t': "t = s\<lparr>data_top := data_top s + ?d,
               data_seg_b := zero_range (unat ?old) (unat (?old + ?d)) (realloc_seg H (unat ?old) (unat (?old + ?d)) (data_seg_b s))\<rparr>"
    by (auto simp: expand_data_def Let_def split: if_splits)
  have b: "DATA_BOT \<le> data_top s" "data_top s \<le> stack_bot s" "stack_bot s \<le> STACK_TOP"
    and l: "unat ?old \<le> unat (data_size_limit s)" "unat (STACK_TOP - stack_bot s) \<le> unat (stack_size_limit s)"
      "unat (data_size_limit s) + unat (stack_size_limit s) \<le> 0x70000000"
    using inv by (simp_all add: mem_inv_def mem_ok_def limits_ok_def)
  have g: "unat (?old + ?d) = unat ?old + unat ?d" "unat (?old + ?d) \<le> unat (data_size_limit s)"
    using grown_size [OF H ok l(1) _ lim round_up_request(2) [OF n]] l(3) by simp_all
  have old: "unat ?old = unat (data_top s) - 0x10000000" "0x10000000 \<le> unat (data_top s)"
    using b(1) by (simp_all add: unat_sub32 word_le_nat_alt)
  have stk: "unat (STACK_TOP - stack_bot s) = 0x80000000 - unat (stack_bot s)" "unat (stack_bot s) \<le> 0x80000000"
    using b(3) by (simp_all add: unat_sub32 word_le_nat_alt)
  show dt: "unat (data_top t) = unat (data_top s) + unat ?d"
    unfolding t' using g l old by (simp add: unat_add32)
  have new: "data_top t - DATA_BOT = ?old + ?d" unfolding t' by simp
  show "unat n \<le> unat ?d" by (rule round_up_request(1) [OF n])
  show "t = s\<lparr>data_top := data_top t, data_seg_b := data_seg_b t\<rparr>" unfolding t' by simp
  show "data_seg_b t i = (if i < unat ?old then data_seg_b s i
      else if i < unat (data_top t - DATA_BOT) then 0 else heap_garbage H i)"
    unfolding new unfolding t' using g(1) by (auto simp: zero_range_def realloc_seg_def)
  have al: "data_top t AND 3 = 0"
    using dt round_up_request(3) [OF n] inv by (simp add: aligned4_iff mem_inv_def mem_ok_def mod_add_eq [symmetric])
  have le: "data_top t \<le> stack_bot s" "DATA_BOT \<le> data_top t"
    using dt g l old stk by (simp_all add: word_le_nat_alt)
  show "mem_inv t"
    using inv al le g(2) [folded new] unfolding mem_inv_def mem_ok_def limits_ok_def by (simp add: t')
qed

lemma copy_words_down_eq:
  "n \<le> m \<Longrightarrow> copy_words_down n old m new i =
     (if 4 * (m - n) \<le> i \<and> i < 4 * m then old (i - 4 * (m - n)) else new i)"
proof (induction n arbitrary: m new)
  case 0
  then show ?case by auto
next
  case (Suc n)
  then obtain k where k: "m = Suc k" by (cases m) auto
  have pw: "put_word new k (get_word old n) i =
     (if 4 * k \<le> i \<and> i < 4 * k + 4 then old (4 * n + (i - 4 * k)) else new i)"
  proof -
    have "4 * k \<le> i \<and> i < 4 * k + 4 \<longleftrightarrow> i = 4 * k \<or> i = 4 * k + 1 \<or> i = 4 * k + 2 \<or> i = 4 * k + 3" by arith
    then show ?thesis by (auto simp: put_word_def get_word_def)
  qed
  have "4 * n + (i - 4 * k) = i - 4 * (k - n)" if "4 * k \<le> i"
    using that Suc.prems k by simp
  with Suc k show ?case by (auto simp: pw)
qed

lemma expand_stack_result:
  assumes inv: "mem_inv s" and H: "alloc_bounded H" and n: "unat n \<le> 0x7ffffffc"
    and t: "expand_stack H n s = Inr ((), t)"
  shows "t = s\<lparr>stack_bot := stack_bot t, stack_seg_b := stack_seg_b t\<rparr>"
    and "unat (stack_bot t) + unat n \<le> unat (stack_bot s)"
    and "mem_inv t"
    and "i < unat (STACK_TOP - stack_bot t) \<Longrightarrow>
      stack_seg_b t i = (if i < unat (stack_bot s - stack_bot t) then 0
        else stack_seg_b s (i - unat (stack_bot s - stack_bot t)))"
proof -
  let ?old = "STACK_TOP - stack_bot s" and ?d = "ROUND_UP n 4"
  let ?m = "if ?old <s ?d then ?d else ?old"
  from t have n0: "\<not> n <s 0" and lim: "\<not> stack_size_limit s <s ?old + ?m" and ok: "alloc_ok H (to_size_t (?old + ?m))"
    and t': "t = s\<lparr>stack_seg_b := copy_words_down (unat ?old div 4) (stack_seg_b s) (unat (?old + ?m) div 4) (\<lambda>_. 0),
               stack_bot := stack_bot s - ?m\<rparr>"
    by (auto simp: expand_stack_def Let_def split: if_splits)
  have b: "DATA_BOT \<le> data_top s" "data_top s \<le> stack_bot s" "stack_bot s \<le> STACK_TOP" "stack_bot s AND 3 = 0"
    and l: "unat (data_top s - DATA_BOT) \<le> unat (data_size_limit s)" "unat ?old \<le> unat (stack_size_limit s)"
      "unat (data_size_limit s) + unat (stack_size_limit s) \<le> 0x70000000"
    using inv by (simp_all add: mem_inv_def mem_ok_def limits_ok_def)
  have d: "unat ?d = (unat n + 3) div 4 * 4" using n by (intro unat_ROUND_UP) simp
  have d2: "unat ?d < 2147483648" "unat n \<le> unat ?d" using n unfolding d by presburger+
  have old: "unat ?old = 0x80000000 - unat (stack_bot s)" "unat (stack_bot s) \<le> 0x80000000"
      "unat (data_top s - DATA_BOT) = unat (data_top s) - 0x10000000" "0x10000000 \<le> unat (data_top s)"
    using b by (simp_all add: unat_sub32 word_le_nat_alt)
  have sl: "?old <s ?d \<longleftrightarrow> unat ?old < unat ?d" using l d2 by (intro sless_nonneg) simp_all
  have al: "unat ?old mod 4 = 0" "unat ?d mod 4 = 0" "unat (stack_bot s) mod 4 = 0"
    using b aligned4_diff [of "stack_bot s" STACK_TOP] by (simp_all add: aligned4_iff [symmetric] d)
  have m: "unat ?d \<le> unat ?m" "unat ?m \<le> 2147483648" "unat ?m mod 4 = 0"
    using sl d2 l al by auto
  have g: "unat (?old + ?m) = unat ?old + unat ?m" "unat (?old + ?m) \<le> unat (stack_size_limit s)"
    using grown_size [OF H ok l(2) _ lim m(2)] l(3) by simp_all
  have le: "unat ?m \<le> unat (stack_bot s)" "unat (data_top s) \<le> unat (stack_bot s) - unat ?m"
    using g l old by linarith+
  have sb: "unat (stack_bot t) = unat (stack_bot s) - unat ?m"
    unfolding t' using le by (simp add: unat_sub32 word_le_nat_alt)
  show "unat (stack_bot t) + unat n \<le> unat (stack_bot s)" using sb le m d2 by simp
  show "t = s\<lparr>stack_bot := stack_bot t, stack_seg_b := stack_seg_b t\<rparr>" unfolding t' by simp
  have new: "STACK_TOP - stack_bot t = ?old + ?m" and grown: "stack_bot s - stack_bot t = ?m"
    unfolding t' by simp_all
  show "stack_seg_b t i = (if i < unat (stack_bot s - stack_bot t) then 0
        else stack_seg_b s (i - unat (stack_bot s - stack_bot t)))" if "i < unat (STACK_TOP - stack_bot t)"
    using that unfolding new grown g(1) unfolding t' using g(1) al m(3)
    by (auto simp: copy_words_down_eq)
  have "stack_bot t AND 3 = 0" "data_top s \<le> stack_bot t" "stack_bot t \<le> STACK_TOP"
    using sb le m(3) al(3) old by (simp_all add: aligned4_iff word_le_nat_alt mod_eq_0_iff_dvd)
  then show "mem_inv t"
    using inv g(2) [folded new] unfolding mem_inv_def mem_ok_def limits_ok_def by (simp add: t')
qed

end
