(* ===== verification/MemoryProps.thy ===== *)
theory MemoryProps
  imports MemoryLaws
begin

text \<open>
  The properties of the memory component: the invariant that \<^verbatim>\<open>make_memory\<close> establishes, the
  refinement of the abstract byte map by the accessors, the growth of the segments, the faults
  and the memory-mapped console.
\<close>

subsection \<open>A concrete machine\<close>

text \<open>
  A host for evaluation: a timer that never expires, no input, an allocator with the bound of
  the C library; its floating-point operations return zero and its file system is empty.
\<close>

definition idle_host :: host where
  "idle_host = \<lparr>timer_expired = (\<lambda>_. False), input_ready = (\<lambda>_. False), alloc_ok = (\<lambda>n. n < 2 ^ 63),
     heap_garbage = (\<lambda>_. 0xa5),
     fadd_s = (\<lambda>_ _. 0), fsub_s = (\<lambda>_ _. 0), fmul_s = (\<lambda>_ _. 0), fdiv_s = (\<lambda>_ _. 0),
     fadd_d = (\<lambda>_ _. 0), fsub_d = (\<lambda>_ _. 0), fmul_d = (\<lambda>_ _. 0), fdiv_d = (\<lambda>_ _. 0),
     fsqrt_d = (\<lambda>_. 0), fceil_d = (\<lambda>_. 0), ffloor_d = (\<lambda>_. 0), s_to_d = (\<lambda>_. 0), d_to_s = (\<lambda>_. 0),
     w_to_d = (\<lambda>_. 0), w_to_s = (\<lambda>_. 0), d_to_w = (\<lambda>_. 0), s_to_w = (\<lambda>_. 0), parse_double = (\<lambda>_. 0),
     printf_g = (\<lambda>_ _. ''0''),
     os_open = (\<lambda>_ _ _ _. -1), os_read = (\<lambda>_ _ _. (-1, [])), os_write = (\<lambda>_ _ _. -1), os_close = (\<lambda>_ _. -1)\<rparr>"

lemma idle_host_bounded: "alloc_bounded idle_host"
  by (simp add: alloc_bounded_def idle_host_def)

lemma idle_alloc: "alloc_ok idle_host n \<longleftrightarrow> n < 2 ^ 63"
  by (simp add: idle_host_def)

text \<open>\<^verbatim>\<open>initialize_world\<close>'s call with the default sizes of \<^verbatim>\<open>spim.h\<close>.\<close>

definition default_memory :: machine where
  "default_memory = make_memory 0x40000 0x40000 0x100000 0x10000 0x40000 0x10000 0x10000 0x100000 zero_machine"

lemma free_instructions_frame: "\<exists>h. free_instructions ps s = s\<lparr>inst_heap := h\<rparr>"
proof (induction ps s rule: free_instructions.induct)
  case (1 s)
  then show ?case by (auto intro: exI [of _ "inst_heap s"])
next
  case (3 p ps s)
  then obtain h where "free_instructions ps (free_inst p s) = (free_inst p s)\<lparr>inst_heap := h\<rparr>" by blast
  then show ?case by (auto simp: free_inst_def)
qed simp

lemma free_instructions_simps [simp]:
  "k_text_seg (free_instructions ps s) = k_text_seg s"
  "k_text_top (free_instructions ps s) = k_text_top s"
  "text_seg (free_instructions ps s) = text_seg s"
  "text_top (free_instructions ps s) = text_top s"
  "data_top (free_instructions ps s) = data_top s"
  "data_seg_b (free_instructions ps s) = data_seg_b s"
  "data_size_limit (free_instructions ps s) = data_size_limit s"
  "stack_bot (free_instructions ps s) = stack_bot s"
  "stack_seg_b (free_instructions ps s) = stack_seg_b s"
  "stack_size_limit (free_instructions ps s) = stack_size_limit s"
  "k_data_top (free_instructions ps s) = k_data_top s"
  "k_data_seg_b (free_instructions ps s) = k_data_seg_b s"
  "k_data_size_limit (free_instructions ps s) = k_data_size_limit s"
  using free_instructions_frame [of ps s] by auto

lemma make_memory_fields:
  fixes s
  assumes "t = make_memory ts ds dl ss sl kts kds kdl s"
  shows "data_top t = DATA_BOT + ROUND_UP (ROUND_UP (if ds \<le>s 65536 then 65536 else ds) 4) 4"
    "stack_bot t = STACK_TOP - ROUND_UP ss 4" "k_data_top t = K_DATA_BOT + ROUND_UP kds 4"
    "text_top t = TEXT_BOT + ts" "k_text_top t = K_TEXT_BOT + kts"
    "data_size_limit t = dl" "stack_size_limit t = sl" "k_data_size_limit t = kdl"
    "data_seg_b t = (\<lambda>_. 0)" "stack_seg_b t = (\<lambda>_. 0)" "k_data_seg_b t = (\<lambda>_. 0)"
    "text_seg t = (\<lambda>_. None)" "k_text_seg t = (\<lambda>_. None)"
  unfolding assms by (simp_all add: make_memory_def make_text_def make_data_def make_stack_def
      make_k_text_def make_k_data_def Let_def)

lemmas default_memory_fields = make_memory_fields [OF default_memory_def, simplified ROUND_UP_def word_sle_eq sint32, simplified]

lemma default_memory_inv: "mem_inv default_memory"
  by (simp add: mem_inv_def mem_ok_def limits_ok_def default_memory_fields)

subsection \<open>The invariant\<close>

lemma round_up_le:
  assumes "unat n \<le> m" and "m mod 4 = 0" and "m < 4294967292"
  shows "unat (ROUND_UP n 4) \<le> m" and "unat (ROUND_UP n 4) mod 4 = 0"
proof -
  have r: "unat (ROUND_UP n 4) = (unat n + 3) div 4 * 4" using assms by (intro unat_ROUND_UP) simp
  show "unat (ROUND_UP n 4) \<le> m" using assms unfolding r by presburger
  show "unat (ROUND_UP n 4) mod 4 = 0" unfolding r by simp
qed

lemma add_base_ok:
  fixes b n :: "32 word"
  assumes "unat b + unat n < 4294967296" and "unat b mod 4 = 0" and "unat n mod 4 = 0"
  shows "unat (b + n) = unat b + unat n" and "(b + n) AND 3 = 0"
  using assms unat_add32 [OF assms(1)] by (simp_all add: aligned4_iff) presburger

lemma sub_base_ok:
  fixes b n :: "32 word"
  assumes "unat n \<le> unat b" and "unat b mod 4 = 0" and "unat n mod 4 = 0"
  shows "unat (b - n) = unat b - unat n" and "(b - n) AND 3 = 0"
  using assms by (simp_all add: aligned4_iff unat_sub32 word_le_nat_alt mod_eq_0_iff_dvd)

lemma make_memory_layout:
  assumes "unat ds \<le> unat dl" and "65536 \<le> unat dl" and "unat dl mod 4 = 0"
    and "unat ss \<le> unat sl" and "unat sl mod 4 = 0" and "unat dl + unat sl \<le> 0x70000000"
    and "unat kds \<le> unat kdl" and "unat kdl mod 4 = 0" and "unat kdl \<le> 0x6fff0000"
    and "t = make_memory ts ds dl ss sl kts kds kdl s"
  shows "mem_inv t"
proof -
  let ?n = "if ds \<le>s 65536 then 65536 else ds"
  have n: "unat ?n \<le> unat dl" using assms(1,2) by simp
  note f = make_memory_fields [OF assms(10)]
  have d: "unat (ROUND_UP (ROUND_UP ?n 4) 4) \<le> unat dl" "unat (ROUND_UP (ROUND_UP ?n 4) 4) mod 4 = 0"
    using round_up_le [OF round_up_le(1) [OF n assms(3)] assms(3)] assms(6) by simp_all
  have k: "unat (ROUND_UP ss 4) \<le> unat sl" "unat (ROUND_UP ss 4) mod 4 = 0"
    using round_up_le [OF assms(4,5)] assms(6) by simp_all
  have kd: "unat (ROUND_UP kds 4) \<le> unat kdl" "unat (ROUND_UP kds 4) mod 4 = 0"
    using round_up_le [OF assms(7,8)] assms(9) by simp_all
  have top: "unat (data_top t) = 0x10000000 + unat (ROUND_UP (ROUND_UP ?n 4) 4)" "data_top t AND 3 = 0"
    unfolding f using add_base_ok [of DATA_BOT "ROUND_UP (ROUND_UP ?n 4) 4"] d assms(6) by simp_all
  have bot: "unat (stack_bot t) = 0x80000000 - unat (ROUND_UP ss 4)" "stack_bot t AND 3 = 0"
    unfolding f using sub_base_ok [of "ROUND_UP ss 4" STACK_TOP] k assms(6) by simp_all
  have ktop: "unat (k_data_top t) = 0x90000000 + unat (ROUND_UP kds 4)" "k_data_top t AND 3 = 0"
    unfolding f using add_base_ok [of K_DATA_BOT "ROUND_UP kds 4"] kd assms(9) by simp_all
  have "mem_ok t"
    unfolding mem_ok_def word_le_nat_alt using top bot ktop d k kd assms(6,9) by simp
  moreover have "limits_ok t"
    unfolding limits_ok_def using assms(6,9) d k kd by (simp add: f)
  ultimately show ?thesis by (simp add: mem_inv_def)
qed

text \<open>
  The text segments lie below the data and the kernel data segment and end on a word boundary. \<^verbatim>\<open>memory.c\<close> never grows
  them, and neither checks nor rounds the sizes that the options \<^verbatim>\<open>-stext\<close> and \<^verbatim>\<open>-sktext\<close> give.
\<close>

definition text_ok :: "machine \<Rightarrow> bool" where
  "text_ok s \<longleftrightarrow> TEXT_BOT \<le> text_top s \<and> text_top s \<le> DATA_BOT \<and> text_top s AND 3 = 0 \<and>
     K_TEXT_BOT \<le> k_text_top s \<and> k_text_top s \<le> K_DATA_BOT \<and> k_text_top s AND 3 = 0"

lemma make_memory_text:
  assumes "unat ts \<le> 0x0fc00000" and "unat ts mod 4 = 0" and "unat kts \<le> 0x10000000" and "unat kts mod 4 = 0"
    and "t = make_memory ts ds dl ss sl kts kds kdl s"
  shows "text_ok t"
proof -
  have "unat (text_top t) = 0x400000 + unat ts" "text_top t AND 3 = 0"
    "unat (k_text_top t) = 0x80000000 + unat kts" "k_text_top t AND 3 = 0"
    unfolding make_memory_fields [OF assms(5)] using assms(1-4) add_base_ok [of TEXT_BOT ts] add_base_ok [of K_TEXT_BOT kts]
    by simp_all
  then show ?thesis using assms(1,3) by (simp add: text_ok_def word_le_nat_alt)
qed

text \<open>The segments that hold an address: at most one, and none in the device area.\<close>

definition segments_at :: "machine \<Rightarrow> mem_addr \<Rightarrow> string list" where
  "segments_at s a = (if in_text s a then [''text''] else []) @ (if in_data s a then [''data''] else []) @
     (if in_stack s a then [''stack''] else []) @ (if in_k_text s a then [''ktext''] else []) @
     (if in_k_data s a then [''kdata''] else [])"

lemma segments_disjoint:
  assumes "mem_inv s" and "text_ok s"
  shows "length (segments_at s a) \<le> 1" and "MM_IO_BOT \<le> a \<Longrightarrow> segments_at s a = []"
proof -
  have b: "unat (text_top s) \<le> 0x10000000" "0x10000000 \<le> unat (data_top s)" "unat (data_top s) \<le> unat (stack_bot s)" "unat (k_text_top s) \<le> 0x90000000"
    "unat (stack_bot s) \<le> 0x80000000" "unat (k_data_top s) \<le> 0xffff0000"
    using assms unat_sub32 [of K_DATA_BOT "k_data_top s"]
    by (auto simp: mem_inv_def mem_ok_def text_ok_def limits_ok_def word_le_nat_alt)
  show "length (segments_at s a) \<le> 1" "MM_IO_BOT \<le> a \<Longrightarrow> segments_at s a = []"
    using b by (auto simp: segments_at_def in_text_def in_data_def in_stack_def in_k_text_def in_k_data_def
        word_le_nat_alt word_less_nat_alt)
qed



subsection \<open>Reads and writes\<close>

text \<open>
  C3: reading. At an address of a data segment the readers return the bytes of the abstract
  memory, low byte first; bytes and halves are sign extended; nothing changes.
\<close>

theorem memory_reads_refine:
  assumes "mem_ok s" and "data_ref s a"
  shows "mem_read_byte H a s = Inr (scast (the (mem_byte s a)), s) \<and>
    (a AND 1 = 0 \<longrightarrow> mem_read_half H a s = Inr (scast (abs_read_half a (mem_byte s)), s)) \<and>
    (a AND 3 = 0 \<longrightarrow> mem_read_word H a s = Inr (abs_read_word a (mem_byte s), s))"
  using assms by (simp add: mem_read_byte_in mem_read_half_in mem_read_word_in)

lemma default_memory_ok: "mem_ok default_memory"
  using default_memory_inv by (simp add: mem_inv_def)

lemma default_memory_ref: "data_ref default_memory 0x10000000" "data_ref default_memory 0x7ffffff0"
  by (simp_all add: data_ref_def in_data_def in_stack_def default_memory_fields)

theorem memory_reads_refine_witness:
  "mem_read_word idle_host 0x10000000 default_memory =
     Inr (abs_read_word 0x10000000 (mem_byte default_memory), default_memory)"
  using memory_reads_refine [OF default_memory_ok default_memory_ref(1), of idle_host] by simp

text \<open>
  C4: writing. At an address of a data segment the writers update exactly the bytes they
  cover, and leave the rest of the machine as it is but for the modification flag.
\<close>

theorem memory_writes_refine:
  assumes "mem_ok s" and "data_ref s a"
  shows "(\<exists>t. mem_write_byte H a v s = Inr ((), t) \<and> mem_byte t = abs_write_byte a v (mem_byte s) \<and> same_but_data s t) \<and>
    (a AND 1 = 0 \<longrightarrow> (\<exists>t. mem_write_half H a v s = Inr ((), t) \<and>
       mem_byte t = abs_write_half a v (mem_byte s) \<and> same_but_data s t)) \<and>
    (a AND 3 = 0 \<longrightarrow> (\<exists>t. mem_write_word H a v s = Inr ((), t) \<and>
       mem_byte t = abs_write_word a v (mem_byte s) \<and> same_but_data s t))"
  using mem_write_byte_in [OF assms, of H v] mem_write_half_in [OF assms, of H v]
    mem_write_word_in [OF assms, of H v] by blast

theorem memory_writes_refine_witness:
  "\<exists>t. mem_write_word idle_host 0x10000000 0x12345678 default_memory = Inr ((), t) \<and>
     mem_byte t = abs_write_word 0x10000000 0x12345678 (mem_byte default_memory)"
  using memory_writes_refine [OF default_memory_ok default_memory_ref(1), of idle_host "0x12345678"] by auto

lemma aligned4_ne:
  fixes a b :: "32 word"
  assumes "a AND 3 = 0" and "b AND 3 = 0" and "a \<noteq> b" and "k < 4" and "l < 4"
  shows "a + of_nat k \<noteq> b + of_nat l"
proof
  assume "a + of_nat k = b + of_nat l"
  then have "unat a + k = unat b + l"
    using aligned4_plus [OF assms(1,4)] aligned4_plus [OF assms(2,5)] by simp
  moreover have "unat a mod 4 = 0" "unat b mod 4 = 0" using assms(1,2) by (simp_all add: aligned4_iff)
  ultimately have "unat a = unat b" using assms(4,5) by presburger
  with assms(3) show False by (simp flip: word_unat_eq_iff)
qed

lemma abs_read_after_write:
  assumes "a AND 3 = 0" and "b AND 3 = 0"
  shows "abs_read_word b (abs_write_word a v m) = (if a = b then v else abs_read_word b m)"
  using aligned4_ne [OF assms(2,1), of 0 0] aligned4_ne [OF assms(2,1), of 0 1] aligned4_ne [OF assms(2,1), of 0 2]
    aligned4_ne [OF assms(2,1), of 0 3] aligned4_ne [OF assms(2,1), of 1 0] aligned4_ne [OF assms(2,1), of 1 2]
    aligned4_ne [OF assms(2,1), of 1 3] aligned4_ne [OF assms(2,1), of 2 0] aligned4_ne [OF assms(2,1), of 2 1]
    aligned4_ne [OF assms(2,1), of 2 3] aligned4_ne [OF assms(2,1), of 3 0] aligned4_ne [OF assms(2,1), of 3 1]
    aligned4_ne [OF assms(2,1), of 3 2]
  by (auto simp: abs_read_word_def abs_write_word_def)

lemma same_but_data_ref: "same_but_data s t \<Longrightarrow> data_ref t b = data_ref s b"
  unfolding same_but_data_def data_ref_def by (metis in_segment_upd)

text \<open>
  C11: a load sees the last store. After a word store, a word load from the same address
  returns the stored value and a load from any other aligned data address what it returned
  before.
\<close>

theorem load_after_store:
  assumes "mem_ok s" and "data_ref s a" and "data_ref s b" and "a AND 3 = 0" and "b AND 3 = 0"
  shows "\<exists>t. mem_write_word H a v s = Inr ((), t) \<and>
    mem_read_word H b t = Inr (if a = b then v else abs_read_word b (mem_byte s), t) \<and>
    mem_read_word H b s = Inr (abs_read_word b (mem_byte s), s)"
proof -
  obtain t where t: "mem_write_word H a v s = Inr ((), t)" "mem_byte t = abs_write_word a v (mem_byte s)" "same_but_data s t"
    using mem_write_word_in [OF assms(1,2,4)] by blast
  have "mem_ok t" and "data_ref t b"
    using assms t(3) by (simp_all add: same_but_data_mem_ok same_but_data_ref)
  then have "mem_read_word H b t = Inr (abs_read_word b (mem_byte t), t)" using assms(5) by (rule mem_read_word_in)
  then show ?thesis
    using t abs_read_after_write [OF assms(4,5)] mem_read_word_in [OF assms(1,3,5)] by simp
qed

theorem load_after_store_witness:
  "\<exists>t. mem_write_word idle_host 0x7ffffff0 42 default_memory = Inr ((), t) \<and>
     mem_read_word idle_host 0x7ffffff0 t = Inr (42, t)"
  using load_after_store [OF default_memory_ok default_memory_ref(2) default_memory_ref(2), of idle_host 42] by auto

subsection \<open>Growth\<close>

lemma in_data_unat: "in_data s x \<longleftrightarrow> 0x10000000 \<le> unat x \<and> unat x < unat (data_top s)"
  by (simp add: in_data_def word_less_nat_alt word_le_nat_alt)

lemma data_index: "0x10000000 \<le> unat x \<Longrightarrow> unat (x - DATA_BOT) = unat x - 0x10000000"
  by (simp add: unat_sub32 word_le_nat_alt)

text \<open>
  C13: \<^verbatim>\<open>expand_data\<close>. A request that succeeds extends the data segment by at least the bytes asked
  for, keeps every byte that was mapped, maps the new bytes as zero and keeps the invariant:
  the segment never reaches the stack.
\<close>

theorem expand_data_preserves:
  assumes "mem_inv s" and "alloc_bounded H" and "expand_data H n s = Inr ((), t)"
  shows "mem_inv t \<and> unat (data_top s) + unat n \<le> unat (data_top t) \<and>
    mem_byte t x = (if data_top s \<le> x \<and> x < data_top t then Some 0 else mem_byte s x)"
proof -
  note r = expand_data_result [OF assms]
  have same: "in_stack t x = in_stack s x" "in_k_data t x = in_k_data s x"
      "stack_seg_b t = stack_seg_b s" "k_data_seg_b t = k_data_seg_b s" "stack_bot t = stack_bot s"
    by (subst r(1), simp add: in_stack_def in_k_data_def)+
  have top: "DATA_BOT \<le> data_top s" "DATA_BOT \<le> data_top t"
    using assms(1) r(4) by (simp_all add: mem_inv_def mem_ok_def)
  have "mem_byte t x = (if data_top s \<le> x \<and> x < data_top t then Some 0 else mem_byte s x)"
  proof (cases "in_data t x")
    case True
    then show ?thesis
      using r(2) r(5) [of "unat (x - DATA_BOT)"] top data_index [of x] data_index [of "data_top s"] data_index [of "data_top t"]
      by (auto simp: mem_byte_def in_data_unat word_less_nat_alt word_le_nat_alt)
  next
    case False
    then show ?thesis
      using r(2) top by (auto simp: mem_byte_def in_data_unat word_less_nat_alt word_le_nat_alt same)
  qed
  with r(2-4) show ?thesis by simp
qed

theorem expand_data_preserves_witness:
  "\<exists>t. expand_data idle_host 5 default_memory = Inr ((), t) \<and> mem_inv t \<and> mem_byte t 0x10040000 = Some 0"
proof -
  have "\<exists>t. expand_data idle_host 5 default_memory = Inr ((), t) \<and> data_top t = 0x10040008"
    by (simp add: expand_data_def Let_def default_memory_fields ROUND_UP_def idle_alloc to_size_t_def word_sless_alt)
  then obtain t where t: "expand_data idle_host 5 default_memory = Inr ((), t)" "data_top t = 0x10040008" by blast
  with expand_data_preserves [OF default_memory_inv idle_host_bounded t(1), of "0x10040000"] show ?thesis
    by (simp add: default_memory_fields)
qed

lemma in_stack_unat: "in_stack s x \<longleftrightarrow> unat (stack_bot s) \<le> unat x \<and> unat x < 0x80000000"
  by (simp add: in_stack_def word_less_nat_alt word_le_nat_alt)

lemma expand_stack_bytes:
  assumes "mem_inv s" and "alloc_bounded H" and "unat n \<le> 0x7ffffffc" and "expand_stack H n s = Inr ((), t)"
  shows "mem_byte t x = (if stack_bot t \<le> x \<and> x < stack_bot s then Some 0 else mem_byte s x)"
proof -
  note r = expand_stack_result [OF assms]
  have same: "in_data t x = in_data s x" "in_k_data t x = in_k_data s x"
      "data_seg_b t = data_seg_b s" "k_data_seg_b t = k_data_seg_b s"
    by (subst r(1), simp add: in_data_def in_k_data_def)+
  have le: "unat (stack_bot t) \<le> unat (stack_bot s)" "unat (stack_bot s) \<le> 0x80000000" "data_top s \<le> stack_bot t"
    using r(2,3) assms(1) same(1) by (simp_all add: mem_inv_def mem_ok_def word_le_nat_alt) (subst (asm) r(1), simp)
  have diff: "unat (stack_bot s - stack_bot t) = unat (stack_bot s) - unat (stack_bot t)"
    "unat (STACK_TOP - stack_bot t) = 0x80000000 - unat (stack_bot t)"
    using le by (simp_all add: unat_sub32 word_le_nat_alt)
  show ?thesis
  proof (cases "in_stack t x")
    case True
    then have x: "unat (x - stack_bot t) = unat x - unat (stack_bot t)" "\<not> in_data s x"
      using le(3) by (auto simp: in_stack_def in_data_def unat_sub32)
    moreover have "unat (x - stack_bot s) = unat x - unat (stack_bot s)" if "unat (stack_bot s) \<le> unat x"
      using that by (simp add: unat_sub32 word_le_nat_alt)
    ultimately show ?thesis
      using True r(4) [of "unat (x - stack_bot t)"] diff le same
      by (auto simp: mem_byte_def in_stack_unat word_less_nat_alt word_le_nat_alt)
  next
    case False
    then show ?thesis
      using le same by (auto simp: mem_byte_def in_stack_unat word_less_nat_alt word_le_nat_alt)
  qed
qed

lemma near_stack_request:
  assumes "near_stack s a" and "mem_ok s"
  shows "unat (stack_bot s - a + 4) \<le> 0x7ffffffc" and "unat (stack_bot s) < unat (stack_bot s - a + 4) + unat a"
    and "\<not> data_ref s a"
proof -
  have b: "a < stack_bot s" "data_top s < a" "stack_bot s \<le> STACK_TOP" "DATA_BOT \<le> data_top s"
    using assms by (simp_all add: near_stack_def mem_ok_def)
  then have n: "unat a < unat (stack_bot s)" "0x10000000 < unat a" "unat (stack_bot s) \<le> 0x80000000"
    by (simp_all add: word_less_nat_alt word_le_nat_alt)
  have "unat (stack_bot s - a) = unat (stack_bot s) - unat a" using b(1) by (simp add: unat_sub32)
  moreover have "unat (stack_bot s - a + 4) = unat (stack_bot s - a) + 4"
    using n calculation unat_plus32 [of "stack_bot s - a" 4] by simp
  ultimately show "unat (stack_bot s - a + 4) \<le> 0x7ffffffc" and "unat (stack_bot s) < unat (stack_bot s - a + 4) + unat a"
    using n by simp_all
  show "\<not> data_ref s a"
    using b n by (auto simp: data_ref_def in_data_def in_stack_def in_k_data_def word_less_nat_alt word_le_nat_alt)
qed

lemma near_stack_modified [simp]:
  "near_stack (s\<lparr>data_modified := b\<rparr>) a = near_stack s a" "in_text (s\<lparr>data_modified := b\<rparr>) a = in_text s a"
  "mem_inv (s\<lparr>data_modified := b\<rparr>) = mem_inv s"
  by (simp_all add: near_stack_def in_text_def mem_inv_def limits_ok_def)

lemma same_but_data_bounds:
  assumes "same_but_data s t"
  shows "stack_bot t = stack_bot s" and "mem_inv t = mem_inv s"
proof -
  have t: "t = s\<lparr>data_modified := True, data_seg_b := data_seg_b t,
     stack_seg_b := stack_seg_b t, k_data_seg_b := k_data_seg_b t\<rparr>"
    using assms by (simp only: same_but_data_def)
  show "stack_bot t = stack_bot s" by (subst t) simp
  show "mem_inv t = mem_inv s"
    by (subst t) (simp add: mem_inv_def limits_ok_def)
qed

text \<open>A store of any width just below the stack is that store in the grown segment.\<close>

lemma stack_growth:
  assumes inv: "mem_inv s" and H: "alloc_bounded H" and near: "near_stack s a" and nt: "\<not> in_text s a" and al: "a AND m = 0"
    and t: "bad_mem_write H a v m (s\<lparr>data_modified := True\<rparr>) = Inr ((), t)"
  obtains u where "t = (write_stack_cell a v m u)\<lparr>data_modified := True\<rparr>" and "mem_inv u" and "in_stack u a" and "\<not> in_data u a"
    and "unat (stack_bot u) \<le> unat a"
    and "u = s\<lparr>data_modified := True, stack_bot := stack_bot u, stack_seg_b := stack_seg_b u\<rparr>"
    and "mem_byte u = (\<lambda>x. if stack_bot u \<le> x \<and> x < stack_bot s then Some 0 else mem_byte s x)"
proof -
  let ?s = "s\<lparr>data_modified := True\<rparr>"
  have ok: "mem_ok s" using inv by (simp add: mem_inv_def)
  note q = near_stack_request [OF near ok]
  from near nt al t obtain u where u: "expand_stack H (stack_bot s - a + 4) ?s = Inr ((), u)"
      and t': "t = (write_stack_cell a v m u)\<lparr>data_modified := True\<rparr>"
    by (auto simp: bad_mem_write_def seq_Inr_iff)
  note r = expand_stack_result [OF _ H q(1) u]
  have mu: "mem_inv u" and bu: "unat (stack_bot u) \<le> unat a"
    using r(2,3) q(2) inv by simp_all
  have bytes: "mem_byte u = (\<lambda>x. if stack_bot u \<le> x \<and> x < stack_bot s then Some 0 else mem_byte s x)"
    using expand_stack_bytes [OF _ H q(1) u] inv by (simp add: mem_byte_upd fun_eq_iff)
  have w: "in_stack u a"
    using bu near ok by (simp add: in_stack_def near_stack_def mem_ok_def word_le_nat_alt word_less_nat_alt)
  have frame: "u = s\<lparr>data_modified := True, stack_bot := stack_bot u, stack_seg_b := stack_seg_b u\<rparr>"
    using r(1) inv by simp
  have "\<not> in_data u a" using data_stack_disjoint [OF _ w] mu by (simp add: mem_inv_def)
  then show thesis by (rule that [OF t' mu w _ bu frame bytes])
qed

text \<open>What a store that grows the stack leaves: the old bytes, zeros in the new part, and the stored bytes on top of these.\<close>

definition stack_grown :: "((mem_addr \<Rightarrow> byte option) \<Rightarrow> mem_addr \<Rightarrow> byte option) \<Rightarrow> mem_addr \<Rightarrow> machine \<Rightarrow> machine \<Rightarrow> bool" where
  "stack_grown put a s t \<longleftrightarrow> mem_inv t \<and> stack_bot t \<le> a \<and>
     mem_byte t = put (\<lambda>x. if stack_bot t \<le> x \<and> x < stack_bot s then Some 0 else mem_byte s x) \<and>
     t = s\<lparr>data_modified := True, stack_bot := stack_bot t, stack_seg_b := stack_seg_b t\<rparr>"

lemma write_stack_cell_frame:
  "stack_bot (write_stack_cell a v m u) = stack_bot u"
  "stack_bot u \<le> a \<Longrightarrow> write_stack_cell a v m u = u\<lparr>stack_seg_b := stack_seg_b (write_stack_cell a v m u)\<rparr>"
  by (simp_all add: write_stack_cell_def Let_def raise_bad_vaddr_def set_cp0_def) (subst raise_exception_frame, simp)

lemma grown_by_store:
  assumes inv: "mem_inv s" and H: "alloc_bounded H" and near: "near_stack s a" and nt: "\<not> in_text s a" and al: "a AND m = 0"
    and t: "bad_mem_write H a v m (s\<lparr>data_modified := True\<rparr>) = Inr ((), t)"
    and st: "\<And>u. in_stack u a \<Longrightarrow> \<not> in_data u a \<Longrightarrow> stack_bot u \<le> a \<Longrightarrow> mem_ok u \<Longrightarrow>
      mem_byte ((write_stack_cell a v m u)\<lparr>data_modified := True\<rparr>) = put (mem_byte u) \<and>
      same_but_data u ((write_stack_cell a v m u)\<lparr>data_modified := True\<rparr>)"
  shows "stack_grown put a s t"
proof -
  obtain u where u: "t = (write_stack_cell a v m u)\<lparr>data_modified := True\<rparr>" "mem_inv u" "in_stack u a" "\<not> in_data u a"
      "unat (stack_bot u) \<le> unat a" "u = s\<lparr>data_modified := True, stack_bot := stack_bot u, stack_seg_b := stack_seg_b u\<rparr>"
      "mem_byte u = (\<lambda>x. if stack_bot u \<le> x \<and> x < stack_bot s then Some 0 else mem_byte s x)"
    using inv H near nt al t by (rule stack_growth)
  have le: "stack_bot u \<le> a" using u(5) by (simp add: word_le_nat_alt)
  have "mem_byte t = put (mem_byte u)" "same_but_data u t"
    unfolding u(1) using st [OF u(3,4) le] u(2) by (simp_all add: mem_inv_def)
  then have "mem_byte t = put (mem_byte u)" "stack_bot t = stack_bot u" "mem_inv t"
    using same_but_data_bounds [of u t] u(2) by simp_all
  moreover have "t = u\<lparr>data_modified := True, stack_seg_b := stack_seg_b t\<rparr>"
    unfolding u(1) by (subst write_stack_cell_frame(2) [OF le]) simp
  then have "t = s\<lparr>data_modified := True, stack_bot := stack_bot u, stack_seg_b := stack_seg_b t\<rparr>"
    by (subst (asm) u(6)) (erule trans, rule machine.equality, simp_all)
  ultimately show ?thesis using u(7) le by (simp add: stack_grown_def)
qed

lemma write_in_stack:
  assumes "in_stack u a" and "\<not> in_data u a" and "stack_bot u \<le> a"
  shows "mem_write_byte H a v u = Inr ((), (write_stack_cell a v 0 u)\<lparr>data_modified := True\<rparr>)"
    and "a AND 1 = 0 \<Longrightarrow> mem_write_half H a v u = Inr ((), (write_stack_cell a v 1 u)\<lparr>data_modified := True\<rparr>)"
    and "a AND 3 = 0 \<Longrightarrow> mem_write_word H a v u = Inr ((), (write_stack_cell a v 3 u)\<lparr>data_modified := True\<rparr>)"
  using assms by (simp_all add: mem_write_byte_def mem_write_half_def mem_write_word_def write_stack_cell_def Let_def)

text \<open>
  C12: the stack grows on demand. A store just below the stack, of a byte, an aligned half or an aligned word, that does not abort
  (limit or allocator) extends the stack to cover the address: the stored bytes are
  there, every byte of the old stack is kept, the rest of the new part is zero, and nothing but the stack and the modification flag
  has changed.
\<close>

theorem stack_grows_on_store:
  assumes "mem_inv s" and "alloc_bounded H" and "near_stack s a" and "\<not> in_text s a"
  shows "(mem_write_byte H a v s = Inr ((), t) \<longrightarrow> stack_grown (abs_write_byte a v) a s t) \<and>
    (a AND 1 = 0 \<and> mem_write_half H a v s = Inr ((), t) \<longrightarrow> stack_grown (abs_write_half a v) a s t) \<and>
    (a AND 3 = 0 \<and> mem_write_word H a v s = Inr ((), t) \<longrightarrow> stack_grown (abs_write_word a v) a s t)"
proof -
  have "mem_ok s" using assms(1) by (simp add: mem_inv_def)
  then have out: "\<not> in_data s a" "\<not> in_stack s a" "\<not> in_k_data s a"
    using near_stack_request(3) [OF assms(3)] by (simp_all add: data_ref_def)
  note grown = grown_by_store [OF assms]
  show ?thesis
  proof (intro conjI impI; (elim conjE)?)
    assume "mem_write_byte H a v s = Inr ((), t)"
    then have "bad_mem_write H a v 0 (s\<lparr>data_modified := True\<rparr>) = Inr ((), t)" using out by (simp add: mem_write_byte_def Let_def)
    then show "stack_grown (abs_write_byte a v) a s t"
      by (rule grown [OF and_zero_eq]) (use mem_write_byte_in [of _ a H v] in \<open>force simp: data_ref_def write_in_stack\<close>)
  next
    assume al: "a AND 1 = 0" and "mem_write_half H a v s = Inr ((), t)"
    then have "bad_mem_write H a v 1 (s\<lparr>data_modified := True\<rparr>) = Inr ((), t)" using out by (simp add: mem_write_half_def Let_def)
    then show "stack_grown (abs_write_half a v) a s t"
      by (rule grown [OF al]) (use mem_write_half_in [of _ a H v] al in \<open>force simp: data_ref_def write_in_stack\<close>)
  next
    assume al: "a AND 3 = 0" and "mem_write_word H a v s = Inr ((), t)"
    then have "bad_mem_write H a v 3 (s\<lparr>data_modified := True\<rparr>) = Inr ((), t)" using out by (simp add: mem_write_word_def Let_def)
    then show "stack_grown (abs_write_word a v) a s t"
      by (rule grown [OF al]) (use mem_write_word_in [of _ a H v] al in \<open>force simp: data_ref_def write_in_stack\<close>)
  qed
qed

theorem stack_grows_on_store_witness:
  "\<exists>t u. mem_write_word idle_host 0x7ffefff0 42 default_memory = Inr ((), t) \<and> stack_bot t \<le> 0x7ffefff0 \<and>
     mem_write_byte idle_host 0x7ffefff1 42 default_memory = Inr ((), u) \<and> stack_bot u \<le> 0x7ffefff1"
proof -
  have ex: "\<exists>t. mem_write_word idle_host 0x7ffefff0 42 default_memory = Inr ((), t)"
    "\<exists>u. mem_write_byte idle_host 0x7ffefff1 42 default_memory = Inr ((), u)"
    by (simp_all add: mem_write_word_def mem_write_byte_def in_data_def in_stack_def in_k_data_def in_text_def near_stack_def bad_mem_write_def
        expand_stack_def Let_def default_memory_fields ROUND_UP_def idle_alloc to_size_t_def word_sless_alt)
  then obtain t u where tu: "mem_write_word idle_host 0x7ffefff0 42 default_memory = Inr ((), t)"
    "mem_write_byte idle_host 0x7ffefff1 42 default_memory = Inr ((), u)" by blast
  have near: "near_stack default_memory 0x7ffefff0" "\<not> in_text default_memory 0x7ffefff0"
    "near_stack default_memory 0x7ffefff1" "\<not> in_text default_memory 0x7ffefff1"
    by (simp_all add: near_stack_def in_text_def default_memory_fields)
  note grows = stack_grows_on_store [OF default_memory_inv idle_host_bounded]
  from grows [OF near(1,2), of 42 t] grows [OF near(3,4), of 42 u] tu show ?thesis by (auto simp: stack_grown_def)
qed

text \<open>
  C23: \<^verbatim>\<open>expand_k_data\<close> clears the wrong bytes. Its loop takes word counts as byte offsets, so growing
  a non-empty kernel data segment zeroes a byte in use, and leaves the last new byte as the
  allocator delivered it.
\<close>

theorem expand_k_data_clears_wrong_bytes:
  assumes "mem_inv s" and "alloc_bounded H" and "expand_k_data H n s = Inr ((), t)" and "n \<noteq> 0"
    and "k_data_top s \<noteq> K_DATA_BOT"
  shows "mem_byte s (K_DATA_BOT + (k_data_top s - K_DATA_BOT) div 4) =
      Some (k_data_seg_b s (unat (k_data_top s - K_DATA_BOT) div 4)) \<and>
    mem_byte t (K_DATA_BOT + (k_data_top s - K_DATA_BOT) div 4) = Some 0 \<and>
    mem_byte t (k_data_top t - 1) = Some (heap_garbage H (unat (k_data_top t - 1 - K_DATA_BOT)))"
proof -
  let ?old = "k_data_top s - K_DATA_BOT" and ?d = "ROUND_UP n 4"
  from assms(3) have n: "\<not> n <s 0" and lim: "\<not> k_data_size_limit s <s ?old + ?d" and ok: "alloc_ok H (to_size_t (?old + ?d))"
    and t': "t = s\<lparr>k_data_top := k_data_top s + ?d, k_data_seg_b := zero_range (unat ?old div 4) (unat (?old + ?d) div 4)
        (realloc_seg H (unat ?old) (unat (?old + ?d)) (k_data_seg_b s))\<rparr>"
    by (auto simp: expand_k_data_def Let_def split: if_splits)
  have b: "K_DATA_BOT \<le> k_data_top s" "k_data_top s AND 3 = 0"
      "unat ?old \<le> unat (k_data_size_limit s)" "unat (k_data_size_limit s) \<le> 0x6fff0000" "mem_ok s"
    using assms(1) by (simp_all add: mem_inv_def mem_ok_def limits_ok_def)
  have g: "unat (?old + ?d) = unat ?old + unat ?d" "unat (?old + ?d) \<le> unat (k_data_size_limit s)"
    using grown_size [OF assms(2) ok b(3) _ lim round_up_request(2) [OF n]] b(4) by simp_all
  have kt: "unat (k_data_top s) = 0x90000000 + unat ?old" using b(1) by (simp add: unat_sub32 word_le_nat_alt)
  have old: "unat ?old mod 4 = 0" "unat ?old \<noteq> 0"
    using b(1,2) assms(5) by (simp_all add: aligned4_iff [symmetric] aligned4_diff unat_eq_zero del: unat_gt_0)
  have d: "unat ?d mod 4 = 0" "unat ?d \<noteq> 0"
    using round_up_request [OF n] assms(4) unat_eq_zero [of n] by auto
  let ?q = "unat ?old div 4" and ?x = "K_DATA_BOT + ?old div 4"
  have q: "unat (?old div 4) = ?q" "?q < unat ?old" "?q < unat (?old + ?d) div 4" "unat ?old \<le> 0x6fff0000"
    using old d g b(3,4) by (auto simp: unat_div)
  have x: "unat ?x = 0x90000000 + ?q" "?x - K_DATA_BOT = ?old div 4"
    using q unat_add32 [of K_DATA_BOT "?old div 4"] by simp_all
  have top: "unat (k_data_top t) = 0x90000000 + unat (?old + ?d)"
    unfolding t' using kt g b(4) by (simp add: unat_add32)
  have last: "unat (k_data_top t - 1) = unat (k_data_top t) - 1"
    using top by (simp add: unat_sub32 word_le_nat_alt)
  have li: "unat (k_data_top t - 1 - K_DATA_BOT) = unat (?old + ?d) - 1"
    using top last g d by (simp add: unat_sub32 word_le_nat_alt)
  have ns: "\<not> in_data s y" "\<not> in_stack s y" "in_data t = in_data s" "in_stack t = in_stack s" if "0x90000000 \<le> unat y" for y
    using that b(5) unfolding t' by (auto simp: in_data_def in_stack_def mem_ok_def word_less_nat_alt word_le_nat_alt fun_eq_iff)
  have "mem_byte s ?x = Some (k_data_seg_b s ?q)"
    using ns [of ?x] x q kt by (simp add: mem_byte_def in_k_data_def word_less_nat_alt word_le_nat_alt)
  moreover have "mem_byte t ?x = Some (k_data_seg_b t ?q)"
    using ns [of ?x] x q top g by (simp add: mem_byte_def in_k_data_def word_less_nat_alt word_le_nat_alt)
  moreover have "k_data_seg_b t ?q = 0" using q unfolding t' by (simp add: zero_range_def)
  moreover have "mem_byte t (k_data_top t - 1) = Some (k_data_seg_b t (unat (?old + ?d) - 1))"
    using ns [of "k_data_top t - 1"] top last li g d by (simp add: mem_byte_def in_k_data_def word_less_nat_alt word_le_nat_alt)
  moreover have "k_data_seg_b t (unat (?old + ?d) - 1) = heap_garbage H (unat (?old + ?d) - 1)"
    using g old d unfolding t' by (auto simp: zero_range_def realloc_seg_def)
  ultimately show ?thesis using li by simp
qed

theorem expand_k_data_clears_wrong_bytes_witness:
  "\<exists>s t. expand_k_data idle_host 4 s = Inr ((), t) \<and> mem_byte s 0x90004000 = Some 7 \<and> mem_byte t 0x90004000 = Some 0 \<and>
     mem_byte t 0x90010003 = Some 0xa5"
proof -
  let ?s = "default_memory\<lparr>k_data_seg_b := (\<lambda>_. 7)\<rparr>"
  have inv: "mem_inv ?s" using default_memory_inv by (simp add: mem_inv_def limits_ok_def)
  have "\<exists>t. expand_k_data idle_host 4 ?s = Inr ((), t) \<and> k_data_top t = 0x90010004"
    by (simp add: expand_k_data_def Let_def default_memory_fields ROUND_UP_def idle_alloc to_size_t_def word_sless_alt)
  then obtain t where t: "expand_k_data idle_host 4 ?s = Inr ((), t)" "k_data_top t = 0x90010004" by blast
  from expand_k_data_clears_wrong_bytes [OF inv idle_host_bounded t(1)]
  have "mem_byte ?s 0x90004000 = Some 7 \<and> mem_byte t 0x90004000 = Some 0 \<and> mem_byte t 0x90010003 = Some 0xa5"
    by (simp add: default_memory_fields t(2) idle_host_def)
  with t(1) show ?thesis by blast
qed

subsection \<open>Faults\<close>

definition unmapped :: "machine \<Rightarrow> mem_addr \<Rightarrow> bool" where
  "unmapped s a \<longleftrightarrow> \<not> data_ref s a \<and> \<not> in_text s a \<and> \<not> near_stack s a \<and> a < MM_IO_BOT"

lemma bad_vaddr: "CP0_BadVAddr (raise_bad_vaddr e a s) = a"
  by (simp add: raise_bad_vaddr_def)

text \<open>
  What a faulting access leaves: an exception to take with the code, BadVAddr the address, EPC the faulting instruction
  unless one is being handled, and otherwise only the latch of the exit status and coprocessor 0 changed.
\<close>

definition faulted :: "mips_exc_code \<Rightarrow> mem_addr \<Rightarrow> machine \<Rightarrow> machine \<Rightarrow> bool" where
  "faulted e a s t \<longleftrightarrow> exception_occurred t \<and> CP0_ExCode t = word_of_int (exc_val e) \<and> CP0_BadVAddr t = a \<and>
     CP0_EPC t = (if status_exl s then CP0_EPC s else faulting_pc s) \<and> status_exl t \<and>
     t = s\<lparr>exception_occurred := True, first_bad_exception := first_bad_exception t, coprocessor_0 := coprocessor_0 t\<rparr>"

lemma raise_bad_vaddr_faulted:
  assumes "e \<noteq> ExcCode_Int"
  shows "faulted e a s (raise_bad_vaddr e a s)"
proof -
  have t: "taken e s" using assms by (simp add: taken_def)
  obtain f c where r: "raise_exception e s = s\<lparr>exception_occurred := True, first_bad_exception := f, coprocessor_0 := c\<rparr>"
    using raise_exception_frame [of e s] raise_exception_occurred [OF t] by auto
  have "raise_bad_vaddr e a s = s\<lparr>exception_occurred := True, first_bad_exception := f, coprocessor_0 := c(CP0_BadVAddr_Reg := a)\<rparr>"
    unfolding raise_bad_vaddr_def set_cp0_def r by simp
  then have "raise_bad_vaddr e a s = s\<lparr>exception_occurred := True,
      first_bad_exception := first_bad_exception (raise_bad_vaddr e a s), coprocessor_0 := coprocessor_0 (raise_bad_vaddr e a s)\<rparr>"
    by simp
  moreover have "exception_occurred (raise_bad_vaddr e a s)" "CP0_ExCode (raise_bad_vaddr e a s) = word_of_int (exc_val e)"
    "CP0_EPC (raise_bad_vaddr e a s) = (if status_exl s then CP0_EPC s else faulting_pc s)" "status_exl (raise_bad_vaddr e a s)"
    using raise_exception_occurred [OF t] raise_exception_code [OF t] raise_exception_epc [OF t] raise_exception_exl [OF t]
    by (simp_all add: raise_bad_vaddr_def CP0_ExCode_def status_exl_def)
  ultimately show ?thesis by (simp only: faulted_def bad_vaddr simp_thms)
qed

text \<open>
  C14: addresses that no segment serves fault and are reported. A misaligned half or word access raises
  AdEL (loads) or AdES (stores); an access of any width, aligned to it, at an address outside text, data, stack, the stack's
  growth zone, kernel data and the device area raises DBE. The load delivers zero; the exception is pending with BadVAddr the address
  and EPC the faulting instruction, and no memory, register or program counter has changed.
\<close>

theorem address_faults:
  "(a AND 3 \<noteq> 0 \<longrightarrow> (\<exists>t u. mem_read_word H a s = Inr (0, t) \<and> faulted ExcCode_AdEL a s t \<and>
      mem_write_word H a v s = Inr ((), u) \<and> faulted ExcCode_AdES a (s\<lparr>data_modified := True\<rparr>) u)) \<and>
   (a AND 1 \<noteq> 0 \<longrightarrow> (\<exists>t u. mem_read_half H a s = Inr (0, t) \<and> faulted ExcCode_AdEL a s t \<and>
      mem_write_half H a v s = Inr ((), u) \<and> faulted ExcCode_AdES a (s\<lparr>data_modified := True\<rparr>) u)) \<and>
   (unmapped s a \<longrightarrow> (\<exists>t u. faulted ExcCode_DBE a s t \<and> faulted ExcCode_DBE a (s\<lparr>data_modified := True\<rparr>) u \<and>
      mem_read_byte H a s = Inr (0, t) \<and> mem_write_byte H a v s = Inr ((), u) \<and>
      (a AND 1 = 0 \<longrightarrow> mem_read_half H a s = Inr (0, t) \<and> mem_write_half H a v s = Inr ((), u)) \<and>
      (a AND 3 = 0 \<longrightarrow> mem_read_word H a s = Inr (0, t) \<and> mem_write_word H a v s = Inr ((), u))))"
proof (intro conjI impI)
  assume "a AND 3 \<noteq> 0"
  then show "\<exists>t u. mem_read_word H a s = Inr (0, t) \<and> faulted ExcCode_AdEL a s t \<and>
      mem_write_word H a v s = Inr ((), u) \<and> faulted ExcCode_AdES a (s\<lparr>data_modified := True\<rparr>) u"
    by - (rule exI [of _ "raise_bad_vaddr ExcCode_AdEL a s"], rule exI [of _ "raise_bad_vaddr ExcCode_AdES a (s\<lparr>data_modified := True\<rparr>)"],
      simp add: mem_read_word_def mem_write_word_def bad_mem_read_def bad_mem_write_def Let_def raise_bad_vaddr_faulted)
next
  assume "a AND 1 \<noteq> 0"
  then show "\<exists>t u. mem_read_half H a s = Inr (0, t) \<and> faulted ExcCode_AdEL a s t \<and>
      mem_write_half H a v s = Inr ((), u) \<and> faulted ExcCode_AdES a (s\<lparr>data_modified := True\<rparr>) u"
    by - (rule exI [of _ "raise_bad_vaddr ExcCode_AdEL a s"], rule exI [of _ "raise_bad_vaddr ExcCode_AdES a (s\<lparr>data_modified := True\<rparr>)"],
      simp add: mem_read_half_def mem_write_half_def bad_mem_read_def bad_mem_write_def Let_def raise_bad_vaddr_faulted)
next
  assume un: "unmapped s a"
  then have "\<not> MM_IO_BOT \<le> a" by (simp add: unmapped_def not_le)
  with un show "\<exists>t u. faulted ExcCode_DBE a s t \<and> faulted ExcCode_DBE a (s\<lparr>data_modified := True\<rparr>) u \<and>
      mem_read_byte H a s = Inr (0, t) \<and> mem_write_byte H a v s = Inr ((), u) \<and>
      (a AND 1 = 0 \<longrightarrow> mem_read_half H a s = Inr (0, t) \<and> mem_write_half H a v s = Inr ((), u)) \<and>
      (a AND 3 = 0 \<longrightarrow> mem_read_word H a s = Inr (0, t) \<and> mem_write_word H a v s = Inr ((), u))"
    by - (rule exI [of _ "raise_bad_vaddr ExcCode_DBE a s"], rule exI [of _ "raise_bad_vaddr ExcCode_DBE a (s\<lparr>data_modified := True\<rparr>)"],
      simp add: mem_read_byte_def mem_write_byte_def mem_read_half_def mem_write_half_def mem_read_word_def mem_write_word_def
        bad_mem_read_def bad_mem_write_def unmapped_def data_ref_def Let_def raise_bad_vaddr_faulted)
qed

theorem address_faults_witness:
  "(\<exists>t. mem_read_word idle_host 0x10000002 default_memory = Inr (0, t) \<and> faulted ExcCode_AdEL 0x10000002 default_memory t) \<and>
   (\<exists>t. mem_read_byte idle_host 5 default_memory = Inr (0, t) \<and> faulted ExcCode_DBE 5 default_memory t)"
proof -
  have "unmapped default_memory 5"
    by (simp add: unmapped_def data_ref_def in_data_def in_stack_def in_k_data_def in_text_def near_stack_def default_memory_fields)
  then show ?thesis
    using address_faults [of "0x10000002" idle_host default_memory] address_faults [of 5 idle_host default_memory] by auto
qed

subsection \<open>The memory-mapped transmitter\<close>

lemma set_cp0_devices [simp]:
  "trans_control (set_cp0 n v s) = trans_control s" "trans_buffer_full_timer (set_cp0 n v s) = trans_buffer_full_timer s"
  "console_out (set_cp0 n v s) = console_out s"
  by (simp_all add: set_cp0_def)

lemma write_trans_ready:
  assumes "trans_control s AND TRANS_READY \<noteq> 0"
  shows "trans_control (write_trans_buffer v s) AND TRANS_READY = 0"
    and "trans_buffer_full_timer (write_trans_buffer v s) = TRANS_LATENCY"
    and "console_out (write_trans_buffer v s) = console_out s @ [Con_Char (ucast v)]"
proof -
  have "(w AND NOT 1) AND 1 = (0::32 word)" for w by (simp add: and.assoc del: not_one_eq)
  then show "trans_control (write_trans_buffer v s) AND TRANS_READY = 0"
    using assms by (simp add: write_trans_buffer_def Let_def CLEAR_INTERRUPT_def put_console_char_def del: not_one_eq)
  have "ucast (v AND 0xff) = (ucast v :: 8 word)" by (simp add: word_eq_bits bit_simps)
  then show "console_out (write_trans_buffer v s) = console_out s @ [Con_Char (ucast v)]"
    using assms by (simp add: write_trans_buffer_def Let_def CLEAR_INTERRUPT_def put_console_char_def)
  show "trans_buffer_full_timer (write_trans_buffer v s) = TRANS_LATENCY"
    using assms by (simp add: write_trans_buffer_def Let_def CLEAR_INTERRUPT_def)
qed

lemma busy_countdown:
  assumes "int k \<le> trans_buffer_full_timer s"
  shows "(check_transmitter ^^ k) s = s\<lparr>trans_buffer_full_timer := trans_buffer_full_timer s - int k\<rparr>"
  using assms by (induction k) (simp_all add: check_transmitter_def)

text \<open>
  C19: the transmitter accepts one character per busy period. Writing to the buffer of a ready
  transmitter outputs the character; for the next \<^verbatim>\<open>TRANS_LATENCY\<close> polls it is busy and further
  writes change nothing; at the poll after these it is ready again.
\<close>

theorem transmitter_busy_window:
  assumes "trans_control s AND TRANS_READY \<noteq> 0" and "t = write_trans_buffer v s"
  shows "console_out t = console_out s @ [Con_Char (ucast v)] \<and>
    (\<forall>k\<le>100. write_trans_buffer w ((check_transmitter ^^ k) t) = (check_transmitter ^^ k) t) \<and>
    trans_control ((check_transmitter ^^ 101) t) AND TRANS_READY \<noteq> 0"
proof -
  note r = write_trans_ready [OF assms(1), of v, folded assms(2)]
  have down: "(check_transmitter ^^ k) t = t\<lparr>trans_buffer_full_timer := 100 - int k\<rparr>" if "k \<le> 100" for k
    using busy_countdown [of k t] that r(2) by simp
  have "write_trans_buffer w ((check_transmitter ^^ k) t) = (check_transmitter ^^ k) t" if "k \<le> 100" for k
    using r(1) by (simp add: down [OF that] write_trans_buffer_def)
  moreover have "(check_transmitter ^^ 101) t = check_transmitter ((check_transmitter ^^ 100) t)"
    using funpow.simps(2) [of 100 check_transmitter] by simp
  then have "trans_control ((check_transmitter ^^ 101) t) = trans_control t OR TRANS_READY"
    using r(1) by (simp add: down check_transmitter_def Let_def RAISE_INTERRUPT_def)
  moreover have "(x OR 1) AND 1 \<noteq> (0::32 word)" for x by (simp add: bit.conj_disj_distrib2)
  ultimately show ?thesis using r(3) by metis
qed

theorem transmitter_busy_window_witness:
  "trans_control ((check_transmitter ^^ 101) (write_trans_buffer 65 zero_machine)) AND TRANS_READY \<noteq> 0 \<and>
   console_out (write_trans_buffer 65 zero_machine) = [Con_Char 65]"
  using transmitter_busy_window [OF _ refl, of zero_machine 65] by (simp add: zero_machine_def)

end
