(* ===== verification/Multiply.thy ===== *)
theory Multiply
  imports Machine WordArith
begin

text \<open>
  The multiplier of \<^verbatim>\<open>run.c\<close>: \<^verbatim>\<open>unsigned_multiply\<close> builds a 64-bit product from four 16-bit ones,
  \<^verbatim>\<open>signed_multiply\<close> works on magnitudes and negates, and the multiply-accumulate instructions
  add or subtract the product with a carry between \<^verbatim>\<open>LO\<close> and \<^verbatim>\<open>HI\<close>. All are proved equal to
  64-bit arithmetic on the pair.
\<close>

subsection \<open>Definitions\<close>

definition unsigned_multiply :: "reg_word \<Rightarrow> reg_word \<Rightarrow> machine \<Rightarrow> machine" where
  "unsigned_multiply v1 v2 s =
    (let a = drop_bit 16 v1 AND 0xffff; b = v1 AND 0xffff;
         c = drop_bit 16 v2 AND 0xffff; d = v2 AND 0xffff;
         bd = b * d; ad = a * d; cb = c * b; ac = a * c;
         mid = ad + cb;
         carry_mid = (if mid < ad \<or> mid < cb then 1 else 0);
         mid2 = mid + (drop_bit 16 bd AND 0xffff);
         carry_mid = (if mid2 < mid \<or> mid2 < (drop_bit 16 bd AND 0xffff) then carry_mid + 1 else carry_mid)
     in s\<lparr>LO := (bd AND 0xffff) OR push_bit 16 (mid2 AND 0xffff),
          HI := ac + push_bit 16 carry_mid + (drop_bit 16 mid2 AND 0xffff)\<rparr>)"

definition signed_multiply :: "reg_word \<Rightarrow> reg_word \<Rightarrow> machine \<Rightarrow> machine" where
  "signed_multiply v1 v2 s =
    (let neg_sign = v1 <s 0;
         v1 = (if v1 <s 0 then - v1 else v1);
         neg_sign = (if v2 <s 0 then \<not> neg_sign else neg_sign);
         v2 = (if v2 <s 0 then - v2 else v2);
         s = unsigned_multiply v1 v2 s
     in if neg_sign
        then let s = s\<lparr>LO := NOT (LO s)\<rparr>;
                 s = s\<lparr>HI := NOT (HI s)\<rparr>;
                 s = s\<lparr>LO := LO s + 1\<rparr>
             in if LO s = 0 then s\<lparr>HI := HI s + 1\<rparr> else s
        else s)"

text \<open>The common tail of \<^verbatim>\<open>MADD\<close>/\<^verbatim>\<open>MADDU\<close> and of \<^verbatim>\<open>MSUB\<close>/\<^verbatim>\<open>MSUBU\<close>, around either multiply.\<close>

definition multiply_add :: "(machine \<Rightarrow> machine) \<Rightarrow> machine \<Rightarrow> machine" where
  "multiply_add mul s =
    (let product_low = LO s; product_high = HI s;
         s = mul s;
         tmp = product_low + LO s;
         product_high = (if tmp < LO s \<or> tmp < product_low then product_high + 1 else product_high)
     in s\<lparr>LO := tmp, HI := product_high + HI s\<rparr>)"

definition multiply_sub :: "(machine \<Rightarrow> machine) \<Rightarrow> machine \<Rightarrow> machine" where
  "multiply_sub mul s =
    (let product_low = LO s; product_high = HI s;
         s = mul s;
         tmp = product_low - LO s;
         product_high = (if LO s > product_low then product_high - 1 else product_high)
     in s\<lparr>LO := tmp, HI := product_high - HI s\<rparr>)"

subsection \<open>The register pair as a 64-bit word\<close>

definition hilo :: "machine \<Rightarrow> 64 word" where
  "hilo s = ucast (HI s) * 4294967296 + ucast (LO s)"

definition pair :: "32 word \<Rightarrow> 32 word \<Rightarrow> 64 word" where
  "pair h l = ucast h * 4294967296 + ucast l"

lemma unat64_less: "unat (w::64 word) < 18446744073709551616"
  by (rule order_less_le_trans [OF unsigned_less]) simp

lemma unat_ucast64: "unat (ucast (w::32 word) :: 64 word) = unat w"
  using unat32_less [of w] by (simp add: unsigned_ucast_eq take_bit_nat_eq_self)

lemma unat_pair: "unat (pair h l) = unat h * 4294967296 + unat l"
proof -
  have "unat h * 4294967296 + unat l < 18446744073709551616"
    using unat32_less [of h] unat32_less [of l] by simp
  then show ?thesis by (simp add: pair_def unat_word_ariths unat_ucast64)
qed

subsection \<open>Sixteen-bit halves\<close>

lemma unat_low16: "unat ((w::32 word) AND 0xffff) = unat w mod 65536"
proof -
  have "w AND 0xffff = take_bit 16 w" by (simp add: take_bit_eq_mask mask_eq_exp_minus_1)
  then have "unat (w AND 0xffff) = take_bit 16 (unat w)" by (simp add: unsigned_take_bit_eq)
  then show ?thesis by (simp add: take_bit_eq_mod)
qed

lemma unat_high16: "unat (drop_bit 16 (w::32 word) AND 0xffff) = unat w div 65536"
proof -
  have "unat (drop_bit 16 w) = unat w div 65536"
    by (simp add: unat_drop_bit_eq drop_bit_eq_div [of 16 "unat w"])
  then show ?thesis using unat32_less [of w] by (simp add: unat_low16)
qed

lemma unat_mult32: "unat (a::32 word) * unat b < 4294967296 \<Longrightarrow> unat (a * b) = unat a * unat b"
  by (simp add: unat_word_ariths)

lemma unat_add_carry:
  fixes a b :: "32 word"
  shows "unat (a + b) + (if a + b < a \<or> a + b < b then 4294967296 else 0) = unat a + unat b"
proof (cases "unat a + unat b < 4294967296")
  case True
  then have "unat (a + b) = unat a + unat b" by (simp add: unat_word_ariths)
  then show ?thesis by (auto simp: word_less_nat_alt)
next
  case False
  then have "unat (a + b) = unat a + unat b - 4294967296"
    using unat32_less [of a] unat32_less [of b] by (simp add: unat_word_ariths mod_if)
  then show ?thesis using False unat32_less [of a] unat32_less [of b] by (auto simp: word_less_nat_alt)
qed

lemma half_product_bound: "(a::nat) < 65536 \<Longrightarrow> b < 65536 \<Longrightarrow> a * b \<le> 4294836225"
  using mult_le_mono [of a 65535 b 65535] by simp

lemma unat_shift16: "unat (push_bit 16 (w AND 0xffff) :: 32 word) = unat w mod 65536 * 65536"
proof -
  have "push_bit 16 (w AND 0xffff) = (w AND 0xffff) * 65536" by (simp add: push_bit_eq_mult)
  then show ?thesis by (simp add: unat_word_ariths unat_low16)
qed

lemma or_halves: "unat ((x AND 0xffff) OR push_bit 16 (y AND 0xffff) :: 32 word) = unat x mod 65536 + unat y mod 65536 * 65536"
proof -
  have "(x AND 0xffff) OR push_bit 16 (y AND 0xffff) = (x AND 0xffff) + push_bit 16 (y AND 0xffff)"
    by (rule disjunctive_add_eq_or [symmetric]) (simp add: word_eq_bits bit_simps)
  then show ?thesis by (simp add: unat_word_ariths unat_low16 unat_shift16 del: push_bit_and)
qed

subsection \<open>Unsigned products\<close>

text \<open>The high-school scheme on natural numbers: \<open>m\<close> is the middle column with its carries.\<close>

lemma high_school:
  fixes A B C D m2 k :: nat
  assumes "m2 + k * 4294967296 = A * D + C * B + B * D div 65536"
  shows "(A * 65536 + B) * (C * 65536 + D) =
    (A * C + k * 65536 + m2 div 65536) * 4294967296 + (B * D mod 65536 + m2 mod 65536 * 65536)"
proof -
  have "(A * 65536 + B) * (C * 65536 + D) = A * C * 4294967296 + (A * D + C * B) * 65536 + B * D"
    by (simp add: algebra_simps)
  also have "\<dots> = A * C * 4294967296 + (A * D + C * B + B * D div 65536) * 65536 + B * D mod 65536"
    using div_mult_mod_eq [of "B * D" 65536] by (simp add: algebra_simps)
  also have "\<dots> = A * C * 4294967296 + (m2 + k * 4294967296) * 65536 + B * D mod 65536"
    by (simp only: assms)
  also have "\<dots> = (A * C + k * 65536) * 4294967296 + (m2 div 65536 * 65536 + m2 mod 65536) * 65536 + B * D mod 65536"
    by (simp add: algebra_simps)
  finally show ?thesis by (simp only: add_mult_distrib add.assoc mult.assoc)
qed

lemma unsigned_multiply_hilo: "hilo (unsigned_multiply v1 v2 s) = ucast v1 * ucast v2"
proof -
  define a b c d where "a = drop_bit 16 v1 AND 0xffff" and "b = v1 AND 0xffff"
    and "c = drop_bit 16 v2 AND 0xffff" and "d = v2 AND 0xffff"
  note abcd = a_def b_def c_def d_def
  define mid where "mid = a * d + c * b"
  define bh where "bh = drop_bit 16 (b * d) AND 0xffff"
  define mid2 where "mid2 = mid + bh"
  define k1 :: "32 word" where "k1 = (if mid < a * d \<or> mid < c * b then 1 else 0)"
  define k where "k = (if mid2 < mid \<or> mid2 < bh then k1 + 1 else k1)"
  have lt: "unat a < 65536" "unat b < 65536" "unat c < 65536" "unat d < 65536"
    using unat32_less [of v1] unat32_less [of v2] by (simp_all add: abcd unat_high16 unat_low16 less_mult_imp_div_less)
  have pr: "unat (a * d) = unat a * unat d" "unat (c * b) = unat c * unat b" "unat (b * d) = unat b * unat d"
      "unat (a * c) = unat a * unat c"
    using half_product_bound [OF lt(1,4)] half_product_bound [OF lt(3,2)] half_product_bound [OF lt(2,4)]
      half_product_bound [OF lt(1,3)] by (simp_all add: unat_mult32)
  have ks: "unat k = (if mid < a * d \<or> mid < c * b then 1 else 0) + (if mid2 < mid \<or> mid2 < bh then 1 else 0)"
    by (simp add: k_def k1_def)
  have bh: "unat bh = unat b * unat d div 65536" by (simp only: bh_def unat_high16 pr)
  have col: "unat mid2 + unat k * 4294967296 = unat a * unat d + unat c * unat b + unat b * unat d div 65536"
    using unat_add_carry [of "a * d" "c * b", folded mid_def] unat_add_carry [of mid bh, folded mid2_def]
    unfolding ks pr bh by (auto split: if_splits)
  have v: "unat v1 = unat a * 65536 + unat b" "unat v2 = unat c * 65536 + unat d"
    by (simp_all only: abcd unat_high16) (simp_all add: unat_low16)
  let ?h = "a * c + push_bit 16 k + (drop_bit 16 mid2 AND 0xffff)"
  let ?l = "(b * d AND 0xffff) OR push_bit 16 (mid2 AND 0xffff)"
  have prod: "unat v1 * unat v2 = (unat a * unat c + unat k * 65536 + unat mid2 div 65536) * 4294967296 +
      (unat b * unat d mod 65536 + unat mid2 mod 65536 * 65536)"
    unfolding v by (rule high_school [OF col])
  moreover have b64: "unat v1 * unat v2 < 18446744073709551616"
    using mult_strict_mono [OF unat32_less [of v1] unat32_less [of v2]] by simp
  ultimately have hb: "unat a * unat c + unat k * 65536 + unat mid2 div 65536 < 4294967296" by simp
  have "unat (push_bit 16 k) = unat k * 65536"
    using hb by (simp add: push_bit_eq_mult unat_word_ariths)
  then have "unat ?h = unat a * unat c + unat k * 65536 + unat mid2 div 65536"
    using hb by (simp add: unat_word_ariths pr unat_high16)
  moreover have "unat ?l = unat b * unat d mod 65536 + unat mid2 mod 65536 * 65536"
    by (simp only: or_halves pr)
  ultimately have "unat (pair ?h ?l) = unat v1 * unat v2" unfolding unat_pair prod by simp
  also have "\<dots> = unat (ucast v1 * ucast v2 :: 64 word)"
    using b64 by (simp add: unat_word_ariths unat_ucast64)
  finally have "pair ?h ?l = ucast v1 * ucast v2" by (simp flip: word_unat_eq_iff)
  moreover have "hilo (unsigned_multiply v1 v2 s) = pair ?h ?l"
    by (simp add: hilo_def pair_def unsigned_multiply_def Let_def abcd mid_def bh_def mid2_def k_def k1_def)
  ultimately show ?thesis by simp
qed

subsection \<open>Signed products\<close>

lemma ucast64_add:
  fixes a b :: "32 word"
  shows "(ucast a + ucast b :: 64 word) = ucast (a + b) + (if a + b < a \<or> a + b < b then 4294967296 else 0)"
proof -
  have "unat (ucast a + ucast b :: 64 word) = unat a + unat b"
    using unat32_less [of a] unat32_less [of b] by (simp add: unat_word_ariths unat_ucast64)
  also have "\<dots> = unat (ucast (a + b) + (if a + b < a \<or> a + b < b then 4294967296 else 0) :: 64 word)"
    using unat_add_carry [of a b] unat32_less [of "a + b"] by (auto simp: unat_word_ariths unat_ucast64)
  finally show ?thesis by (simp flip: word_unat_eq_iff)
qed

lemma ucast64_neg:
  assumes "(v::32 word) \<noteq> 0"
  shows "(ucast (- v) :: 64 word) = 4294967296 - ucast v"
proof -
  have "0 < v" using assms by (simp add: word_neq_0_conv)
  with ucast64_add [of "- v" v] have "(ucast (- v) + ucast v :: 64 word) = 4294967296" by simp
  then show ?thesis by (metis add_diff_cancel_right')
qed

lemma scast64: "(scast (v::32 word) :: 64 word) = (if v <s 0 then - ucast (- v) else ucast v)"
proof (cases "v <s 0")
  case True
  then have neg: "sint v = uint v - 4294967296" and "v \<noteq> 0" by (auto simp: sless_0_iff sint32)
  have "scast v = word_of_int (sint v)" by (rule scast_eq)
  also have "\<dots> = ucast v - (4294967296 :: 64 word)" by (simp only: neg ucast_eq of_int_diff of_int_numeral)
  finally show ?thesis using True ucast64_neg [OF \<open>v \<noteq> 0\<close>] by simp
next
  case False
  then have "sint v = uint v" by (simp add: sless_0_iff sint32)
  with False show ?thesis by (simp only: scast_eq ucast_eq if_False)
qed

lemma ucast64_max: "(ucast (-1 :: 32 word) :: 64 word) = 4294967295"
  by (simp add: word_unat_eq_iff unat_ucast64 unsigned_minus_1_eq_mask mask_eq_exp_minus_1)

lemma ucast64_not: "(ucast (NOT (v::32 word)) :: 64 word) = 4294967295 - ucast v"
proof -
  have "NOT v + v = -1" by (simp add: not_eq_complement)
  with ucast64_add [of "NOT v" v] have "(ucast (NOT v) + ucast v :: 64 word) = ucast (-1 :: 32 word)"
    by (simp only: if_False not_less word_order.extremum simp_thms) simp
  then show ?thesis by (simp add: eq_diff_eq ucast64_max)
qed

lemma high_add: "(ucast (a + b :: 32 word) :: 64 word) * 4294967296 = (ucast a + ucast b) * 4294967296"
  unfolding ucast64_add by simp

lemma high_diff: "(ucast (a - b :: 32 word) :: 64 word) * 4294967296 = (ucast a - ucast b) * 4294967296"
proof -
  have "(ucast a :: 64 word) * 4294967296 = ucast (a - b + b) * 4294967296" by simp
  also have "\<dots> = (ucast (a - b) + ucast b) * 4294967296" by (rule high_add)
  finally show ?thesis by (simp add: algebra_simps)
qed

lemma pair_add:
  "pair (h + (if l + l' < l' \<or> l + l' < l then 1 else 0) + h') (l + l') = pair h l + pair h' l'"
  using ucast64_add [of l l'] by (auto simp: pair_def high_add algebra_simps)

lemma pair_diff:
  "pair (h - (if l < l' then 1 else 0) - h') (l - l') = pair h l - pair h' l'"
proof -
  have "(l < l - l' \<or> l < l') = (l < l')"
    using word_sub_le [of l' l] by (meson leD not_le)
  then have "(ucast (l - l') :: 64 word) = ucast l - ucast l' + (if l < l' then 4294967296 else 0)"
    using ucast64_add [of "l - l'" l'] by (auto simp: algebra_simps)
  moreover have "(ucast (h - c - h') :: 64 word) * 4294967296 = ucast h * 4294967296 - ucast c * 4294967296 - ucast h' * 4294967296"
    for c by (simp only: high_diff left_diff_distrib)
  ultimately show ?thesis by (simp add: pair_def)
qed

lemma pair_negate: "pair (NOT h + (if NOT l + 1 = 0 then 1 else 0)) (NOT l + 1) = - pair h l"
proof -
  have "NOT l + 1 = 0 - l" by (simp add: not_eq_complement)
  moreover have "NOT h + (if 0 - l = 0 then 1 else 0) = 0 - (if 0 < l then 1 else 0) - h"
    by (auto simp: not_eq_complement word_neq_0_conv [symmetric])
  ultimately show ?thesis using pair_diff [of 0 0 l h] by (simp only: pair_def unsigned_0 mult_zero_left) simp
qed

lemma hilo_pair: "hilo s = pair (HI s) (LO s)"
  by (simp add: hilo_def pair_def)

lemma signed_multiply_hilo: "hilo (signed_multiply v1 v2 s) = scast v1 * scast v2"
proof -
  define u where "u = unsigned_multiply (if v1 <s 0 then - v1 else v1) (if v2 <s 0 then - v2 else v2) s"
  have u: "hilo u = ucast (if v1 <s 0 then - v1 else v1) * ucast (if v2 <s 0 then - v2 else v2)"
    unfolding u_def by (rule unsigned_multiply_hilo)
  have "hilo (signed_multiply v1 v2 s) =
      (if (v1 <s 0) \<noteq> (v2 <s 0) then - hilo u else hilo u)"
  proof (cases "(v1 <s 0) \<noteq> (v2 <s 0)")
    case True
    then have "hilo (signed_multiply v1 v2 s) = pair (NOT (HI u) + (if NOT (LO u) + 1 = 0 then 1 else 0)) (NOT (LO u) + 1)"
      by (auto simp: signed_multiply_def Let_def u_def hilo_pair)
    with True pair_negate [of "HI u" "LO u"] show ?thesis by (simp add: hilo_pair)
  next
    case False
    then show ?thesis by (auto simp: signed_multiply_def Let_def u_def hilo_pair)
  qed
  then show ?thesis by (simp add: u scast64)
qed

subsection \<open>Properties\<close>

lemma length_64: "LENGTH(64) = 64"
  by simp

lemma unat_hilo: "unat (hilo s) = unat (HI s) * 4294967296 + unat (LO s)"
  by (simp only: hilo_pair unat_pair)

lemma sint_product_bound: "- (2 ^ 63) \<le> sint (a::32 word) * sint (b::32 word) \<and> sint a * sint b < 2 ^ 63"
proof -
  have "\<bar>sint a\<bar> \<le> 2 ^ 31" "\<bar>sint b\<bar> \<le> 2 ^ 31"
    using sint_ge [of a] sint_lt [of a] sint_ge [of b] sint_lt [of b] by simp_all
  then have "\<bar>sint a * sint b\<bar> \<le> 2 ^ 31 * 2 ^ 31" by (simp only: abs_mult mult_mono abs_ge_zero zero_le_numeral zero_le_power)
  then show ?thesis by (auto simp: abs_le_iff)
qed

lemma sint_signed_product: "sint (scast (a::32 word) * scast (b::32 word) :: 64 word) = sint a * sint b"
proof -
  have "(scast a * scast b :: 64 word) = word_of_int (sint a * sint b)"
    by (simp only: scast_eq of_int_mult)
  moreover have "signed_take_bit 63 (sint a * sint b) = sint a * sint b"
    using sint_product_bound [of a b] by (intro signed_take_bit_int_eq_self) simp_all
  ultimately show ?thesis by (simp only: signed_of_int length_64) simp
qed

lemma sint64: "sint (w::64 word) = (if unat w < 2 ^ 63 then int (unat w) else int (unat w) - 2 ^ 64)"
proof -
  have r: "- (2 ^ 63) \<le> sint w" "sint w < 2 ^ 63"
    using sint_ge [of w] sint_lt [of w] by simp_all
  have u: "int (unat w) = sint w mod 2 ^ 64"
    using uint_sint [of w] by (simp add: take_bit_eq_mod)
  show ?thesis
  proof (cases "0 \<le> sint w")
    case True
    with r u have "int (unat w) = sint w" by (simp del: of_nat_unat)
    with r show ?thesis by (simp del: of_nat_unat)
  next
    case False
    have "sint w mod 2 ^ 64 = (sint w + 2 ^ 64) mod 2 ^ 64" by simp
    also have "\<dots> = sint w + 2 ^ 64" using False r by (intro mod_pos_pos_trivial) auto
    finally show ?thesis using u r False by (simp del: of_nat_unat)
  qed
qed

lemma sint_pair: "sint (pair h l) = sint h * 2 ^ 32 + uint l"
proof (cases "unat h < 2147483648")
  case True
  then have "unat (pair h l) < 2 ^ 63" using unat32_less [of l] by (simp add: unat_pair)
  then show ?thesis using True unfolding sint64 sint32 [of h] by (simp add: unat_pair)
next
  case False
  then have "\<not> unat (pair h l) < 2 ^ 63" by (simp add: unat_pair)
  then show ?thesis using False unfolding sint64 sint32 [of h] by (simp add: unat_pair)
qed

text \<open>
  C6: multiplication is exact. \<^verbatim>\<open>unsigned_multiply\<close> leaves in HI and LO the 64-bit product of its
  operands as unsigned numbers, \<^verbatim>\<open>signed_multiply\<close> their product as signed numbers, for all inputs.
\<close>

theorem multiply_exact:
  "unat (HI (unsigned_multiply v1 v2 s)) * 2 ^ 32 + unat (LO (unsigned_multiply v1 v2 s)) = unat v1 * unat v2 \<and>
   sint (HI (signed_multiply v1 v2 s)) * 2 ^ 32 + uint (LO (signed_multiply v1 v2 s)) = sint v1 * sint v2"
proof -
  have "unat v1 * unat v2 < 18446744073709551616"
    using mult_strict_mono [OF unat32_less [of v1] unat32_less [of v2]] by simp
  then have "unat (ucast v1 * ucast v2 :: 64 word) = unat v1 * unat v2"
    by (simp add: unat_word_ariths unat_ucast64)
  then have "unat (HI (unsigned_multiply v1 v2 s)) * 2 ^ 32 + unat (LO (unsigned_multiply v1 v2 s)) = unat v1 * unat v2"
    using unat_hilo [of "unsigned_multiply v1 v2 s"] unsigned_multiply_hilo [of v1 v2 s] by simp
  moreover have "sint (HI (signed_multiply v1 v2 s)) * 2 ^ 32 + uint (LO (signed_multiply v1 v2 s)) = sint v1 * sint v2"
    using sint_pair [of "HI (signed_multiply v1 v2 s)" "LO (signed_multiply v1 v2 s)"]
      signed_multiply_hilo [of v1 v2 s] sint_signed_product [of v1 v2] by (simp add: hilo_pair)
  ultimately show ?thesis ..
qed

lemma multiply_add_hilo: "hilo (multiply_add mul s) = hilo s + hilo (mul s)"
  using pair_add [of "HI s" "LO s" "LO (mul s)" "HI (mul s)"]
  by (auto simp: multiply_add_def Let_def hilo_pair)

lemma multiply_sub_hilo: "hilo (multiply_sub mul s) = hilo s - hilo (mul s)"
  using pair_diff [of "HI s" "LO s" "LO (mul s)" "HI (mul s)"]
  by (auto simp: multiply_sub_def Let_def hilo_pair)

text \<open>
  C15: the accumulating multiplies are 64-bit arithmetic. \<^verbatim>\<open>MADD\<close>, \<^verbatim>\<open>MADDU\<close>, \<^verbatim>\<open>MSUB\<close> and \<^verbatim>\<open>MSUBU\<close> add the
  product to, or subtract it from, the pair HI, LO modulo 2 to the 64: the carry and the borrow
  between the two words are right in every case.
\<close>

theorem accumulate_is_64_bit:
  "hilo (multiply_add (signed_multiply v1 v2) s) = hilo s + scast v1 * scast v2 \<and>
   hilo (multiply_add (unsigned_multiply v1 v2) s) = hilo s + ucast v1 * ucast v2 \<and>
   hilo (multiply_sub (signed_multiply v1 v2) s) = hilo s - scast v1 * scast v2 \<and>
   hilo (multiply_sub (unsigned_multiply v1 v2) s) = hilo s - ucast v1 * ucast v2"
  by (simp add: multiply_add_hilo multiply_sub_hilo signed_multiply_hilo unsigned_multiply_hilo)

end
