(* ===== verification/Fpu.thy ===== *)
theory Fpu
  imports Memory
begin

text \<open>
  The floating-point coprocessor (\<^verbatim>\<open>include/registers.h\<close> and the FPA part of \<^verbatim>\<open>run.c\<close>): the register
  file with its single, double and integer views, the condition codes of FCSR, comparison, and
  one handler per instruction. Registers hold bit patterns. Sign changes and comparisons are
  the IEEE operations on those patterns; rounding arithmetic is the host's.
\<close>

subsection \<open>Registers and condition codes\<close>

definition FPR_S :: "nat \<Rightarrow> machine \<Rightarrow> 32 word" where
  "FPR_S n s = fp_int_view s n"

definition FPR_W :: "nat \<Rightarrow> machine \<Rightarrow> 32 word" where
  "FPR_W n s = fp_int_view s n"

definition fp_double_view :: "machine \<Rightarrow> nat \<Rightarrow> 64 word" where
  "fp_double_view s k = push_bit 32 (ucast (fp_int_view s (2 * k + 1))) OR ucast (fp_int_view s (2 * k))"

definition set_fp_double_view :: "nat \<Rightarrow> 64 word \<Rightarrow> machine \<Rightarrow> machine" where
  "set_fp_double_view k v s =
     s\<lparr>fp_int_view := (fp_int_view s)(2 * k := ucast v, 2 * k + 1 := ucast (drop_bit 32 v))\<rparr>"

definition FPR_D :: "nat \<Rightarrow> 64 word mcomp" where
  "FPR_D n s =
    (if n mod 2 = 1 then throw (Run_Error ''Odd FP double register number'') s
     else ret (fp_double_view s (n div 2)) s)"

definition SET_FPR_S :: "nat \<Rightarrow> 32 word \<Rightarrow> machine \<Rightarrow> machine" where
  "SET_FPR_S n v s = s\<lparr>fp_int_view := (fp_int_view s)(n := v)\<rparr>"

definition SET_FPR_W :: "nat \<Rightarrow> 32 word \<Rightarrow> machine \<Rightarrow> machine" where
  "SET_FPR_W n v s = s\<lparr>fp_int_view := (fp_int_view s)(n := v)\<rparr>"

text \<open>\<^verbatim>\<open>SET_FPR_D\<close>: the check of the destination comes before the value is computed.\<close>

definition SET_FPR_D :: "nat \<Rightarrow> 64 word mcomp \<Rightarrow> unit mcomp" where
  "SET_FPR_D n value s =
    (if n mod 2 = 1 then throw (Run_Error ''Odd FP double register number'') s
     else bnd value (\<lambda>v. modify (set_fp_double_view (n div 2) v)) s)"

abbreviation FIR_REG :: nat where "FIR_REG \<equiv> 0"
abbreviation FCSR_REG :: nat where "FCSR_REG \<equiv> 31"
abbreviation FCSR_MASK :: "32 word" where "FCSR_MASK \<equiv> 0xfe800000"

definition CC_mask :: "nat \<Rightarrow> 32 word" where
  "CC_mask n = (if n = 0 \<or> n > 7 then push_bit 23 1 else push_bit (25 + n - 1) 1)"

definition FCC :: "nat \<Rightarrow> machine \<Rightarrow> byte" where
  "FCC n s = (if coprocessor_1 s FCSR_REG AND CC_mask n = 0 then 0 else 1)"

definition SET_FCC :: "nat \<Rightarrow> bool \<Rightarrow> machine \<Rightarrow> machine" where
  "SET_FCC n v s =
    (let f = coprocessor_1 s FCSR_REG
     in s\<lparr>coprocessor_1 := (coprocessor_1 s)(FCSR_REG := (if \<not> v then f AND NOT (CC_mask n) else f OR CC_mask n))\<rparr>)"

text \<open>\<^verbatim>\<open>set_fpu_cc\<close>: bits 2, 1 and 0 of the condition select less, equal and unordered.\<close>

definition set_fpu_cc :: "byte \<Rightarrow> nat \<Rightarrow> bool \<Rightarrow> bool \<Rightarrow> bool \<Rightarrow> machine \<Rightarrow> machine" where
  "set_fpu_cc cond cc lt eq unordered =
    SET_FCC cc (cond AND 4 \<noteq> 0 \<and> lt \<or> cond AND 2 \<noteq> 0 \<and> eq \<or> cond AND 1 \<noteq> 0 \<and> unordered)"

subsection \<open>Bit patterns\<close>

definition NaN_s :: "32 word \<Rightarrow> bool" where
  "NaN_s w \<longleftrightarrow> w AND 0x7f800000 = 0x7f800000 \<and> w AND 0x007fffff \<noteq> 0"

definition NaN_d :: "64 word \<Rightarrow> bool" where
  "NaN_d w \<longleftrightarrow> w AND 0x7ff0000000000000 = 0x7ff0000000000000 \<and> w AND 0x000fffffffffffff \<noteq> 0"

text \<open>The order of numbers of one format is that of sign and magnitude.\<close>

definition key_s :: "32 word \<Rightarrow> int" where
  "key_s w = (if bit w 31 then - uint (w AND 0x7fffffff) else uint (w AND 0x7fffffff))"

definition key_d :: "64 word \<Rightarrow> int" where
  "key_d w = (if bit w 63 then - uint (w AND 0x7fffffffffffffff) else uint (w AND 0x7fffffffffffffff))"

definition fneg_s :: "32 word \<Rightarrow> 32 word" where
  "fneg_s w = w XOR 0x80000000"

definition fneg_d :: "64 word \<Rightarrow> 64 word" where
  "fneg_d w = w XOR 0x8000000000000000"

definition fabs_d :: "64 word \<Rightarrow> 64 word" where
  "fabs_d w = w AND 0x7fffffffffffffff"

subsection \<open>Handlers\<close>

text \<open>The register numbers of an instruction, as array indices.\<close>

abbreviation fd_n :: "mips_instruction \<Rightarrow> nat" where "fd_n i \<equiv> unat (FD i)"
abbreviation fs_n :: "mips_instruction \<Rightarrow> nat" where "fs_n i \<equiv> unat (FS i)"
abbreviation ft_n :: "mips_instruction \<Rightarrow> nat" where "ft_n i \<equiv> unat (FT i)"

definition fp_unary_s :: "(32 word \<Rightarrow> 32 word) \<Rightarrow> mips_instruction \<Rightarrow> unit mcomp" where
  "fp_unary_s f i = modify (\<lambda>s. SET_FPR_S (fd_n i) (f (FPR_S (fs_n i) s)) s)"

definition fp_unary_d :: "(64 word \<Rightarrow> 64 word) \<Rightarrow> mips_instruction \<Rightarrow> unit mcomp" where
  "fp_unary_d f i = SET_FPR_D (fd_n i) (bnd (FPR_D (fs_n i)) (\<lambda>v. ret (f v)))"

definition fp_binary_s :: "(32 word \<Rightarrow> 32 word \<Rightarrow> 32 word) \<Rightarrow> mips_instruction \<Rightarrow> unit mcomp" where
  "fp_binary_s f i = modify (\<lambda>s. SET_FPR_S (fd_n i) (f (FPR_S (fs_n i) s) (FPR_S (ft_n i) s)) s)"

definition fp_binary_d :: "(64 word \<Rightarrow> 64 word \<Rightarrow> 64 word) \<Rightarrow> mips_instruction \<Rightarrow> unit mcomp" where
  "fp_binary_d f i = SET_FPR_D (fd_n i) (bnd (FPR_D (fs_n i)) (\<lambda>v. bnd (FPR_D (ft_n i)) (\<lambda>w. ret (f v w))))"

text \<open>A double, or a single widened to one, converted to a word in an integer register.\<close>

definition fp_word_of_d :: "(64 word \<Rightarrow> 32 word) \<Rightarrow> mips_instruction \<Rightarrow> unit mcomp" where
  "fp_word_of_d f i = bnd (FPR_D (fs_n i)) (\<lambda>v. modify (SET_FPR_W (fd_n i) (f v)))"

definition fp_word_of_s :: "(32 word \<Rightarrow> 32 word) \<Rightarrow> mips_instruction \<Rightarrow> unit mcomp" where
  "fp_word_of_s f i = modify (\<lambda>s. SET_FPR_W (fd_n i) (f (FPR_S (fs_n i) s)) s)"

definition op_abs_s :: "host \<Rightarrow> mips_instruction \<Rightarrow> unit mcomp" where
  "op_abs_s H = fp_unary_s (\<lambda>v. d_to_s H (fabs_d (s_to_d H v)))"

definition op_abs_d :: "mips_instruction \<Rightarrow> unit mcomp" where
  "op_abs_d = fp_unary_d fabs_d"

definition op_add_s :: "host \<Rightarrow> mips_instruction \<Rightarrow> unit mcomp" where
  "op_add_s H = fp_binary_s (fadd_s H)"

definition op_add_d :: "host \<Rightarrow> mips_instruction \<Rightarrow> unit mcomp" where
  "op_add_d H = fp_binary_d (fadd_d H)"

definition op_c_cond_s :: "mips_instruction \<Rightarrow> machine \<Rightarrow> machine" where
  "op_c_cond_s i s =
    (let v1 = FPR_S (fs_n i) s; v2 = FPR_S (ft_n i) s; cond = COND i; cc = CCFP i
     in if NaN_s v1 \<or> NaN_s v2
        then (if cond AND 8 \<noteq> 0 then raise_exception ExcCode_FPE s else set_fpu_cc cond cc False False True s)
        else set_fpu_cc cond cc (key_s v1 < key_s v2) (key_s v1 = key_s v2) False s)"

definition op_c_cond_d :: "mips_instruction \<Rightarrow> unit mcomp" where
  "op_c_cond_d i =
    bnd (FPR_D (fs_n i)) (\<lambda>v1. bnd (FPR_D (ft_n i)) (\<lambda>v2. modify (\<lambda>s.
      let cond = COND i; cc = CCFP i
      in if NaN_d v1 \<or> NaN_d v2
         then (if cond AND 8 \<noteq> 0 then raise_exception ExcCode_FPE s else set_fpu_cc cond cc False False True s)
         else set_fpu_cc cond cc (key_d v1 < key_d v2) (key_d v1 = key_d v2) False s)))"

definition op_cfc1 :: "mips_instruction \<Rightarrow> machine \<Rightarrow> machine" where
  "op_cfc1 i s = s\<lparr>gpr := (gpr s)(unat (RT i) := coprocessor_1 s (fs_n i))\<rparr>"

definition op_ctc1 :: "mips_instruction \<Rightarrow> machine \<Rightarrow> machine" where
  "op_ctc1 i s =
    (let v = gpr s (unat (RT i));
         s = s\<lparr>coprocessor_1 := (coprocessor_1 s)(fs_n i := v)\<rparr>
     in if fs_n i = FIR_REG then s
        else if fs_n i = FCSR_REG
        then (if v AND NOT FCSR_MASK \<noteq> 0 then raise_exception ExcCode_FPE s else s)
        else s)"

definition op_ceil_w_d :: "host \<Rightarrow> mips_instruction \<Rightarrow> unit mcomp" where
  "op_ceil_w_d H = fp_word_of_d (\<lambda>v. d_to_w H (fceil_d H v))"

definition op_ceil_w_s :: "host \<Rightarrow> mips_instruction \<Rightarrow> unit mcomp" where
  "op_ceil_w_s H = fp_word_of_s (\<lambda>v. d_to_w H (fceil_d H (s_to_d H v)))"

definition op_cvt_d_s :: "host \<Rightarrow> mips_instruction \<Rightarrow> unit mcomp" where
  "op_cvt_d_s H i = SET_FPR_D (fd_n i) (gets (\<lambda>s. s_to_d H (FPR_S (fs_n i) s)))"

definition op_cvt_d_w :: "host \<Rightarrow> mips_instruction \<Rightarrow> unit mcomp" where
  "op_cvt_d_w H i = SET_FPR_D (fd_n i) (gets (\<lambda>s. w_to_d H (FPR_W (fs_n i) s)))"

definition op_cvt_s_d :: "host \<Rightarrow> mips_instruction \<Rightarrow> unit mcomp" where
  "op_cvt_s_d H i = bnd (FPR_D (fs_n i)) (\<lambda>v. modify (SET_FPR_S (fd_n i) (d_to_s H v)))"

definition op_cvt_s_w :: "host \<Rightarrow> mips_instruction \<Rightarrow> unit mcomp" where
  "op_cvt_s_w H i = modify (\<lambda>s. SET_FPR_S (fd_n i) (w_to_s H (FPR_W (fs_n i) s)) s)"

definition op_cvt_w_d :: "host \<Rightarrow> mips_instruction \<Rightarrow> unit mcomp" where
  "op_cvt_w_d H = fp_word_of_d (d_to_w H)"

definition op_cvt_w_s :: "host \<Rightarrow> mips_instruction \<Rightarrow> unit mcomp" where
  "op_cvt_w_s H = fp_word_of_s (s_to_w H)"

definition op_div_s :: "host \<Rightarrow> mips_instruction \<Rightarrow> unit mcomp" where
  "op_div_s H = fp_binary_s (fdiv_s H)"

definition op_div_d :: "host \<Rightarrow> mips_instruction \<Rightarrow> unit mcomp" where
  "op_div_d H = fp_binary_d (fdiv_d H)"

definition op_floor_w_d :: "host \<Rightarrow> mips_instruction \<Rightarrow> unit mcomp" where
  "op_floor_w_d H = fp_word_of_d (\<lambda>v. d_to_w H (ffloor_d H v))"

definition op_floor_w_s :: "host \<Rightarrow> mips_instruction \<Rightarrow> unit mcomp" where
  "op_floor_w_s H = fp_word_of_s (\<lambda>v. d_to_w H (ffloor_d H (s_to_d H v)))"

definition op_mfc1 :: "mips_instruction \<Rightarrow> machine \<Rightarrow> machine" where
  "op_mfc1 i s = s\<lparr>gpr := (gpr s)(unat (RT i) := FPR_S (fs_n i) s)\<rparr>"

definition op_mov_s :: "mips_instruction \<Rightarrow> unit mcomp" where
  "op_mov_s = fp_unary_s (\<lambda>v. v)"

definition op_mov_d :: "mips_instruction \<Rightarrow> unit mcomp" where
  "op_mov_d = fp_unary_d (\<lambda>v. v)"

text \<open>The conditional moves on a condition code (\<^verbatim>\<open>movf\<close>, \<^verbatim>\<open>movt\<close>) and on a register (\<^verbatim>\<open>movn\<close>, \<^verbatim>\<open>movz\<close>).\<close>

definition op_movf :: "mips_instruction \<Rightarrow> machine \<Rightarrow> machine" where
  "op_movf i s = (if FCC (CC i) s = 0 then s\<lparr>gpr := (gpr s)(unat (RD i) := gpr s (unat (RS i)))\<rparr> else s)"

definition op_movf_d :: "mips_instruction \<Rightarrow> unit mcomp" where
  "op_movf_d i s = (if FCC (CC i) s = 0 then op_mov_d i s else ret () s)"

definition op_movf_s :: "mips_instruction \<Rightarrow> unit mcomp" where
  "op_movf_s i s = (if FCC (CC i) s = 0 then op_mov_s i s else ret () s)"

definition op_movn_d :: "mips_instruction \<Rightarrow> unit mcomp" where
  "op_movn_d i s = (if gpr s (unat (RT i)) \<noteq> 0 then op_mov_d i s else ret () s)"

definition op_movn_s :: "mips_instruction \<Rightarrow> unit mcomp" where
  "op_movn_s i s = (if gpr s (unat (RT i)) \<noteq> 0 then op_mov_s i s else ret () s)"

definition op_movt :: "mips_instruction \<Rightarrow> machine \<Rightarrow> machine" where
  "op_movt i s = (if FCC (CC i) s \<noteq> 0 then s\<lparr>gpr := (gpr s)(unat (RD i) := gpr s (unat (RS i)))\<rparr> else s)"

definition op_movt_d :: "mips_instruction \<Rightarrow> unit mcomp" where
  "op_movt_d i s = (if FCC (CC i) s \<noteq> 0 then op_mov_d i s else ret () s)"

definition op_movt_s :: "mips_instruction \<Rightarrow> unit mcomp" where
  "op_movt_s i s = (if FCC (CC i) s \<noteq> 0 then op_mov_s i s else ret () s)"

definition op_movz_d :: "mips_instruction \<Rightarrow> unit mcomp" where
  "op_movz_d i s = (if gpr s (unat (RT i)) = 0 then op_mov_d i s else ret () s)"

definition op_movz_s :: "mips_instruction \<Rightarrow> unit mcomp" where
  "op_movz_s i s = (if gpr s (unat (RT i)) = 0 then op_mov_s i s else ret () s)"

definition op_mtc1 :: "mips_instruction \<Rightarrow> machine \<Rightarrow> machine" where
  "op_mtc1 i s = SET_FPR_S (fs_n i) (gpr s (unat (RT i))) s"

definition op_mul_s :: "host \<Rightarrow> mips_instruction \<Rightarrow> unit mcomp" where
  "op_mul_s H = fp_binary_s (fmul_s H)"

definition op_mul_d :: "host \<Rightarrow> mips_instruction \<Rightarrow> unit mcomp" where
  "op_mul_d H = fp_binary_d (fmul_d H)"

definition op_neg_s :: "mips_instruction \<Rightarrow> unit mcomp" where
  "op_neg_s = fp_unary_s fneg_s"

definition op_neg_d :: "mips_instruction \<Rightarrow> unit mcomp" where
  "op_neg_d = fp_unary_d fneg_d"

text \<open>0.5 is the double 0x3fe0000000000000.\<close>

definition op_round_w_d :: "host \<Rightarrow> mips_instruction \<Rightarrow> unit mcomp" where
  "op_round_w_d H = fp_word_of_d (\<lambda>v. d_to_w H (fadd_d H v 0x3fe0000000000000))"

definition op_round_w_s :: "host \<Rightarrow> mips_instruction \<Rightarrow> unit mcomp" where
  "op_round_w_s H = fp_word_of_s (\<lambda>v. d_to_w H (fadd_d H (s_to_d H v) 0x3fe0000000000000))"

definition op_sqrt_d :: "host \<Rightarrow> mips_instruction \<Rightarrow> unit mcomp" where
  "op_sqrt_d H = fp_unary_d (fsqrt_d H)"

definition op_sqrt_s :: "host \<Rightarrow> mips_instruction \<Rightarrow> unit mcomp" where
  "op_sqrt_s H = fp_unary_s (\<lambda>v. d_to_s H (fsqrt_d H (s_to_d H v)))"

definition op_sub_s :: "host \<Rightarrow> mips_instruction \<Rightarrow> unit mcomp" where
  "op_sub_s H = fp_binary_s (fsub_s H)"

definition op_sub_d :: "host \<Rightarrow> mips_instruction \<Rightarrow> unit mcomp" where
  "op_sub_d H = fp_binary_d (fsub_d H)"

definition op_trunc_w_d :: "host \<Rightarrow> mips_instruction \<Rightarrow> unit mcomp" where
  "op_trunc_w_d H = fp_word_of_d (d_to_w H)"

definition op_trunc_w_s :: "host \<Rightarrow> mips_instruction \<Rightarrow> unit mcomp" where
  "op_trunc_w_s H = fp_word_of_s (\<lambda>v. d_to_w H (s_to_d H v))"

end
