(* ===== verification/Syscall.thy ===== *)
theory Syscall
  imports Fpu
begin

text \<open>
  The system calls of the simulated machine (\<^verbatim>\<open>syscall.c\<close>) and the console readers they use
  (\<^verbatim>\<open>read_input\<close>, \<^verbatim>\<open>read_int_input\<close> of \<^verbatim>\<open>spim.c\<close>, \<^verbatim>\<open>mem_reference\<close> of \<^verbatim>\<open>memory.c\<close>).
\<close>

subsection \<open>Host pointers\<close>

text \<open>
  \<^verbatim>\<open>mem_reference\<close> turns a simulated address into a pointer into the block of its segment. The
  text segments hold host pointers to instructions, not bytes of the program.
\<close>

datatype host_ptr = Text_Ptr nat | Data_Ptr nat | Stack_Ptr nat | K_Text_Ptr nat | K_Data_Ptr nat

definition mem_reference :: "mem_addr \<Rightarrow> host_ptr mcomp" where
  "mem_reference addr s =
    (if in_text s addr then ret (Text_Ptr (unat (addr - TEXT_BOT))) s
     else if in_data s addr then ret (Data_Ptr (unat (addr - DATA_BOT))) s
     else if in_stack s addr then ret (Stack_Ptr (unat (addr - stack_bot s))) s
     else if in_k_text s addr then ret (K_Text_Ptr (unat (addr - K_TEXT_BOT))) s
     else if in_k_data s addr then ret (K_Data_Ptr (unat (addr - K_DATA_BOT))) s
     else throw (Run_Error ''Memory address out of bounds'') s)"

text \<open>
  The offset of a pointer, its block's bytes and its block's length. What C reads through a
  pointer into a text segment are the bytes of host pointers: unspecified values.
\<close>

definition ptr_offset :: "host_ptr \<Rightarrow> nat" where
  "ptr_offset p = (case p of Text_Ptr n \<Rightarrow> n | Data_Ptr n \<Rightarrow> n | Stack_Ptr n \<Rightarrow> n | K_Text_Ptr n \<Rightarrow> n | K_Data_Ptr n \<Rightarrow> n)"

definition block_bytes :: "host \<Rightarrow> host_ptr \<Rightarrow> machine \<Rightarrow> nat \<Rightarrow> byte" where
  "block_bytes H p s =
    (case p of Data_Ptr _ \<Rightarrow> data_seg_b s | Stack_Ptr _ \<Rightarrow> stack_seg_b s | K_Data_Ptr _ \<Rightarrow> k_data_seg_b s
     | _ \<Rightarrow> heap_garbage H)"

definition block_size :: "host_ptr \<Rightarrow> machine \<Rightarrow> nat" where
  "block_size p s =
    (case p of Text_Ptr _ \<Rightarrow> 2 * unat (text_top s - TEXT_BOT) | Data_Ptr _ \<Rightarrow> unat (data_top s - DATA_BOT)
     | Stack_Ptr _ \<Rightarrow> unat (STACK_TOP - stack_bot s) | K_Text_Ptr _ \<Rightarrow> 2 * unat (k_text_top s - K_TEXT_BOT)
     | K_Data_Ptr _ \<Rightarrow> unat (k_data_top s - K_DATA_BOT))"

text \<open>A C string: the bytes up to the first null byte; one that runs out of its block crashes.\<close>

fun c_string :: "nat \<Rightarrow> (nat \<Rightarrow> byte) \<Rightarrow> nat \<Rightarrow> byte list option" where
  "c_string 0 f n = None"
| "c_string (Suc k) f n = (if f n = 0 then Some [] else map_option ((#) (f n)) (c_string k f (n + 1)))"

definition read_string_at :: "host \<Rightarrow> host_ptr \<Rightarrow> byte list mcomp" where
  "read_string_at H p s =
    (case c_string (block_size p s - ptr_offset p) (block_bytes H p s) (ptr_offset p) of
       None \<Rightarrow> throw Crash s | Some bs \<Rightarrow> ret bs s)"

fun store_bytes :: "nat \<Rightarrow> byte list \<Rightarrow> (nat \<Rightarrow> byte) \<Rightarrow> nat \<Rightarrow> byte" where
  "store_bytes n [] f = f"
| "store_bytes n (b # bs) f = store_bytes (n + 1) bs (f(n := b))"

text \<open>Bytes stored through a host pointer: outside the block, or over instruction pointers, is a crash.\<close>

definition write_bytes_at :: "host_ptr \<Rightarrow> byte list \<Rightarrow> unit mcomp" where
  "write_bytes_at p bs s =
    (if bs = [] then ret () s
     else if block_size p s < ptr_offset p + length bs then throw Crash s
     else case p of
       Data_Ptr n \<Rightarrow> ret () (s\<lparr>data_seg_b := store_bytes n bs (data_seg_b s)\<rparr>)
     | Stack_Ptr n \<Rightarrow> ret () (s\<lparr>stack_seg_b := store_bytes n bs (stack_seg_b s)\<rparr>)
     | K_Data_Ptr n \<Rightarrow> ret () (s\<lparr>k_data_seg_b := store_bytes n bs (k_data_seg_b s)\<rparr>)
     | _ \<Rightarrow> throw Crash s)"

subsection \<open>Console input\<close>

text \<open>
  The loop of \<^verbatim>\<open>read_input\<close>: at most \<open>size - 1\<close> bytes, up to and with the first newline. The
  result is what it stored and the rest of the input.
\<close>

fun read_line :: "nat \<Rightarrow> byte list \<Rightarrow> byte list \<times> byte list" where
  "read_line 0 inp = ([], inp)"
| "read_line (Suc n) [] = ([], [])"
| "read_line (Suc n) (c # inp) =
    (if c = 10 then ([c], inp) else let (l, rest) = read_line n inp in (c # l, rest))"

text \<open>
  \<^verbatim>\<open>read_input (str, str_size)\<close>: the bytes it writes to \<^verbatim>\<open>str\<close>, with the terminating null when the
  size is positive, and the number of bytes it consumed.
\<close>

definition read_input :: "32 word \<Rightarrow> (byte list \<times> nat) mcomp" where
  "read_input str_size s =
    (let (l, rest) = read_line (nat (sint str_size - 1)) (console_in s)
     in ret (if 0 <s str_size then l @ [0] else l, length l) (s\<lparr>console_in := rest\<rparr>))"

text \<open>\<^verbatim>\<open>read\<close> of one byte: the byte and the rest, or end of input.\<close>

definition read_byte :: "byte list \<Rightarrow> byte option \<times> byte list" where
  "read_byte inp = (case inp of [] \<Rightarrow> (None, []) | c # cs \<Rightarrow> (Some c, cs))"

definition is_space :: "byte \<Rightarrow> bool" where
  "is_space c \<longleftrightarrow> c = 32 \<or> c = 9 \<or> c = 10 \<or> c = 13"

definition is_digit :: "byte \<Rightarrow> bool" where
  "is_digit c \<longleftrightarrow> 48 \<le> c \<and> c \<le> 57"

text \<open>The first byte that is not white space, consumed, and the rest.\<close>

fun skip_space :: "byte list \<Rightarrow> byte option \<times> byte list" where
  "skip_space [] = (None, [])"
| "skip_space (c # cs) = (if is_space c then skip_space cs else (Some c, cs))"

text \<open>The digits from a byte already read on; the byte that ends them is consumed. \<^verbatim>\<open>v\<close> is a C \<^verbatim>\<open>long\<close>.\<close>

fun read_digits :: "64 word \<Rightarrow> byte list \<Rightarrow> 64 word \<times> byte list" where
  "read_digits v [] = (v, [])"
| "read_digits v (c # cs) = (if is_digit c then read_digits (v * 10 + (ucast c - 48)) cs else (v, cs))"

definition read_int_input :: "(bool \<times> 64 word) mcomp" where
  "read_int_input s =
    (let (c, inp) = skip_space (console_in s);
         neg = (c = Some 45);
         (c, inp) = (if c = Some 45 \<or> c = Some 43 then read_byte inp else (c, inp))
     in case c of
          None \<Rightarrow> ret (False, 0) (s\<lparr>console_in := inp\<rparr>)
        | Some d \<Rightarrow>
            if is_digit d
            then let (v, rest) = read_digits (ucast d - 48) inp
                 in ret (True, if neg then - v else v) (s\<lparr>console_in := rest\<rparr>)
            else ret (False, 0) (s\<lparr>console_in := inp\<rparr>))"

subsection \<open>The calls\<close>

abbreviation REG_V0 :: nat where "REG_V0 \<equiv> 2"
abbreviation REG_RES :: nat where "REG_RES \<equiv> 2"
abbreviation REG_A0 :: nat where "REG_A0 \<equiv> 4"
abbreviation REG_A1 :: nat where "REG_A1 \<equiv> 5"
abbreviation REG_A2 :: nat where "REG_A2 \<equiv> 6"
abbreviation REG_A3 :: nat where "REG_A3 \<equiv> 7"
abbreviation REG_FA0 :: nat where "REG_FA0 \<equiv> 12"
abbreviation REG_FRES :: nat where "REG_FRES \<equiv> 0"

definition emit :: "con_event \<Rightarrow> machine \<Rightarrow> machine" where
  "emit e s = s\<lparr>console_out := console_out s @ [e]\<rparr>"

definition set_reg :: "nat \<Rightarrow> reg_word \<Rightarrow> machine \<Rightarrow> machine" where
  "set_reg n v s = s\<lparr>gpr := (gpr s)(n := v)\<rparr>"

definition sys_print_string :: "host \<Rightarrow> unit mcomp" where
  "sys_print_string H =
    bnd (gets (\<lambda>s. gpr s REG_A0)) (\<lambda>a. bnd (mem_reference a) (\<lambda>p. bnd (read_string_at H p) (\<lambda>bs.
      modify (emit (Con_String bs)))))"

definition sys_read_int :: "unit mcomp" where
  "sys_read_int = bnd read_int_input (\<lambda>(ok, v). modify (\<lambda>s.
     set_reg REG_A3 (if ok then 0 else 1) (set_reg REG_RES (ucast v) s)))"

definition sys_read_float :: "host \<Rightarrow> unit mcomp" where
  "sys_read_float H = bnd (read_input 256) (\<lambda>(str, n). modify (SET_FPR_S REG_FRES (d_to_s H (parse_double H str))))"

definition sys_read_double :: "host \<Rightarrow> unit mcomp" where
  "sys_read_double H = bnd (read_input 256) (\<lambda>(str, n). modify (set_fp_double_view REG_FRES (parse_double H str)))"

definition sys_read_string :: "unit mcomp" where
  "sys_read_string =
    bnd (gets (\<lambda>s. gpr s REG_A0)) (\<lambda>a. bnd (mem_reference a) (\<lambda>p. bnd (gets (\<lambda>s. gpr s REG_A1)) (\<lambda>size.
      bnd (read_input size) (\<lambda>(str, n). seq (write_bytes_at p str) (modify (\<lambda>s.
        (set_reg REG_A3 (if n = 0 then 1 else 0) s)\<lparr>data_modified := True\<rparr>))))))"

definition sys_sbrk :: "host \<Rightarrow> unit mcomp" where
  "sys_sbrk H =
    bnd (gets data_top) (\<lambda>x. bnd (gets (\<lambda>s. gpr s REG_A0)) (\<lambda>n. seq (expand_data H n)
      (modify (\<lambda>s. (set_reg REG_RES x s)\<lparr>data_modified := True\<rparr>))))"

definition sys_read_char :: "unit mcomp" where
  "sys_read_char = bnd (read_input 2) (\<lambda>(str, n). modify (set_reg REG_RES (if n = 0 then -1 else ucast (hd str))))"

text \<open>The n-th call of the operating system; \<^verbatim>\<open>read\<close> delivers at most the bytes asked for.\<close>

definition sys_open :: "host \<Rightarrow> unit mcomp" where
  "sys_open H =
    bnd (gets (\<lambda>s. gpr s REG_A0)) (\<lambda>a. bnd (mem_reference a) (\<lambda>p. bnd (read_string_at H p) (\<lambda>path.
      modify (\<lambda>s. (set_reg REG_RES (os_open H (os_calls s) path (gpr s REG_A1) (gpr s REG_A2)) s)\<lparr>os_calls := os_calls s + 1\<rparr>))))"

definition sys_read :: "host \<Rightarrow> unit mcomp" where
  "sys_read H =
    bnd (gets (\<lambda>s. (gpr s REG_A0, gpr s REG_A1, gpr s REG_A2))) (\<lambda>(fd, buf, n).
      bnd (mem_reference (buf + n - 1)) (\<lambda>_. bnd (mem_reference buf) (\<lambda>p.
        bnd (gets (\<lambda>s. os_read H (os_calls s) fd (to_size_t n))) (\<lambda>(r, bs).
          seq (write_bytes_at p (take (to_size_t n) bs))
            (modify (\<lambda>s. (set_reg REG_RES r s)\<lparr>os_calls := os_calls s + 1, data_modified := True\<rparr>))))))"

definition sys_write :: "host \<Rightarrow> unit mcomp" where
  "sys_write H =
    bnd (gets (\<lambda>s. (gpr s REG_A0, gpr s REG_A1, gpr s REG_A2))) (\<lambda>(fd, buf, n).
      bnd (mem_reference (buf + n - 1)) (\<lambda>_. bnd (mem_reference buf) (\<lambda>p. (\<lambda>s.
        if block_size p s < ptr_offset p + to_size_t n then throw Crash s
        else let bs = map (\<lambda>k. block_bytes H p s (ptr_offset p + k)) [0 ..< to_size_t n]
             in ret () ((set_reg REG_RES (os_write H (os_calls s) fd bs) s)\<lparr>os_calls := os_calls s + 1\<rparr>)))))"

definition sys_close :: "host \<Rightarrow> machine \<Rightarrow> machine" where
  "sys_close H s = (set_reg REG_RES (os_close H (os_calls s) (gpr s REG_A0)) s)\<lparr>os_calls := os_calls s + 1\<rparr>"

text \<open>\<^verbatim>\<open>do_syscall\<close>: false to end the program, true to go on.\<close>

definition do_syscall :: "host \<Rightarrow> bool mcomp" where
  "do_syscall H s =
    (let v0 = gpr s REG_V0; continue = (\<lambda>m. seq m (ret True) s)
     in if v0 = 1 then continue (modify (emit (Con_Int (sint (gpr s REG_A0)))))
        else if v0 = 2 then continue (modify (emit (Con_Float (FPR_S REG_FA0 s))))
        else if v0 = 3 then continue (modify (emit (Con_Double (fp_double_view s (REG_FA0 div 2)))))
        else if v0 = 4 then continue (sys_print_string H)
        else if v0 = 5 then continue sys_read_int
        else if v0 = 6 then continue (sys_read_float H)
        else if v0 = 7 then continue (sys_read_double H)
        else if v0 = 8 then continue sys_read_string
        else if v0 = 9 then continue (sys_sbrk H)
        else if v0 = 11 then continue (modify (emit (Con_Char (ucast (gpr s REG_A0)))))
        else if v0 = 12 then continue sys_read_char
        else if v0 = 10 then ret False (s\<lparr>spim_return_value := 0\<rparr>)
        else if v0 = 17 then ret False (s\<lparr>spim_return_value := gpr s REG_A0\<rparr>)
        else if v0 = 13 then continue (sys_open H)
        else if v0 = 14 then continue (sys_read H)
        else if v0 = 15 then continue (sys_write H)
        else if v0 = 16 then continue (modify (sys_close H))
        else throw (Run_Error ''Unknown system call: %d'') s)"

end
