(* ===== verification/Cpu.thy ===== *)
theory Cpu
  imports Opcodes Multiply Fpu Syscall
begin

text \<open>
  The integer instructions of \<^verbatim>\<open>run_spim\<close> (\<^verbatim>\<open>run.c\<close>): the macros for branches, jumps, loads and
  delayed loads, and one definition per case of the switch, in its order. A handler that runs
  a delay slot takes the runner \<open>D\<close> as an argument.
\<close>

subsection \<open>Registers and macros\<close>

abbreviation rs_v :: "mips_instruction \<Rightarrow> machine \<Rightarrow> reg_word" where "rs_v i s \<equiv> gpr s (unat (RS i))"
abbreviation rt_v :: "mips_instruction \<Rightarrow> machine \<Rightarrow> reg_word" where "rt_v i s \<equiv> gpr s (unat (RT i))"

definition set_rd :: "mips_instruction \<Rightarrow> reg_word \<Rightarrow> machine \<Rightarrow> machine" where
  "set_rd i v s = set_reg (unat (RD i)) v s"

definition set_rt :: "mips_instruction \<Rightarrow> reg_word \<Rightarrow> machine \<Rightarrow> machine" where
  "set_rt i v s = set_reg (unat (RT i)) v s"

definition SIGN_BIT :: "32 word \<Rightarrow> 32 word" where
  "SIGN_BIT x = x AND 0x80000000"

text \<open>\<^verbatim>\<open>(reg_word)(short)IMM\<close>, the sign-extended immediate, and \<^verbatim>\<open>0xffff & IMM\<close>, the zero-extended one.\<close>

definition simm :: "mips_instruction \<Rightarrow> 32 word" where
  "simm i = scast (IMM i)"

definition zimm :: "mips_instruction \<Rightarrow> 32 word" where
  "zimm i = ucast (IMM i)"

text \<open>\<^verbatim>\<open>ckd_add\<close> and \<^verbatim>\<open>ckd_sub\<close> of C23 on \<^verbatim>\<open>int32_t\<close>: no result on overflow.\<close>

definition ckd_add :: "reg_word \<Rightarrow> reg_word \<Rightarrow> reg_word option" where
  "ckd_add a b = (if sint (a + b) = sint a + sint b then Some (a + b) else None)"

definition ckd_sub :: "reg_word \<Rightarrow> reg_word \<Rightarrow> reg_word option" where
  "ckd_sub a b = (if sint (a - b) = sint a - sint b then Some (a - b) else None)"

text \<open>
  \<^verbatim>\<open>JUMP_INST\<close>: the target is a macro argument, evaluated after the delay slot has run.
\<close>

definition JUMP_INST :: "(mem_addr \<Rightarrow> unit mcomp) \<Rightarrow> (machine \<Rightarrow> mem_addr) \<Rightarrow> unit mcomp" where
  "JUMP_INST D target s =
    seq (whn (delayed_branches s)
          (seq (modify (\<lambda>s. s\<lparr>running_in_delay_slot := True\<rparr>))
            (seq (D (PC s + BYTES_PER_WORD)) (modify (\<lambda>s. s\<lparr>running_in_delay_slot := False\<rparr>)))))
      (modify (\<lambda>s. s\<lparr>PC := target s - BYTES_PER_WORD\<rparr>)) s"

definition BRANCH_INST :: "(mem_addr \<Rightarrow> unit mcomp) \<Rightarrow> bool \<Rightarrow> mem_addr \<Rightarrow> bool \<Rightarrow> unit mcomp" where
  "BRANCH_INST D test target nullify s =
    (if test
     then let target = (if delayed_branches s then target + BYTES_PER_WORD else target)
          in JUMP_INST D (\<lambda>_. target) s
     else if nullify then ret () (s\<lparr>PC := PC s + BYTES_PER_WORD\<rparr>)
     else ret () s)"

definition branch_target :: "mips_instruction \<Rightarrow> machine \<Rightarrow> mem_addr" where
  "branch_target i s = PC s + BRANCH_OFFSET i"

definition store_loc :: "reg_loc \<Rightarrow> reg_word \<Rightarrow> machine \<Rightarrow> machine" where
  "store_loc l v s =
    (case l of Gpr_Loc n \<Rightarrow> s\<lparr>gpr := (gpr s)(n := v)\<rparr> | Fpr_Loc n \<Rightarrow> s\<lparr>fp_int_view := (fp_int_view s)(n := v)\<rparr>)"

text \<open>\<^verbatim>\<open>LOAD_INST_BASE\<close>: with delayed loads the destination is queued before the value is computed.\<close>

definition LOAD_INST_BASE :: "reg_loc \<Rightarrow> reg_word mcomp \<Rightarrow> unit mcomp" where
  "LOAD_INST_BASE dest value s =
    (if delayed_loads s
     then seq (modify (\<lambda>s. s\<lparr>delayed_load_addr1 := Some dest\<rparr>))
            (bnd value (\<lambda>v. modify (\<lambda>s. s\<lparr>delayed_load_value1 := v\<rparr>))) s
     else bnd value (\<lambda>v. modify (store_loc dest v)) s)"

definition LOAD_INST :: "reg_loc \<Rightarrow> reg_word mcomp \<Rightarrow> 32 word \<Rightarrow> unit mcomp" where
  "LOAD_INST dest ld msk = LOAD_INST_BASE dest (bnd ld (\<lambda>v. ret (v AND msk)))"

definition DO_DELAYED_UPDATE :: "machine \<Rightarrow> machine" where
  "DO_DELAYED_UPDATE s =
    (if delayed_loads s
     then let s = (case delayed_load_addr2 s of None \<Rightarrow> s | Some l \<Rightarrow> store_loc l (delayed_load_value2 s) s)
          in s\<lparr>delayed_load_addr2 := delayed_load_addr1 s, delayed_load_value2 := delayed_load_value1 s,
               delayed_load_addr1 := None\<rparr>
     else s)"

definition eff_addr :: "mips_instruction \<Rightarrow> machine \<Rightarrow> mem_addr" where
  "eff_addr i s = gpr s (unat (BASE i)) + IOFFSET i"

subsection \<open>Arithmetic and logic, first part\<close>

definition op_add :: "mips_instruction \<Rightarrow> machine \<Rightarrow> machine" where
  "op_add i s = (case ckd_add (rs_v i s) (rt_v i s) of
     None \<Rightarrow> raise_exception ExcCode_Ov s | Some v \<Rightarrow> set_rd i v s)"

definition op_addi :: "mips_instruction \<Rightarrow> machine \<Rightarrow> machine" where
  "op_addi i s = (case ckd_add (rs_v i s) (simm i) of
     None \<Rightarrow> raise_exception ExcCode_Ov s | Some v \<Rightarrow> set_rt i v s)"

definition op_addiu :: "mips_instruction \<Rightarrow> machine \<Rightarrow> machine" where
  "op_addiu i s = set_rt i (rs_v i s + simm i) s"

definition op_addu :: "mips_instruction \<Rightarrow> machine \<Rightarrow> machine" where
  "op_addu i s = set_rd i (rs_v i s + rt_v i s) s"

definition op_and :: "mips_instruction \<Rightarrow> machine \<Rightarrow> machine" where
  "op_and i s = set_rd i (rs_v i s AND rt_v i s) s"

definition op_andi :: "mips_instruction \<Rightarrow> machine \<Rightarrow> machine" where
  "op_andi i s = set_rt i (rs_v i s AND zimm i) s"

text \<open>\<^verbatim>\<open>RAISE_EXCEPTION(ExcCode_CpU, {})\<close>: there is no coprocessor 2.\<close>

definition op_cop2 :: "mips_instruction \<Rightarrow> machine \<Rightarrow> machine" where
  "op_cop2 i s = raise_exception ExcCode_CpU s"

subsection \<open>Branches\<close>

definition branch_if :: "(mem_addr \<Rightarrow> unit mcomp) \<Rightarrow> (mips_instruction \<Rightarrow> machine \<Rightarrow> bool) \<Rightarrow> bool \<Rightarrow>
    mips_instruction \<Rightarrow> unit mcomp" where
  "branch_if D test nullify i s = BRANCH_INST D (test i s) (branch_target i s) nullify s"

definition link_31 :: "machine \<Rightarrow> machine" where
  "link_31 s = set_reg 31 (PC s + (if delayed_branches s then 2 * BYTES_PER_WORD else BYTES_PER_WORD)) s"

definition op_beq :: "(mem_addr \<Rightarrow> unit mcomp) \<Rightarrow> mips_instruction \<Rightarrow> unit mcomp" where
  "op_beq D = branch_if D (\<lambda>i s. rs_v i s = rt_v i s) False"

definition op_beql :: "(mem_addr \<Rightarrow> unit mcomp) \<Rightarrow> mips_instruction \<Rightarrow> unit mcomp" where
  "op_beql D = branch_if D (\<lambda>i s. rs_v i s = rt_v i s) True"

definition op_bgez :: "(mem_addr \<Rightarrow> unit mcomp) \<Rightarrow> mips_instruction \<Rightarrow> unit mcomp" where
  "op_bgez D = branch_if D (\<lambda>i s. SIGN_BIT (rs_v i s) = 0) False"

definition op_bgezl :: "(mem_addr \<Rightarrow> unit mcomp) \<Rightarrow> mips_instruction \<Rightarrow> unit mcomp" where
  "op_bgezl D = branch_if D (\<lambda>i s. SIGN_BIT (rs_v i s) = 0) True"

definition op_bgezal :: "(mem_addr \<Rightarrow> unit mcomp) \<Rightarrow> mips_instruction \<Rightarrow> unit mcomp" where
  "op_bgezal D i = seq (modify link_31) (branch_if D (\<lambda>i s. SIGN_BIT (rs_v i s) = 0) False i)"

definition op_bgezall :: "(mem_addr \<Rightarrow> unit mcomp) \<Rightarrow> mips_instruction \<Rightarrow> unit mcomp" where
  "op_bgezall D i = seq (modify link_31) (branch_if D (\<lambda>i s. SIGN_BIT (rs_v i s) = 0) True i)"

definition op_bgtz :: "(mem_addr \<Rightarrow> unit mcomp) \<Rightarrow> mips_instruction \<Rightarrow> unit mcomp" where
  "op_bgtz D = branch_if D (\<lambda>i s. rs_v i s \<noteq> 0 \<and> SIGN_BIT (rs_v i s) = 0) False"

definition op_bgtzl :: "(mem_addr \<Rightarrow> unit mcomp) \<Rightarrow> mips_instruction \<Rightarrow> unit mcomp" where
  "op_bgtzl D = branch_if D (\<lambda>i s. rs_v i s \<noteq> 0 \<and> SIGN_BIT (rs_v i s) = 0) True"

definition op_blez :: "(mem_addr \<Rightarrow> unit mcomp) \<Rightarrow> mips_instruction \<Rightarrow> unit mcomp" where
  "op_blez D = branch_if D (\<lambda>i s. rs_v i s = 0 \<or> SIGN_BIT (rs_v i s) \<noteq> 0) False"

definition op_blezl :: "(mem_addr \<Rightarrow> unit mcomp) \<Rightarrow> mips_instruction \<Rightarrow> unit mcomp" where
  "op_blezl D = branch_if D (\<lambda>i s. rs_v i s = 0 \<or> SIGN_BIT (rs_v i s) \<noteq> 0) True"

definition op_bltz :: "(mem_addr \<Rightarrow> unit mcomp) \<Rightarrow> mips_instruction \<Rightarrow> unit mcomp" where
  "op_bltz D = branch_if D (\<lambda>i s. SIGN_BIT (rs_v i s) \<noteq> 0) False"

definition op_bltzl :: "(mem_addr \<Rightarrow> unit mcomp) \<Rightarrow> mips_instruction \<Rightarrow> unit mcomp" where
  "op_bltzl D = branch_if D (\<lambda>i s. SIGN_BIT (rs_v i s) \<noteq> 0) True"

definition op_bltzal :: "(mem_addr \<Rightarrow> unit mcomp) \<Rightarrow> mips_instruction \<Rightarrow> unit mcomp" where
  "op_bltzal D i = seq (modify link_31) (branch_if D (\<lambda>i s. SIGN_BIT (rs_v i s) \<noteq> 0) False i)"

definition op_bltzall :: "(mem_addr \<Rightarrow> unit mcomp) \<Rightarrow> mips_instruction \<Rightarrow> unit mcomp" where
  "op_bltzall D i = seq (modify link_31) (branch_if D (\<lambda>i s. SIGN_BIT (rs_v i s) \<noteq> 0) True i)"

definition op_bne :: "(mem_addr \<Rightarrow> unit mcomp) \<Rightarrow> mips_instruction \<Rightarrow> unit mcomp" where
  "op_bne D = branch_if D (\<lambda>i s. rs_v i s \<noteq> rt_v i s) False"

definition op_bnel :: "(mem_addr \<Rightarrow> unit mcomp) \<Rightarrow> mips_instruction \<Rightarrow> unit mcomp" where
  "op_bnel D = branch_if D (\<lambda>i s. rs_v i s \<noteq> rt_v i s) True"

text \<open>\<^verbatim>\<open>bc1f\<close>, \<^verbatim>\<open>bc1t\<close> and their likely forms read the sense and the nullify bit from the instruction.\<close>

definition op_bc1 :: "(mem_addr \<Rightarrow> unit mcomp) \<Rightarrow> mips_instruction \<Rightarrow> unit mcomp" where
  "op_bc1 D i s = BRANCH_INST D (FCC (CC i) s = TF i) (branch_target i s) (ND i) s"

subsection \<open>Breakpoints, coprocessor 0 control, counting, division\<close>

text \<open>A debugger breakpoint leaves \<^verbatim>\<open>run_spim\<close> at once; any other break is an ordinary exception.\<close>

definition op_break :: "mips_instruction \<Rightarrow> bool option mcomp" where
  "op_break i = seq (modify (raise_exception ExcCode_Bp)) (ret (if RD i = 1 then Some True else None))"

definition op_nop :: "mips_instruction \<Rightarrow> machine \<Rightarrow> machine" where
  "op_nop i s = s"

definition op_cfc0 :: "mips_instruction \<Rightarrow> machine \<Rightarrow> machine" where
  "op_cfc0 i s = set_rt i (coprocessor_control_0 s (unat (RD i))) s"

definition leading_zeros :: "32 word \<Rightarrow> nat" where
  "leading_zeros w = length (takeWhile (\<lambda>n. \<not> bit w n) (rev [0 ..< 32]))"

definition op_clo :: "mips_instruction \<Rightarrow> machine \<Rightarrow> machine" where
  "op_clo i s = set_rd i (of_nat (leading_zeros (NOT (rs_v i s)))) s"

definition op_clz :: "mips_instruction \<Rightarrow> machine \<Rightarrow> machine" where
  "op_clz i s = set_rd i (of_nat (leading_zeros (rs_v i s))) s"

definition op_ctc0 :: "mips_instruction \<Rightarrow> machine \<Rightarrow> machine" where
  "op_ctc0 i s = s\<lparr>coprocessor_control_0 := (coprocessor_control_0 s)(unat (RD i) := rt_v i s)\<rparr>"

text \<open>C division on \<^verbatim>\<open>int32_t\<close> truncates towards zero.\<close>

definition sdiv_trunc :: "32 word \<Rightarrow> 32 word \<Rightarrow> 32 word" where
  "sdiv_trunc a b = word_of_int (sgn (sint a) * sgn (sint b) * (\<bar>sint a\<bar> div \<bar>sint b\<bar>))"

definition smod_trunc :: "32 word \<Rightarrow> 32 word \<Rightarrow> 32 word" where
  "smod_trunc a b = word_of_int (sgn (sint a) * (\<bar>sint a\<bar> mod \<bar>sint b\<bar>))"

definition div_guard :: "mips_instruction \<Rightarrow> machine \<Rightarrow> bool" where
  "div_guard i s \<longleftrightarrow> rt_v i s \<noteq> 0 \<and> \<not> (rs_v i s = 0x80000000 \<and> rt_v i s = 0xffffffff)"

definition op_div :: "mips_instruction \<Rightarrow> machine \<Rightarrow> machine" where
  "op_div i s =
    (if div_guard i s
     then s\<lparr>LO := sdiv_trunc (rs_v i s) (rt_v i s), HI := smod_trunc (rs_v i s) (rt_v i s)\<rparr> else s)"

definition op_divu :: "mips_instruction \<Rightarrow> machine \<Rightarrow> machine" where
  "op_divu i s =
    (if div_guard i s then s\<lparr>LO := rs_v i s div rt_v i s, HI := rs_v i s mod rt_v i s\<rparr> else s)"

subsection \<open>Jumps\<close>

definition op_eret :: "(mem_addr \<Rightarrow> unit mcomp) \<Rightarrow> mips_instruction \<Rightarrow> unit mcomp" where
  "op_eret D i = seq (modify (\<lambda>s. set_cp0 CP0_Status_Reg (CP0_Status s AND NOT CP0_Status_EXL) s)) (JUMP_INST D CP0_EPC)"

definition jump_target :: "mips_instruction \<Rightarrow> machine \<Rightarrow> mem_addr" where
  "jump_target i s = (PC s AND 0xf0000000) OR push_bit 2 (TARGET i)"

definition op_j :: "(mem_addr \<Rightarrow> unit mcomp) \<Rightarrow> mips_instruction \<Rightarrow> unit mcomp" where
  "op_j D i = JUMP_INST D (jump_target i)"

definition op_jal :: "(mem_addr \<Rightarrow> unit mcomp) \<Rightarrow> mips_instruction \<Rightarrow> unit mcomp" where
  "op_jal D i = seq (modify link_31) (JUMP_INST D (jump_target i))"

definition op_jalr :: "(mem_addr \<Rightarrow> unit mcomp) \<Rightarrow> mips_instruction \<Rightarrow> unit mcomp" where
  "op_jalr D i =
    bnd (gets (rs_v i)) (\<lambda>tmp.
      seq (modify (\<lambda>s. set_rd i (PC s + (if delayed_branches s then 2 * BYTES_PER_WORD else BYTES_PER_WORD)) s))
        (JUMP_INST D (\<lambda>_. tmp)))"

definition op_jr :: "(mem_addr \<Rightarrow> unit mcomp) \<Rightarrow> mips_instruction \<Rightarrow> unit mcomp" where
  "op_jr D i = bnd (gets (rs_v i)) (\<lambda>tmp. JUMP_INST D (\<lambda>_. tmp))"

subsection \<open>Loads\<close>

definition load_gpr :: "(mem_addr \<Rightarrow> reg_word mcomp) \<Rightarrow> 32 word \<Rightarrow> mips_instruction \<Rightarrow> unit mcomp" where
  "load_gpr rd msk i s = LOAD_INST (Gpr_Loc (unat (RT i))) (rd (eff_addr i s)) msk s"

definition op_lb :: "host \<Rightarrow> mips_instruction \<Rightarrow> unit mcomp" where
  "op_lb H = load_gpr (mem_read_byte H) 0xffffffff"

definition op_lbu :: "host \<Rightarrow> mips_instruction \<Rightarrow> unit mcomp" where
  "op_lbu H = load_gpr (mem_read_byte H) 0xff"

definition op_lh :: "host \<Rightarrow> mips_instruction \<Rightarrow> unit mcomp" where
  "op_lh H = load_gpr (mem_read_half H) 0xffffffff"

definition op_lhu :: "host \<Rightarrow> mips_instruction \<Rightarrow> unit mcomp" where
  "op_lhu H = load_gpr (mem_read_half H) 0xffff"

definition op_ll :: "host \<Rightarrow> mips_instruction \<Rightarrow> unit mcomp" where
  "op_ll H = load_gpr (mem_read_word H) 0xffffffff"

definition op_lui :: "mips_instruction \<Rightarrow> machine \<Rightarrow> machine" where
  "op_lui i s = set_rt i (push_bit 16 (simm i) AND 0xffff0000) s"

definition op_lw :: "host \<Rightarrow> mips_instruction \<Rightarrow> unit mcomp" where
  "op_lw H = load_gpr (mem_read_word H) 0xffffffff"

text \<open>The words \<^verbatim>\<open>LWL\<close> and \<^verbatim>\<open>LWR\<close> merge from memory and register, on a little-endian machine.\<close>

definition lwl_word :: "32 word \<Rightarrow> 32 word \<Rightarrow> 32 word \<Rightarrow> 32 word" where
  "lwl_word byte word reg_val =
    (if byte = 0 then push_bit 24 (word AND 0xff) OR (reg_val AND 0xffffff)
     else if byte = 1 then push_bit 16 (word AND 0xffff) OR (reg_val AND 0xffff)
     else if byte = 2 then push_bit 8 (word AND 0xffffff) OR (reg_val AND 0xff)
     else word)"

definition op_lwl :: "host \<Rightarrow> mips_instruction \<Rightarrow> unit mcomp" where
  "op_lwl H i s =
    (let addr = eff_addr i s; reg_val = rt_v i s
     in bnd (mem_read_word H (addr AND 0xfffffffc)) (\<lambda>word.
          bnd (gets exception_occurred) (\<lambda>exc.
            LOAD_INST_BASE (Gpr_Loc (unat (RT i)))
              (ret (if \<not> exc then lwl_word (addr AND 3) word reg_val else word)))) s)"

definition lwr_word :: "32 word \<Rightarrow> 32 word \<Rightarrow> 32 word \<Rightarrow> 32 word" where
  "lwr_word byte word reg_val =
    (if byte = 0 then word
     else if byte = 1 then (reg_val AND 0xff000000) OR drop_bit 8 (word AND 0xffffff00)
     else if byte = 2 then (reg_val AND 0xffff0000) OR drop_bit 16 (word AND 0xffff0000)
     else (reg_val AND 0xffffff00) OR drop_bit 24 (word AND 0xff000000))"

definition op_lwr :: "host \<Rightarrow> mips_instruction \<Rightarrow> unit mcomp" where
  "op_lwr H i s =
    (let addr = eff_addr i s; reg_val = rt_v i s
     in bnd (mem_read_word H (addr AND 0xfffffffc)) (\<lambda>word.
          bnd (gets exception_occurred) (\<lambda>exc.
            LOAD_INST_BASE (Gpr_Loc (unat (RT i)))
              (ret (if \<not> exc then lwr_word (addr AND 3) word reg_val else word)))) s)"

subsection \<open>Multiplication, moves, coprocessor 0\<close>

definition op_madd :: "mips_instruction \<Rightarrow> machine \<Rightarrow> machine" where
  "op_madd i s = multiply_add (if OPCODE i = TOK_MADD_OPCODE then signed_multiply (rs_v i s) (rt_v i s)
     else unsigned_multiply (rs_v i s) (rt_v i s)) s"

definition op_mfc0 :: "mips_instruction \<Rightarrow> machine \<Rightarrow> machine" where
  "op_mfc0 i s = set_rt i (coprocessor_0 s (unat (FS i))) s"

definition op_mfhi :: "mips_instruction \<Rightarrow> machine \<Rightarrow> machine" where
  "op_mfhi i s = set_rd i (HI s) s"

definition op_mflo :: "mips_instruction \<Rightarrow> machine \<Rightarrow> machine" where
  "op_mflo i s = set_rd i (LO s) s"

definition op_movn :: "mips_instruction \<Rightarrow> machine \<Rightarrow> machine" where
  "op_movn i s = (if rt_v i s \<noteq> 0 then set_rd i (rs_v i s) s else s)"

definition op_movz :: "mips_instruction \<Rightarrow> machine \<Rightarrow> machine" where
  "op_movz i s = (if rt_v i s = 0 then set_rd i (rs_v i s) s else s)"

definition op_msub :: "mips_instruction \<Rightarrow> machine \<Rightarrow> machine" where
  "op_msub i s = multiply_sub (if OPCODE i = TOK_MSUB_OPCODE then signed_multiply (rs_v i s) (rt_v i s)
     else unsigned_multiply (rs_v i s) (rt_v i s)) s"

definition op_mtc0 :: "mips_instruction \<Rightarrow> machine \<Rightarrow> machine" where
  "op_mtc0 i s =
    (let n = unat (FS i);
         s = set_cp0 n (rt_v i s) s
     in if n = CP0_Compare_Reg then set_cp0 CP0_Cause_Reg (CP0_Cause s AND NOT CP0_Cause_IP7) s
        else if n = CP0_Status_Reg
        then let s = set_cp0 CP0_Status_Reg (CP0_Status s AND CP0_Status_Mask) s
             in set_cp0 CP0_Status_Reg (CP0_Status s OR ((CP0_Status_CU AND 0x30000000) OR CP0_Status_UM)) s
        else if n = CP0_Cause_Reg then set_cp0 n (coprocessor_0 s n AND CP0_Cause_Mask) s
        else if n = CP0_Config_Reg then set_cp0 n (coprocessor_0 s n AND CP0_Config_Mask) s
        else s)"

definition op_mthi :: "mips_instruction \<Rightarrow> machine \<Rightarrow> machine" where
  "op_mthi i s = s\<lparr>HI := rs_v i s\<rparr>"

definition op_mtlo :: "mips_instruction \<Rightarrow> machine \<Rightarrow> machine" where
  "op_mtlo i s = s\<lparr>LO := rs_v i s\<rparr>"

definition op_mul :: "mips_instruction \<Rightarrow> machine \<Rightarrow> machine" where
  "op_mul i s = (let s = signed_multiply (rs_v i s) (rt_v i s) s in set_rd i (LO s) s)"

definition op_mult :: "mips_instruction \<Rightarrow> machine \<Rightarrow> machine" where
  "op_mult i s = signed_multiply (rs_v i s) (rt_v i s) s"

definition op_multu :: "mips_instruction \<Rightarrow> machine \<Rightarrow> machine" where
  "op_multu i s = unsigned_multiply (rs_v i s) (rt_v i s) s"

subsection \<open>Arithmetic and logic, second part\<close>

definition op_nor :: "mips_instruction \<Rightarrow> machine \<Rightarrow> machine" where
  "op_nor i s = set_rd i (NOT (rs_v i s OR rt_v i s)) s"

definition op_or :: "mips_instruction \<Rightarrow> machine \<Rightarrow> machine" where
  "op_or i s = set_rd i (rs_v i s OR rt_v i s) s"

definition op_ori :: "mips_instruction \<Rightarrow> machine \<Rightarrow> machine" where
  "op_ori i s = set_rt i (rs_v i s OR zimm i) s"

text \<open>\<^verbatim>\<open>RFE\<close> and the TLB instructions are reserved.\<close>

definition op_reserved :: "mips_instruction \<Rightarrow> machine \<Rightarrow> machine" where
  "op_reserved i s = raise_exception ExcCode_RI s"

definition op_sb :: "host \<Rightarrow> mips_instruction \<Rightarrow> unit mcomp" where
  "op_sb H i s = mem_write_byte H (eff_addr i s) (rt_v i s) s"

definition op_sc :: "host \<Rightarrow> mips_instruction \<Rightarrow> unit mcomp" where
  "op_sc H i s = mem_write_word H (eff_addr i s) (rt_v i s) s"

definition op_sh :: "host \<Rightarrow> mips_instruction \<Rightarrow> unit mcomp" where
  "op_sh H i s = mem_write_half H (eff_addr i s) (rt_v i s) s"

text \<open>A shift amount in range, else the value unchanged.\<close>

definition shift_by :: "(nat \<Rightarrow> 32 word \<Rightarrow> 32 word) \<Rightarrow> 32 word \<Rightarrow> 32 word \<Rightarrow> 32 word" where
  "shift_by f shamt v = (if shamt < 32 then f (unat shamt) v else v)"

definition op_sll :: "mips_instruction \<Rightarrow> machine \<Rightarrow> machine" where
  "op_sll i s = set_rd i (shift_by push_bit (ucast (SHAMT i)) (rt_v i s)) s"

definition op_sllv :: "mips_instruction \<Rightarrow> machine \<Rightarrow> machine" where
  "op_sllv i s = set_rd i (shift_by push_bit (rs_v i s AND 0x1f) (rt_v i s)) s"

definition op_slt :: "mips_instruction \<Rightarrow> machine \<Rightarrow> machine" where
  "op_slt i s = (if rs_v i s <s rt_v i s then set_rd i 1 s else set_rd i 0 s)"

definition op_slti :: "mips_instruction \<Rightarrow> machine \<Rightarrow> machine" where
  "op_slti i s = (if rs_v i s <s simm i then set_rt i 1 s else set_rt i 0 s)"

definition op_sltiu :: "mips_instruction \<Rightarrow> machine \<Rightarrow> machine" where
  "op_sltiu i s = (if rs_v i s < simm i then set_rt i 1 s else set_rt i 0 s)"

definition op_sltu :: "mips_instruction \<Rightarrow> machine \<Rightarrow> machine" where
  "op_sltu i s = (if rs_v i s < rt_v i s then set_rd i 1 s else set_rd i 0 s)"

definition op_sra :: "mips_instruction \<Rightarrow> machine \<Rightarrow> machine" where
  "op_sra i s = set_rd i (shift_by signed_drop_bit (ucast (SHAMT i)) (rt_v i s)) s"

definition op_srav :: "mips_instruction \<Rightarrow> machine \<Rightarrow> machine" where
  "op_srav i s = set_rd i (shift_by signed_drop_bit (rs_v i s AND 0x1f) (rt_v i s)) s"

definition op_srl :: "mips_instruction \<Rightarrow> machine \<Rightarrow> machine" where
  "op_srl i s = set_rd i (shift_by drop_bit (ucast (SHAMT i)) (rt_v i s)) s"

definition op_srlv :: "mips_instruction \<Rightarrow> machine \<Rightarrow> machine" where
  "op_srlv i s = set_rd i (shift_by drop_bit (rs_v i s AND 0x1f) (rt_v i s)) s"

definition op_sub :: "mips_instruction \<Rightarrow> machine \<Rightarrow> machine" where
  "op_sub i s = (case ckd_sub (rs_v i s) (rt_v i s) of
     None \<Rightarrow> raise_exception ExcCode_Ov s | Some v \<Rightarrow> set_rd i v s)"

definition op_subu :: "mips_instruction \<Rightarrow> machine \<Rightarrow> machine" where
  "op_subu i s = set_rd i (rs_v i s - rt_v i s) s"

definition op_sw :: "host \<Rightarrow> mips_instruction \<Rightarrow> unit mcomp" where
  "op_sw H i s = mem_write_word H (eff_addr i s) (rt_v i s) s"

text \<open>The words \<^verbatim>\<open>SWL\<close> and \<^verbatim>\<open>SWR\<close> write back, on a little-endian machine; the shifts of \<^verbatim>\<open>SWL\<close> are signed.\<close>

definition swl_word :: "32 word \<Rightarrow> 32 word \<Rightarrow> 32 word \<Rightarrow> 32 word" where
  "swl_word byte data reg =
    (if byte = 0 then (data AND 0xffffff00) OR (signed_drop_bit 24 reg AND 0xff)
     else if byte = 1 then (data AND 0xffff0000) OR (signed_drop_bit 16 reg AND 0xffff)
     else if byte = 2 then (data AND 0xff000000) OR (signed_drop_bit 8 reg AND 0xffffff)
     else reg)"

definition op_swl :: "host \<Rightarrow> mips_instruction \<Rightarrow> unit mcomp" where
  "op_swl H i s =
    (let addr = eff_addr i s; reg = rt_v i s
     in bnd (mem_read_word H (addr AND 0xfffffffc))
          (\<lambda>data. mem_write_word H (addr AND 0xfffffffc) (swl_word (addr AND 3) data reg)) s)"

definition swr_word :: "32 word \<Rightarrow> 32 word \<Rightarrow> 32 word \<Rightarrow> 32 word" where
  "swr_word byte data reg =
    (if byte = 0 then reg
     else if byte = 1 then (push_bit 8 reg AND 0xffffff00) OR (data AND 0xff)
     else if byte = 2 then (push_bit 16 reg AND 0xffff0000) OR (data AND 0xffff)
     else (push_bit 24 reg AND 0xff000000) OR (data AND 0xffffff))"

definition op_swr :: "host \<Rightarrow> mips_instruction \<Rightarrow> unit mcomp" where
  "op_swr H i s =
    (let addr = eff_addr i s; reg = rt_v i s
     in bnd (mem_read_word H (addr AND 0xfffffffc))
          (\<lambda>data. mem_write_word H (addr AND 0xfffffffc) (swr_word (addr AND 3) data reg)) s)"

definition op_syscall :: "host \<Rightarrow> mips_instruction \<Rightarrow> bool option mcomp" where
  "op_syscall H i = bnd (do_syscall H) (\<lambda>ok. ret (if \<not> ok then Some False else None))"

subsection \<open>Traps and exclusive or\<close>

definition trap_if :: "bool \<Rightarrow> machine \<Rightarrow> machine" where
  "trap_if b s = (if b then raise_exception ExcCode_Tr s else s)"

definition op_teq :: "mips_instruction \<Rightarrow> machine \<Rightarrow> machine" where
  "op_teq i s = trap_if (rs_v i s = rt_v i s) s"

definition op_teqi :: "mips_instruction \<Rightarrow> machine \<Rightarrow> machine" where
  "op_teqi i s = trap_if (rs_v i s = simm i) s"

definition op_tge :: "mips_instruction \<Rightarrow> machine \<Rightarrow> machine" where
  "op_tge i s = trap_if (rt_v i s \<le>s rs_v i s) s"

definition op_tgei :: "mips_instruction \<Rightarrow> machine \<Rightarrow> machine" where
  "op_tgei i s = trap_if (simm i \<le>s rs_v i s) s"

definition op_tgeiu :: "mips_instruction \<Rightarrow> machine \<Rightarrow> machine" where
  "op_tgeiu i s = trap_if (simm i \<le> rs_v i s) s"

definition op_tgeu :: "mips_instruction \<Rightarrow> machine \<Rightarrow> machine" where
  "op_tgeu i s = trap_if (rt_v i s \<le> rs_v i s) s"

definition op_tlt :: "mips_instruction \<Rightarrow> machine \<Rightarrow> machine" where
  "op_tlt i s = trap_if (rs_v i s <s rt_v i s) s"

definition op_tlti :: "mips_instruction \<Rightarrow> machine \<Rightarrow> machine" where
  "op_tlti i s = trap_if (rs_v i s <s simm i) s"

definition op_tltiu :: "mips_instruction \<Rightarrow> machine \<Rightarrow> machine" where
  "op_tltiu i s = trap_if (rs_v i s < simm i) s"

definition op_tltu :: "mips_instruction \<Rightarrow> machine \<Rightarrow> machine" where
  "op_tltu i s = trap_if (rs_v i s < rt_v i s) s"

definition op_tne :: "mips_instruction \<Rightarrow> machine \<Rightarrow> machine" where
  "op_tne i s = trap_if (rs_v i s \<noteq> rt_v i s) s"

definition op_tnei :: "mips_instruction \<Rightarrow> machine \<Rightarrow> machine" where
  "op_tnei i s = trap_if (rs_v i s \<noteq> simm i) s"

definition op_xor :: "mips_instruction \<Rightarrow> machine \<Rightarrow> machine" where
  "op_xor i s = set_rd i (rs_v i s XOR rt_v i s) s"

definition op_xori :: "mips_instruction \<Rightarrow> machine \<Rightarrow> machine" where
  "op_xori i s = set_rt i (rs_v i s XOR zimm i) s"

subsection \<open>Floating-point loads and stores\<close>

text \<open>\<^verbatim>\<open>LDC1\<close> and \<^verbatim>\<open>SDC1\<close> go on after raising the alignment exception.\<close>

definition op_ldc1 :: "host \<Rightarrow> mips_instruction \<Rightarrow> unit mcomp" where
  "op_ldc1 H i s =
    (let addr = eff_addr i s
     in seq (whn (addr AND 3 \<noteq> 0) (modify (raise_bad_vaddr ExcCode_AdEL addr)))
          (seq (LOAD_INST (Fpr_Loc (ft_n i)) (mem_read_word H addr) 0xffffffff)
            (LOAD_INST (Fpr_Loc (ft_n i + 1)) (mem_read_word H (addr + 4)) 0xffffffff)) s)"

definition op_lwc1 :: "host \<Rightarrow> mips_instruction \<Rightarrow> unit mcomp" where
  "op_lwc1 H i s = LOAD_INST (Fpr_Loc (ft_n i)) (mem_read_word H (eff_addr i s)) 0xffffffff s"

definition op_sdc1 :: "host \<Rightarrow> mips_instruction \<Rightarrow> unit mcomp" where
  "op_sdc1 H i =
    bnd (FPR_D (unat (RT i))) (\<lambda>val s.
      let addr = eff_addr i s
      in seq (whn (addr AND 3 \<noteq> 0) (modify (raise_bad_vaddr ExcCode_AdEL addr)))
           (seq (mem_write_word H addr (ucast val)) (mem_write_word H (addr + 4) (ucast (drop_bit 32 val)))) s)"

definition op_swc1 :: "host \<Rightarrow> mips_instruction \<Rightarrow> unit mcomp" where
  "op_swc1 H i s = mem_write_word H (eff_addr i s) (FPR_S (unat (RT i)) s) s"

end
