(* ===== verification/Text.thy ===== *)
theory Text
  imports Prelude
begin

text \<open>
  The text the program writes: the conversions of \<^verbatim>\<open>printf\<close> it uses, and the string stream of
  \<^verbatim>\<open>string-stream.c\<close>, which is the string written so far.
\<close>

subsection \<open>Numbers\<close>

fun decimal :: "nat \<Rightarrow> string" where
  "decimal n = (if n < 10 then [char_of (48 + n)] else decimal (n div 10) @ [char_of (48 + n mod 10)])"

declare decimal.simps [simp del]

text \<open>\<^verbatim>\<open>%d\<close>, \<^verbatim>\<open>%x\<close>, and the widths: \<^verbatim>\<open>%08x\<close>, \<^verbatim>\<open>%-Nd\<close>, \<^verbatim>\<open>%Ns\<close>.\<close>

definition fmt_d :: "int \<Rightarrow> string" where
  "fmt_d i = (if i < 0 then CHR ''-'' # decimal (nat (- i)) else decimal (nat i))"

definition hex_digit :: "nat \<Rightarrow> char" where
  "hex_digit d = (if d < 10 then char_of (48 + d) else char_of (87 + d))"

fun hexadecimal :: "nat \<Rightarrow> string" where
  "hexadecimal n = (if n < 16 then [hex_digit n] else hexadecimal (n div 16) @ [hex_digit (n mod 16)])"

declare hexadecimal.simps [simp del]

definition pad_left :: "nat \<Rightarrow> char \<Rightarrow> string \<Rightarrow> string" where
  "pad_left n c s = replicate (n - length s) c @ s"

definition pad_right :: "nat \<Rightarrow> char \<Rightarrow> string \<Rightarrow> string" where
  "pad_right n c s = s @ replicate (n - length s) c"

definition fmt_08x :: "32 word \<Rightarrow> string" where
  "fmt_08x w = pad_left 8 CHR ''0'' (hexadecimal (unat w))"

text \<open>\<^verbatim>\<open>0x%08x\<close>.\<close>

definition fmt_0x :: "32 word \<Rightarrow> string" where
  "fmt_0x w = ''0x'' @ fmt_08x w"

definition fmt_int :: "32 word \<Rightarrow> string" where
  "fmt_int w = fmt_d (sint w)"

subsection \<open>The string stream\<close>

type_synonym str_stream = string

definition ss_clear :: "str_stream \<Rightarrow> str_stream" where
  "ss_clear ss = []"

definition ss_erase :: "nat \<Rightarrow> str_stream \<Rightarrow> str_stream" where
  "ss_erase n ss = take (length ss - n) ss"

definition ss_length :: "str_stream \<Rightarrow> nat" where
  "ss_length ss = length ss"

definition ss_printf :: "string \<Rightarrow> str_stream \<Rightarrow> str_stream" where
  "ss_printf t ss = ss @ t"

abbreviation NL :: char where "NL \<equiv> CHR 0x0A"
abbreviation TAB :: char where "TAB \<equiv> CHR 0x09"
abbreviation QUOTE :: char where "QUOTE \<equiv> CHR 0x22"
abbreviation BSLASH :: char where "BSLASH \<equiv> CHR 0x5C"

end
