(* ===== verification/Disasm.thy ===== *)
theory Disasm
  imports Codec Memory Text
begin

text \<open>
  The text of an instruction (\<^verbatim>\<open>format_an_inst\<close> below its breakpoint, \<^verbatim>\<open>format_imm_expr\<close>, the names
  of opcodes, of \<^verbatim>\<open>instruction.c\<close>), with the opcode classes the assembler shares.
\<close>

subsection \<open>Opcode classes\<close>

definition opcode_is_branch :: "int \<Rightarrow> bool" where
  "opcode_is_branch opcode \<longleftrightarrow> opcode \<in> set
    [TOK_BC1F_OPCODE, TOK_BC1FL_OPCODE, TOK_BC1T_OPCODE, TOK_BC1TL_OPCODE, TOK_BC2F_OPCODE, TOK_BC2FL_OPCODE,
     TOK_BC2T_OPCODE, TOK_BC2TL_OPCODE, TOK_BEQ_OPCODE, TOK_BEQL_OPCODE, TOK_BEQZ_PSEUDO_OP, TOK_BGE_PSEUDO_OP,
     TOK_BGEU_PSEUDO_OP, TOK_BGEZ_OPCODE, TOK_BGEZAL_OPCODE, TOK_BGEZALL_OPCODE, TOK_BGEZL_OPCODE,
     TOK_BGT_PSEUDO_OP, TOK_BGTU_PSEUDO_OP, TOK_BGTZ_OPCODE, TOK_BGTZL_OPCODE, TOK_BLE_PSEUDO_OP,
     TOK_BLEU_PSEUDO_OP, TOK_BLEZ_OPCODE, TOK_BLEZL_OPCODE, TOK_BLT_PSEUDO_OP, TOK_BLTU_PSEUDO_OP,
     TOK_BLTZ_OPCODE, TOK_BLTZAL_OPCODE, TOK_BLTZALL_OPCODE, TOK_BLTZL_OPCODE, TOK_BNE_OPCODE,
     TOK_BNEL_OPCODE, TOK_BNEZ_PSEUDO_OP]"

definition opcode_is_nullified_branch :: "int \<Rightarrow> bool" where
  "opcode_is_nullified_branch opcode \<longleftrightarrow> opcode \<in> set
    [TOK_BC1FL_OPCODE, TOK_BC1TL_OPCODE, TOK_BC2FL_OPCODE, TOK_BC2TL_OPCODE, TOK_BEQL_OPCODE,
     TOK_BGEZALL_OPCODE, TOK_BGEZL_OPCODE, TOK_BGTZL_OPCODE, TOK_BLEZL_OPCODE, TOK_BLTZALL_OPCODE,
     TOK_BLTZL_OPCODE, TOK_BNEL_OPCODE]"

definition opcode_is_true_branch :: "int \<Rightarrow> bool" where
  "opcode_is_true_branch opcode \<longleftrightarrow> opcode \<in> set
    [TOK_BC1T_OPCODE, TOK_BC1TL_OPCODE, TOK_BC2T_OPCODE, TOK_BC2TL_OPCODE]"

definition opcode_is_jump :: "int \<Rightarrow> bool" where
  "opcode_is_jump opcode \<longleftrightarrow> opcode \<in> set [TOK_J_OPCODE, TOK_JAL_OPCODE]"

definition opcode_is_load_store :: "int \<Rightarrow> bool" where
  "opcode_is_load_store opcode \<longleftrightarrow> opcode \<in> set
    [TOK_LB_OPCODE, TOK_LBU_OPCODE, TOK_LH_OPCODE, TOK_LHU_OPCODE, TOK_LL_OPCODE, TOK_LDC1_OPCODE,
     TOK_LDC2_OPCODE, TOK_LW_OPCODE, TOK_LWC1_OPCODE, TOK_LWC2_OPCODE, TOK_LWL_OPCODE, TOK_LWR_OPCODE,
     TOK_SB_OPCODE, TOK_SC_OPCODE, TOK_SH_OPCODE, TOK_SDC1_OPCODE, TOK_SDC2_OPCODE, TOK_SW_OPCODE,
     TOK_SWC1_OPCODE, TOK_SWC2_OPCODE, TOK_SWL_OPCODE, TOK_SWR_OPCODE]"

subsection \<open>Names\<close>

definition int_reg_names :: "string list" where
  "int_reg_names = [''r0'', ''at'', ''v0'', ''v1'', ''a0'', ''a1'', ''a2'', ''a3'',
     ''t0'', ''t1'', ''t2'', ''t3'', ''t4'', ''t5'', ''t6'', ''t7'',
     ''s0'', ''s1'', ''s2'', ''s3'', ''s4'', ''s5'', ''s6'', ''s7'',
     ''t8'', ''t9'', ''k0'', ''k1'', ''gp'', ''sp'', ''fp'', ''ra'']"

text \<open>A row of \<^verbatim>\<open>name_tbl\<close> by its opcode token.\<close>

definition name_entry :: "int \<Rightarrow> op_type name_val_val option" where
  "name_entry opcode = map_int_to_name_val_val (sort_table name_tbl) opcode"

definition inst_op_name :: "mips_instruction option \<Rightarrow> string" where
  "inst_op_name i = (case i of None \<Rightarrow> ''<null>''
     | Some i \<Rightarrow> (case name_entry (OPCODE i) of Some e \<Rightarrow> nvv_name e | None \<Rightarrow> ''<unknown>''))"

definition op_token_name :: "int \<Rightarrow> string" where
  "op_token_name t = (case name_entry t of Some e \<Rightarrow> nvv_name e | None \<Rightarrow> ''<unknown>'')"

subsection \<open>Operands\<close>

text \<open>The pieces of an operand text: literal text, the name of a register, or a number.\<close>

datatype piece = P_Text string | P_Reg byte | P_Num int

fun piece_text :: "piece \<Rightarrow> string option" where
  "piece_text (P_Text t) = Some t"
| "piece_text (P_Reg r) = (if r < 32 then Some (CHR ''$'' # int_reg_names ! unat r) else None)"
| "piece_text (P_Num n) = Some (fmt_d n)"

text \<open>A register number past the table of names has no text: the C code reads outside the array.\<close>

fun pieces_text :: "piece list \<Rightarrow> string option" where
  "pieces_text [] = Some []"
| "pieces_text (p # ps) = (case (piece_text p, pieces_text ps) of (Some a, Some b) \<Rightarrow> Some (a @ b) | _ \<Rightarrow> None)"

abbreviation P_U :: "byte \<Rightarrow> piece" where "P_U b \<equiv> P_Num (uint b)"
abbreviation P_Imm :: "mips_instruction \<Rightarrow> piece" where "P_Imm i \<equiv> P_Num (sint (IMM i))"
abbreviation P_Branch :: "mips_instruction \<Rightarrow> piece" where "P_Branch i \<equiv> P_Num (sint (BRANCH_OFFSET i))"

text \<open>The switch over the shape of the operands; \<open>None\<close> is its default, a fatal error.\<close>

fun operand_pieces :: "op_type \<Rightarrow> mips_instruction \<Rightarrow> piece list option" where
  "operand_pieces BRANCH_COPROC_COND_INST i = Some [P_Num (int (CC i)), P_Text '' '', P_Branch i]"
| "operand_pieces BRANCH_RS_LABEL_INST i = Some [P_Text '' '', P_Reg (RS i), P_Text '' '', P_Branch i]"
| "operand_pieces RS_IMM_INST i = Some [P_Text '' '', P_Reg (RS i), P_Text '', '', P_Imm i]"
| "operand_pieces RT_IMM_INST i = Some [P_Text '' '', P_Reg (RT i), P_Text '', '', P_Imm i]"
| "operand_pieces RT_RS_IMM_INST i =
     Some [P_Text '' '', P_Reg (RT i), P_Text '', '', P_Reg (RS i), P_Text '', '', P_Imm i]"
| "operand_pieces BRANCH_RS_RT_LABEL_INST i =
     Some [P_Text '' '', P_Reg (RS i), P_Text '', '', P_Reg (RT i), P_Text '', '', P_Branch i]"
| "operand_pieces RT_ADDR_INST i =
     Some [P_Text '' '', P_Reg (RT i), P_Text '', '', P_Imm i, P_Text ''('', P_Reg (BASE i), P_Text '')'']"
| "operand_pieces RS_INST i = Some [P_Text '' '', P_Reg (RS i)]"
| "operand_pieces RD_INST i = Some [P_Text '' '', P_Reg (RD i)]"
| "operand_pieces RT_COPREG_INST i = Some [P_Text '' '', P_Reg (RT i), P_Text '', '', P_Reg (RD i)]"
| "operand_pieces RS_RT_INST i = Some [P_Text '' '', P_Reg (RS i), P_Text '', '', P_Reg (RT i)]"
| "operand_pieces RD_RS_INST i = Some [P_Text '' '', P_Reg (RD i), P_Text '', '', P_Reg (RS i)]"
| "operand_pieces RD_RT_SHAMT_INST i =
     Some [P_Text '' '', P_Reg (RD i), P_Text '', '', P_Reg (RT i), P_Text '', '', P_U (SHAMT i)]"
| "operand_pieces RD_RS_RT_INST i =
     Some [P_Text '' '', P_Reg (RD i), P_Text '', '', P_Reg (RS i), P_Text '', '', P_Reg (RT i)]"
| "operand_pieces RD_RT_RS_INST i =
     Some [P_Text '' '', P_Reg (RD i), P_Text '', '', P_Reg (RT i), P_Text '', '', P_Reg (RS i)]"
| "operand_pieces FP_FT_ADDR_INST i =
     Some [P_Text '' $f'', P_U (FT i), P_Text '', '', P_Imm i, P_Text ''('', P_Reg (BASE i), P_Text '')'']"
| "operand_pieces FP_FD_FS_INST i = Some [P_Text '' $f'', P_U (FD i), P_Text '', $f'', P_U (FS i)]"
| "operand_pieces FP_RT_COPREG_INST i = Some [P_Text '' '', P_Reg (RT i), P_Text '', $f'', P_U (FS i)]"
| "operand_pieces FP_CMP_FS_FT_INST i =
     (if FD i = 0 then Some [P_Text '' $f'', P_U (FS i), P_Text '', $f'', P_U (FT i)]
      else Some [P_Text '' '', P_U (drop_bit 2 (FD i)), P_Text '', $f'', P_U (FS i), P_Text '', $f'', P_U (FT i)])"
| "operand_pieces FP_FD_FS_FT_INST i =
     Some [P_Text '' $f'', P_U (FD i), P_Text '', $f'', P_U (FS i), P_Text '', $f'', P_U (FT i)]"
| "operand_pieces MOVC_TYPE_INST i =
     Some [P_Text '' '', P_Reg (RD i), P_Text '', '', P_Reg (RS i), P_Text '', '', P_U (drop_bit 2 (RT i))]"
| "operand_pieces FP_MOVC_TYPE_INST i =
     Some [P_Text '' $f'', P_U (FD i), P_Text '', $f'', P_U (FS i), P_Text '', '', P_Num (int (CC i))]"
| "operand_pieces J_TYPE_INST i = Some [P_Text '' '', P_Text (fmt_0x (push_bit 2 (TARGET i)))]"
| "operand_pieces NOARG_TYPE_INST i = Some []"
| "operand_pieces k i = None"

text \<open>A shift with zero operands is printed as \<^verbatim>\<open>nop\<close>, over the last three characters of its name.\<close>

definition is_nop :: "op_type \<Rightarrow> mips_instruction \<Rightarrow> bool" where
  "is_nop k i \<longleftrightarrow> k = RD_RT_SHAMT_INST \<and> RD i = 0 \<and> RT i = 0 \<and> SHAMT i = 0"

definition add_operands :: "op_type name_val_val \<Rightarrow> mips_instruction \<Rightarrow> str_stream \<Rightarrow> str_stream mcomp" where
  "add_operands entry i ss =
     (if is_nop (value2 entry) i then ret (ss_printf ''nop'' (ss_erase 3 ss))
      else (case operand_pieces (value2 entry) i of
          None \<Rightarrow> throw (Fatal_Error ''Unknown instruction type in print_inst'')
        | Some ps \<Rightarrow> (case pieces_text ps of None \<Rightarrow> throw Crash | Some t \<Rightarrow> ret (ss_printf t ss))))"

subsection \<open>Expressions\<close>

definition deref_label :: "ptr \<Rightarrow> label mcomp" where
  "deref_label p s =
    (case p of None \<Rightarrow> throw Crash s
     | Some q \<Rightarrow> (case label_heap s q of None \<Rightarrow> throw Crash s | Some l \<Rightarrow> ret l s))"

definition offset_text :: "imm_expr \<Rightarrow> string" where
  "offset_text e =
     (let off = expr_offset e
      in if expr_pc_relative e then ''-0x'' @ fmt_08x (- off)
         else if off <s -10 then ''-'' @ fmt_int (- off) @ '' (-0x'' @ fmt_08x (- off) @ '')''
         else if 10 <s off then ''+'' @ fmt_int off @ '' (0x'' @ fmt_08x off @ '')''
         else [])"

text \<open>The base register is \<open>None\<close> for the argument \<^verbatim>\<open>-1\<close>.\<close>

definition base_text :: "imm_expr \<Rightarrow> byte option \<Rightarrow> string option" where
  "base_text e base =
     (let off = expr_offset e
      in case base of
           None \<Rightarrow> Some []
         | Some b \<Rightarrow> if expr_symbol e \<noteq> None \<and> (10 <s off \<or> off <s -10)
             then map_option (\<lambda>r. (if off = 0 \<and> b \<noteq> 0 then ''+0'' else []) @
                    (if off \<noteq> 0 \<or> b \<noteq> 0 then ''('' @ r @ '')'' else [])) (piece_text (P_Reg b))
             else Some [])"

definition format_imm_expr :: "imm_expr \<Rightarrow> byte option \<Rightarrow> str_stream \<Rightarrow> str_stream mcomp" where
  "format_imm_expr e base ss =
     bnd (case expr_symbol e of None \<Rightarrow> ret [] | Some q \<Rightarrow> bnd (deref_label (Some q)) (\<lambda>l. ret (label_name l))) (\<lambda>name.
     (case base_text e base of None \<Rightarrow> throw Crash
      | Some t \<Rightarrow> ret (ss_printf t (ss_printf (offset_text e) (ss_printf name ss)))))"

subsection \<open>A line of a listing\<close>

definition add_symbol :: "mips_instruction \<Rightarrow> str_stream \<Rightarrow> str_stream mcomp" where
  "add_symbol i ss =
     (case inst_expr i of
        Some e \<Rightarrow> (if expr_symbol e \<noteq> None
          then bnd (format_imm_expr e (if opcode_is_load_store (OPCODE i) then Some (BASE i) else None) (ss_printf '' ['' ss))
                 (\<lambda>ss. ret (ss_printf '']'' ss))
          else ret ss)
      | None \<Rightarrow> ret ss)"

text \<open>The source line, as a comment at column 57 or after the text.\<close>

definition add_source :: "mips_instruction \<Rightarrow> str_stream \<Rightarrow> str_stream" where
  "add_source i ss =
     (case inst_source i of None \<Rightarrow> ss
      | Some src \<Rightarrow> ss_printf src (ss_printf ''; '' (ss_printf (replicate (57 - ss_length ss) CHR '' '') ss)))"

text \<open>
  \<^verbatim>\<open>format_an_inst\<close> where there is no breakpoint: the text it appends to the stream, whose columns
  count from where it starts.
\<close>

definition format_inst_text :: "ptr \<Rightarrow> mem_addr \<Rightarrow> string mcomp" where
  "format_inst_text p addr =
     (let ss = ss_printf (''['' @ fmt_0x addr @ '']'' @ [TAB]) (ss_clear [])
      in if p = None then ret (ss_printf (''<none>'' @ [NL]) ss)
         else bnd (deref_inst p) (\<lambda>i.
           case name_entry (OPCODE i) of
             None \<Rightarrow> ret (ss_printf (''<unknown instruction '' @ fmt_d (OPCODE i) @ ''>'' @ [NL]) ss)
           | Some entry \<Rightarrow>
               bnd (add_operands entry i (ss_printf (fmt_0x (inst_encoding i) @ ''  '' @ nvv_name entry) ss)) (\<lambda>ss.
               bnd (add_symbol i ss) (\<lambda>ss.
               ret (ss_printf [NL] (add_source i ss))))))"

text \<open>Formatting an instruction changes nothing.\<close>

lemma reads_bnd:
  "final (m s) = s \<Longrightarrow> (\<And>x. final (f x s) = s) \<Longrightarrow> final (bnd m f s) = s"
  by (cases "m s") (auto simp: bnd_def)

lemma reads_ret: "final (ret x s) = s"
  by (simp add: ret_def)

lemma reads_throw: "final (throw e s) = s"
  by (simp add: throw_def)

lemmas reads_intros = reads_bnd reads_ret reads_throw

lemma deref_label_reads: "final (deref_label p s) = s"
  by (simp add: deref_label_def split: option.splits)

lemma deref_inst_reads: "final (deref_inst p s) = s"
  by (auto simp: deref_inst_def split: option.splits)

lemma add_operands_reads: "final (add_operands e i ss s) = s"
  by (simp add: add_operands_def reads_ret reads_throw split: option.splits)

lemma format_imm_expr_reads: "final (format_imm_expr e b ss s) = s"
  by (auto simp: format_imm_expr_def intro!: reads_intros deref_label_reads split: option.splits)

lemma add_symbol_reads: "final (add_symbol i ss s) = s"
  by (auto simp: add_symbol_def intro!: reads_intros format_imm_expr_reads split: option.splits)

lemma format_inst_reads: "final (format_inst_text p addr s) = s"
  by (auto simp: format_inst_text_def Let_def
      intro!: reads_intros deref_inst_reads add_operands_reads add_symbol_reads split: option.splits)

end
