(* ===== verification/ExplainText.thy ===== *)
theory ExplainText
  imports Disasm
begin

text \<open>
  The texts of the teaching mode (\<^verbatim>\<open>explain.c\<close>): the table of pseudo-instructions and how one is
  recognised in a source line, the diagrams of an encoded instruction and of its decoding, and the
  classification of opcodes. Strings are the bytes the C literals hold; characters outside ASCII
  are in UTF-8.
\<close>

subsection \<open>Characters outside ASCII\<close>

definition utf8 :: "nat \<Rightarrow> string" where
  "utf8 n =
     (if n < 0x800 then [char_of (0xC0 + n div 64), char_of (0x80 + n mod 64)]
      else [char_of (0xE0 + n div 4096), char_of (0x80 + n div 64 mod 64), char_of (0x80 + n mod 64)])"

abbreviation DASH :: string where "DASH \<equiv> utf8 0x2014"
abbreviation ARROW :: string where "ARROW \<equiv> utf8 0x2192"
abbreviation LARROW :: string where "LARROW \<equiv> utf8 0x2190"
abbreviation SECTION :: string where "SECTION \<equiv> utf8 0xA7"
abbreviation HLINE :: string where "HLINE \<equiv> utf8 0x2500"
abbreviation DLINE :: string where "DLINE \<equiv> utf8 0x2550"
abbreviation VBAR :: string where "VBAR \<equiv> utf8 0x2502"
abbreviation TOP_L :: string where "TOP_L \<equiv> utf8 0x250C"
abbreviation TOP_M :: string where "TOP_M \<equiv> utf8 0x252C"
abbreviation TOP_R :: string where "TOP_R \<equiv> utf8 0x2510"
abbreviation MID_L :: string where "MID_L \<equiv> utf8 0x251C"
abbreviation MID_M :: string where "MID_M \<equiv> utf8 0x253C"
abbreviation MID_R :: string where "MID_R \<equiv> utf8 0x2524"
abbreviation BOT_L :: string where "BOT_L \<equiv> utf8 0x2514"
abbreviation BOT_M :: string where "BOT_M \<equiv> utf8 0x2534"
abbreviation BOT_R :: string where "BOT_R \<equiv> utf8 0x2518"

definition glyphs :: "nat \<Rightarrow> string \<Rightarrow> string" where
  "glyphs n g = concat (replicate n g)"

text \<open>Lines of text, each with its newline; \<^verbatim>\<open>%0Nx\<close>.\<close>

definition text_lines :: "string list \<Rightarrow> string" where
  "text_lines ts = concat (map (\<lambda>t. t @ [NL]) ts)"

definition fmt_0nx :: "nat \<Rightarrow> nat \<Rightarrow> string" where
  "fmt_0nx n v = pad_left n CHR ''0'' (hexadecimal v)"

subsection \<open>Headers\<close>

definition emit_legend :: string where
  "emit_legend = (text_lines [[],
      glyphs 58 DLINE,
      ''About the output'',
      glyphs 58 DLINE,
      [],
      ''Every step begins with a header like:'',
      [],
      ''    Stepped at PC = 0x00400128:'',
      ''        memory[0x00400128] = 0x214affff   '' @ ARROW @ ''   addi $t2, $t2, -1'',
      ''        source line 118: addi $t2, $t2, -1'',
      [],
      ''What each part means:'',
      [],
      ''  PC = 0xADDR'',
      ''        The program counter '' @ DASH @ '' the address in memory of the'',
      ''        instruction that just executed.'',
      [],
      ''  memory[0xADDR] = 0xWORD'',
      ''        The 32-bit machine code stored at that address. This'',
      ''        is what the CPU's decoder reads.'',
      [],
      ''  '' @ ARROW @ ''  real-instruction'',
      ''        The disassembled form '' @ DASH @ '' what the CPU actually ran,'',
      ''        with registers shown in ABI names ($t2, $sp, $a0)'',
      ''        rather than register numbers.'',
      [],
      ''  source line N: ...'',
      ''        The line from your assembly file the assembler read'',
      ''        for this instruction. If it doesn't match the real'',
      ''        instruction on the line above, you wrote a pseudo-'',
      ''        instruction (e.g. `la $t7, dst` expands to `lui` +'',
      ''        `ori` '' @ DASH @ '' the source line appears once but two real'',
      ''        instructions get narrated).'',
      [],
      ''Placeholder notation in pseudo-op descriptions and structural'',
      ''explanations:'',
      [],
      ''  $rs, $rt, $rd, shamt'',
      ''        Field names from the MIPS instruction encoding '' @ DASH,
      ''        $rs = first source register, $rt = second source or'',
      ''        target register, $rd = destination register, shamt ='',
      ''        shift amount.  When you see these in a pseudo-op's'',
      ''        general-form description (e.g. '' @ [QUOTE] @ ''set $rd to ...'' @ [QUOTE] @ ''),'',
      ''        they refer to whatever registers you wrote in YOUR'',
      ''        source line.  The disassembled '' @ [QUOTE] @ ''What it did'' @ [QUOTE] @ '' lines'',
      ''        substitute the concrete register names in place of'',
      ''        these placeholders.'',
      [],
      ''(This header is shown once per session. Higher `-explain`'',
      ''levels add per-instruction narration after the header.)''])"

definition hr :: string where
  "hr = (glyphs 58 HLINE @ [NL])"

text \<open>
  \<^verbatim>\<open>explain_print_step_header\<close> cuts the line of the disassembler: without its address and encoding, and the source line behind
  the semicolon.
\<close>

definition blank_char :: "char \<Rightarrow> bool" where
  "blank_char c \<longleftrightarrow> c = CHR '' '' \<or> c = TAB"

definition strip_right :: "(char \<Rightarrow> bool) \<Rightarrow> string \<Rightarrow> string" where
  "strip_right P t = rev (dropWhile P (rev t))"

definition after_tab :: "string \<Rightarrow> string" where
  "after_tab t = (case dropWhile (\<lambda>c. c \<noteq> TAB) t of [] \<Rightarrow> t | _ # r \<Rightarrow> r)"

definition split_listing :: "string \<Rightarrow> string \<times> string option" where
  "split_listing line =
     (let p = after_tab (strip_right (\<lambda>c. c = NL \<or> blank_char c) line);
          is_semi = (\<lambda>c. c = CHR '';'');
          source = (case dropWhile (Not \<circ> is_semi) p of [] \<Rightarrow> None | _ # r \<Rightarrow> Some (dropWhile (\<lambda>c. c = CHR '' '') r));
          p = (if source = None then p else strip_right blank_char (takeWhile (Not \<circ> is_semi) p));
          dasm = (if 10 \<le> length p \<and> take 2 p = ''0x'' then dropWhile blank_char (drop 10 p) else p)
      in (dasm, source))"

subsection \<open>Pseudo-instructions\<close>

type_synonym pseudo_info = "string \<times> string \<times> bool"

text \<open>Name, meaning, and whether it may expand to several instructions; in the order of the table.\<close>

definition pseudo_ops_1 :: "pseudo_info list" where
  "pseudo_ops_1 =
    [(''abs'', (text_lines [''Absolute Value '' @ DASH @ '' set $rd to |$rs|. Multi-instruction expansion using''] @ ''    arithmetic-shift / xor / sub to avoid a conditional branch.''), True),
     (''b'', (text_lines [''Branch '' @ DASH @ '' unconditional jump to a label. Encoded as `beq $0, $0, label`''] @ ''    ($0 always equals $0, so the branch is always taken).''), False),
     (''bal'', (text_lines [''Branch-and-Link '' @ DASH @ '' unconditional call to a label, saving the return''] @ ''    address in $ra. Encoded as `bgezal $0, label`.''), False),
     (''beqz'', (text_lines [''Branch if Equal to Zero '' @ DASH @ '' branch if $rs == 0. Encoded as''] @ ''    `beq $rs, $0, label`.''), False),
     (''bnez'', (text_lines [''Branch if Not Equal to Zero '' @ DASH @ '' branch if $rs != 0. Encoded as''] @ ''    `bne $rs, $0, label`.''), False),
     (''bge'', (text_lines [''Branch if Greater or Equal (signed) '' @ DASH @ '' branch if $rs >= $rt. Expands''] @ ''    to `slt $at, $rs, $rt` + `beq $at, $0, label`.''), True),
     (''bgeu'', (text_lines [''Branch if Greater or Equal (unsigned) '' @ DASH @ '' branch if $rs >= $rt unsigned.''] @ ''    Expands to `sltu $at, $rs, $rt` + `beq $at, $0, label`.''), True),
     (''bgt'', (text_lines [''Branch if Greater Than (signed) '' @ DASH @ '' branch if $rs > $rt. Expands to''] @ ''    `slt $at, $rt, $rs` + `bne $at, $0, label`.''), True),
     (''bgtu'', (text_lines [''Branch if Greater Than (unsigned) '' @ DASH @ '' branch if $rs > $rt unsigned.''] @ ''    Expands to `sltu $at, $rt, $rs` + `bne $at, $0, label`.''), True),
     (''ble'', (text_lines [''Branch if Less or Equal (signed) '' @ DASH @ '' branch if $rs <= $rt. Expands to''] @ ''    `slt $at, $rt, $rs` + `beq $at, $0, label`.''), True),
     (''bleu'', (text_lines [''Branch if Less or Equal (unsigned) '' @ DASH @ '' branch if $rs <= $rt unsigned.''] @ ''    Expands to `sltu $at, $rt, $rs` + `beq $at, $0, label`.''), True),
     (''blt'', (text_lines [''Branch if Less Than (signed) '' @ DASH @ '' branch if $rs < $rt. Expands to''] @ ''    `slt $at, $rs, $rt` + `bne $at, $0, label`.''), True),
     (''bltu'', (text_lines [''Branch if Less Than (unsigned) '' @ DASH @ '' branch if $rs < $rt unsigned.''] @ ''    Expands to `sltu $at, $rs, $rt` + `bne $at, $0, label`.''), True),
     (''la'', (text_lines [''Load Address '' @ DASH @ '' set $rd to the 32-bit address of a label. Typically'',
          ''    expands to `lui $rd, hi(addr)` + `ori $rd, $rd, lo(addr)` (or just''] @ ''    `addiu` for relocations that fit in 16 bits).''), True),
     (''ld'', (text_lines [''Load Doubleword '' @ DASH @ '' load 64 bits into a register pair. Expands to two''] @ ''    `lw` instructions covering offsets 0 and 4.''), True),
     (''li'', (text_lines [''Load Immediate '' @ DASH @ '' set $rd to a 32-bit constant. Small constants emit''] @ ''    one `ori` or `addiu`; larger ones expand to `lui` + `ori`.''), True)]"

definition pseudo_ops_2 :: "pseudo_info list" where
  "pseudo_ops_2 =
    [(''move'', (text_lines [''Move '' @ DASH @ '' copy $rs into $rd. Encoded as `addu $rd, $0, $rs` (adding $zero''] @ ''    is the simplest way to copy a register).''), False),
     (''mulo'', (text_lines [''Multiply with Overflow check '' @ DASH @ '' signed multiply that traps on overflow.''] @ ''    Expands to `mult` plus an overflow check plus `mflo`.''), True),
     (''mulou'', (''Multiply Unsigned with Overflow check '' @ DASH @ '' unsigned variant of `mulo`.''), True),
     (''neg'', (text_lines [''Negate (signed; traps on overflow) '' @ DASH @ '' set $rd = -$rs. Encoded as''] @ ''    `sub $rd, $0, $rs`.''), False),
     (''negu'', (text_lines [''Negate Unsigned '' @ DASH @ '' set $rd = -$rs with no overflow trap. Encoded as''] @ ''    `subu $rd, $0, $rs`.''), False),
     (''nop'', (text_lines [''No Operation '' @ DASH @ '' do nothing for one cycle. Encoded as `sll $0, $0, 0`'',
          ''    (a shift writing to $zero, which is hardwired to 0 and discards''] @ ''    the result).''), False),
     (''not'', (text_lines [''Bitwise NOT '' @ DASH @ '' set $rd to the one's complement of $rs. Encoded as''] @ ''    `nor $rd, $rs, $0` (NOR with $zero is logical NOT).''), False),
     (''rem'', (text_lines [''Signed Remainder '' @ DASH @ '' set $rd = $rs % $rt. Expands to `div $rs, $rt`''] @ ''    + `mfhi $rd`.''), True),
     (''remu'', (text_lines [''Unsigned Remainder '' @ DASH @ '' set $rd = $rs % $rt unsigned. Expands to''] @ ''    `divu $rs, $rt` + `mfhi $rd`.''), True),
     (''rol'', (text_lines [''Rotate Left '' @ DASH @ '' multi-instruction expansion using sll, srl, and or to''] @ ''    rotate the bits of $rs left.''), True),
     (''ror'', (''Rotate Right '' @ DASH @ '' multi-instruction expansion using srl, sll, and or.''), True),
     (''sd'', (text_lines [''Store Doubleword '' @ DASH @ '' store 64 bits from a register pair. Expands to two''] @ ''    `sw` instructions at offsets 0 and 4.''), True),
     (''seq'', (text_lines [''Set if Equal '' @ DASH @ '' set $rd = ($rs == $rt) ? 1 : 0. Expands to `xor` +''] @ ''    `sltiu`.''), True),
     (''sne'', (text_lines [''Set if Not Equal '' @ DASH @ '' set $rd = ($rs != $rt) ? 1 : 0. Expands to `xor` +''] @ ''    `sltu` against $zero.''), True),
     (''sge'', (''Set if Greater or Equal (signed) '' @ DASH @ '' $rd = ($rs >= $rt) ? 1 : 0.''), True),
     (''sgeu'', (''Set if Greater or Equal (unsigned).''), True),
     (''sgt'', (''Set if Greater Than (signed) '' @ DASH @ '' $rd = ($rs > $rt) ? 1 : 0.''), True),
     (''sgtu'', (''Set if Greater Than (unsigned).''), True),
     (''sle'', (''Set if Less or Equal (signed) '' @ DASH @ '' $rd = ($rs <= $rt) ? 1 : 0.''), True),
     (''sleu'', (''Set if Less or Equal (unsigned).''), True),
     (''ulh'', (text_lines [''Unaligned Load Halfword (signed) '' @ DASH @ '' read 16 bits at a possibly-unaligned''] @ ''    address. Expands to byte loads + shifts.''), True),
     (''ulhu'', (''Unaligned Load Halfword Unsigned '' @ DASH @ '' zero-extending variant of `ulh`.''), True),
     (''ulw'', (text_lines [''Unaligned Load Word '' @ DASH @ '' read 32 bits at a possibly-unaligned address.''] @ ''    Expands to `lwl` + `lwr` (or a sequence of byte loads).''), True),
     (''ush'', (''Unaligned Store Halfword '' @ DASH @ '' write 16 bits at a possibly-unaligned address.''), True),
     (''usw'', (text_lines [''Unaligned Store Word '' @ DASH @ '' write 32 bits at a possibly-unaligned address.''] @ ''    Expands to `swl` + `swr`.''), True)]"

definition pseudo_ops :: "pseudo_info list" where
  "pseudo_ops = pseudo_ops_1 @ pseudo_ops_2"

definition decimal_char :: "char \<Rightarrow> bool" where
  "decimal_char c \<longleftrightarrow> 48 \<le> (of_char c :: nat) \<and> (of_char c :: nat) \<le> 57"

definition skip_source_prefix :: "string \<Rightarrow> string" where
  "skip_source_prefix s =
     (let s = dropWhile decimal_char (dropWhile blank_char s);
          s = (if take 1 s = '':'' then tl s else s)
      in dropWhile blank_char s)"

text \<open>The mnemonic must be followed by a blank, a comment or the end of the line.\<close>

definition ends_mnemonic :: "string \<Rightarrow> bool" where
  "ends_mnemonic rest \<longleftrightarrow> rest = [] \<or> hd rest \<in> {CHR '' '', TAB, NL, CHR ''#''}"

definition find_pseudo_in_source :: "string \<Rightarrow> pseudo_info option" where
  "find_pseudo_in_source src =
     (let s = skip_source_prefix src
      in List.find (\<lambda>(name, _, _). take (length name) s = name \<and> ends_mnemonic (drop (length name) s)) pseudo_ops)"

subsection \<open>Field names\<close>

text \<open>
  \<^verbatim>\<open>subst_field_regs\<close>: \<open>$rs\<close>, \<open>$rt\<close> and \<open>$rd\<close> become the names of the registers in these fields; \<open>None\<close>
  is the argument \<^verbatim>\<open>-1\<close>.
\<close>

definition word_char :: "char \<Rightarrow> bool" where
  "word_char c \<longleftrightarrow> (let n = (of_char c :: nat) in
     decimal_char c \<or> 65 \<le> n \<and> n \<le> 90 \<or> 97 \<le> n \<and> n \<le> 122 \<or> c = CHR ''_'')"

definition field_register :: "byte option \<Rightarrow> byte option \<Rightarrow> byte option \<Rightarrow> string \<Rightarrow> byte option" where
  "field_register rs rt rd src =
     (if take 2 src = ''$r'' \<and> 3 \<le> length src \<and> (length src = 3 \<or> \<not> word_char (src ! 3))
      then (let r = (if src ! 2 = CHR ''s'' then rs else if src ! 2 = CHR ''t'' then rt
                     else if src ! 2 = CHR ''d'' then rd else None)
            in case r of Some n \<Rightarrow> if n < 32 then Some n else None | None \<Rightarrow> None)
      else None)"

fun subst_fields :: "byte option \<Rightarrow> byte option \<Rightarrow> byte option \<Rightarrow> string \<Rightarrow> string" where
  "subst_fields rs rt rd [] = []"
| "subst_fields rs rt rd (c # cs) =
     (case field_register rs rt rd (c # cs) of
        Some r \<Rightarrow> CHR ''$'' # int_reg_names ! unat r @ subst_fields rs rt rd (drop 2 cs)
      | None \<Rightarrow> c # subst_fields rs rt rd cs)"

definition subst_field_regs :: "nat \<Rightarrow> string \<Rightarrow> byte option \<Rightarrow> byte option \<Rightarrow> byte option \<Rightarrow> string" where
  "subst_field_regs cap src rs rt rd = take (cap - 1) (subst_fields rs rt rd src)"

subsection \<open>The bits of an instruction\<close>

definition write_bits :: "32 word \<Rightarrow> nat \<Rightarrow> nat \<Rightarrow> string" where
  "write_bits val hi lo = map (\<lambda>i. if bit val (hi - i) then CHR ''1'' else CHR ''0'') [0..<hi - lo + 1]"

definition enc_field :: "nat \<Rightarrow> 32 word \<Rightarrow> 32 word \<Rightarrow> nat" where
  "enc_field sh msk enc = unat (drop_bit sh enc AND msk)"

abbreviation enc_op :: "32 word \<Rightarrow> nat" where "enc_op \<equiv> enc_field 26 0x3f"
abbreviation enc_rs :: "32 word \<Rightarrow> nat" where "enc_rs \<equiv> enc_field 21 0x1f"
abbreviation enc_rt :: "32 word \<Rightarrow> nat" where "enc_rt \<equiv> enc_field 16 0x1f"
abbreviation enc_rd :: "32 word \<Rightarrow> nat" where "enc_rd \<equiv> enc_field 11 0x1f"
abbreviation enc_shamt :: "32 word \<Rightarrow> nat" where "enc_shamt \<equiv> enc_field 6 0x1f"
abbreviation enc_funct :: "32 word \<Rightarrow> nat" where "enc_funct \<equiv> enc_field 0 0x3f"
abbreviation enc_target :: "32 word \<Rightarrow> nat" where "enc_target \<equiv> enc_field 0 0x03ffffff"
abbreviation enc_imm :: "32 word \<Rightarrow> half" where "enc_imm enc \<equiv> ucast enc"

abbreviation reg_of :: "nat \<Rightarrow> string" where "reg_of n \<equiv> int_reg_names ! n"
abbreviation pad_to :: "nat \<Rightarrow> string \<Rightarrow> string" where "pad_to n \<equiv> pad_right n CHR '' ''"

text \<open>\<^verbatim>\<open>(PC[31:28] | target << 2)\<close>.\<close>

definition jump_addr :: "mem_addr \<Rightarrow> 32 word \<Rightarrow> mem_addr" where
  "jump_addr pc enc = (pc AND 0xf0000000) OR push_bit 2 (enc AND 0x03ffffff)"

definition nibble_bits :: "32 word \<Rightarrow> nat \<Rightarrow> string" where
  "nibble_bits enc i = write_bits enc (31 - 4 * i) (28 - 4 * i)"

definition nibble_hex :: "32 word \<Rightarrow> nat \<Rightarrow> string" where
  "nibble_hex enc sh = hexadecimal (enc_field sh 0xf enc)"

definition render_hex_bin_table :: "32 word \<Rightarrow> string" where
  "render_hex_bin_table enc =
     (text_lines [''    '' @ TOP_L @ glyphs 5 HLINE @ TOP_M @ glyphs 5 HLINE @ TOP_M @ glyphs 5 HLINE @ TOP_M @
          glyphs 5 HLINE @ TOP_M @ glyphs 5 HLINE @ TOP_M @ glyphs 5 HLINE @ TOP_M @ glyphs 5 HLINE @
          TOP_M @ glyphs 5 HLINE @ TOP_M @ glyphs 5 HLINE @ TOP_R,
         ''    '' @ VBAR @ '' hex '' @ VBAR @ ''  '' @ nibble_hex enc 28 @ ''  '' @ VBAR @ ''  '' @
          nibble_hex enc 24 @ ''  '' @ VBAR @ ''  '' @ nibble_hex enc 20 @ ''  '' @ VBAR @ ''  '' @
          nibble_hex enc 16 @ ''  '' @ VBAR @ ''  '' @ nibble_hex enc 12 @ ''  '' @ VBAR @ ''  '' @
          nibble_hex enc 8 @ ''  '' @ VBAR @ ''  '' @ nibble_hex enc 4 @ ''  '' @ VBAR @ ''  '' @
          nibble_hex enc 0 @ ''  '' @ VBAR,
         ''    '' @ MID_L @ glyphs 5 HLINE @ MID_M @ glyphs 5 HLINE @ MID_M @ glyphs 5 HLINE @ MID_M @
          glyphs 5 HLINE @ MID_M @ glyphs 5 HLINE @ MID_M @ glyphs 5 HLINE @ MID_M @ glyphs 5 HLINE @
          MID_M @ glyphs 5 HLINE @ MID_M @ glyphs 5 HLINE @ MID_R,
         ''    '' @ VBAR @ '' bin '' @ VBAR @ nibble_bits enc 0 @ '' '' @ VBAR @ nibble_bits enc 1 @
          '' '' @ VBAR @ nibble_bits enc 2 @ '' '' @ VBAR @ nibble_bits enc 3 @ '' '' @ VBAR @
          nibble_bits enc 4 @ '' '' @ VBAR @ nibble_bits enc 5 @ '' '' @ VBAR @ nibble_bits enc 6 @ '' '' @
          VBAR @ nibble_bits enc 7 @ '' '' @ VBAR,
         ''    '' @ BOT_L @ glyphs 5 HLINE @ BOT_M @ glyphs 5 HLINE @ BOT_M @ glyphs 5 HLINE @ BOT_M @
          glyphs 5 HLINE @ BOT_M @ glyphs 5 HLINE @ BOT_M @ glyphs 5 HLINE @ BOT_M @ glyphs 5 HLINE @
          BOT_M @ glyphs 5 HLINE @ BOT_M @ glyphs 5 HLINE @ BOT_R])"

definition group_name :: "nat \<Rightarrow> string" where
  "group_name op = (if op = 0 then ''SPECIAL'' else if op = 0x1c then ''SPECIAL2'' else if op = 0x1f then ''SPECIAL3'' else ''?'')"

definition render_r_layout :: "32 word \<Rightarrow> string \<Rightarrow> string" where
  "render_r_layout enc mnemonic =
     (''  Bit layout (R-type, encoding 0x'' @ fmt_08x enc @ ''):'' @ [NL]) @ render_hex_bin_table enc @
     (text_lines [''     31    26 25  21 20  16 15  11 10   6 5     0'',
         ''    '' @ TOP_L @ glyphs 8 HLINE @ TOP_M @ glyphs 7 HLINE @ TOP_M @ glyphs 7 HLINE @ TOP_M @
          glyphs 7 HLINE @ TOP_M @ glyphs 7 HLINE @ TOP_M @ glyphs 8 HLINE @ TOP_R,
         ''    '' @ VBAR @ '' '' @ write_bits enc 31 26 @ '' '' @ VBAR @ '' '' @ write_bits enc 25 21 @
          '' '' @ VBAR @ '' '' @ write_bits enc 20 16 @ '' '' @ VBAR @ '' '' @ write_bits enc 15 11 @
          '' '' @ VBAR @ '' '' @ write_bits enc 10 6 @ '' '' @ VBAR @ '' '' @ write_bits enc 5 0 @ '' '' @
          VBAR,
         ''    '' @ BOT_L @ glyphs 8 HLINE @ BOT_M @ glyphs 7 HLINE @ BOT_M @ glyphs 7 HLINE @ BOT_M @
          glyphs 7 HLINE @ BOT_M @ glyphs 7 HLINE @ BOT_M @ glyphs 8 HLINE @ BOT_R,
         ''      opcode    rs      rt      rd     shamt    funct'',
         ''       = '' @ pad_to 2 (decimal (enc_op enc)) @ ''   = $'' @ pad_to 4 (reg_of (enc_rs enc)) @
          '' = $'' @ pad_to 4 (reg_of (enc_rt enc)) @ '' = $'' @ pad_to 4 (reg_of (enc_rd enc)) @
          ''   = '' @ pad_to 2 (decimal (enc_shamt enc)) @ ''    = 0x'' @ fmt_0nx 2 (enc_funct enc),
         ''    -> opcode=0x'' @ fmt_0nx 2 (enc_op enc) @ '' ('' @ group_name (enc_op enc) @
          '') tells the CPU to look at funct;'',
         ''       funct=0x'' @ fmt_0nx 2 (enc_funct enc) @ '' selects the `'' @ mnemonic @
          ''` instruction.''])"

definition render_i_layout :: "32 word \<Rightarrow> string \<Rightarrow> string" where
  "render_i_layout enc mnemonic =
     (''  Bit layout (I-type, encoding 0x'' @ fmt_08x enc @ ''):'' @ [NL]) @ render_hex_bin_table enc @
     (text_lines [''     31    26 25  21 20  16 15                 0'',
         ''    '' @ TOP_L @ glyphs 8 HLINE @ TOP_M @ glyphs 7 HLINE @ TOP_M @ glyphs 7 HLINE @ TOP_M @
          glyphs 18 HLINE @ TOP_R,
         ''    '' @ VBAR @ '' '' @ write_bits enc 31 26 @ '' '' @ VBAR @ '' '' @ write_bits enc 25 21 @
          '' '' @ VBAR @ '' '' @ write_bits enc 20 16 @ '' '' @ VBAR @ '' '' @ write_bits enc 15 0 @
          '' '' @ VBAR,
         ''    '' @ BOT_L @ glyphs 8 HLINE @ BOT_M @ glyphs 7 HLINE @ BOT_M @ glyphs 7 HLINE @ BOT_M @
          glyphs 18 HLINE @ BOT_R,
         ''      opcode    rs      rt        immediate (16-bit)'',
         ''      = 0x'' @ fmt_0nx 2 (enc_op enc) @ ''  = $'' @ pad_to 4 (reg_of (enc_rs enc)) @ '' = $'' @
          pad_to 4 (reg_of (enc_rt enc)) @ ''   = '' @ fmt_d (sint (enc_imm enc)) @ ''  (signed) / 0x'' @
          fmt_0nx 4 (unat (enc_imm enc)),
         ''    -> opcode=0x'' @ fmt_0nx 2 (enc_op enc) @ '' selects the `'' @ mnemonic @
          ''` instruction.''])"

definition render_j_layout :: "mem_addr \<Rightarrow> 32 word \<Rightarrow> string \<Rightarrow> string" where
  "render_j_layout pc enc mnemonic =
     (''  Bit layout (J-type, encoding 0x'' @ fmt_08x enc @ ''):'' @ [NL]) @ render_hex_bin_table enc @
     (text_lines [''     31    26 25                          0'',
         ''    '' @ TOP_L @ glyphs 8 HLINE @ TOP_M @ glyphs 28 HLINE @ TOP_R,
         ''    '' @ VBAR @ '' '' @ write_bits enc 31 26 @ '' '' @ VBAR @ '' '' @ write_bits enc 25 0 @
          '' '' @ VBAR,
         ''    '' @ BOT_L @ glyphs 8 HLINE @ BOT_M @ glyphs 28 HLINE @ BOT_R,
         ''      opcode         target (26-bit word index)'',
         ''      = 0x'' @ fmt_0nx 2 (enc_op enc) @ ''  = 0x'' @ fmt_0nx 7 (enc_target enc) @
          ''  ->  jump addr = (PC[31:28] | target<<2) = 0x'' @ fmt_08x (jump_addr pc enc),
         ''    -> opcode=0x'' @ fmt_0nx 2 (enc_op enc) @ '' selects the `'' @ mnemonic @
          ''` instruction.''])"

text \<open>The format of an instruction by its opcode field.\<close>

definition r_format :: "nat \<Rightarrow> bool" where
  "r_format op \<longleftrightarrow> op = 0 \<or> op = 0x1c \<or> op = 0x1f"

definition j_format :: "nat \<Rightarrow> bool" where
  "j_format op \<longleftrightarrow> op = 2 \<or> op = 3"

definition bit_layout :: "mem_addr \<Rightarrow> 32 word \<Rightarrow> string \<Rightarrow> string" where
  "bit_layout pc enc mnemonic =
     (if enc = 0 then []
      else if r_format (enc_op enc) then render_r_layout enc mnemonic
      else if j_format (enc_op enc) then render_j_layout pc enc mnemonic
      else render_i_layout enc mnemonic)"

subsection \<open>Decoding step by step\<close>

abbreviation UK5 :: string where "UK5 \<equiv> ''  ?  ''"
abbreviation UK6 :: string where "UK6 \<equiv> ''  ?   ''"
abbreviation UK16 :: string where "UK16 \<equiv> ''       ?        ''"
abbreviation UK26 :: string where "UK26 \<equiv> ''            ?             ''"

definition special_funct_to_name :: "nat \<Rightarrow> string option" where
  "special_funct_to_name = map_of
     [(0x00, ''sll''), (0x02, ''srl''), (0x03, ''sra''), (0x04, ''sllv''),
      (0x06, ''srlv''), (0x07, ''srav''), (0x08, ''jr''), (0x09, ''jalr''),
      (0x0a, ''movz''), (0x0b, ''movn''), (0x0c, ''syscall''), (0x0d, ''break''),
      (0x10, ''mfhi''), (0x11, ''mthi''), (0x12, ''mflo''), (0x13, ''mtlo''),
      (0x18, ''mult''), (0x19, ''multu''), (0x1a, ''div''), (0x1b, ''divu''),
      (0x20, ''add''), (0x21, ''addu''), (0x22, ''sub''), (0x23, ''subu''),
      (0x24, ''and''), (0x25, ''or''), (0x26, ''xor''), (0x27, ''nor''),
      (0x2a, ''slt''), (0x2b, ''sltu'')]"

definition regimm_rt_to_name :: "nat \<Rightarrow> string option" where
  "regimm_rt_to_name = map_of [(0x00, ''bltz''), (0x01, ''bgez''), (0x10, ''bltzal''), (0x11, ''bgezal'')]"

text \<open>What is shown of a field from a step on, and before it.\<close>

definition from_step :: "nat \<Rightarrow> nat \<Rightarrow> string \<Rightarrow> string \<Rightarrow> string" where
  "from_step n step shown unknown = (if n \<le> step then shown else unknown)"

definition r_step_title :: "nat \<Rightarrow> string" where
  "r_step_title step =
     (if step = 1 then (''  Step 1 '' @ DASH @ '' start with the opcode.'' @ [NL]) else if step = 2 then (''  Step 2 '' @ DASH @ '' read funct (bits [5:0]).'' @ [NL])
      else if step = 3 then (''  Step 3 '' @ DASH @ '' read the remaining R-type fields.'' @ [NL]) else [])"

definition r_step_box :: "32 word \<Rightarrow> nat \<Rightarrow> string" where
  "r_step_box enc step =
     (text_lines [''  '' @ TOP_L @ glyphs 8 HLINE @ TOP_M @ glyphs 7 HLINE @ TOP_M @ glyphs 7 HLINE @ TOP_M @
          glyphs 7 HLINE @ TOP_M @ glyphs 7 HLINE @ TOP_M @ glyphs 8 HLINE @ TOP_R,
         ''  '' @ VBAR @ '' '' @ write_bits enc 31 26 @ '' '' @ VBAR @ '' '' @
          from_step 3 step (write_bits enc 25 21) UK5 @ '' '' @ VBAR @ '' '' @
          from_step 3 step (write_bits enc 20 16) UK5 @ '' '' @ VBAR @ '' '' @
          from_step 3 step (write_bits enc 15 11) UK5 @ '' '' @ VBAR @ '' '' @
          from_step 3 step (write_bits enc 10 6) UK5 @ '' '' @ VBAR @ '' '' @
          from_step 2 step (write_bits enc 5 0) UK6 @ '' '' @ VBAR,
         ''  '' @ BOT_L @ glyphs 8 HLINE @ BOT_M @ glyphs 7 HLINE @ BOT_M @ glyphs 7 HLINE @ BOT_M @
          glyphs 7 HLINE @ BOT_M @ glyphs 7 HLINE @ BOT_M @ glyphs 8 HLINE @ BOT_R]) @
     (''   opcode    '' @ pad_to 7 (from_step 3 step ''rs'' ''?'') @ '' '' @
          pad_to 7 (from_step 3 step ''rt'' ''?'') @ '' '' @ pad_to 7 (from_step 3 step ''rd'' ''?'') @
          '' '' @ pad_to 7 (from_step 3 step ''shamt'' ''?'') @ '' '' @ from_step 2 step ''funct'' ''?'' @ [NL])"

definition shamt_used :: "string \<Rightarrow> bool" where
  "shamt_used mnemonic \<longleftrightarrow> mnemonic = ''sll'' \<or> mnemonic = ''srl'' \<or> mnemonic = ''sra''"

definition r_step_values :: "32 word \<Rightarrow> nat \<Rightarrow> string \<Rightarrow> string" where
  "r_step_values enc step mnemonic =
     (if step = 1 then (''   = 0x'' @ fmt_0nx 2 (enc_op enc) @ [NL])
      else if step = 2 then
        (''   = 0x'' @ fmt_0nx 2 (enc_op enc) @ ''                                       = 0x'' @
             fmt_0nx 2 (enc_funct enc) @ [NL])
      else
        (''   = 0x'' @ fmt_0nx 2 (enc_op enc) @ ''    = $'' @ pad_to 5 (reg_of (enc_rs enc)) @ '' = $'' @
             pad_to 5 (reg_of (enc_rt enc)) @ '' = $'' @ pad_to 5 (reg_of (enc_rd enc)) @ '' = '' @
             pad_to 5 (decimal (enc_shamt enc)) @ '' = 0x'' @ fmt_0nx 2 (enc_funct enc) @ [NL]) @
        (if shamt_used mnemonic then []
         else (''                                     (unused for '' @ mnemonic @ '')'' @ [NL])))"

definition funct_name :: "32 word \<Rightarrow> string \<Rightarrow> string" where
  "funct_name enc mnemonic =
     (case special_funct_to_name (enc_funct enc) of
        Some n \<Rightarrow> if enc_op enc = 0 then n else mnemonic
      | None \<Rightarrow> mnemonic)"

definition r_step_note :: "32 word \<Rightarrow> nat \<Rightarrow> string \<Rightarrow> string \<Rightarrow> string" where
  "r_step_note enc step mnemonic grp =
     (if step = 1 then
        (text_lines [''  Opcode 0x'' @ fmt_0nx 2 (enc_op enc) @ '' is the '' @ grp @
             '' group. The CPU can't decide the'',
            ''  operation from the opcode alone '' @ DASH @ '' read the funct field next.''])
      else if step = 2 then
        (text_lines [''  In the '' @ grp @ '' table, funct=0x'' @ fmt_0nx 2 (enc_funct enc) @ '' is `'' @
             funct_name enc mnemonic @ ''`. Now we know'',
            ''  this is R-type '' @ funct_name enc mnemonic @ '', so the remaining fields are rs, rt, rd,'',
            ''  shamt '' @ DASH @ '' read them in turn.''])
      else [])"

definition render_r_decode_step :: "32 word \<Rightarrow> nat \<Rightarrow> string \<Rightarrow> string \<Rightarrow> string" where
  "render_r_decode_step enc step mnemonic grp =
     r_step_title step @ r_step_box enc step @ r_step_values enc step mnemonic @ r_step_note enc step mnemonic grp"

definition i_step_box :: "32 word \<Rightarrow> string \<Rightarrow> string \<Rightarrow> string \<Rightarrow> string" where
  "i_step_box enc rs rt imm = (text_lines [''  '' @ TOP_L @ glyphs 8 HLINE @ TOP_M @ glyphs 7 HLINE @ TOP_M @ glyphs 7 HLINE @ TOP_M @
       glyphs 18 HLINE @ TOP_R,
      ''  '' @ VBAR @ '' '' @ write_bits enc 31 26 @ '' '' @ VBAR @ '' '' @ rs @ '' '' @ VBAR @ '' '' @
       rt @ '' '' @ VBAR @ '' '' @ imm @ '' '' @ VBAR,
      ''  '' @ BOT_L @ glyphs 8 HLINE @ BOT_M @ glyphs 7 HLINE @ BOT_M @ glyphs 7 HLINE @ BOT_M @
       glyphs 18 HLINE @ BOT_R])"

definition render_i_decode_step :: "32 word \<Rightarrow> nat \<Rightarrow> string \<Rightarrow> string" where
  "render_i_decode_step enc step mnemonic =
     (if step = 1 then (''  Step 1 '' @ DASH @ '' start with the opcode.'' @ [NL]) else if step = 2 then (''  Step 2 '' @ DASH @ '' read the remaining I-type fields.'' @ [NL]) else []) @
     i_step_box enc (from_step 2 step (write_bits enc 25 21) UK5) (from_step 2 step (write_bits enc 20 16) UK5)
       (from_step 2 step (write_bits enc 15 0) UK16) @
     (''   opcode    '' @ pad_to 7 (from_step 2 step ''rs'' ''?'') @ '' '' @
          pad_to 7 (from_step 2 step ''rt'' ''?'') @ '' '' @
          from_step 2 step ''imm (16-bit, signed)'' ''?'' @ [NL]) @
     (if step = 1 then (''   = 0x'' @ fmt_0nx 2 (enc_op enc) @ [NL])
      else (''   = 0x'' @ fmt_0nx 2 (enc_op enc) @ ''    = $'' @ pad_to 5 (reg_of (enc_rs enc)) @ '' = $'' @
           pad_to 5 (reg_of (enc_rt enc)) @ '' = '' @ fmt_d (sint (enc_imm enc)) @ ''  (0x'' @
           fmt_0nx 4 (unat (enc_imm enc)) @ '')'' @ [NL])) @
     (if step = 1 then
        (text_lines [''  Opcode 0x'' @ fmt_0nx 2 (enc_op enc) @ '' in the primary table is `'' @ mnemonic @
             ''`. This is an'',
            ''  I-type instruction; the rest of the word is rs, rt, and'',
            ''  a 16-bit signed immediate.'']) else [])"

definition render_j_decode_step :: "mem_addr \<Rightarrow> 32 word \<Rightarrow> nat \<Rightarrow> string \<Rightarrow> string" where
  "render_j_decode_step pc enc step mnemonic =
     (if step = 1 then (''  Step 1 '' @ DASH @ '' start with the opcode.'' @ [NL]) else if step = 2 then (''  Step 2 '' @ DASH @ '' read the target field.'' @ [NL]) else []) @
     (text_lines [''  '' @ TOP_L @ glyphs 8 HLINE @ TOP_M @ glyphs 28 HLINE @ TOP_R,
         ''  '' @ VBAR @ '' '' @ write_bits enc 31 26 @ '' '' @ VBAR @ '' '' @
          from_step 2 step (write_bits enc 25 0) UK26 @ '' '' @ VBAR,
         ''  '' @ BOT_L @ glyphs 8 HLINE @ BOT_M @ glyphs 28 HLINE @ BOT_R]) @
     (''   opcode    '' @ from_step 2 step ''target (26-bit word index)'' ''?'' @ [NL]) @
     (if step = 1 then (''   = 0x'' @ fmt_0nx 2 (enc_op enc) @ [NL])
      else (text_lines [''   = 0x'' @ fmt_0nx 2 (enc_op enc) @ ''    = 0x'' @ fmt_0nx 7 (enc_target enc),
          ''             -> actual address = (PC[31:28] | target<<2)'',
          ''                                = 0x'' @ fmt_08x (jump_addr pc enc)])) @
     (if step = 1 then
        (text_lines [''  Opcode 0x'' @ fmt_0nx 2 (enc_op enc) @ '' in the primary table is `'' @ mnemonic @
             ''`. J-type '' @ DASH,
            ''  one big target field below.'']) else [])"

definition regimm_name :: "32 word \<Rightarrow> string \<Rightarrow> string" where
  "regimm_name enc mnemonic = (case regimm_rt_to_name (enc_rt enc) of Some n \<Rightarrow> n | None \<Rightarrow> mnemonic)"

definition render_regimm_decode_step :: "32 word \<Rightarrow> nat \<Rightarrow> string \<Rightarrow> string" where
  "render_regimm_decode_step enc step mnemonic =
     (if step = 1 then (''  Step 1 '' @ DASH @ '' start with the opcode.'' @ [NL]) else if step = 2 then (''  Step 2 '' @ DASH @ '' read rt-as-selector (bits [20:16]).'' @ [NL])
      else if step = 3 then (''  Step 3 '' @ DASH @ '' read the rs and offset fields.'' @ [NL]) else []) @
     i_step_box enc (from_step 3 step (write_bits enc 25 21) UK5) (from_step 2 step (write_bits enc 20 16) UK5)
       (from_step 3 step (write_bits enc 15 0) UK16) @
     (''   opcode    '' @ pad_to 7 (from_step 3 step ''rs'' ''?'') @ '' '' @
          pad_to 7 (from_step 2 step ''rt-sel'' ''?'') @ '' '' @
          from_step 3 step ''offset (signed)'' ''?'' @ [NL]) @
     (if step = 1 then (''   = 0x'' @ fmt_0nx 2 (enc_op enc) @ [NL])
      else if step = 2 then (''   = 0x'' @ fmt_0nx 2 (enc_op enc) @ ''            = '' @ regimm_name enc mnemonic @ [NL])
      else (''   = 0x'' @ fmt_0nx 2 (enc_op enc) @ ''    = $'' @ pad_to 5 (reg_of (enc_rs enc)) @ '' = '' @
           pad_to 6 (regimm_name enc mnemonic) @ '' = '' @ fmt_d (sint (enc_imm enc)) @
           ''  (target = PC+4 + (offset<<2))'' @ [NL])) @
     (if step = 1 then
        (text_lines [''  Opcode 0x'' @ fmt_0nx 2 (enc_op enc) @ '' is the REGIMM group. Like SPECIAL, but the'',
            ''  selector is in the rt field '' @ DASH @ '' not funct. Read rt next.''])
      else if step = 2 then
        (text_lines [''  In the REGIMM table, rt=0x'' @ fmt_0nx 2 (enc_rt enc) @ '' is `'' @
             regimm_name enc mnemonic @ ''`. This is I-type'',
            ''  with a register tested against zero and a 16-bit branch'',
            ''  displacement.''])
      else [])"

text \<open>The frames of an instruction, with an empty line between two of them.\<close>

definition frames :: "(nat \<Rightarrow> string) \<Rightarrow> nat \<Rightarrow> string" where
  "frames f n = concat (map (\<lambda>s. (if 1 < s then [NL] else []) @ f s) [1..<n + 1])"

definition decoding_steps :: "mem_addr \<Rightarrow> 32 word \<Rightarrow> string \<Rightarrow> string" where
  "decoding_steps pc enc mnemonic =
     (if enc = 0 then []
      else (''  Decoding 0x'' @ fmt_08x enc @ '' step by step:'' @ [NL]) @ render_hex_bin_table enc @ [NL] @
        (let op = enc_op enc
         in if r_format op then frames (\<lambda>s. render_r_decode_step enc s mnemonic (group_name op)) 3
            else if op = 1 then frames (\<lambda>s. render_regimm_decode_step enc s mnemonic) 3
            else if j_format op then frames (\<lambda>s. render_j_decode_step pc enc s mnemonic) 2
            else frames (\<lambda>s. render_i_decode_step enc s mnemonic) 2))"

subsection \<open>Categories\<close>

datatype inst_category =
    CAT_ARITHMETIC
  | CAT_LOGICAL
  | CAT_DATA_TRANSFER
  | CAT_COND_BRANCH
  | CAT_UNCOND_JUMP
  | CAT_SYSTEM

datatype inst_modifier =
    MOD_U_UNSIGNED_ARITH
  | MOD_U_ZERO_EXTEND
  | MOD_I_IMMEDIATE
  | MOD_V_VARIABLE_SHIFT
  | MOD_AL_AND_LINK
  | MOD_L_LIKELY
  | MOD_W_WORD
  | MOD_H_HALFWORD
  | MOD_B_BYTE

fun category_names :: "inst_category \<Rightarrow> string" where
  "category_names CAT_ARITHMETIC = (''Arithmetic'')"
| "category_names CAT_LOGICAL = (''Logical'')"
| "category_names CAT_DATA_TRANSFER = (''Data transfer'')"
| "category_names CAT_COND_BRANCH = (''Conditional branch'')"
| "category_names CAT_UNCOND_JUMP = (''Unconditional jump'')"
| "category_names CAT_SYSTEM = (''System / coprocessor'')"

fun category_descriptions :: "inst_category \<Rightarrow> string" where
  "category_descriptions CAT_ARITHMETIC = (''Integer math on registers. (COD '' @ SECTION @ ''2.2.)'')"
| "category_descriptions CAT_LOGICAL = (''Bitwise operations and shifts. (COD '' @ SECTION @ ''2.6.)'')"
| "category_descriptions CAT_DATA_TRANSFER = (text_lines [''Move data between registers and memory.  MIPS is'',
          ''    load/store '' @ DASH @ '' math never operates on memory directly.''] @ ''    (COD '' @ SECTION @ ''2.3, '' @ SECTION @ ''2.9.)'')"
| "category_descriptions CAT_COND_BRANCH = (text_lines [''Test a condition; if true, transfer PC to a labeled target.''] @ ''    (COD '' @ SECTION @ ''2.7.)'')"
| "category_descriptions CAT_UNCOND_JUMP = (''Transfer PC unconditionally '' @ DASH @ '' no condition test. (COD '' @ SECTION @ ''2.8.)'')"
| "category_descriptions CAT_SYSTEM = (''Operating-system services and miscellaneous control.'')"

fun modifier_letters :: "inst_modifier \<Rightarrow> string" where
  "modifier_letters MOD_U_UNSIGNED_ARITH = (''`u`'')"
| "modifier_letters MOD_U_ZERO_EXTEND = (''`u`'')"
| "modifier_letters MOD_I_IMMEDIATE = (''`i`'')"
| "modifier_letters MOD_V_VARIABLE_SHIFT = (''`v`'')"
| "modifier_letters MOD_AL_AND_LINK = (''`al`'')"
| "modifier_letters MOD_L_LIKELY = (''`l`'')"
| "modifier_letters MOD_W_WORD = (''`w`'')"
| "modifier_letters MOD_H_HALFWORD = (''`h`'')"
| "modifier_letters MOD_B_BYTE = (''`b`'')"

fun modifier_descriptions :: "inst_modifier \<Rightarrow> string" where
  "modifier_descriptions MOD_U_UNSIGNED_ARITH = (text_lines [''unsigned: no trap on overflow. The plain (no-`u`) form''] @ ''          traps on overflow; the `u` form silently wraps.'')"
| "modifier_descriptions MOD_U_ZERO_EXTEND = (text_lines [''unsigned: zero-extend the loaded value to 32 bits. The''] @ ''          plain (no-`u`) load sign-extends instead.'')"
| "modifier_descriptions MOD_I_IMMEDIATE = (text_lines [''immediate form: one operand is a 16-bit constant baked'',
          ''          into the instruction word, not a register. Lets'',
          ''          small constants be supplied without a separate''] @ ''          load.'')"
| "modifier_descriptions MOD_V_VARIABLE_SHIFT = (text_lines [''variable shift: the shift count comes from a register'',
          ''          (rs), not the 5-bit `shamt` field. Allows the''] @ ''          count to be computed at runtime.'')"
| "modifier_descriptions MOD_AL_AND_LINK = (text_lines [''and link: save the return address (PC+4, or PC+8 with'',
          ''          delayed branches) into $ra. Turns the''] @ ''          branch/jump into a subroutine call.'')"
| "modifier_descriptions MOD_W_WORD = (text_lines [''word width: the load/store transfers 32 bits '' @ DASH @ '' one full'',
          ''          register's worth.  MIPS is word-aligned, so the''] @ ''          effective address must be a multiple of 4.'')"
| "modifier_descriptions MOD_H_HALFWORD = (text_lines [''halfword width: the load/store transfers 16 bits.  The''] @ ''          effective address must be a multiple of 2.'')"
| "modifier_descriptions MOD_B_BYTE = (text_lines [''byte width: the load/store transfers 8 bits '' @ DASH @ '' the smallest'',
          ''          addressable unit on MIPS.  No alignment''] @ ''          requirement.'')"
| "modifier_descriptions MOD_L_LIKELY = (text_lines [''likely: if the branch is not taken, the instruction in the'',
          ''          delay slot is NOT executed ('' @ [QUOTE] @ ''nullified'' @ [QUOTE] @ '').  The'',
          ''          plain (no-`l`) branch always executes the delay'',
          ''          slot regardless of the branch outcome.  Used by''] @ ''          compilers to fill the delay slot more aggressively.'')"

text \<open>The switch of \<^verbatim>\<open>lookup_classification\<close>, a row for each of its groups; no row is \<^verbatim>\<open>CAT_COUNT\<close>.\<close>

definition classification :: "(int list \<times> inst_category \<times> inst_modifier list) list" where
  "classification =
    [([TOK_ADD_OPCODE, TOK_SUB_OPCODE, TOK_MUL_OPCODE, TOK_MULT_OPCODE, TOK_DIV_OPCODE, TOK_MFHI_OPCODE, TOK_MFLO_OPCODE], CAT_ARITHMETIC, []),
     ([TOK_ADDU_OPCODE, TOK_SUBU_OPCODE, TOK_MULTU_OPCODE, TOK_DIVU_OPCODE], CAT_ARITHMETIC, [MOD_U_UNSIGNED_ARITH]),
     ([TOK_ADDI_OPCODE], CAT_ARITHMETIC, [MOD_I_IMMEDIATE]),
     ([TOK_ADDIU_OPCODE], CAT_ARITHMETIC, [MOD_I_IMMEDIATE, MOD_U_UNSIGNED_ARITH]),
     ([TOK_AND_OPCODE, TOK_OR_OPCODE, TOK_XOR_OPCODE, TOK_NOR_OPCODE, TOK_SLL_OPCODE, TOK_SRL_OPCODE, TOK_SRA_OPCODE], CAT_LOGICAL, []),
     ([TOK_ANDI_OPCODE, TOK_ORI_OPCODE, TOK_XORI_OPCODE], CAT_LOGICAL, [MOD_I_IMMEDIATE]),
     ([TOK_SLLV_OPCODE, TOK_SRLV_OPCODE, TOK_SRAV_OPCODE], CAT_LOGICAL, [MOD_V_VARIABLE_SHIFT]),
     ([TOK_LW_OPCODE], CAT_DATA_TRANSFER, [MOD_W_WORD]),
     ([TOK_LH_OPCODE], CAT_DATA_TRANSFER, [MOD_H_HALFWORD]),
     ([TOK_LHU_OPCODE], CAT_DATA_TRANSFER, [MOD_H_HALFWORD, MOD_U_ZERO_EXTEND]),
     ([TOK_LB_OPCODE], CAT_DATA_TRANSFER, [MOD_B_BYTE]),
     ([TOK_LBU_OPCODE], CAT_DATA_TRANSFER, [MOD_B_BYTE, MOD_U_ZERO_EXTEND]),
     ([TOK_SW_OPCODE], CAT_DATA_TRANSFER, [MOD_W_WORD]),
     ([TOK_SH_OPCODE], CAT_DATA_TRANSFER, [MOD_H_HALFWORD]),
     ([TOK_SB_OPCODE], CAT_DATA_TRANSFER, [MOD_B_BYTE]),
     ([TOK_LUI_OPCODE], CAT_DATA_TRANSFER, []),
     ([TOK_BEQ_OPCODE, TOK_BNE_OPCODE, TOK_BGEZ_OPCODE, TOK_BGTZ_OPCODE, TOK_BLEZ_OPCODE, TOK_BLTZ_OPCODE, TOK_SLT_OPCODE], CAT_COND_BRANCH, []),
     ([TOK_SLTU_OPCODE], CAT_COND_BRANCH, [MOD_U_UNSIGNED_ARITH]),
     ([TOK_SLTI_OPCODE], CAT_COND_BRANCH, [MOD_I_IMMEDIATE]),
     ([TOK_SLTIU_OPCODE], CAT_COND_BRANCH, [MOD_I_IMMEDIATE, MOD_U_UNSIGNED_ARITH]),
     ([TOK_BGEZAL_OPCODE, TOK_BLTZAL_OPCODE], CAT_COND_BRANCH, [MOD_AL_AND_LINK]),
     ([TOK_BEQL_OPCODE, TOK_BNEL_OPCODE, TOK_BGEZL_OPCODE, TOK_BGTZL_OPCODE, TOK_BLEZL_OPCODE, TOK_BLTZL_OPCODE], CAT_COND_BRANCH, [MOD_L_LIKELY]),
     ([TOK_BGEZALL_OPCODE, TOK_BLTZALL_OPCODE], CAT_COND_BRANCH, [MOD_AL_AND_LINK, MOD_L_LIKELY]),
     ([TOK_J_OPCODE, TOK_JR_OPCODE], CAT_UNCOND_JUMP, []),
     ([TOK_JAL_OPCODE, TOK_JALR_OPCODE], CAT_UNCOND_JUMP, [MOD_AL_AND_LINK]),
     ([TOK_SYSCALL_OPCODE], CAT_SYSTEM, [])]"

definition lookup_classification :: "int \<Rightarrow> (inst_category \<times> inst_modifier list) option" where
  "lookup_classification op = map_option snd (List.find (\<lambda>(ops, _). op \<in> set ops) classification)"

definition emit_category_preamble :: "mips_instruction \<Rightarrow> string" where
  "emit_category_preamble i =
     (case lookup_classification (OPCODE i) of
        None \<Rightarrow> []
      | Some (cat, mods) \<Rightarrow>
          (text_lines [''  Category: '' @ category_names cat,
              ''    '' @ category_descriptions cat]) @
          (if mods \<noteq> []
           then (''  Modifiers in `'' @ inst_op_name (Some i) @ ''`:'' @ [NL]) @
             concat (map (\<lambda>m. (''    '' @ modifier_letters m @ '' '' @ DASH @ '' '' @ modifier_descriptions m @ [NL])) mods)
           else []))"

end
