(* ===== verification/Breakpoints.thy ===== *)
theory Breakpoints
  imports Disasm
begin

text \<open>
  Breakpoints: the instruction that stands for one and its installation (\<^verbatim>\<open>inst_is_breakpoint\<close>,
  \<^verbatim>\<open>set_breakpoint\<close> of \<^verbatim>\<open>instruction.c\<close>), the list of breakpoints (\<^verbatim>\<open>spim-utils.c\<close>), and the
  printing of instructions: \<^verbatim>\<open>format_an_inst\<close> takes a breakpoint out of memory to print the
  instruction under it and puts it back.
\<close>

subsection \<open>Setting and testing\<close>

definition make_break_inst :: "unit mcomp" where
  "make_break_inst s =
    (if break_inst s = None
     then bnd (new_inst (make_r_type_inst TOK_BREAK_OPCODE 1 0 0)) (\<lambda>p. modify (\<lambda>s. s\<lparr>break_inst := p\<rparr>)) s
     else ret () s)"

definition inst_is_breakpoint :: "mem_addr \<Rightarrow> bool mcomp" where
  "inst_is_breakpoint addr =
    seq make_break_inst (bnd (mem_read_inst addr) (\<lambda>p. gets (\<lambda>s. p = break_inst s)))"

text \<open>The old instruction, or null when there is none or the address cannot be written.\<close>

definition set_breakpoint :: "host \<Rightarrow> mem_addr \<Rightarrow> ptr mcomp" where
  "set_breakpoint H addr =
    seq make_break_inst (seq (modify (\<lambda>s. s\<lparr>exception_occurred := False\<rparr>))
      (bnd (mem_read_inst addr) (\<lambda>old_inst. bnd (gets break_inst) (\<lambda>brk.
        if old_inst = brk then ret None
        else seq (mem_write_inst H addr brk)
          (bnd (gets exception_occurred) (\<lambda>exc. ret (if exc then None else old_inst)))))))"

subsection \<open>The list\<close>

definition add_breakpoint :: "host \<Rightarrow> mem_addr \<Rightarrow> unit mcomp" where
  "add_breakpoint H addr =
    bnd (set_breakpoint H addr) (\<lambda>old. modify (\<lambda>s. case old of
       Some q \<Rightarrow> s\<lparr>bkpts := (addr, q) # bkpts s\<rparr>
     | None \<Rightarrow> if exception_occurred s then error_out ''Cannot put a breakpoint at address 0x%08x'' [addr] s
               else error_out ''No instruction to breakpoint at address 0x%08x'' [addr] s))"

text \<open>The loop of \<^verbatim>\<open>delete_breakpoint\<close>: the records passed over, the rest; whether it deleted one.\<close>

fun delete_from :: "host \<Rightarrow> mem_addr \<Rightarrow> (mem_addr \<times> nat) list \<Rightarrow> (mem_addr \<times> nat) list \<Rightarrow> bool mcomp" where
  "delete_from H addr kept [] = ret False"
| "delete_from H addr kept ((a, q) # rest) =
    (if a = addr
     then seq (mem_write_inst H addr (Some q)) (seq (modify (\<lambda>s. s\<lparr>bkpts := kept @ rest\<rparr>))
            (bnd (delete_from H addr kept rest) (\<lambda>_. ret True)))
     else delete_from H addr (kept @ [(a, q)]) rest)"

definition delete_breakpoint :: "host \<Rightarrow> mem_addr \<Rightarrow> unit mcomp" where
  "delete_breakpoint H addr =
    bnd (gets bkpts) (\<lambda>bs. bnd (delete_from H addr [] bs) (\<lambda>deleted_one.
      whn (\<not> deleted_one) (modify (error_out ''No breakpoint to delete at 0x%08x'' [addr]))))"

definition delete_all_breakpoints :: "machine \<Rightarrow> machine" where
  "delete_all_breakpoints s = s\<lparr>bkpts := []\<rparr>"

definition list_breakpoints :: "machine \<Rightarrow> machine" where
  "list_breakpoints s = s\<lparr>console_out := console_out s @
     (if bkpts s \<noteq> [] then map (\<lambda>(a, q). Con_Message ''Breakpoint at 0x%08x'' [a]) (bkpts s)
      else [Con_Message ''No breakpoints set'' []])\<rparr>"

subsection \<open>Printing an instruction\<close>

text \<open>
  \<^verbatim>\<open>format_an_inst\<close> returns the text it appends. The recursion is on the instruction under the
  breakpoint; it ends when deleting the breakpoint took it out of memory, and the fuel bounds it.
\<close>

fun format_an_inst :: "host \<Rightarrow> nat \<Rightarrow> ptr \<Rightarrow> mem_addr \<Rightarrow> string mcomp" where
  "format_an_inst H 0 p addr = throw Out_Of_Fuel"
| "format_an_inst H (Suc fuel) p addr =
    bnd (if addr \<noteq> 0 then inst_is_breakpoint addr else ret False) (\<lambda>b.
      if b then seq (delete_breakpoint H addr) (bnd (mem_read_inst addr) (\<lambda>p.
          bnd (format_an_inst H fuel p addr) (\<lambda>t. seq (add_breakpoint H addr) (ret (CHR ''*'' # t)))))
      else format_inst_text p addr)"

text \<open>
  \<^verbatim>\<open>inst_to_string\<close>: it clears the exception flag before it fetches. One level of recursion is
  enough in a machine whose breakpoints are all recorded.
\<close>

definition inst_to_string :: "host \<Rightarrow> mem_addr \<Rightarrow> string mcomp" where
  "inst_to_string H addr =
    seq (modify (\<lambda>s. s\<lparr>exception_occurred := False\<rparr>))
      (bnd (mem_read_inst addr) (\<lambda>p. bnd (gets exception_occurred) (\<lambda>exc.
        if exc then seq (modify (error_out ''Can't print instruction not in text segment (0x%08x)'' [addr])) (ret [])
        else format_an_inst H 2 p addr)))"

definition print_inst :: "host \<Rightarrow> mem_addr \<Rightarrow> unit mcomp" where
  "print_inst H addr =
    bnd (inst_to_string H addr) (\<lambda>t. modify (\<lambda>s. s\<lparr>console_out := console_out s @ [Con_Text ''%s'' t]\<rparr>))"

end
