(* ===== verification/Symbols.thy ===== *)
theory Symbols
  imports Breakpoints
begin

text \<open>
  The symbol table (\<^verbatim>\<open>symbol-table.c\<close>) with what it uses of \<^verbatim>\<open>instruction.c\<close> (immediate
  expressions) and \<^verbatim>\<open>pseudo-op.c\<close> (the error counters). The table is an array of chains of labels; a chain is the list of the labels' heap addresses in link order. The links
  \<^verbatim>\<open>next_local\<close> may form a cycle, so they stay pointers. The hooks \<^verbatim>\<open>asm_fire_*\<close>, which tell an
  observer what was assembled, change nothing of the machine and are left out.
\<close>

subsection \<open>Objects on the heap\<close>

definition upd_label :: "nat \<Rightarrow> (label \<Rightarrow> label) \<Rightarrow> machine \<Rightarrow> machine" where
  "upd_label q f s = s\<lparr>label_heap := (label_heap s)(q := map_option f (label_heap s q))\<rparr>"

definition upd_inst :: "nat \<Rightarrow> (mips_instruction \<Rightarrow> mips_instruction) \<Rightarrow> machine \<Rightarrow> machine" where
  "upd_inst q f s = s\<lparr>inst_heap := (inst_heap s)(q := map_option f (inst_heap s q))\<rparr>"

definition label_defined :: "label \<Rightarrow> bool" where
  "label_defined l \<longleftrightarrow> label_addr l \<noteq> 0"

text \<open>A message that mentions a name.\<close>

definition error_text :: "string \<Rightarrow> string \<Rightarrow> machine \<Rightarrow> machine" where
  "error_text fmt name s = s\<lparr>console_out := console_out s @ [Con_Text fmt name]\<rparr>"

text \<open>\<^verbatim>\<open>inst_encode\<close> as a call: an instruction of no known type ends the process.\<close>

definition encode_inst :: "mips_instruction \<Rightarrow> 32 word mcomp" where
  "encode_inst i = (case inst_encode i of Some w \<Rightarrow> ret w
     | None \<Rightarrow> throw (Fatal_Error ''Unknown instruction type in inst_encoding''))"

subsection \<open>The counters of parse errors\<close>

definition parse_warn :: "string \<Rightarrow> machine \<Rightarrow> machine" where
  "parse_warn msg = error_text ''spim: (parser) %s on line %d of file %s'' msg"

definition parse_error :: "string \<Rightarrow> machine \<Rightarrow> machine" where
  "parse_error msg s =
     parse_warn msg (s\<lparr>parse_error_occurred := True, parse_errors_seen := parse_errors_seen s + 1\<rparr>)"

subsection \<open>Assembly locations\<close>

definition current_text_pc :: "machine \<Rightarrow> mem_addr" where
  "current_text_pc s = (if text_in_kernel s then next_k_text_pc s else next_text_pc s)"

definition current_data_pc :: "machine \<Rightarrow> mem_addr" where
  "current_data_pc s = (if data_in_kernel s then next_k_data_pc s else next_data_pc s)"

subsection \<open>The table\<close>

abbreviation LABEL_HASH_TABLE_SIZE :: "32 word" where "LABEL_HASH_TABLE_SIZE \<equiv> 8191"

text \<open>The characters are \<^verbatim>\<open>char\<close>, which is signed, and converted to \<^verbatim>\<open>unsigned\<close>.\<close>

definition hash_slot :: "string \<Rightarrow> nat" where
  "hash_slot name =
     (let hi = fold (\<lambda>c h. h * 613 + scast (of_char c :: byte)) name (of_nat (length name) :: 32 word);
          hi = hi AND (push_bit 30 1 - 1)
      in unat (hi mod LABEL_HASH_TABLE_SIZE))"

fun find_in_chain :: "string \<Rightarrow> nat list \<Rightarrow> ptr mcomp" where
  "find_in_chain name [] = ret None"
| "find_in_chain name (q # chain) =
     bnd (deref_label (Some q)) (\<lambda>l. if label_name l = name then ret (Some q) else find_in_chain name chain)"

definition get_hash :: "string \<Rightarrow> (nat \<times> ptr) mcomp" where
  "get_hash name =
     (let hi = hash_slot name
      in bnd (gets (\<lambda>s. label_hash_table s hi)) (\<lambda>chain. bnd (find_in_chain name chain) (\<lambda>entry. ret (hi, entry))))"

definition label_is_defined :: "string \<Rightarrow> ptr mcomp" where
  "label_is_defined name = bnd (get_hash name) (\<lambda>(hi, entry). ret entry)"

text \<open>A fresh label. \<^verbatim>\<open>next_local\<close> is not set by the C code and not read before it is.\<close>

definition new_label :: "string \<Rightarrow> label" where
  "new_label name = \<lparr>label_name = name, label_addr = 0, global_flag = False, gp_flag = False,
     const_flag = False, next_local = None, label_uses = []\<rparr>"

definition lookup_label :: "string \<Rightarrow> nat mcomp" where
  "lookup_label name =
     bnd (get_hash name) (\<lambda>(hi, entry). case entry of Some q \<Rightarrow> ret q
       | None \<Rightarrow> bnd (gets next_obj) (\<lambda>q.
           seq (modify (\<lambda>s. s\<lparr>label_heap := (label_heap s)(q \<mapsto> new_label name), next_obj := next_obj s + 1,
                  label_hash_table := (label_hash_table s)(hi := q # label_hash_table s hi)\<rparr>))
             (ret q)))"

text \<open>Freeing the labels of all chains.\<close>

definition free_labels :: "nat list \<Rightarrow> machine \<Rightarrow> machine" where
  "free_labels qs s = s\<lparr>label_heap := (\<lambda>q. if q \<in> set qs then None else label_heap s q)\<rparr>"

definition all_labels :: "machine \<Rightarrow> nat list" where
  "all_labels s = concat (map (label_hash_table s) [0 ..< unat LABEL_HASH_TABLE_SIZE])"

definition initialize_symbol_table :: "machine \<Rightarrow> machine" where
  "initialize_symbol_table s =
     (free_labels (all_labels s) s)\<lparr>label_hash_table := (\<lambda>_. []), local_labels := None\<rparr>"

definition make_label_global :: "string \<Rightarrow> nat mcomp" where
  "make_label_global name =
     bnd (lookup_label name) (\<lambda>q. seq (modify (upd_label q (\<lambda>l. l\<lparr>global_flag := True\<rparr>))) (ret q))"

subsection \<open>Immediate expressions\<close>

definition make_imm_expr :: "32 word \<Rightarrow> string option \<Rightarrow> bool \<Rightarrow> imm_expr mcomp" where
  "make_imm_expr offs symb is_pc_relative =
     (case symb of
        None \<Rightarrow> ret \<lparr>expr_offset = offs, expr_symbol = None, expr_bits = 0, expr_pc_relative = is_pc_relative\<rparr>
      | Some name \<Rightarrow> bnd (lookup_label name) (\<lambda>q.
          ret \<lparr>expr_offset = offs, expr_symbol = Some q, expr_bits = 0, expr_pc_relative = is_pc_relative\<rparr>))"

definition upper_bits_of_expr :: "imm_expr \<Rightarrow> imm_expr" where
  "upper_bits_of_expr e = e\<lparr>expr_bits := 1\<rparr>"

definition lower_bits_of_expr :: "imm_expr \<Rightarrow> imm_expr" where
  "lower_bits_of_expr e = e\<lparr>expr_bits := -1\<rparr>"

definition const_imm_expr :: "32 word \<Rightarrow> imm_expr" where
  "const_imm_expr v = \<lparr>expr_offset = v, expr_symbol = None, expr_bits = 0, expr_pc_relative = False\<rparr>"

definition incr_expr_offset :: "imm_expr \<Rightarrow> 32 word \<Rightarrow> imm_expr" where
  "incr_expr_offset e v = e\<lparr>expr_offset := expr_offset e + v\<rparr>"

definition is_zero_imm :: "imm_expr \<Rightarrow> bool" where
  "is_zero_imm e \<longleftrightarrow> expr_offset e = 0 \<and> expr_symbol e = None"

text \<open>\<^verbatim>\<open>(value >> 16) & 0xffff\<close> and \<^verbatim>\<open>value & 0xffff\<close> by the sign of \<^verbatim>\<open>bits\<close>.\<close>

definition select_bits :: "int \<Rightarrow> 32 word \<Rightarrow> 32 word" where
  "select_bits bits v =
     (if bits > 0 then drop_bit 16 v AND 0xffff else if bits < 0 then v AND 0xffff else v)"

definition eval_imm_expr :: "imm_expr \<Rightarrow> 32 word mcomp" where
  "eval_imm_expr e =
     bnd (case expr_symbol e of
            None \<Rightarrow> ret (expr_offset e)
          | Some q \<Rightarrow> bnd (deref_label (Some q)) (\<lambda>l.
              if label_defined l then ret (expr_offset e + ucast (label_addr l))
              else seq (modify (error_text ''Evaluated undefined symbol: %s'' (label_name l))) (ret 0)))
       (\<lambda>v. ret (select_bits (expr_bits e) v))"

record addr_expr =
  reg_no :: byte
  addr_imm :: imm_expr

definition make_addr_expr :: "32 word \<Rightarrow> string option \<Rightarrow> byte \<Rightarrow> addr_expr mcomp" where
  "make_addr_expr offs symb reg =
     (let plain = bnd (make_imm_expr offs symb False) (\<lambda>e. ret \<lparr>reg_no = reg, addr_imm = e\<rparr>)
      in case symb of
           None \<Rightarrow> plain
         | Some name \<Rightarrow>
             (if reg = 0
              then bnd (lookup_label name) (\<lambda>q. bnd (deref_label (Some q)) (\<lambda>l.
                if gp_flag l
                then bnd (gets gp_midpoint) (\<lambda>mid.
                  bnd (make_imm_expr (offs + ucast (label_addr l) - mid) None False)
                    (\<lambda>e. ret \<lparr>reg_no = 28, addr_imm = e\<rparr>))
                else plain))
              else plain))"

subsection \<open>References\<close>

definition add_use :: "nat \<Rightarrow> label_use \<Rightarrow> machine \<Rightarrow> machine" where
  "add_use q u = upd_label q (\<lambda>l. l\<lparr>label_uses := u # label_uses l\<rparr>)"

definition copy_inst :: "nat \<Rightarrow> ptr mcomp" where
  "copy_inst q = bnd (deref_inst (Some q)) (\<lambda>i. if inst_expr i = None then throw Crash else new_inst i)"

definition record_inst_uses_symbol :: "nat \<Rightarrow> nat \<Rightarrow> unit mcomp" where
  "record_inst_uses_symbol inst symb =
     bnd (gets data_dir) (\<lambda>dd.
       if dd
       then bnd (copy_inst inst) (\<lambda>c. bnd (gets current_data_pc) (\<lambda>pc.
              modify (add_use symb \<lparr>use_inst = c, use_addr = pc\<rparr>)))
       else bnd (gets current_text_pc) (\<lambda>pc. modify (add_use symb \<lparr>use_inst = Some inst, use_addr = pc\<rparr>)))"

definition record_data_uses_symbol :: "mem_addr \<Rightarrow> nat \<Rightarrow> unit mcomp" where
  "record_data_uses_symbol location symb = modify (add_use symb \<lparr>use_inst = None, use_addr = location\<rparr>)"

subsection \<open>Resolution\<close>

text \<open>The expression of an instruction (\<^verbatim>\<open>EXPR\<close>), dereferenced.\<close>

definition deref_expr :: "mips_instruction \<Rightarrow> imm_expr mcomp" where
  "deref_expr i = (case inst_expr i of None \<Rightarrow> throw Crash | Some e \<Rightarrow> ret e)"

definition symbol_known :: "ptr \<Rightarrow> bool mcomp" where
  "symbol_known p = (case p of None \<Rightarrow> ret True | Some q \<Rightarrow> bnd (deref_label (Some q)) (\<lambda>l. ret (label_defined l)))"

text \<open>The field of a branch: a displacement in words, one less with a delay slot.\<close>

definition branch_field :: "bool \<Rightarrow> 32 word \<Rightarrow> 32 word" where
  "branch_field delayed v =
     (let val = signed_drop_bit 2 (sign_ex v) AND 0xffff in if delayed then val - 1 else val)"

text \<open>
  The test on an instruction before a load or store with a negative low half: a \<^verbatim>\<open>lui\<close> of the
  same symbol that has no immediate yet. \<^verbatim>\<open>lui_before\<close> tells whether it is one.
\<close>

definition lui_before :: "imm_expr \<Rightarrow> ptr \<Rightarrow> bool mcomp" where
  "lui_before e p =
     (case p of None \<Rightarrow> ret False
      | Some q \<Rightarrow> bnd (deref_inst p) (\<lambda>i.
          if OPCODE i \<noteq> TOK_LUI_OPCODE then ret False
          else bnd (deref_expr i) (\<lambda>pe. ret (expr_symbol e = expr_symbol pe \<and> IMM i = 0))))"

definition bump_lui :: "ptr \<Rightarrow> machine \<Rightarrow> machine" where
  "bump_lui p s = (case p of None \<Rightarrow> s
     | Some q \<Rightarrow> upd_inst q (\<lambda>i. i\<lparr>inst_expr := map_option (\<lambda>e. incr_expr_offset e 0x10000) (inst_expr i)\<rparr>) s)"

definition compensate_lui :: "imm_expr \<Rightarrow> mem_addr \<Rightarrow> unit mcomp" where
  "compensate_lui e pc =
     bnd (mem_read_inst (pc - BYTES_PER_WORD)) (\<lambda>prev.
     bnd (mem_read_inst (pc - 2 * BYTES_PER_WORD)) (\<lambda>prev_prev.
     bnd (lui_before e prev) (\<lambda>b.
       if b then modify (bump_lui prev)
       else bnd (lui_before e prev_prev) (\<lambda>b2. whn b2 (modify (bump_lui prev_prev))))))"

text \<open>The value of a reference and the mask of its field, by the class of the instruction.\<close>

definition reference_value :: "mips_instruction \<Rightarrow> imm_expr \<Rightarrow> mem_addr \<Rightarrow> (32 word \<times> 32 word) mcomp" where
  "reference_value i e pc =
     (if opcode_is_branch (OPCODE i)
      then bnd (eval_imm_expr e) (\<lambda>v. bnd (gets delayed_branches) (\<lambda>d. ret (branch_field d v, 0xffff)))
      else if opcode_is_jump (OPCODE i)
      then bnd (eval_imm_expr e) (\<lambda>v.
        seq (whn (v AND 0xf0000000 \<noteq> pc AND 0xf0000000)
               (modify (error_out ''Target of jump differs in high-order 4 bits from instruction pc 0x%x'' [pc])))
          (ret (drop_bit 2 (v AND 0x0fffffff), 0xffffffff)))
      else if opcode_is_load_store (OPCODE i)
      then bnd (eval_imm_expr e) (\<lambda>v.
        seq (whn (v AND 0x8000 \<noteq> 0) (compensate_lui e pc)) (ret (v, 0xffff)))
      else bnd (eval_imm_expr e) (\<lambda>v. ret (v, 0xffff)))"

definition resolve_inst :: "host \<Rightarrow> nat \<Rightarrow> mem_addr \<Rightarrow> unit mcomp" where
  "resolve_inst H q pc =
     bnd (deref_inst (Some q)) (\<lambda>i. bnd (deref_expr i) (\<lambda>e0.
     seq (whn (expr_pc_relative e0) (modify (upd_inst q (\<lambda>i. i\<lparr>inst_expr := Some (e0\<lparr>expr_offset := 0 - pc\<rparr>)\<rparr>))))
      (let e = (if expr_pc_relative e0 then e0\<lparr>expr_offset := 0 - pc\<rparr> else e0)
       in bnd (symbol_known (expr_symbol e)) (\<lambda>known.
         if known
         then bnd (reference_value i e pc) (\<lambda>(value, field_mask).
           seq (whn (value AND NOT field_mask \<noteq> 0 \<and> value AND NOT field_mask \<noteq> 0xffff0000)
                 (seq (modify (error_out ''Immediate value is too large for field: '' [])) (print_inst H pc)))
           (seq (modify (upd_inst q (if opcode_is_jump (OPCODE i) then SET_TARGET value else SET_IMM (ucast value))))
             (bnd (deref_inst (Some q)) (\<lambda>i. bnd (encode_inst i) (\<lambda>w. modify (upd_inst q (SET_ENCODING w)))))))
         else bnd (deref_label (expr_symbol e)) (\<lambda>l.
           modify (error_text ''Resolving undefined symbol: %s'' (label_name l)))))))"

definition resolve_a_label_sub :: "host \<Rightarrow> nat option \<Rightarrow> ptr \<Rightarrow> mem_addr \<Rightarrow> unit mcomp" where
  "resolve_a_label_sub H symb inst pc =
     (case inst of
        None \<Rightarrow> bnd (deref_label symb) (\<lambda>l. mem_write_word H pc (ucast (label_addr l)))
      | Some q \<Rightarrow> resolve_inst H q pc)"

definition resolve_a_label :: "host \<Rightarrow> nat option \<Rightarrow> nat \<Rightarrow> unit mcomp" where
  "resolve_a_label H symb inst =
     bnd (gets (\<lambda>s. if data_dir s then current_data_pc s else current_text_pc s)) (\<lambda>pc.
       resolve_a_label_sub H symb (Some inst) pc)"

definition resolve_use :: "host \<Rightarrow> nat \<Rightarrow> label_use \<Rightarrow> unit mcomp" where
  "resolve_use H symb u =
     seq (resolve_a_label_sub H (Some symb) (use_inst u) (use_addr u))
      (bnd (gets stack_bot) (\<lambda>sb.
        case use_inst u of None \<Rightarrow> ret ()
        | Some q \<Rightarrow> whn (use_addr u \<ge> DATA_BOT \<and> use_addr u < sb)
            (bnd (deref_inst (Some q)) (\<lambda>i. bnd (encode_inst i) (\<lambda>w.
               seq (mem_write_word H (use_addr u) w) (modify (free_inst q)))))))"

fun resolve_uses_of :: "host \<Rightarrow> nat \<Rightarrow> label_use list \<Rightarrow> unit mcomp" where
  "resolve_uses_of H symb [] = ret ()"
| "resolve_uses_of H symb (u # us) = seq (resolve_use H symb u) (resolve_uses_of H symb us)"

definition resolve_label_uses :: "host \<Rightarrow> nat \<Rightarrow> unit mcomp" where
  "resolve_label_uses H symb =
     bnd (deref_label (Some symb)) (\<lambda>l.
       seq (resolve_uses_of H symb (label_uses l)) (modify (upd_label symb (\<lambda>l. l\<lparr>label_uses := []\<rparr>))))"

subsection \<open>Definition of a label\<close>

definition push_local :: "nat \<Rightarrow> machine \<Rightarrow> machine" where
  "push_local q s = (upd_label q (\<lambda>l. l\<lparr>next_local := local_labels s\<rparr>) s)\<lparr>local_labels := Some q\<rparr>"

definition record_label :: "host \<Rightarrow> string \<Rightarrow> mem_addr \<Rightarrow> bool \<Rightarrow> nat mcomp" where
  "record_label H name address resolve_uses =
     bnd (lookup_label name) (\<lambda>q. bnd (deref_label (Some q)) (\<lambda>l.
       if \<not> gp_flag l \<and> label_addr l \<noteq> 0
       then seq (modify (parse_error ''Label is defined for the second time'')) (ret q)
       else
         seq (whn (\<not> gp_flag l) (modify (upd_label q (\<lambda>l. l\<lparr>label_addr := ucast address\<rparr>))))
        (seq (whn resolve_uses (resolve_label_uses H q))
        (seq (whn (\<not> global_flag l) (modify (push_local q)))
          (ret q)))))"

text \<open>
  \<^verbatim>\<open>flush_local_labels\<close> follows \<^verbatim>\<open>next_local\<close> to its end; the fuel bounds the number of labels on
  the list.
\<close>

definition unlink_label :: "bool \<Rightarrow> label \<Rightarrow> unit mcomp" where
  "unlink_label warn l =
     bnd (get_hash (label_name l)) (\<lambda>(hi, entry).
       case entry of None \<Rightarrow> ret ()
       | Some e \<Rightarrow>
           seq (modify (\<lambda>s. s\<lparr>label_hash_table := (label_hash_table s)(hi := remove1 e (label_hash_table s hi))\<rparr>))
            (bnd (deref_label (Some e)) (\<lambda>l'.
              whn (warn \<and> label_addr l' = 0 \<and> \<not> const_flag l')
                (modify (error_text ''Warning: local symbol %s was not defined'' (label_name l'))))))"

fun flush_from :: "nat \<Rightarrow> bool \<Rightarrow> ptr \<Rightarrow> unit mcomp" where
  "flush_from fuel warn None = ret ()"
| "flush_from 0 warn (Some q) = throw Out_Of_Fuel"
| "flush_from (Suc fuel) warn (Some q) =
     bnd (deref_label (Some q)) (\<lambda>l. seq (unlink_label warn l) (flush_from fuel warn (next_local l)))"

definition flush_local_labels :: "nat \<Rightarrow> bool \<Rightarrow> unit mcomp" where
  "flush_local_labels fuel issue_undef_warnings =
     seq (bnd (gets local_labels) (flush_from fuel issue_undef_warnings))
       (modify (\<lambda>s. s\<lparr>local_labels := None\<rparr>))"

definition find_symbol_address :: "string \<Rightarrow> mem_addr mcomp" where
  "find_symbol_address symbol =
     bnd (lookup_label symbol) (\<lambda>q. bnd (deref_label (Some q)) (\<lambda>l.
       ret (if label_addr l = 0 then 0 else ucast (label_addr l))))"

subsection \<open>Listings\<close>

fun deref_labels :: "nat list \<Rightarrow> label list mcomp" where
  "deref_labels [] = ret []"
| "deref_labels (q # qs) = bnd (deref_label (Some q)) (\<lambda>l. bnd (deref_labels qs) (\<lambda>ls. ret (l # ls)))"

definition table_labels :: "label list mcomp" where
  "table_labels = bnd (gets all_labels) deref_labels"

definition print_symbols :: "unit mcomp" where
  "print_symbols = bnd table_labels (\<lambda>ls. modify (\<lambda>s. s\<lparr>console_out := console_out s @
     concat (map (\<lambda>l. [Con_Text ((if global_flag l then ''g'' else []) @ [CHR 0x09] @ ''%s'') (label_name l),
       Con_Message '' at 0x%08x'' [ucast (label_addr l)]]) ls)\<rparr>))"

definition print_undefined_symbols :: "unit mcomp" where
  "print_undefined_symbols = bnd table_labels (\<lambda>ls. modify (\<lambda>s. s\<lparr>console_out := console_out s @
     concat (map (\<lambda>l. if label_addr l = 0 then [Con_Text ''%s'' (label_name l)] else []) ls)\<rparr>))"

text \<open>
  \<^verbatim>\<open>undefined_symbol_string\<close> grows a buffer: its length, the bytes in use, the bytes.
\<close>

definition append_name :: "string \<Rightarrow> nat \<times> nat \<times> string \<Rightarrow> nat \<times> nat \<times> string" where
  "append_name name = (\<lambda>(buffer_length, string_length, buffer).
     let after_length = string_length + length name + 2;
         buffer_length = (if buffer_length < after_length then max (2 * buffer_length) (2 * after_length) else buffer_length)
     in (buffer_length, string_length + length name + 1, buffer @ name @ [CHR 0x0A]))"

definition undefined_symbol_string :: "string option mcomp" where
  "undefined_symbol_string = bnd table_labels (\<lambda>ls.
     let r = fold (\<lambda>l r. if label_addr l = 0 then append_name (label_name l) r else r) ls (128, 0, '''')
     in ret (if fst (snd r) \<noteq> 0 then Some (snd (snd r)) else None))"

end
