(* ===== verification/Display.thy ===== *)
theory Display
  imports Symbols Fpu
begin

text \<open>
  What the debugger prints (\<^verbatim>\<open>display-utils.c\<close>, \<^verbatim>\<open>print_mem\<close> of \<^verbatim>\<open>memory.c\<close>): registers, memory and
  the text segment. Printing memory reads it through the ordinary readers, so it can raise the
  exceptions a program's own accesses raise. \<^verbatim>\<open>printf\<close>'s \<^verbatim>\<open>%#-13.6g\<close> is the parameter \<open>g\<close>.
\<close>

subsection \<open>Output\<close>

definition write_text :: "string \<Rightarrow> unit mcomp" where
  "write_text t = modify (\<lambda>s. s\<lparr>console_out := console_out s @ [Con_Text ''%s'' t]\<rparr>)"

definition write_message :: "string \<Rightarrow> 32 word list \<Rightarrow> unit mcomp" where
  "write_message fmt args = modify (\<lambda>s. s\<lparr>console_out := console_out s @ [Con_Message fmt args]\<rparr>)"

subsection \<open>Registers\<close>

definition special_registers :: "machine \<Rightarrow> string" where
  "special_registers s =
     '' PC      = '' @ fmt_08x (PC s) @ ''   '' @ ''EPC     = '' @ fmt_08x (CP0_EPC s) @ ''  '' @
     '' Cause   = '' @ fmt_08x (CP0_Cause s) @ ''  '' @ '' BadVAddr= '' @ fmt_08x (CP0_BadVAddr s) @ [NL] @
     '' Status  = '' @ fmt_08x (CP0_Status s) @ ''   '' @ ''HI      = '' @ fmt_08x (HI s) @ ''  '' @
     '' LO      = '' @ fmt_08x (LO s) @ [NL]"

definition gpr_cell :: "bool \<Rightarrow> machine \<Rightarrow> nat \<Rightarrow> string" where
  "gpr_cell hex s i =
     CHR ''R'' # pad_right 2 CHR '' '' (decimal i) @ '' ('' @ pad_left 2 CHR '' '' (int_reg_names ! i) @ '') = '' @
     (if hex then fmt_08x (gpr s i) else pad_right 10 CHR '' '' (fmt_int (gpr s i)))"

text \<open>Four columns, \<open>d\<close> apart, with \<open>fill\<close> between them.\<close>

definition four_columns :: "(nat \<Rightarrow> string) \<Rightarrow> string \<Rightarrow> nat \<Rightarrow> nat \<Rightarrow> string" where
  "four_columns cell fill d i =
     cell i @ fill @ cell (i + d) @ fill @ cell (i + 2 * d) @ fill @ cell (i + 3 * d) @ [NL]"

definition fp_double_cell :: "(64 word \<Rightarrow> string) \<Rightarrow> bool \<Rightarrow> machine \<Rightarrow> nat \<Rightarrow> string" where
  "fp_double_cell g hex s i =
     ''FP'' @ pad_right 2 CHR '' '' (decimal (2 * i)) @
     (if hex then ''='' @ fmt_08x (fp_int_view s (2 * i)) @ '','' @ fmt_08x (fp_int_view s (2 * i + 1))
      else '' = '' @ g (fp_double_view s i))"

definition fp_single_cell :: "host \<Rightarrow> (64 word \<Rightarrow> string) \<Rightarrow> bool \<Rightarrow> machine \<Rightarrow> nat \<Rightarrow> string" where
  "fp_single_cell H g hex s i =
     ''FP'' @ pad_right 2 CHR '' '' (decimal i) @
     (if hex then ''='' @ fmt_08x (fp_int_view s i) else '' = '' @ g (s_to_d H (FPR_S i s)))"

definition format_registers :: "host \<Rightarrow> (64 word \<Rightarrow> string) \<Rightarrow> bool \<Rightarrow> bool \<Rightarrow> machine \<Rightarrow> string" where
  "format_registers H g gpr_hex fpr_hex s =
     special_registers s @ replicate 4 TAB @ '' General Registers'' @ [NL] @
     concat (map (four_columns (gpr_cell gpr_hex s) (if gpr_hex then ''  '' else '' '') 8) [0..<8]) @
     NL # '' FIR    = '' @ fmt_08x (coprocessor_1 s FIR_REG) @ ''   '' @
     '' FCSR    = '' @ fmt_08x (coprocessor_1 s FCSR_REG) @ ''   '' @
     replicate 3 TAB @ ''      Double Floating Point Registers'' @ [NL] @
     concat (map (four_columns (fp_double_cell g fpr_hex s) '' '' 4) [0..<4]) @
     replicate 3 TAB @ ''      Single Floating Point Registers'' @ [NL] @
     concat (map (four_columns (fp_single_cell H g fpr_hex s) '' '' 8) [0..<8])"

subsection \<open>Instructions\<close>

fun format_insts :: "host \<Rightarrow> nat \<Rightarrow> mem_addr \<Rightarrow> mem_addr \<Rightarrow> string mcomp" where
  "format_insts H 0 from to = throw Out_Of_Fuel"
| "format_insts H (Suc n) from to =
     (if from < to
      then bnd (mem_read_inst from) (\<lambda>p.
           bnd (if p \<noteq> None then format_an_inst H 2 p from else ret []) (\<lambda>t.
           bnd (format_insts H n (from + 4) to) (\<lambda>u. ret (t @ u))))
      else ret [])"

definition print_text_listing :: "host \<Rightarrow> nat \<Rightarrow> unit mcomp" where
  "print_text_listing H n =
     bnd (gets text_top) (\<lambda>top. bnd (format_insts H n TEXT_BOT top) (\<lambda>t.
       if t = [] then write_message ''No program loaded.'' []
       else seq (write_message ''USER TEXT SEGMENT'' []) (write_text t)))"

subsection \<open>Memory\<close>

abbreviation BYTES_PER_LINE :: "32 word" where "BYTES_PER_LINE \<equiv> 16"

definition word_cell :: "32 word \<Rightarrow> string" where
  "word_cell w = ''  '' @ fmt_0x w"

definition line_head :: "mem_addr \<Rightarrow> string" where
  "line_head a = ''['' @ fmt_0x a @ '']'' @ [TAB, TAB] @ ''      ''"

text \<open>The words up to the next line: the loops of \<^verbatim>\<open>format_partial_line\<close> and of \<^verbatim>\<open>format_mem\<close> (\<^verbatim>\<open>do ... while\<close>).\<close>

fun rest_of_words :: "host \<Rightarrow> nat \<Rightarrow> mem_addr \<Rightarrow> (string \<times> mem_addr) mcomp" where
  "rest_of_words H 0 a = throw Out_Of_Fuel"
| "rest_of_words H (Suc n) a =
     (if a mod BYTES_PER_LINE \<noteq> 0
      then bnd (mem_read_word H a) (\<lambda>v. bnd (rest_of_words H n (a + BYTES_PER_WORD)) (\<lambda>(t, b). ret (word_cell v @ t, b)))
      else ret ([], a))"

definition format_partial_line :: "host \<Rightarrow> mem_addr \<Rightarrow> (string \<times> mem_addr) mcomp" where
  "format_partial_line H a =
     (if a mod BYTES_PER_LINE \<noteq> 0
      then bnd (rest_of_words H 5 a) (\<lambda>(t, b). ret (line_head a @ t @ [NL], b))
      else ret ([], a))"

definition full_line :: "host \<Rightarrow> mem_addr \<Rightarrow> (string \<times> mem_addr) mcomp" where
  "full_line H a =
     bnd (mem_read_word H a) (\<lambda>v. bnd (rest_of_words H 5 (a + BYTES_PER_WORD)) (\<lambda>(t, b).
       ret (line_head a @ word_cell v @ t @ [NL], b)))"

text \<open>How many words from \<open>a\<close> on are zero, up to \<open>to\<close>.\<close>

fun zero_words :: "host \<Rightarrow> nat \<Rightarrow> mem_addr \<Rightarrow> mem_addr \<Rightarrow> nat \<Rightarrow> nat mcomp" where
  "zero_words H 0 a to j = throw Out_Of_Fuel"
| "zero_words H (Suc n) a to j =
     (if a + of_nat j * BYTES_PER_WORD < to
      then bnd (mem_read_word H (a + of_nat j * BYTES_PER_WORD)) (\<lambda>v.
           if v \<noteq> 0 then ret j else zero_words H n a to (j + 1))
      else ret j)"

fun format_lines :: "host \<Rightarrow> nat \<Rightarrow> mem_addr \<Rightarrow> mem_addr \<Rightarrow> string mcomp" where
  "format_lines H 0 a to = throw Out_Of_Fuel"
| "format_lines H (Suc n) a to =
     (if a < to
      then bnd (zero_words H (Suc n) a to 0) (\<lambda>j.
           if 4 \<le> j
           then let b = a + of_nat j * BYTES_PER_WORD
                in bnd (format_partial_line H b) (\<lambda>(t, c). bnd (format_lines H n c to) (\<lambda>u.
                     ret (''['' @ fmt_0x a @ '']...['' @ fmt_0x b @ '']'' @ [TAB] @ ''0x00000000'' @ [NL] @ t @ u)))
           else bnd (full_line H a) (\<lambda>(t, c). bnd (format_lines H n c to) (\<lambda>u. ret (t @ u))))
      else ret [])"

definition format_mem :: "host \<Rightarrow> nat \<Rightarrow> mem_addr \<Rightarrow> mem_addr \<Rightarrow> string mcomp" where
  "format_mem H n from to =
     bnd (format_partial_line H (ROUND_UP from BYTES_PER_WORD)) (\<lambda>(t, a).
     bnd (format_lines H n a to) (\<lambda>u. ret (t @ u)))"

definition format_data_segs :: "host \<Rightarrow> nat \<Rightarrow> string mcomp" where
  "format_data_segs H n =
     bnd (gets (\<lambda>s. (data_top s, gpr s 29))) (\<lambda>(top, sp).
     bnd (format_mem H n DATA_BOT top) (\<lambda>d.
     bnd (format_mem H n (ROUND_DOWN sp BYTES_PER_WORD) STACK_TOP) (\<lambda>k.
     bnd (gets k_data_top) (\<lambda>ktop. bnd (format_mem H n K_DATA_BOT ktop) (\<lambda>kd.
     ret (TAB # ''DATA'' @ [NL] @ d @ [NL, TAB] @ ''STACK'' @ [NL] @ k @ [NL, TAB] @ ''KERNEL DATA'' @ [NL] @ kd))))))"

definition print_mem :: "host \<Rightarrow> mem_addr \<Rightarrow> unit mcomp" where
  "print_mem H a0 s =
     (let a = a0 AND NOT 3
      in if TEXT_BOT \<le> a \<and> a < text_top s then print_inst H a s
         else if DATA_BOT \<le> a \<and> a < data_top s
         then bnd (mem_read_word H a) (\<lambda>v. write_message ''Data seg @ 0x%08x (%d) = 0x%08x (%d)'' [a, a, v, v]) s
         else if stack_bot s \<le> a \<and> a < STACK_TOP
         then bnd (mem_read_word H a) (\<lambda>v. write_message ''Stack seg @ 0x%08x (%d) = 0x%08x (%d)'' [a, a, v, v]) s
         else if K_TEXT_BOT \<le> a \<and> a < k_text_top s then print_inst H a s
         else if K_DATA_BOT \<le> a \<and> a < k_data_top s
         then bnd (mem_read_word H a) (\<lambda>v. write_message ''Kernel Data seg @ 0x%08x (%d) = 0x%08x (%d)'' [a, a, v, v]) s
         else write_message ''Address 0x%08x (%d) to print_mem is out of bounds'' [a, a] s)"

end
