(* ===== verification/Explain.thy ===== *)
theory Explain
  imports ExplainText Display
begin

text \<open>
  The teaching mode (\<^verbatim>\<open>explain.c\<close>): \<^verbatim>\<open>explain_before\<close> takes a snapshot before an instruction is executed,
  \<^verbatim>\<open>explain_after\<close> narrates what it did. Its state is the record \<open>narration\<close>. A register number past the table of names
  is a crash (the C code reads outside the array). The names of registers are read before a line is
  written rather than while it is.
\<close>

subsection \<open>Output\<close>

fun in_order :: "unit mcomp list \<Rightarrow> unit mcomp" where
  "in_order [] = ret ()"
| "in_order (m # ms) = seq m (in_order ms)"

definition narrate :: "(machine \<Rightarrow> string) \<Rightarrow> unit mcomp" where
  "narrate f = bnd (gets f) (\<lambda>t. whn (t \<noteq> []) (write_text t))"

definition upd_explain :: "(narration \<Rightarrow> narration) \<Rightarrow> unit mcomp" where
  "upd_explain f = modify (\<lambda>s. s\<lparr>explain := f (explain s)\<rparr>)"

definition named :: "byte \<Rightarrow> (string \<Rightarrow> unit mcomp) \<Rightarrow> unit mcomp" where
  "named r f = (if r < 32 then f (int_reg_names ! unat r) else throw Crash)"

definition snap :: "byte \<Rightarrow> machine \<Rightarrow> reg_word" where
  "snap r s = snap_R (explain s) (unat r)"

subsection \<open>Suggestions for completion\<close>

abbreviation MAX_SUGGESTIONS :: nat where "MAX_SUGGESTIONS \<equiv> 16"

definition explain_clear_suggestions :: "unit mcomp" where
  "explain_clear_suggestions = upd_explain (\<lambda>n. n\<lparr>suggestions := []\<rparr>)"

definition add_suggestion :: "string \<Rightarrow> unit mcomp" where
  "add_suggestion cmd = upd_explain (\<lambda>n.
     if MAX_SUGGESTIONS \<le> length (suggestions n) then n else n\<lparr>suggestions := suggestions n @ [cmd]\<rparr>)"

definition explain_suggestion :: "nat \<Rightarrow> machine \<Rightarrow> string option" where
  "explain_suggestion i s =
     (let ts = suggestions (explain s) in if length ts \<le> i then None else Some (ts ! i))"

subsection \<open>The header of a step\<close>

definition explain_print_step_header :: "host \<Rightarrow> mem_addr \<Rightarrow> mips_instruction \<Rightarrow> unit mcomp" where
  "explain_print_step_header H pc i =
     bnd (gets (\<lambda>s. legend_emitted (explain s))) (\<lambda>shown.
     in_order
       [whn (\<not> shown) (seq (write_text emit_legend) (upd_explain (\<lambda>n. n\<lparr>legend_emitted := True\<rparr>))),
        write_text [NL], write_text hr, write_text (''Stepped at PC = 0x'' @ fmt_08x pc @ '':'' @ [NL]),
        bnd (inst_to_string H pc) (\<lambda>dis.
          case inst_encode i of
            None \<Rightarrow> throw Crash
          | Some enc \<Rightarrow>
              (let (dasm, source) = split_listing dis
               in seq (write_text (''    memory[0x'' @ fmt_08x pc @ ''] = 0x'' @ fmt_08x enc @ ''   '' @ ARROW @ ''   '' @ dasm @ [NL]))
                    (case source of
                       Some src \<Rightarrow> whn (src \<noteq> []) (write_text (''    source line '' @ src @ [NL]))
                     | None \<Rightarrow> ret ())))])"

subsection \<open>Reading memory from the narration\<close>

text \<open>The flag and the bad address are put back; the other registers an exception writes are not.\<close>

definition peek :: "reg_word mcomp \<Rightarrow> reg_word mcomp" where
  "peek rd =
     bnd (gets (\<lambda>s. (exception_occurred s, CP0_BadVAddr s))) (\<lambda>(se, sbv).
     bnd rd (\<lambda>v. seq (modify (\<lambda>s. set_cp0 CP0_BadVAddr_Reg sbv (s\<lparr>exception_occurred := se\<rparr>))) (ret v)))"

definition peek_word :: "host \<Rightarrow> mem_addr \<Rightarrow> reg_word mcomp" where
  "peek_word H addr = peek (mem_read_word H addr)"

definition peek_half :: "host \<Rightarrow> mem_addr \<Rightarrow> reg_word mcomp" where
  "peek_half H addr = peek (mem_read_half H addr)"

definition peek_byte :: "host \<Rightarrow> mem_addr \<Rightarrow> reg_word mcomp" where
  "peek_byte H addr = peek (mem_read_byte H addr)"

text \<open>The value of a width in bytes.\<close>

definition width_mask :: "nat \<Rightarrow> 32 word" where
  "width_mask width = (if width = 1 then 0xff else if width = 2 then 0xffff else 0xffffffff)"

definition peek_width :: "host \<Rightarrow> nat \<Rightarrow> mem_addr \<Rightarrow> reg_word mcomp" where
  "peek_width H width a =
     (if width = 1 then bnd (peek_byte H a) (\<lambda>v. ret (v AND 0xff))
      else if width = 2 then bnd (peek_half H a) (\<lambda>v. ret (v AND 0xffff))
      else peek_word H a)"

subsection \<open>Lines\<close>

abbreviation what_it_did :: "unit mcomp" where "what_it_did \<equiv> write_text (''  What it did:'' @ [NL])"
abbreviation inputs_title :: "unit mcomp" where "inputs_title \<equiv> write_text (''  Inputs (before this step):'' @ [NL])"
abbreviation wrote_title :: "unit mcomp" where "wrote_title \<equiv> write_text (''  Wrote:'' @ [NL])"

definition say_input_reg :: "byte \<Rightarrow> unit mcomp" where
  "say_input_reg r = whn (r \<noteq> 0) (named r (\<lambda>n. narrate (\<lambda>s.
     (''    $'' @ n @ '' = 0x'' @ fmt_08x (snap r s) @ ''  (decimal '' @ fmt_int (snap r s) @ '')'' @ [NL]))))"

definition say_input_imm :: "half \<Rightarrow> unit mcomp" where
  "say_input_imm imm = write_text (''    immediate = '' @ fmt_d (sint imm) @ ''  (0x'' @ fmt_0nx 4 (unat imm) @ '')'' @ [NL])"

definition say_wrote_reg :: "byte \<Rightarrow> unit mcomp" where
  "say_wrote_reg r = whn (r \<noteq> 0) (named r (\<lambda>n. seq
     (narrate (\<lambda>s. (''    $'' @ n @ '':  0x'' @ fmt_08x (snap r s) @ ''  '' @ ARROW @ ''  0x'' @
          fmt_08x (gpr s (unat r)) @ ''   (decimal '' @ fmt_int (gpr s (unat r)) @ '')'' @ [NL])))
     (upd_explain (\<lambda>t. t\<lparr>touched_reg := (touched_reg t)(unat r := True)\<rparr>))))"

definition say_wrote_hi :: "unit mcomp" where
  "say_wrote_hi = seq (narrate (\<lambda>s. (''    HI:   0x'' @ fmt_08x (snap_HI (explain s)) @ ''  '' @ ARROW @ ''  0x'' @ fmt_08x (HI s) @ [NL])))
     (upd_explain (\<lambda>t. t\<lparr>touched_hi := True\<rparr>))"

definition say_wrote_lo :: "unit mcomp" where
  "say_wrote_lo = seq (narrate (\<lambda>s. (''    LO:   0x'' @ fmt_08x (snap_LO (explain s)) @ ''  '' @ ARROW @ ''  0x'' @ fmt_08x (LO s) @ [NL])))
     (upd_explain (\<lambda>t. t\<lparr>touched_lo := True\<rparr>))"

definition say_wrote_mem :: "host \<Rightarrow> nat \<Rightarrow> unit mcomp" where
  "say_wrote_mem H width =
     bnd (gets (\<lambda>s. (snap_has_mem (explain s), snap_mem_addr (explain s), snap_mem_val (explain s)))) (\<lambda>(has, a, prior).
     whn has (bnd (peek_width H width a) (\<lambda>now.
       seq (write_text (''  Wrote to memory:'' @ [NL]))
         (write_text (''    0x'' @ fmt_08x a @ '':  0x'' @ fmt_08x (prior AND width_mask width) @ ''  '' @ ARROW @
              ''  0x'' @ fmt_08x (now AND width_mask width) @ [NL])))))"

text \<open>The value a store overwrites, shown by the templates of stores.\<close>

definition say_prior_mem :: "(machine \<Rightarrow> mem_addr) \<Rightarrow> nat \<Rightarrow> unit mcomp" where
  "say_prior_mem at width =
     bnd (gets (\<lambda>s. snap_has_mem (explain s))) (\<lambda>has. whn has (narrate (\<lambda>s.
       (''    memory at 0x'' @ fmt_08x (at s) @ '' = 0x'' @
            fmt_08x (snap_mem_val (explain s) AND width_mask width) @ [NL]))))"

definition count_line :: "unit mcomp" where
  "count_line = upd_explain (\<lambda>n. n\<lparr>try_lines_emitted := try_lines_emitted n + 1\<rparr>)"

definition try_line :: "string \<Rightarrow> string \<Rightarrow> unit mcomp" where
  "try_line text cmd = in_order [write_text text, add_suggestion cmd, count_line]"

fun try_regs :: "byte list \<Rightarrow> byte list \<Rightarrow> unit mcomp" where
  "try_regs seen [] = ret ()"
| "try_regs seen (r # rs) =
     seq (whn (r \<noteq> 0 \<and> r \<notin> set seen) (named r (\<lambda>n. try_line (''    print $'' @ n @ [NL]) (''print $'' @ n))))
       (try_regs (seen @ [r]) rs)"

definition say_try_regs :: "byte \<Rightarrow> byte \<Rightarrow> byte \<Rightarrow> byte \<Rightarrow> unit mcomp" where
  "say_try_regs a b c d = in_order
     [write_text (''  Try it yourself:'' @ [NL]),
      upd_explain (\<lambda>n. n\<lparr>try_block_active := True, try_lines_emitted := 0\<rparr>),
      try_regs [] [a, b, c, d]]"

definition say_try :: "string \<Rightarrow> string \<Rightarrow> unit mcomp" where
  "say_try cmd why = try_line (''    '' @ pad_to 22 cmd @ '' # '' @ why @ [NL]) cmd"

definition pad_try :: "string \<Rightarrow> string \<Rightarrow> unit mcomp" where
  "pad_try text cmd = bnd (gets (\<lambda>s. try_lines_emitted (explain s))) (\<lambda>n. whn (n < 3) (try_line text cmd))"

definition say_try_finish :: "unit mcomp" where
  "say_try_finish = bnd (gets (\<lambda>s. try_block_active (explain s))) (\<lambda>active. whn active (in_order
     [pad_try (''    print_all_regs         # show every register'' @ [NL]) ''print_all_regs'',
      pad_try (''    step                   # advance to the next instruction'' @ [NL]) ''step'',
      pad_try (''    continue               # run until the next breakpoint'' @ [NL]) ''continue'',
      upd_explain (\<lambda>n. n\<lparr>try_block_active := False\<rparr>)]))"

subsection \<open>Templates of arithmetic\<close>

definition tpl_r3_arith :: "nat \<Rightarrow> mips_instruction \<Rightarrow> string \<Rightarrow> string \<Rightarrow> unit mcomp" where
  "tpl_r3_arith level i label text = named (RD i) (\<lambda>rd. in_order
     [what_it_did,
      write_text (''    '' @ label @ '' '' @ DASH @ '' '' @
           subst_field_regs 512 text (Some (RS i)) (Some (RT i)) (Some (RD i)) @
           ''; the result was placed in $'' @ rd @ ''.'' @ [NL]),
      whn (2 \<le> level) (in_order
        [inputs_title, whn (RS i = 0 \<and> RT i = 0) (write_text (''    (both source registers are $zero)'' @ [NL])),
         say_input_reg (RS i), say_input_reg (RT i), wrote_title, say_wrote_reg (RD i),
         say_try_regs (RS i) (RT i) (RD i) 0])])"

definition tpl_i2_arith :: "nat \<Rightarrow> mips_instruction \<Rightarrow> string \<Rightarrow> string \<Rightarrow> unit mcomp" where
  "tpl_i2_arith level i label text = named (RT i) (\<lambda>rt. in_order
     [what_it_did,
      write_text (''    '' @ label @ '' '' @ DASH @ '' '' @
           subst_field_regs 512 text (Some (RS i)) (Some (RT i)) None @ ''; the result was placed in $'' @
           rt @ ''.'' @ [NL]),
      whn (2 \<le> level) (in_order
        [inputs_title, say_input_reg (RS i), say_input_imm (IMM i), wrote_title, say_wrote_reg (RT i),
         say_try_regs (RS i) (RT i) 0 0])])"

definition tpl_shift :: "nat \<Rightarrow> mips_instruction \<Rightarrow> string \<Rightarrow> string \<Rightarrow> unit mcomp" where
  "tpl_shift level i label text = named (RD i) (\<lambda>rd. in_order
     [what_it_did,
      write_text (''    '' @ label @ '' '' @ DASH @ '' '' @
           subst_field_regs 512 text None (Some (RT i)) (Some (RD i)) @ '' by '' @
           decimal (unat (SHAMT i)) @ '' bit'' @ (if SHAMT i = 1 then [] else ''s'') @
           ''; the result was placed in $'' @ rd @ ''.'' @ [NL]),
      whn (2 \<le> level) (in_order
        [inputs_title, say_input_reg (RT i), write_text (''    shift amount = '' @ decimal (unat (SHAMT i)) @ [NL]),
         wrote_title, say_wrote_reg (RD i), say_try_regs (RT i) (RD i) 0 0])])"

subsection \<open>Templates of loads and stores\<close>

text \<open>The effective address, from the base register before the step.\<close>

definition snap_ea :: "mips_instruction \<Rightarrow> machine \<Rightarrow> mem_addr" where
  "snap_ea i s = snap (BASE i) s + IOFFSET i"

definition offset_sign :: "mips_instruction \<Rightarrow> string" where
  "offset_sign i = (if IMM i <s 0 then ''-'' else ''+'')"

definition offset_abs :: "mips_instruction \<Rightarrow> string" where
  "offset_abs i = fmt_d \<bar>sint (IMM i)\<bar>"

definition say_effective_address :: "mips_instruction \<Rightarrow> unit mcomp" where
  "say_effective_address i = named (BASE i) (\<lambda>base. narrate (\<lambda>s.
     (''    Effective address = $'' @ base @ '' '' @ offset_sign i @ '' '' @ offset_abs i @
          ''  =  0x'' @ fmt_08x (snap (BASE i) s) @ '' '' @ offset_sign i @ '' '' @ offset_abs i @
          ''  =  0x'' @ fmt_08x (snap_ea i s) @ ''.'' @ [NL])))"

definition say_offset :: "mips_instruction \<Rightarrow> unit mcomp" where
  "say_offset i = write_text (''    offset = '' @ fmt_d (sint (IMM i)) @ ''  (0x'' @ fmt_0nx 4 (unat (IMM i)) @ '')'' @ [NL])"

definition say_memory_at :: "host \<Rightarrow> nat \<Rightarrow> mips_instruction \<Rightarrow> unit mcomp" where
  "say_memory_at H width i =
     bnd (gets (snap_ea i)) (\<lambda>ea. bnd (peek_width H width ea) (\<lambda>cur.
       write_text (''    memory at 0x'' @ fmt_08x ea @ '' = 0x'' @ fmt_08x cur @ [NL])))"

definition say_try_memory :: "mips_instruction \<Rightarrow> unit mcomp" where
  "say_try_memory i =
     bnd (gets (snap_ea i)) (\<lambda>ea. named (BASE i) (\<lambda>base.
       seq (say_try (''print 0x'' @ fmt_08x ea) ''inspect that memory'')
         (say_try (''print '' @ fmt_d (sint (IMM i)) @ ''($'' @ base @ '')'') (''same memory, using the N($reg) form you wrote''))))"

definition tpl_load :: "host \<Rightarrow> nat \<Rightarrow> mips_instruction \<Rightarrow> string \<Rightarrow> string \<Rightarrow> nat \<Rightarrow> unit mcomp" where
  "tpl_load H level i label text width = named (RT i) (\<lambda>rt. in_order
     [what_it_did, write_text (''    '' @ label @ '' '' @ DASH @ '' read '' @ text @
          '' from memory at the effective address; placed the result in $'' @ rt @ ''.'' @ [NL]), say_effective_address i,
      whn (2 \<le> level) (in_order
        [inputs_title, say_input_reg (BASE i), say_offset i, say_memory_at H width i, wrote_title, say_wrote_reg (RT i),
         say_try_regs (BASE i) (RT i) 0 0, say_try_memory i])])"

definition tpl_store :: "host \<Rightarrow> nat \<Rightarrow> mips_instruction \<Rightarrow> string \<Rightarrow> string \<Rightarrow> nat \<Rightarrow> unit mcomp" where
  "tpl_store H level i label text width = named (RT i) (\<lambda>rt. in_order
     [what_it_did, write_text (''    '' @ label @ '' '' @ DASH @ '' wrote '' @ text @ '' from $'' @ rt @
          '' into memory at the effective address.'' @ [NL]), say_effective_address i,
      whn (2 \<le> level) (in_order
        [inputs_title, say_input_reg (BASE i), say_input_reg (RT i), say_offset i, say_prior_mem (snap_ea i) width,
         say_wrote_mem H width, say_try_regs (BASE i) (RT i) 0 0, say_try_memory i])])"

definition tpl_load_unaligned :: "host \<Rightarrow> nat \<Rightarrow> mips_instruction \<Rightarrow> string \<Rightarrow> string \<Rightarrow> unit mcomp" where
  "tpl_load_unaligned H level i label text = named (RT i) (\<lambda>rt. in_order
     [what_it_did, write_text (''    '' @ label @ '' '' @ DASH @ '' merged '' @ text @ '' into $'' @ rt @
          ''; preserved the other bytes already there.'' @ [NL]), say_effective_address i,
      write_text (''    Typically paired with the matching opcode to assemble a full word from a potentially-misaligned address.'' @ [NL]),
      whn (2 \<le> level) (in_order
        [inputs_title, say_input_reg (BASE i), say_input_reg (RT i), say_offset i,
         bnd (gets (\<lambda>s. snap_ea i s AND NOT 3)) (\<lambda>a. bnd (peek_word H a) (\<lambda>v.
           write_text (''    memory at 0x'' @ fmt_08x a @ '' (containing word) = 0x'' @ fmt_08x v @ [NL]))),
         wrote_title, say_wrote_reg (RT i), say_try_regs (BASE i) (RT i) 0 0])])"

definition tpl_store_unaligned :: "host \<Rightarrow> nat \<Rightarrow> mips_instruction \<Rightarrow> string \<Rightarrow> string \<Rightarrow> unit mcomp" where
  "tpl_store_unaligned H level i label text = named (RT i) (\<lambda>rt. in_order
     [what_it_did, write_text (''    '' @ label @ '' '' @ DASH @ '' wrote '' @ text @ '' from $'' @ rt @
          '' into the word containing the effective address; preserved the other bytes of that word.'' @ [NL]), say_effective_address i,
      write_text (''    Typically paired with the matching opcode to store a full word to a potentially-misaligned address.'' @ [NL]),
      whn (2 \<le> level) (in_order
        [inputs_title, say_input_reg (BASE i), say_input_reg (RT i), say_offset i,
         say_prior_mem (\<lambda>s. snap_mem_addr (explain s)) 4, say_wrote_mem H 4, say_try_regs (BASE i) (RT i) 0 0])])"

definition tpl_load_linked :: "host \<Rightarrow> nat \<Rightarrow> mips_instruction \<Rightarrow> unit mcomp" where
  "tpl_load_linked H level i = named (RT i) (\<lambda>rt. in_order
     [what_it_did, write_text (''    Load Linked '' @ DASH @
          '' read a 32-bit word from memory at the effective address; placed the result in $'' @ rt @
          ''.'' @ [NL]), say_effective_address i,
      write_text (''    On real multiprocessor MIPS, ll also tags a link register so a subsequent sc can detect intervening writes.  In spim's single-threaded model, ll is just a plain word load.'' @ [NL]),
      whn (2 \<le> level) (in_order
        [inputs_title, say_input_reg (BASE i), say_offset i, say_memory_at H 4 i, wrote_title, say_wrote_reg (RT i),
         say_try_regs (BASE i) (RT i) 0 0])])"

definition tpl_store_conditional :: "host \<Rightarrow> nat \<Rightarrow> mips_instruction \<Rightarrow> unit mcomp" where
  "tpl_store_conditional H level i = named (RT i) (\<lambda>rt. in_order
     [what_it_did, write_text (''    Store Conditional '' @ DASH @ '' wrote the 32-bit value from $'' @ rt @
          '' into memory at the effective address.'' @ [NL]), say_effective_address i,
      write_text (''    On real multiprocessor MIPS, sc only succeeds if no intervening write happened since the matching ll, and writes 1 (success) or 0 (failure) to $'' @
           rt @ ''.  In spim, sc always succeeds and does NOT update $'' @ rt @ ''.'' @ [NL]),
      whn (2 \<le> level) (in_order
        [inputs_title, say_input_reg (BASE i), say_input_reg (RT i), say_offset i, say_prior_mem (snap_ea i) 4,
         say_wrote_mem H 4, say_try_regs (BASE i) (RT i) 0 0])])"

definition ft_name :: "mips_instruction \<Rightarrow> string" where
  "ft_name i = decimal (unat (FT i))"

definition ft_next :: "mips_instruction \<Rightarrow> string" where
  "ft_next i = decimal (unat (FT i) + 1)"

definition tpl_load_fp :: "host \<Rightarrow> nat \<Rightarrow> mips_instruction \<Rightarrow> string \<Rightarrow> nat \<Rightarrow> unit mcomp" where
  "tpl_load_fp H level i label width = in_order
     [what_it_did,
      write_text (if width = 4 then (''    '' @ label @ '' '' @ DASH @
           '' read 4 bytes from memory at the effective address; placed the result in FP register $f'' @
           ft_name i @ ''.'' @ [NL]) else (''    '' @ label @ '' '' @ DASH @
           '' read 8 bytes from memory at the effective address; placed them in the FP register pair $f'' @
           ft_name i @ '' / $f'' @ ft_next i @ ''.'' @ [NL])),
      say_effective_address i,
      whn (width = 8) (write_text (''    ldc1 in spim requires 4-byte alignment; real MIPS requires 8-byte alignment.'' @ [NL])),
      whn (2 \<le> level) (in_order
        [inputs_title, say_input_reg (BASE i), say_offset i,
         (if width = 4
          then in_order [say_memory_at H 4 i, wrote_title, write_text (''    $f'' @ ft_name i @ ''  '' @ LARROW @
               '' loaded 4 bytes (typically interpreted as a single-precision float, or as a raw 32-bit int).'' @ [NL])]
          else in_order
            [bnd (gets (snap_ea i)) (\<lambda>ea. bnd (peek_word H ea) (\<lambda>lo. bnd (peek_word H (ea + 4)) (\<lambda>hi.
               write_text (''    memory at 0x'' @ fmt_08x ea @ '' = 0x'' @ fmt_08x lo @ '' 0x'' @ fmt_08x hi @
                    ''  (low / high words)'' @ [NL])))),
             wrote_title, write_text (''    $f'' @ ft_name i @ '' / $f'' @ ft_next i @ ''  '' @ LARROW @
                  '' loaded 8 bytes (typically interpreted as a double-precision float).'' @ [NL])]),
         say_try_regs (BASE i) 0 0 0])]"

definition tpl_store_fp :: "nat \<Rightarrow> mips_instruction \<Rightarrow> string \<Rightarrow> nat \<Rightarrow> unit mcomp" where
  "tpl_store_fp level i label width = in_order
     [what_it_did,
      write_text (if width = 4 then (''    '' @ label @ '' '' @ DASH @ '' wrote 4 bytes from FP register $f'' @ ft_name i @
           '' into memory at the effective address.'' @ [NL]) else (''    '' @ label @ '' '' @ DASH @ '' wrote 8 bytes from the FP register pair $f'' @ ft_name i @
           '' / $f'' @ ft_next i @ '' into memory at the effective address.'' @ [NL])),
      say_effective_address i,
      whn (width = 8) (write_text (''    sdc1 in spim requires 4-byte alignment; real MIPS requires 8-byte alignment.'' @ [NL])),
      whn (2 \<le> level) (in_order
        [inputs_title, say_input_reg (BASE i), say_offset i, write_text (''  Wrote to memory:'' @ [NL]),
         narrate (\<lambda>s. if width = 4 then (''    0x'' @ fmt_08x (snap_ea i s) @ ''  '' @ LARROW @ '' 4 bytes from $f'' @ ft_name i @ [NL])
           else (''    0x'' @ fmt_08x (snap_ea i s) @ ''  '' @ LARROW @ '' 8 bytes from $f'' @ ft_name i @
                '' / $f'' @ ft_next i @ '' (low / high words)'' @ [NL])),
         say_try_regs (BASE i) 0 0 0])]"

subsection \<open>Templates of branches\<close>

definition narrated_target :: "mips_instruction \<Rightarrow> machine \<Rightarrow> mem_addr" where
  "narrated_target i s = snap_PC (explain s) + 4 + BRANCH_OFFSET i"

definition truth :: "bool \<Rightarrow> string" where
  "truth b = (if b then ''true'' else ''false'')"

definition verdict :: "bool \<Rightarrow> string" where
  "verdict b = (if b then ''taken'' else ''NOT taken'')"

definition say_branch_target :: "mips_instruction \<Rightarrow> unit mcomp" where
  "say_branch_target i = narrate (\<lambda>s. (''    branch target = 0x'' @ fmt_08x (narrated_target i s) @ [NL]))"

definition tpl_branch_2reg :: "nat \<Rightarrow> mips_instruction \<Rightarrow> string \<Rightarrow> string \<Rightarrow> (reg_word \<Rightarrow> reg_word \<Rightarrow> bool) \<Rightarrow> unit mcomp" where
  "tpl_branch_2reg level i label symbol test = named (RS i) (\<lambda>rs. named (RT i) (\<lambda>rt. in_order
     [what_it_did,
      narrate (\<lambda>s. (''    '' @ label @ '' '' @ DASH @ '' would transfer to 0x'' @ fmt_08x (narrated_target i s) @
           '' if ($'' @ rs @ '' '' @ symbol @ '' $'' @ rt @ '').'' @ [NL])),
      write_text (''  Comparison:'' @ [NL]),
      narrate (\<lambda>s. let taken = test (snap (RS i) s) (snap (RT i) s)
        in (''    '' @ fmt_int (snap (RS i) s) @ '' '' @ symbol @ '' '' @ fmt_int (snap (RT i) s) @ ''  '' @
             ARROW @ ''  '' @ truth taken @ ''  '' @ ARROW @ ''  branch was '' @ verdict taken @ [NL])),
      whn (2 \<le> level) (in_order
        [inputs_title, say_input_reg (RS i), say_input_reg (RT i), say_branch_target i,
         say_try_regs (RS i) (RT i) 0 0])]))"

definition tpl_branch_1reg :: "nat \<Rightarrow> mips_instruction \<Rightarrow> string \<Rightarrow> string \<Rightarrow> (reg_word \<Rightarrow> bool) \<Rightarrow> unit mcomp" where
  "tpl_branch_1reg level i label symbol test = named (RS i) (\<lambda>rs. in_order
     [what_it_did,
      narrate (\<lambda>s. (''    '' @ label @ '' '' @ DASH @ '' would transfer to 0x'' @ fmt_08x (narrated_target i s) @
           '' if ($'' @ rs @ '' '' @ symbol @ '' 0).'' @ [NL])),
      write_text (''  Comparison:'' @ [NL]),
      narrate (\<lambda>s. let taken = test (snap (RS i) s)
        in (''    '' @ fmt_int (snap (RS i) s) @ '' '' @ symbol @ '' 0  '' @ ARROW @ ''  '' @ truth taken @
             ''  '' @ ARROW @ ''  branch was '' @ verdict taken @ [NL])),
      whn (2 \<le> level) (in_order
        [inputs_title, say_input_reg (RS i), say_branch_target i, say_try_regs (RS i) 0 0 0])])"

subsection \<open>System calls\<close>

abbreviation V0 :: byte where "V0 \<equiv> 2"
abbreviation A0 :: byte where "A0 \<equiv> 4"
abbreviation A1 :: byte where "A1 \<equiv> 5"

text \<open>The lines of one system call, and its lines at level 2.\<close>

definition syscall_case :: "nat \<Rightarrow> string \<Rightarrow> string \<Rightarrow> unit mcomp list \<Rightarrow> unit mcomp" where
  "syscall_case level text v0 rest =
     seq (write_text text) (whn (2 \<le> level) (in_order ([inputs_title, write_text v0] @ rest)))"

definition explain_syscall :: "nat \<Rightarrow> unit mcomp" where
  "explain_syscall level =
     bnd (gets (\<lambda>s. (snap V0 s, snap A0 s, snap A1 s))) (\<lambda>(v0, a0, a1).
     in_order [what_it_did, write_text (text_lines [''    System Call '' @ DASH @ '' invoked the kernel.  The call number was in $v0;'',
         ''    arguments were in $a0..$a3 (and $f12 for floats).'']),
       (if v0 = 1 then syscall_case level (text_lines [''    $v0 = 1  '' @ ARROW @ ''  print_int: printed the integer in $a0.'',
           ''  Output:'',
           ''    Wrote the integer to the console.'']) (''    $v0 = 1'' @ [NL]) [say_input_reg A0, say_try_regs V0 A0 0 0]
        else if v0 = 4 then syscall_case level (text_lines [''    $v0 = 4  '' @ ARROW @ ''  print_string: printed the null-terminated'',
            ''    string whose address was in $a0.'',
            ''  Output:'',
            ''    Wrote the string to the console.'']) (''    $v0 = 4'' @ [NL])
          [write_text (''    $a0 = 0x'' @ fmt_08x a0 @ ''  (address of the string)'' @ [NL]), say_try_regs V0 A0 0 0,
           say_try (''print 0x'' @ fmt_08x a0) ''inspect string memory'']
        else if v0 = 5 then syscall_case level (text_lines [''    $v0 = 5  '' @ ARROW @ ''  read_int: read an integer from the console'',
            ''    and returned it in $v0.'']) (''    $v0 = 5'' @ [NL])
          [wrote_title, say_wrote_reg V0, say_try_regs V0 0 0 0]
        else if v0 = 8 then syscall_case level (text_lines [''    $v0 = 8  '' @ ARROW @ ''  read_string: read a string into the buffer'',
            ''    at $a0, up to $a1 bytes.'']) (''    $v0 = 8'' @ [NL])
          [write_text (''    $a0 = 0x'' @ fmt_08x a0 @ ''  (buffer address)'' @ [NL]), say_input_reg A1,
           write_text (''  Wrote to memory:'' @ [NL]),
           write_text (''    0x'' @ fmt_08x a0 @ '' .. 0x'' @ fmt_08x (a0 + a1 - 1) @ [NL]), say_try_regs V0 A0 A1 0]
        else if v0 = 10 then syscall_case level (''    $v0 = 10 '' @ ARROW @ ''  exit: halted the program.'' @ [NL]) (''    $v0 = 10'' @ [NL]) [say_try_regs V0 0 0 0]
        else if v0 = 11 then syscall_case level (text_lines [''    $v0 = 11 '' @ ARROW @ ''  print_char: printed the byte in $a0 as a character.'',
            ''  Output:'',
            ''    Wrote one character to the console.'']) (''    $v0 = 11'' @ [NL]) [say_input_reg A0, say_try_regs V0 A0 0 0]
        else seq (write_text (''    $v0 = '' @ fmt_int v0 @ '' (no detailed explanation for this syscall yet).'' @ [NL]))
          (whn (2 \<le> level) (in_order [inputs_title, say_input_reg V0, say_try_regs V0 A0 A1 0])))])"

subsection \<open>The other templates\<close>

definition say_lui :: "nat \<Rightarrow> mips_instruction \<Rightarrow> unit mcomp" where
  "say_lui level i = named (RT i) (\<lambda>rt. in_order
     [what_it_did, write_text (text_lines [''    Load Upper Immediate '' @ DASH @ '' placed the 16-bit immediate into the'',
         ''    upper 16 bits of $'' @ rt @ '', zeroing the lower 16. Often paired with'',
         ''    `ori` to construct a full 32-bit constant.'']),
      whn (2 \<le> level) (in_order
        [inputs_title, say_input_imm (IMM i), wrote_title, say_wrote_reg (RT i), say_try_regs (RT i) 0 0 0])])"

definition say_sll :: "nat \<Rightarrow> mips_instruction \<Rightarrow> unit mcomp" where
  "say_sll level i =
     (if RD i = 0 \<and> RT i = 0 \<and> SHAMT i = 0
      then in_order
        [what_it_did, write_text (text_lines [''    No Operation. The processor took one cycle and did nothing.'',
            ''    (Encoded as `sll $0, $0, 0` '' @ DASH @ '' a shift of $zero with no destination.)'']),
         whn (2 \<le> level) (in_order
           [write_text (text_lines [''  Inputs (before this step):'',
               ''    (none)'']), write_text (text_lines [''  Wrote:'',
               ''    (no register changes)'']),
            say_try_regs 0 0 0 0])]
      else tpl_shift level i ''Shift Left Logical'' ''shifted $rt left, filling with 0'')"

text \<open>The address shown is the target field alone, without the high bits of the PC.\<close>

definition say_j :: "nat \<Rightarrow> mips_instruction \<Rightarrow> unit mcomp" where
  "say_j level i = in_order
     [what_it_did, write_text (''    Jump '' @ DASH @ '' jumped unconditionally to 0x'' @ fmt_08x (push_bit 2 (TARGET i)) @
          ''.'' @ [NL]),
      whn (2 \<le> level) (in_order [write_text (text_lines [''  Inputs (before this step):'',
          ''    (none)'']), say_try_regs 0 0 0 0])]"

definition say_jal :: "nat \<Rightarrow> mips_instruction \<Rightarrow> unit mcomp" where
  "say_jal level i = in_order
     [what_it_did, write_text (text_lines [''    Jump and Link '' @ DASH @ '' saved the return address into $ra,'',
         ''    then jumped to 0x'' @ fmt_08x (push_bit 2 (TARGET i)) @ ''.'']),
      write_text (''    (Standard subroutine call: $ra holds the return address.)'' @ [NL]),
      whn (2 \<le> level) (in_order
        [write_text (text_lines [''  Inputs (before this step):'',
            ''    (none)'']), wrote_title, say_wrote_reg 31, say_try_regs 31 0 0 0])]"

definition say_jr :: "nat \<Rightarrow> mips_instruction \<Rightarrow> unit mcomp" where
  "say_jr level i = named (RS i) (\<lambda>rs. in_order
     [what_it_did, narrate (\<lambda>s. (text_lines [''    Jump Register '' @ DASH @ '' jumped to the address held in $'' @ rs @ ''.'',
         ''    (Used to return from a subroutine when $rs == $ra.)'',
         ''    Destination = 0x'' @ fmt_08x (snap (RS i) s) @ ''.''])),
      whn (2 \<le> level) (in_order [inputs_title, say_input_reg (RS i), say_try_regs (RS i) 0 0 0])])"

definition say_jalr :: "nat \<Rightarrow> mips_instruction \<Rightarrow> unit mcomp" where
  "say_jalr level i = named (RD i) (\<lambda>rd. named (RS i) (\<lambda>rs. in_order
     [what_it_did, narrate (\<lambda>s. (text_lines [''    Jump and Link Register '' @ DASH @ '' saved the return address into $'' @ rd @ '','',
         ''    then jumped to the address in $'' @ rs @ '' (0x'' @ fmt_08x (snap (RS i) s) @ '').''])),
      whn (2 \<le> level) (in_order
        [inputs_title, say_input_reg (RS i), wrote_title, say_wrote_reg (RD i), say_try_regs (RS i) (RD i) 0 0])]))"

definition say_mfhi :: "nat \<Rightarrow> mips_instruction \<Rightarrow> unit mcomp" where
  "say_mfhi level i = named (RD i) (\<lambda>rd. in_order
     [what_it_did, write_text (text_lines [''    Move From HI '' @ DASH @ '' copied the special HI register into $'' @ rd @ ''.'',
         ''    HI holds the high half of a multiplication, or the remainder of a division.'']),
      whn (2 \<le> level) (in_order
        [inputs_title, narrate (\<lambda>s. (''    HI = 0x'' @ fmt_08x (snap_HI (explain s)) @ [NL])), wrote_title, say_wrote_reg (RD i),
         say_try_regs (RD i) 0 0 0])])"

definition say_mflo :: "nat \<Rightarrow> mips_instruction \<Rightarrow> unit mcomp" where
  "say_mflo level i = named (RD i) (\<lambda>rd. in_order
     [what_it_did, write_text (text_lines [''    Move From LO '' @ DASH @ '' copied the special LO register into $'' @ rd @ ''.'',
         ''    LO holds the low half of a multiplication, or the quotient of a division.'']),
      whn (2 \<le> level) (in_order
        [inputs_title, narrate (\<lambda>s. (''    LO = 0x'' @ fmt_08x (snap_LO (explain s)) @ [NL])), wrote_title, say_wrote_reg (RD i),
         say_try_regs (RD i) 0 0 0])])"

text \<open>The four cases that write \<open>HI\<close> and \<open>LO\<close> differ in their text only.\<close>

definition say_hi_lo :: "nat \<Rightarrow> mips_instruction \<Rightarrow> (string \<Rightarrow> string \<Rightarrow> string) \<Rightarrow> unit mcomp" where
  "say_hi_lo level i text = named (RS i) (\<lambda>rs. named (RT i) (\<lambda>rt. in_order
     [what_it_did, write_text (text rs rt),
      whn (2 \<le> level) (in_order
        [inputs_title, say_input_reg (RS i), say_input_reg (RT i), wrote_title, say_wrote_hi, say_wrote_lo,
         say_try_regs (RS i) (RT i) 0 0])]))"

definition mult_text :: "string \<Rightarrow> string \<Rightarrow> string" where
  "mult_text rs rt = (text_lines [''    Multiply (signed) '' @ DASH @ '' computed $'' @ rs @ '' * $'' @ rt @
       '' as a 64-bit result.'',
      ''    The high 32 bits went to HI; the low 32 bits went to LO.'',
      ''    Use mfhi / mflo to retrieve them.''])"

definition div_text :: "string \<Rightarrow> string \<Rightarrow> string" where
  "div_text rs rt = (text_lines [''    Divide (signed) '' @ DASH @ '' computed $'' @ rs @ '' / $'' @ rt @ ''.'',
      ''    Quotient went to LO; remainder went to HI.''])"

definition multu_text :: "string \<Rightarrow> string \<Rightarrow> string" where
  "multu_text rs rt = (text_lines [''    Multiply Unsigned '' @ DASH @ '' computed $'' @ rs @ '' * $'' @ rt @
       '' as a 64-bit unsigned result.'',
      ''    The high 32 bits went to HI; the low 32 bits went to LO.'',
      ''    Use mfhi / mflo to retrieve them. No overflow trap.''])"

definition divu_text :: "string \<Rightarrow> string \<Rightarrow> string" where
  "divu_text rs rt = (text_lines [''    Divide Unsigned '' @ DASH @ '' computed $'' @ rs @ '' / $'' @ rt @
       '', treating both operands as unsigned.'',
      ''    Quotient went to LO; remainder went to HI.''])"

subsection \<open>The switch over the opcodes\<close>

type_synonym template = "host \<Rightarrow> nat \<Rightarrow> mips_instruction \<Rightarrow> unit mcomp"

definition r3_cases :: "(int \<times> string \<times> string) list" where
  "r3_cases =
    [(TOK_ADD_OPCODE, ''Add'', ''computed $rs + $rt as a signed sum; trapped on overflow''),
     (TOK_ADDU_OPCODE, ''Add Unsigned'', ''computed $rs + $rt with no overflow trap''),
     (TOK_SUB_OPCODE, ''Subtract'', ''computed $rs - $rt as a signed difference; trapped on overflow''),
     (TOK_SUBU_OPCODE, ''Subtract Unsigned'', ''computed $rs - $rt with no overflow trap''),
     (TOK_AND_OPCODE, ''Bitwise AND'', ''computed the bitwise AND of $rs and $rt''),
     (TOK_OR_OPCODE, ''Bitwise OR'', ''computed the bitwise OR of $rs and $rt''),
     (TOK_XOR_OPCODE, ''Bitwise XOR'', ''computed the bitwise XOR of $rs and $rt''),
     (TOK_NOR_OPCODE, ''Bitwise NOR'', ''computed NOT($rs OR $rt)''),
     (TOK_SLT_OPCODE, ''Set on Less Than (signed)'', ''set the destination to 1 if $rs < $rt (signed), else 0''),
     (TOK_SLTU_OPCODE, ''Set on Less Than (unsigned)'', ''set the destination to 1 if $rs < $rt (unsigned), else 0''),
     (TOK_MUL_OPCODE, ''Multiply (MIPS32)'', ''computed the low 32 bits of $rs * $rt'')]"

definition i2_cases :: "(int \<times> string \<times> string) list" where
  "i2_cases =
    [(TOK_ADDI_OPCODE, ''Add Immediate'', ''computed $rs + immediate; trapped on overflow''),
     (TOK_ADDIU_OPCODE, ''Add Immediate Unsigned'', ''computed $rs + sign-extended immediate, no overflow trap''),
     (TOK_ANDI_OPCODE, ''AND Immediate'', ''computed $rs AND zero-extended immediate''),
     (TOK_ORI_OPCODE, ''OR Immediate'', ''computed $rs OR zero-extended immediate''),
     (TOK_XORI_OPCODE, ''XOR Immediate'', ''computed $rs XOR zero-extended immediate''),
     (TOK_SLTI_OPCODE, ''Set Less Than Immediate (signed)'', ''set destination to 1 if $rs < imm (signed)''),
     (TOK_SLTIU_OPCODE, ''Set Less Than Immediate (unsigned)'', ''set destination to 1 if $rs < imm (unsigned)'')]"

definition shift_cases :: "(int \<times> string \<times> string) list" where
  "shift_cases =
    [(TOK_SRL_OPCODE, ''Shift Right Logical'', ''shifted $rt right, filling with 0''),
     (TOK_SRA_OPCODE, ''Shift Right Arithmetic'', ''shifted $rt right, filling with the sign bit'')]"

definition arith_templates :: "(int \<times> template) list" where
  "arith_templates =
     map (\<lambda>(op, label, text). (op, \<lambda>H level i. tpl_r3_arith level i label text)) r3_cases @
     map (\<lambda>(op, label, text). (op, \<lambda>H level i. tpl_i2_arith level i label text)) i2_cases @
     [(TOK_LUI_OPCODE, \<lambda>H. say_lui), (TOK_SLL_OPCODE, \<lambda>H. say_sll)] @
     map (\<lambda>(op, label, text). (op, \<lambda>H level i. tpl_shift level i label text)) shift_cases"

definition memory_templates :: "(int \<times> template) list" where
  "memory_templates =
    [(TOK_LW_OPCODE, \<lambda>H level i. tpl_load H level i ''Load Word'' ''a 32-bit word'' 4),
     (TOK_LB_OPCODE, \<lambda>H level i. tpl_load H level i ''Load Byte (signed)'' ''one byte, sign-extended'' 1),
     (TOK_LBU_OPCODE, \<lambda>H level i. tpl_load H level i ''Load Byte Unsigned'' ''one byte, zero-extended'' 1),
     (TOK_LH_OPCODE, \<lambda>H level i. tpl_load H level i ''Load Halfword (signed)'' ''16 bits, sign-extended'' 2),
     (TOK_LHU_OPCODE, \<lambda>H level i. tpl_load H level i ''Load Halfword Unsigned'' ''16 bits, zero-extended'' 2),
     (TOK_SW_OPCODE, \<lambda>H level i. tpl_store H level i ''Store Word'' ''the 32-bit value'' 4),
     (TOK_SB_OPCODE, \<lambda>H level i. tpl_store H level i ''Store Byte'' ''the low 8 bits'' 1),
     (TOK_SH_OPCODE, \<lambda>H level i. tpl_store H level i ''Store Halfword'' ''the low 16 bits'' 2),
     (TOK_LWL_OPCODE, \<lambda>H level i. tpl_load_unaligned H level i ''Load Word Left'' ''the high bytes of the addressed word''),
     (TOK_LWR_OPCODE, \<lambda>H level i. tpl_load_unaligned H level i ''Load Word Right'' ''the low bytes of the addressed word''),
     (TOK_SWL_OPCODE, \<lambda>H level i. tpl_store_unaligned H level i ''Store Word Left'' ''the high bytes of $rt''),
     (TOK_SWR_OPCODE, \<lambda>H level i. tpl_store_unaligned H level i ''Store Word Right'' ''the low bytes of $rt''),
     (TOK_LL_OPCODE, tpl_load_linked),
     (TOK_SC_OPCODE, tpl_store_conditional),
     (TOK_LWC1_OPCODE, \<lambda>H level i. tpl_load_fp H level i ''Load Word Coprocessor 1'' 4),
     (TOK_LDC1_OPCODE, \<lambda>H level i. tpl_load_fp H level i ''Load Double Coprocessor 1'' 8),
     (TOK_SWC1_OPCODE, \<lambda>H level i. tpl_store_fp level i ''Store Word Coprocessor 1'' 4),
     (TOK_SDC1_OPCODE, \<lambda>H level i. tpl_store_fp level i ''Store Double Coprocessor 1'' 8)]"

definition branch_2reg_cases :: "(int \<times> string \<times> string \<times> (reg_word \<Rightarrow> reg_word \<Rightarrow> bool)) list" where
  "branch_2reg_cases =
    [(TOK_BEQ_OPCODE, ''Branch if Equal'', ''=='', (=)),
     (TOK_BNE_OPCODE, ''Branch if Not Equal'', ''!='', (\<noteq>))]"

definition branch_1reg_cases :: "(int \<times> string \<times> string \<times> (reg_word \<Rightarrow> bool)) list" where
  "branch_1reg_cases =
    [(TOK_BGEZ_OPCODE, ''Branch if Greater or Equal Zero'', ''>='', \<lambda>v. 0 \<le>s v),
     (TOK_BGTZ_OPCODE, ''Branch if Greater Than Zero'', ''>'', \<lambda>v. 0 <s v),
     (TOK_BLEZ_OPCODE, ''Branch if Less or Equal Zero'', ''<='', \<lambda>v. v \<le>s 0),
     (TOK_BLTZ_OPCODE, ''Branch if Less Than Zero'', ''<'', \<lambda>v. v <s 0)]"

definition branch_templates :: "(int \<times> template) list" where
  "branch_templates =
     map (\<lambda>(op, label, symbol, test). (op, \<lambda>H level i. tpl_branch_2reg level i label symbol test)) branch_2reg_cases @
     map (\<lambda>(op, label, symbol, test). (op, \<lambda>H level i. tpl_branch_1reg level i label symbol test)) branch_1reg_cases @
     [(TOK_J_OPCODE, \<lambda>H. say_j), (TOK_JAL_OPCODE, \<lambda>H. say_jal), (TOK_JR_OPCODE, \<lambda>H. say_jr), (TOK_JALR_OPCODE, \<lambda>H. say_jalr)]"

definition special_templates :: "(int \<times> template) list" where
  "special_templates =
    [(TOK_MFHI_OPCODE, \<lambda>H. say_mfhi), (TOK_MFLO_OPCODE, \<lambda>H. say_mflo),
     (TOK_MULT_OPCODE, \<lambda>H level i. say_hi_lo level i mult_text), (TOK_DIV_OPCODE, \<lambda>H level i. say_hi_lo level i div_text),
     (TOK_MULTU_OPCODE, \<lambda>H level i. say_hi_lo level i multu_text), (TOK_DIVU_OPCODE, \<lambda>H level i. say_hi_lo level i divu_text),
     (TOK_SYSCALL_OPCODE, \<lambda>H level i. explain_syscall level)]"

definition templates :: "(int \<times> template) list" where
  "templates = arith_templates @ memory_templates @ branch_templates @ special_templates"

definition render_dispatch :: "host \<Rightarrow> nat \<Rightarrow> mips_instruction \<Rightarrow> unit mcomp" where
  "render_dispatch H level i =
     (case map_of templates (OPCODE i) of
        Some t \<Rightarrow> t H level i
      | None \<Rightarrow> write_text (''  (no detailed explanation for this opcode yet '' @ DASH @ '' see the disassembly above)'' @ [NL]))"

subsection \<open>Before an instruction\<close>

text \<open>The loop over the text segment ends after as many rounds as it has words.\<close>

definition listing_fuel :: "machine \<Rightarrow> nat" where
  "listing_fuel s = unat (text_top s - TEXT_BOT) div 4 + 2"

definition show_listing :: "host \<Rightarrow> unit mcomp" where
  "show_listing H =
     bnd (gets (\<lambda>s. (listing_shown (explain s), listing_fuel s))) (\<lambda>(shown, n).
     whn (\<not> shown) (seq (print_text_listing H n) (upd_explain (\<lambda>t. t\<lparr>listing_shown := True\<rparr>))))"

definition take_snapshot :: "mem_addr \<Rightarrow> unit mcomp" where
  "take_snapshot addr = modify (\<lambda>s. s\<lparr>explain := (explain s)\<lparr>snap_R := gpr s, snap_HI := HI s, snap_LO := LO s,
     snap_PC := addr, snap_has_mem := False\<rparr>\<rparr>)"

definition snapshot_memory :: "host \<Rightarrow> mips_instruction \<Rightarrow> unit mcomp" where
  "snapshot_memory H i =
     bnd (gets (\<lambda>s. gpr s (unat (BASE i)) + IOFFSET i)) (\<lambda>a.
     seq (upd_explain (\<lambda>t. t\<lparr>snap_mem_addr := a\<rparr>))
       (bnd (peek_word H a) (\<lambda>v. upd_explain (\<lambda>t. t\<lparr>snap_mem_val := v, snap_has_mem := True\<rparr>))))"

definition explain_before :: "host \<Rightarrow> mips_instruction \<Rightarrow> mem_addr \<Rightarrow> unit mcomp" where
  "explain_before H i addr =
     bnd (gets (\<lambda>s. explain_level (explain s))) (\<lambda>level.
     whn (level \<noteq> 0) (in_order
       [show_listing H, explain_clear_suggestions, take_snapshot addr,
        whn (OPCODE i = TOK_SW_OPCODE \<or> OPCODE i = TOK_SH_OPCODE \<or> OPCODE i = TOK_SB_OPCODE) (snapshot_memory H i)]))"

subsection \<open>After an instruction\<close>

definition reset_touched :: "unit mcomp" where
  "reset_touched = upd_explain (\<lambda>n. n\<lparr>touched_reg := (\<lambda>_. False), touched_hi := False, touched_lo := False\<rparr>)"

definition explain_bit_layout :: "mips_instruction \<Rightarrow> unit mcomp" where
  "explain_bit_layout i =
     (case inst_encode i of
        None \<Rightarrow> throw Crash
      | Some enc \<Rightarrow> narrate (\<lambda>s. bit_layout (snap_PC (explain s)) enc (inst_op_name (Some i))))"

definition explain_decoding_steps :: "mips_instruction \<Rightarrow> unit mcomp" where
  "explain_decoding_steps i =
     (case inst_encode i of
        None \<Rightarrow> throw Crash
      | Some enc \<Rightarrow> narrate (\<lambda>s. decoding_steps (snap_PC (explain s)) enc (inst_op_name (Some i))))"

definition first_or_single :: "bool \<Rightarrow> string" where
  "first_or_single multi = (if multi then ''first'' else ''single'')"

definition set_pending :: "string option \<Rightarrow> bool \<Rightarrow> unit mcomp" where
  "set_pending name multi = upd_explain (\<lambda>n. n\<lparr>pending_pseudo_name := name, pending_pseudo_multi := multi\<rparr>)"

definition pseudo_header :: "nat \<Rightarrow> pseudo_info \<Rightarrow> string" where
  "pseudo_header level p = (case p of (name, what, multi) \<Rightarrow>
     if 2 \<le> level
     then (text_lines [''  Pseudo-instruction `'' @ name @ ''` (as written in source):'',
         ''    '' @ what,
         ''  This was the '' @ first_or_single multi @
          '' real instruction the assembler emitted for it.''])
     else (''  Pseudo-op: `'' @ name @ ''` ('' @ first_or_single multi @ '' real instruction)'' @ [NL]))"

definition pseudo_continuation :: "nat \<Rightarrow> string \<Rightarrow> string" where
  "pseudo_continuation level name =
     (if 2 \<le> level
      then (text_lines [''  (continuation of the `'' @ name @ ''` pseudo-op expansion above '' @ DASH,
          ''   same source line, this was the next real instruction emitted)''])
      else (''  Pseudo-op: `'' @ name @ ''` (continuation)'' @ [NL]))"

definition say_pseudo :: "nat \<Rightarrow> mips_instruction \<Rightarrow> unit mcomp" where
  "say_pseudo level i =
     bnd (gets (\<lambda>s. (accept_pseudo_insts s, pending_pseudo_name (explain s), pending_pseudo_multi (explain s))))
       (\<lambda>(accept, pending, multi).
     case (if accept then inst_source i else None) of
       Some src \<Rightarrow>
         (case find_pseudo_in_source src of
            Some p \<Rightarrow> seq (write_text (pseudo_header level p)) (set_pending (Some (fst p)) (snd (snd p)))
          | None \<Rightarrow> set_pending None False)
     | None \<Rightarrow>
         (case pending of
            Some name \<Rightarrow> whn multi (write_text (pseudo_continuation level name))
          | None \<Rightarrow> ret ()))"

definition is_plain_load :: "int \<Rightarrow> bool" where
  "is_plain_load op \<longleftrightarrow> op \<in> set [TOK_LW_OPCODE, TOK_LB_OPCODE, TOK_LBU_OPCODE, TOK_LH_OPCODE, TOK_LHU_OPCODE]"

definition say_same_value :: "mips_instruction \<Rightarrow> unit mcomp" where
  "say_same_value i =
     bnd (gets (\<lambda>s. snap (RT i) s = gpr s (unat (RT i)))) (\<lambda>same.
     whn (is_plain_load (OPCODE i) \<and> RT i \<noteq> 0 \<and> same)
       (write_text (''    (the load did happen '' @ DASH @ '' the memory value matched the prior register value)'' @ [NL])))"

text \<open>What has changed and was not named: its lines, under a title if there is one.\<close>

definition reg_effect :: "machine \<Rightarrow> nat \<Rightarrow> string list" where
  "reg_effect s n =
     (let before = snap_R (explain s) n; now = gpr s n
      in if now \<noteq> before \<and> \<not> touched_reg (explain s) n
         then [(''    $'' @ int_reg_names ! n @ '':  0x'' @ fmt_08x before @ ''  '' @ ARROW @ ''  0x'' @
              fmt_08x now @ ''   (decimal '' @ fmt_int now @ '')'' @ [NL])]
         else [])"

definition hi_effect :: "machine \<Rightarrow> string list" where
  "hi_effect s =
     (if HI s \<noteq> snap_HI (explain s) \<and> \<not> touched_hi (explain s)
      then [(''    HI:  0x'' @ fmt_08x (snap_HI (explain s)) @ ''  '' @ ARROW @ ''  0x'' @ fmt_08x (HI s) @ [NL])] else [])"

definition lo_effect :: "machine \<Rightarrow> string list" where
  "lo_effect s =
     (if LO s \<noteq> snap_LO (explain s) \<and> \<not> touched_lo (explain s)
      then [(''    LO:  0x'' @ fmt_08x (snap_LO (explain s)) @ ''  '' @ ARROW @ ''  0x'' @ fmt_08x (LO s) @ [NL])] else [])"

definition side_effects :: "machine \<Rightarrow> string" where
  "side_effects s =
     (let ts = concat (map (reg_effect s) [1..<32]) @ hi_effect s @ lo_effect s
      in if ts = [] then [] else (''  Side effects (changed but not named above):'' @ [NL]) @ concat ts)"

definition say_pc :: "unit mcomp" where
  "say_pc = narrate (\<lambda>s. (''  PC:  0x'' @ fmt_08x (snap_PC (explain s)) @ ''  '' @ ARROW @ ''  0x'' @ fmt_08x (PC s) @ [NL]))"

text \<open>The narration below the header; most of it only from level 2 on.\<close>

definition narrate_step :: "host \<Rightarrow> nat \<Rightarrow> mips_instruction \<Rightarrow> unit mcomp" where
  "narrate_step H level i = in_order
     [(if level = 3 then explain_bit_layout i else whn (4 \<le> level) (explain_decoding_steps i)),
      say_pseudo level i,
      write_text [NL],
      whn (2 \<le> level) (in_order
        [narrate (\<lambda>_. emit_category_preamble i), render_dispatch H level i, say_try_finish, say_same_value i,
         narrate side_effects, say_pc]),
      write_text [NL]]"

definition explain_after :: "host \<Rightarrow> mips_instruction \<Rightarrow> unit mcomp" where
  "explain_after H i =
     bnd (gets (\<lambda>s. explain_level (explain s))) (\<lambda>level.
     whn (level \<noteq> 0) (in_order
       [reset_touched, bnd (gets (\<lambda>s. snap_PC (explain s))) (\<lambda>pc. explain_print_step_header H pc i), narrate_step H level i]))"

text \<open>At level 0 the teaching mode does nothing.\<close>

lemma explain_off [simp]:
  "explain_level (explain s) = 0 \<Longrightarrow> explain_before H i a s = Inr ((), s)"
  "explain_level (explain s) = 0 \<Longrightarrow> explain_after H i s = Inr ((), s)"
  by (simp_all add: explain_before_def explain_after_def)

end
