(* ===== verification/Run.thy ===== *)
theory Run
  imports Cpu Explain
begin

text \<open>
  The interpreter loop of \<^verbatim>\<open>run.c\<close>: the switch as a table from opcodes to handlers, one step
  (\<^verbatim>\<open>run_spim\<close>'s inner loop body), the chunks of steps between polls of the devices, and \<^verbatim>\<open>run_spim\<close>
  itself. A branch runs its delay slot by a nested call of \<^verbatim>\<open>run_spim\<close>; the fuel bounds the
  depth of that nesting and nothing else.
\<close>

subsection \<open>The switch\<close>

text \<open>A case that breaks out of the switch yields \<open>None\<close>; one that returns from \<^verbatim>\<open>run_spim\<close>, its result.\<close>

definition pure_case :: "(mips_instruction \<Rightarrow> machine \<Rightarrow> machine) \<Rightarrow> mips_instruction \<Rightarrow> bool option mcomp" where
  "pure_case f i = seq (modify (f i)) (ret None)"

definition comp_case :: "(mips_instruction \<Rightarrow> unit mcomp) \<Rightarrow> mips_instruction \<Rightarrow> bool option mcomp" where
  "comp_case f i = seq (f i) (ret None)"

definition cases_1 :: "host \<Rightarrow> (mem_addr \<Rightarrow> unit mcomp) \<Rightarrow> (int \<times> (mips_instruction \<Rightarrow> bool option mcomp)) list" where
  "cases_1 H D = [
    (TOK_ADD_OPCODE, pure_case op_add),
    (TOK_ADDI_OPCODE, pure_case op_addi),
    (TOK_ADDIU_OPCODE, pure_case op_addiu),
    (TOK_ADDU_OPCODE, pure_case op_addu),
    (TOK_AND_OPCODE, pure_case op_and),
    (TOK_ANDI_OPCODE, pure_case op_andi),
    (TOK_BC2F_OPCODE, pure_case op_cop2),
    (TOK_BC2FL_OPCODE, pure_case op_cop2),
    (TOK_BC2T_OPCODE, pure_case op_cop2),
    (TOK_BC2TL_OPCODE, pure_case op_cop2),
    (TOK_BEQ_OPCODE, comp_case (op_beq D)),
    (TOK_BEQL_OPCODE, comp_case (op_beql D)),
    (TOK_BGEZ_OPCODE, comp_case (op_bgez D)),
    (TOK_BGEZL_OPCODE, comp_case (op_bgezl D)),
    (TOK_BGEZAL_OPCODE, comp_case (op_bgezal D)),
    (TOK_BGEZALL_OPCODE, comp_case (op_bgezall D))]"

definition cases_2 :: "host \<Rightarrow> (mem_addr \<Rightarrow> unit mcomp) \<Rightarrow> (int \<times> (mips_instruction \<Rightarrow> bool option mcomp)) list" where
  "cases_2 H D = [
    (TOK_BGTZ_OPCODE, comp_case (op_bgtz D)),
    (TOK_BGTZL_OPCODE, comp_case (op_bgtzl D)),
    (TOK_BLEZ_OPCODE, comp_case (op_blez D)),
    (TOK_BLEZL_OPCODE, comp_case (op_blezl D)),
    (TOK_BLTZ_OPCODE, comp_case (op_bltz D)),
    (TOK_BLTZL_OPCODE, comp_case (op_bltzl D)),
    (TOK_BLTZAL_OPCODE, comp_case (op_bltzal D)),
    (TOK_BLTZALL_OPCODE, comp_case (op_bltzall D)),
    (TOK_BNE_OPCODE, comp_case (op_bne D)),
    (TOK_BNEL_OPCODE, comp_case (op_bnel D)),
    (TOK_BREAK_OPCODE, op_break),
    (TOK_CACHE_OPCODE, pure_case op_nop),
    (TOK_CFC0_OPCODE, pure_case op_cfc0),
    (TOK_CFC2_OPCODE, pure_case op_cop2),
    (TOK_CLO_OPCODE, pure_case op_clo),
    (TOK_CLZ_OPCODE, pure_case op_clz)]"

definition cases_3 :: "host \<Rightarrow> (mem_addr \<Rightarrow> unit mcomp) \<Rightarrow> (int \<times> (mips_instruction \<Rightarrow> bool option mcomp)) list" where
  "cases_3 H D = [
    (TOK_COP2_OPCODE, pure_case op_cop2),
    (TOK_CTC0_OPCODE, pure_case op_ctc0),
    (TOK_CTC2_OPCODE, pure_case op_cop2),
    (TOK_DIV_OPCODE, pure_case op_div),
    (TOK_DIVU_OPCODE, pure_case op_divu),
    (TOK_ERET_OPCODE, comp_case (op_eret D)),
    (TOK_J_OPCODE, comp_case (op_j D)),
    (TOK_JAL_OPCODE, comp_case (op_jal D)),
    (TOK_JALR_OPCODE, comp_case (op_jalr D)),
    (TOK_JR_OPCODE, comp_case (op_jr D)),
    (TOK_LB_OPCODE, comp_case (op_lb H)),
    (TOK_LBU_OPCODE, comp_case (op_lbu H)),
    (TOK_LH_OPCODE, comp_case (op_lh H)),
    (TOK_LHU_OPCODE, comp_case (op_lhu H)),
    (TOK_LL_OPCODE, comp_case (op_ll H)),
    (TOK_LUI_OPCODE, pure_case op_lui)]"

definition cases_4 :: "host \<Rightarrow> (mem_addr \<Rightarrow> unit mcomp) \<Rightarrow> (int \<times> (mips_instruction \<Rightarrow> bool option mcomp)) list" where
  "cases_4 H D = [
    (TOK_LW_OPCODE, comp_case (op_lw H)),
    (TOK_LDC2_OPCODE, pure_case op_cop2),
    (TOK_LWC2_OPCODE, pure_case op_cop2),
    (TOK_LWL_OPCODE, comp_case (op_lwl H)),
    (TOK_LWR_OPCODE, comp_case (op_lwr H)),
    (TOK_MADD_OPCODE, pure_case op_madd),
    (TOK_MADDU_OPCODE, pure_case op_madd),
    (TOK_MFC0_OPCODE, pure_case op_mfc0),
    (TOK_MFC2_OPCODE, pure_case op_cop2),
    (TOK_MFHI_OPCODE, pure_case op_mfhi),
    (TOK_MFLO_OPCODE, pure_case op_mflo),
    (TOK_MOVN_OPCODE, pure_case op_movn),
    (TOK_MOVZ_OPCODE, pure_case op_movz),
    (TOK_MSUB_OPCODE, pure_case op_msub),
    (TOK_MSUBU_OPCODE, pure_case op_msub),
    (TOK_MTC0_OPCODE, pure_case op_mtc0)]"

definition cases_5 :: "host \<Rightarrow> (mem_addr \<Rightarrow> unit mcomp) \<Rightarrow> (int \<times> (mips_instruction \<Rightarrow> bool option mcomp)) list" where
  "cases_5 H D = [
    (TOK_MTC2_OPCODE, pure_case op_cop2),
    (TOK_MTHI_OPCODE, pure_case op_mthi),
    (TOK_MTLO_OPCODE, pure_case op_mtlo),
    (TOK_MUL_OPCODE, pure_case op_mul),
    (TOK_MULT_OPCODE, pure_case op_mult),
    (TOK_MULTU_OPCODE, pure_case op_multu),
    (TOK_NOR_OPCODE, pure_case op_nor),
    (TOK_OR_OPCODE, pure_case op_or),
    (TOK_ORI_OPCODE, pure_case op_ori),
    (TOK_PREF_OPCODE, pure_case op_nop),
    (TOK_RFE_OPCODE, pure_case op_reserved),
    (TOK_SB_OPCODE, comp_case (op_sb H)),
    (TOK_SC_OPCODE, comp_case (op_sc H)),
    (TOK_SDC2_OPCODE, pure_case op_cop2),
    (TOK_SH_OPCODE, comp_case (op_sh H)),
    (TOK_SLL_OPCODE, pure_case op_sll)]"

definition cases_6 :: "host \<Rightarrow> (mem_addr \<Rightarrow> unit mcomp) \<Rightarrow> (int \<times> (mips_instruction \<Rightarrow> bool option mcomp)) list" where
  "cases_6 H D = [
    (TOK_SLLV_OPCODE, pure_case op_sllv),
    (TOK_SLT_OPCODE, pure_case op_slt),
    (TOK_SLTI_OPCODE, pure_case op_slti),
    (TOK_SLTIU_OPCODE, pure_case op_sltiu),
    (TOK_SLTU_OPCODE, pure_case op_sltu),
    (TOK_SRA_OPCODE, pure_case op_sra),
    (TOK_SRAV_OPCODE, pure_case op_srav),
    (TOK_SRL_OPCODE, pure_case op_srl),
    (TOK_SRLV_OPCODE, pure_case op_srlv),
    (TOK_SUB_OPCODE, pure_case op_sub),
    (TOK_SUBU_OPCODE, pure_case op_subu),
    (TOK_SW_OPCODE, comp_case (op_sw H)),
    (TOK_SWC2_OPCODE, pure_case op_cop2),
    (TOK_SWL_OPCODE, comp_case (op_swl H)),
    (TOK_SWR_OPCODE, comp_case (op_swr H)),
    (TOK_SYNC_OPCODE, pure_case op_nop)]"

definition cases_7 :: "host \<Rightarrow> (mem_addr \<Rightarrow> unit mcomp) \<Rightarrow> (int \<times> (mips_instruction \<Rightarrow> bool option mcomp)) list" where
  "cases_7 H D = [
    (TOK_SYSCALL_OPCODE, op_syscall H),
    (TOK_TEQ_OPCODE, pure_case op_teq),
    (TOK_TEQI_OPCODE, pure_case op_teqi),
    (TOK_TGE_OPCODE, pure_case op_tge),
    (TOK_TGEI_OPCODE, pure_case op_tgei),
    (TOK_TGEIU_OPCODE, pure_case op_tgeiu),
    (TOK_TGEU_OPCODE, pure_case op_tgeu),
    (TOK_TLBP_OPCODE, pure_case op_reserved),
    (TOK_TLBR_OPCODE, pure_case op_reserved),
    (TOK_TLBWI_OPCODE, pure_case op_reserved),
    (TOK_TLBWR_OPCODE, pure_case op_reserved),
    (TOK_TLT_OPCODE, pure_case op_tlt),
    (TOK_TLTI_OPCODE, pure_case op_tlti),
    (TOK_TLTIU_OPCODE, pure_case op_tltiu),
    (TOK_TLTU_OPCODE, pure_case op_tltu),
    (TOK_TNE_OPCODE, pure_case op_tne)]"

definition cases_8 :: "host \<Rightarrow> (mem_addr \<Rightarrow> unit mcomp) \<Rightarrow> (int \<times> (mips_instruction \<Rightarrow> bool option mcomp)) list" where
  "cases_8 H D = [
    (TOK_TNEI_OPCODE, pure_case op_tnei),
    (TOK_XOR_OPCODE, pure_case op_xor),
    (TOK_XORI_OPCODE, pure_case op_xori),
    (TOK_ABS_S_OPCODE, comp_case (op_abs_s H)),
    (TOK_ABS_D_OPCODE, comp_case op_abs_d),
    (TOK_ADD_S_OPCODE, comp_case (op_add_s H)),
    (TOK_ADD_D_OPCODE, comp_case (op_add_d H)),
    (TOK_BC1F_OPCODE, comp_case (op_bc1 D)),
    (TOK_BC1FL_OPCODE, comp_case (op_bc1 D)),
    (TOK_BC1T_OPCODE, comp_case (op_bc1 D)),
    (TOK_BC1TL_OPCODE, comp_case (op_bc1 D)),
    (TOK_C_F_S_OPCODE, pure_case op_c_cond_s),
    (TOK_C_UN_S_OPCODE, pure_case op_c_cond_s),
    (TOK_C_EQ_S_OPCODE, pure_case op_c_cond_s),
    (TOK_C_UEQ_S_OPCODE, pure_case op_c_cond_s),
    (TOK_C_OLT_S_OPCODE, pure_case op_c_cond_s)]"

definition cases_9 :: "host \<Rightarrow> (mem_addr \<Rightarrow> unit mcomp) \<Rightarrow> (int \<times> (mips_instruction \<Rightarrow> bool option mcomp)) list" where
  "cases_9 H D = [
    (TOK_C_OLE_S_OPCODE, pure_case op_c_cond_s),
    (TOK_C_ULT_S_OPCODE, pure_case op_c_cond_s),
    (TOK_C_ULE_S_OPCODE, pure_case op_c_cond_s),
    (TOK_C_SF_S_OPCODE, pure_case op_c_cond_s),
    (TOK_C_NGLE_S_OPCODE, pure_case op_c_cond_s),
    (TOK_C_SEQ_S_OPCODE, pure_case op_c_cond_s),
    (TOK_C_NGL_S_OPCODE, pure_case op_c_cond_s),
    (TOK_C_LT_S_OPCODE, pure_case op_c_cond_s),
    (TOK_C_NGE_S_OPCODE, pure_case op_c_cond_s),
    (TOK_C_LE_S_OPCODE, pure_case op_c_cond_s),
    (TOK_C_NGT_S_OPCODE, pure_case op_c_cond_s),
    (TOK_C_F_D_OPCODE, comp_case op_c_cond_d),
    (TOK_C_UN_D_OPCODE, comp_case op_c_cond_d),
    (TOK_C_EQ_D_OPCODE, comp_case op_c_cond_d),
    (TOK_C_UEQ_D_OPCODE, comp_case op_c_cond_d),
    (TOK_C_OLT_D_OPCODE, comp_case op_c_cond_d)]"

definition cases_10 :: "host \<Rightarrow> (mem_addr \<Rightarrow> unit mcomp) \<Rightarrow> (int \<times> (mips_instruction \<Rightarrow> bool option mcomp)) list" where
  "cases_10 H D = [
    (TOK_C_OLE_D_OPCODE, comp_case op_c_cond_d),
    (TOK_C_ULT_D_OPCODE, comp_case op_c_cond_d),
    (TOK_C_ULE_D_OPCODE, comp_case op_c_cond_d),
    (TOK_C_SF_D_OPCODE, comp_case op_c_cond_d),
    (TOK_C_NGLE_D_OPCODE, comp_case op_c_cond_d),
    (TOK_C_SEQ_D_OPCODE, comp_case op_c_cond_d),
    (TOK_C_NGL_D_OPCODE, comp_case op_c_cond_d),
    (TOK_C_LT_D_OPCODE, comp_case op_c_cond_d),
    (TOK_C_NGE_D_OPCODE, comp_case op_c_cond_d),
    (TOK_C_LE_D_OPCODE, comp_case op_c_cond_d),
    (TOK_C_NGT_D_OPCODE, comp_case op_c_cond_d),
    (TOK_CFC1_OPCODE, pure_case op_cfc1),
    (TOK_CTC1_OPCODE, pure_case op_ctc1),
    (TOK_CEIL_W_D_OPCODE, comp_case (op_ceil_w_d H)),
    (TOK_CEIL_W_S_OPCODE, comp_case (op_ceil_w_s H)),
    (TOK_CVT_D_S_OPCODE, comp_case (op_cvt_d_s H))]"

definition cases_11 :: "host \<Rightarrow> (mem_addr \<Rightarrow> unit mcomp) \<Rightarrow> (int \<times> (mips_instruction \<Rightarrow> bool option mcomp)) list" where
  "cases_11 H D = [
    (TOK_CVT_D_W_OPCODE, comp_case (op_cvt_d_w H)),
    (TOK_CVT_S_D_OPCODE, comp_case (op_cvt_s_d H)),
    (TOK_CVT_S_W_OPCODE, comp_case (op_cvt_s_w H)),
    (TOK_CVT_W_D_OPCODE, comp_case (op_cvt_w_d H)),
    (TOK_CVT_W_S_OPCODE, comp_case (op_cvt_w_s H)),
    (TOK_DIV_S_OPCODE, comp_case (op_div_s H)),
    (TOK_DIV_D_OPCODE, comp_case (op_div_d H)),
    (TOK_FLOOR_W_D_OPCODE, comp_case (op_floor_w_d H)),
    (TOK_FLOOR_W_S_OPCODE, comp_case (op_floor_w_s H)),
    (TOK_LDC1_OPCODE, comp_case (op_ldc1 H)),
    (TOK_LWC1_OPCODE, comp_case (op_lwc1 H)),
    (TOK_MFC1_OPCODE, pure_case op_mfc1),
    (TOK_MOV_S_OPCODE, comp_case op_mov_s),
    (TOK_MOV_D_OPCODE, comp_case op_mov_d),
    (TOK_MOVF_OPCODE, pure_case op_movf),
    (TOK_MOVF_D_OPCODE, comp_case op_movf_d)]"

definition cases_12 :: "host \<Rightarrow> (mem_addr \<Rightarrow> unit mcomp) \<Rightarrow> (int \<times> (mips_instruction \<Rightarrow> bool option mcomp)) list" where
  "cases_12 H D = [
    (TOK_MOVF_S_OPCODE, comp_case op_movf_s),
    (TOK_MOVN_D_OPCODE, comp_case op_movn_d),
    (TOK_MOVN_S_OPCODE, comp_case op_movn_s),
    (TOK_MOVT_OPCODE, pure_case op_movt),
    (TOK_MOVT_D_OPCODE, comp_case op_movt_d),
    (TOK_MOVT_S_OPCODE, comp_case op_movt_s),
    (TOK_MOVZ_D_OPCODE, comp_case op_movz_d),
    (TOK_MOVZ_S_OPCODE, comp_case op_movz_s),
    (TOK_MTC1_OPCODE, pure_case op_mtc1),
    (TOK_MUL_S_OPCODE, comp_case (op_mul_s H)),
    (TOK_MUL_D_OPCODE, comp_case (op_mul_d H)),
    (TOK_NEG_S_OPCODE, comp_case op_neg_s),
    (TOK_NEG_D_OPCODE, comp_case op_neg_d),
    (TOK_ROUND_W_D_OPCODE, comp_case (op_round_w_d H)),
    (TOK_ROUND_W_S_OPCODE, comp_case (op_round_w_s H)),
    (TOK_SDC1_OPCODE, comp_case (op_sdc1 H))]"

definition cases_13 :: "host \<Rightarrow> (mem_addr \<Rightarrow> unit mcomp) \<Rightarrow> (int \<times> (mips_instruction \<Rightarrow> bool option mcomp)) list" where
  "cases_13 H D = [
    (TOK_SQRT_D_OPCODE, comp_case (op_sqrt_d H)),
    (TOK_SQRT_S_OPCODE, comp_case (op_sqrt_s H)),
    (TOK_SUB_S_OPCODE, comp_case (op_sub_s H)),
    (TOK_SUB_D_OPCODE, comp_case (op_sub_d H)),
    (TOK_SWC1_OPCODE, comp_case (op_swc1 H)),
    (TOK_TRUNC_W_D_OPCODE, comp_case (op_trunc_w_d H)),
    (TOK_TRUNC_W_S_OPCODE, comp_case (op_trunc_w_s H))]"

definition switch_cases :: "host \<Rightarrow> (mem_addr \<Rightarrow> unit mcomp) \<Rightarrow> (int \<times> (mips_instruction \<Rightarrow> bool option mcomp)) list" where
  "switch_cases H D = cases_1 H D @ cases_2 H D @ cases_3 H D @ cases_4 H D @ cases_5 H D @ cases_6 H D @ cases_7 H D @ cases_8 H D @ cases_9 H D @ cases_10 H D @ cases_11 H D @ cases_12 H D @ cases_13 H D"

definition exec_inst :: "host \<Rightarrow> (mem_addr \<Rightarrow> unit mcomp) \<Rightarrow> mips_instruction \<Rightarrow> bool option mcomp" where
  "exec_inst H D i =
    (case map_of (switch_cases H D) (OPCODE i) of
       Some h \<Rightarrow> h i | None \<Rightarrow> throw (Fatal_Error ''Unknown instruction type: %d''))"

subsection \<open>One step\<close>

text \<open>The poll of the interval timer; restarting it has no effect on the machine.\<close>

definition poll_timer :: "host \<Rightarrow> machine \<Rightarrow> machine" where
  "poll_timer H s =
    (let expired = timer_expired H (timer_polls s);
         s = s\<lparr>timer_polls := timer_polls s + 1\<rparr>
     in if expired then bump_CP0_timer s else s)"

text \<open>Whether the instruction refers to a label that is not defined (address zero).\<close>

definition undefined_symbol :: "mips_instruction \<Rightarrow> bool mcomp" where
  "undefined_symbol i s =
    (case inst_expr i of None \<Rightarrow> ret False s
     | Some e \<Rightarrow> (case expr_symbol e of None \<Rightarrow> ret False s
        | Some l \<Rightarrow> (case label_heap s l of None \<Rightarrow> throw Crash s | Some lab \<Rightarrow> ret (label_addr lab = 0) s)))"

definition finish_step :: "host \<Rightarrow> bool \<Rightarrow> mips_instruction \<Rightarrow> unit mcomp" where
  "finish_step H display i =
    seq (modify (\<lambda>s. s\<lparr>PC := PC s + BYTES_PER_WORD\<rparr>))
      (seq (explain_after H i)
      (seq (whn display (bnd (gets PC) (print_inst H)))
        (modify (\<lambda>s. if exception_occurred s then handle_exception s else s))))"

definition run_inst :: "host \<Rightarrow> (mem_addr \<Rightarrow> unit mcomp) \<Rightarrow> bool \<Rightarrow> mips_instruction \<Rightarrow> bool option mcomp" where
  "run_inst H D display i =
    bnd (undefined_symbol i) (\<lambda>undef.
      if undef then bnd (bnd (gets PC) (inst_to_string H)) (\<lambda>_. throw (Run_Error ''Instruction references undefined symbol at 0x%08x''))
      else seq (modify DO_DELAYED_UPDATE)
        (seq (bnd (gets PC) (explain_before H i))
        (bnd (exec_inst H D i) (\<lambda>r. case r of Some b \<Rightarrow> ret (Some b) | None \<Rightarrow> seq (finish_step H display i) (ret None)))))"

definition fetch_step :: "host \<Rightarrow> (mem_addr \<Rightarrow> unit mcomp) \<Rightarrow> bool \<Rightarrow> bool option mcomp" where
  "fetch_step H D display =
    seq (modify (\<lambda>s. (poll_timer H (s\<lparr>gpr := (gpr s)(0 := 0)\<rparr>))\<lparr>exception_occurred := False\<rparr>))
      (bnd (gets PC) (\<lambda>pc. bnd (mem_read_inst pc) (\<lambda>p. bnd (gets exception_occurred) (\<lambda>exc.
        if exc then seq (modify (\<lambda>s. handle_exception (s\<lparr>exception_occurred := False\<rparr>))) (ret None)
        else if p = None then throw (Run_Error ''Attempt to execute non-instruction at 0x%08x'')
        else bnd (deref_inst p) (run_inst H D display)))))"

subsection \<open>The loops\<close>

fun run_steps :: "host \<Rightarrow> (mem_addr \<Rightarrow> unit mcomp) \<Rightarrow> bool \<Rightarrow> nat \<Rightarrow> bool option mcomp" where
  "run_steps H D display 0 s = ret None s"
| "run_steps H D display (Suc n) s =
    (if force_break s then ret (Some True) s
     else bnd (fetch_step H D display) (\<lambda>r. case r of Some b \<Rightarrow> ret (Some b) | None \<Rightarrow> run_steps H D display n) s)"

definition take_interrupt :: "machine \<Rightarrow> machine" where
  "take_interrupt s = (if interrupt_pending s then handle_exception (raise_exception ExcCode_Int s) else s)"

definition io_poll :: "host \<Rightarrow> unit mcomp" where
  "io_poll H s = whn (\<not> bare_machine s \<and> mapped_io s) (check_memory_mapped_IO H) s"

abbreviation IO_INTERVAL :: nat where "IO_INTERVAL \<equiv> 100"

definition chunk :: "host \<Rightarrow> (mem_addr \<Rightarrow> unit mcomp) \<Rightarrow> bool \<Rightarrow> nat \<Rightarrow> bool option mcomp" where
  "chunk H D display step_size =
    seq (io_poll H) (seq (modify (\<lambda>s. (take_interrupt s)\<lparr>force_break := False\<rparr>)) (run_steps H D display step_size))"

text \<open>The outer loop; \<open>next_step\<close> is never 0 while steps remain.\<close>

function run_chunks :: "host \<Rightarrow> (mem_addr \<Rightarrow> unit mcomp) \<Rightarrow> bool \<Rightarrow> nat \<Rightarrow> nat \<Rightarrow> bool mcomp" where
  "run_chunks H D display next_step steps_to_run =
    (if steps_to_run = 0 \<or> next_step = 0 then ret True
     else bnd (chunk H D display (min next_step steps_to_run)) (\<lambda>r. case r of Some b \<Rightarrow> ret b
       | None \<Rightarrow> run_chunks H D display next_step (steps_to_run - min next_step steps_to_run)))"
  by pat_completeness auto
termination by (relation "measure (\<lambda>(H, D, display, next_step, steps). steps)") auto

declare run_chunks.simps [simp del]

fun run_spim :: "host \<Rightarrow> nat \<Rightarrow> mem_addr \<Rightarrow> nat \<Rightarrow> bool \<Rightarrow> bool mcomp" where
  "run_spim H 0 initial_PC steps_to_run display s = throw Out_Of_Fuel s"
| "run_spim H (Suc fuel) initial_PC steps_to_run display s =
    (let s = s\<lparr>PC := initial_PC\<rparr>;
         next_step = (if \<not> bare_machine s \<and> mapped_io s then IO_INTERVAL else steps_to_run)
     in run_chunks H (\<lambda>pc. bnd (run_spim H fuel pc 1 display) (\<lambda>_. ret ())) display next_step steps_to_run s)"

end
