(* ===== verification/Narration.thy ===== *)
theory Narration
  imports Explain
begin

text \<open>
  What the teaching mode leaves alone. \<open>template_invariant\<close> is the contract between the templates of the narration
  and the machine: they write to the console, keep notes and peek at memory. \<open>narration_invariant\<close> extends it
  to the printing of instructions. An invariant that these operations keep is kept by \<^verbatim>\<open>explain_before\<close>
  and \<^verbatim>\<open>explain_after\<close>, also when they end in an abort.
\<close>

locale template_invariant =
  fixes I :: "machine \<Rightarrow> bool" and H :: host
  assumes out: "I s \<Longrightarrow> I (s\<lparr>console_out := c\<rparr>)"
    and noted: "I s \<Longrightarrow> I (s\<lparr>explain := n\<rparr>)"
    and peek_byte: "keeps I (peek_byte H a)"
    and peek_half: "keeps I (peek_half H a)"
    and peek_word: "keeps I (peek_word H a)"
begin

text \<open>The narration writes text and its own record; it reads memory through \<open>peek\<close>.\<close>

lemma write_out: "keeps I (write_text t)" "keeps I (write_message f a)" "keeps I (upd_explain g)"
  unfolding write_text_def write_message_def upd_explain_def by (intro keeps_modify out noted; assumption)+

lemma narrated: "keeps I (narrate f)"
  unfolding narrate_def by (intro keeps_bnd keeps_gets keeps_whn write_out)

lemma named: "(\<And>n. keeps I (f n)) \<Longrightarrow> keeps I (named r f)"
  unfolding named_def by (intro keeps_if keeps_throw)

lemma peek_width: "keeps I (peek_width H w a)"
  unfolding peek_width_def by (intro keeps_if keeps_bnd keeps_ret peek_byte peek_half peek_word)

lemmas peeks = peek_byte peek_half peek_word peek_width

lemma in_order: "list_all (keeps I) ms \<Longrightarrow> keeps I (in_order ms)"
  by (induction ms) auto

lemmas narration_intros = keeps_bnd keeps_seq keeps_gets keeps_whn keeps_if keeps_ret keeps_throw keeps_option
  write_out narrated named peeks

lemma said:
  "keeps I (say_input_reg r)" "keeps I (say_input_imm v)" "keeps I (say_wrote_reg r)" "keeps I say_wrote_hi"
  "keeps I say_wrote_lo" "keeps I (say_wrote_mem H w)" "keeps I (say_prior_mem f w)" "keeps I (say_effective_address i)"
  "keeps I (say_offset i)" "keeps I (say_memory_at H w i)" "keeps I (say_branch_target i)"
  unfolding say_input_reg_def say_input_imm_def say_wrote_reg_def say_wrote_hi_def say_wrote_lo_def say_wrote_mem_def
    say_prior_mem_def say_effective_address_def say_offset_def say_memory_at_def say_branch_target_def split_def
  by (intro narration_intros)+

lemma tried: "keeps I (try_line t c)" "keeps I (say_try c w)" "keeps I (pad_try t c)"
  unfolding say_try_def pad_try_def try_line_def add_suggestion_def count_line_def in_order.simps by (intro narration_intros)+

lemma try_regs: "keeps I (try_regs seen rs)"
  by (induction rs arbitrary: seen) (auto intro!: narration_intros tried)

lemma try_blocks: "keeps I (say_try_regs a b c d)" "keeps I say_try_finish" "keeps I (say_try_memory i)"
  unfolding say_try_regs_def say_try_finish_def say_try_memory_def in_order.simps
  by (intro narration_intros try_regs tried)+

lemmas says = narration_intros said tried try_blocks

lemma arith_tpl: "keeps I (tpl_r3_arith l i a b)" "keeps I (tpl_i2_arith l i a b)" "keeps I (tpl_shift l i a b)"
    "keeps I (say_lui l i)" "keeps I (say_sll l i)"
  unfolding say_lui_def say_sll_def tpl_r3_arith_def tpl_i2_arith_def tpl_shift_def in_order.simps by (intro says)+

lemma memory_tpl: "keeps I (tpl_load H l i a b w)" "keeps I (tpl_store H l i a b w)" "keeps I (tpl_load_unaligned H l i a b)"
    "keeps I (tpl_store_unaligned H l i a b)" "keeps I (tpl_load_linked H l i)" "keeps I (tpl_store_conditional H l i)"
    "keeps I (tpl_load_fp H l i a w)" "keeps I (tpl_store_fp l i a w)"
  unfolding tpl_load_def tpl_store_def tpl_load_unaligned_def tpl_store_unaligned_def tpl_load_linked_def
    tpl_store_conditional_def tpl_load_fp_def tpl_store_fp_def in_order.simps by (intro says)+

lemma jump_tpl: "keeps I (tpl_branch_2reg l i a b f)" "keeps I (tpl_branch_1reg l i a b g)" "keeps I (say_j l i)"
    "keeps I (say_jal l i)" "keeps I (say_jr l i)" "keeps I (say_jalr l i)"
  unfolding tpl_branch_2reg_def tpl_branch_1reg_def say_j_def say_jal_def say_jr_def say_jalr_def in_order.simps
  by (intro says)+

lemma special_tpl: "keeps I (say_mfhi l i)" "keeps I (say_mflo l i)" "keeps I (say_hi_lo l i f)"
  unfolding say_mfhi_def say_mflo_def say_hi_lo_def in_order.simps by (intro says)+

lemma syscall_tpl: "keeps I (explain_syscall l)"
proof -
  have c: "keeps I (syscall_case l t v ms)" if "list_all (keeps I) ms" for t v ms
    using that unfolding syscall_case_def by (intro says in_order) (auto intro!: says)
  show ?thesis unfolding explain_syscall_def in_order.simps split_def
    by (intro says c) (auto intro!: says)
qed

lemma template: "(op, t) \<in> set templates \<Longrightarrow> keeps I (t H l i)"
  unfolding templates_def arith_templates_def memory_templates_def branch_templates_def special_templates_def
  by (auto intro!: arith_tpl memory_tpl jump_tpl special_tpl syscall_tpl)

lemma rendered: "keeps I (render_dispatch H l i)"
  by (auto simp: render_dispatch_def split: option.split dest!: map_of_SomeD intro: template write_out)

lemma narrated_step: "keeps I (narrate_step H l i)"
  unfolding narrate_step_def in_order.simps explain_bit_layout_def explain_decoding_steps_def
    say_pseudo_def set_pending_def say_same_value_def say_pc_def split_def
  by (intro says rendered)

end

text \<open>The whole narration also clears the exception flag, prints the instruction and, once, the program.\<close>

locale narration_invariant = template_invariant +
  assumes clear: "I s \<Longrightarrow> I (s\<lparr>exception_occurred := False\<rparr>)"
    and fetch_kept: "keeps I (mem_read_inst a)"
    and format_kept: "keeps I (format_an_inst H fuel p a)"
begin

lemma to_text: "keeps I (inst_to_string H a)"
  unfolding inst_to_string_def error_out_def
  by (intro keeps_seq keeps_bnd keeps_if keeps_gets keeps_ret keeps_modify clear out fetch_kept format_kept)

lemma listed: "keeps I (format_insts H n a b)"
  by (induction n arbitrary: a) (auto intro!: keeps_if keeps_bnd keeps_ret keeps_throw fetch_kept format_kept)

lemma listing: "keeps I (print_text_listing H n)"
  unfolding print_text_listing_def by (intro says keeps_seq listed)

lemma before: "keeps I (explain_before H i a)"
  unfolding explain_before_def show_listing_def snapshot_memory_def take_snapshot_def explain_clear_suggestions_def
    in_order.simps split_def
  by (intro says listing keeps_modify noted)

lemma header: "keeps I (explain_print_step_header H pc i)"
  unfolding explain_print_step_header_def in_order.simps Let_def split_def by (intro says to_text)

lemma after_narration: "keeps I (explain_after H i)"
  unfolding explain_after_def in_order.simps reset_touched_def by (intro says header narrated_step)

end

text \<open>Reading through \<open>peek\<close> keeps what the reader and putting the flag and the bad address back keep.\<close>

lemma keeps_peek:
  "keeps I rd \<Longrightarrow> (\<And>s v e. I s \<Longrightarrow> I (set_cp0 CP0_BadVAddr_Reg v (s\<lparr>exception_occurred := e\<rparr>))) \<Longrightarrow> keeps I (peek rd)"
  unfolding peek_def split_def by (intro keeps_bnd keeps_seq keeps_gets keeps_ret keeps_modify)

end
