(* ===== verification/Invariant.thy ===== *)
theory Invariant
  imports Run Narration MemoryLaws
begin

text \<open>
  Invariants of the whole interpreter. \<open>machine_invariant\<close> is the contract between the memory and
  the processor: an invariant that depends only on the configuration of the machine and on the
  layout of memory, and that the memory operations keep, is kept by every instruction, every
  step and every run, also when the run ends in an abort. It is interpreted on the layout
  invariant of \<^verbatim>\<open>memory.c\<close>, on the validity of the instruction pointers and on the settings.
\<close>

subsection \<open>The part of the state invariants look at\<close>

definition config_view :: "machine \<Rightarrow> bool \<times> bool \<times> bool \<times> bool \<times> bool" where
  "config_view s = (bare_machine s, delayed_branches s, delayed_loads s, mapped_io s, quiet s)"

definition layout_view :: "machine \<Rightarrow> mem_addr \<times> mem_addr \<times> mem_addr \<times> mem_addr \<times> mem_addr \<times> 32 word \<times> 32 word \<times> 32 word" where
  "layout_view s = (text_top s, k_text_top s, data_top s, stack_bot s, k_data_top s,
     data_size_limit s, stack_size_limit s, k_data_size_limit s)"

definition inst_view :: "machine \<Rightarrow> (nat \<Rightarrow> ptr) \<times> (nat \<Rightarrow> ptr) \<times> (nat \<Rightarrow> mips_instruction option) \<times> nat \<times> ptr \<times>
    (mem_addr \<times> nat) list" where
  "inst_view s = (text_seg s, k_text_seg s, inst_heap s, next_obj s, break_inst s, bkpts s)"

definition same_view :: "machine \<Rightarrow> machine \<Rightarrow> bool" where
  "same_view s t \<longleftrightarrow> config_view t = config_view s \<and> layout_view t = layout_view s \<and> inst_view t = inst_view s"

lemmas view_defs = same_view_def config_view_def layout_view_def inst_view_def

lemma same_view_refl [simp]: "same_view s s"
  by (simp add: same_view_def)

lemma same_view_trans: "same_view s t \<Longrightarrow> same_view t u \<Longrightarrow> same_view s u"
  by (simp add: same_view_def)

subsection \<open>Updates that keep the view\<close>

lemma view_set_cp0 [simp]: "same_view s (set_cp0 n v t) = same_view s t"
  by (simp add: view_defs set_cp0_def)

lemma view_raise [simp]: "same_view s (raise_exception e t) = same_view s t"
  by (subst raise_exception_frame) (simp add: view_defs)

lemma view_raise_bad_vaddr [simp]: "same_view s (raise_bad_vaddr e a t) = same_view s t"
  by (simp add: raise_bad_vaddr_def)

lemma view_handle [simp]: "same_view s (handle_exception t) = same_view s t"
proof -
  obtain c where "handle_exception t = t\<lparr>exception_occurred := False, PC := EXCEPTION_ADDR, console_out := c\<rparr>"
    using handle_exception_frame [of t] by blast
  then show ?thesis by (simp add: view_defs)
qed

lemma view_updates [simp]:
  "same_view s (t\<lparr>gpr := g\<rparr>) = same_view s t" "same_view s (t\<lparr>HI := x\<rparr>) = same_view s t"
  "same_view s (t\<lparr>LO := x\<rparr>) = same_view s t" "same_view s (t\<lparr>PC := x\<rparr>) = same_view s t"
  "same_view s (t\<lparr>fp_int_view := f\<rparr>) = same_view s t" "same_view s (t\<lparr>coprocessor_control_0 := f\<rparr>) = same_view s t"
  "same_view s (t\<lparr>coprocessor_1 := f\<rparr>) = same_view s t" "same_view s (t\<lparr>exception_occurred := b\<rparr>) = same_view s t"
  "same_view s (t\<lparr>running_in_delay_slot := b\<rparr>) = same_view s t" "same_view s (t\<lparr>delayed_load_addr1 := l\<rparr>) = same_view s t"
  "same_view s (t\<lparr>delayed_load_value1 := x\<rparr>) = same_view s t" "same_view s (t\<lparr>delayed_load_addr2 := l\<rparr>) = same_view s t"
  "same_view s (t\<lparr>delayed_load_value2 := x\<rparr>) = same_view s t" "same_view s (t\<lparr>timer_polls := k\<rparr>) = same_view s t"
  "same_view s (t\<lparr>console_out := c\<rparr>) = same_view s t" "same_view s (t\<lparr>console_in := i\<rparr>) = same_view s t"
  "same_view s (t\<lparr>console_polls := k\<rparr>) = same_view s t" "same_view s (t\<lparr>os_calls := k\<rparr>) = same_view s t"
  "same_view s (t\<lparr>data_modified := b\<rparr>) = same_view s t" "same_view s (t\<lparr>force_break := b\<rparr>) = same_view s t"
  "same_view s (t\<lparr>spim_return_value := x\<rparr>) = same_view s t" "same_view s (t\<lparr>data_seg_b := m\<rparr>) = same_view s t"
  "same_view s (t\<lparr>stack_seg_b := m\<rparr>) = same_view s t" "same_view s (t\<lparr>k_data_seg_b := m\<rparr>) = same_view s t"
  "same_view s (t\<lparr>recv_control := x\<rparr>) = same_view s t" "same_view s (t\<lparr>recv_buffer := x\<rparr>) = same_view s t"
  "same_view s (t\<lparr>recv_buffer_full_timer := z\<rparr>) = same_view s t" "same_view s (t\<lparr>trans_control := x\<rparr>) = same_view s t"
  "same_view s (t\<lparr>trans_buffer := x\<rparr>) = same_view s t" "same_view s (t\<lparr>trans_buffer_full_timer := z\<rparr>) = same_view s t"
  "same_view s (t\<lparr>text_modified := b\<rparr>) = same_view s t" "same_view s (t\<lparr>explain := n\<rparr>) = same_view s t"
  by (simp_all add: view_defs)

lemma view_registers [simp]:
  "same_view s (set_reg n v t) = same_view s t" "same_view s (set_rd i v t) = same_view s t"
  "same_view s (set_rt i v t) = same_view s t" "same_view s (trap_if b t) = same_view s t"
  "same_view s (SET_FPR_S n v t) = same_view s t" "same_view s (SET_FPR_W n v t) = same_view s t"
  "same_view s (set_fp_double_view k w t) = same_view s t" "same_view s (SET_FCC n b t) = same_view s t"
  "same_view s (set_fpu_cc c n b1 b2 b3 t) = same_view s t" "same_view s (store_loc l v t) = same_view s t"
  "same_view s (link_31 t) = same_view s t" "same_view s (emit e t) = same_view s t"
  "same_view s (error_out f a t) = same_view s t"
  by (simp_all add: set_rd_def set_rt_def set_reg_def trap_if_def SET_FPR_S_def SET_FPR_W_def set_fp_double_view_def
      SET_FCC_def set_fpu_cc_def store_loc_def link_31_def emit_def error_out_def Let_def split: reg_loc.split)

lemma view_multiply [simp]:
  "same_view s (unsigned_multiply a b t) = same_view s t" "same_view s (signed_multiply a b t) = same_view s t"
  by (simp_all add: unsigned_multiply_def signed_multiply_def Let_def)

lemma view_accumulate [simp]:
  "(\<And>s t. same_view s (mul t) = same_view s t) \<Longrightarrow> same_view s (multiply_add mul t) = same_view s t"
  "(\<And>s t. same_view s (mul t) = same_view s t) \<Longrightarrow> same_view s (multiply_sub mul t) = same_view s t"
  by (simp_all add: multiply_add_def multiply_sub_def Let_def)

lemma view_timer [simp]:
  "same_view s (bump_CP0_timer t) = same_view s t" "same_view s (poll_timer H t) = same_view s t"
  "same_view s (take_interrupt t) = same_view s t" "same_view s (DO_DELAYED_UPDATE t) = same_view s t"
  by (simp_all add: bump_CP0_timer_def RAISE_INTERRUPT_def poll_timer_def take_interrupt_def DO_DELAYED_UPDATE_def
      Let_def split: option.split)

lemma view_pure_1 [simp]:
  "same_view s (op_add i t) = same_view s t"
  "same_view s (op_addi i t) = same_view s t"
  "same_view s (op_addiu i t) = same_view s t"
  "same_view s (op_addu i t) = same_view s t"
  "same_view s (op_and i t) = same_view s t"
  "same_view s (op_andi i t) = same_view s t"
  "same_view s (op_cop2 i t) = same_view s t"
  "same_view s (op_nop i t) = same_view s t"
  "same_view s (op_cfc0 i t) = same_view s t"
  "same_view s (op_clo i t) = same_view s t"
  "same_view s (op_clz i t) = same_view s t"
  "same_view s (op_ctc0 i t) = same_view s t"
  "same_view s (op_div i t) = same_view s t"
  "same_view s (op_divu i t) = same_view s t"
  "same_view s (op_lui i t) = same_view s t"
  "same_view s (op_madd i t) = same_view s t"
  "same_view s (op_mfc0 i t) = same_view s t"
  "same_view s (op_mfhi i t) = same_view s t"
  "same_view s (op_mflo i t) = same_view s t"
  "same_view s (op_movn i t) = same_view s t"
  by (simp_all add:
      op_add_def op_addi_def op_addiu_def op_addu_def op_and_def op_andi_def op_cop2_def
      op_nop_def op_cfc0_def op_clo_def op_clz_def op_ctc0_def op_div_def op_divu_def op_lui_def
      op_madd_def op_mfc0_def op_mfhi_def op_mflo_def op_movn_def
      Let_def split: option.split)

lemma view_pure_2 [simp]:
  "same_view s (op_movz i t) = same_view s t"
  "same_view s (op_msub i t) = same_view s t"
  "same_view s (op_mtc0 i t) = same_view s t"
  "same_view s (op_mthi i t) = same_view s t"
  "same_view s (op_mtlo i t) = same_view s t"
  "same_view s (op_mul i t) = same_view s t"
  "same_view s (op_mult i t) = same_view s t"
  "same_view s (op_multu i t) = same_view s t"
  "same_view s (op_nor i t) = same_view s t"
  "same_view s (op_or i t) = same_view s t"
  "same_view s (op_ori i t) = same_view s t"
  "same_view s (op_reserved i t) = same_view s t"
  "same_view s (op_sll i t) = same_view s t"
  "same_view s (op_sllv i t) = same_view s t"
  "same_view s (op_slt i t) = same_view s t"
  "same_view s (op_slti i t) = same_view s t"
  "same_view s (op_sltiu i t) = same_view s t"
  "same_view s (op_sltu i t) = same_view s t"
  "same_view s (op_sra i t) = same_view s t"
  "same_view s (op_srav i t) = same_view s t"
  by (simp_all add:
      op_movz_def op_msub_def op_mtc0_def op_mthi_def op_mtlo_def op_mul_def op_mult_def
      op_multu_def op_nor_def op_or_def op_ori_def op_reserved_def op_sll_def op_sllv_def
      op_slt_def op_slti_def op_sltiu_def op_sltu_def op_sra_def op_srav_def
      Let_def split: option.split)

lemma view_pure_3 [simp]:
  "same_view s (op_srl i t) = same_view s t"
  "same_view s (op_srlv i t) = same_view s t"
  "same_view s (op_sub i t) = same_view s t"
  "same_view s (op_subu i t) = same_view s t"
  "same_view s (op_teq i t) = same_view s t"
  "same_view s (op_teqi i t) = same_view s t"
  "same_view s (op_tge i t) = same_view s t"
  "same_view s (op_tgei i t) = same_view s t"
  "same_view s (op_tgeiu i t) = same_view s t"
  "same_view s (op_tgeu i t) = same_view s t"
  "same_view s (op_tlt i t) = same_view s t"
  "same_view s (op_tlti i t) = same_view s t"
  "same_view s (op_tltiu i t) = same_view s t"
  "same_view s (op_tltu i t) = same_view s t"
  "same_view s (op_tne i t) = same_view s t"
  "same_view s (op_tnei i t) = same_view s t"
  "same_view s (op_xor i t) = same_view s t"
  "same_view s (op_xori i t) = same_view s t"
  "same_view s (op_c_cond_s i t) = same_view s t"
  "same_view s (op_cfc1 i t) = same_view s t"
  by (simp_all add:
      op_srl_def op_srlv_def op_sub_def op_subu_def op_teq_def op_teqi_def op_tge_def op_tgei_def
      op_tgeiu_def op_tgeu_def op_tlt_def op_tlti_def op_tltiu_def op_tltu_def op_tne_def
      op_tnei_def op_xor_def op_xori_def op_c_cond_s_def op_cfc1_def
      Let_def split: option.split)

lemma view_pure_4 [simp]:
  "same_view s (op_ctc1 i t) = same_view s t"
  "same_view s (op_mfc1 i t) = same_view s t"
  "same_view s (op_movf i t) = same_view s t"
  "same_view s (op_movt i t) = same_view s t"
  "same_view s (op_mtc1 i t) = same_view s t"
  by (simp_all add:
      op_ctc1_def op_mfc1_def op_movf_def op_movt_def op_mtc1_def
      Let_def split: option.split)

subsection \<open>The contract\<close>

lemma keeps_pointwise: "(\<And>s. \<exists>m'. keeps I m' \<and> m s = m' s) \<Longrightarrow> keeps I m"
  unfolding keeps_def by metis

locale machine_invariant =
  fixes I :: "machine \<Rightarrow> bool" and H :: host
  assumes view: "same_view s t \<Longrightarrow> I s \<Longrightarrow> I t"
    and read_byte: "keeps I (mem_read_byte H a)"
    and read_half: "keeps I (mem_read_half H a)"
    and read_word: "keeps I (mem_read_word H a)"
    and read_inst: "keeps I (mem_read_inst a)"
    and write_byte: "keeps I (mem_write_byte H a v)"
    and write_half: "keeps I (mem_write_half H a v)"
    and write_word: "keeps I (mem_write_word H a v)"
    and grow_data: "keeps I (expand_data H n)"
    and format_inst: "keeps I (format_an_inst H fuel p a)"
begin

lemma upd: "(\<And>s t. same_view s (f t) = same_view s t) \<Longrightarrow> keeps I (modify f)"
  by (rule keeps_modify) (metis view same_view_refl)

lemma pure: "(\<And>s t. same_view s (f i t) = same_view s t) \<Longrightarrow> keeps I (pure_case f i)"
  unfolding pure_case_def by (intro keeps_seq upd keeps_ret)

lemma comp: "keeps I (f i) \<Longrightarrow> keeps I (comp_case f i)"
  unfolding comp_case_def by (intro keeps_seq keeps_ret)

lemma load_base: "keeps I ld \<Longrightarrow> keeps I (LOAD_INST_BASE dest ld)"
proof (rule keeps_pointwise)
  fix s assume ld: "keeps I ld"
  have "keeps I (seq (modify (\<lambda>s. s\<lparr>delayed_load_addr1 := Some dest\<rparr>)) (bnd ld (\<lambda>v. modify (\<lambda>s. s\<lparr>delayed_load_value1 := v\<rparr>))))"
    and "keeps I (bnd ld (\<lambda>v. modify (store_loc dest v)))"
    using ld by (intro keeps_seq keeps_bnd upd; simp)+
  then show "\<exists>m'. keeps I m' \<and> LOAD_INST_BASE dest ld s = m' s"
    by (cases "delayed_loads s") (auto simp: LOAD_INST_BASE_def)
qed

lemma load: "keeps I ld \<Longrightarrow> keeps I (LOAD_INST dest ld msk)"
  unfolding LOAD_INST_def by (intro load_base keeps_bnd keeps_ret)

lemma load_gpr: "(\<And>a. keeps I (rd a)) \<Longrightarrow> keeps I (load_gpr rd msk i)"
  by (rule keeps_pointwise) (auto simp: load_gpr_def intro: load)

lemma jump: "(\<And>pc. keeps I (D pc)) \<Longrightarrow> keeps I (JUMP_INST D target)"
  by (rule keeps_pointwise, rule exI, rule conjI [OF _ JUMP_INST_def]) (intro keeps_seq keeps_whn upd; simp)

lemma branch: "(\<And>pc. keeps I (D pc)) \<Longrightarrow> keeps I (BRANCH_INST D test target nullify)"
proof (rule keepsI)
  fix s assume D: "\<And>pc. keeps I (D pc)" and s: "I s"
  have adv: "I (s\<lparr>PC := PC s + 4\<rparr>)" by (rule view [OF _ s]) simp
  have j: "I (final (JUMP_INST D t s))" for t by (rule keepsD [OF jump [OF D] s])
  show "I (final (BRANCH_INST D test target nullify s))"
    by (simp add: BRANCH_INST_def Let_def adv j s)
qed

lemma branch_if: "(\<And>pc. keeps I (D pc)) \<Longrightarrow> keeps I (branch_if D test nullify i)"
  by (rule keeps_pointwise) (auto simp: branch_if_def intro: branch)

lemma fpr_d: "keeps I (FPR_D n)"
  by (rule keeps_pointwise) (auto simp: FPR_D_def)

lemma set_fpr_d: "keeps I m \<Longrightarrow> keeps I (SET_FPR_D n m)"
proof (rule keeps_pointwise)
  fix s assume m: "keeps I m"
  then have "keeps I (bnd m (\<lambda>v. modify (set_fp_double_view (n div 2) v)))" by (intro keeps_bnd upd) simp_all
  then show "\<exists>m'. keeps I m' \<and> SET_FPR_D n m s = m' s"
    by (cases "n mod 2 = 1") (auto simp: SET_FPR_D_def)
qed

lemma fp_shapes:
  "keeps I (fp_unary_s f i)" "keeps I (fp_unary_d g i)" "keeps I (fp_binary_s f2 i)" "keeps I (fp_binary_d g2 i)"
  "keeps I (fp_word_of_d k i)" "keeps I (fp_word_of_s f i)"
  unfolding fp_unary_s_def fp_unary_d_def fp_binary_s_def fp_binary_d_def fp_word_of_d_def fp_word_of_s_def
  by (intro keeps_bnd keeps_ret upd set_fpr_d fpr_d; simp)+

lemma choice: "(\<And>s. m s = m1 s \<or> m s = Inr ((), s)) \<Longrightarrow> keeps I m1 \<Longrightarrow> keeps I m"
  by (rule keepsI) (metis final.simps(2) keepsD)

lemma fp_moves:
  "keeps I (op_mov_d i)" "keeps I (op_mov_s i)"
  "keeps I (op_movf_d i)" "keeps I (op_movf_s i)" "keeps I (op_movn_d i)" "keeps I (op_movn_s i)"
  "keeps I (op_movt_d i)" "keeps I (op_movt_s i)" "keeps I (op_movz_d i)" "keeps I (op_movz_s i)"
proof -
  show d: "keeps I (op_mov_d i)" and s: "keeps I (op_mov_s i)"
    unfolding op_mov_d_def op_mov_s_def by (rule fp_shapes)+
  show "keeps I (op_movf_d i)" by (rule choice [OF _ d]) (simp add: op_movf_d_def)
  show "keeps I (op_movf_s i)" by (rule choice [OF _ s]) (simp add: op_movf_s_def)
  show "keeps I (op_movn_d i)" by (rule choice [OF _ d]) (simp add: op_movn_d_def)
  show "keeps I (op_movn_s i)" by (rule choice [OF _ s]) (simp add: op_movn_s_def)
  show "keeps I (op_movt_d i)" by (rule choice [OF _ d]) (simp add: op_movt_d_def)
  show "keeps I (op_movt_s i)" by (rule choice [OF _ s]) (simp add: op_movt_s_def)
  show "keeps I (op_movz_d i)" by (rule choice [OF _ d]) (simp add: op_movz_d_def)
  show "keeps I (op_movz_s i)" by (rule choice [OF _ s]) (simp add: op_movz_s_def)
qed

lemma fp_computations:
  "keeps I (op_abs_s H i)" "keeps I (op_abs_d i)" "keeps I (op_add_s H i)" "keeps I (op_add_d H i)"
  "keeps I (op_ceil_w_d H i)" "keeps I (op_ceil_w_s H i)" "keeps I (op_cvt_w_d H i)" "keeps I (op_cvt_w_s H i)"
  "keeps I (op_div_s H i)" "keeps I (op_div_d H i)" "keeps I (op_floor_w_d H i)" "keeps I (op_floor_w_s H i)"
  "keeps I (op_mul_s H i)" "keeps I (op_mul_d H i)" "keeps I (op_neg_s i)" "keeps I (op_neg_d i)"
  "keeps I (op_round_w_d H i)" "keeps I (op_round_w_s H i)" "keeps I (op_sqrt_d H i)" "keeps I (op_sqrt_s H i)"
  "keeps I (op_sub_s H i)" "keeps I (op_sub_d H i)" "keeps I (op_trunc_w_d H i)" "keeps I (op_trunc_w_s H i)"
  unfolding op_abs_s_def op_abs_d_def op_add_s_def op_add_d_def op_ceil_w_d_def op_ceil_w_s_def op_cvt_w_d_def
    op_cvt_w_s_def op_div_s_def op_div_d_def op_floor_w_d_def op_floor_w_s_def op_mul_s_def op_mul_d_def op_neg_s_def
    op_neg_d_def op_round_w_d_def op_round_w_s_def op_sqrt_d_def op_sqrt_s_def op_sub_s_def op_sub_d_def
    op_trunc_w_d_def op_trunc_w_s_def by (rule fp_shapes)+

lemma fp_conversions:
  "keeps I (op_cvt_d_s H i)" "keeps I (op_cvt_d_w H i)" "keeps I (op_cvt_s_d H i)" "keeps I (op_cvt_s_w H i)"
  "keeps I (op_c_cond_d i)"
  unfolding op_cvt_d_s_def op_cvt_d_w_def op_cvt_s_d_def op_cvt_s_w_def op_c_cond_d_def
  by (intro keeps_bnd keeps_gets upd set_fpr_d fpr_d; simp add: Let_def)+

lemma gpr_loads:
  "keeps I (op_lb H i)" "keeps I (op_lbu H i)" "keeps I (op_lh H i)" "keeps I (op_lhu H i)" "keeps I (op_ll H i)"
  "keeps I (op_lw H i)"
  unfolding op_lb_def op_lbu_def op_lh_def op_lhu_def op_ll_def op_lw_def
  by (intro load_gpr read_byte read_half read_word)+

lemma partial_loads: "keeps I (op_lwl H i)" "keeps I (op_lwr H i)"
  by (rule keeps_pointwise, rule exI, rule conjI [OF _ op_lwl_def [unfolded Let_def]],
      intro keeps_bnd keeps_gets load_base read_word keeps_ret)
    (rule keeps_pointwise, rule exI, rule conjI [OF _ op_lwr_def [unfolded Let_def]],
      intro keeps_bnd keeps_gets load_base read_word keeps_ret)

lemma gpr_stores: "keeps I (op_sb H i)" "keeps I (op_sc H i)" "keeps I (op_sh H i)" "keeps I (op_sw H i)" "keeps I (op_swc1 H i)"
  by (rule keeps_pointwise, auto simp: op_sb_def op_sc_def op_sh_def op_sw_def op_swc1_def
      intro: write_byte write_half write_word)+

lemma partial_stores: "keeps I (op_swl H i)" "keeps I (op_swr H i)"
  by (rule keeps_pointwise, rule exI, rule conjI [OF _ op_swl_def [unfolded Let_def]], intro keeps_bnd read_word write_word)
    (rule keeps_pointwise, rule exI, rule conjI [OF _ op_swr_def [unfolded Let_def]], intro keeps_bnd read_word write_word)

lemma fp_transfers: "keeps I (op_lwc1 H i)" "keeps I (op_ldc1 H i)" "keeps I (op_sdc1 H i)"
proof -
  show "keeps I (op_lwc1 H i)" by (rule keeps_pointwise) (auto simp: op_lwc1_def intro: load read_word)
  show "keeps I (op_ldc1 H i)"
    by (rule keeps_pointwise, rule exI, rule conjI [OF _ op_ldc1_def [unfolded Let_def]])
      (intro keeps_seq keeps_whn load read_word upd; simp)
  show "keeps I (op_sdc1 H i)"
    unfolding op_sdc1_def Let_def
    by (intro keeps_bnd fpr_d, rule keeps_pointwise, rule exI, rule conjI [OF _ refl])
      (intro keeps_seq keeps_whn write_word upd; simp)
qed

lemma branches:
  assumes D: "\<And>pc. keeps I (D pc)"
  shows "keeps I (op_beq D i)" "keeps I (op_beql D i)" "keeps I (op_bgez D i)" "keeps I (op_bgezl D i)"
    "keeps I (op_bgezal D i)" "keeps I (op_bgezall D i)" "keeps I (op_bgtz D i)" "keeps I (op_bgtzl D i)"
    "keeps I (op_blez D i)" "keeps I (op_blezl D i)" "keeps I (op_bltz D i)" "keeps I (op_bltzl D i)"
    "keeps I (op_bltzal D i)" "keeps I (op_bltzall D i)" "keeps I (op_bne D i)" "keeps I (op_bnel D i)"
  unfolding op_beq_def op_beql_def op_bgez_def op_bgezl_def op_bgezal_def op_bgezall_def op_bgtz_def op_bgtzl_def
    op_blez_def op_blezl_def op_bltz_def op_bltzl_def op_bltzal_def op_bltzall_def op_bne_def op_bnel_def
  by (intro keeps_seq branch_if D upd; simp)+

lemma jumps:
  assumes D: "\<And>pc. keeps I (D pc)"
  shows "keeps I (op_bc1 D i)" "keeps I (op_eret D i)" "keeps I (op_j D i)" "keeps I (op_jal D i)"
    "keeps I (op_jalr D i)" "keeps I (op_jr D i)"
proof -
  show "keeps I (op_bc1 D i)"
    by (rule keeps_pointwise, rule exI, rule conjI [OF _ op_bc1_def]) (rule branch [OF D])
  show "keeps I (op_eret D i)" "keeps I (op_j D i)" "keeps I (op_jal D i)" "keeps I (op_jalr D i)" "keeps I (op_jr D i)"
    unfolding op_eret_def op_j_def op_jal_def op_jalr_def op_jr_def
    by (intro keeps_seq keeps_bnd keeps_gets jump [OF D] upd; simp)+
qed

lemma mem_reference: "keeps I (mem_reference a)"
  by (rule keepsI) (simp add: mem_reference_def)

lemma read_string_at: "keeps I (read_string_at H p)"
  by (rule keepsI) (auto simp: read_string_at_def split: option.split)

lemma write_bytes_at: "keeps I (write_bytes_at p bs)"
  by (rule keepsI) (auto simp: write_bytes_at_def view [rotated] split: host_ptr.split)

lemma read_input: "keeps I (read_input n)"
  by (rule keepsI) (auto simp: read_input_def Let_def view [rotated] split: prod.split)

lemma read_int_input: "keeps I read_int_input"
  by (rule keepsI) (auto simp: read_int_input_def Let_def view [rotated] split: prod.split option.split)

lemma syscalls:
  "keeps I (sys_print_string H)" "keeps I sys_read_int" "keeps I (sys_read_float H)" "keeps I (sys_read_double H)"
  "keeps I sys_read_string" "keeps I (sys_sbrk H)" "keeps I sys_read_char" "keeps I (sys_open H)" "keeps I (sys_read H)"
  unfolding sys_print_string_def sys_read_int_def sys_read_float_def sys_read_double_def sys_read_string_def
    sys_sbrk_def sys_read_char_def sys_open_def sys_read_def split_def
  by (intro keeps_bnd keeps_seq keeps_gets mem_reference read_string_at write_bytes_at read_input read_int_input
      grow_data upd; simp)+

lemma sys_write: "keeps I (sys_write H)"
  unfolding sys_write_def split_def
  by (intro keeps_bnd keeps_gets mem_reference, rule keepsI) (auto simp: Let_def view [rotated])

lemma do_syscall: "keeps I (do_syscall H)"
proof (rule keepsI)
  fix s assume s: "I s"
  have k: "I (final (seq m (ret True) s))" if "keeps I m" for m
    using keepsD [OF keeps_seq [OF that keeps_ret] s] .
  have c: "I (final (if b then x else y))" if "I (final x)" "I (final y)" for b and x y :: "(machine, bool) result"
    using that by simp
  have v: "I (s\<lparr>spim_return_value := x\<rparr>)" for x by (rule view [OF _ s]) simp
  show "I (final (do_syscall H s))"
    unfolding do_syscall_def Let_def
    by (intro c k syscalls sys_write upd; simp add: sys_close_def v s)
qed

lemma op_break: "keeps I (op_break i)"
  unfolding op_break_def by (intro keeps_seq keeps_ret upd) simp

lemma op_syscall: "keeps I (op_syscall H i)"
  unfolding op_syscall_def by (intro keeps_bnd do_syscall keeps_ret)

lemmas handlers = op_break op_syscall branches jumps fp_computations fp_conversions fp_moves fp_transfers gpr_loads
  gpr_stores partial_loads partial_stores

lemma cases_1: "(\<And>pc. keeps I (D pc)) \<Longrightarrow> (t, h) \<in> set (cases_1 H D) \<Longrightarrow> keeps I (h i)"
  by (auto simp: cases_1_def intro!: pure comp handlers)

lemma cases_2: "(\<And>pc. keeps I (D pc)) \<Longrightarrow> (t, h) \<in> set (cases_2 H D) \<Longrightarrow> keeps I (h i)"
  by (auto simp: cases_2_def intro!: pure comp handlers)

lemma cases_3: "(\<And>pc. keeps I (D pc)) \<Longrightarrow> (t, h) \<in> set (cases_3 H D) \<Longrightarrow> keeps I (h i)"
  by (auto simp: cases_3_def intro!: pure comp handlers)

lemma cases_4: "(\<And>pc. keeps I (D pc)) \<Longrightarrow> (t, h) \<in> set (cases_4 H D) \<Longrightarrow> keeps I (h i)"
  by (auto simp: cases_4_def intro!: pure comp handlers)

lemma cases_5: "(\<And>pc. keeps I (D pc)) \<Longrightarrow> (t, h) \<in> set (cases_5 H D) \<Longrightarrow> keeps I (h i)"
  by (auto simp: cases_5_def intro!: pure comp handlers)

lemma cases_6: "(\<And>pc. keeps I (D pc)) \<Longrightarrow> (t, h) \<in> set (cases_6 H D) \<Longrightarrow> keeps I (h i)"
  by (auto simp: cases_6_def intro!: pure comp handlers)

lemma cases_7: "(\<And>pc. keeps I (D pc)) \<Longrightarrow> (t, h) \<in> set (cases_7 H D) \<Longrightarrow> keeps I (h i)"
  by (auto simp: cases_7_def intro!: pure comp handlers)

lemma cases_8: "(\<And>pc. keeps I (D pc)) \<Longrightarrow> (t, h) \<in> set (cases_8 H D) \<Longrightarrow> keeps I (h i)"
  by (auto simp: cases_8_def intro!: pure comp handlers)

lemma cases_9: "(\<And>pc. keeps I (D pc)) \<Longrightarrow> (t, h) \<in> set (cases_9 H D) \<Longrightarrow> keeps I (h i)"
  by (auto simp: cases_9_def intro!: pure comp handlers)

lemma cases_10: "(\<And>pc. keeps I (D pc)) \<Longrightarrow> (t, h) \<in> set (cases_10 H D) \<Longrightarrow> keeps I (h i)"
  by (auto simp: cases_10_def intro!: pure comp handlers)

lemma cases_11: "(\<And>pc. keeps I (D pc)) \<Longrightarrow> (t, h) \<in> set (cases_11 H D) \<Longrightarrow> keeps I (h i)"
  by (auto simp: cases_11_def intro!: pure comp handlers)

lemma cases_12: "(\<And>pc. keeps I (D pc)) \<Longrightarrow> (t, h) \<in> set (cases_12 H D) \<Longrightarrow> keeps I (h i)"
  by (auto simp: cases_12_def intro!: pure comp handlers)

lemma cases_13: "(\<And>pc. keeps I (D pc)) \<Longrightarrow> (t, h) \<in> set (cases_13 H D) \<Longrightarrow> keeps I (h i)"
  by (auto simp: cases_13_def intro!: pure comp handlers)

lemma switch:
  assumes D: "\<And>pc. keeps I (D pc)" and "(t, h) \<in> set (switch_cases H D)"
  shows "keeps I (h i)"
  using assms(2) unfolding switch_cases_def set_append Un_iff
  by (elim disjE) (erule cases_1 [OF D]
      cases_2 [OF D]
      cases_3 [OF D]
      cases_4 [OF D]
      cases_5 [OF D]
      cases_6 [OF D]
      cases_7 [OF D]
      cases_8 [OF D]
      cases_9 [OF D]
      cases_10 [OF D]
      cases_11 [OF D]
      cases_12 [OF D]
      cases_13 [OF D])+

lemma exec: "(\<And>pc. keeps I (D pc)) \<Longrightarrow> keeps I (exec_inst H D i)"
  by (auto simp: exec_inst_def split: option.split dest!: map_of_SomeD intro: switch)

lemma to_string: "keeps I (inst_to_string H a)"
  unfolding inst_to_string_def by (intro keeps_seq keeps_bnd keeps_if keeps_gets keeps_ret read_inst format_inst upd) simp_all

lemma print: "keeps I (print_inst H a)"
  unfolding print_inst_def by (intro keeps_bnd to_string upd) simp_all

end

text \<open>The narration keeps such an invariant, by its own contract.\<close>

sublocale machine_invariant \<subseteq> narration_invariant
proof
  have put_back: "I (set_cp0 CP0_BadVAddr_Reg v (s\<lparr>exception_occurred := e\<rparr>))" if "I s" for s v e
    by (rule view [OF _ that]) simp
  show "keeps I (peek_byte H a)" "keeps I (peek_half H a)" "keeps I (peek_word H a)" for a
    unfolding peek_byte_def peek_half_def peek_word_def
    by (rule keeps_peek, rule read_byte read_half read_word, erule put_back)+
qed (rule read_inst format_inst | rule view [rotated], assumption, simp)+

context machine_invariant
begin

lemma finish: "keeps I (finish_step H display i)"
  unfolding finish_step_def by (intro keeps_seq keeps_whn keeps_bnd keeps_gets print after_narration upd) simp_all

lemma undefined: "keeps I (undefined_symbol i)"
  by (rule keepsI) (simp add: undefined_symbol_def split: option.split)

lemma deref: "keeps I (deref_inst p)"
  by (rule keepsI) (simp add: deref_inst_def split: option.split)

lemma run: "(\<And>pc. keeps I (D pc)) \<Longrightarrow> keeps I (run_inst H D display i)"
  unfolding run_inst_def
  by (intro keeps_bnd keeps_if keeps_throw keeps_seq keeps_option keeps_ret keeps_gets undefined exec finish before to_string upd) simp_all

lemma step:
  assumes "\<And>pc. keeps I (D pc)"
  shows "keeps I (fetch_step H D display)"
  unfolding fetch_step_def
  by (intro keeps_bnd keeps_if keeps_throw keeps_seq keeps_ret keeps_gets read_inst deref run assms upd; simp)

lemma steps:
  assumes "\<And>pc. keeps I (D pc)"
  shows "keeps I (run_steps H D display n)"
proof (induction n)
  case (Suc n)
  have "keeps I (bnd (fetch_step H D display) (\<lambda>r. case r of Some b \<Rightarrow> ret (Some b) | None \<Rightarrow> run_steps H D display n))"
    using Suc by (intro keeps_bnd keeps_option keeps_ret step assms)
  then show ?case unfolding keeps_def by simp
qed (simp add: keeps_def)

lemma io: "keeps I (check_memory_mapped_IO H)"
proof -
  have av: "keeps I (console_input_available H)"
    by (rule keepsI) (auto simp: console_input_available_def view [rotated])
  have ch: "keeps I (get_console_char H)"
    by (rule keepsI) (auto simp: get_console_char_def Let_def view [rotated] split: list.split)
  have rc: "keeps I (check_receiver H)"
  proof (rule keepsI)
    fix s assume s: "I s"
    have "keeps I (bnd (console_input_available H) (\<lambda>avail. whn avail (bnd (get_console_char H) (\<lambda>c. modify (receive_char c)))))"
      by (intro keeps_bnd keeps_whn av ch upd) (simp add: receive_char_def Let_def RAISE_INTERRUPT_def)
    from keepsD [OF this s] show "I (final (check_receiver H s))"
      by (auto simp: check_receiver_def view [OF _ s])
  qed
  show ?thesis unfolding check_memory_mapped_IO_def
    by (intro keeps_seq rc upd) (simp add: check_transmitter_def Let_def RAISE_INTERRUPT_def)
qed

lemma chunk:
  assumes "\<And>pc. keeps I (D pc)"
  shows "keeps I (chunk H D display n)"
proof -
  have "keeps I (io_poll H)" by (rule keepsI) (auto simp: io_poll_def intro: keepsD [OF io])
  then show ?thesis unfolding chunk_def by (intro keeps_seq steps assms upd; simp)
qed

lemma chunks:
  assumes "\<And>pc. keeps I (D pc)"
  shows "keeps I (run_chunks H D display nx n)"
proof (induction n rule: less_induct)
  case (less n)
  show ?case
  proof (cases "n = 0 \<or> nx = 0")
    case False
    then have "keeps I (run_chunks H D display nx (n - min nx n))" by (intro less) auto
    then show ?thesis by (subst run_chunks.simps) (intro keeps_if keeps_bnd keeps_option keeps_ret chunk assms)
  next
    case True
    then show ?thesis by (subst run_chunks.simps) (simp only: if_True keeps_ret)
  qed
qed

lemma run_spim: "keeps I (run_spim H fuel pc n display)"
proof (induction fuel arbitrary: pc n)
  case (Suc fuel)
  show ?case
  proof (rule keepsI)
    fix s assume s: "I s"
    have "I (s\<lparr>PC := pc\<rparr>)" by (rule view [OF _ s]) simp
    moreover have "keeps I (run_chunks H (\<lambda>pc. bnd (run_spim H fuel pc 1 display) (\<lambda>_. ret ())) display k n)" for k
      by (intro chunks keeps_bnd keeps_ret Suc)
    ultimately show "I (final (run_spim H (Suc fuel) pc n display s))" by (simp add: Let_def keepsD)
  qed
qed (simp add: keeps_def)

end

end
