(* ===== verification/Safety.thy ===== *)
theory Safety
  imports Invariant MemoryProps
begin

text \<open>
  Invariants of every run of the simulator. \<open>storage_invariant\<close> is the contract of the slow paths of
  \<^verbatim>\<open>memory.c\<close> (growing a segment, decoding a word into the text segment); it implies
  \<open>machine_invariant\<close>, so an invariant that satisfies it holds after any run. It is interpreted on the
  layout of the address space, on the validity of the instruction pointers and on the settings.
\<close>

subsection \<open>From the slow paths to the accessors\<close>

lemma view_devices [simp]:
  "same_view s (RAISE_INTERRUPT l t) = same_view s t" "same_view s (CLEAR_INTERRUPT l t) = same_view s t"
  "same_view s (put_console_char c t) = same_view s t" "same_view s (write_trans_control v t) = same_view s t"
  "same_view s (write_trans_buffer v t) = same_view s t" "same_view s (write_recv_control v t) = same_view s t"
  "same_view s (read_recv_buffer t) = same_view s t" "same_view s (write_stack_cell a v m t) = same_view s t"
  by (simp_all add: RAISE_INTERRUPT_def CLEAR_INTERRUPT_def put_console_char_def write_trans_control_def
      write_trans_buffer_def write_recv_control_def read_recv_buffer_def write_stack_cell_def Let_def)

locale storage_invariant =
  fixes I :: "machine \<Rightarrow> bool" and H :: host
  assumes view_closed: "same_view s t \<Longrightarrow> I s \<Longrightarrow> I t"
    and grow_stack: "near_stack s a \<Longrightarrow> I s \<Longrightarrow> I (final (expand_stack H (stack_bot s - a + 4) s))"
    and grow: "keeps I (expand_data H n)"
    and allocate: "keeps I (new_inst i)"
    and write_text: "keeps I (write_text_as_data a v m)"
begin

lemma raised: "I s \<Longrightarrow> I (raise_bad_vaddr e a s)"
  by (rule view_closed [of s]) simp_all

lemma io_read: "keeps I (read_memory_mapped_IO a)"
  by (rule keepsI) (auto simp: read_memory_mapped_IO_def Let_def view_closed [rotated])

lemma io_write: "keeps I (write_memory_mapped_IO a v)"
  by (rule keepsI) (auto simp: write_memory_mapped_IO_def view_closed [rotated])

lemma text_read: "keeps I (read_text_as_data a m)"
  by (rule keepsI) (auto simp: read_text_as_data_def deref_inst_def Let_def bnd_def split: option.split)

lemma slow_read: "keeps I (bad_mem_read H a m)"
proof (rule keepsI)
  fix s assume s: "I s"
  have "I (final (seq (expand_stack H (stack_bot s - a + 4)) (ret (0 :: 32 word)) s))" if "near_stack s a"
    using grow_stack [OF that s] by (cases "expand_stack H (stack_bot s - a + 4) s") (auto simp: seq_def bnd_def)
  then show "I (final (bad_mem_read H a m s))"
    using raised [OF s] keepsD [OF text_read s] keepsD [OF io_read s] by (simp add: bad_mem_read_def)
qed

lemma slow_write: "keeps I (bad_mem_write H a v m)"
proof (rule keepsI)
  fix s assume s: "I s"
  let ?g = "expand_stack H (stack_bot s - a + 4)"
  let ?w = "\<lambda>s. (write_stack_cell a v m s)\<lparr>data_modified := True\<rparr>"
  have "I (final (seq ?g (modify ?w) s))" if "near_stack s a"
  proof (cases "?g s")
    case (Inl e)
    then show ?thesis using grow_stack [OF that s] by (simp add: seq_def bnd_def)
  next
    case (Inr r)
    then obtain u where u: "?g s = Inr ((), u)" by (cases r) auto
    with grow_stack [OF that s] have "I u" by simp
    then have "I (?w u)" by (rule view_closed [rotated]) simp
    with u show ?thesis by (simp add: seq_def bnd_def)
  qed
  then show "I (final (bad_mem_write H a v m s))"
    using raised [OF s] keepsD [OF write_text s] keepsD [OF io_write s] by (simp add: bad_mem_write_def)
qed

lemma reads: "keeps I (mem_read_byte H a)" "keeps I (mem_read_half H a)" "keeps I (mem_read_word H a)"
  by (rule keepsI, simp add: mem_read_byte_def mem_read_half_def mem_read_word_def keepsD [OF slow_read])+

lemma fetch: "keeps I (mem_read_inst a)"
proof (rule keepsI)
  fix s assume s: "I s"
  have "I (final (bad_text_read a s))"
    unfolding bad_text_read_def using keepsD [OF allocate raised [OF s]] by simp
  then show "I (final (mem_read_inst a s))" using s by (simp add: mem_read_inst_def)
qed

lemma deref_kept: "keeps I (deref_inst p)"
  by (rule keepsI) (simp add: deref_inst_def split: option.split)

lemma modified: "I s \<Longrightarrow> I (s\<lparr>data_modified := b\<rparr>)"
  by (rule view_closed [of s]) simp_all

lemma writes: "keeps I (mem_write_byte H a v)" "keeps I (mem_write_half H a v)" "keeps I (mem_write_word H a v)"
  by (rule keepsI, simp add: mem_write_byte_def mem_write_half_def mem_write_word_def Let_def,
      auto intro: keepsD [OF slow_write modified] view_closed [rotated])+

lemma bad_write_inst: "keeps I (bad_text_write H a p)"
  unfolding bad_text_write_def by (intro keeps_seq keeps_bnd writes deref_kept keeps_modify raised)

end

text \<open>
  The debugger changes the text segment too: an invariant of a run survives taking a breakpoint
  out of memory and putting it back, which printing an instruction does.
\<close>

locale debug_invariant = storage_invariant +
  assumes make_break: "keeps I make_break_inst"
    and delete_break: "keeps I (delete_breakpoint H a)"
    and add_break: "keeps I (add_breakpoint H a)"
begin

lemma is_break: "keeps I (inst_is_breakpoint a)"
  unfolding inst_is_breakpoint_def by (intro keeps_seq keeps_bnd keeps_gets make_break fetch)

lemma format_text: "keeps I (format_inst_text p a)"
  by (rule keepsI) (simp add: format_inst_reads)

lemma format: "keeps I (format_an_inst H fuel p a)"
proof (induction fuel arbitrary: p)
  case 0
  show ?case unfolding format_an_inst.simps by (rule keeps_throw)
next
  case (Suc fuel)
  show ?case unfolding format_an_inst.simps
    by (intro keeps_if keeps_bnd keeps_seq keeps_ret is_break delete_break fetch add_break format_text Suc)
qed

end

sublocale debug_invariant \<subseteq> machine_invariant
  by unfold_locales (blast intro: view_closed reads fetch writes grow format)+

subsection \<open>The layout of memory\<close>

text \<open>The layout invariant, under the bound on what the allocator grants.\<close>

definition layout_inv :: "host \<Rightarrow> machine \<Rightarrow> bool" where
  "layout_inv H s \<longleftrightarrow> (alloc_bounded H \<longrightarrow> mem_inv s)"

lemma mem_inv_view: "layout_view t = layout_view s \<Longrightarrow> mem_inv t = mem_inv s"
  by (simp add: mem_inv_def mem_ok_def limits_ok_def layout_view_def)

lemma expand_stack_abort: "expand_stack H n s = Inl (e, t) \<Longrightarrow> t = s"
  by (auto simp: expand_stack_def Let_def split: if_splits)

lemma expand_data_abort: "expand_data H n s = Inl (e, t) \<Longrightarrow> same_view s t"
  by (auto simp: expand_data_def Let_def split: if_splits)

lemma expand_stack_layout:
  assumes "alloc_bounded H" and "mem_inv s" and "near_stack s a"
  shows "mem_inv (final (expand_stack H (stack_bot s - a + 4) s))"
proof (cases "expand_stack H (stack_bot s - a + 4) s")
  case (Inl r)
  then show ?thesis using assms(2) by (cases r) (auto dest: expand_stack_abort)
next
  case (Inr r)
  then obtain t where t: "expand_stack H (stack_bot s - a + 4) s = Inr ((), t)" by (cases r) auto
  have "mem_ok s" using assms(2) by (simp add: mem_inv_def)
  from expand_stack_result(3) [OF assms(2,1) near_stack_request(1) [OF assms(3) this] t] t
  show ?thesis by simp
qed

lemma expand_data_layout:
  assumes "alloc_bounded H" and "mem_inv s"
  shows "mem_inv (final (expand_data H n s))"
proof (cases "expand_data H n s")
  case (Inl r)
  then show ?thesis using assms(2)
    by (cases r) (auto dest!: expand_data_abort simp: same_view_def dest: mem_inv_view)
next
  case (Inr r)
  then show ?thesis using expand_data_result(4) [OF assms(2,1)] by (cases r) auto
qed

text \<open>Writing a word over the text segment fills an empty cell or replaces its instruction.\<close>

lemma free_inst_simps [simp]:
  "next_obj (free_inst q s) = next_obj s" "text_seg (free_inst q s) = text_seg s"
  "k_text_seg (free_inst q s) = k_text_seg s" "break_inst (free_inst q s) = break_inst s"
  "layout_view (free_inst q s) = layout_view s" "config_view (free_inst q s) = config_view s"
  by (simp_all add: free_inst_def layout_view_def config_view_def)

definition install :: "nat \<Rightarrow> mips_instruction \<Rightarrow> machine \<Rightarrow> machine" where
  "install n i s = s\<lparr>inst_heap := (inst_heap s)(next_obj s \<mapsto> i), next_obj := next_obj s + 1,
     text_seg := (text_seg s)(n := Some (next_obj s)), text_modified := True\<rparr>"

lemma write_text_cases:
  obtains (unchanged) "final (write_text_as_data a v m s) = s"
  | (fill) i where "final (write_text_as_data a v m s) = install (text_index a) i s"
  | (replace) q i where "text_seg s (text_index a) = Some q"
      "final (write_text_as_data a v m s) = install (text_index a) i (free_inst q s)"
proof (cases "text_seg s (text_index a)")
  case None
  then show ?thesis
    by (intro fill [of "inst_decode (if m = 3 then v else 0)"])
      (simp add: write_text_as_data_def new_inst_def install_def Let_def)
next
  case (Some q)
  show ?thesis
  proof (cases "inst_heap s q")
    case None
    with Some show ?thesis by (intro unchanged) (simp add: write_text_as_data_def deref_inst_def Let_def)
  next
    case (Some i)
    show ?thesis
    proof (cases "merge_text_word a m v (inst_encoding i)")
      case None
      with Some \<open>text_seg s (text_index a) = Some q\<close> show ?thesis
        by (intro unchanged) (simp add: write_text_as_data_def deref_inst_def Let_def)
    next
      case (Some w)
      with \<open>inst_heap s q = Some i\<close> \<open>text_seg s (text_index a) = Some q\<close> show ?thesis
        by (intro replace [of q "inst_decode w"])
          (simp_all add: write_text_as_data_def deref_inst_def new_inst_def install_def Let_def)
    qed
  qed
qed

lemma write_text_frame:
  "layout_view (final (write_text_as_data a v m s)) = layout_view s"
  "config_view (final (write_text_as_data a v m s)) = config_view s"
  by (rule write_text_cases [of a v m s]; simp add: install_def layout_view_def config_view_def;
      simp add: free_inst_def)+

text \<open>An invariant of the layout and the settings does not see the instructions at all.\<close>

definition inst_cell :: "machine \<Rightarrow> mem_addr \<Rightarrow> bool" where
  "inst_cell s a \<longleftrightarrow> (in_text s a \<or> in_k_text s a) \<and> a AND 3 = 0"

lemma write_inst_views:
  assumes "inst_cell s a"
  obtains t where "mem_write_inst H a p s = Inr ((), t)" "config_view t = config_view s" "layout_view t = layout_view s"
  using assms
  by (cases "in_text s a") (auto simp: inst_cell_def mem_write_inst_def Let_def in_text_def in_k_text_def config_view_def layout_view_def)

lemma write_inst_bad: "\<not> inst_cell s a \<Longrightarrow> mem_write_inst H a p s = bad_text_write H a p (s\<lparr>text_modified := True\<rparr>)"
  by (auto simp: inst_cell_def mem_write_inst_def Let_def in_text_def in_k_text_def)

locale view_invariant = storage_invariant +
  assumes insts_free: "config_view t = config_view s \<Longrightarrow> layout_view t = layout_view s \<Longrightarrow> I s \<Longrightarrow> I t"
begin

lemma write_inst: "keeps I (mem_write_inst H a p)"
proof (rule keepsI)
  fix s assume s: "I s"
  show "I (final (mem_write_inst H a p s))"
  proof (cases "inst_cell s a")
    case True
    then show ?thesis by (rule write_inst_views [of s a H p]) (auto intro: insts_free [OF _ _ s])
  next
    case False
    have "I (s\<lparr>text_modified := True\<rparr>)" by (rule view_closed [OF _ s]) simp
    with False show ?thesis by (simp add: write_inst_bad keepsD [OF bad_write_inst])
  qed
qed

lemma change_insts: "(\<And>s. config_view (f s) = config_view s) \<Longrightarrow> (\<And>s. layout_view (f s) = layout_view s) \<Longrightarrow> keeps I (modify f)"
  by (rule keeps_modify) (blast intro: insts_free)

lemma break_inst: "keeps I make_break_inst"
proof -
  have "keeps I (bnd (new_inst i) (\<lambda>p. modify (\<lambda>s. s\<lparr>break_inst := p\<rparr>)))" for i
    by (intro keeps_bnd allocate change_insts) (simp_all add: config_view_def layout_view_def)
  then show ?thesis by (auto simp: make_break_inst_def keeps_def)
qed

lemma delete_list: "keeps I (delete_from H a kept rest)"
proof (induction rest arbitrary: kept)
  case (Cons r rest)
  show ?case by (cases r)
      (auto intro!: keeps_seq keeps_bnd keeps_ret Cons write_inst change_insts simp: config_view_def layout_view_def)
qed auto

lemma error_views: "config_view (error_out m l s) = config_view s" "layout_view (error_out m l s) = layout_view s"
  by (simp_all add: error_out_def config_view_def layout_view_def)

lemma delete: "keeps I (delete_breakpoint H a)"
  unfolding delete_breakpoint_def
  by (intro keeps_bnd keeps_gets delete_list keeps_whn change_insts) (simp_all add: error_views)

lemma set_break: "keeps I (set_breakpoint H a)"
proof -
  have "keeps I (modify (\<lambda>s. s\<lparr>exception_occurred := b\<rparr>))" for b
    by (rule change_insts) (simp_all add: config_view_def layout_view_def)
  then show ?thesis
    unfolding set_breakpoint_def
    by (intro keeps_bnd keeps_seq keeps_gets keeps_if keeps_ret break_inst fetch write_inst)
qed

lemma add: "keeps I (add_breakpoint H a)"
proof -
  have *: "keeps I (modify (\<lambda>s. case old of Some q \<Rightarrow> s\<lparr>bkpts := (a, q) # bkpts s\<rparr>
     | None \<Rightarrow> if exception_occurred s then error_out m [a] s else error_out m' [a] s))" for old m m'
    by (rule change_insts) (simp_all add: error_views split: option.split, simp_all add: config_view_def layout_view_def)
  show ?thesis unfolding add_breakpoint_def by (intro keeps_bnd set_break *)
qed

end

sublocale view_invariant \<subseteq> debug_invariant
  by unfold_locales (blast intro: break_inst delete add)+

interpretation layout: view_invariant "layout_inv H" H for H
proof unfold_locales
  fix s t :: machine assume "same_view s t" and "layout_inv H s"
  then show "layout_inv H t" using mem_inv_view [of t s] by (simp add: layout_inv_def same_view_def)
next
  fix s :: machine and a assume "near_stack s a" and "layout_inv H s"
  then show "layout_inv H (final (expand_stack H (stack_bot s - a + 4) s))"
    using expand_stack_layout by (simp add: layout_inv_def)
next
  fix n show "keeps (layout_inv H) (expand_data H n)"
    by (rule keepsI) (simp add: layout_inv_def expand_data_layout)
next
  fix i show "keeps (layout_inv H) (new_inst i)"
  proof (rule keepsI)
    fix s assume "layout_inv H s"
    then show "layout_inv H (final (new_inst i s))"
      using mem_inv_view [of "final (new_inst i s)" s] by (simp add: layout_inv_def new_inst_def layout_view_def)
  qed
next
  fix a v m show "keeps (layout_inv H) (write_text_as_data a v m)"
  proof (rule keepsI)
    fix s assume "layout_inv H s"
    then show "layout_inv H (final (write_text_as_data a v m s))"
      using mem_inv_view [OF write_text_frame(1)] by (simp add: layout_inv_def)
  qed
next
  fix s t :: machine assume "layout_view t = layout_view s" and "layout_inv H s"
  then show "layout_inv H t" using mem_inv_view [of t s] by (simp add: layout_inv_def)
qed

subsection \<open>Instruction pointers\<close>

text \<open>
  Every cell of a text segment is null or points to a live instruction; so do the breakpoint
  instruction and the records of the breakpoints. No two cells share an instruction other
  than the breakpoint instruction, and a record's instruction is in no cell and no other record.
  Live objects are below the allocation counter.
\<close>

definition cell_live :: "machine \<Rightarrow> bool" where
  "cell_live s \<longleftrightarrow>
     (\<forall>n p. text_seg s n = Some p \<or> k_text_seg s n = Some p \<longrightarrow> inst_heap s p \<noteq> None) \<and>
     (\<forall>p. break_inst s = Some p \<longrightarrow> inst_heap s p \<noteq> None) \<and>
     (\<forall>p. inst_heap s p \<noteq> None \<longrightarrow> p < next_obj s)"

definition cell_unique :: "machine \<Rightarrow> bool" where
  "cell_unique s \<longleftrightarrow>
     (\<forall>m n p. text_seg s m = Some p \<longrightarrow> text_seg s n = Some p \<longrightarrow> break_inst s = Some p \<or> m = n) \<and>
     (\<forall>m n p. k_text_seg s m = Some p \<longrightarrow> k_text_seg s n = Some p \<longrightarrow> break_inst s = Some p \<or> m = n) \<and>
     (\<forall>m n p. text_seg s m = Some p \<longrightarrow> k_text_seg s n = Some p \<longrightarrow> break_inst s = Some p)"

definition loose :: "machine \<Rightarrow> nat \<Rightarrow> bool" where
  "loose s q \<longleftrightarrow> inst_heap s q \<noteq> None \<and> break_inst s \<noteq> Some q \<and> (\<forall>n. text_seg s n \<noteq> Some q \<and> k_text_seg s n \<noteq> Some q)"

definition bkpts_ok :: "machine \<Rightarrow> bool" where
  "bkpts_ok s \<longleftrightarrow> distinct (map snd (bkpts s)) \<and> (\<forall>q \<in> snd ` set (bkpts s). loose s q)"

definition heap_ok :: "machine \<Rightarrow> bool" where
  "heap_ok s \<longleftrightarrow> cell_live s \<and> cell_unique s \<and> bkpts_ok s"

lemmas heap_defs = heap_ok_def cell_live_def cell_unique_def bkpts_ok_def loose_def

lemma heap_ok_view: "inst_view t = inst_view s \<Longrightarrow> heap_ok t = heap_ok s"
  by (simp add: heap_defs inst_view_def)

lemma cell_liveD:
  assumes "heap_ok s"
  shows "text_seg s n = Some p \<Longrightarrow> inst_heap s p \<noteq> None" "k_text_seg s n = Some p \<Longrightarrow> inst_heap s p \<noteq> None"
    "break_inst s = Some p \<Longrightarrow> inst_heap s p \<noteq> None" "inst_heap s p \<noteq> None \<Longrightarrow> p < next_obj s"
  using assms unfolding heap_ok_def cell_live_def by blast+

lemma cell_uniqueD:
  assumes "heap_ok s"
  shows "text_seg s m = Some p \<Longrightarrow> text_seg s n = Some p \<Longrightarrow> break_inst s \<noteq> Some p \<Longrightarrow> m = n"
    "k_text_seg s m = Some p \<Longrightarrow> k_text_seg s n = Some p \<Longrightarrow> break_inst s \<noteq> Some p \<Longrightarrow> m = n"
    "text_seg s m = Some p \<Longrightarrow> k_text_seg s n = Some p \<Longrightarrow> break_inst s = Some p"
  using assms unfolding heap_ok_def cell_unique_def by blast+

lemma bkptsD:
  assumes "heap_ok s"
  shows "distinct (map snd (bkpts s))" "(a, q) \<in> set (bkpts s) \<Longrightarrow> loose s q"
  using assms unfolding heap_ok_def bkpts_ok_def by force+

lemmas heap_okD = cell_liveD cell_uniqueD bkptsD

text \<open>A fresh object: no cell and no record points to it.\<close>

lemma fresh_not_cell:
  assumes "heap_ok s"
  shows "text_seg s n \<noteq> Some (next_obj s)" "k_text_seg s n \<noteq> Some (next_obj s)" "break_inst s \<noteq> Some (next_obj s)"
    "next_obj s \<notin> snd ` set (bkpts s)" "inst_heap s (next_obj s) = None"
proof -
  note d = heap_okD [OF assms]
  show heap: "inst_heap s (next_obj s) = None" using d(4) by blast
  show "text_seg s n \<noteq> Some (next_obj s)" "k_text_seg s n \<noteq> Some (next_obj s)" "break_inst s \<noteq> Some (next_obj s)"
    using d(1-3) heap by blast+
  show "next_obj s \<notin> snd ` set (bkpts s)" using d(9) heap by (force simp: loose_def)
qed

lemma heap_ok_new:
  assumes "heap_ok s"
  shows "heap_ok (final (new_inst i s))"
  using assms fresh_not_cell(5) [OF assms]
  unfolding heap_ok_def cell_live_def cell_unique_def bkpts_ok_def loose_def new_inst_def
  by (auto simp: less_Suc_eq)

text \<open>Writing a loose instruction, or the breakpoint instruction, into a cell.\<close>

lemma heap_ok_cell:
  assumes "heap_ok s" and q: "break_inst s = Some q \<or> loose s q \<and> q \<notin> snd ` set (bkpts s)"
  shows "heap_ok (s\<lparr>text_seg := (text_seg s)(n := Some q)\<rparr>)" "heap_ok (s\<lparr>k_text_seg := (k_text_seg s)(n := Some q)\<rparr>)"
proof -
  let ?t = "s\<lparr>text_seg := (text_seg s)(n := Some q)\<rparr>" and ?k = "s\<lparr>k_text_seg := (k_text_seg s)(n := Some q)\<rparr>"
  have live: "inst_heap s q \<noteq> None" using q heap_okD(3) [OF assms(1)] by (auto simp: loose_def)
  have b: "loose s p \<and> p \<noteq> q" if "p \<in> snd ` set (bkpts s)" for p
  proof -
    from that obtain a where "(a, p) \<in> set (bkpts s)" by auto
    from bkptsD(2) [OF assms(1) this] that q show ?thesis unfolding loose_def by blast
  qed
  have "cell_live ?t" "cell_live ?k" using live assms(1) by (auto simp: heap_ok_def cell_live_def)
  moreover have "cell_unique ?t" "cell_unique ?k"
    using q assms(1) by (auto simp: heap_ok_def cell_unique_def loose_def)
  moreover have "loose ?t p" "loose ?k p" if "p \<in> snd ` set (bkpts s)" for p
    using b [OF that] by (simp_all add: loose_def)
  then have "bkpts_ok ?t" "bkpts_ok ?k" using bkptsD(1) [OF assms(1)] unfolding bkpts_ok_def by simp_all
  ultimately show "heap_ok ?t" "heap_ok ?k" by (simp_all add: heap_ok_def)
qed

lemma heap_ok_bkpts:
  assumes "heap_ok s" and "distinct (map snd l)" and "\<forall>q \<in> snd ` set l. loose s q"
  shows "heap_ok (s\<lparr>bkpts := l\<rparr>)"
  using assms unfolding heap_ok_def cell_live_def cell_unique_def bkpts_ok_def loose_def by auto

text \<open>
  Freeing the instruction of a cell leaves the rest of the heap in order: nothing else points
  to it. The cell itself dangles until it is filled.
\<close>

lemma heap_ok_replace:
  assumes "heap_ok s" and "text_seg s n = Some q"
  shows "heap_ok (install n i (free_inst q s))"
proof -
  note d = heap_okD [OF assms(1)] and f = fresh_not_cell [OF assms(1)]
  let ?u = "install n i (free_inst q s)"
  have heap: "inst_heap ?u p = (if p = next_obj s then Some i else if p = q \<and> break_inst s \<noteq> Some q then None else inst_heap s p)" for p
    by (simp add: install_def) (simp add: free_inst_def)
  have fields: "text_seg ?u = (text_seg s)(n := Some (next_obj s))" "k_text_seg ?u = k_text_seg s"
    "break_inst ?u = break_inst s" "bkpts ?u = bkpts s" "next_obj ?u = next_obj s + 1"
    by (simp_all add: install_def) (simp add: free_inst_def)
  have q: "p \<noteq> q \<or> break_inst s = Some q" if "text_seg s k = Some p" "k \<noteq> n" for k p
    using that assms(2) d(5) [of k p n] by blast
  have qk: "p \<noteq> q \<or> break_inst s = Some q" if "k_text_seg s k = Some p" for k p
    using that assms(2) d(7) [of n q k] by blast
  have qb: "p \<noteq> q" if "p \<in> snd ` set (bkpts s)" for p
    using that assms(2) d(9) by (auto simp: loose_def)
  have "cell_live ?u" unfolding cell_live_def heap fields
    using q qk d(1-4) by (auto simp: less_Suc_eq)
  moreover have "cell_unique ?u" unfolding cell_unique_def fields
    using assms(1) f(1,2) by (auto simp: heap_ok_def cell_unique_def)
  moreover have "loose ?u p" if "p \<in> snd ` set (bkpts s)" for p
    unfolding loose_def heap fields using that qb [OF that] d(9) f(4) by (force simp: loose_def)
  then have "bkpts_ok ?u" using d(8) unfolding bkpts_ok_def fields by blast
  ultimately show ?thesis by (simp add: heap_ok_def)
qed

lemma heap_ok_fill:
  assumes "heap_ok s"
  shows "heap_ok (install n i s)"
proof -
  note f = fresh_not_cell [OF assms]
  let ?u = "final (new_inst i s)"
  have u: "heap_ok ?u" by (rule heap_ok_new [OF assms])
  have "loose ?u (next_obj s) \<and> next_obj s \<notin> snd ` set (bkpts ?u)"
    using f by (simp add: loose_def new_inst_def)
  from heap_ok_cell(1) [OF u disjI2 [OF this], of n] show ?thesis
    by (subst heap_ok_view [where s = "?u\<lparr>text_seg := (text_seg ?u)(n := Some (next_obj s))\<rparr>"])
      (simp_all add: install_def new_inst_def inst_view_def)
qed

lemma expand_stack_keeps_insts: "inst_view (final (expand_stack H n s)) = inst_view s"
  by (simp add: expand_stack_def Let_def inst_view_def)

lemma expand_data_keeps_insts: "inst_view (final (expand_data H n s)) = inst_view s"
  by (simp add: expand_data_def Let_def inst_view_def error_out_def)

interpretation cells: storage_invariant heap_ok H for H
proof unfold_locales
  fix s t :: machine assume "same_view s t" and "heap_ok s"
  then show "heap_ok t" using heap_ok_view [of t s] by (simp add: same_view_def)
next
  fix s :: machine and a assume "heap_ok s"
  then show "heap_ok (final (expand_stack H (stack_bot s - a + 4) s))"
    using heap_ok_view [OF expand_stack_keeps_insts] by blast
next
  fix n show "keeps heap_ok (expand_data H n)"
    by (rule keepsI) (simp add: heap_ok_view [OF expand_data_keeps_insts])
next
  fix i show "keeps heap_ok (new_inst i)" by (rule keepsI) (rule heap_ok_new)
next
  fix a v m show "keeps heap_ok (write_text_as_data a v m)"
  proof (rule keepsI)
    fix s assume "heap_ok s"
    then show "heap_ok (final (write_text_as_data a v m s))"
      by (cases rule: write_text_cases [of a v m s]) (auto intro: heap_ok_replace heap_ok_fill)
  qed
qed

text \<open>The debugger: what the slow path of a write does not touch.\<close>

interpretation records: storage_invariant "\<lambda>s::machine. bkpts s = l" H for l H
proof unfold_locales
  fix a v m show "keeps (\<lambda>s::machine. bkpts s = l) (write_text_as_data a v m)"
  proof (rule keepsI)
    fix s :: machine assume "bkpts s = l"
    then show "bkpts (final (write_text_as_data a v m s)) = l"
      by (cases rule: write_text_cases [of a v m s]) (simp_all add: install_def free_inst_def)
  qed
qed (simp_all add: keeps_def same_view_def inst_view_def new_inst_def expand_stack_def expand_data_def error_out_def Let_def)

lemma raise_sets_flag: "exception_occurred s \<or> e \<noteq> ExcCode_Int \<Longrightarrow> exception_occurred (raise_bad_vaddr e a s)"
  by (auto simp: raise_bad_vaddr_def raise_exception_def latch_first_bad_def record_epc_def set_cp0_def Let_def)

lemma write_keeps_flag: "keeps exception_occurred (bad_mem_write H a v m)"
proof (rule keepsI)
  fix s :: machine assume s: "exception_occurred s"
  have "exception_occurred (final (write_text_as_data a v m s))"
    by (cases rule: write_text_cases [of a v m s]) (simp_all add: s install_def free_inst_def)
  moreover have "exception_occurred (final (write_memory_mapped_IO a v s))"
    by (simp add: write_memory_mapped_IO_def write_trans_control_def write_trans_buffer_def write_recv_control_def
        RAISE_INTERRUPT_def CLEAR_INTERRUPT_def put_console_char_def set_cp0_def Let_def s)
  moreover have "exception_occurred (final (seq (expand_stack H n) (modify (\<lambda>s. (write_stack_cell a v m s)\<lparr>data_modified := True\<rparr>)) s))" for n
    by (simp add: expand_stack_def write_stack_cell_def seq_def bnd_def Let_def s raise_sets_flag)
  ultimately show "exception_occurred (final (bad_mem_write H a v m s))"
    by (simp add: bad_mem_write_def raise_sets_flag s)
qed

lemma bad_write_flag: "bad_text_write H a p s = Inr ((), t) \<Longrightarrow> exception_occurred t"
proof -
  assume t: "bad_text_write H a p s = Inr ((), t)"
  let ?s = "raise_bad_vaddr ExcCode_IBE a s"
  have w: "keeps exception_occurred (mem_write_word H a v)" for v
    by (rule keepsI) (simp add: mem_write_word_def Let_def keepsD [OF write_keeps_flag])
  have "keeps exception_occurred (bnd (deref_inst p) (\<lambda>i. mem_write_word H a (inst_encoding i)))"
    by (intro keeps_bnd w keepsI) (auto simp: deref_inst_def split: option.split)
  from keepsD [OF this, of ?s] t show "exception_occurred t"
    by (simp add: bad_text_write_def raise_sets_flag)
qed

lemma write_inst_cell:
  assumes "inst_cell s a"
  obtains (user) n where "mem_read_inst a s = Inr (text_seg s n, s)"
      "mem_write_inst H a p s = Inr ((), s\<lparr>text_modified := True, text_seg := (text_seg s)(n := p)\<rparr>)"
  | (kernel) n where "mem_read_inst a s = Inr (k_text_seg s n, s)"
      "mem_write_inst H a p s = Inr ((), s\<lparr>text_modified := True, k_text_seg := (k_text_seg s)(n := p)\<rparr>)"
  using assms
  by (cases "in_text s a") (auto simp: inst_cell_def mem_write_inst_def mem_read_inst_def Let_def in_text_def in_k_text_def)

lemma heap_ok_modified [simp]: "heap_ok (s\<lparr>text_modified := b\<rparr>) = heap_ok s" "heap_ok (s\<lparr>exception_occurred := b\<rparr>) = heap_ok s"
  by (rule heap_ok_view, simp add: inst_view_def)+

lemma heap_ok_write_inst:
  assumes "heap_ok s" and "break_inst s = Some q \<or> loose s q \<and> q \<notin> snd ` set (bkpts s)"
  shows "heap_ok (final (mem_write_inst H a (Some q) s))"
proof (cases "inst_cell s a")
  case True
  have "heap_ok (s\<lparr>text_modified := True\<rparr>)" "break_inst (s\<lparr>text_modified := True\<rparr>) = Some q \<or>
      loose (s\<lparr>text_modified := True\<rparr>) q \<and> q \<notin> snd ` set (bkpts (s\<lparr>text_modified := True\<rparr>))"
    using assms by (simp_all add: loose_def)
  note c = heap_ok_cell [OF this]
  from True show ?thesis by (rule write_inst_cell [of s a H "Some q"]) (use c in simp_all)
next
  case False
  then show ?thesis using assms(1) by (simp add: write_inst_bad keepsD [OF cells.bad_write_inst])
qed

lemma heap_ok_make_break:
  assumes "heap_ok s"
  obtains t b where "make_break_inst s = Inr ((), t)" "heap_ok t" "break_inst t = Some b"
proof (cases "break_inst s")
  case (Some b)
  then show ?thesis using that [of s] assms by (simp add: make_break_inst_def)
next
  case None
  define u where "u = final (new_inst (make_r_type_inst TOK_BREAK_OPCODE 1 0 0) s)"
  have u: "heap_ok u" "break_inst u = None" "inst_heap u (next_obj s) \<noteq> None" "next_obj s \<notin> snd ` set (bkpts u)"
    using heap_ok_new [OF assms] None fresh_not_cell(4) [OF assms] by (simp_all add: u_def new_inst_def)
  have "heap_ok (u\<lparr>break_inst := Some (next_obj s)\<rparr>)"
    using u unfolding heap_ok_def cell_live_def cell_unique_def bkpts_ok_def loose_def by auto
  then show ?thesis
    using that [of "u\<lparr>break_inst := Some (next_obj s)\<rparr>" "next_obj s"] None
    by (simp add: make_break_inst_def u_def new_inst_def)
qed

text \<open>Taking a record off the list and putting its instruction back.\<close>

lemma heap_ok_drop_record:
  assumes "heap_ok s" and "bkpts s = kept @ (a, q) # rest"
  shows "heap_ok (s\<lparr>bkpts := kept @ rest\<rparr>)" "loose s q" "q \<notin> snd ` set (kept @ rest)"
proof -
  have "distinct (map snd (bkpts s))" "\<forall>p \<in> snd ` set (bkpts s). loose s p"
    using assms(1) by (simp_all add: heap_ok_def bkpts_ok_def)
  then show "loose s q" "q \<notin> snd ` set (kept @ rest)" "heap_ok (s\<lparr>bkpts := kept @ rest\<rparr>)"
    using assms by (auto intro!: heap_ok_bkpts)
qed

lemma heap_ok_restore:
  assumes "heap_ok s" and "bkpts s = kept @ (a', q) # rest"
  shows "heap_ok (final (seq (mem_write_inst H a (Some q)) (modify (\<lambda>s. s\<lparr>bkpts := kept @ rest\<rparr>)) s))"
proof (cases "inst_cell s a")
  case True
  let ?u = "s\<lparr>bkpts := kept @ rest\<rparr>"
  note d = heap_ok_drop_record [OF assms]
  have "loose ?u q \<and> q \<notin> snd ` set (bkpts ?u)" using d(2,3) by (simp add: loose_def)
  note c = heap_ok_cell [OF d(1) disjI2 [OF this]]
  from True show ?thesis
  proof (cases rule: write_inst_cell [of s a H "Some q"])
    case (user n)
    then show ?thesis using heap_ok_view [THEN iffD2, OF _ c(1) [of n]] by (simp add: inst_view_def)
  next
    case (kernel n)
    then show ?thesis using heap_ok_view [THEN iffD2, OF _ c(2) [of n]] by (simp add: inst_view_def)
  qed
next
  case False
  then have w: "mem_write_inst H a (Some q) s = bad_text_write H a (Some q) (s\<lparr>text_modified := True\<rparr>)"
    by (rule write_inst_bad)
  have "heap_ok (final (mem_write_inst H a (Some q) s))" "bkpts (final (mem_write_inst H a (Some q) s)) = bkpts s"
    unfolding w using keepsD [OF cells.bad_write_inst] keepsD [OF records.bad_write_inst] assms(1) by simp_all
  with assms(2) show ?thesis
    by (cases "mem_write_inst H a (Some q) s") (auto simp: seq_def bnd_def intro: heap_ok_drop_record)
qed

lemma heap_ok_delete_from:
  "heap_ok s \<Longrightarrow> bkpts s = kept @ rest \<Longrightarrow> heap_ok (final (delete_from H a kept rest s))"
proof (induction rest arbitrary: kept s)
  case Nil
  then show ?case by simp
next
  case (Cons r rest)
  obtain a' q where r: "r = (a', q)" by (cases r)
  let ?w = "mem_write_inst H a (Some q) s" and ?b = "\<lambda>s. s\<lparr>bkpts := kept @ rest\<rparr>"
  have IH: "heap_ok (?b t) \<Longrightarrow> heap_ok (final (delete_from H a kept rest (?b t)))" for t
    using Cons.IH [of "?b t" kept] by simp
  have w: "heap_ok (final (seq (mem_write_inst H a (Some q)) (modify ?b) s))"
    using Cons.prems by (intro heap_ok_restore [of _ _ a']) (simp_all add: r)
  show ?case
  proof (cases "a' = a")
    case False
    then show ?thesis using Cons.IH [of s "kept @ [r]"] Cons.prems by (simp add: r)
  next
    case True
    show ?thesis
    proof (cases ?w)
      case (Inl x)
      then show ?thesis using w True by (cases x) (simp add: r seq_def bnd_def)
    next
      case (Inr x)
      then obtain t where t: "?w = Inr ((), t)" by (cases x) auto
      then show ?thesis using IH [of t] w True
        by (cases "delete_from H a kept rest (?b t)") (auto simp: r seq_def bnd_def)
    qed
  qed
qed

text \<open>Putting a breakpoint: the instruction that was there becomes loose.\<close>

lemma raise_fields [simp]:
  "break_inst (raise_bad_vaddr e a s) = break_inst s" "text_top (raise_bad_vaddr e a s) = text_top s"
  "k_text_top (raise_bad_vaddr e a s) = k_text_top s"
  by (auto simp: raise_bad_vaddr_def raise_exception_def latch_first_bad_def record_epc_def set_cp0_def Let_def)

lemma fetch_total: "\<exists>p t. mem_read_inst a s = Inr (p, t)"
  by (simp add: mem_read_inst_def bad_text_read_def new_inst_def)

lemma heap_ok_set_breakpoint:
  assumes "heap_ok s"
  shows "heap_ok (final (set_breakpoint H a s))"
    and "set_breakpoint H a s = Inr (Some q, t) \<Longrightarrow> loose t q \<and> q \<notin> snd ` set (bkpts t)"
proof -
  obtain s1 b where s1: "make_break_inst s = Inr ((), s1)" "heap_ok s1" "break_inst s1 = Some b"
    using heap_ok_make_break [OF assms] by blast
  let ?s = "s1\<lparr>exception_occurred := False\<rparr>"
  have s: "heap_ok ?s" "break_inst ?s = Some b" using s1 by simp_all
  obtain old u where u: "mem_read_inst a ?s = Inr (old, u)"
    using fetch_total by blast
  have hu: "heap_ok u" using keepsD [OF cells.fetch s(1), of a] u by simp
  have bu: "break_inst u = Some b" using u s(2)
    by (auto simp: mem_read_inst_def bad_text_read_def new_inst_def split: if_splits)
  have unfold: "set_breakpoint H a s = (if old = Some b then ret None u else
      seq (mem_write_inst H a (Some b)) (bnd (gets exception_occurred) (\<lambda>exc. ret (if exc then None else old))) u)"
    using s1 u bu by (simp add: set_breakpoint_def)
  have w: "heap_ok (final (mem_write_inst H a (Some b) u))" by (rule heap_ok_write_inst [OF hu]) (simp add: bu)
  then show "heap_ok (final (set_breakpoint H a s))" unfolding unfold using hu
    by (cases "mem_write_inst H a (Some b) u") (auto simp: seq_def bnd_def)
  show "loose t q \<and> q \<notin> snd ` set (bkpts t)" if q: "set_breakpoint H a s = Inr (Some q, t)"
  proof (cases "inst_cell ?s a")
    case True
    note d = heap_okD [OF s(1)]
    have out: "q \<notin> snd ` set (bkpts ?s)" if "text_seg ?s n = Some q \<or> k_text_seg ?s n = Some q" for n
      using that d(9) by (force simp: loose_def)
    from True show ?thesis
    proof (cases rule: write_inst_cell [of ?s a H "Some b"])
      case (user n)
      then have *: "text_seg s1 n = Some q" "q \<noteq> b" "t = ?s\<lparr>text_modified := True, text_seg := (text_seg s1)(n := Some b)\<rparr>"
        using q u by (auto simp: unfold split: if_splits)
      moreover have "text_seg s1 m \<noteq> Some q" if "m \<noteq> n" for m using d(5) [of m q n] * s(2) that by auto
      moreover have "k_text_seg s1 m \<noteq> Some q" for m using d(7) [of n q m] * s(2) by auto
      ultimately show ?thesis using out [of n] d(1) [of n q] s(2) by (auto simp: loose_def)
    next
      case (kernel n)
      then have *: "k_text_seg s1 n = Some q" "q \<noteq> b" "t = ?s\<lparr>text_modified := True, k_text_seg := (k_text_seg s1)(n := Some b)\<rparr>"
        using q u by (auto simp: unfold split: if_splits)
      moreover have "k_text_seg s1 m \<noteq> Some q" if "m \<noteq> n" for m using d(6) [of m q n] * s(2) that by auto
      moreover have "text_seg s1 m \<noteq> Some q" for m using d(7) [of m q n] * s(2) by auto
      ultimately show ?thesis using out [of n] d(2) [of n q] s(2) by (auto simp: loose_def)
    qed
  next
    case False
    have "inst_cell u a = inst_cell ?s a"
      using u by (auto simp: mem_read_inst_def bad_text_read_def new_inst_def inst_cell_def
          in_text_def in_k_text_def split: if_splits)
    with False have "exception_occurred t"
      using q bad_write_flag [of H a "Some b"] by (auto simp: unfold write_inst_bad seq_def bnd_def split: sum.splits if_splits)
    with False q show ?thesis by (auto simp: unfold seq_def bnd_def split: sum.splits if_splits)
  qed
qed

interpretation pointers: debug_invariant heap_ok H for H
proof unfold_locales
  show "keeps heap_ok make_break_inst"
    by (rule keepsI) (erule heap_ok_make_break, simp)
  fix a
  have err: "heap_ok (error_out m l s) = heap_ok s" for m l s
    by (rule heap_ok_view) (simp add: error_out_def inst_view_def)
  show "keeps heap_ok (delete_breakpoint H a)"
  proof (rule keepsI)
    fix s assume "heap_ok s"
    from heap_ok_delete_from [OF this, of "[]" "bkpts s" H a] show "heap_ok (final (delete_breakpoint H a s))"
      by (cases "delete_from H a [] (bkpts s) s") (auto simp: delete_breakpoint_def whn_def err)
  qed
  show "keeps heap_ok (add_breakpoint H a)"
  proof (rule keepsI)
    fix s assume s: "heap_ok s"
    show "heap_ok (final (add_breakpoint H a s))"
    proof (cases "set_breakpoint H a s")
      case (Inl x)
      then show ?thesis using heap_ok_set_breakpoint(1) [OF s, of H a] by (cases x) (simp add: add_breakpoint_def bnd_def)
    next
      case (Inr x)
      then obtain old t where t: "set_breakpoint H a s = Inr (old, t)" by (cases x) auto
      with heap_ok_set_breakpoint(1) [OF s, of H a] have h: "heap_ok t" by simp
      show ?thesis
      proof (cases old)
        case None
        with t h show ?thesis by (simp add: add_breakpoint_def bnd_def err)
      next
        case (Some q)
        have "distinct (map snd ((a, q) # bkpts t))" "\<forall>p \<in> snd ` set ((a, q) # bkpts t). loose t p"
          using heap_ok_set_breakpoint(2) [OF s, of H a q t] t Some h by (auto simp: heap_ok_def bkpts_ok_def)
        from heap_ok_bkpts [OF h this] t Some show ?thesis by (simp add: add_breakpoint_def bnd_def)
      qed
    qed
  qed
qed

subsection \<open>Settings\<close>

lemma expand_stack_config: "config_view (final (expand_stack H n s)) = config_view s"
  by (simp add: expand_stack_def Let_def config_view_def)

lemma expand_data_config: "config_view (final (expand_data H n s)) = config_view s"
  by (simp add: expand_data_def Let_def config_view_def error_out_def)

lemma new_inst_config: "config_view (final (new_inst i s)) = config_view s"
  by (simp add: new_inst_def config_view_def)

interpretation settings: view_invariant "\<lambda>s. config_view s = c" H for c H
  by unfold_locales (simp_all add: same_view_def keeps_def expand_stack_config expand_data_config new_inst_config write_text_frame)

subsection \<open>Properties of whole runs\<close>

text \<open>
  C2: no run breaks the address space. Whatever the program does, and however the run ends
  (steps used up, exit, error, fatal error, crash), the segments stay disjoint, aligned and within
  their limits.
\<close>

theorem run_keeps_layout:
  assumes "alloc_bounded H" and "mem_inv s"
  shows "mem_inv (final (run_spim H fuel pc n display s))"
  using keepsD [OF layout.run_spim, of H s] assms by (simp add: layout_inv_def)

theorem run_keeps_layout_witness:
  "mem_inv (final (run_spim idle_host 3 0x400000 1000 True default_memory))"
  by (rule run_keeps_layout [OF idle_host_bounded default_memory_inv])

text \<open>
  C9: no run leaves a dangling instruction. After any run, also one that overwrites its own
  code, every cell of the text segments is empty or points to a live instruction.
\<close>

theorem run_keeps_instructions_live:
  assumes "heap_ok s"
  shows "heap_ok (final (run_spim H fuel pc n display s))"
  using keepsD [OF pointers.run_spim assms] .

lemma free_none: "inst_heap s = (\<lambda>_. None) \<Longrightarrow> inst_heap (free_instructions ps s) = (\<lambda>_. None)"
  by (induction ps s rule: free_instructions.induct) (simp_all add: free_inst_def)

lemma free_debugger [simp]: "break_inst (free_instructions ps s) = break_inst s" "bkpts (free_instructions ps s) = bkpts s"
  by (induction ps s rule: free_instructions.induct) (simp_all add: free_inst_def)

lemma default_memory_heap: "heap_ok default_memory"
proof -
  have "text_seg default_memory = (\<lambda>_. None)" "k_text_seg default_memory = (\<lambda>_. None)"
    using make_memory_fields(12,13) [OF default_memory_def] by simp_all
  moreover have "inst_heap default_memory = (\<lambda>_. None)"
    by (simp add: default_memory_def make_memory_def make_text_def make_data_def make_stack_def make_k_text_def
        make_k_data_def zero_machine_def Let_def free_none)
  moreover have "break_inst default_memory = None" "bkpts default_memory = []"
    by (simp_all add: default_memory_def make_memory_def make_text_def make_data_def make_stack_def make_k_text_def
        make_k_data_def zero_machine_def Let_def free_debugger)
  ultimately show ?thesis by (simp add: heap_defs)
qed

theorem run_keeps_instructions_live_witness:
  "heap_ok (final (run_spim idle_host 3 0x400000 1000 False default_memory))"
  by (rule run_keeps_instructions_live [OF default_memory_heap])

subsection \<open>Fuel\<close>

text \<open>
  Without delayed branches the delay-slot runner is never called. Two computations agree when
  they do the same on every state with delayed branches off.
\<close>

definition agree :: "'a mcomp \<Rightarrow> 'a mcomp \<Rightarrow> bool" where
  "agree m m' \<longleftrightarrow> (\<forall>s. \<not> delayed_branches s \<longrightarrow> m s = m' s)"

lemma agree_refl [simp]: "agree m m"
  by (simp add: agree_def)

lemma settings_keep: "(\<And>c. keeps (\<lambda>s. config_view s = c) m) \<Longrightarrow> keeps (\<lambda>s. \<not> delayed_branches s) m"
  unfolding keeps_def config_view_def by (metis Pair_inject)

lemma agree_bnd:
  assumes "agree m m'" and "keeps (\<lambda>s. \<not> delayed_branches s) m" and "\<And>x. agree (f x) (f' x)"
  shows "agree (bnd m f) (bnd m' f')"
  unfolding agree_def
proof (intro allI impI)
  fix s :: machine assume s: "\<not> delayed_branches s"
  then have m: "m' s = m s" using assms(1) by (simp add: agree_def)
  show "bnd m f s = bnd m' f' s"
  proof (cases "m s")
    case (Inr r)
    then obtain x t where r: "m s = Inr (x, t)" by (cases r) auto
    then have "\<not> delayed_branches t" using keeps_Inr [OF assms(2) s] by blast
    then show ?thesis using assms(3) r m by (simp add: agree_def)
  qed (simp add: m)
qed

lemma agree_seq: "agree m m' \<Longrightarrow> keeps (\<lambda>s. \<not> delayed_branches s) m \<Longrightarrow> agree n n' \<Longrightarrow> agree (seq m n) (seq m' n')"
  unfolding seq_def by (intro agree_bnd)

lemma agree_jump: "agree (JUMP_INST D t) (JUMP_INST D' t)"
  by (simp add: agree_def JUMP_INST_def)

lemma agree_branch_if: "agree (branch_if D t b i) (branch_if D' t b i)"
  using agree_jump [of D _ D'] by (simp add: agree_def branch_if_def BRANCH_INST_def Let_def)

lemma agree_bc1: "agree (op_bc1 D i) (op_bc1 D' i)"
  using agree_jump [of D _ D'] by (simp add: agree_def op_bc1_def BRANCH_INST_def Let_def)

lemma link_31_config [simp]: "delayed_branches (link_31 s) = delayed_branches s"
  by (simp add: link_31_def set_reg_def)

lemma agree_link: "agree m m' \<Longrightarrow> agree (seq (modify link_31) m) (seq (modify link_31) m')"
  by (simp add: agree_def)

lemma agree_jalr: "agree (op_jalr D i) (op_jalr D' i)"
  using agree_jump [of D _ D'] by (simp add: agree_def op_jalr_def set_rd_def set_reg_def)

lemma agree_jr: "agree (op_jr D i) (op_jr D' i)"
  using agree_jump [of D _ D'] by (simp add: agree_def op_jr_def)

lemma agree_eret: "agree (op_eret D i) (op_eret D' i)"
  using agree_jump [of D _ D'] by (simp add: agree_def op_eret_def set_cp0_def)

lemma agree_comp: "agree (f i) (f' i) \<Longrightarrow> agree (comp_case f i) (comp_case f' i)"
  by (simp add: agree_def comp_case_def seq_def bnd_def)

lemmas agree_handlers = agree_comp agree_link agree_branch_if agree_jump agree_bc1 agree_jalr agree_jr agree_eret

definition agree_tables :: "(int \<times> (mips_instruction \<Rightarrow> bool option mcomp)) list \<Rightarrow>
    (int \<times> (mips_instruction \<Rightarrow> bool option mcomp)) list \<Rightarrow> bool" where
  "agree_tables = list_all2 (\<lambda>(t, h) (t', h'). t = t' \<and> (\<forall>i. agree (h i) (h' i)))"

lemma agree_tables_append: "agree_tables a b \<Longrightarrow> agree_tables c d \<Longrightarrow> agree_tables (a @ c) (b @ d)"
  unfolding agree_tables_def by (rule list_all2_appendI)

lemma agree_lookup:
  "agree_tables a b \<Longrightarrow> rel_option (\<lambda>h h'. \<forall>i. agree (h i) (h' i)) (map_of a t) (map_of b t)"
  unfolding agree_tables_def by (induction a b rule: list_all2_induct) auto

lemmas branch_defs = op_beq_def op_beql_def op_bgez_def op_bgezl_def op_bgezal_def op_bgezall_def op_bgtz_def op_bgtzl_def
  op_blez_def op_blezl_def op_bltz_def op_bltzl_def op_bltzal_def op_bltzall_def op_bne_def op_bnel_def op_j_def op_jal_def

lemma agree_cases_1: "agree_tables (cases_1 H D) (cases_1 H D')"
  by (simp add: agree_tables_def cases_1_def branch_defs agree_handlers)

lemma agree_cases_2: "agree_tables (cases_2 H D) (cases_2 H D')"
  by (simp add: agree_tables_def cases_2_def branch_defs agree_handlers)

lemma agree_cases_3: "agree_tables (cases_3 H D) (cases_3 H D')"
  by (simp add: agree_tables_def cases_3_def branch_defs agree_handlers)

lemma agree_cases_4: "agree_tables (cases_4 H D) (cases_4 H D')"
  by (simp add: agree_tables_def cases_4_def branch_defs agree_handlers)

lemma agree_cases_5: "agree_tables (cases_5 H D) (cases_5 H D')"
  by (simp add: agree_tables_def cases_5_def branch_defs agree_handlers)

lemma agree_cases_6: "agree_tables (cases_6 H D) (cases_6 H D')"
  by (simp add: agree_tables_def cases_6_def branch_defs agree_handlers)

lemma agree_cases_7: "agree_tables (cases_7 H D) (cases_7 H D')"
  by (simp add: agree_tables_def cases_7_def branch_defs agree_handlers)

lemma agree_cases_8: "agree_tables (cases_8 H D) (cases_8 H D')"
  by (simp add: agree_tables_def cases_8_def branch_defs agree_handlers)

lemma agree_cases_9: "agree_tables (cases_9 H D) (cases_9 H D')"
  by (simp add: agree_tables_def cases_9_def branch_defs agree_handlers)

lemma agree_cases_10: "agree_tables (cases_10 H D) (cases_10 H D')"
  by (simp add: agree_tables_def cases_10_def branch_defs agree_handlers)

lemma agree_cases_11: "agree_tables (cases_11 H D) (cases_11 H D')"
  by (simp add: agree_tables_def cases_11_def branch_defs agree_handlers)

lemma agree_cases_12: "agree_tables (cases_12 H D) (cases_12 H D')"
  by (simp add: agree_tables_def cases_12_def branch_defs agree_handlers)

lemma agree_cases_13: "agree_tables (cases_13 H D) (cases_13 H D')"
  by (simp add: agree_tables_def cases_13_def branch_defs agree_handlers)

lemma agree_switch: "agree_tables (switch_cases H D) (switch_cases H D')"
  unfolding switch_cases_def by (intro agree_tables_append agree_cases_1
      agree_cases_2
      agree_cases_3
      agree_cases_4
      agree_cases_5
      agree_cases_6
      agree_cases_7
      agree_cases_8
      agree_cases_9
      agree_cases_10
      agree_cases_11
      agree_cases_12
      agree_cases_13)

lemma agree_exec: "agree (exec_inst H D i) (exec_inst H D' i)"
  using agree_lookup [OF agree_switch [of H D D'], of "OPCODE i"]
  by (cases "map_of (switch_cases H D) (OPCODE i)"; cases "map_of (switch_cases H D') (OPCODE i)")
    (simp_all add: exec_inst_def)

text \<open>The steps, the chunks and the run, with either runner.\<close>

abbreviation slot_off :: "machine \<Rightarrow> bool" where
  "slot_off \<equiv> \<lambda>s. \<not> delayed_branches s"

lemma agree_run_inst:
  assumes "\<And>c pc. keeps (\<lambda>s. config_view s = c) (D pc)"
  shows "agree (run_inst H D display i) (run_inst H D' display i)"
  unfolding run_inst_def
proof (rule agree_bnd)
  show "keeps slot_off (undefined_symbol i)" by (intro settings_keep settings.undefined)
  have e: "keeps slot_off (exec_inst H D i)" by (intro settings_keep settings.exec assms)
  have u: "keeps slot_off (modify DO_DELAYED_UPDATE)" by (intro settings_keep settings.upd) simp
  have b: "keeps slot_off (bnd (gets PC) (explain_before H i))"
    by (intro settings_keep keeps_bnd keeps_gets settings.before)
  show "agree (if b then x else seq (modify DO_DELAYED_UPDATE) (seq (bnd (gets PC) (explain_before H i)) (bnd (exec_inst H D i) f)))
      (if b then x else seq (modify DO_DELAYED_UPDATE) (seq (bnd (gets PC) (explain_before H i)) (bnd (exec_inst H D' i) f)))"
    for b x and f :: "bool option \<Rightarrow> bool option mcomp"
    by (cases b) (simp_all add: agree_seq agree_bnd agree_exec e u b)
qed simp

lemma agree_fetch:
  assumes "\<And>c pc. keeps (\<lambda>s. config_view s = c) (D pc)"
  shows "agree (fetch_step H D display) (fetch_step H D' display)"
  unfolding fetch_step_def
proof (intro agree_seq agree_bnd agree_refl)
  show "keeps slot_off (modify (\<lambda>s. poll_timer H (s\<lparr>gpr := (gpr s)(0 := 0)\<rparr>)\<lparr>exception_occurred := False\<rparr>))"
    by (intro settings_keep settings.upd) simp
  show "keeps slot_off (gets PC)" by auto
  show "keeps slot_off (mem_read_inst pc)" for pc by (intro settings_keep settings.fetch)
  show "keeps slot_off (gets exception_occurred)" by auto
  show "agree (if e then x else if p = None then y else bnd (deref_inst p) (run_inst H D display))
      (if e then x else if p = None then y else bnd (deref_inst p) (run_inst H D' display))" for e p x y
    using agree_bnd [OF agree_refl settings_keep [OF settings.deref] agree_run_inst [OF assms]] by auto
qed

lemma agree_steps:
  assumes "\<And>c pc. keeps (\<lambda>s. config_view s = c) (D pc)"
  shows "agree (run_steps H D display n) (run_steps H D' display n)"
proof (induction n)
  case (Suc n)
  have "agree (case r of Some b \<Rightarrow> ret (Some b) | None \<Rightarrow> run_steps H D display n)
      (case r of Some b \<Rightarrow> ret (Some b) | None \<Rightarrow> run_steps H D' display n)" for r
    using Suc by (cases r) auto
  from agree_bnd [OF agree_fetch [OF assms] settings_keep [OF settings.step [OF assms]] this]
  show ?case by (simp add: agree_def)
qed (simp add: agree_def)

lemma agree_chunk:
  assumes "\<And>c pc. keeps (\<lambda>s. config_view s = c) (D pc)"
  shows "agree (chunk H D display n) (chunk H D' display n)"
  unfolding chunk_def
proof (intro agree_seq agree_refl agree_steps assms)
  have "keeps (\<lambda>s. config_view s = c) (io_poll H)" for c
    by (rule keepsI) (auto simp: io_poll_def intro: keepsD [OF settings.io])
  then show "keeps slot_off (io_poll H)" by (rule settings_keep)
  show "keeps slot_off (modify (\<lambda>s. take_interrupt s\<lparr>force_break := False\<rparr>))"
    by (intro settings_keep settings.upd) simp
qed

lemma agree_chunks:
  assumes "\<And>c pc. keeps (\<lambda>s. config_view s = c) (D pc)"
  shows "agree (run_chunks H D display k n) (run_chunks H D' display k n)"
proof (induction n rule: less_induct)
  case (less n)
  show ?case
  proof (cases "n = 0 \<or> k = 0")
    case True
    then show ?thesis by (simp add: run_chunks.simps)
  next
    case False
    then have "agree (run_chunks H D display k (n - min k n)) (run_chunks H D' display k (n - min k n))"
      by (intro less) auto
    then have "agree (case r of Some b \<Rightarrow> ret b | None \<Rightarrow> run_chunks H D display k (n - min k n))
        (case r of Some b \<Rightarrow> ret b | None \<Rightarrow> run_chunks H D' display k (n - min k n))" for r
      by (cases r) auto
    from agree_bnd [OF agree_chunk [OF assms] settings_keep [OF settings.chunk [OF assms]] this] False
    show ?thesis by (subst (1 2) run_chunks.simps) (simp only: if_False)
  qed
qed

text \<open>
  C18: without delayed branches the depth of nesting does not matter: \<^verbatim>\<open>run_spim\<close> gives the same
  result with every positive fuel, so that the model's bound on the recursion of the C code
  restricts nothing in that mode.
\<close>

theorem run_independent_of_fuel:
  assumes "\<not> delayed_branches s"
  shows "run_spim H (Suc f) pc n display s = run_spim H (Suc g) pc n display s"
proof -
  have k: "keeps (\<lambda>s. config_view s = c) (bnd (run_spim H f pc 1 display) (\<lambda>_. ret ()))" for c pc
    by (intro keeps_bnd keeps_ret settings.run_spim)
  have "agree (run_chunks H (\<lambda>pc. bnd (run_spim H f pc 1 display) (\<lambda>_. ret ())) display k n)
      (run_chunks H (\<lambda>pc. bnd (run_spim H g pc 1 display) (\<lambda>_. ret ())) display k n)" for k
    by (rule agree_chunks [OF k])
  then show ?thesis using assms by (simp add: Let_def agree_def)
qed

theorem run_independent_of_fuel_witness:
  "run_spim idle_host 1 0x400000 1000 False zero_machine = run_spim idle_host 7 0x400000 1000 False zero_machine"
  using run_independent_of_fuel [of zero_machine idle_host 0 "0x400000" 1000 False 6] by (simp add: zero_machine_def)

end
