(* ===== verification/Data.thy ===== *)
theory Data
  imports Symbols
begin

text \<open>
  Data directives (\<^verbatim>\<open>data.c\<close>) and the labels of the current line (\<^verbatim>\<open>parser.c\<close>), which follow the
  location counter when it is aligned.
\<close>

subsection \<open>Labels of the current line\<close>

definition cons_label :: "nat \<Rightarrow> machine \<Rightarrow> machine" where
  "cons_label q s = s\<lparr>this_line_labels := q # this_line_labels s\<rparr>"

fun clear_label_list :: "host \<Rightarrow> nat list \<Rightarrow> unit mcomp" where
  "clear_label_list H [] = ret ()"
| "clear_label_list H (q # qs) =
     seq (resolve_label_uses H q) (seq (modify (\<lambda>s. s\<lparr>this_line_labels := qs\<rparr>)) (clear_label_list H qs))"

definition clear_labels :: "host \<Rightarrow> unit mcomp" where
  "clear_labels H = bnd (gets this_line_labels) (clear_label_list H)"

definition fix_current_label_address :: "mem_addr \<Rightarrow> machine \<Rightarrow> machine" where
  "fix_current_label_address new_addr s =
     fold (\<lambda>q. upd_label q (\<lambda>l. l\<lparr>label_addr := ucast new_addr\<rparr>)) (this_line_labels s) s"

subsection \<open>Location counter\<close>

definition user_kernel_data_segment :: "bool \<Rightarrow> machine \<Rightarrow> machine" where
  "user_kernel_data_segment to_kernel s = s\<lparr>data_in_kernel := to_kernel\<rparr>"

definition end_of_assembly_file :: "machine \<Rightarrow> machine" where
  "end_of_assembly_file s = s\<lparr>data_in_kernel := False, data_auto_alignment := True\<rparr>"

definition data_begins_at_point :: "mem_addr \<Rightarrow> machine \<Rightarrow> machine" where
  "data_begins_at_point addr s =
     (if bare_machine s then s\<lparr>next_data_pc := addr\<rparr>
      else s\<lparr>next_gp_item_addr := addr, gp_midpoint := addr + 32 * kilo,
             gpr := (gpr s)(28 := addr + 32 * kilo), next_data_pc := addr + 64 * kilo\<rparr>)"

definition k_data_begins_at_point :: "mem_addr \<Rightarrow> machine \<Rightarrow> machine" where
  "k_data_begins_at_point addr s = s\<lparr>next_k_data_pc := addr\<rparr>"

text \<open>
  \<^verbatim>\<open>(pc + (1u << alignment) - 1) & (0xffffffff << alignment)\<close>. A shift by a negative count or by
  32 and more is undefined in C; here it is \<open>None\<close>.
\<close>

definition align_pc :: "mem_addr \<Rightarrow> 32 word \<Rightarrow> mem_addr option" where
  "align_pc pc alignment =
     (if alignment < 32
      then Some ((pc + push_bit (unat alignment) 1 - 1) AND push_bit (unat alignment) 0xffffffff)
      else None)"

definition align_data :: "32 word \<Rightarrow> unit mcomp" where
  "align_data alignment s =
     (if alignment = 0 then ret () (s\<lparr>data_auto_alignment := False\<rparr>)
      else case align_pc (current_data_pc s) alignment of
             None \<Rightarrow> throw Crash s
           | Some pc \<Rightarrow> ret () (fix_current_label_address pc
               (if data_in_kernel s then s\<lparr>next_k_data_pc := pc\<rparr> else s\<lparr>next_data_pc := pc\<rparr>)))"

definition set_data_alignment :: "32 word \<Rightarrow> unit mcomp" where
  "set_data_alignment alignment = bnd (gets data_auto_alignment) (\<lambda>b. whn b (align_data alignment))"

definition enable_data_alignment :: "machine \<Rightarrow> machine" where
  "enable_data_alignment s = s\<lparr>data_auto_alignment := True\<rparr>"

definition set_data_pc :: "mem_addr \<Rightarrow> machine \<Rightarrow> machine" where
  "set_data_pc addr s = (if data_in_kernel s then s\<lparr>next_k_data_pc := addr\<rparr> else s\<lparr>next_data_pc := addr\<rparr>)"

definition increment_data_pc :: "host \<Rightarrow> 32 word \<Rightarrow> unit mcomp" where
  "increment_data_pc H delta =
     bnd (gets data_in_kernel) (\<lambda>k.
       if k
       then seq (modify (\<lambda>s. s\<lparr>next_k_data_pc := next_k_data_pc s + delta\<rparr>))
         (bnd (gets (\<lambda>s. (k_data_top s, next_k_data_pc s))) (\<lambda>(top, pc).
           whn (top \<le> pc) (expand_k_data H (ROUND_UP (pc - top + 1) (64 * kilo)))))
       else seq (modify (\<lambda>s. s\<lparr>next_data_pc := next_data_pc s + delta\<rparr>))
         (bnd (gets (\<lambda>s. (data_top s, next_data_pc s))) (\<lambda>(top, pc).
           whn (top \<le> pc) (expand_data H (ROUND_UP (pc - top + 1) (64 * kilo))))))"

subsection \<open>Stores\<close>

definition store_byte :: "host \<Rightarrow> 32 word \<Rightarrow> unit mcomp" where
  "store_byte H value =
     bnd (gets current_data_pc) (\<lambda>at. seq (mem_write_byte H at value) (increment_data_pc H 1))"

definition store_half :: "host \<Rightarrow> 32 word \<Rightarrow> unit mcomp" where
  "store_half H value =
     bnd (gets current_data_pc) (\<lambda>at.
       if at AND 1 \<noteq> 0
       then seq (store_byte H (value AND 0xff)) (store_byte H (signed_drop_bit 8 value AND 0xff))
       else seq (mem_write_half H at value) (increment_data_pc H (BYTES_PER_WORD div 2)))"

definition store_word :: "host \<Rightarrow> 32 word \<Rightarrow> unit mcomp" where
  "store_word H value =
     bnd (gets current_data_pc) (\<lambda>at.
       if at AND 3 \<noteq> 0
       then seq (store_half H (value AND 0xffff)) (store_half H (signed_drop_bit 16 value AND 0xffff))
       else seq (mem_write_word H at value) (increment_data_pc H BYTES_PER_WORD))"

text \<open>The words of a double: the low one first.\<close>

definition store_double :: "host \<Rightarrow> 64 word \<Rightarrow> unit mcomp" where
  "store_double H value =
     (let lo = ucast value; hi = ucast (drop_bit 32 value) :: 32 word
      in bnd (gets current_data_pc) (\<lambda>at.
       if at AND 7 \<noteq> 0
       then seq (store_word H lo) (store_word H hi)
       else seq (mem_write_word H at lo) (seq (increment_data_pc H BYTES_PER_WORD)
         (bnd (gets current_data_pc) (\<lambda>at2.
           seq (mem_write_word H at2 hi) (increment_data_pc H BYTES_PER_WORD))))))"

definition store_float :: "host \<Rightarrow> 64 word \<Rightarrow> unit mcomp" where
  "store_float H value =
     (let val = d_to_s H value
      in bnd (gets current_data_pc) (\<lambda>at.
       if at AND 3 \<noteq> 0
       then seq (store_half H (val AND 0xffff)) (store_half H (signed_drop_bit 16 val AND 0xffff))
       else seq (mem_write_word H at val) (increment_data_pc H BYTES_PER_WORD)))"

fun store_bytes_of :: "host \<Rightarrow> byte list \<Rightarrow> unit mcomp" where
  "store_bytes_of H [] = ret ()"
| "store_bytes_of H (b # bs) = seq (store_byte H (scast b)) (store_bytes_of H bs)"

definition store_string :: "host \<Rightarrow> byte list \<Rightarrow> bool \<Rightarrow> unit mcomp" where
  "store_string H bytes null_terminate =
     seq (store_bytes_of H bytes) (whn null_terminate (store_byte H 0))"

subsection \<open>Small data\<close>

abbreviation SMALL_DATA_SEG_MAX_SIZE :: "32 word" where "SMALL_DATA_SEG_MAX_SIZE \<equiv> 8"

definition small_item_fits :: "machine \<Rightarrow> 32 word \<Rightarrow> bool" where
  "small_item_fits s sz \<longleftrightarrow> 0 <s sz \<and> sz \<le>s SMALL_DATA_SEG_MAX_SIZE \<and>
     next_gp_item_addr s + sz < gp_midpoint s + 32 * kilo"

definition extern_directive :: "string \<Rightarrow> 32 word \<Rightarrow> unit mcomp" where
  "extern_directive name sz =
     bnd (make_label_global name) (\<lambda>q. bnd (deref_label (Some q)) (\<lambda>l. modify (\<lambda>s.
       if \<not> bare_machine s \<and> \<not> gp_flag l \<and> small_item_fits s sz
       then (upd_label q (\<lambda>l. l\<lparr>gp_flag := True, label_addr := ucast (next_gp_item_addr s)\<rparr>) s)
              \<lparr>next_gp_item_addr := next_gp_item_addr s + sz\<rparr>
       else s)))"

fun store_zeroes :: "host \<Rightarrow> nat \<Rightarrow> unit mcomp" where
  "store_zeroes H 0 = ret ()"
| "store_zeroes H (Suc n) = seq (store_byte H 0) (store_zeroes H n)"

definition lcomm_directive :: "host \<Rightarrow> string \<Rightarrow> 32 word \<Rightarrow> unit mcomp" where
  "lcomm_directive H name sz =
     bnd (gets (\<lambda>s. \<not> bare_machine s \<and> small_item_fits s sz)) (\<lambda>small.
       if small
       then bnd (gets next_gp_item_addr) (\<lambda>a. bnd (record_label H name a True) (\<lambda>q.
         modify (\<lambda>s. (upd_label q (\<lambda>l. l\<lparr>gp_flag := True\<rparr>) s)
            \<lparr>next_gp_item_addr := next_gp_item_addr s + sz\<rparr>)))
       else bnd (gets next_data_pc) (\<lambda>a. bnd (record_label H name a True) (\<lambda>_.
         whn (0 <s sz) (store_zeroes H (unat sz)))))"

end
