(* ===== verification/Assembler.thy ===== *)
theory Assembler
  imports Data
begin

text \<open>
  The assembler's back end (\<^verbatim>\<open>instruction.c\<close>): the text location counter, storing an instruction,
  and the builders of the instruction formats. An instruction with an immediate that does not fit
  its field becomes a sequence that builds the value in \<^verbatim>\<open>$at\<close>.
\<close>

subsection \<open>Location counter\<close>

definition text_begins_at_point :: "mem_addr \<Rightarrow> machine \<Rightarrow> machine" where
  "text_begins_at_point addr s = s\<lparr>next_text_pc := addr, text_in_kernel := False, text_auto_alignment := True\<rparr>"

definition k_text_begins_at_point :: "mem_addr \<Rightarrow> machine \<Rightarrow> machine" where
  "k_text_begins_at_point addr s = s\<lparr>next_k_text_pc := addr, text_in_kernel := False, text_auto_alignment := True\<rparr>"

definition align_text :: "32 word \<Rightarrow> unit mcomp" where
  "align_text alignment s =
     (if alignment = 0 then ret () (s\<lparr>text_auto_alignment := False\<rparr>)
      else case align_pc (current_text_pc s) alignment of
             None \<Rightarrow> throw Crash s
           | Some pc \<Rightarrow> ret () (fix_current_label_address pc
               (if text_in_kernel s then s\<lparr>next_k_text_pc := pc\<rparr> else s\<lparr>next_text_pc := pc\<rparr>)))"

definition set_text_pc :: "mem_addr \<Rightarrow> machine \<Rightarrow> machine" where
  "set_text_pc addr s = (if text_in_kernel s then s\<lparr>next_k_text_pc := addr\<rparr> else s\<lparr>next_text_pc := addr\<rparr>)"

definition increment_text_pc :: "32 word \<Rightarrow> unit mcomp" where
  "increment_text_pc delta s =
     (if text_in_kernel s
      then let s = s\<lparr>next_k_text_pc := next_k_text_pc s + delta\<rparr>
           in if k_text_top s \<le> next_k_text_pc s then throw (Run_Error ''Can't expand kernel text segment'') s else ret () s
      else let s = s\<lparr>next_text_pc := next_text_pc s + delta\<rparr>
           in if text_top s \<le> next_text_pc s then throw (Run_Error ''Can't expand text segment'') s else ret () s)"

definition user_kernel_text_segment :: "bool \<Rightarrow> machine \<Rightarrow> machine" where
  "user_kernel_text_segment to_kernel s = s\<lparr>text_in_kernel := to_kernel\<rparr>"

subsection \<open>Source annotation\<close>

definition emit_source_set :: "string option \<Rightarrow> machine \<Rightarrow> machine" where
  "emit_source_set t s = s\<lparr>emit_source_active := True, emit_source_text := t\<rparr>"

definition emit_source_clear :: "machine \<Rightarrow> machine" where
  "emit_source_clear s = s\<lparr>emit_source_active := False, emit_source_text := None\<rparr>"

text \<open>\<^verbatim>\<open>source_line\<close> is the field \<open>saved_line\<close>: the current line, once its first token was read.\<close>

definition annotation :: "machine \<Rightarrow> string option" where
  "annotation s = (if emit_source_active s then emit_source_text s else saved_line s)"

subsection \<open>Storing an instruction\<close>

definition annotate_and_encode :: "nat \<Rightarrow> unit mcomp" where
  "annotate_and_encode q =
     seq (modify (\<lambda>s. upd_inst q (\<lambda>i. i\<lparr>inst_source := annotation s\<rparr>) s))
      (bnd (deref_inst (Some q)) (\<lambda>i.
        whn (inst_encoding i = 0) (bnd (encode_inst i) (\<lambda>w. modify (upd_inst q (SET_ENCODING w))))))"

definition store_instruction :: "host \<Rightarrow> nat \<Rightarrow> unit mcomp" where
  "store_instruction H q =
     bnd (gets (\<lambda>s. (data_dir s, text_dir s))) (\<lambda>(dd, td).
       if dd
       then bnd (deref_inst (Some q)) (\<lambda>i. bnd (encode_inst i) (\<lambda>w.
              seq (store_word H w) (modify (free_inst q))))
       else whn td (bnd (gets current_text_pc) (\<lambda>at.
              seq (modify (\<lambda>s. s\<lparr>exception_occurred := False\<rparr>))
             (seq (mem_write_inst H at (Some q))
             (bnd (gets exception_occurred) (\<lambda>exc.
              seq (if exc then modify (error_out ''Invalid address (0x%08x) for instruction'' [at])
                   else increment_text_pc BYTES_PER_WORD)
                (annotate_and_encode q)))))))"

subsection \<open>Register formats\<close>

definition emit_inst :: "host \<Rightarrow> mips_instruction \<Rightarrow> unit mcomp" where
  "emit_inst H i = bnd (new_inst i) (\<lambda>p. case p of None \<Rightarrow> throw Crash | Some q \<Rightarrow> store_instruction H q)"

definition r_type_inst :: "host \<Rightarrow> int \<Rightarrow> byte \<Rightarrow> byte \<Rightarrow> byte \<Rightarrow> unit mcomp" where
  "r_type_inst H opcode rd rs rt = emit_inst H (make_r_type_inst opcode rd rs rt)"

definition r_co_type_inst :: "host \<Rightarrow> int \<Rightarrow> byte \<Rightarrow> byte \<Rightarrow> byte \<Rightarrow> unit mcomp" where
  "r_co_type_inst H opcode fd fs ft = emit_inst H (SET_SHAMT fd (make_r_type_inst opcode fs 0 ft))"

definition r_sh_type_inst :: "host \<Rightarrow> int \<Rightarrow> byte \<Rightarrow> byte \<Rightarrow> 32 word \<Rightarrow> unit mcomp" where
  "r_sh_type_inst H opcode rd rt shamt =
     emit_inst H (SET_SHAMT (ucast (shamt AND 0x1f)) (make_r_type_inst opcode rd 0 rt))"

abbreviation COND_UN :: byte where "COND_UN \<equiv> 1"
abbreviation COND_EQ :: byte where "COND_EQ \<equiv> 2"
abbreviation COND_LT :: byte where "COND_LT \<equiv> 4"
abbreviation COND_IN :: byte where "COND_IN \<equiv> 8"

text \<open>The condition of an FP compare; other opcodes leave the field alone.\<close>

definition cond_table :: "(int \<times> byte) list" where
  "cond_table =
    [(TOK_C_EQ_D_OPCODE, COND_EQ), (TOK_C_EQ_S_OPCODE, COND_EQ),
     (TOK_C_LE_D_OPCODE, COND_IN OR COND_LT OR COND_EQ), (TOK_C_LE_S_OPCODE, COND_IN OR COND_LT OR COND_EQ),
     (TOK_C_LT_D_OPCODE, COND_IN OR COND_LT), (TOK_C_LT_S_OPCODE, COND_IN OR COND_LT),
     (TOK_C_NGE_D_OPCODE, COND_IN OR COND_LT OR COND_UN), (TOK_C_NGE_S_OPCODE, COND_IN OR COND_LT OR COND_UN),
     (TOK_C_NGLE_D_OPCODE, COND_IN OR COND_UN), (TOK_C_NGLE_S_OPCODE, COND_IN OR COND_UN),
     (TOK_C_NGL_D_OPCODE, COND_IN OR COND_EQ OR COND_UN), (TOK_C_NGL_S_OPCODE, COND_IN OR COND_EQ OR COND_UN),
     (TOK_C_NGT_D_OPCODE, COND_IN OR COND_LT OR COND_EQ OR COND_UN),
     (TOK_C_NGT_S_OPCODE, COND_IN OR COND_LT OR COND_EQ OR COND_UN),
     (TOK_C_OLT_D_OPCODE, COND_LT), (TOK_C_OLT_S_OPCODE, COND_LT),
     (TOK_C_OLE_D_OPCODE, COND_LT OR COND_EQ), (TOK_C_OLE_S_OPCODE, COND_LT OR COND_EQ),
     (TOK_C_SEQ_D_OPCODE, COND_IN OR COND_EQ), (TOK_C_SEQ_S_OPCODE, COND_IN OR COND_EQ),
     (TOK_C_SF_D_OPCODE, COND_IN), (TOK_C_SF_S_OPCODE, COND_IN),
     (TOK_C_F_D_OPCODE, 0), (TOK_C_F_S_OPCODE, 0),
     (TOK_C_UEQ_D_OPCODE, COND_EQ OR COND_UN), (TOK_C_UEQ_S_OPCODE, COND_EQ OR COND_UN),
     (TOK_C_ULT_D_OPCODE, COND_LT OR COND_UN), (TOK_C_ULT_S_OPCODE, COND_LT OR COND_UN),
     (TOK_C_ULE_D_OPCODE, COND_LT OR COND_EQ OR COND_UN), (TOK_C_ULE_S_OPCODE, COND_LT OR COND_EQ OR COND_UN),
     (TOK_C_UN_D_OPCODE, COND_UN), (TOK_C_UN_S_OPCODE, COND_UN)]"

definition r_cond_type_inst :: "host \<Rightarrow> int \<Rightarrow> byte \<Rightarrow> byte \<Rightarrow> 32 word \<Rightarrow> unit mcomp" where
  "r_cond_type_inst H opcode fs ft cc =
     (let i = SET_SHAMT (ucast (push_bit 2 cc)) (make_r_type_inst opcode fs 0 ft)
      in emit_inst H (case map_of cond_table opcode of None \<Rightarrow> i | Some c \<Rightarrow> SET_RS c i))"

subsection \<open>Immediate formats\<close>

definition imm_op_to_op :: "int \<Rightarrow> int mcomp" where
  "imm_op_to_op opcode =
     (case map_of [(TOK_ADDI_OPCODE, TOK_ADD_OPCODE), (TOK_ADDIU_OPCODE, TOK_ADDU_OPCODE),
        (TOK_ANDI_OPCODE, TOK_AND_OPCODE), (TOK_ORI_OPCODE, TOK_OR_OPCODE), (TOK_XORI_OPCODE, TOK_XOR_OPCODE),
        (TOK_SLTI_OPCODE, TOK_SLT_OPCODE), (TOK_SLTIU_OPCODE, TOK_SLTU_OPCODE), (TOK_J_OPCODE, TOK_JR_OPCODE),
        (TOK_LUI_OPCODE, TOK_ADDU_OPCODE), (TOK_SLL_OPCODE, TOK_SLLV_OPCODE), (TOK_SRA_OPCODE, TOK_SRAV_OPCODE),
        (TOK_SRL_OPCODE, TOK_SRLV_OPCODE)] opcode of
        Some r \<Rightarrow> ret r | None \<Rightarrow> throw (Fatal_Error ''Can't convert immediate op to op''))"

definition op_to_imm_op :: "int \<Rightarrow> int mcomp" where
  "op_to_imm_op opcode =
     (case map_of [(TOK_ADD_OPCODE, TOK_ADDI_OPCODE), (TOK_ADDU_OPCODE, TOK_ADDIU_OPCODE),
        (TOK_AND_OPCODE, TOK_ANDI_OPCODE), (TOK_OR_OPCODE, TOK_ORI_OPCODE), (TOK_XOR_OPCODE, TOK_XORI_OPCODE),
        (TOK_SLT_OPCODE, TOK_SLTI_OPCODE), (TOK_SLTU_OPCODE, TOK_SLTIU_OPCODE), (TOK_SLLV_OPCODE, TOK_SLL_OPCODE),
        (TOK_SRAV_OPCODE, TOK_SRA_OPCODE), (TOK_SRLV_OPCODE, TOK_SRL_OPCODE)] opcode of
        Some r \<Rightarrow> ret r | None \<Rightarrow> throw (Fatal_Error ''Can't convert op to immediate op''))"

abbreviation REG_GP :: byte where "REG_GP \<equiv> 28"

definition imm_16_signed :: "32 word \<Rightarrow> bool" where
  "imm_16_signed v \<longleftrightarrow> -0x8000 \<le>s v \<and> v \<le>s 0x7fff"

text \<open>An item that \<^verbatim>\<open>$gp\<close> reaches: its address, when it is in the range of an immediate.\<close>

definition gp_offset :: "imm_expr \<Rightarrow> byte \<Rightarrow> 32 word option mcomp" where
  "gp_offset e rs =
     (case expr_symbol e of None \<Rightarrow> ret None
      | Some q \<Rightarrow> bnd (deref_label (Some q)) (\<lambda>l.
          let offset = ucast (label_addr l) + expr_offset e
          in ret (if gp_flag l \<and> rs = 0 \<and> imm_16_signed offset then Some offset else None)))"

text \<open>
  The sequences, over the routine that emits an immediate instruction (\<^verbatim>\<open>i_type_inst_free\<close>): a
  constant into a register, and the instruction on a 32-bit immediate.
\<close>

definition produce_immediate ::
    "(int \<Rightarrow> byte \<Rightarrow> byte \<Rightarrow> imm_expr \<Rightarrow> unit mcomp) \<Rightarrow> imm_expr \<Rightarrow> byte \<Rightarrow> bool \<Rightarrow> 32 word \<Rightarrow> unit mcomp" where
  "produce_immediate I e rt value_known value =
     (if value_known \<and> value AND 0xffff = 0 then I TOK_LUI_OPCODE rt 0 (upper_bits_of_expr e)
      else if value_known \<and> value AND 0xffff0000 = 0 then I TOK_ORI_OPCODE rt 0 (lower_bits_of_expr e)
      else seq (I TOK_LUI_OPCODE 1 0 (upper_bits_of_expr e)) (I TOK_ORI_OPCODE rt 1 (lower_bits_of_expr e)))"

definition load_store_full_word ::
    "host \<Rightarrow> (int \<Rightarrow> byte \<Rightarrow> byte \<Rightarrow> imm_expr \<Rightarrow> unit mcomp) \<Rightarrow> int \<Rightarrow> byte \<Rightarrow> byte \<Rightarrow> imm_expr \<Rightarrow> bool \<Rightarrow> 32 word \<Rightarrow> unit mcomp" where
  "load_store_full_word H I opcode rt rs e value_known value =
     (if value_known
      then let high = signed_drop_bit 16 value AND 0xffff; low = value AND 0xffff
           in if \<not> (high = 0 \<and> low AND 0x8000 = 0) \<and> \<not> (high = 0xffff \<and> low AND 0x8000 \<noteq> 0)
              then seq (I TOK_LUI_OPCODE 1 0 (const_imm_expr (if low AND 0x8000 \<noteq> 0 then high + 1 else high)))
                  (seq (whn (rs \<noteq> 0) (r_type_inst H TOK_ADDU_OPCODE 1 1 rs))
                    (I opcode rt 1 (lower_bits_of_expr (const_imm_expr low))))
              else I opcode rt rs (const_imm_expr low)
      else seq (I TOK_LUI_OPCODE 1 0 (upper_bits_of_expr e))
          (seq (whn (rs \<noteq> 0) (r_type_inst H TOK_ADDU_OPCODE 1 1 rs))
            (I opcode rt 1 (lower_bits_of_expr e))))"

definition i_type_inst_full_word ::
    "host \<Rightarrow> (int \<Rightarrow> byte \<Rightarrow> byte \<Rightarrow> imm_expr \<Rightarrow> unit mcomp) \<Rightarrow> int \<Rightarrow> byte \<Rightarrow> byte \<Rightarrow> imm_expr \<Rightarrow> bool \<Rightarrow> 32 word \<Rightarrow> unit mcomp" where
  "i_type_inst_full_word H I opcode rt rs e value_known value =
     (if opcode_is_load_store opcode
      then bnd (gp_offset e rs) (\<lambda>g. case g of
          Some offset \<Rightarrow> I opcode rt REG_GP (const_imm_expr offset)
        | None \<Rightarrow> load_store_full_word H I opcode rt rs e value_known value)
      else if opcode_is_branch opcode then I opcode rt rs (lower_bits_of_expr e)
      else bnd (gp_offset e rs) (\<lambda>g. case g of
          Some offset \<Rightarrow> I (if opcode = TOK_LUI_OPCODE then TOK_ADDIU_OPCODE else opcode) rt REG_GP (const_imm_expr offset)
        | None \<Rightarrow>
            if (opcode = TOK_ORI_OPCODE \<or> opcode = TOK_ADDI_OPCODE \<or> opcode = TOK_ADDIU_OPCODE \<or> opcode = TOK_LUI_OPCODE) \<and> rs = 0
            then produce_immediate I e rt value_known value
            else seq (produce_immediate I e 1 value_known value)
              (bnd (imm_op_to_op opcode) (\<lambda>op. r_type_inst H op rt rs 1))))"

definition sign_extending :: "int \<Rightarrow> int \<Rightarrow> bool" where
  "sign_extending opcode bits \<longleftrightarrow>
     opcode \<in> set [TOK_ADDI_OPCODE, TOK_ADDIU_OPCODE, TOK_SLTI_OPCODE, TOK_SLTIU_OPCODE, TOK_TEQI_OPCODE,
       TOK_TGEI_OPCODE, TOK_TGEIU_OPCODE, TOK_TLTI_OPCODE, TOK_TLTIU_OPCODE, TOK_TNEI_OPCODE] \<or>
     opcode_is_load_store opcode \<and> bits = 0"

definition too_large :: "int \<Rightarrow> int \<Rightarrow> 32 word \<Rightarrow> bool" where
  "too_large opcode bits value \<longleftrightarrow>
     (if sign_extending opcode bits
      then value AND 0xffff8000 \<noteq> 0 \<and> value AND 0xffff8000 \<noteq> 0xffff8000
      else value AND 0xffff0000 \<noteq> 0)"

text \<open>
  \<^verbatim>\<open>i_type_inst\<close>; the fuel bounds its mutual recursion with \<^verbatim>\<open>i_type_inst_full_word\<close>.
\<close>

fun i_type_inst :: "host \<Rightarrow> nat \<Rightarrow> int \<Rightarrow> byte \<Rightarrow> byte \<Rightarrow> imm_expr \<Rightarrow> unit mcomp" where
  "i_type_inst H 0 opcode rt rs e = throw Out_Of_Fuel"
| "i_type_inst H (Suc fuel) opcode rt rs e =
    bnd (new_inst (zero_inst\<lparr>inst_opcode := opcode, inst_rs := rs, inst_rt := rt, inst_expr := Some e\<rparr>)) (\<lambda>p.
      case p of None \<Rightarrow> throw Crash | Some q \<Rightarrow>
      bnd (symbol_known (expr_symbol e)) (\<lambda>known. bnd (gets bare_machine) (\<lambda>bare.
        if known
        then bnd (eval_imm_expr e) (\<lambda>value.
          if \<not> bare \<and> too_large opcode (expr_bits e) value
          then seq (modify (free_inst q)) (i_type_inst_full_word H (i_type_inst H fuel) opcode rt rs e True value)
          else seq (resolve_a_label H (expr_symbol e) q) (store_instruction H q))
        else if bare \<or> expr_bits e \<noteq> 0
        then bnd (case expr_symbol e of None \<Rightarrow> ret () | Some symb \<Rightarrow> record_inst_uses_symbol q symb)
               (\<lambda>_. store_instruction H q)
        else seq (modify (free_inst q)) (i_type_inst_full_word H (i_type_inst H fuel) opcode rt rs e False 0))))"

subsection \<open>Jumps\<close>

definition j_type_inst :: "host \<Rightarrow> int \<Rightarrow> imm_expr \<Rightarrow> unit mcomp" where
  "j_type_inst H opcode target =
     (let e = target\<lparr>expr_offset := 0, expr_pc_relative := False\<rparr>
      in bnd (new_inst (zero_inst\<lparr>inst_opcode := opcode, inst_expr := Some e\<rparr>)) (\<lambda>p.
        case p of None \<Rightarrow> throw Crash | Some q \<Rightarrow>
        bnd (symbol_known (expr_symbol e)) (\<lambda>known.
          seq (if known then resolve_a_label H (expr_symbol e) q
               else (case expr_symbol e of None \<Rightarrow> ret () | Some symb \<Rightarrow> record_inst_uses_symbol q symb))
            (store_instruction H q))))"

end
