(* ===== verification/Ast.thy ===== *)
theory Ast
  imports Assembler
begin

text \<open>
  The syntax tree of an assembly file (\<^verbatim>\<open>ast.h\<close>, constructors of \<^verbatim>\<open>ast.c\<close>) and the walk that commits
  it to memory and the symbol table (\<^verbatim>\<open>emit_ast\<close> of \<^verbatim>\<open>parser.c\<close>). Sibling chains are lists; an
  owned copy of an expression is the expression.
\<close>

subsection \<open>Nodes\<close>

record ast_header =
  source_line :: "32 word"
  src_text :: "string option"

datatype ast_label_kind = AST_LABEL_NORMAL | AST_LABEL_CONST

datatype ast_seg_kind = AST_DIR_TEXT | AST_DIR_DATA | AST_DIR_KTEXT | AST_DIR_KDATA

datatype ast_node =
    AST_INST_R ast_header int "32 word" "32 word" "32 word"
  | AST_INST_R_SHIFT ast_header int "32 word" "32 word" "32 word"
  | AST_INST_I ast_header int "32 word" "32 word" imm_expr
  | AST_INST_J ast_header int imm_expr
  | AST_INST_FP_R ast_header int "32 word" "32 word" "32 word"
  | AST_INST_FP_COMPARE ast_header int "32 word" "32 word" "32 word"
  | AST_PSEUDO ast_header string "ast_node list"
  | AST_DATA_BYTE ast_header "imm_expr list"
  | AST_DATA_HALF ast_header "imm_expr list"
  | AST_DATA_WORD ast_header "imm_expr list"
  | AST_DATA_FLOAT ast_header "64 word list"
  | AST_DATA_DOUBLE ast_header "64 word list"
  | AST_DATA_STRING ast_header "byte list" bool
  | AST_DIR_SEG ast_header ast_seg_kind bool mem_addr
  | AST_DIR_ALIGN ast_header "32 word"
  | AST_DIR_SPACE ast_header "32 word"
  | AST_DIR_GLOBL ast_header string
  | AST_DIR_EXTERN ast_header string "32 word"
  | AST_DIR_COMM ast_header string "32 word"
  | AST_LABEL_DEF ast_header ast_label_kind string "32 word"
  | AST_FILE ast_header "string option" "ast_node list"
  | AST_ERROR ast_header "string option"

fun node_header :: "ast_node \<Rightarrow> ast_header" where
  "node_header (AST_INST_R h _ _ _ _) = h"
| "node_header (AST_INST_R_SHIFT h _ _ _ _) = h"
| "node_header (AST_INST_I h _ _ _ _) = h"
| "node_header (AST_INST_J h _ _) = h"
| "node_header (AST_INST_FP_R h _ _ _ _) = h"
| "node_header (AST_INST_FP_COMPARE h _ _ _ _) = h"
| "node_header (AST_PSEUDO h _ _) = h"
| "node_header (AST_DATA_BYTE h _) = h"
| "node_header (AST_DATA_HALF h _) = h"
| "node_header (AST_DATA_WORD h _) = h"
| "node_header (AST_DATA_FLOAT h _) = h"
| "node_header (AST_DATA_DOUBLE h _) = h"
| "node_header (AST_DATA_STRING h _ _) = h"
| "node_header (AST_DIR_SEG h _ _ _) = h"
| "node_header (AST_DIR_ALIGN h _) = h"
| "node_header (AST_DIR_SPACE h _) = h"
| "node_header (AST_DIR_GLOBL h _) = h"
| "node_header (AST_DIR_EXTERN h _ _) = h"
| "node_header (AST_DIR_COMM h _ _) = h"
| "node_header (AST_LABEL_DEF h _ _ _) = h"
| "node_header (AST_FILE h _ _) = h"
| "node_header (AST_ERROR h _) = h"

subsection \<open>Constructors\<close>

text \<open>\<^verbatim>\<open>new_node\<close>: the line and the text the scanner is on.\<close>

definition new_node :: "machine \<Rightarrow> ast_header" where
  "new_node s = \<lparr>source_line = line_no s, src_text = saved_line s\<rparr>"

definition ast_make_inst_r :: "int \<Rightarrow> 32 word \<Rightarrow> 32 word \<Rightarrow> 32 word \<Rightarrow> machine \<Rightarrow> ast_node" where
  "ast_make_inst_r op rd rs rt s = AST_INST_R (new_node s) op rd rs rt"

definition ast_make_inst_r_shift :: "int \<Rightarrow> 32 word \<Rightarrow> 32 word \<Rightarrow> 32 word \<Rightarrow> machine \<Rightarrow> ast_node" where
  "ast_make_inst_r_shift op rd rt shamt s = AST_INST_R_SHIFT (new_node s) op rd rt shamt"

definition ast_make_inst_i :: "int \<Rightarrow> 32 word \<Rightarrow> 32 word \<Rightarrow> imm_expr \<Rightarrow> machine \<Rightarrow> ast_node" where
  "ast_make_inst_i op rt rs imm s = AST_INST_I (new_node s) op rt rs imm"

definition ast_make_inst_j :: "int \<Rightarrow> imm_expr \<Rightarrow> machine \<Rightarrow> ast_node" where
  "ast_make_inst_j op target s = AST_INST_J (new_node s) op target"

definition ast_make_inst_fp_r :: "int \<Rightarrow> 32 word \<Rightarrow> 32 word \<Rightarrow> 32 word \<Rightarrow> machine \<Rightarrow> ast_node" where
  "ast_make_inst_fp_r op fd fs ft s = AST_INST_FP_R (new_node s) op fd fs ft"

definition ast_make_inst_fp_compare :: "int \<Rightarrow> 32 word \<Rightarrow> 32 word \<Rightarrow> 32 word \<Rightarrow> machine \<Rightarrow> ast_node" where
  "ast_make_inst_fp_compare op fs ft cc s = AST_INST_FP_COMPARE (new_node s) op fs ft cc"

definition ast_make_pseudo :: "string \<Rightarrow> machine \<Rightarrow> ast_node" where
  "ast_make_pseudo mnemonic s = AST_PSEUDO (new_node s) mnemonic []"

definition ast_make_data_string :: "byte list \<Rightarrow> bool \<Rightarrow> machine \<Rightarrow> ast_node" where
  "ast_make_data_string bytes null_term s = AST_DATA_STRING (new_node s) bytes null_term"

definition make_dir_seg :: "ast_seg_kind \<Rightarrow> bool \<Rightarrow> mem_addr \<Rightarrow> machine \<Rightarrow> ast_node" where
  "make_dir_seg kind has addr s = AST_DIR_SEG (new_node s) kind has addr"

definition ast_make_dir_align :: "32 word \<Rightarrow> machine \<Rightarrow> ast_node" where
  "ast_make_dir_align n s = AST_DIR_ALIGN (new_node s) n"

definition ast_make_dir_space :: "32 word \<Rightarrow> machine \<Rightarrow> ast_node" where
  "ast_make_dir_space sz s = AST_DIR_SPACE (new_node s) sz"

definition ast_make_dir_globl :: "string \<Rightarrow> machine \<Rightarrow> ast_node" where
  "ast_make_dir_globl name s = AST_DIR_GLOBL (new_node s) name"

definition ast_make_dir_extern :: "string \<Rightarrow> 32 word \<Rightarrow> machine \<Rightarrow> ast_node" where
  "ast_make_dir_extern name sz s = AST_DIR_EXTERN (new_node s) name sz"

definition ast_make_dir_comm :: "string \<Rightarrow> 32 word \<Rightarrow> machine \<Rightarrow> ast_node" where
  "ast_make_dir_comm name sz s = AST_DIR_COMM (new_node s) name sz"

definition ast_make_label_normal :: "string \<Rightarrow> machine \<Rightarrow> ast_node" where
  "ast_make_label_normal name s = AST_LABEL_DEF (new_node s) AST_LABEL_NORMAL name 0"

definition ast_make_label_const :: "string \<Rightarrow> 32 word \<Rightarrow> machine \<Rightarrow> ast_node" where
  "ast_make_label_const name v s = AST_LABEL_DEF (new_node s) AST_LABEL_CONST name v"

definition ast_make_file :: "string option \<Rightarrow> machine \<Rightarrow> ast_node" where
  "ast_make_file source_file s = AST_FILE (new_node s) source_file []"

text \<open>Appending to the end of a chain; other nodes have none.\<close>

fun ast_file_append :: "ast_node \<Rightarrow> ast_node \<Rightarrow> ast_node" where
  "ast_file_append (AST_FILE h f cs) stmt = AST_FILE h f (cs @ [stmt])"
| "ast_file_append n stmt = n"

fun ast_pseudo_append :: "ast_node \<Rightarrow> ast_node \<Rightarrow> ast_node" where
  "ast_pseudo_append (AST_PSEUDO h m cs) child = AST_PSEUDO h m (cs @ [child])"
| "ast_pseudo_append n child = n"

subsection \<open>Emission\<close>

text \<open>The levels of recursion of \<^verbatim>\<open>i_type_inst\<close> that are ever needed.\<close>

abbreviation I_TYPE_FUEL :: nat where "I_TYPE_FUEL \<equiv> 4"

definition align_labels_to :: "nat \<Rightarrow> machine \<Rightarrow> machine" where
  "align_labels_to alignment s =
     (if \<not> data_dir s \<or> \<not> auto_align s \<or> this_line_labels s = [] then s
      else fix_current_label_address
        ((current_data_pc s + push_bit alignment 1 - 1) AND push_bit alignment (NOT 0)) s)"

fun emit_data_ints :: "(32 word \<Rightarrow> unit mcomp) \<Rightarrow> imm_expr list \<Rightarrow> unit mcomp" where
  "emit_data_ints store [] = ret ()"
| "emit_data_ints store (e # es) =
     seq (bnd (symbol_known (expr_symbol e)) (\<lambda>known.
            case expr_symbol e of
              Some q \<Rightarrow> if \<not> known
                then bnd (gets current_data_pc) (\<lambda>pc. seq (record_data_uses_symbol pc q) (store (expr_offset e)))
                else bnd (eval_imm_expr e) store
            | None \<Rightarrow> bnd (eval_imm_expr e) store))
       (emit_data_ints store es)"

fun emit_data_fps :: "(64 word \<Rightarrow> unit mcomp) \<Rightarrow> 64 word list \<Rightarrow> unit mcomp" where
  "emit_data_fps store [] = ret ()"
| "emit_data_fps store (v # vs) = seq (store v) (emit_data_fps store vs)"

text \<open>The alignment before a datum.\<close>

definition align_datum :: "nat \<Rightarrow> unit mcomp" where
  "align_datum n = seq (modify (align_labels_to n))
     (bnd (gets data_dir) (\<lambda>dd. whn dd (set_data_alignment (of_nat n))))"

definition emit_seg :: "ast_seg_kind \<Rightarrow> bool \<Rightarrow> mem_addr \<Rightarrow> machine \<Rightarrow> machine" where
  "emit_seg kind has_addr addr s =
     (case kind of
        AST_DIR_TEXT \<Rightarrow> let s = (user_kernel_text_segment False s)\<lparr>data_dir := False, text_dir := True\<rparr>
          in if has_addr then set_text_pc addr s else s
      | AST_DIR_KTEXT \<Rightarrow> let s = (user_kernel_text_segment True s)\<lparr>data_dir := False, text_dir := True\<rparr>
          in if has_addr then set_text_pc addr s else s
      | AST_DIR_DATA \<Rightarrow> let s = (enable_data_alignment ((user_kernel_data_segment False s)\<lparr>data_dir := True, text_dir := False\<rparr>))
            \<lparr>auto_align := True\<rparr> in if has_addr then set_data_pc addr s else s
      | AST_DIR_KDATA \<Rightarrow> let s = (enable_data_alignment ((user_kernel_data_segment True s)\<lparr>data_dir := True, text_dir := False\<rparr>))
            \<lparr>auto_align := True\<rparr> in if has_addr then set_data_pc addr s else s)"

text \<open>The definition of a symbol that has no address yet, at the data location (\<^verbatim>\<open>.extern\<close>, \<^verbatim>\<open>.comm\<close>).\<close>

definition define_here :: "host \<Rightarrow> string \<Rightarrow> unit mcomp" where
  "define_here H name =
     bnd (lookup_label name) (\<lambda>q. bnd (deref_label (Some q)) (\<lambda>l.
       whn (label_addr l = 0) (bnd (gets current_data_pc) (\<lambda>pc.
         bnd (record_label H name pc True) (\<lambda>_. ret ())))))"

definition emit_label :: "host \<Rightarrow> ast_label_kind \<Rightarrow> string \<Rightarrow> 32 word \<Rightarrow> unit mcomp" where
  "emit_label H kind name v =
     (case kind of
        AST_LABEL_NORMAL \<Rightarrow>
          bnd (gets (\<lambda>s. if text_dir s then current_text_pc s else current_data_pc s)) (\<lambda>addr.
            bnd (record_label H name addr False) (\<lambda>q. modify (cons_label q)))
      | AST_LABEL_CONST \<Rightarrow>
          bnd (record_label H name v True) (\<lambda>q. modify (upd_label q (\<lambda>l. l\<lparr>const_flag := True\<rparr>))))"

fun clears_labels :: "ast_node \<Rightarrow> bool" where
  "clears_labels (AST_LABEL_DEF _ _ _ _) = False"
| "clears_labels (AST_DIR_GLOBL _ _) = False"
| "clears_labels _ = True"

definition begin_node :: "ast_header \<Rightarrow> machine \<Rightarrow> machine" where
  "begin_node h s = emit_source_set (src_text h) (s\<lparr>line_no := source_line h\<rparr>)"

text \<open>The cases of \<^verbatim>\<open>emit_one\<close> other than the wrapper of a pseudo-instruction.\<close>

fun emit_leaf :: "host \<Rightarrow> ast_node \<Rightarrow> unit mcomp" where
  "emit_leaf H (AST_DIR_SEG _ kind has_addr addr) = modify (emit_seg kind has_addr addr)"
| "emit_leaf H (AST_DIR_ALIGN _ n) =
     seq (whn (n = 0) (modify (\<lambda>s. s\<lparr>auto_align := False\<rparr>)))
       (bnd (gets text_dir) (\<lambda>td. if td then align_text n else align_data n))"
| "emit_leaf H (AST_DIR_SPACE _ sz) = increment_data_pc H sz"
| "emit_leaf H (AST_DIR_GLOBL _ name) = bnd (make_label_global name) (\<lambda>_. ret ())"
| "emit_leaf H (AST_DIR_EXTERN _ name sz) =
     bnd (make_label_global name) (\<lambda>_. seq (define_here H name) (increment_data_pc H sz))"
| "emit_leaf H (AST_DIR_COMM _ name sz) =
     seq (align_data 2) (seq (define_here H name) (increment_data_pc H sz))"
| "emit_leaf H (AST_DATA_BYTE _ es) = emit_data_ints (store_byte H) es"
| "emit_leaf H (AST_DATA_HALF _ es) = seq (align_datum 1) (emit_data_ints (store_half H) es)"
| "emit_leaf H (AST_DATA_WORD _ es) = seq (align_datum 2) (emit_data_ints (store_word H) es)"
| "emit_leaf H (AST_DATA_FLOAT _ vs) = seq (align_datum 2) (emit_data_fps (store_float H) vs)"
| "emit_leaf H (AST_DATA_DOUBLE _ vs) = seq (align_datum 3) (emit_data_fps (store_double H) vs)"
| "emit_leaf H (AST_DATA_STRING _ bytes null_term) =
     bnd (gets text_dir) (\<lambda>td. whn (\<not> td) (store_string H bytes null_term))"
| "emit_leaf H (AST_LABEL_DEF _ kind name v) = emit_label H kind name v"
| "emit_leaf H (AST_INST_R _ op rd rs rt) = r_type_inst H op (ucast rd) (ucast rs) (ucast rt)"
| "emit_leaf H (AST_INST_R_SHIFT _ op rd rt shamt) = r_sh_type_inst H op (ucast rd) (ucast rt) shamt"
| "emit_leaf H (AST_INST_I _ op rt rs imm) = i_type_inst H I_TYPE_FUEL op (ucast rt) (ucast rs) imm"
| "emit_leaf H (AST_INST_J _ op target) = j_type_inst H op target"
| "emit_leaf H (AST_INST_FP_R _ op fd fs ft) = r_co_type_inst H op (ucast fd) (ucast fs) (ucast ft)"
| "emit_leaf H (AST_INST_FP_COMPARE _ op fs ft cc) = r_cond_type_inst H op (ucast fs) (ucast ft) cc"
| "emit_leaf H (AST_PSEUDO _ _ _) = ret ()"
| "emit_leaf H (AST_FILE _ _ _) = ret ()"
| "emit_leaf H (AST_ERROR _ _) = ret ()"

fun emit_one :: "host \<Rightarrow> ast_node \<Rightarrow> unit mcomp"
  and emit_children :: "host \<Rightarrow> ast_node list \<Rightarrow> unit mcomp" where
  "emit_one H (AST_PSEUDO h m cs) = seq (modify (begin_node h)) (emit_children H cs)"
| "emit_one H n = seq (modify (begin_node (node_header n))) (emit_leaf H n)"
| "emit_children H [] = ret ()"
| "emit_children H (c # cs) =
     seq (emit_one H c) (seq (whn (clears_labels c) (clear_labels H)) (emit_children H cs))"

definition emit_ast :: "host \<Rightarrow> ast_node \<Rightarrow> unit mcomp" where
  "emit_ast H file =
     (case file of
        AST_FILE h f cs \<Rightarrow> seq (emit_children H cs) (seq (clear_labels H) (modify emit_source_clear))
      | _ \<Rightarrow> ret ())"

end
