(* ===== verification/SymbolProps.thy ===== *)
theory SymbolProps
  imports Ast MemoryProps
begin

text \<open>
  The symbol table as an abstract map from names to labels: its invariant, lookup and definition
  as operations on the map, the end of a file (\<^verbatim>\<open>flush_local_labels\<close>) with its termination, and the
  input that makes it run forever.
\<close>

text \<open>An address is kept in a 64-bit field.\<close>

lemma addr_round_trip [simp]: "(ucast (ucast (a :: 32 word) :: 64 word) :: 32 word) = a"
  by (simp add: word_eq_bits bit_simps)

lemma addr_zero [simp]: "(ucast (a :: 32 word) :: 64 word) = 0 \<longleftrightarrow> a = 0"
  using addr_round_trip [of a] by (metis ucast_0)

subsection \<open>Invariant and abstraction\<close>

text \<open>
  Every label of a chain is live, hashes to the chain, and no two labels of a chain have the same
  name. Heap addresses in use are below the counter.
\<close>

definition name_of :: "machine \<Rightarrow> nat \<Rightarrow> string option" where
  "name_of s q = map_option label_name (label_heap s q)"

definition table_ok :: "machine \<Rightarrow> bool" where
  "table_ok s \<longleftrightarrow>
     (\<forall>i q. q \<in> set (label_hash_table s i) \<longrightarrow> (\<exists>n. name_of s q = Some n \<and> hash_slot n = i)) \<and>
     (\<forall>i. distinct (map (name_of s) (label_hash_table s i))) \<and>
     (\<forall>q. label_heap s q \<noteq> None \<longrightarrow> q < next_obj s)"

text \<open>The map: the label of a name, if there is one.\<close>

definition symtab :: "machine \<Rightarrow> string \<Rightarrow> nat option" where
  "symtab s n = find (\<lambda>q. name_of s q = Some n) (label_hash_table s (hash_slot n))"

lemma find_first: "find P xs = Some x \<Longrightarrow> x \<in> set xs \<and> P x"
  by (auto simp: find_Some_iff)

lemma symtab_sound:
  assumes "symtab s n = Some q"
  shows "q \<in> set (label_hash_table s (hash_slot n))" "name_of s q = Some n"
  using find_first [OF assms [unfolded symtab_def]] by simp_all

lemma distinct_map_inj: "distinct (map f xs) \<Longrightarrow> x \<in> set xs \<Longrightarrow> y \<in> set xs \<Longrightarrow> f x = f y \<Longrightarrow> x = y"
  by (simp add: distinct_map inj_on_def)

lemma symtab_complete:
  assumes "table_ok s" and "q \<in> set (label_hash_table s i)" and "name_of s q = Some n"
  shows "symtab s n = Some q"
proof -
  from assms have i: "hash_slot n = i" unfolding table_ok_def by fastforce
  have "find (\<lambda>q. name_of s q = Some n) (label_hash_table s i) \<noteq> None"
    using assms(2,3) by (auto simp: find_None_iff)
  then obtain r where r: "symtab s n = Some r" using i by (auto simp: symtab_def)
  from symtab_sound [OF r] i assms distinct_map_inj [of "name_of s" "label_hash_table s i" r q]
  have "r = q" unfolding table_ok_def by metis
  with r show ?thesis by simp
qed

lemma hash_slot_bound: "hash_slot n < 8191"
proof -
  have "unat (v mod LABEL_HASH_TABLE_SIZE) < 8191" for v :: "32 word"
    by (simp add: unat_mod)
  then show ?thesis by (simp add: hash_slot_def Let_def)
qed

lemma deref_name: "name_of s q = Some n \<Longrightarrow> \<exists>l. label_heap s q = Some l \<and> label_name l = n"
  by (auto simp: name_of_def)

lemma find_in_chain_find:
  "\<forall>q \<in> set chain. name_of s q \<noteq> None \<Longrightarrow>
   find_in_chain n chain s = Inr (find (\<lambda>q. name_of s q = Some n) chain, s)"
  by (induction chain) (auto simp: deref_label_def name_of_def split: option.splits)

lemma chain_live: "table_ok s \<Longrightarrow> q \<in> set (label_hash_table s i) \<Longrightarrow> name_of s q \<noteq> None"
  unfolding table_ok_def by fastforce

lemma get_hash_eq: "table_ok s \<Longrightarrow> get_hash n s = Inr ((hash_slot n, symtab s n), s)"
  by (simp add: get_hash_def Let_def find_in_chain_find chain_live symtab_def)

lemma lookup_found:
  assumes "table_ok s" and "symtab s n = Some q"
  shows "lookup_label n s = Inr (q, s)"
  using assms by (simp add: lookup_label_def get_hash_eq)

text \<open>The state after a new label was put on its chain.\<close>

definition with_new_label :: "string \<Rightarrow> machine \<Rightarrow> machine" where
  "with_new_label n s = s\<lparr>label_heap := (label_heap s)(next_obj s \<mapsto> new_label n), next_obj := next_obj s + 1,
     label_hash_table := (label_hash_table s)(hash_slot n := next_obj s # label_hash_table s (hash_slot n))\<rparr>"

lemma new_label_fields [simp]:
  "label_heap (with_new_label n s) = (label_heap s)(next_obj s \<mapsto> new_label n)"
  "label_hash_table (with_new_label n s) i =
     (if i = hash_slot n then next_obj s # label_hash_table s i else label_hash_table s i)"
  "next_obj (with_new_label n s) = next_obj s + 1" "local_labels (with_new_label n s) = local_labels s"
  by (simp_all add: with_new_label_def)

lemma lookup_new:
  assumes "table_ok s" and "symtab s n = None"
  shows "lookup_label n s = Inr (next_obj s, with_new_label n s)"
  using assms by (simp add: lookup_label_def get_hash_eq with_new_label_def)

lemma name_of_new: "name_of (with_new_label n s) q = (if q = next_obj s then Some n else name_of s q)"
  by (simp add: name_of_def with_new_label_def new_label_def)

lemma fresh_not_in_chain: "table_ok s \<Longrightarrow> next_obj s \<notin> set (label_hash_table s i)"
proof
  assume "table_ok s" "next_obj s \<in> set (label_hash_table s i)"
  then have "label_heap s (next_obj s) \<noteq> None" using chain_live by (fastforce simp: name_of_def)
  with \<open>table_ok s\<close> show False unfolding table_ok_def by blast
qed

lemma map_name_new: "table_ok s \<Longrightarrow> map (name_of (with_new_label n s)) (label_hash_table s i) = map (name_of s) (label_hash_table s i)"
  using fresh_not_in_chain [of s i] by (auto simp: name_of_new)

lemma symtab_none_iff: "symtab s n = None \<longleftrightarrow> (\<forall>q \<in> set (label_hash_table s (hash_slot n)). name_of s q \<noteq> Some n)"
  by (auto simp: symtab_def find_None_iff)

lemma table_ok_new:
  assumes ok: "table_ok s" and new: "symtab s n = None"
  shows "table_ok (with_new_label n s)"
proof -
  let ?t = "with_new_label n s"
  have "\<exists>m. name_of ?t q = Some m \<and> hash_slot m = i" if "q \<in> set (label_hash_table ?t i)" for i q
    using that ok fresh_not_in_chain [OF ok] unfolding table_ok_def by (auto simp: name_of_new split: if_splits)
  moreover have "distinct (map (name_of ?t) (label_hash_table ?t i))" for i
    using ok new unfolding table_ok_def
    by (auto simp: map_name_new [OF ok] name_of_new symtab_none_iff simp del: distinct_map)
  moreover have "q < next_obj ?t" if "label_heap ?t q \<noteq> None" for q
    using that ok unfolding table_ok_def by (auto simp: less_Suc_eq split: if_splits)
  ultimately show ?thesis unfolding table_ok_def by blast
qed

lemma symtab_new:
  assumes "table_ok s" and "symtab s n = None"
  shows "symtab (with_new_label n s) m = (if m = n then Some (next_obj s) else symtab s m)"
proof -
  have "find (\<lambda>q. name_of (with_new_label n s) q = Some m) (label_hash_table s i) = find (\<lambda>q. name_of s q = Some m) (label_hash_table s i)" for i
    using fresh_not_in_chain [OF assms(1), of i] by (intro find_cong) (auto simp: name_of_new)
  then show ?thesis by (simp add: symtab_def name_of_new)
qed

text \<open>
  C7: looking a name up is a get-or-create on the abstract map. The label returned is the map's
  entry for the name afterwards; an existing entry is returned without any change; a new one is a
  zeroed label and no other name changes its entry. The table keeps its invariant.
\<close>

theorem lookup_label_refines:
  assumes "table_ok s"
  shows "\<exists>q t. lookup_label n s = Inr (q, t) \<and> table_ok t \<and> symtab t = (symtab s)(n \<mapsto> q) \<and>
    (case symtab s n of
       Some r \<Rightarrow> t = s
     | None \<Rightarrow> label_heap t = (label_heap s)(q \<mapsto> new_label n) \<and> label_heap s q = None)"
proof (cases "symtab s n")
  case None
  have "label_heap s (next_obj s) = None" using assms unfolding table_ok_def by blast
  then show ?thesis using lookup_new [OF assms None] table_ok_new [OF assms None] symtab_new [OF assms None] None
    by (auto simp: fun_eq_iff)
next
  case (Some q)
  with lookup_found [OF assms] assms show ?thesis by (auto simp: fun_eq_iff)
qed

theorem lookup_label_refines_witness:
  "\<exists>q t. lookup_label ''main'' zero_machine = Inr (q, t) \<and> symtab t ''main'' = Some q"
proof -
  have "table_ok zero_machine" by (simp add: table_ok_def zero_machine_def)
  from lookup_label_refines [OF this, of "''main''"] show ?thesis by auto
qed

subsection \<open>Updates of a label\<close>

text \<open>An update that keeps the name keeps the table.\<close>

lemma name_of_upd: "(\<And>l. label_name (f l) = label_name l) \<Longrightarrow> name_of (upd_label q f s) r = name_of s r"
  by (cases "label_heap s q") (auto simp: name_of_def upd_label_def)

lemma upd_label_frame [simp]:
  "label_hash_table (upd_label q f s) = label_hash_table s" "local_labels (upd_label q f s) = local_labels s"
  "next_obj (upd_label q f s) = next_obj s"
  by (simp_all add: upd_label_def)

lemma table_ok_same:
  assumes "name_of t = name_of s" "label_hash_table t = label_hash_table s" "next_obj t = next_obj s"
  shows "table_ok t = table_ok s" "symtab t = symtab s"
proof -
  have "label_heap t q = None \<longleftrightarrow> label_heap s q = None" for q
    using fun_cong [OF assms(1), of q] by (auto simp: name_of_def)
  then show "table_ok t = table_ok s" using assms by (simp add: table_ok_def)
  show "symtab t = symtab s" using assms by (simp add: symtab_def fun_eq_iff)
qed

lemma table_ok_upd:
  assumes "\<And>l. label_name (f l) = label_name l"
  shows "table_ok (upd_label q f s) = table_ok s" "symtab (upd_label q f s) = symtab s"
  using table_ok_same [of "upd_label q f s" s] name_of_upd [OF assms] by (auto simp: fun_eq_iff)

lemma upd_label_at: "label_heap s q = Some l \<Longrightarrow> label_heap (upd_label q f s) = (label_heap s)(q \<mapsto> f l)"
  by (simp add: upd_label_def)

subsection \<open>The end of a file\<close>

text \<open>The local labels: the list that \<^verbatim>\<open>next_local\<close> links from a pointer to null.\<close>

fun local_list :: "machine \<Rightarrow> ptr \<Rightarrow> nat list \<Rightarrow> bool" where
  "local_list s p [] \<longleftrightarrow> p = None"
| "local_list s p (q # qs) \<longleftrightarrow> p = Some q \<and> (\<exists>l. label_heap s q = Some l \<and> local_list s (next_local l) qs)"

lemma find_remove1_other: "\<not> P x \<Longrightarrow> find P (remove1 x xs) = find P xs"
  by (induction xs) auto

lemma unlink_step:
  assumes ok: "table_ok s"
  obtains t where "unlink_label w l s = Inr ((), t)" "table_ok t" "label_heap t = label_heap s"
    "symtab t = (symtab s)(label_name l := None)"
proof (cases "symtab s (label_name l)")
  case None
  then have "symtab s = (symtab s)(label_name l := None)" by (simp add: fun_upd_idem)
  with None ok that [of s] show ?thesis by (simp add: unlink_label_def get_hash_eq)
next
  case (Some e)
  note e = symtab_sound [OF Some]
  let ?i = "hash_slot (label_name l)"
  define u where "u = s\<lparr>label_hash_table := (label_hash_table s)(?i := remove1 e (label_hash_table s ?i))\<rparr>"
  have names: "name_of u = name_of s" by (simp add: name_of_def u_def fun_eq_iff)
  have d: "distinct (map (name_of s) (label_hash_table s i))" for i using ok unfolding table_ok_def by blast
  have "distinct (map (name_of s) (remove1 e (label_hash_table s i)))" for i
    using d [of i] by (auto simp: distinct_map dest: inj_on_subset [OF _ set_remove1_subset])
  then have "distinct (map (name_of u) (label_hash_table u i))" for i
    using d [of i] by (simp add: names del: distinct_map) (simp add: u_def del: distinct_map)
  moreover have "\<exists>n. name_of u q = Some n \<and> hash_slot n = i" if "q \<in> set (label_hash_table u i)" for i q
  proof -
    have "q \<in> set (label_hash_table s i)" using that by (auto simp: u_def split: if_splits dest: subsetD [OF set_remove1_subset])
    with ok show ?thesis unfolding table_ok_def names by blast
  qed
  moreover have "q < next_obj u" if "label_heap u q \<noteq> None" for q
    using that ok unfolding table_ok_def by (auto simp: u_def)
  ultimately have ok': "table_ok u" unfolding table_ok_def by blast
  have "symtab u m = (if m = label_name l then None else symtab s m)" for m
  proof (cases "m = label_name l")
    case True
    have "name_of s q \<noteq> Some m" if "q \<in> set (remove1 e (label_hash_table s ?i))" for q
      using that e(2) d [of ?i] distinct_map_inj [OF d [of ?i], of q e] True e(1)
      by (metis distinct_map notin_set_remove1 set_remove1_eq DiffD2 singletonI)
    with True show ?thesis by (auto simp: symtab_none_iff names) (auto simp: u_def)
  next
    case False
    with e(2) have "\<not> (name_of s e = Some m)" by simp
    from find_remove1_other [of "\<lambda>q. name_of s q = Some m", OF this] False
    show ?thesis by (simp add: symtab_def names) (simp add: u_def)
  qed
  then have sy: "symtab u = (symtab s)(label_name l := None)" by (simp add: fun_eq_iff)
  obtain le where le: "label_heap u e = Some le" using deref_name [OF e(2)] by (auto simp: u_def)
  let ?t = "if w \<and> label_addr le = 0 \<and> \<not> const_flag le
    then error_text ''Warning: local symbol %s was not defined'' (label_name le) u else u"
  have "unlink_label w l s = Inr ((), ?t)"
    using Some le by (simp add: unlink_label_def get_hash_eq [OF ok] deref_label_def u_def)
  moreover have "name_of ?t = name_of u" "label_hash_table ?t = label_hash_table u" "next_obj ?t = next_obj u"
    "label_heap ?t = label_heap u"
    by (simp_all add: error_text_def name_of_def fun_eq_iff)
  moreover from this(1-3) have "table_ok ?t" "symtab ?t = symtab u" using table_ok_same [of ?t u] ok' by auto
  ultimately show ?thesis using that [of ?t] sy by (simp add: u_def)
qed

lemma local_list_heap: "label_heap t = label_heap s \<Longrightarrow> local_list t p qs = local_list s p qs"
  by (induction qs arbitrary: p) auto

lemma flush_step:
  assumes "table_ok s" and "local_list s p qs" and "length qs \<le> fuel"
  shows "\<exists>t. flush_from fuel w p s = Inr ((), t) \<and> table_ok t \<and> label_heap t = label_heap s \<and>
    symtab t = (\<lambda>n. if Some n \<in> name_of s ` set qs then None else symtab s n)"
  using assms
proof (induction qs arbitrary: p fuel s)
  case Nil
  then show ?case by auto
next
  case (Cons q qs)
  then obtain l f where l: "p = Some q" "label_heap s q = Some l" "local_list s (next_local l) qs" "fuel = Suc f"
    by (cases fuel) auto
  obtain u where u: "unlink_label w l s = Inr ((), u)" "table_ok u" "label_heap u = label_heap s"
    "symtab u = (symtab s)(label_name l := None)"
    by (rule unlink_step [OF Cons.prems(1)])
  have "local_list u (next_local l) qs" using l(3) local_list_heap [OF u(3)] by simp
  from Cons.IH [OF u(2) this, of f] Cons.prems(3) l(4) obtain t where
    t: "flush_from f w (next_local l) u = Inr ((), t)" "table_ok t" "label_heap t = label_heap u"
      "symtab t = (\<lambda>n. if Some n \<in> name_of u ` set qs then None else symtab u n)" by auto
  have "name_of u = name_of s" using u(3) by (simp add: name_of_def fun_eq_iff)
  then have "symtab t = (\<lambda>n. if Some n \<in> name_of s ` set (q # qs) then None else symtab s n)"
    using t(4) u(4) l(2) by (auto simp: fun_eq_iff name_of_def [of s q])
  moreover have "flush_from fuel w p s = Inr ((), t)" using l u(1) t(1) by (simp add: deref_label_def)
  ultimately show ?case using t(2,3) u(3) by auto
qed

text \<open>
  C25: the end of a file. When the links of the local labels end, flushing them returns, with fuel
  for as many labels as there are; it removes exactly their names from the table, keeps every
  other name and every label record, and empties the list.
\<close>

theorem flush_removes_locals:
  assumes "table_ok s" and "local_list s (local_labels s) qs" and "length qs \<le> fuel"
  shows "\<exists>t. flush_local_labels fuel w s = Inr ((), t) \<and> table_ok t \<and> local_labels t = None \<and>
    label_heap t = label_heap s \<and>
    (\<forall>n. symtab t n = (if Some n \<in> name_of s ` set qs then None else symtab s n))"
proof -
  from flush_step [OF assms] obtain t where t: "flush_from fuel w (local_labels s) s = Inr ((), t)" "table_ok t"
    "label_heap t = label_heap s" "symtab t = (\<lambda>n. if Some n \<in> name_of s ` set qs then None else symtab s n)"
    by blast
  let ?t = "t\<lparr>local_labels := None\<rparr>"
  have "table_ok ?t" "symtab ?t = symtab t"
    using table_ok_same [of ?t t] t(2) by (simp_all add: name_of_def fun_eq_iff)
  with t show ?thesis by (simp add: flush_local_labels_def seq_def)
qed

subsection \<open>Definitions\<close>

text \<open>A label of the table that has a use list to resolve keeps nothing of it.\<close>

lemma push_local_list:
  assumes "local_list s (local_labels s) qs" and "q \<notin> set qs" and "label_heap s q = Some l"
  shows "local_list (push_local q s) (local_labels (push_local q s)) (q # qs)"
proof -
  have other: "local_list (push_local q s) p qs = local_list s p qs" if "q \<notin> set qs" for p qs
    using that by (induction qs arbitrary: p) (auto simp: push_local_def upd_label_def)
  show ?thesis using assms other by (simp add: push_local_def upd_label_def)
qed

lemma push_local_at: "label_heap s q = Some l \<Longrightarrow> label_heap (push_local q s) = (label_heap s)(q \<mapsto> l\<lparr>next_local := local_labels s\<rparr>)"
  by (simp add: push_local_def upd_label_def)

lemma push_local_frame [simp]:
  "label_hash_table (push_local q s) = label_hash_table s" "local_labels (push_local q s) = Some q"
  "next_obj (push_local q s) = next_obj s"
  by (simp_all add: push_local_def)

lemma table_ok_push: "table_ok (push_local q s) = table_ok s" "symtab (push_local q s) = symtab s"
proof -
  have "name_of (push_local q s) r = name_of s r" for r
    by (cases "label_heap s q") (simp_all add: name_of_def push_local_def upd_label_def)
  then have "name_of (push_local q s) = name_of s" by (simp add: fun_eq_iff)
  then show "table_ok (push_local q s) = table_ok s" "symtab (push_local q s) = symtab s"
    using table_ok_same [of "push_local q s" s] by simp_all
qed

text \<open>
  Recording an address for a label that has none, is not in small data and has no uses: the
  address is set, and a local label goes to the front of the list.
\<close>

lemma record_label_defines:
  assumes ok: "table_ok s" and q: "symtab s n = Some q" and l: "label_heap s q = Some l"
    and "label_addr l = 0" "\<not> gp_flag l" "b \<Longrightarrow> label_uses l = []"
  shows "record_label H n a b s = Inr (q, (if global_flag l then id else push_local q) (upd_label q (\<lambda>l. l\<lparr>label_addr := ucast a\<rparr>) s))"
proof -
  let ?u = "upd_label q (\<lambda>l. l\<lparr>label_addr := ucast a\<rparr>) s"
  have heap: "label_heap ?u q = Some (l\<lparr>label_addr := ucast a\<rparr>)" using l by (simp add: upd_label_def)
  have res: "resolve_label_uses H q ?u = Inr ((), ?u)" if "label_uses l = []"
  proof -
    have "l\<lparr>label_addr := ucast a, label_uses := []\<rparr> = l\<lparr>label_addr := ucast a\<rparr>" using that by (cases l) simp
    then have "map_option (\<lambda>l. l\<lparr>label_uses := []\<rparr>) (label_heap ?u q) = label_heap ?u q" unfolding heap by simp
    then have "upd_label q (\<lambda>l. l\<lparr>label_uses := []\<rparr>) ?u = ?u" by (subst upd_label_def) (simp only: fun_upd_triv, simp)
    then show ?thesis using that by (simp add: resolve_label_uses_def deref_label_def heap)
  qed
  then show ?thesis using assms lookup_found [OF ok q]
    by (cases b) (simp_all add: record_label_def deref_label_def)
qed

lemma record_label_known:
  assumes "table_ok s" "symtab s n = Some q" "label_heap s q = Some l"
    and "label_addr l = 0" "\<not> gp_flag l" "\<not> global_flag l" "label_uses l = []"
  shows "record_label H n a b s = Inr (q, push_local q (upd_label q (\<lambda>l. l\<lparr>label_addr := ucast a\<rparr>) s))"
  using record_label_defines [OF assms(1-5) assms(7), of H a b] assms(6) by simp

text \<open>The state in which \<open>record_label\<close> finds the label of a name: the name's own, or that of a new label.\<close>

lemma label_for_name:
  assumes "table_ok s"
  obtains t q l where "lookup_label n s = Inr (q, t)" "table_ok t" "symtab t n = Some q" "label_heap t q = Some l"
    "symtab s n = Some q \<and> t = s \<or> symtab s n = None \<and> l = new_label n"
proof (cases "symtab s n")
  case None
  show thesis
    by (rule that [OF lookup_new [OF assms None] table_ok_new [OF assms None]])
      (simp_all add: symtab_new [OF assms None] None)
next
  case (Some q)
  then obtain l where "label_heap s q = Some l" using symtab_sound [OF Some] by (auto simp: name_of_def)
  with Some show thesis by (intro that [OF lookup_found [OF assms Some] assms Some]) simp_all
qed

text \<open>
  C24: the first definition of a symbol counts. A definition, with a nonzero address, of a name that is new to the table or whose label
  has no address yet (and is not in the small data segment) gives the symbol its address; this holds for a definition that resolves
  the pending uses at once where there are none, and for every definition that leaves them for later. After that, any second
  definition of the name is a parse error and changes no label. (Address 0 counts as undefined, see \<open>zero_constant_twice_hangs\<close>.)
\<close>

theorem first_definition_counts:
  assumes ok: "table_ok s" and a: "a \<noteq> 0"
    and undefined: "\<And>q l. symtab s n = Some q \<Longrightarrow> label_heap s q = Some l \<Longrightarrow>
      label_addr l = 0 \<and> \<not> gp_flag l \<and> (b \<longrightarrow> label_uses l = [])"
  shows "\<exists>q t u. record_label H n a b s = Inr (q, t) \<and> symtab t n = Some q \<and>
    map_option label_addr (label_heap t q) = Some (ucast a) \<and>
    record_label H n a' b' t = Inr (q, u) \<and> label_heap u = label_heap t \<and> symtab u = symtab t \<and>
    parse_error_occurred u \<and> parse_errors_seen u = parse_errors_seen t + 1"
proof -
  obtain v q l where v: "lookup_label n s = Inr (q, v)" "table_ok v" "symtab v n = Some q" "label_heap v q = Some l"
    "symtab s n = Some q \<and> v = s \<or> symtab s n = None \<and> l = new_label n" using ok by (rule label_for_name)
  let ?f = "\<lambda>l. l\<lparr>label_addr := ucast a :: 64 word\<rparr>"
  let ?t = "(if global_flag l then id else push_local q) (upd_label q ?f v)"
  have l: "label_addr l = 0" "\<not> gp_flag l" "b \<Longrightarrow> label_uses l = []"
    using v(4,5) undefined [of q l] by (auto simp: new_label_def)
  have "lookup_label n v = Inr (q, v)" using lookup_found [OF v(2,3)] .
  then have r: "record_label H n a b s = record_label H n a b v" using v(1) by (simp add: record_label_def)
  have t: "record_label H n a b s = Inr (q, ?t)"
    unfolding r by (rule record_label_defines [OF v(2-4) l])
  have nz: "(ucast a :: 64 word) \<noteq> 0" using a by simp
  have heap: "\<exists>m. label_heap ?t q = Some m \<and> label_addr m = ucast a \<and> \<not> gp_flag m"
    using v(4) l(2) by (simp add: push_local_def upd_label_def)
  have okt: "table_ok ?t" "symtab ?t = symtab v" using v(2) by (simp_all add: table_ok_push table_ok_upd)
  have "lookup_label n ?t = Inr (q, ?t)" using lookup_found [OF okt(1)] okt(2) v(3) by simp
  then have u: "record_label H n a' b' ?t = Inr (q, parse_error ''Label is defined for the second time'' ?t)"
    using heap nz by (auto simp: record_label_def deref_label_def)
  have "symtab (parse_error m w) = symtab w" for m w
    by (simp add: symtab_def name_of_def parse_error_def parse_warn_def error_text_def fun_eq_iff)
  moreover have "label_heap (parse_error m w) = label_heap w" "parse_error_occurred (parse_error m w)"
    "parse_errors_seen (parse_error m w) = parse_errors_seen w + 1" for m w
    by (simp_all add: parse_error_def parse_warn_def error_text_def)
  ultimately show ?thesis using t u heap okt(2) v(3) by auto
qed

lemma table_ok_zero: "table_ok zero_machine"
  by (simp add: table_ok_def zero_machine_def)

lemma symtab_zero: "symtab zero_machine n = None"
  by (simp add: symtab_def zero_machine_def)

theorem first_definition_counts_witness:
  "\<exists>q t u. record_label idle_host ''x'' 0x400000 False zero_machine = Inr (q, t) \<and> symtab t ''x'' = Some q \<and>
    map_option label_addr (label_heap t q) = Some (ucast (0x400000 :: 32 word)) \<and>
    record_label idle_host ''x'' 0x400004 False t = Inr (q, u) \<and> label_heap u = label_heap t \<and> symtab u = symtab t \<and>
    parse_error_occurred u \<and> parse_errors_seen u = parse_errors_seen t + 1"
  by (rule first_definition_counts [OF table_ok_zero]) (simp_all add: symtab_zero)

text \<open>A file that defines one label, and its end.\<close>

definition one_label :: machine where
  "one_label = push_local 0 (upd_label 0 (\<lambda>l. l\<lparr>label_addr := 0x400000\<rparr>) (with_new_label ''x'' zero_machine))"

lemma one_label_ok: "table_ok one_label"
  using table_ok_new [OF table_ok_zero symtab_zero]
  by (simp add: one_label_def table_ok_push table_ok_upd)

lemma one_label_list: "local_list one_label (local_labels one_label) [0]"
  unfolding one_label_def
  by (rule push_local_list [where l = "(new_label ''x'')\<lparr>label_addr := 0x400000\<rparr>"])
    (simp_all add: zero_machine_def upd_label_def)

theorem flush_removes_locals_witness:
  "\<exists>t. flush_local_labels 1 True one_label = Inr ((), t) \<and> local_labels t = None \<and> symtab t ''x'' = None"
proof -
  have "name_of one_label 0 = Some ''x''"
    by (simp add: name_of_def one_label_def push_local_def upd_label_def zero_machine_def new_label_def)
  then show ?thesis using flush_removes_locals [OF one_label_ok one_label_list, of 1 True] by auto
qed

subsection \<open>Constants equal to zero\<close>

text \<open>A cycle of links is never left.\<close>

lemma flush_cycle:
  assumes "table_ok s" and "label_heap s q = Some l" and "next_local l = Some q"
  shows "\<exists>v. flush_from fuel w (Some q) s = Inl (Out_Of_Fuel, v)"
  using assms
proof (induction fuel arbitrary: s)
  case (Suc fuel)
  obtain u where u: "unlink_label w l s = Inr ((), u)" "table_ok u" "label_heap u = label_heap s"
    "symtab u = (symtab s)(label_name l := None)"
    by (rule unlink_step [OF Suc.prems(1)])
  from Suc.IH [OF u(2)] u(3) Suc.prems obtain v where "flush_from fuel w (Some q) u = Inl (Out_Of_Fuel, v)" by auto
  with Suc.prems u(1) show ?case by (simp add: deref_label_def)
qed auto

text \<open>Defining a constant as zero leaves its label without an address, on the list.\<close>

lemma emit_zero_known:
  assumes ok: "table_ok s" and q: "symtab s n = Some q" and l: "label_heap s q = Some l"
    and "label_addr l = 0" "\<not> gp_flag l" "\<not> global_flag l" "label_uses l = []"
  obtains t where "emit_label H AST_LABEL_CONST n 0 s = Inr ((), t)" "table_ok t" "symtab t = symtab s"
    "local_labels t = Some q" "label_heap t q = Some (l\<lparr>next_local := local_labels s, const_flag := True\<rparr>)"
proof -
  let ?u = "upd_label q (\<lambda>l. l\<lparr>label_addr := ucast (0 :: 32 word)\<rparr>) s"
  let ?t = "upd_label q (\<lambda>l. l\<lparr>const_flag := True\<rparr>) (push_local q ?u)"
  have "l\<lparr>label_addr := 0, next_local := local_labels s\<rparr> = l\<lparr>next_local := local_labels s\<rparr>"
    using assms(4) by (cases l) simp
  then have "label_heap ?t q = Some (l\<lparr>next_local := local_labels s, const_flag := True\<rparr>)"
    using l by (simp add: upd_label_def push_local_def)
  moreover have "emit_label H AST_LABEL_CONST n 0 s = Inr ((), ?t)"
    using record_label_known [OF assms, of H 0 True] by (simp add: emit_label_def)
  moreover have "table_ok ?t" "symtab ?t = symtab s" using ok by (simp_all add: table_ok_push table_ok_upd)
  ultimately show ?thesis using that [of ?t] by simp
qed

text \<open>
  C28: a file that sets the same name to 0 twice (\<^verbatim>\<open>x = 0\<close>, \<^verbatim>\<open>x = 0\<close>) is never finished. A label with
  address 0 counts as undefined, so the second definition is not rejected: it puts the label on the
  list of local labels again, the list becomes a cycle, and flushing it at the end of the file
  does not return.
\<close>

theorem zero_constant_twice_hangs:
  assumes "table_ok s" and "symtab s n = None"
  shows "\<exists>t u. emit_label H AST_LABEL_CONST n 0 s = Inr ((), t) \<and> emit_label H AST_LABEL_CONST n 0 t = Inr ((), u) \<and>
    (\<forall>fuel w. \<exists>v. flush_local_labels fuel w u = Inl (Out_Of_Fuel, v))"
proof -
  let ?s = "with_new_label n s" and ?q = "next_obj s"
  note ok = table_ok_new [OF assms] and sy = symtab_new [OF assms, of n]
  have e: "emit_label H AST_LABEL_CONST n 0 s = emit_label H AST_LABEL_CONST n 0 ?s"
    using lookup_new [OF assms] lookup_found [OF ok, of n] sy by (simp add: emit_label_def record_label_def bnd_assoc)
  obtain t where t: "emit_label H AST_LABEL_CONST n 0 ?s = Inr ((), t)" "table_ok t" "symtab t = symtab ?s"
    "local_labels t = Some ?q" "label_heap t ?q = Some ((new_label n)\<lparr>next_local := local_labels ?s, const_flag := True\<rparr>)"
    by (rule emit_zero_known [OF ok, of n ?q "new_label n" H]) (simp_all add: sy new_label_def)
  obtain u where u: "emit_label H AST_LABEL_CONST n 0 t = Inr ((), u)" "table_ok u" "symtab u = symtab t"
    "local_labels u = Some ?q"
    "label_heap u ?q = Some (((new_label n)\<lparr>next_local := local_labels ?s, const_flag := True\<rparr>)\<lparr>next_local := local_labels t, const_flag := True\<rparr>)"
    by (rule emit_zero_known [OF t(2) _ t(5), of n H]) (simp_all add: sy t(3) new_label_def)
  have "\<exists>v. flush_local_labels fuel w u = Inl (Out_Of_Fuel, v)" for fuel w
  proof -
    from flush_cycle [OF u(2,5), of fuel w] t(4) obtain v where "flush_from fuel w (Some ?q) u = Inl (Out_Of_Fuel, v)" by auto
    with u(4) show ?thesis by (simp add: flush_local_labels_def)
  qed
  with e t(1) u(1) show ?thesis by auto
qed

theorem zero_constant_twice_hangs_witness:
  "\<exists>t u. emit_label idle_host AST_LABEL_CONST ''x'' 0 zero_machine = Inr ((), t) \<and>
    emit_label idle_host AST_LABEL_CONST ''x'' 0 t = Inr ((), u) \<and>
    (\<forall>fuel w. \<exists>v. flush_local_labels fuel w u = Inl (Out_Of_Fuel, v))"
  by (rule zero_constant_twice_hangs [OF table_ok_zero symtab_zero])

end
