(* ===== verification/DataProps.thy ===== *)
theory DataProps
  imports SymbolProps
begin

text \<open>
  Data directives: alignment of the location counter, the stores as updates of the abstract byte
  memory at any alignment, strings, and the resolution of references from data.
\<close>

subsection \<open>Alignment\<close>

lemma align_mask: "unat (x AND push_bit n (- 1 :: 32 word)) = unat x div 2 ^ n * 2 ^ n"
proof -
  have "x AND push_bit n (- 1) = push_bit n (drop_bit n x)"
    by (rule bit_word_eqI) (auto simp: bit_simps)
  moreover have "unat x div 2 ^ n * 2 ^ n < 2 ^ 32"
    by (rule le_less_trans [OF div_times_less_eq_dividend]) (use unsigned_less [of x] in simp)
  moreover have "unat (push_bit n (drop_bit n x)) = unat x div 2 ^ n * 2 ^ n mod 2 ^ 32"
    by (subst unsigned_push_bit_eq, subst unsigned_drop_bit_eq)
      (simp add: push_bit_eq_mult drop_bit_eq_div take_bit_eq_mod unat32_less)
  ultimately show ?thesis by simp
qed

text \<open>
  C26: alignment. The location counter is moved to the first multiple of \<open>2 ^ n\<close> at or above it.
\<close>

theorem align_is_least:
  assumes "n < 32" and "unat pc + 2 ^ n \<le> 2 ^ 32"
  shows "\<exists>p. align_pc pc (of_nat n) = Some p \<and> 2 ^ n dvd unat p \<and> unat pc \<le> unat p \<and> unat p < unat pc + 2 ^ n"
proof -
  let ?x = "pc + push_bit n 1 - 1" and ?p = "(pc + push_bit n 1 - 1) AND push_bit n (- 1 :: 32 word)"
  have "unat ?x = unat pc + 2 ^ n - 1"
  proof -
    have "0 < (2 :: nat) ^ n" by simp
    then have "unat (of_nat (2 ^ n - 1) :: 32 word) = 2 ^ n - 1" using assms by (simp only: unsigned_of_nat take_bit_eq_mod) simp
    then have "unat (pc + of_nat (2 ^ n - 1)) = unat pc + (2 ^ n - 1)"
      using assms \<open>0 < 2 ^ n\<close> by (subst unat_plus_if') (auto)
    then show ?thesis using \<open>0 < 2 ^ n\<close> by (simp add: of_nat_diff push_bit_eq_mult add_diff_eq)
  qed
  then have p: "unat ?p = (unat pc + 2 ^ n - 1) div 2 ^ n * 2 ^ n" by (subst align_mask) simp
  have u: "unat (of_nat n :: 32 word) = n" using assms(1) by (simp add: unsigned_of_nat take_bit_eq_mod)
  then have "of_nat n < (32 :: 32 word)" using assms(1) by (simp add: word_less_nat_alt)
  have f: "(0xffffffff :: 32 word) = - 1" by simp
  from u \<open>of_nat n < (32 :: 32 word)\<close> have "align_pc pc (of_nat n) = Some ?p" using u by (simp only: align_pc_def if_True f)
  moreover have "unat pc \<le> unat ?p \<and> unat ?p < unat pc + 2 ^ n"
  proof -
    have "(0 :: nat) < 2 ^ n" by simp
    then show ?thesis unfolding p
      using div_mult_mod_eq [of "unat pc + 2 ^ n - 1" "2 ^ n"] mod_less_divisor [of "2 ^ n" "unat pc + 2 ^ n - 1"]
      by linarith
  qed
  ultimately show ?thesis using p by auto
qed

theorem align_is_least_witness: "\<exists>p. align_pc 0x10000005 2 = Some p \<and> 4 dvd unat p"
  using align_is_least [of 2 "0x10000005"] by auto

subsection \<open>Stores with room\<close>

text \<open>
  The data location is in the user segment with room for \<open>n\<close> bytes; a store of \<open>n\<close> bytes moves it
  and changes nothing else but the contents of memory.
\<close>

definition data_room :: "nat \<Rightarrow> machine \<Rightarrow> bool" where
  "data_room n s \<longleftrightarrow> mem_ok s \<and> \<not> data_in_kernel s \<and> DATA_BOT \<le> next_data_pc s \<and>
     unat (next_data_pc s) + n < unat (data_top s)"

definition stored :: "nat \<Rightarrow> machine \<Rightarrow> machine \<Rightarrow> bool" where
  "stored n s t \<longleftrightarrow> (\<exists>u. same_but_data s u \<and> t = u\<lparr>next_data_pc := next_data_pc s + of_nat n\<rparr>)"

lemma data_room_ref: "data_room n s \<Longrightarrow> data_ref s (next_data_pc s)"
  by (auto simp: data_room_def data_ref_def in_data_def word_less_nat_alt)

lemma data_room_add: "data_room n s \<Longrightarrow> k \<le> n \<Longrightarrow> unat (next_data_pc s + of_nat k) = unat (next_data_pc s) + k"
  using unat32_less [of "data_top s"]
  by (subst unat_plus_if') (auto simp: data_room_def unsigned_of_nat take_bit_eq_mod)

lemma same_but_data_iff:
  "same_but_data s t \<longleftrightarrow>
     (\<exists>d a k. t = s\<lparr>data_modified := True, data_seg_b := d, stack_seg_b := a, k_data_seg_b := k\<rparr>)"
proof
  assume "same_but_data s t"
  then show "\<exists>d a k. t = s\<lparr>data_modified := True, data_seg_b := d, stack_seg_b := a, k_data_seg_b := k\<rparr>"
    unfolding same_but_data_def by (intro exI) assumption
qed (auto simp: same_but_data_def)

lemma stored_iff:
  "stored n s t \<longleftrightarrow> (\<exists>d a k. t = s\<lparr>data_modified := True, data_seg_b := d, stack_seg_b := a,
     k_data_seg_b := k, next_data_pc := next_data_pc s + of_nat n\<rparr>)"
  by (auto simp: stored_def same_but_data_iff)

lemma stored_room:
  assumes "data_room n s" and "stored k s t" and "k \<le> n"
  shows "data_room (n - k) t" and "next_data_pc t = next_data_pc s + of_nat k"
  using assms data_room_add [OF assms(1,3)]
  by (auto simp: data_room_def stored_iff mem_ok_def word_le_nat_alt)

lemma mem_byte_pc: "mem_byte (s\<lparr>next_data_pc := x\<rparr>) = mem_byte s"
  by (simp add: mem_byte_def in_data_def in_stack_def in_k_data_def fun_eq_iff)

text \<open>A write followed by the advance of the location counter.\<close>

lemma advance:
  assumes "data_room n s" and "same_but_data s t"
  shows "increment_data_pc H (of_nat n) t = Inr ((), t\<lparr>next_data_pc := next_data_pc s + of_nat n\<rparr>)"
    and "stored n s (t\<lparr>next_data_pc := next_data_pc s + of_nat n\<rparr>)"
proof -
  from assms(2) obtain d a k where
    t: "t = s\<lparr>data_modified := True, data_seg_b := d, stack_seg_b := a, k_data_seg_b := k\<rparr>"
    by (auto simp: same_but_data_iff)
  have "\<not> data_top s \<le> next_data_pc s + of_nat n"
    using assms(1) data_room_add [OF assms(1) order_refl] by (auto simp: data_room_def word_le_nat_alt)
  then show "increment_data_pc H (of_nat n) t = Inr ((), t\<lparr>next_data_pc := next_data_pc s + of_nat n\<rparr>)"
    using assms(1) unfolding t by (simp add: increment_data_pc_def data_room_def)
  show "stored n s (t\<lparr>next_data_pc := next_data_pc s + of_nat n\<rparr>)"
    using assms(2) by (auto simp: stored_def)
qed

lemma room_ref:
  assumes "data_room n s" and "0 < n"
  shows "mem_ok s" "data_ref s (next_data_pc s)" "current_data_pc s = next_data_pc s"
  using assms by (simp_all add: data_room_ref) (simp_all add: data_room_def current_data_pc_def)

lemma room_less: "data_room n s \<Longrightarrow> k \<le> n \<Longrightarrow> data_room k s"
  by (simp add: data_room_def)

lemma writes_in:
  assumes "mem_ok s" and "data_ref s a"
  shows "(\<exists>t. mem_write_byte H a v s = Inr ((), t) \<and> mem_byte t = abs_write_byte a v (mem_byte s) \<and> same_but_data s t) \<and>
    (a AND 1 = 0 \<longrightarrow> (\<exists>t. mem_write_half H a v s = Inr ((), t) \<and>
       mem_byte t = abs_write_half a v (mem_byte s) \<and> same_but_data s t)) \<and>
    (a AND 3 = 0 \<longrightarrow> (\<exists>t. mem_write_word H a v s = Inr ((), t) \<and>
       mem_byte t = abs_write_word a v (mem_byte s) \<and> same_but_data s t))"
  using mem_write_byte_in [OF assms, of H v] mem_write_half_in [OF assms, of H v]
    mem_write_word_in [OF assms, of H v] by blast

lemma store_byte_room:
  assumes "data_room n s" and "0 < n"
  shows "\<exists>t. store_byte H v s = Inr ((), t) \<and> mem_byte t = abs_write_byte (next_data_pc s) v (mem_byte s) \<and> stored 1 s t"
proof -
  from writes_in [OF room_ref(1,2) [OF assms], of H v]
  obtain t where t: "mem_write_byte H (next_data_pc s) v s = Inr ((), t)"
    "mem_byte t = abs_write_byte (next_data_pc s) v (mem_byte s)" "same_but_data s t" by auto
  have r: "data_room 1 s" using assms by (auto intro: room_less)
  show ?thesis
    using t advance(1) [OF r t(3), of H] advance(2) [OF r t(3)] room_ref(3) [OF assms]
    by (intro exI [where x = "t\<lparr>next_data_pc := next_data_pc s + of_nat 1\<rparr>"]) (simp add: store_byte_def mem_byte_pc)
qed

lemma byte_of_parts:
  "byte_of 0 (v AND 0xff) = byte_of 0 v" "byte_of 0 (signed_drop_bit 8 v) = byte_of (Suc 0) v"
  "byte_of 0 (v AND 0xffff) = byte_of 0 v" "byte_of (Suc 0) (v AND 0xffff) = byte_of (Suc 0) v"
  "byte_of 0 (signed_drop_bit 16 v) = byte_of 2 v" "byte_of (Suc 0) (signed_drop_bit 16 v) = byte_of 3 v"
  by (auto simp: word_eq_bits bit_simps byte_of_def)

subsection \<open>Bytes in order\<close>

definition abs_write_bytes :: "mem_addr \<Rightarrow> byte list \<Rightarrow> (mem_addr \<Rightarrow> byte option) \<Rightarrow> mem_addr \<Rightarrow> byte option" where
  "abs_write_bytes a bs m = (\<lambda>x. if unat (x - a) < length bs then Some (bs ! unat (x - a)) else m x)"

lemma unat_sub_Suc:
  fixes x a :: "32 word"
  assumes "x \<noteq> a"
  shows "unat (x - a) = Suc (unat (x - (a + 1)))"
proof -
  have "x - a \<noteq> 0" using assms by simp
  then have "unat (x - a) = Suc (unat (x - a - 1))" by (metis Suc_pred' unat_gt_0 unat_minus_one)
  then show ?thesis by (simp add: diff_diff_eq)
qed

lemma byte_of_scast [simp]: "byte_of 0 (scast (b :: byte)) = b"
  by (auto simp: byte_of_def word_eq_bits bit_simps)

lemma abs_write_bytes_Cons:
  assumes "length bs < 2 ^ 32 - 1"
  shows "abs_write_bytes (a + 1) bs (abs_write_byte a (scast b) m) = abs_write_bytes a (b # bs) m"
proof
  fix x
  show "abs_write_bytes (a + 1) bs (abs_write_byte a (scast b) m) x = abs_write_bytes a (b # bs) m x"
  proof (cases "x = a")
    case True
    then have "unat (x - (a + 1)) = 2 ^ 32 - 1" by (simp add: unsigned_minus_1_eq_mask mask_eq_exp_minus_1)
    with True assms show ?thesis by (simp add: abs_write_bytes_def abs_write_byte_def)
  qed (auto simp: abs_write_bytes_def abs_write_byte_def unat_sub_Suc)
qed

subsection \<open>Stores that may grow the segment\<close>

text \<open>
  The abstract memory as a whole: a store puts a list of bytes at the location counter and moves the counter behind them, growing
  the data segment by zeros when it fills up.
\<close>

lemma abs_write_bytes_append:
  assumes "length as + length bs < 2 ^ 32"
  shows "abs_write_bytes (a + of_nat (length as)) bs (abs_write_bytes a as m) = abs_write_bytes a (as @ bs) m"
  using assms
proof (induction as arbitrary: a m)
  case (Cons b as)
  have "length as < 2 ^ 32 - 1" "length (as @ bs) < 2 ^ 32 - 1" using Cons.prems by simp_all
  then show ?case
    using Cons.IH [of "a + 1" "abs_write_byte a (scast b) m"] Cons.prems
    by (simp add: abs_write_bytes_Cons [symmetric] add.assoc)
qed (simp add: abs_write_bytes_def)

definition word_bytes :: "32 word \<Rightarrow> byte list" where
  "word_bytes v = [byte_of 0 v, byte_of 1 v, byte_of 2 v, byte_of 3 v]"

lemma abs_write_as_bytes:
  "abs_write_byte a v m = abs_write_bytes a [byte_of 0 v] m"
  "abs_write_half a v m = abs_write_bytes a [byte_of 0 v, byte_of 1 v] m"
  "abs_write_word a v m = abs_write_bytes a (word_bytes v) m"
proof -
  have one: "abs_write_bytes b [c] n = n(b \<mapsto> c)" for b c n
    using abs_write_bytes_Cons [of "[]" b c n] by (simp add: abs_write_bytes_def abs_write_byte_def fun_eq_iff)
  have more: "abs_write_bytes b (c # d # ds) n = abs_write_bytes (b + 1) (d # ds) (n(b \<mapsto> c))" if "length ds < 4" for b c d ds n
    using abs_write_bytes_Cons [of "d # ds" b c n] that by (simp add: abs_write_byte_def)
  show "abs_write_byte a v m = abs_write_bytes a [byte_of 0 v] m" by (simp add: one abs_write_byte_def)
  show "abs_write_half a v m = abs_write_bytes a [byte_of 0 v, byte_of 1 v] m" by (simp add: one more abs_write_half_def)
  show "abs_write_word a v m = abs_write_bytes a (word_bytes v) m"
    by (simp add: word_bytes_def one more abs_write_word_def add.assoc numeral_2_eq_2 numeral_3_eq_3)
qed

text \<open>
  Ready for \<open>n\<close> bytes: the counter is inside its segment, and in the kernel segment, which is excluded from growing here
  (its growth is faulty, see \<open>expand_k_data_clears_wrong_bytes\<close>), there is room for them.
\<close>

definition store_room :: "nat \<Rightarrow> machine \<Rightarrow> bool" where
  "store_room n s \<longleftrightarrow> unat (current_data_pc s) + n < unat (if data_in_kernel s then k_data_top s else data_top s)"

definition store_ready :: "nat \<Rightarrow> machine \<Rightarrow> bool" where
  "store_ready n s \<longleftrightarrow> mem_inv s \<and> (if data_in_kernel s then K_DATA_BOT else DATA_BOT) \<le> current_data_pc s \<and>
     store_room (if data_in_kernel s then n else 0) s"

definition data_frame :: "machine \<Rightarrow> machine \<Rightarrow> bool" where
  "data_frame s t \<longleftrightarrow> (if data_in_kernel s then next_data_pc t = next_data_pc s \<and> data_top t = data_top s
       else next_k_data_pc t = next_k_data_pc s) \<and>
     t = s\<lparr>data_modified := data_modified t, data_top := data_top t, data_seg_b := data_seg_b t, stack_seg_b := stack_seg_b t,
       k_data_seg_b := k_data_seg_b t, next_data_pc := next_data_pc t, next_k_data_pc := next_k_data_pc t\<rparr>"

text \<open>
  The bytes \<open>bs\<close> have been placed: they are at the old counter, the counter is behind them, every other byte is what it was,
  or zero in the part by which the user segment has grown, which it has only if the bytes filled it up; nothing else
  has changed.
\<close>

definition placed :: "byte list \<Rightarrow> machine \<Rightarrow> machine \<Rightarrow> bool" where
  "placed bs s t \<longleftrightarrow> store_ready 0 t \<and> current_data_pc t = current_data_pc s + of_nat (length bs) \<and>
     data_top s \<le> data_top t \<and> (store_room (length bs) s \<longrightarrow> data_top t = data_top s) \<and>
     mem_byte t = abs_write_bytes (current_data_pc s) bs (\<lambda>x. if data_top s \<le> x \<and> x < data_top t then Some 0 else mem_byte s x) \<and>
     data_frame s t"

text \<open>A store places its bytes, or ends as the growth of the data segment that it needs ends.\<close>

definition places :: "host \<Rightarrow> byte list \<Rightarrow> machine \<Rightarrow> (abort \<times> machine) + (unit \<times> machine) \<Rightarrow> bool" where
  "places H bs s r \<longleftrightarrow> (case r of Inr (_, t) \<Rightarrow> placed bs s t
     | Inl (e, t) \<Rightarrow> \<not> store_room (length bs) s \<and> (\<exists>u. expand_data H (64 * kilo) u = Inl (e, t)))"

lemma data_frame_iff:
  "data_frame s t \<longleftrightarrow> (if data_in_kernel s then next_data_pc t = next_data_pc s \<and> data_top t = data_top s
       else next_k_data_pc t = next_k_data_pc s) \<and>
     (\<exists>m top d a k p q. t = s\<lparr>data_modified := m, data_top := top, data_seg_b := d, stack_seg_b := a, k_data_seg_b := k,
       next_data_pc := p, next_k_data_pc := q\<rparr>)"
proof -
  have "(\<exists>m top d a k p q. t = s\<lparr>data_modified := m, data_top := top, data_seg_b := d, stack_seg_b := a, k_data_seg_b := k,
       next_data_pc := p, next_k_data_pc := q\<rparr>) \<longleftrightarrow>
     t = s\<lparr>data_modified := data_modified t, data_top := data_top t, data_seg_b := data_seg_b t, stack_seg_b := stack_seg_b t,
       k_data_seg_b := k_data_seg_b t, next_data_pc := next_data_pc t, next_k_data_pc := next_k_data_pc t\<rparr>" (is "?l \<longleftrightarrow> ?r")
  proof
    assume ?l then show ?r by clarsimp
  next
    assume ?r then show ?l by (intro exI)
  qed
  then show ?thesis by (simp only: data_frame_def)
qed

lemma data_frame_fields:
  assumes "data_frame s t"
  shows "data_in_kernel t = data_in_kernel s" "k_data_top t = k_data_top s"
proof -
  from assms obtain m top d a k p q where t: "t = s\<lparr>data_modified := m, data_top := top, data_seg_b := d, stack_seg_b := a,
      k_data_seg_b := k, next_data_pc := p, next_k_data_pc := q\<rparr>"
    unfolding data_frame_iff by blast
  show "data_in_kernel t = data_in_kernel s" "k_data_top t = k_data_top s" unfolding t by simp_all
qed

lemma data_frame_trans:
  assumes "data_frame s t" and "data_frame t u"
  shows "data_frame s u"
proof -
  from assms obtain m top d a k p q m2 top2 d2 a2 k2 p2 q2 where
    t: "t = s\<lparr>data_modified := m, data_top := top, data_seg_b := d, stack_seg_b := a, k_data_seg_b := k,
       next_data_pc := p, next_k_data_pc := q\<rparr>"
    and u: "u = t\<lparr>data_modified := m2, data_top := top2, data_seg_b := d2, stack_seg_b := a2, k_data_seg_b := k2,
       next_data_pc := p2, next_k_data_pc := q2\<rparr>"
    unfolding data_frame_iff by blast
  have "\<exists>m top d a k p q. u = s\<lparr>data_modified := m, data_top := top, data_seg_b := d, stack_seg_b := a, k_data_seg_b := k,
       next_data_pc := p, next_k_data_pc := q\<rparr>" unfolding u t by (intro exI) simp
  then show ?thesis using assms data_frame_fields(1) [OF assms(1)] unfolding data_frame_iff by simp
qed

lemma ready_after:
  assumes "store_ready (k + n) s" and "placed bs s t" and "length bs = k"
  shows "store_ready n t"
proof (cases "data_in_kernel s")
  case True
  note f = data_frame_fields [of s t]
  have t: "store_ready 0 t" "data_frame s t" "current_data_pc t = current_data_pc s + of_nat k"
    using assms(2,3) by (simp_all add: placed_def)
  have r: "unat (current_data_pc s) + (k + n) < unat (k_data_top s)"
    using assms(1) True by (simp add: store_ready_def store_room_def)
  then have "unat (current_data_pc s + of_nat k) = unat (current_data_pc s) + k"
    using unat32_less [of "k_data_top s"] by (subst unat_plus_if') (auto simp: unsigned_of_nat take_bit_eq_mod)
  then show ?thesis using t r True f [OF t(2)] by (simp add: store_ready_def store_room_def)
next
  case False
  then show ?thesis using assms(2) data_frame_fields [of s t] by (auto simp: placed_def store_ready_def)
qed

lemma room_after:
  assumes "store_room (length as + n) s" and "placed as s t"
  shows "store_room n t" and "data_top t = data_top s"
proof -
  have t: "data_frame s t" "current_data_pc t = current_data_pc s + of_nat (length as)" and
    top: "data_top t = data_top s"
    using assms by (auto simp: placed_def store_room_def)
  let ?top = "if data_in_kernel s then k_data_top s else data_top s"
  have r: "unat (current_data_pc s) + (length as + n) < unat ?top" using assms(1) by (simp only: store_room_def)
  then have "unat (current_data_pc s + of_nat (length as)) = unat (current_data_pc s) + length as"
    using unat32_less [of ?top] by (subst unat_plus_if') (auto simp: unsigned_of_nat take_bit_eq_mod)
  then show "store_room n t" using t r top data_frame_fields [OF t(1)]
    by (cases "data_in_kernel s") (simp_all add: store_room_def)
  show "data_top t = data_top s" by (rule top)
qed

text \<open>Bytes at addresses below the top of the segment do not see its growth.\<close>

lemma write_then_grow:
  assumes "\<And>x. unat (x - a) < length bs \<Longrightarrow> x < mid"
  shows "(\<lambda>x. if mid \<le> x \<and> x < hi then Some 0 else abs_write_bytes a bs m x) =
    abs_write_bytes a bs (\<lambda>x. if mid \<le> x \<and> x < hi then Some 0 else m x)"
  by (auto simp: abs_write_bytes_def fun_eq_iff dest!: assms)

lemma no_growth: "(\<lambda>x. if a \<le> x \<and> x < a then z else f x) = f" for a :: "32 word"
  by (auto simp: fun_eq_iff)

lemma placed_below:
  assumes "store_ready (length bs) s" and "placed bs s t" and "unat (x - current_data_pc s) < length bs" and "length bs < 2 ^ 31"
  shows "data_in_kernel s \<or> x < data_top t"
proof (cases "data_in_kernel s")
  case False
  then have p: "current_data_pc t = current_data_pc s + of_nat (length bs)" "current_data_pc t < data_top t" "unat (data_top t) \<le> 0x80000000"
      "unat (current_data_pc s) < 0x80000000"
    using assms(1,2) data_frame_fields [of s t]
    by (auto simp: placed_def store_ready_def store_room_def mem_inv_def mem_ok_def word_le_nat_alt word_less_nat_alt)
  have "unat (current_data_pc t) = unat (current_data_pc s) + length bs"
    using p(1,4) assms(4) by (subst p(1), subst unat_plus_if') (auto simp: unsigned_of_nat take_bit_eq_mod)
  moreover have "unat x = unat (current_data_pc s) + unat (x - current_data_pc s)"
    using assms(3,4) p(4) unat_add32 [of "current_data_pc s" "x - current_data_pc s"] by simp
  ultimately show ?thesis using assms(3) p(2) by (simp add: word_less_nat_alt)
qed simp

lemma placed_append:
  assumes s: "store_ready (length as + length bs) s" and t: "placed as s t" and u: "placed bs t u"
    and n: "length as + length bs < 2 ^ 31"
  shows "placed (as @ bs) s u"
proof -
  have rt: "store_ready (length bs) t" by (rule ready_after [OF s t refl])
  have "store_ready (length as) s" using s by (auto simp: store_ready_def store_room_def)
  note below = placed_below [OF this t]
  let ?z = "\<lambda>a b f x. if a \<le> x \<and> x < b then Some 0 else f x"
  have pt: "current_data_pc t = current_data_pc s + of_nat (length as)" "data_top s \<le> data_top t"
      "mem_byte t = abs_write_bytes (current_data_pc s) as (?z (data_top s) (data_top t) (mem_byte s))" "data_frame s t"
    using t by (simp_all only: placed_def)
  have pu: "store_ready 0 u" "current_data_pc u = current_data_pc t + of_nat (length bs)" "data_top t \<le> data_top u"
      "mem_byte u = abs_write_bytes (current_data_pc t) bs (?z (data_top t) (data_top u) (mem_byte t))" "data_frame t u"
    using u by (simp_all only: placed_def)
  have same: "data_in_kernel s \<Longrightarrow> data_top u = data_top t"
    using pu(5) data_frame_fields [OF pt(4)] by (simp add: data_frame_def)
  have "?z (data_top t) (data_top u) (mem_byte t) =
      abs_write_bytes (current_data_pc s) as (?z (data_top t) (data_top u) (?z (data_top s) (data_top t) (mem_byte s)))"
  proof (cases "data_in_kernel s")
    case True
    show ?thesis unfolding pt(3) same [OF True] no_growth by (rule refl)
  next
    case False
    show ?thesis unfolding pt(3) by (rule write_then_grow) (use False below n in auto)
  qed
  also have "?z (data_top t) (data_top u) (?z (data_top s) (data_top t) (mem_byte s)) = ?z (data_top s) (data_top u) (mem_byte s)"
    using pt(2) pu(3) by (auto simp: fun_eq_iff)
  finally have "mem_byte u = abs_write_bytes (current_data_pc s) (as @ bs) (?z (data_top s) (data_top u) (mem_byte s))"
    unfolding pu(4) pt(1) using n by (simp add: abs_write_bytes_append)
  moreover have "data_top u = data_top s" if "store_room (length (as @ bs)) s"
    using room_after [OF _ t, of "length bs"] u that by (simp add: placed_def)
  ultimately show ?thesis
    using pu(1-3) pt(1,2) data_frame_trans [OF pt(4) pu(5)] by (simp add: placed_def add.assoc)
qed

lemma placed_nil: "store_ready n s \<Longrightarrow> placed [] s s"
  by (auto simp: placed_def store_ready_def store_room_def abs_write_bytes_def data_frame_def no_growth split: if_splits)

lemma places_seq:
  assumes s: "store_ready (length as + length bs) s" and n: "length as + length bs < 2 ^ 31" and m: "places H as s (m s)"
    and k: "\<And>t. placed as s t \<Longrightarrow> store_ready (length bs) t \<Longrightarrow> places H bs t (k t)"
  shows "places H (as @ bs) s (seq m k s)"
proof (cases "m s")
  case (Inl r)
  then show ?thesis using m by (cases r) (auto simp: places_def seq_def bnd_def store_room_def)
next
  case (Inr r)
  then obtain t where t: "m s = Inr ((), t)" "placed as s t" using m by (cases r) (auto simp: places_def)
  note r = ready_after [OF s t(2) refl]
  have seq: "seq m k s = k t" using t(1) by (simp add: seq_def bnd_def)
  show ?thesis
  proof (cases "k t")
    case (Inl v)
    then show ?thesis using k [OF t(2) r] room_after(1) [OF _ t(2), of "length bs"]
      unfolding seq by (cases v) (auto simp: places_def)
  next
    case (Inr v)
    then show ?thesis using k [OF t(2) r] placed_append [OF s t(2) _ n] unfolding seq by (cases v) (simp add: places_def)
  qed
qed

text \<open>The advance of the counter after a write in the segment.\<close>

lemma same_data_fields:
  assumes "same_but_data s u"
  shows "current_data_pc u = current_data_pc s" "data_in_kernel u = data_in_kernel s" "next_data_pc u = next_data_pc s"
    "next_k_data_pc u = next_k_data_pc s" "data_top u = data_top s" "k_data_top u = k_data_top s" "data_frame s u"
proof -
  from assms obtain d a k where u: "u = s\<lparr>data_modified := True, data_seg_b := d, stack_seg_b := a, k_data_seg_b := k\<rparr>"
    by (auto simp: same_but_data_iff)
  show "current_data_pc u = current_data_pc s" "data_in_kernel u = data_in_kernel s" "next_data_pc u = next_data_pc s"
    "next_k_data_pc u = next_k_data_pc s" "data_top u = data_top s" "k_data_top u = k_data_top s" "data_frame s u"
    unfolding u by (simp_all add: current_data_pc_def data_frame_def)
qed

lemma current_pc_set [simp]: "current_data_pc (set_data_pc p s) = p" "data_in_kernel (set_data_pc p s) = data_in_kernel s"
    "data_top (set_data_pc p s) = data_top s" "k_data_top (set_data_pc p s) = k_data_top s" "mem_inv (set_data_pc p s) = mem_inv s"
    "mem_byte (set_data_pc p s) = mem_byte s" "data_frame s (set_data_pc p s)"
  by (simp_all add: current_data_pc_def set_data_pc_def data_frame_def mem_inv_def mem_ok_def limits_ok_def mem_byte_def in_data_def
      in_stack_def in_k_data_def fun_eq_iff)

lemma advance_data_pc:
  "increment_data_pc H n s = (let t = set_data_pc (current_data_pc s + n) s;
       hi = if data_in_kernel s then k_data_top s else data_top s
     in if hi \<le> current_data_pc t
        then (if data_in_kernel s then expand_k_data else expand_data) H (ROUND_UP (current_data_pc t - hi + 1) (64 * kilo)) t
        else Inr ((), t))"
  by (simp add: increment_data_pc_def current_data_pc_def set_data_pc_def Let_def)

lemma data_frame_grown: "t = s\<lparr>data_top := x, data_seg_b := f\<rparr> \<Longrightarrow> \<not> data_in_kernel s \<Longrightarrow> data_frame s t"
  by (simp add: data_frame_def)

lemma grown_bytes:
  assumes "mem_inv s" and "alloc_bounded H" and t: "expand_data H n s = Inr ((), t)"
  shows "mem_byte t = (\<lambda>x. if data_top s \<le> x \<and> x < data_top t then Some 0 else mem_byte s x)" and "data_top s \<le> data_top t"
proof -
  note r = expand_data_result [OF assms]
  have f: "stack_bot t = stack_bot s" "stack_seg_b t = stack_seg_b s" "k_data_top t = k_data_top s" "k_data_seg_b t = k_data_seg_b s"
    by (subst r(1), simp)+
  have b: "unat (data_top s) \<le> unat (data_top t)" "unat (data_top t) \<le> unat (stack_bot s)" "unat (stack_bot s) \<le> 0x80000000"
      "0x10000000 \<le> unat (data_top s)"
    using r(2,4) assms(1) f(1) by (auto simp: mem_inv_def mem_ok_def word_le_nat_alt)
  show "data_top s \<le> data_top t" using b(1) by (simp add: word_le_nat_alt)
  have d: "unat (data_top y - DATA_BOT) = unat (data_top y) - 0x10000000" if "0x10000000 \<le> unat (data_top y)" for y
    using that by (simp add: data_index)
  show "mem_byte t = (\<lambda>x. if data_top s \<le> x \<and> x < data_top t then Some 0 else mem_byte s x)"
  proof
    fix x
    have i: "unat (x - DATA_BOT) = unat x - 0x10000000" if "0x10000000 \<le> unat x" using that by (rule data_index)
    have seg: "in_stack t x = in_stack s x" "in_k_data t x = in_k_data s x"
      using f by (simp_all add: in_stack_def in_k_data_def)
    show "mem_byte t x = (if data_top s \<le> x \<and> x < data_top t then Some 0 else mem_byte s x)"
    proof (cases "in_data t x")
      case True
      then have x: "0x10000000 \<le> unat x" "unat x < unat (data_top t)" by (simp_all add: in_data_unat)
      then have "data_seg_b t (unat (x - DATA_BOT)) = (if unat x < unat (data_top s) then data_seg_b s (unat (x - DATA_BOT)) else 0)"
        using r(5) [of "unat (x - DATA_BOT)"] d [of s] d [of t] b i [OF x(1)] by auto
      then show ?thesis using True x by (auto simp: mem_byte_def in_data_unat word_le_nat_alt word_less_nat_alt)
    next
      case False
      then have "\<not> in_data s x" "\<not> (data_top s \<le> x \<and> x < data_top t)"
        using b by (auto simp: in_data_unat word_le_nat_alt word_less_nat_alt)
      then show ?thesis using False seg f by (simp only: mem_byte_def if_False)
    qed
  qed
qed

lemma write_and_advance:
  assumes ready: "store_ready (length bs) s" and H: "alloc_bounded H" and u: "same_but_data s u"
    and m: "mem_byte u = abs_write_bytes (current_data_pc s) bs (mem_byte s)"
    and le: "unat (current_data_pc s) + length bs \<le> unat (if data_in_kernel s then k_data_top s else data_top s)"
    and n: "n = of_nat (length bs)"
  shows "places H bs s (increment_data_pc H n u)"
proof -
  let ?pc = "current_data_pc s + n" and ?hi = "if data_in_kernel s then k_data_top s else data_top s"
  let ?t = "set_data_pc ?pc u"
  note f = same_data_fields [OF u]
  have "mem_inv u" using same_but_data_bounds(2) [OF u] ready by (simp add: store_ready_def)
  then have inv: "mem_inv ?t" by simp
  have pc: "unat ?pc = unat (current_data_pc s) + length bs"
    using le unat32_less [of ?hi] unfolding n by (subst unat_plus_if') (auto simp: unsigned_of_nat take_bit_eq_mod)
  have bot: "(if data_in_kernel s then K_DATA_BOT else DATA_BOT) \<le> ?pc"
    using ready pc by (auto simp: store_ready_def word_le_nat_alt split: if_splits)
  have fr: "data_frame s ?t" using data_frame_trans [OF f(7)] current_pc_set(7) by blast
  show ?thesis
  proof (cases "unat ?pc < unat ?hi")
    case True
    then have "\<not> ?hi \<le> ?pc" by (simp add: word_le_nat_alt)
    then have "increment_data_pc H n u = Inr ((), ?t)" using f by (cases "data_in_kernel s") (simp_all add: advance_data_pc Let_def)
    moreover have "store_ready 0 ?t" using inv bot True f
      by (cases "data_in_kernel s") (simp_all add: store_ready_def store_room_def)
    then have "placed bs s ?t" using fr f m n by (simp add: placed_def no_growth)
    ultimately show ?thesis by (simp add: places_def)
  next
    case False
    then have k: "\<not> data_in_kernel s" and room: "\<not> store_room (length bs) s" and top: "?pc = data_top s"
      using ready pc le by (auto simp: store_ready_def store_room_def word_unat_eq_iff split: if_splits)
    have inc: "increment_data_pc H n u = expand_data H (64 * kilo) ?t"
      using f k top by (simp add: advance_data_pc Let_def ROUND_UP_def)
    show ?thesis
    proof (cases "expand_data H (64 * kilo) ?t")
      case (Inl r)
      then show ?thesis using room inc by (cases r) (auto simp: places_def)
    next
      case (Inr r)
      then obtain v where v: "expand_data H (64 * kilo) ?t = Inr ((), v)" by (cases r) auto
      note g = expand_data_result [OF inv H v] and b = grown_bytes [OF inv H v]
      have "unat (data_top v) = unat (data_top s) + 0x10000" using g(2) f by (simp add: ROUND_UP_def)
      then have "data_top s < data_top v" by (simp add: word_less_nat_alt)
      have gf: "data_frame ?t v" using data_frame_grown [OF g(1)] f k by simp
      have fv: "data_frame s v" by (rule data_frame_trans [OF fr gf])
      have pv: "current_data_pc v = ?pc" "data_in_kernel v = data_in_kernel s"
        using data_frame_fields [OF fv] by (subst g(1), simp add: current_data_pc_def set_data_pc_def f k)+
      have rv: "store_ready 0 v"
        using g(4) bot k pv top \<open>data_top s < data_top v\<close> by (simp add: store_ready_def store_room_def word_less_nat_alt)
      have below: "x < data_top s" if "unat (x - current_data_pc s) < length bs" for x
      proof -
        have "unat x = unat (current_data_pc s) + unat (x - current_data_pc s)"
          using that le unat32_less [of "data_top s"] k unat_add32 [of "current_data_pc s" "x - current_data_pc s"] by simp
        then show ?thesis using that le k by (simp add: word_less_nat_alt)
      qed
      have "mem_byte v = abs_write_bytes (current_data_pc s) bs (\<lambda>x. if data_top s \<le> x \<and> x < data_top v then Some 0 else mem_byte s x)"
        unfolding b(1) current_pc_set f(5) m
        by (rule write_then_grow [where a = "current_data_pc s" and bs = bs, OF below])
      then have "placed bs s v"
        using rv pv b(2) f(5) fv room n by (simp add: placed_def)
      then show ?thesis using inc v by (simp add: places_def)
    qed
  qed
qed

subsection \<open>Words and strings\<close>

lemma ready_less: "store_ready n s \<Longrightarrow> k \<le> n \<Longrightarrow> store_ready k s"
  by (auto simp: store_ready_def store_room_def)

lemma ready_ref:
  assumes "store_ready n s"
  shows "mem_ok s" "data_ref s (current_data_pc s)"
  using assms by (auto simp: store_ready_def store_room_def mem_inv_def data_ref_def in_data_def in_k_data_def
      word_less_nat_alt split: if_splits)

lemma room_for:
  assumes "store_ready (2 ^ m) s" and "unat (current_data_pc s) mod 2 ^ m = 0" and "m = 0 \<or> m = 1 \<or> m = 2"
  shows "unat (current_data_pc s) + 2 ^ m \<le> unat (if data_in_kernel s then k_data_top s else data_top s)"
proof (cases "data_in_kernel s")
  case False
  have "unat (data_top s) mod 4 = 0" "unat (current_data_pc s) < unat (data_top s)"
    using assms(1) False by (simp_all add: store_ready_def store_room_def mem_inv_def mem_ok_def aligned4_iff)
  moreover have "p + 1 \<le> h" "p mod 2 = 0 \<Longrightarrow> p + 2 \<le> h" "p mod 4 = 0 \<Longrightarrow> p + 4 \<le> h"
    if "h mod 4 = 0" "p < h" for p h :: nat using that by presburger+
  ultimately show ?thesis using assms(2,3) False by (auto simp del: One_nat_def)
qed (use assms(1) in \<open>simp add: store_ready_def store_room_def\<close>)

lemma store_byte_places:
  assumes "store_ready 1 s" and "alloc_bounded H"
  shows "places H [byte_of 0 v] s (store_byte H v s)"
proof -
  from writes_in [OF ready_ref [OF assms(1)], of H v] obtain u where
    u: "mem_write_byte H (current_data_pc s) v s = Inr ((), u)"
      "mem_byte u = abs_write_byte (current_data_pc s) v (mem_byte s)" "same_but_data s u" by blast
  have "unat (current_data_pc s) + length [byte_of 0 v] \<le> unat (if data_in_kernel s then k_data_top s else data_top s)"
    using room_for [of 0 s] assms(1) by simp
  then have "places H [byte_of 0 v] s (increment_data_pc H 1 u)"
    using assms u by (intro write_and_advance) (simp_all add: abs_write_as_bytes)
  then show ?thesis using u(1) by (simp add: store_byte_def)
qed

lemma store_half_places:
  assumes "store_ready 2 s" and "alloc_bounded H"
  shows "places H [byte_of 0 v, byte_of 1 v] s (store_half H v s)"
proof (cases "current_data_pc s AND 1 = 0")
  case True
  from writes_in [OF ready_ref [OF assms(1)], of H v] True obtain u where
    u: "mem_write_half H (current_data_pc s) v s = Inr ((), u)"
      "mem_byte u = abs_write_half (current_data_pc s) v (mem_byte s)" "same_but_data s u" by blast
  have "unat (current_data_pc s) mod 2 = 0" using True unat_drop1 [OF True] by presburger
  then have "unat (current_data_pc s) + length [byte_of 0 v, byte_of 1 v] \<le> unat (if data_in_kernel s then k_data_top s else data_top s)"
    using room_for [of 1 s] assms(1) by simp
  then have "places H [byte_of 0 v, byte_of 1 v] s (increment_data_pc H 2 u)"
    using assms u by (intro write_and_advance) (simp_all add: abs_write_as_bytes numeral_eq_Suc)
  then show ?thesis using u(1) True by (simp add: store_half_def)
next
  case False
  have "places H ([byte_of 0 (v AND 0xff)] @ [byte_of 0 (signed_drop_bit 8 v AND 0xff)]) s
     (seq (store_byte H (v AND 0xff)) (store_byte H (signed_drop_bit 8 v AND 0xff)) s)"
    using assms by (intro places_seq store_byte_places) (auto intro: ready_less)
  then show ?thesis using False by (simp add: store_half_def byte_of_parts)
qed

lemma store_word_places:
  assumes "store_ready 4 s" and "alloc_bounded H"
  shows "places H (word_bytes v) s (store_word H v s)"
proof (cases "current_data_pc s AND 3 = 0")
  case True
  from writes_in [OF ready_ref [OF assms(1)], of H v] True obtain u where
    u: "mem_write_word H (current_data_pc s) v s = Inr ((), u)"
      "mem_byte u = abs_write_word (current_data_pc s) v (mem_byte s)" "same_but_data s u" by blast
  have "unat (current_data_pc s) mod 4 = 0" using True by (simp add: aligned4_iff)
  then have "unat (current_data_pc s) + length (word_bytes v) \<le> unat (if data_in_kernel s then k_data_top s else data_top s)"
    using room_for [of 2 s] assms(1) by (simp add: word_bytes_def)
  then have "places H (word_bytes v) s (increment_data_pc H 4 u)"
    using assms u by (intro write_and_advance) (simp_all add: abs_write_as_bytes word_bytes_def numeral_eq_Suc)
  then show ?thesis using u(1) True by (simp add: store_word_def)
next
  case False
  let ?lo = "v AND 0xffff" and ?hi = "signed_drop_bit 16 v AND 0xffff"
  have "places H ([byte_of 0 ?lo, byte_of 1 ?lo] @ [byte_of 0 ?hi, byte_of 1 ?hi]) s
     (seq (store_half H ?lo) (store_half H ?hi) s)"
    using assms by (intro places_seq store_half_places) (auto intro: ready_less)
  moreover have "[byte_of 0 ?lo, byte_of 1 ?lo] @ [byte_of 0 ?hi, byte_of 1 ?hi] = word_bytes v"
    using byte_of_parts by (simp add: word_bytes_def)
  ultimately show ?thesis using False by (simp add: store_word_def)
qed

lemma store_bytes_places:
  assumes "alloc_bounded H" and "store_ready (length bs) s" and "length bs < 2 ^ 31"
  shows "places H bs s (store_bytes_of H bs s)"
  using assms(2,3)
proof (induction bs arbitrary: s)
  case Nil
  then show ?case using placed_nil by (simp add: places_def)
next
  case (Cons b bs)
  have "places H ([b] @ bs) s (seq (store_byte H (scast b)) (store_bytes_of H bs) s)"
    using Cons.prems store_byte_places [OF _ assms(1), of s "scast b"]
    by (intro places_seq Cons.IH) (auto intro: ready_less)
  then show ?case by simp
qed

text \<open>
  C8: data. Whatever the alignment of the location counter, a \<^verbatim>\<open>.byte\<close>, \<^verbatim>\<open>.half\<close> or \<^verbatim>\<open>.word\<close> value becomes its
  bytes, low one first, at the location counter of the abstract memory and the counter moves behind them. In the user segment, full or not: when
  the bytes fill the segment up it grows by zeros, or the store ends as the refused growth does; with room it never aborts. In the kernel
  data segment: when there is room for four bytes (its growth is C23). Nothing but memory, the counter, the top of
  the data segment and the modification flag changes.
\<close>

theorem store_word_refines:
  assumes "store_ready 4 s" and "alloc_bounded H"
  shows "places H (word_bytes v) s (store_word H v s) \<and> places H [byte_of 0 v, byte_of 1 v] s (store_half H v s) \<and>
    places H [byte_of 0 v] s (store_byte H v s)"
  using store_word_places [OF assms] store_half_places [OF ready_less [OF assms(1)] assms(2)]
    store_byte_places [OF ready_less [OF assms(1)] assms(2)] by simp

theorem store_word_refines_witness:
  "\<exists>t. store_word idle_host 0x12345678 (default_memory\<lparr>data_in_kernel := False, next_data_pc := 0x10000001\<rparr>) = Inr ((), t) \<and>
     next_data_pc t = 0x10000005 \<and> mem_byte t 0x10000004 = Some 0x12"
proof -
  let ?s = "default_memory\<lparr>data_in_kernel := False, next_data_pc := 0x10000001\<rparr>"
  have r: "store_ready 4 ?s" "store_room 4 ?s" "current_data_pc ?s = 0x10000001"
    using default_memory_inv by (simp_all add: store_ready_def store_room_def current_data_pc_def mem_inv_def limits_ok_def mem_ok_def default_memory_fields)
  then obtain t where t: "store_word idle_host 0x12345678 ?s = Inr ((), t)" "placed (word_bytes 0x12345678) ?s t"
    using conjunct1 [OF store_word_refines [OF r(1) idle_host_bounded, of "0x12345678"]]
    by (auto simp: places_def word_bytes_def numeral_eq_Suc split: sum.splits)
  then have "data_in_kernel t = False" using data_frame_fields [of ?s t] by (simp add: placed_def)
  then show ?thesis using t r(3) by (auto simp: placed_def current_data_pc_def abs_write_bytes_def word_bytes_def byte_of_def)
qed

text \<open>
  C27: strings. A string literal, empty or not, becomes its bytes, in order, at the location counter, followed by a
  zero byte when the directive terminates it, and the counter ends behind the last byte: in the user segment, growing it by zeros as often as
  the bytes fill it up (or ending as a refused growth does, which it never does with room), and in the kernel data segment when there is room.
  Every other byte and the rest of the state are kept. The string is shorter than 2 to the 31 bytes.
\<close>

theorem store_string_refines:
  assumes "store_ready (length bs + 1) s" and "alloc_bounded H" and "length bs + 1 < 2 ^ 31"
  shows "places H (bs @ (if z then [0] else [])) s (store_string H bs z s)"
proof -
  have b: "places H bs s (store_bytes_of H bs s)"
    using assms by (intro store_bytes_places) (auto intro: ready_less)
  show ?thesis
  proof (cases z)
    case True
    have "places H (bs @ [byte_of 0 0]) s (seq (store_bytes_of H bs) (store_byte H 0) s)"
      using assms b by (intro places_seq store_byte_places) simp_all
    then show ?thesis using True by (simp add: store_string_def byte_of_def whn_def)
  next
    case False
    have "places H (bs @ []) s (seq (store_bytes_of H bs) (ret ()) s)"
      using assms b by (intro places_seq) (auto simp: places_def intro: ready_less placed_nil)
    then show ?thesis using False by (simp add: store_string_def whn_def)
  qed
qed

theorem store_string_refines_witness:
  "\<exists>t. store_string idle_host [72, 105] True (default_memory\<lparr>data_in_kernel := False, next_data_pc := 0x10000001\<rparr>)
     = Inr ((), t) \<and> mem_byte t 0x10000002 = Some 105 \<and> mem_byte t 0x10000003 = Some 0"
proof -
  let ?s = "default_memory\<lparr>data_in_kernel := False, next_data_pc := 0x10000001\<rparr>"
  have r: "store_ready 3 ?s" "store_room 3 ?s" "current_data_pc ?s = 0x10000001"
    using default_memory_inv by (simp_all add: store_ready_def store_room_def current_data_pc_def mem_inv_def limits_ok_def mem_ok_def default_memory_fields)
  then have "store_ready (length [72 :: byte, 105] + 1) ?s" "store_room (length ([72 :: byte, 105] @ [0])) ?s"
    by (simp_all add: numeral_eq_Suc)
  with store_string_refines [OF this(1) idle_host_bounded, of True]
  obtain t where "store_string idle_host [72, 105] True ?s = Inr ((), t)" "placed [72, 105, 0] ?s t"
    by (auto simp: places_def split: sum.splits)
  with r(3) show ?thesis by (auto simp: placed_def abs_write_bytes_def)
qed

subsection \<open>References from data\<close>

lemma emit_constant:
  "emit_data_ints store (const_imm_expr b # es) s = seq (store b) (emit_data_ints store es) s"
  by (simp add: emit_data_ints.simps const_imm_expr_def symbol_known_def eval_imm_expr_def select_bits_def seq_def bnd_def)

lemma emit_forward:
  assumes "expr_symbol e = Some q" and "label_heap s q = Some l" and "label_addr l = 0" and "expr_pc_relative e = False"
  shows "emit_data_ints store (e # es) s = seq (store (expr_offset e)) (emit_data_ints store es)
    (add_use q \<lparr>use_inst = None, use_addr = current_data_pc s\<rparr> s)"
  using assms by (simp add: symbol_known_def deref_label_def label_defined_def record_data_uses_symbol_def seq_def bnd_def)

lemma upd_label_memory:
  "mem_byte (upd_label q f s) = mem_byte s" "data_room n (upd_label q f s) = data_room n s"
  "next_data_pc (upd_label q f s) = next_data_pc s" "mem_ok (upd_label q f s) = mem_ok s"
  "data_ref (upd_label q f s) a = data_ref s a"
  by (simp_all add: upd_label_def mem_byte_def data_room_def mem_ok_def data_ref_def in_data_def in_stack_def
      in_k_data_def fun_eq_iff)

lemma stored_labels: "stored n s t \<Longrightarrow> label_heap t = label_heap s \<and> data_top t = data_top s"
  by (auto simp: stored_iff)

lemma stored_bytes:
  "data_room (length vs + n) s \<Longrightarrow> 0 < n \<Longrightarrow>
    \<exists>t. emit_data_ints (store_byte H) (map const_imm_expr vs) s = Inr ((), t) \<and>
      mem_byte t = abs_write_bytes (next_data_pc s) (map (byte_of 0) vs) (mem_byte s) \<and>
      data_room n t \<and> label_heap t = label_heap s \<and> data_top t = data_top s"
proof (induction vs arbitrary: s)
  case Nil
  then show ?case by (simp add: abs_write_bytes_def)
next
  case (Cons v vs)
  have n: "0 < length (v # vs) + n" "1 \<le> length (v # vs) + n" by simp_all
  obtain t where t: "store_byte H v s = Inr ((), t)"
    "mem_byte t = abs_write_byte (next_data_pc s) v (mem_byte s)" "stored 1 s t"
    using store_byte_room [OF Cons.prems(1) n(1)] by blast
  note rt = stored_room [OF Cons.prems(1) t(3) n(2), simplified]
  obtain u where u: "emit_data_ints (store_byte H) (map const_imm_expr vs) t = Inr ((), u)"
    "mem_byte u = abs_write_bytes (next_data_pc t) (map (byte_of 0) vs) (mem_byte t)" "data_room n u"
    "label_heap u = label_heap t" "data_top u = data_top t"
    using Cons.IH [OF rt(1) Cons.prems(2)] by blast
  have "length vs < 2 ^ 32 - 1" using Cons.prems unat32_less [of "data_top s"] by (simp add: data_room_def)
  then show ?case
    using t u rt(2) stored_labels [OF t(3)] abs_write_bytes_Cons [of "map (byte_of 0) vs" "next_data_pc s" "byte_of 0 v"]
    by (simp add: emit_constant abs_write_byte_def del: emit_data_ints.simps)
qed

lemma word_covers:
  assumes "length bs \<le> 4"
  shows "abs_write_word a v (abs_write_bytes a bs m) = abs_write_word a v m"
proof
  fix x
  show "abs_write_word a v (abs_write_bytes a bs m) x = abs_write_word a v m x"
  proof (cases "unat (x - a) < 4")
    case True
    obtain k where k: "x = a + of_nat k" "k < 4" using that [of "unat (x - a)"] True by simp
    then have "k = 0 \<or> k = 1 \<or> k = 2 \<or> k = 3" by auto
    with k(1) show ?thesis by (auto simp: abs_write_word_def)
  qed (use assms in \<open>auto simp: abs_write_word_def abs_write_bytes_def\<close>)
qed

lemma add_use_memory:
  "mem_byte (add_use q u s) = mem_byte s" "data_room n (add_use q u s) = data_room n s"
  "next_data_pc (add_use q u s) = next_data_pc s" "current_data_pc (add_use q u s) = current_data_pc s"
  by (simp_all add: add_use_def upd_label_memory) (simp add: upd_label_def current_data_pc_def)

lemma room_in_data: "data_room n s \<Longrightarrow> data_ref s (next_data_pc s) \<and> mem_ok s \<and> in_data s (next_data_pc s)"
  by (auto simp: data_room_def data_ref_def in_data_def word_less_nat_alt)



end
