(* ===== verification/Scanner.thy ===== *)
theory Scanner
  imports Ast "HOL-Library.Char_ord" "HOL-Library.List_Lexorder"
begin

text \<open>
  The lexical scanner (\<^verbatim>\<open>scanner.c\<close>): the line buffer, the token scanners, the lookahead buffer and
  the stack of nested inputs. Its state and the parser's are the record \<open>pstate\<close> around the
  machine. A line buffer holds the characters before the terminating NUL; the input is what is
  left of the file. The value of a floating-point token, which the C code leaves in a static
  variable, is stored in the token: the parser reads it before it scans the next token.
\<close>

subsection \<open>State\<close>

datatype scan_val = SV_Int "32 word" | SV_Str string | SV_Fp "64 word"

record scan_token =
  tok_type :: int
  tok_val :: scan_val

abbreviation TOK_EOF :: int where "TOK_EOF \<equiv> 256"
abbreviation TOK_NL :: int where "TOK_NL \<equiv> 257"
abbreviation TOK_INT :: int where "TOK_INT \<equiv> 258"
abbreviation TOK_ID :: int where "TOK_ID \<equiv> 259"
abbreviation TOK_REG :: int where "TOK_REG \<equiv> 260"
abbreviation TOK_FP_REG :: int where "TOK_FP_REG \<equiv> 261"
abbreviation TOK_STR :: int where "TOK_STR \<equiv> 262"
abbreviation TOK_FP :: int where "TOK_FP \<equiv> 263"

record scanner_state =
  input_file :: string
  line_buf :: string
  line_pos :: nat
  at_eof :: bool
  force_id_next :: bool
  tok_buf :: "scan_token list"

datatype data_kind = DATA_BYTE | DATA_HALF | DATA_WORD | DATA_FLOAT | DATA_DOUBLE

record pstate =
  mach :: machine
  scan :: scanner_state
  scan_value :: scan_val
  scanner_stack :: "(scanner_state \<times> 32 word \<times> string option) list"
  input_file_name :: "string option"
  null_term :: bool
  current_file :: "ast_node option"
  current_pseudo :: "ast_node option"
  expr_unresolved_label :: ptr
  data_kind_now :: data_kind
  data_int_buf :: "imm_expr list"
  data_fp_buf :: "64 word list"
  data_directive_line :: "32 word"
  print_ast :: bool
  show_expansion :: bool
  print_ast_json :: bool
  print_ast_only :: bool

type_synonym 'a pcomp = "(pstate, 'a) comp"

text \<open>A machine computation, run on the machine of the parser's state.\<close>

definition on_mach :: "'a mcomp \<Rightarrow> 'a pcomp" where
  "on_mach m p = (case m (mach p) of Inl (e, s) \<Rightarrow> Inl (e, p\<lparr>mach := s\<rparr>) | Inr (x, s) \<Rightarrow> Inr (x, p\<lparr>mach := s\<rparr>))"

definition upd_mach :: "(machine \<Rightarrow> machine) \<Rightarrow> pstate \<Rightarrow> pstate" where
  "upd_mach f p = p\<lparr>mach := f (mach p)\<rparr>"

definition upd_scan :: "(scanner_state \<Rightarrow> scanner_state) \<Rightarrow> pstate \<Rightarrow> pstate" where
  "upd_scan f p = p\<lparr>scan := f (scan p)\<rparr>"

subsection \<open>Character classes\<close>

abbreviation NUL :: char where "NUL \<equiv> CHR 0x00"
abbreviation APOS :: char where "APOS \<equiv> CHR 0x27"

definition in_range :: "char \<Rightarrow> char \<Rightarrow> char \<Rightarrow> bool" where
  "in_range lo hi c \<longleftrightarrow> (of_char lo :: nat) \<le> of_char c \<and> (of_char c :: nat) \<le> of_char hi"

definition isdigit :: "char \<Rightarrow> bool" where
  "isdigit c = in_range CHR ''0'' CHR ''9'' c"

definition isalpha :: "char \<Rightarrow> bool" where
  "isalpha c \<longleftrightarrow> in_range CHR ''a'' CHR ''z'' c \<or> in_range CHR ''A'' CHR ''Z'' c"

definition isalnum :: "char \<Rightarrow> bool" where
  "isalnum c \<longleftrightarrow> isalpha c \<or> isdigit c"

definition isxdigit :: "char \<Rightarrow> bool" where
  "isxdigit c \<longleftrightarrow> isdigit c \<or> in_range CHR ''a'' CHR ''f'' c \<or> in_range CHR ''A'' CHR ''F'' c"

text \<open>\<^verbatim>\<open>c <= '9' ? c - '0' : c <= 'F' ? c - 'A' + 10 : c - 'a' + 10\<close>\<close>

definition xdigit_value :: "char \<Rightarrow> 32 word" where
  "xdigit_value c = (if (of_char c :: nat) \<le> of_char CHR ''9'' then of_char c - of_char CHR ''0''
     else if (of_char c :: nat) \<le> of_char CHR ''F'' then of_char c - of_char CHR ''A'' + 10
     else of_char c - of_char CHR ''a'' + 10)"

subsection \<open>Registers and keywords\<close>

definition cmp_key_to_name :: "string \<Rightarrow> 'v name_val_val \<Rightarrow> int" where
  "cmp_key_to_name key e = (if key < nvv_name e then -1 else if nvv_name e < key then 1 else 0)"

definition map_string_to_name_val_val :: "'v name_val_val list \<Rightarrow> string \<Rightarrow> 'v name_val_val option" where
  "map_string_to_name_val_val tbl name = bsearch (cmp_key_to_name name) tbl 0 (length tbl)"

definition reg_entry :: "string \<Rightarrow> int \<Rightarrow> int name_val_val" where
  "reg_entry n v = \<lparr>nvv_name = n, value1 = v, value2 = 0\<rparr>"

definition register_tbl :: "int name_val_val list" where
  "register_tbl =
    [reg_entry ''a0'' 4, reg_entry ''a1'' 5, reg_entry ''a2'' 6, reg_entry ''a3'' 7,
     reg_entry ''at'' 1, reg_entry ''fp'' 30, reg_entry ''gp'' 28, reg_entry ''k0'' 26,
     reg_entry ''k1'' 27, reg_entry ''kt0'' 26, reg_entry ''kt1'' 27, reg_entry ''ra'' 31,
     reg_entry ''s0'' 16, reg_entry ''s1'' 17, reg_entry ''s2'' 18, reg_entry ''s3'' 19,
     reg_entry ''s4'' 20, reg_entry ''s5'' 21, reg_entry ''s6'' 22, reg_entry ''s7'' 23,
     reg_entry ''s8'' 30, reg_entry ''sp'' 29, reg_entry ''t0'' 8, reg_entry ''t1'' 9,
     reg_entry ''t2'' 10, reg_entry ''t3'' 11, reg_entry ''t4'' 12, reg_entry ''t5'' 13,
     reg_entry ''t6'' 14, reg_entry ''t7'' 15, reg_entry ''t8'' 24, reg_entry ''t9'' 25,
     reg_entry ''v0'' 2, reg_entry ''v1'' 3, reg_entry ''zero'' 0]"

text \<open>\<^verbatim>\<open>atoi\<close> of a string that starts with a digit: \<^verbatim>\<open>strtol\<close>, cut to an \<^verbatim>\<open>int\<close>.\<close>

definition digit_value :: "char \<Rightarrow> nat" where
  "digit_value c = of_char c - of_char CHR ''0''"

definition atoi :: "string \<Rightarrow> int" where
  "atoi str = sint (word_of_int (min (2 ^ 63 - 1)
     (int (fold (\<lambda>c v. 10 * v + digit_value c) (takeWhile isdigit str) 0))) :: 32 word)"

definition char_at :: "string \<Rightarrow> nat \<Rightarrow> char" where
  "char_at str i = (if i < length str then str ! i else NUL)"

definition register_name_to_number :: "string \<Rightarrow> int" where
  "register_name_to_number name =
     (let c1 = char_at name 0; c2 = char_at name 1
      in if isdigit c1 \<and> (c2 = NUL \<or> isdigit c2 \<and> char_at name 2 = NUL) then atoi name
         else if c1 = CHR ''f'' \<and> isdigit c2 then atoi (drop 1 name)
         else case map_string_to_name_val_val register_tbl name of Some e \<Rightarrow> value1 e | None \<Rightarrow> -1)"

definition keyword_tbl :: "op_type name_val_val list" where
  "keyword_tbl = map (\<lambda>r. \<lparr>nvv_name = op_name r, value1 = op_tok r, value2 = op_kind r\<rparr>) opcode_rows"

definition check_keyword :: "string \<Rightarrow> bool \<Rightarrow> int" where
  "check_keyword name allow_pseudo_ops =
     (case map_string_to_name_val_val keyword_tbl name of
        None \<Rightarrow> 0
      | Some e \<Rightarrow> if \<not> allow_pseudo_ops \<and> value2 e = PSEUDO_OP then 0 else value1 e)"

subsection \<open>The line buffer\<close>

definition scanner_init :: "string \<Rightarrow> pstate \<Rightarrow> pstate" where
  "scanner_init file p = p\<lparr>
     mach := (mach p)\<lparr>line_no := 1, saved_line := None\<rparr>,
     scan := \<lparr>input_file = file, line_buf = [], line_pos = 0, at_eof = False, force_id_next = False, tok_buf = []\<rparr>\<rparr>"

definition scanner_start_line :: "pstate \<Rightarrow> pstate" where
  "scanner_start_line = upd_mach (\<lambda>s. s\<lparr>saved_line := None\<rparr>)"

definition scanner_force_identifier :: "pstate \<Rightarrow> pstate" where
  "scanner_force_identifier = upd_scan (\<lambda>c. c\<lparr>force_id_next := True\<rparr>)"

text \<open>\<^verbatim>\<open>fgets\<close>: at most \<open>n\<close> characters, up to a newline; what it leaves.\<close>

fun fgets :: "nat \<Rightarrow> string \<Rightarrow> string \<times> string" where
  "fgets 0 cs = ([], cs)"
| "fgets n [] = ([], [])"
| "fgets (Suc n) (c # cs) = (if c = NL then ([c], cs) else (let (l, r) = fgets n cs in (c # l, r)))"

abbreviation LINE_BUF_MAX :: nat where "LINE_BUF_MAX \<equiv> 4096"

definition fill_line_buf :: "scanner_state \<Rightarrow> scanner_state" where
  "fill_line_buf c =
     (if at_eof c then c
      else if input_file c = [] then c\<lparr>at_eof := True, line_buf := [], line_pos := 0\<rparr>
      else let (l, r) = fgets (LINE_BUF_MAX - 1) (input_file c)
           in c\<lparr>input_file := r, line_buf := takeWhile (\<lambda>x. x \<noteq> NUL) l, line_pos := 0\<rparr>)"

definition rest_of_line :: "scanner_state \<Rightarrow> string" where
  "rest_of_line c = drop (line_pos c) (line_buf c)"

definition peek_char :: "scanner_state \<Rightarrow> char" where
  "peek_char c = char_at (line_buf c) (line_pos c)"

definition peek_char2 :: "scanner_state \<Rightarrow> char" where
  "peek_char2 c = char_at (line_buf c) (line_pos c + 1)"

definition skip_chars :: "nat \<Rightarrow> scanner_state \<Rightarrow> scanner_state" where
  "skip_chars n c = c\<lparr>line_pos := line_pos c + n\<rparr>"

text \<open>\<^verbatim>\<open>next_char\<close> as a step of the position, which stops at the end of the line.\<close>

definition next_char :: "scanner_state \<Rightarrow> scanner_state" where
  "next_char c = (if line_pos c \<ge> length (line_buf c) then c else skip_chars 1 c)"

definition line_text :: "string \<Rightarrow> string" where
  "line_text l = (if l \<noteq> [] \<and> last l = NL then butlast l else l)"

definition maybe_snapshot_line :: "pstate \<Rightarrow> pstate" where
  "maybe_snapshot_line p =
     (if saved_line (mach p) = None
      then upd_mach (\<lambda>s. s\<lparr>saved_line :=
             Some (decimal (unat (line_no s)) @ '': '' @ line_text (line_buf (scan p)))\<rparr>) p
      else p)"

subsection \<open>Numbers\<close>

text \<open>The length of the floating-point literal a string starts with, or 0.\<close>

definition fp_exponent_length :: "string \<Rightarrow> nat" where
  "fp_exponent_length r =
     (case r of e # r1 \<Rightarrow>
        if e = CHR ''e'' \<or> e = CHR ''E''
        then (case r1 of g # r2 \<Rightarrow>
                if g = CHR ''+'' \<or> g = CHR ''-'' then 2 + length (takeWhile isdigit r2)
                else 1 + length (takeWhile isdigit r1)
              | [] \<Rightarrow> 1)
        else 0
      | [] \<Rightarrow> 0)"

definition scan_fp_check :: "string \<Rightarrow> nat" where
  "scan_fp_check r =
     (let d1 = takeWhile isdigit r
      in if d1 = [] then 0
         else case drop (length d1) r of
             [] \<Rightarrow> 0
           | sep # r2 \<Rightarrow>
               if sep \<noteq> CHR ''.'' \<and> sep \<noteq> CHR '','' \<and> sep \<noteq> APOS then 0
               else let d2 = takeWhile isdigit r2
                    in if d2 = [] then 0
                       else length d1 + 1 + length d2 + fp_exponent_length (drop (length d2) r2))"

text \<open>The first separator that is not a point becomes one.\<close>

fun normalize_separator :: "string \<Rightarrow> string" where
  "normalize_separator [] = []"
| "normalize_separator (c # cs) = (if c = CHR '','' \<or> c = APOS then CHR ''.'' # cs else c # normalize_separator cs)"

definition scan_fp :: "host \<Rightarrow> bool \<Rightarrow> nat \<Rightarrow> scan_token pcomp" where
  "scan_fp H negative len =
     bnd (gets (\<lambda>p. take (min len 63) (rest_of_line (scan p)))) (\<lambda>buf.
       seq (modify (upd_scan (skip_chars len)))
         (ret \<lparr>tok_type = TOK_FP,
               tok_val = SV_Fp (fmul_d H (if negative then 0xbff0000000000000 else 0x3ff0000000000000)
                          (parse_double H (map of_char (normalize_separator buf))))\<rparr>))"

definition hex_value :: "string \<Rightarrow> 32 word" where
  "hex_value ds = fold (\<lambda>c v. push_bit 4 v OR xdigit_value c) ds 0"

definition dec_value :: "string \<Rightarrow> 32 word" where
  "dec_value ds = fold (\<lambda>c v. v * 10 + (of_char c - of_char CHR ''0'')) ds 0"

definition scan_int :: "bool \<Rightarrow> scan_token pcomp" where
  "scan_int negative =
     bnd (gets scan) (\<lambda>c.
       if peek_char c = CHR ''0'' \<and> (peek_char2 c = CHR ''x'' \<or> peek_char2 c = CHR ''X'')
       then let ds = takeWhile isxdigit (drop 2 (rest_of_line c)); v = hex_value ds
            in seq (modify (upd_scan (skip_chars (2 + length ds))))
                 (ret \<lparr>tok_type = TOK_INT, tok_val = SV_Int (if negative then - v else v)\<rparr>)
       else let ds = takeWhile isdigit (rest_of_line c); v = dec_value ds
            in seq (modify (upd_scan (skip_chars (length ds))))
                 (ret \<lparr>tok_type = TOK_INT, tok_val = SV_Int (if negative then - v else v)\<rparr>))"

subsection \<open>Escapes\<close>

text \<open>
  \<^verbatim>\<open>scan_escape_char\<close> at the rest of the line: the character and the number of characters used.
  It reads two hexadecimal digits without looking for the end of the buffer; a read behind the
  terminator has no defined value and is a crash of the model.
\<close>

definition bad_hex :: "machine \<Rightarrow> machine" where
  "bad_hex = error_text ''Bad character in %s construct in char literal'' (BSLASH # ''X'')"

definition hex_pair :: "char \<Rightarrow> char \<Rightarrow> 32 word" where
  "hex_pair hi lo = push_bit 4 (if isxdigit hi then xdigit_value hi else 0) OR (if isxdigit lo then xdigit_value lo else 0)"

definition scan_escape_char :: "string \<Rightarrow> (32 word \<times> nat) pcomp" where
  "scan_escape_char r =
     (let first = char_at r 0
      in if first = CHR ''a'' then ret (7, 1) else if first = CHR ''b'' then ret (8, 1)
         else if first = CHR ''f'' then ret (12, 1) else if first = CHR ''n'' then ret (10, 1)
         else if first = CHR ''r'' then ret (13, 1) else if first = CHR ''t'' then ret (9, 1)
         else if first = BSLASH then ret (92, 1) else if first = QUOTE then ret (34, 1)
         else if first = APOS then ret (39, 1)
         else if first = CHR ''X'' \<or> first = CHR ''x''
         then (if length r < 2 then throw Crash
               else let hi = char_at r 1; lo = char_at r 2
                    in seq (whn (\<not> isxdigit hi) (modify (upd_mach bad_hex)))
                      (seq (whn (\<not> isxdigit lo) (modify (upd_mach bad_hex)))
                        (ret (hex_pair hi lo, 3))))
         else seq (modify (upd_mach (error_text ''Bad escape character %s in char literal'' [BSLASH, first])))
                (ret (0, 1)))"

text \<open>
  \<^verbatim>\<open>decode_string\<close>: the decoded characters and the number of error messages. An octal or
  hexadecimal escape needs all its characters before the end.
\<close>

definition is_octal :: "char \<Rightarrow> bool" where
  "is_octal c = in_range CHR ''0'' CHR ''7'' c"

definition octal_char :: "char \<Rightarrow> char \<Rightarrow> char \<Rightarrow> char" where
  "octal_char n c2 c3 = char_of (64 * digit_value n + (if is_octal c2 then 8 * digit_value c2 else 0)
     + (if is_octal c3 then digit_value c3 else 0) :: nat)"

fun decode_string :: "string \<Rightarrow> string \<times> nat" where
  "decode_string [] = ([], 0)"
| "decode_string [c] = ([c], 0)"
| "decode_string (c # n # r) =
    (if c \<noteq> BSLASH then apfst ((#) c) (decode_string (n # r))
     else if n = CHR ''n'' then apfst ((#) NL) (decode_string r)
     else if n = CHR ''t'' then apfst ((#) TAB) (decode_string r)
     else if n = QUOTE then apfst ((#) QUOTE) (decode_string r)
     else if in_range CHR ''0'' CHR ''3'' n
     then (case r of c2 # c3 # r' \<Rightarrow>
             (let (d, e) = decode_string r'
              in (octal_char n c2 c3 # d, (if is_octal c2 then 0 else 1) + (if is_octal c3 then 0 else 1) + e))
           | _ \<Rightarrow> apfst ((#) c) (decode_string (n # r)))
     else if n = CHR ''X''
     then (case r of c2 # c3 # r' \<Rightarrow>
             (let (d, e) = decode_string r'
              in (char_of (unat (hex_pair c2 c3)) # d,
                  (if isxdigit c2 then 0 else 1) + (if isxdigit c3 then 0 else 1) + e))
           | _ \<Rightarrow> apfst ((#) c) (decode_string (n # r)))
     else apfst ((#) c) (decode_string (n # r)))"

subsection \<open>Identifiers, registers and literals\<close>

definition ident_char :: "char \<Rightarrow> bool" where
  "ident_char c \<longleftrightarrow> c = CHR ''_'' \<or> c = CHR ''.'' \<or> isalnum c"

definition int_token :: "32 word \<Rightarrow> scan_token" where
  "int_token v = \<lparr>tok_type = TOK_INT, tok_val = SV_Int v\<rparr>"

text \<open>A name that is no keyword: the value of a constant label, or an identifier.\<close>

definition name_token :: "string \<Rightarrow> scan_token pcomp" where
  "name_token name =
     bnd (on_mach (label_is_defined name)) (\<lambda>l. case l of
       None \<Rightarrow> ret \<lparr>tok_type = TOK_ID, tok_val = SV_Str name\<rparr>
     | Some q \<Rightarrow> bnd (on_mach (deref_label (Some q))) (\<lambda>lb.
         ret (if const_flag lb then int_token (ucast (label_addr lb))
              else \<lparr>tok_type = TOK_ID, tok_val = SV_Str name\<rparr>)))"

definition scan_identifier :: "bool \<Rightarrow> scan_token pcomp" where
  "scan_identifier force_id =
     bnd (gets (\<lambda>p. takeWhile ident_char (rest_of_line (scan p)))) (\<lambda>word.
       seq (modify (upd_scan (skip_chars (length word))))
        (let id_buf = take 255 word
         in bnd (gets (\<lambda>p. \<not> bare_machine (mach p) \<and> accept_pseudo_insts (mach p))) (\<lambda>allow.
              let token = check_keyword id_buf allow
              in if \<not> force_id \<and> token \<noteq> 0
                 then ret \<lparr>tok_type = token, tok_val = SV_Int (word_of_int token)\<rparr>
                 else name_token id_buf)))"

definition register_char :: "char \<Rightarrow> bool" where
  "register_char c \<longleftrightarrow> ident_char c \<or> c = CHR ''$''"

definition scan_register :: "scan_token pcomp" where
  "scan_register =
     seq (modify (upd_scan next_char))
      (bnd (gets (\<lambda>p. takeWhile register_char (rest_of_line (scan p)))) (\<lambda>word.
        seq (modify (upd_scan (skip_chars (length word))))
         (let reg_buf = take 63 word; reg = register_name_to_number reg_buf
          in if reg \<noteq> -1 \<and> char_at reg_buf 0 = CHR ''f'' \<and> char_at reg_buf 1 \<noteq> CHR ''p''
             then ret \<lparr>tok_type = TOK_FP_REG, tok_val = SV_Int (word_of_int reg)\<rparr>
             else if reg \<ge> 0 \<and> reg < 32
             then ret \<lparr>tok_type = TOK_REG, tok_val = SV_Int (word_of_int reg)\<rparr>
             else name_token reg_buf)))"

text \<open>The length of the text of a string literal: up to a quote that is not escaped.\<close>

fun string_length :: "string \<Rightarrow> nat" where
  "string_length [] = 0"
| "string_length [c] = (if c = QUOTE then 0 else 1)"
| "string_length (c # d # r) =
     (if c = QUOTE then 0 else if c = BSLASH then 2 + string_length r else 1 + string_length (d # r))"

fun errors_out :: "nat \<Rightarrow> string \<Rightarrow> string \<Rightarrow> machine \<Rightarrow> machine" where
  "errors_out 0 fmt t s = s"
| "errors_out (Suc n) fmt t s = errors_out n fmt t (error_text fmt t s)"

definition scan_string :: "scan_token pcomp" where
  "scan_string =
     seq (modify (upd_scan next_char))
      (bnd (gets (\<lambda>p. rest_of_line (scan p))) (\<lambda>r.
        let n = string_length r; (str, errs) = decode_string (take n r)
        in seq (modify (upd_scan (skip_chars n)))
          (seq (modify (upd_scan (\<lambda>c. if peek_char c = QUOTE then next_char c else c)))
          (seq (modify (upd_mach (errors_out errs ''Bad character in %s construct in string'' ''escape'')))
            (ret \<lparr>tok_type = TOK_STR, tok_val = SV_Str str\<rparr>)))))"

definition close_char :: "32 word \<Rightarrow> scan_token pcomp" where
  "close_char v =
     seq (modify (upd_scan (\<lambda>c. if peek_char c = APOS then next_char c else c))) (ret (int_token v))"

definition scan_char :: "scan_token pcomp" where
  "scan_char =
     seq (modify (upd_scan next_char))
      (bnd (gets scan) (\<lambda>c.
        if peek_char c = BSLASH
        then bnd (scan_escape_char (drop 1 (rest_of_line c))) (\<lambda>(v, n).
               seq (modify (upd_scan (skip_chars (1 + n)))) (close_char v))
        else seq (modify (upd_scan next_char)) (close_char (of_char (peek_char c)))))"

subsection \<open>One token\<close>

text \<open>How many characters of a line are blank: white space, commas, a comment.\<close>

fun blank_prefix :: "string \<Rightarrow> nat" where
  "blank_prefix [] = 0"
| "blank_prefix (c # cs) =
     (if c = CHR '' '' \<or> c = TAB \<or> c = CHR 0x0D \<or> c = CHR '','' then Suc (blank_prefix cs)
      else if c = CHR ''#'' then length (takeWhile (\<lambda>x. x \<noteq> NL) (c # cs))
      else 0)"

lemma fgets_append: "fst (fgets n cs) @ snd (fgets n cs) = cs"
  by (induction n cs rule: fgets.induct) (auto split: prod.split)

lemma fgets_shorter: "0 < n \<Longrightarrow> cs \<noteq> [] \<Longrightarrow> length (snd (fgets n cs)) < length cs"
proof (cases n; cases cs)
  fix m c ds assume "n = Suc m" "cs = c # ds"
  moreover have "length (snd (fgets m ds)) \<le> length ds"
    by (metis fgets_append length_append le_add2)
  ultimately show ?thesis by (auto split: prod.split)
qed simp_all

text \<open>The loop to the next character: whether there is one, and the line it is in.\<close>

function skip_to_char :: "scanner_state \<Rightarrow> bool \<times> bool \<times> scanner_state" where
  "skip_to_char c =
     (let c1 = skip_chars (blank_prefix (rest_of_line c)) c
      in if line_pos c1 < length (line_buf c1) then (True, False, c1)
         else if at_eof c1 then (False, False, c1)
         else let c2 = fill_line_buf c1
              in if at_eof c2 \<and> line_buf c2 = [] then (False, False, c2)
                 else (let (found, _, c3) = skip_to_char c2 in (found, True, c3)))"
  by pat_completeness auto
termination
proof (relation "measure (\<lambda>c. length (input_file c))", goal_cases)
  case (2 c c1 c2)
  then have "\<not> at_eof c" by (simp add: skip_chars_def)
  moreover have "input_file c \<noteq> []"
  proof
    assume "input_file c = []"
    with \<open>\<not> at_eof c\<close> 2 show False by (simp add: fill_line_buf_def skip_chars_def)
  qed
  ultimately show ?case using 2 fgets_shorter [of "LINE_BUF_MAX - 1" "input_file c"]
    by (auto simp: fill_line_buf_def skip_chars_def Let_def split: prod.split)
qed simp

declare skip_to_char.simps [simp del]

definition plain_token :: "int \<Rightarrow> 32 word \<Rightarrow> scan_token" where
  "plain_token t v = \<lparr>tok_type = t, tok_val = SV_Int v\<rparr>"

definition is_punctuation :: "char \<Rightarrow> bool" where
  "is_punctuation c \<longleftrightarrow> c \<in> set ''*/:()+->=''"

definition scan_number :: "host \<Rightarrow> bool \<Rightarrow> scan_token pcomp" where
  "scan_number H negative =
     bnd (gets (\<lambda>p. scan_fp_check (rest_of_line (scan p)))) (\<lambda>n.
       if n > 0 then scan_fp H negative n else scan_int negative)"

definition scan_at :: "host \<Rightarrow> bool \<Rightarrow> scan_token pcomp" where
  "scan_at H force_id =
     bnd (gets (\<lambda>p. (peek_char (scan p), peek_char2 (scan p)))) (\<lambda>(c, c2).
       if c = NL
       then seq (modify (upd_scan next_char))
           (seq (modify (upd_mach (\<lambda>s. s\<lparr>line_no := line_no s + 1\<rparr>))) (ret (plain_token TOK_NL 0)))
       else if c = CHR '';'' then seq (modify (upd_scan next_char)) (ret (plain_token TOK_NL 0))
       else seq (modify maybe_snapshot_line)
        (if c = CHR ''-'' \<and> isdigit c2 then seq (modify (upd_scan next_char)) (scan_number H True)
         else if isdigit c then scan_number H False
         else if c = CHR ''_'' \<or> c = CHR ''.'' \<or> isalpha c then scan_identifier force_id
         else if c = CHR ''$'' then scan_register
         else if c = QUOTE then scan_string
         else if c = APOS then scan_char
         else if c = CHR ''?''
         then seq (modify (upd_scan next_char)) (ret \<lparr>tok_type = TOK_ID, tok_val = SV_Str ''?''\<rparr>)
         else if is_punctuation c
         then seq (modify (upd_scan next_char)) (ret (plain_token (of_char c) (of_char c)))
         else seq (modify (upd_scan next_char))
           (seq (modify (upd_mach (error_text ''Unknown character in source: %c'' [c]))) (ret (plain_token TOK_NL 0)))))"

definition scan_one_token :: "host \<Rightarrow> scan_token pcomp" where
  "scan_one_token H =
     bnd (gets (\<lambda>p. force_id_next (scan p))) (\<lambda>force_id.
       bnd (gets (\<lambda>p. skip_to_char ((scan p)\<lparr>force_id_next := False\<rparr>))) (\<lambda>(found, new_line, c).
         seq (modify (\<lambda>p. (upd_mach (\<lambda>s. if new_line then s\<lparr>saved_line := None\<rparr> else s) p)\<lparr>scan := c\<rparr>))
           (if found then scan_at H force_id else ret (plain_token TOK_EOF 0))))"

subsection \<open>Lookahead\<close>

text \<open>The token buffer holds the tokens present, in order; at most two are filled.\<close>

fun ensure_filled :: "host \<Rightarrow> nat \<Rightarrow> unit pcomp" where
  "ensure_filled H 0 = ret ()"
| "ensure_filled H (Suc n) =
     seq (ensure_filled H n)
      (bnd (gets (\<lambda>p. length (tok_buf (scan p)))) (\<lambda>k.
        whn (k \<le> n) (bnd (scan_one_token H) (\<lambda>t.
          modify (upd_scan (\<lambda>c. c\<lparr>tok_buf := tok_buf c @ [t]\<rparr>))))))"

definition scanner_peek :: "host \<Rightarrow> int pcomp" where
  "scanner_peek H = seq (ensure_filled H 1) (gets (\<lambda>p. tok_type (tok_buf (scan p) ! 0)))"

definition scanner_peek2 :: "host \<Rightarrow> int pcomp" where
  "scanner_peek2 H = seq (ensure_filled H 2) (gets (\<lambda>p. tok_type (tok_buf (scan p) ! 1)))"

definition has_value :: "int \<Rightarrow> bool" where
  "has_value t \<longleftrightarrow> t \<in> set [TOK_INT, TOK_ID, TOK_REG, TOK_FP_REG, TOK_STR, TOK_FP]"

definition scanner_advance :: "host \<Rightarrow> int pcomp" where
  "scanner_advance H =
     seq (ensure_filled H 1)
      (bnd (gets (\<lambda>p. tok_buf (scan p) ! 0)) (\<lambda>t.
        seq (modify (\<lambda>p. (upd_scan (\<lambda>c. c\<lparr>tok_buf := tl (tok_buf c)\<rparr>) p)
               \<lparr>scan_value := if has_value (tok_type t) then tok_val t else scan_value p\<rparr>))
          (ret (tok_type t))))"

subsection \<open>Nested input\<close>

abbreviation SCANNER_STACK_DEPTH :: nat where "SCANNER_STACK_DEPTH \<equiv> 8"

definition scanner_push_source :: "string \<Rightarrow> unit pcomp" where
  "scanner_push_source file =
     bnd (gets (\<lambda>p. length (scanner_stack p))) (\<lambda>n.
       if n \<ge> SCANNER_STACK_DEPTH
       then throw (Fatal_Error ''scanner_push_source: nested scanner stack overflow'')
       else modify (\<lambda>p. scanner_init file
              (p\<lparr>scanner_stack := (scan p, line_no (mach p), saved_line (mach p)) # scanner_stack p\<rparr>)))"

definition scanner_pop_source :: "pstate \<Rightarrow> pstate" where
  "scanner_pop_source p =
     (case scanner_stack p of
        [] \<Rightarrow> p
      | (c, ln, sl) # st \<Rightarrow> p\<lparr>scan := c, scanner_stack := st,
          mach := (mach p)\<lparr>line_no := ln, saved_line := sl\<rparr>\<rparr>)"

end
