(* ===== verification/Pseudo.thy ===== *)
theory Pseudo
  imports Scanner
begin

text \<open>
  Building the tree: the dispatch helpers of \<^verbatim>\<open>parser.c\<close> (\<^verbatim>\<open>emit_r\<close> and its kin append a node to the
  pseudo-instruction being expanded, or to the file) and the expansions of \<^verbatim>\<open>pseudo-op.c\<close>.
\<close>

subsection \<open>Appending nodes\<close>

definition ast_append :: "ast_node \<Rightarrow> pstate \<Rightarrow> pstate" where
  "ast_append node p =
     (case current_pseudo p of
        Some ps \<Rightarrow> p\<lparr>current_pseudo := Some (ast_pseudo_append ps node)\<rparr>
      | None \<Rightarrow> (case current_file p of
            Some f \<Rightarrow> p\<lparr>current_file := Some (ast_file_append f node)\<rparr>
          | None \<Rightarrow> p))"

definition emit_r :: "int \<Rightarrow> 32 word \<Rightarrow> 32 word \<Rightarrow> 32 word \<Rightarrow> pstate \<Rightarrow> pstate" where
  "emit_r op rd rs rt p = ast_append (ast_make_inst_r op rd rs rt (mach p)) p"

definition emit_r_shift :: "int \<Rightarrow> 32 word \<Rightarrow> 32 word \<Rightarrow> 32 word \<Rightarrow> pstate \<Rightarrow> pstate" where
  "emit_r_shift op rd rt shamt p = ast_append (ast_make_inst_r_shift op rd rt shamt (mach p)) p"

definition emit_i :: "int \<Rightarrow> 32 word \<Rightarrow> 32 word \<Rightarrow> imm_expr \<Rightarrow> pstate \<Rightarrow> pstate" where
  "emit_i op rt rs imm p = ast_append (ast_make_inst_i op rt rs imm (mach p)) p"

definition emit_j :: "int \<Rightarrow> imm_expr \<Rightarrow> pstate \<Rightarrow> pstate" where
  "emit_j op target p = ast_append (ast_make_inst_j op target (mach p)) p"

definition emit_fp_r :: "int \<Rightarrow> 32 word \<Rightarrow> 32 word \<Rightarrow> 32 word \<Rightarrow> pstate \<Rightarrow> pstate" where
  "emit_fp_r op fd fs ft p = ast_append (ast_make_inst_fp_r op fd fs ft (mach p)) p"

definition emit_fp_compare :: "int \<Rightarrow> 32 word \<Rightarrow> 32 word \<Rightarrow> 32 word \<Rightarrow> pstate \<Rightarrow> pstate" where
  "emit_fp_compare op fs ft cc p = ast_append (ast_make_inst_fp_compare op fs ft cc (mach p)) p"

subsection \<open>Expansions\<close>

definition nop_inst :: "pstate \<Rightarrow> pstate" where
  "nop_inst = emit_r TOK_SLL_OPCODE 0 0 0"

definition trap_inst :: "pstate \<Rightarrow> pstate" where
  "trap_inst = emit_r TOK_BREAK_OPCODE 0 0 0"

definition branch_offset :: "32 word \<Rightarrow> imm_expr" where
  "branch_offset n_inst = const_imm_expr (push_bit 2 n_inst)"

text \<open>The steps of an expansion, in order.\<close>

definition emits :: "(pstate \<Rightarrow> pstate) list \<Rightarrow> pstate \<Rightarrow> pstate" where
  "emits fs p = fold (\<lambda>f p. f p) fs p"

definition div_inst :: "int \<Rightarrow> 32 word \<Rightarrow> 32 word \<Rightarrow> 32 word \<Rightarrow> bool \<Rightarrow> pstate \<Rightarrow> pstate" where
  "div_inst op rd rs rt const_divisor = emits (
     (if rd \<noteq> 0 \<and> \<not> const_divisor
      then [emit_i TOK_BNE_OPCODE 0 rt (branch_offset 3), nop_inst, trap_inst] else []) @
     [if op = TOK_DIV_OPCODE \<or> op = TOK_REM_PSEUDO_OP then emit_r TOK_DIV_OPCODE 0 rs rt
      else emit_r TOK_DIVU_OPCODE 0 rs rt] @
     (if rd \<noteq> 0
      then [if op = TOK_DIV_OPCODE \<or> op = TOK_DIVU_OPCODE then emit_r TOK_MFLO_OPCODE rd 0 0
            else emit_r TOK_MFHI_OPCODE rd 0 0] else []))"

definition mult_inst :: "int \<Rightarrow> 32 word \<Rightarrow> 32 word \<Rightarrow> 32 word \<Rightarrow> pstate \<Rightarrow> pstate" where
  "mult_inst op rd rs rt = emits (
     [if op = TOK_MULOU_PSEUDO_OP then emit_r TOK_MULTU_OPCODE 0 rs rt else emit_r TOK_MULT_OPCODE 0 rs rt] @
     (if op = TOK_MULOU_PSEUDO_OP \<and> rd \<noteq> 0
      then [emit_r TOK_MFHI_OPCODE 1 0 0, emit_i TOK_BEQ_OPCODE 0 1 (branch_offset 3), nop_inst, trap_inst]
      else if op = TOK_MULO_PSEUDO_OP \<and> rd \<noteq> 0
      then [emit_r TOK_MFHI_OPCODE 1 0 0, emit_r TOK_MFLO_OPCODE rd 0 0, emit_r_shift TOK_SRA_OPCODE rd rd 31,
            emit_i TOK_BEQ_OPCODE rd 1 (branch_offset 3), nop_inst, trap_inst]
      else []) @
     (if rd \<noteq> 0 then [emit_r TOK_MFLO_OPCODE rd 0 0] else []))"

definition set_le_inst :: "int \<Rightarrow> 32 word \<Rightarrow> 32 word \<Rightarrow> 32 word \<Rightarrow> pstate \<Rightarrow> pstate" where
  "set_le_inst op rd rs rt = emits
     [emit_i TOK_BNE_OPCODE rs rt (branch_offset 3), emit_i TOK_ORI_OPCODE rd 0 (const_imm_expr 1),
      emit_i TOK_BEQ_OPCODE 0 0 (branch_offset 3), nop_inst,
      emit_r (if op = TOK_SLE_PSEUDO_OP then TOK_SLT_OPCODE else TOK_SLTU_OPCODE) rd rs rt]"

definition set_gt_inst :: "int \<Rightarrow> 32 word \<Rightarrow> 32 word \<Rightarrow> 32 word \<Rightarrow> pstate \<Rightarrow> pstate" where
  "set_gt_inst op rd rs rt = emit_r (if op = TOK_SGT_PSEUDO_OP then TOK_SLT_OPCODE else TOK_SLTU_OPCODE) rd rt rs"

definition set_ge_inst :: "int \<Rightarrow> 32 word \<Rightarrow> 32 word \<Rightarrow> 32 word \<Rightarrow> pstate \<Rightarrow> pstate" where
  "set_ge_inst op rd rs rt = emits
     [emit_i TOK_BNE_OPCODE rs rt (branch_offset 3), emit_i TOK_ORI_OPCODE rd 0 (const_imm_expr 1),
      emit_i TOK_BEQ_OPCODE 0 0 (branch_offset 3), nop_inst,
      emit_r (if op = TOK_SGE_PSEUDO_OP then TOK_SLT_OPCODE else TOK_SLTU_OPCODE) rd rt rs]"

definition set_eq_inst :: "int \<Rightarrow> 32 word \<Rightarrow> 32 word \<Rightarrow> 32 word \<Rightarrow> pstate \<Rightarrow> pstate" where
  "set_eq_inst op rd rs rt =
     (let if_eq = const_imm_expr (if op = TOK_SEQ_PSEUDO_OP then 1 else 0);
          if_neq = const_imm_expr (if op = TOK_SEQ_PSEUDO_OP then 0 else 1)
      in emits [emit_i TOK_BEQ_OPCODE rs rt (branch_offset 3), emit_i TOK_ORI_OPCODE rd 0 if_neq,
           emit_i TOK_BEQ_OPCODE 0 0 (branch_offset 3), nop_inst, emit_i TOK_ORI_OPCODE rd 0 if_eq])"

subsection \<open>Range checks\<close>

definition check_imm_range :: "imm_expr \<Rightarrow> 32 word \<Rightarrow> 32 word \<Rightarrow> unit mcomp" where
  "check_imm_range e lo hi =
     bnd (symbol_known (expr_symbol e)) (\<lambda>known. whn known (bnd (eval_imm_expr e) (\<lambda>v.
       whn (v <s lo \<or> hi <s v)
         (modify (error_out ''spim: (parser) immediate value (%d) out of range (%d .. %d) on line %d'' [v, lo, hi])))))"

definition check_uimm_range :: "imm_expr \<Rightarrow> 32 word \<Rightarrow> 32 word \<Rightarrow> unit mcomp" where
  "check_uimm_range e lo hi =
     bnd (symbol_known (expr_symbol e)) (\<lambda>known. whn known (bnd (eval_imm_expr e) (\<lambda>v.
       whn (v < lo \<or> hi < v)
         (modify (error_out ''spim: (parser) immediate value (%d) out of range (%d .. %d) on line %d'' [v, lo, hi])))))"

end
