(* ===== verification/AstPrint.thy ===== *)
theory AstPrint
  imports Scanner
begin

text \<open>
  The printers of the syntax tree (\<^verbatim>\<open>ast.c\<close>: the indented dump, the JSON dump; \<^verbatim>\<open>parser.c\<close>: the
  pseudo-instructions with their expansions). Each gives the text it writes; the name of a symbol is
  read from the symbol table, and doubles are written by \<^verbatim>\<open>printf\<close>.
\<close>

subsection \<open>Common parts\<close>

definition expr_name :: "imm_expr \<Rightarrow> string option mcomp" where
  "expr_name e =
     (case expr_symbol e of
        None \<Rightarrow> ret None
      | Some q \<Rightarrow> bnd (deref_label (Some q)) (\<lambda>l. ret (Some (label_name l))))"

text \<open>The loops over an array: the texts of the elements, and their concatenation with a separator.\<close>

fun texts :: "('a \<Rightarrow> string mcomp) \<Rightarrow> 'a list \<Rightarrow> string list mcomp" where
  "texts f [] = ret []"
| "texts f (x # xs) = bnd (f x) (\<lambda>t. bnd (texts f xs) (\<lambda>ts. ret (t # ts)))"

fun joined :: "string \<Rightarrow> string list \<Rightarrow> string" where
  "joined sep [] = []"
| "joined sep [t] = t"
| "joined sep (t # ts) = t @ sep @ joined sep ts"

text \<open>The fields \<open>name=value\<close> and \<open>,"name":value\<close> of words.\<close>

definition word_field :: "string \<Rightarrow> 32 word \<Rightarrow> string" where
  "word_field name w = '' '' @ name @ ''='' @ fmt_int w"

definition fmt_length :: "'a list \<Rightarrow> string" where
  "fmt_length xs = decimal (length xs)"

subsection \<open>The indented dump\<close>

definition indent :: "nat \<Rightarrow> string" where
  "indent depth = concat (replicate depth ''  '')"

definition print_imm :: "imm_expr \<Rightarrow> string mcomp" where
  "print_imm e =
     bnd (expr_name e) (\<lambda>name. ret (case name of
         Some t \<Rightarrow> t @ (if 0 <s expr_offset e then ''+'' @ fmt_int (expr_offset e) else []) @
           (if expr_offset e <s 0 then fmt_int (expr_offset e) else []) @
           (if expr_pc_relative e then '' (pc-rel)'' else [])
       | None \<Rightarrow> fmt_int (expr_offset e)))"

definition print_values :: "string \<Rightarrow> nat \<Rightarrow> string list \<Rightarrow> string" where
  "print_values tag n vs = tag @ '' count='' @ decimal n @ '' values=['' @ joined '', '' vs @ '']''"

definition print_char :: "byte \<Rightarrow> string" where
  "print_char b =
     (let c = char_of (unat b) :: char
      in if c = NL then [BSLASH, CHR ''n'']
         else if c = TAB then [BSLASH, CHR ''t'']
         else if c = BSLASH \<or> c = QUOTE then [BSLASH, c]
         else if 0x20 \<le> b \<and> b < 0x7f then [c]
         else [BSLASH, CHR ''x''] @ pad_left 2 CHR ''0'' (hexadecimal (unat b)))"

fun seg_tag :: "ast_seg_kind \<Rightarrow> string" where
  "seg_tag AST_DIR_TEXT = ''DIR_TEXT''"
| "seg_tag AST_DIR_DATA = ''DIR_DATA''"
| "seg_tag AST_DIR_KTEXT = ''DIR_KTEXT''"
| "seg_tag AST_DIR_KDATA = ''DIR_KDATA''"

text \<open>The line of a node without children, after its line number.\<close>

fun print_leaf :: "host \<Rightarrow> ast_node \<Rightarrow> string mcomp" where
  "print_leaf H (AST_INST_R _ op rd rs rt) =
     ret (''INST_R op='' @ fmt_d op @ word_field ''rd'' rd @ word_field ''rs'' rs @ word_field ''rt'' rt)"
| "print_leaf H (AST_INST_R_SHIFT _ op rd rt shamt) =
     ret (''INST_R_SHIFT op='' @ fmt_d op @ word_field ''rd'' rd @ word_field ''rt'' rt @ word_field ''shamt'' shamt)"
| "print_leaf H (AST_INST_I _ op rt rs imm) = bnd (print_imm imm) (\<lambda>t.
     ret (''INST_I op='' @ fmt_d op @ word_field ''rt'' rt @ word_field ''rs'' rs @ '' imm='' @ t))"
| "print_leaf H (AST_INST_J _ op target) = bnd (print_imm target) (\<lambda>t. ret (''INST_J op='' @ fmt_d op @ '' target='' @ t))"
| "print_leaf H (AST_INST_FP_R _ op fd fs ft) =
     ret (''INST_FP_R op='' @ fmt_d op @ word_field ''fd'' fd @ word_field ''fs'' fs @ word_field ''ft'' ft)"
| "print_leaf H (AST_INST_FP_COMPARE _ op fs ft cc) =
     ret (''INST_FP_COMPARE op='' @ fmt_d op @ word_field ''fs'' fs @ word_field ''ft'' ft @ word_field ''cc'' cc)"
| "print_leaf H (AST_DATA_BYTE _ es) = bnd (texts print_imm es) (\<lambda>ts. ret (print_values ''DATA_BYTE'' (length es) ts))"
| "print_leaf H (AST_DATA_HALF _ es) = bnd (texts print_imm es) (\<lambda>ts. ret (print_values ''DATA_HALF'' (length es) ts))"
| "print_leaf H (AST_DATA_WORD _ es) = bnd (texts print_imm es) (\<lambda>ts. ret (print_values ''DATA_WORD'' (length es) ts))"
| "print_leaf H (AST_DATA_FLOAT _ vs) = ret (print_values ''DATA_FLOAT'' (length vs) (map (printf_g H ''%g'') vs))"
| "print_leaf H (AST_DATA_DOUBLE _ vs) = ret (print_values ''DATA_DOUBLE'' (length vs) (map (printf_g H ''%g'') vs))"
| "print_leaf H (AST_DATA_STRING _ bytes nul) =
     ret (''DATA_STRING len='' @ fmt_length bytes @ '' null_term='' @ (if nul then ''yes'' else ''no'') @ '' value='' @
       [QUOTE] @ concat (map print_char bytes) @ [QUOTE])"
| "print_leaf H (AST_DIR_SEG _ kind has_addr addr) = ret (seg_tag kind @ (if has_addr then '' start='' @ fmt_0x addr else []))"
| "print_leaf H (AST_DIR_ALIGN _ n) = ret (''DIR_ALIGN'' @ word_field ''n'' n)"
| "print_leaf H (AST_DIR_SPACE _ sz) = ret (''DIR_SPACE'' @ word_field ''size'' sz)"
| "print_leaf H (AST_DIR_GLOBL _ name) = ret (''DIR_GLOBL name='' @ name)"
| "print_leaf H (AST_DIR_EXTERN _ name sz) = ret (''DIR_EXTERN name='' @ name @ word_field ''size'' sz)"
| "print_leaf H (AST_DIR_COMM _ name sz) = ret (''DIR_COMM name='' @ name @ word_field ''size'' sz)"
| "print_leaf H (AST_LABEL_DEF _ kind name v) =
     ret (''LABEL_DEF name='' @ name @ (if kind = AST_LABEL_NORMAL then '' (placement)'' else '' = '' @ fmt_int v @ '' (constant)''))"
| "print_leaf H (AST_ERROR _ message) = ret (''ERROR '' @ (case message of Some m \<Rightarrow> m | None \<Rightarrow> ''(no message)''))"
| "print_leaf H (AST_PSEUDO _ mnemonic _) = ret (''PSEUDO mnemonic='' @ mnemonic)"
| "print_leaf H (AST_FILE _ file _) = ret (''FILE source='' @ (case file of Some f \<Rightarrow> f | None \<Rightarrow> ''(stdin)''))"

fun children :: "ast_node \<Rightarrow> ast_node list" where
  "children (AST_PSEUDO _ _ cs) = cs"
| "children (AST_FILE _ _ cs) = cs"
| "children _ = []"

definition print_head :: "host \<Rightarrow> ast_node \<Rightarrow> nat \<Rightarrow> string mcomp" where
  "print_head H n depth =
     bnd (print_leaf H n) (\<lambda>t. ret (indent depth @ ''[line '' @ fmt_int (source_line (node_header n)) @ ''] '' @ t @ [NL]))"

fun print_node :: "host \<Rightarrow> ast_node \<Rightarrow> nat \<Rightarrow> string mcomp"
  and print_chain :: "host \<Rightarrow> ast_node list \<Rightarrow> nat \<Rightarrow> string mcomp" where
  "print_node H (AST_PSEUDO h m cs) depth =
     bnd (print_head H (AST_PSEUDO h m cs) depth) (\<lambda>t. bnd (print_chain H cs (depth + 1)) (\<lambda>u. ret (t @ u)))"
| "print_node H (AST_FILE h f cs) depth =
     bnd (print_head H (AST_FILE h f cs) depth) (\<lambda>t. bnd (print_chain H cs (depth + 1)) (\<lambda>u. ret (t @ u)))"
| "print_node H n depth = print_head H n depth"
| "print_chain H [] depth = ret []"
| "print_chain H (n # ns) depth = bnd (print_node H n depth) (\<lambda>t. bnd (print_chain H ns depth) (\<lambda>u. ret (t @ u)))"

definition ast_print :: "host \<Rightarrow> ast_node \<Rightarrow> string mcomp" where
  "ast_print H n = print_node H n 0"

fun print_pseudo_walk :: "host \<Rightarrow> ast_node \<Rightarrow> string mcomp"
  and print_pseudo_in_chain :: "host \<Rightarrow> ast_node list \<Rightarrow> string mcomp" where
  "print_pseudo_walk H (AST_PSEUDO h m cs) = ast_print H (AST_PSEUDO h m cs)"
| "print_pseudo_walk H (AST_FILE h f cs) = print_pseudo_in_chain H cs"
| "print_pseudo_walk H n = ret []"
| "print_pseudo_in_chain H [] = ret []"
| "print_pseudo_in_chain H (n # ns) =
     bnd (print_pseudo_walk H n) (\<lambda>t. bnd (print_pseudo_in_chain H ns) (\<lambda>u. ret (t @ u)))"

subsection \<open>JSON\<close>

definition json_char :: "char \<Rightarrow> string" where
  "json_char c =
     (if c = QUOTE then [BSLASH, QUOTE]
      else if c = BSLASH then [BSLASH, BSLASH]
      else if c = NL then [BSLASH, CHR ''n'']
      else if c = CHR 0x0D then [BSLASH, CHR ''r'']
      else if c = TAB then [BSLASH, CHR ''t'']
      else if c = CHR 0x08 then [BSLASH, CHR ''b'']
      else if c = CHR 0x0C then [BSLASH, CHR ''f'']
      else if (of_char c :: nat) < 0x20 then [BSLASH, CHR ''u''] @ pad_left 4 CHR ''0'' (hexadecimal (of_char c))
      else [c])"

definition json_escape_string :: "string \<Rightarrow> string" where
  "json_escape_string t = [QUOTE] @ concat (map json_char t) @ [QUOTE]"

definition json_bool :: "bool \<Rightarrow> string" where
  "json_bool b = (if b then ''true'' else ''false'')"

definition json_key :: "string \<Rightarrow> string" where
  "json_key name = '','' @ [QUOTE] @ name @ [QUOTE] @ '':''"

definition json_imm :: "imm_expr \<Rightarrow> string mcomp" where
  "json_imm e =
     bnd (expr_name e) (\<lambda>name. ret (
       ''{'' @ [QUOTE] @ ''offset'' @ [QUOTE] @ '':'' @ fmt_int (expr_offset e) @
       json_key ''symbol'' @ (case name of Some t \<Rightarrow> json_escape_string t | None \<Rightarrow> ''null'') @
       json_key ''pc_relative'' @ json_bool (expr_pc_relative e) @ ''}''))"

fun kind_name :: "ast_node \<Rightarrow> string" where
  "kind_name (AST_INST_R _ _ _ _ _) = ''INST_R''"
| "kind_name (AST_INST_R_SHIFT _ _ _ _ _) = ''INST_R_SHIFT''"
| "kind_name (AST_INST_I _ _ _ _ _) = ''INST_I''"
| "kind_name (AST_INST_J _ _ _) = ''INST_J''"
| "kind_name (AST_INST_FP_R _ _ _ _ _) = ''INST_FP_R''"
| "kind_name (AST_INST_FP_COMPARE _ _ _ _ _) = ''INST_FP_COMPARE''"
| "kind_name (AST_PSEUDO _ _ _) = ''PSEUDO''"
| "kind_name (AST_DATA_BYTE _ _) = ''DATA_BYTE''"
| "kind_name (AST_DATA_HALF _ _) = ''DATA_HALF''"
| "kind_name (AST_DATA_WORD _ _) = ''DATA_WORD''"
| "kind_name (AST_DATA_FLOAT _ _) = ''DATA_FLOAT''"
| "kind_name (AST_DATA_DOUBLE _ _) = ''DATA_DOUBLE''"
| "kind_name (AST_DATA_STRING _ _ _) = ''DATA_STRING''"
| "kind_name (AST_DIR_SEG _ kind _ _) = seg_tag kind"
| "kind_name (AST_DIR_ALIGN _ _) = ''DIR_ALIGN''"
| "kind_name (AST_DIR_SPACE _ _) = ''DIR_SPACE''"
| "kind_name (AST_DIR_GLOBL _ _) = ''DIR_GLOBL''"
| "kind_name (AST_DIR_EXTERN _ _ _) = ''DIR_EXTERN''"
| "kind_name (AST_DIR_COMM _ _ _) = ''DIR_COMM''"
| "kind_name (AST_LABEL_DEF _ _ _ _) = ''LABEL_DEF''"
| "kind_name (AST_FILE _ _ _) = ''FILE''"
| "kind_name (AST_ERROR _ _) = ''ERROR''"

definition json_kind_header :: "ast_node \<Rightarrow> string" where
  "json_kind_header n =
     ''{'' @ [QUOTE] @ ''kind'' @ [QUOTE] @ '':'' @ [QUOTE] @ kind_name n @ [QUOTE] @
     json_key ''source_line'' @ fmt_int (source_line (node_header n))"

definition json_word :: "string \<Rightarrow> 32 word \<Rightarrow> string" where
  "json_word name w = json_key name @ fmt_int w"

definition json_op :: "int \<Rightarrow> string" where
  "json_op op = json_key ''op'' @ fmt_d op @ json_key ''mnemonic'' @ json_escape_string (op_token_name op)"

definition json_list :: "string list \<Rightarrow> string" where
  "json_list ts = ''['' @ joined '','' ts @ '']''"

definition json_values :: "string list \<Rightarrow> string" where
  "json_values ts = json_key ''count'' @ fmt_length ts @ json_key ''values'' @ json_list ts"

text \<open>The fields of a node after its header, other than its children.\<close>

fun json_fields :: "host \<Rightarrow> ast_node \<Rightarrow> string mcomp" where
  "json_fields H (AST_INST_R _ op rd rs rt) = ret (json_op op @ json_word ''rd'' rd @ json_word ''rs'' rs @ json_word ''rt'' rt)"
| "json_fields H (AST_INST_R_SHIFT _ op rd rt shamt) =
     ret (json_op op @ json_word ''rd'' rd @ json_word ''rt'' rt @ json_word ''shamt'' shamt)"
| "json_fields H (AST_INST_I _ op rt rs imm) =
     bnd (json_imm imm) (\<lambda>t. ret (json_op op @ json_word ''rt'' rt @ json_word ''rs'' rs @ json_key ''imm'' @ t))"
| "json_fields H (AST_INST_J _ op target) = bnd (json_imm target) (\<lambda>t. ret (json_op op @ json_key ''target'' @ t))"
| "json_fields H (AST_INST_FP_R _ op fd fs ft) = ret (json_op op @ json_word ''fd'' fd @ json_word ''fs'' fs @ json_word ''ft'' ft)"
| "json_fields H (AST_INST_FP_COMPARE _ op fs ft cc) =
     ret (json_op op @ json_word ''fs'' fs @ json_word ''ft'' ft @ json_word ''cc'' cc)"
| "json_fields H (AST_DATA_BYTE _ es) = bnd (texts json_imm es) (\<lambda>ts. ret (json_values ts))"
| "json_fields H (AST_DATA_HALF _ es) = bnd (texts json_imm es) (\<lambda>ts. ret (json_values ts))"
| "json_fields H (AST_DATA_WORD _ es) = bnd (texts json_imm es) (\<lambda>ts. ret (json_values ts))"
| "json_fields H (AST_DATA_FLOAT _ vs) = ret (json_values (map (printf_g H ''%.17g'') vs))"
| "json_fields H (AST_DATA_DOUBLE _ vs) = ret (json_values (map (printf_g H ''%.17g'') vs))"
| "json_fields H (AST_DATA_STRING _ bytes nul) =
     ret (json_key ''length'' @ fmt_length bytes @ json_key ''null_terminate'' @ json_bool nul @
       json_key ''value'' @ json_escape_string (map (\<lambda>b. char_of (unat b)) bytes))"
| "json_fields H (AST_DIR_SEG _ kind has_addr addr) =
     ret (if has_addr then json_key ''start_addr'' @ decimal (unat addr) else [])"
| "json_fields H (AST_DIR_ALIGN _ n) = ret (json_word ''n'' n)"
| "json_fields H (AST_DIR_SPACE _ sz) = ret (json_word ''size'' sz)"
| "json_fields H (AST_DIR_GLOBL _ name) = ret (json_key ''name'' @ json_escape_string name)"
| "json_fields H (AST_DIR_EXTERN _ name sz) = ret (json_key ''name'' @ json_escape_string name @ json_word ''size'' sz)"
| "json_fields H (AST_DIR_COMM _ name sz) = ret (json_key ''name'' @ json_escape_string name @ json_word ''size'' sz)"
| "json_fields H (AST_LABEL_DEF _ kind name v) =
     ret (json_key ''name'' @ json_escape_string name @ json_key ''label_kind'' @ [QUOTE] @
       (if kind = AST_LABEL_NORMAL then ''placement'' else ''constant'') @ [QUOTE] @
       (if kind = AST_LABEL_CONST then json_word ''value'' v else []))"
| "json_fields H (AST_ERROR _ message) =
     ret (json_key ''message'' @ json_escape_string (case message of Some m \<Rightarrow> m | None \<Rightarrow> []))"
| "json_fields H (AST_PSEUDO _ mnemonic _) = ret (json_key ''mnemonic'' @ json_escape_string mnemonic)"
| "json_fields H (AST_FILE _ file _) =
     ret (case file of Some f \<Rightarrow> json_key ''source_file'' @ json_escape_string f | None \<Rightarrow> [])"

definition json_body :: "host \<Rightarrow> ast_node \<Rightarrow> string mcomp" where
  "json_body H n = bnd (json_fields H n) (\<lambda>t. ret (json_kind_header n @ t))"

text \<open>The objects of a chain, and the array of them.\<close>

fun json_node :: "host \<Rightarrow> ast_node \<Rightarrow> string mcomp"
  and json_nodes :: "host \<Rightarrow> ast_node list \<Rightarrow> string list mcomp" where
  "json_node H (AST_PSEUDO h m cs) =
     bnd (json_body H (AST_PSEUDO h m cs)) (\<lambda>t. bnd (json_nodes H cs) (\<lambda>ts. ret (t @ json_key ''children'' @ json_list ts @ ''}'')))"
| "json_node H (AST_FILE h f cs) =
     bnd (json_body H (AST_FILE h f cs)) (\<lambda>t. bnd (json_nodes H cs) (\<lambda>ts. ret (t @ json_key ''children'' @ json_list ts @ ''}'')))"
| "json_node H n = bnd (json_body H n) (\<lambda>t. ret (t @ ''}''))"
| "json_nodes H [] = ret []"
| "json_nodes H (n # ns) = bnd (json_node H n) (\<lambda>t. bnd (json_nodes H ns) (\<lambda>ts. ret (t # ts)))"

definition ast_print_json :: "host \<Rightarrow> ast_node \<Rightarrow> string mcomp" where
  "ast_print_json H n = bnd (json_node H n) (\<lambda>t. ret (t @ [NL]))"

end
