(* ===== verification/Parser.thy ===== *)
theory Parser
  imports Pseudo Cpu AstPrint
begin

text \<open>
  The recursive-descent parser (\<^verbatim>\<open>parser.c\<close>): operands, the operand shapes of the instruction
  list, the expansion of pseudo-instructions, directives, lines and files. Every loop and every
  recursion that follows the input has fuel. Signed arithmetic that overflows in C wraps, as the
  compilers the program is built with make it; a division or a shift that C leaves undefined is a
  crash.
\<close>

subsection \<open>Tokens\<close>

definition advance_int :: "host \<Rightarrow> 32 word pcomp" where
  "advance_int H = bnd (scanner_advance H) (\<lambda>_. bnd (gets scan_value) (\<lambda>v.
     case v of SV_Int i \<Rightarrow> ret i | _ \<Rightarrow> throw Crash))"

definition advance_str :: "host \<Rightarrow> string pcomp" where
  "advance_str H = bnd (scanner_advance H) (\<lambda>_. bnd (gets scan_value) (\<lambda>v.
     case v of SV_Str t \<Rightarrow> ret t | _ \<Rightarrow> throw Crash))"

definition advance_fp :: "host \<Rightarrow> 64 word pcomp" where
  "advance_fp H = bnd (scanner_advance H) (\<lambda>_. bnd (gets scan_value) (\<lambda>v.
     case v of SV_Fp d \<Rightarrow> ret d | _ \<Rightarrow> throw Crash))"

definition parse_error_at :: "string \<Rightarrow> unit pcomp" where
  "parse_error_at msg = modify (upd_mach (parse_error msg))"

definition force_identifier :: "unit pcomp" where
  "force_identifier = modify scanner_force_identifier"

fun sync_to_nl :: "host \<Rightarrow> nat \<Rightarrow> unit pcomp" where
  "sync_to_nl H 0 = throw Out_Of_Fuel"
| "sync_to_nl H (Suc n) =
     bnd (scanner_peek H) (\<lambda>t.
       if t = TOK_NL \<or> t = TOK_EOF then ret ()
       else bnd (scanner_advance H) (\<lambda>_. sync_to_nl H n))"

definition expect :: "host \<Rightarrow> int \<Rightarrow> string \<Rightarrow> unit pcomp" where
  "expect H expected what =
     bnd (scanner_peek H) (\<lambda>t. if t = expected then bnd (scanner_advance H) (\<lambda>_. ret ()) else parse_error_at what)"

text \<open>The tokens of single characters.\<close>

abbreviation TOK_LPAREN :: int where "TOK_LPAREN \<equiv> 40"
abbreviation TOK_RPAREN :: int where "TOK_RPAREN \<equiv> 41"
abbreviation TOK_TIMES :: int where "TOK_TIMES \<equiv> 42"
abbreviation TOK_PLUS :: int where "TOK_PLUS \<equiv> 43"
abbreviation TOK_MINUS :: int where "TOK_MINUS \<equiv> 45"
abbreviation TOK_SLASH :: int where "TOK_SLASH \<equiv> 47"
abbreviation TOK_COLON :: int where "TOK_COLON \<equiv> 58"
abbreviation TOK_EQUALS :: int where "TOK_EQUALS \<equiv> 61"
abbreviation TOK_GREATER :: int where "TOK_GREATER \<equiv> 62"

subsection \<open>Operands\<close>

definition parse_register :: "host \<Rightarrow> 32 word pcomp" where
  "parse_register H = bnd (scanner_peek H) (\<lambda>t.
     if t = TOK_REG then advance_int H else seq (parse_error_at ''Expected register'') (ret 0))"

definition parse_fp_register :: "host \<Rightarrow> 32 word pcomp" where
  "parse_fp_register H = bnd (scanner_peek H) (\<lambda>t.
     if t = TOK_FP_REG then advance_int H else seq (parse_error_at ''Expected FP register'') (ret 0))"

definition parse_abs_addr :: "host \<Rightarrow> 32 word pcomp" where
  "parse_abs_addr H = bnd (scanner_peek H) (\<lambda>t.
     if t \<noteq> TOK_INT then seq (parse_error_at ''Expected integer'') (ret 0)
     else bnd (advance_int H) (\<lambda>v. bnd (scanner_peek H) (\<lambda>t.
       if t = TOK_PLUS
       then bnd (scanner_advance H) (\<lambda>_. bnd (scanner_peek H) (\<lambda>t.
         if t \<noteq> TOK_INT then seq (parse_error_at ''Expected integer after +'') (ret v)
         else bnd (advance_int H) (\<lambda>w. ret (v + w))))
       else if t = TOK_INT
       then bnd (advance_int H) (\<lambda>w.
         seq (whn (0 \<le>s w) (parse_error_at ''Syntax error'')) (ret (v - (- w))))
       else ret v)))"

text \<open>\<^verbatim>\<open>v / r\<close>, and 0 for a zero divisor; the quotient that does not fit traps.\<close>

definition term_div :: "32 word \<Rightarrow> 32 word \<Rightarrow> 32 word pcomp" where
  "term_div v r =
     (if r = 0 then ret 0 else if v = 0x80000000 \<and> r = -1 then throw Crash else ret (sdiv_trunc v r))"

definition factor_name :: "host \<Rightarrow> 32 word pcomp" where
  "factor_name H =
     bnd (advance_str H) (\<lambda>name. bnd (on_mach (lookup_label name)) (\<lambda>q.
     bnd (on_mach (deref_label (Some q))) (\<lambda>l.
       if label_addr l = 0
       then seq (modify (\<lambda>p. if expr_unresolved_label p = None then p\<lparr>expr_unresolved_label := Some q\<rparr> else p)) (ret 0)
       else ret (ucast (label_addr l)))))"

fun parse_factor :: "host \<Rightarrow> nat \<Rightarrow> 32 word pcomp"
  and parse_term :: "host \<Rightarrow> nat \<Rightarrow> 32 word pcomp"
  and term_loop :: "host \<Rightarrow> nat \<Rightarrow> 32 word \<Rightarrow> 32 word pcomp"
  and parse_expr :: "host \<Rightarrow> nat \<Rightarrow> 32 word pcomp"
  and expr_loop :: "host \<Rightarrow> nat \<Rightarrow> 32 word \<Rightarrow> 32 word pcomp" where
  "parse_factor H 0 = throw Out_Of_Fuel"
| "parse_factor H (Suc n) = bnd (scanner_peek H) (\<lambda>t.
     if t = TOK_INT then advance_int H
     else if t = TOK_LPAREN
     then bnd (scanner_advance H) (\<lambda>_. bnd (parse_expr H n) (\<lambda>v. seq (expect H TOK_RPAREN ''Expected )'') (ret v)))
     else if t = TOK_ID then factor_name H
     else seq (parse_error_at ''Expected expression'') (ret 0))"
| "parse_term H 0 = throw Out_Of_Fuel"
| "parse_term H (Suc n) = bnd (parse_factor H n) (term_loop H n)"
| "term_loop H 0 v = throw Out_Of_Fuel"
| "term_loop H (Suc n) v = bnd (scanner_peek H) (\<lambda>t.
     if t = TOK_TIMES \<or> t = TOK_SLASH
     then bnd (scanner_advance H) (\<lambda>op. bnd (parse_factor H n) (\<lambda>r.
       if op = TOK_TIMES then term_loop H n (v * r) else bnd (term_div v r) (term_loop H n)))
     else ret v)"
| "parse_expr H 0 = throw Out_Of_Fuel"
| "parse_expr H (Suc n) = bnd (parse_term H n) (expr_loop H n)"
| "expr_loop H 0 v = throw Out_Of_Fuel"
| "expr_loop H (Suc n) v = bnd (scanner_peek H) (\<lambda>t.
     if t = TOK_PLUS \<or> t = TOK_MINUS
     then bnd (scanner_advance H) (\<lambda>op. bnd (parse_term H n) (\<lambda>r.
       expr_loop H n (if op = TOK_PLUS then v + r else v - r)))
     else ret v)"

definition parse_expression :: "host \<Rightarrow> nat \<Rightarrow> 32 word pcomp" where
  "parse_expression H n =
     seq force_identifier (seq (modify (\<lambda>p. p\<lparr>expr_unresolved_label := None\<rparr>)) (parse_expr H n))"

definition parse_imm32 :: "host \<Rightarrow> imm_expr pcomp" where
  "parse_imm32 H = seq force_identifier (bnd (scanner_peek H) (\<lambda>t.
     if t = TOK_ID
     then bnd (advance_str H) (\<lambda>name. bnd (scanner_peek H) (\<lambda>t.
       if t = TOK_PLUS
       then bnd (scanner_advance H) (\<lambda>_. bnd (parse_abs_addr H) (\<lambda>off. on_mach (make_imm_expr off (Some name) False)))
       else if t = TOK_MINUS
       then bnd (scanner_advance H) (\<lambda>_. bnd (parse_abs_addr H) (\<lambda>off. on_mach (make_imm_expr (- off) (Some name) False)))
       else on_mach (make_imm_expr 0 (Some name) False)))
     else if t = TOK_LPAREN
     then bnd (scanner_advance H) (\<lambda>_. bnd (parse_abs_addr H) (\<lambda>v.
       seq (expect H TOK_RPAREN ''Expected )'') (seq (expect H TOK_GREATER ''Expected >'')
       (seq (expect H TOK_GREATER ''Expected >'') (bnd (scanner_peek H) (\<lambda>t.
         if t \<noteq> TOK_INT
         then seq (parse_error_at ''Expected integer after >>'') (ret (const_imm_expr 0))
         else bnd (advance_int H) (\<lambda>sh. if sh < 32 then ret (const_imm_expr (signed_drop_bit (unat sh) v)) else throw Crash)))))))
     else bnd (parse_abs_addr H) (\<lambda>v. ret (const_imm_expr v))))"

definition parse_imm16 :: "host \<Rightarrow> imm_expr pcomp" where
  "parse_imm16 H = bnd (parse_imm32 H) (\<lambda>e. seq (on_mach (check_imm_range e (- 0x8000) 0x7fff)) (ret e))"

definition parse_uimm16 :: "host \<Rightarrow> imm_expr pcomp" where
  "parse_uimm16 H = bnd (parse_imm32 H) (\<lambda>e. seq (on_mach (check_uimm_range e 0 0xffff)) (ret e))"

definition parse_label :: "host \<Rightarrow> imm_expr pcomp" where
  "parse_label H = bnd (scanner_peek H) (\<lambda>t.
     if t \<noteq> TOK_ID
     then seq (parse_error_at ''Expected label'') (on_mach (make_imm_expr 0 None True))
     else bnd (advance_str H) (\<lambda>name. bnd (gets (\<lambda>p. current_text_pc (mach p))) (\<lambda>pc.
       on_mach (make_imm_expr (- pc) (Some name) True))))"

text \<open>A register in parentheses, after an address; 0 when there is none.\<close>

definition opt_base :: "host \<Rightarrow> 32 word pcomp" where
  "opt_base H = bnd (scanner_peek H) (\<lambda>t.
     if t = TOK_LPAREN
     then bnd (scanner_advance H) (\<lambda>_. bnd (parse_register H) (\<lambda>r. seq (expect H TOK_RPAREN ''Expected )'') (ret r)))
     else ret 0)"

definition parse_address :: "host \<Rightarrow> addr_expr pcomp" where
  "parse_address H = seq force_identifier (bnd (scanner_peek H) (\<lambda>t.
     if t = TOK_LPAREN
     then bnd (scanner_advance H) (\<lambda>_. bnd (parse_register H) (\<lambda>r.
       seq (expect H TOK_RPAREN ''Expected ) after register'') (on_mach (make_addr_expr 0 None (ucast r)))))
     else if t = TOK_INT
     then bnd (parse_abs_addr H) (\<lambda>imm. bnd (scanner_peek H) (\<lambda>t.
       bnd (if t = TOK_PLUS then scanner_peek2 H else ret 0) (\<lambda>t2.
       if t = TOK_PLUS \<and> t2 = TOK_ID
       then bnd (scanner_advance H) (\<lambda>_. seq force_identifier (bnd (advance_str H) (\<lambda>name.
              on_mach (make_addr_expr imm (Some name) 0))))
       else bnd (opt_base H) (\<lambda>r. on_mach (make_addr_expr imm None (ucast r))))))
     else if t = TOK_ID
     then bnd (advance_str H) (\<lambda>name. bnd (scanner_peek H) (\<lambda>t.
       bnd (if t = TOK_PLUS then bnd (scanner_advance H) (\<lambda>_. parse_abs_addr H)
            else if t = TOK_MINUS then bnd (scanner_advance H) (\<lambda>_. bnd (parse_abs_addr H) (\<lambda>v. ret (- v)))
            else ret 0) (\<lambda>off.
       bnd (opt_base H) (\<lambda>r. on_mach (make_addr_expr off (Some name) (ucast r))))))
     else seq (parse_error_at ''Expected address'') (on_mach (make_addr_expr 0 None 0))))"

subsection \<open>Operand shapes\<close>

definition op_has_imm_form :: "int \<Rightarrow> bool" where
  "op_has_imm_form op \<longleftrightarrow> op \<in> set [TOK_ADD_OPCODE, TOK_ADDU_OPCODE, TOK_AND_OPCODE, TOK_OR_OPCODE,
     TOK_XOR_OPCODE, TOK_SLT_OPCODE, TOK_SLTU_OPCODE]"

text \<open>The two forms of the last operand: a register, or an immediate.\<close>

definition reg_or_imm :: "host \<Rightarrow> (32 word \<Rightarrow> unit pcomp) \<Rightarrow> (imm_expr \<Rightarrow> unit pcomp) \<Rightarrow> unit pcomp" where
  "reg_or_imm H on_reg on_imm = bnd (scanner_peek H) (\<lambda>t.
     if t = TOK_REG then bnd (parse_register H) on_reg else bnd (parse_imm32 H) on_imm)"

text \<open>\<^verbatim>\<open>sub\<close> of a constant: the addition of its negation.\<close>

definition emit_sub_imm :: "int \<Rightarrow> 32 word \<Rightarrow> 32 word \<Rightarrow> imm_expr \<Rightarrow> unit pcomp" where
  "emit_sub_imm op rd rs imm = bnd (on_mach (eval_imm_expr imm)) (\<lambda>val.
     modify (emit_i (if op = TOK_SUB_OPCODE then TOK_ADDI_OPCODE else TOK_ADDIU_OPCODE) rd rs (const_imm_expr (- val))))"

definition parse_r3 :: "host \<Rightarrow> int \<Rightarrow> unit pcomp" where
  "parse_r3 H op = bnd (parse_register H) (\<lambda>rd.
     if op = TOK_CLO_OPCODE \<or> op = TOK_CLZ_OPCODE
     then bnd (parse_register H) (\<lambda>rs. modify (emit_r op rd rs rd))
     else if op = TOK_MUL_OPCODE
     then bnd (parse_register H) (\<lambda>rs. reg_or_imm H (\<lambda>rt. modify (emit_r op rd rs rt))
            (\<lambda>imm. modify (emits [emit_i TOK_ORI_OPCODE 1 0 imm, emit_r op rd rs 1])))
     else if op = TOK_SUB_OPCODE \<or> op = TOK_SUBU_OPCODE
     then reg_or_imm H
            (\<lambda>rs. reg_or_imm H (\<lambda>rt. modify (emit_r op rd rs rt)) (emit_sub_imm op rd rs))
            (emit_sub_imm op rd rd)
     else if op_has_imm_form op
     then reg_or_imm H
            (\<lambda>rs. reg_or_imm H (\<lambda>rt. modify (emit_r op rd rs rt))
               (\<lambda>imm. bnd (on_mach (op_to_imm_op op)) (\<lambda>iop. modify (emit_i iop rd rs imm))))
            (\<lambda>imm. bnd (on_mach (op_to_imm_op op)) (\<lambda>iop. modify (emit_i iop rd rd imm)))
     else bnd (parse_register H) (\<lambda>rs. bnd (parse_register H) (\<lambda>rt. modify (emit_r op rd rs rt))))"

definition parse_r2sh :: "host \<Rightarrow> int \<Rightarrow> unit pcomp" where
  "parse_r2sh H op =
     (if op = TOK_SSNOP_OPCODE then modify (emit_r_shift TOK_SLL_OPCODE 0 0 1)
      else bnd (parse_register H) (\<lambda>rd. bnd (parse_register H) (\<lambda>rs. bnd (scanner_peek H) (\<lambda>t.
        if t \<noteq> TOK_INT then parse_error_at ''Expected integer shift amount''
        else bnd (advance_int H) (\<lambda>sh. modify (emit_r_shift op rd rs sh))))))"

definition parse_r1s :: "host \<Rightarrow> int \<Rightarrow> unit pcomp" where
  "parse_r1s H op = bnd (parse_register H) (\<lambda>rs. modify (emit_r op 0 rs 0))"

definition parse_i2 :: "host \<Rightarrow> int \<Rightarrow> unit pcomp" where
  "parse_i2 H op = bnd (parse_register H) (\<lambda>rt. bnd (scanner_peek H) (\<lambda>t.
     bnd (if t = TOK_REG then parse_register H else ret rt) (\<lambda>rs.
     bnd (if op = TOK_ANDI_OPCODE \<or> op = TOK_ORI_OPCODE \<or> op = TOK_XORI_OPCODE then parse_uimm16 H else parse_imm16 H)
       (\<lambda>imm. modify (emit_i op rt rs imm)))))"

definition parse_i1t :: "host \<Rightarrow> int \<Rightarrow> unit pcomp" where
  "parse_i1t H op = bnd (parse_register H) (\<lambda>rt. bnd (parse_uimm16 H) (\<lambda>imm. modify (emit_i op rt 0 imm)))"

text \<open>A register operand and an address, as every load and store takes them.\<close>

definition addr_reg :: "addr_expr \<Rightarrow> 32 word" where
  "addr_reg a = ucast (reg_no a)"

definition parse_i2a :: "host \<Rightarrow> int \<Rightarrow> unit pcomp" where
  "parse_i2a H op = bnd (parse_register H) (\<lambda>rt. bnd (parse_address H) (\<lambda>a.
     modify (emit_i op rt (addr_reg a) (addr_imm a))))"

definition parse_b2 :: "host \<Rightarrow> int \<Rightarrow> unit pcomp" where
  "parse_b2 H op = bnd (parse_register H) (\<lambda>src1. reg_or_imm H
     (\<lambda>src2. bnd (parse_label H) (\<lambda>target. modify (emit_i op src2 src1 target)))
     (\<lambda>imm. bnd (parse_label H) (\<lambda>target.
        if is_zero_imm imm then modify (emit_i op src1 0 target)
        else modify (emits [emit_i TOK_ORI_OPCODE 1 0 imm, emit_i op src1 1 target]))))"

definition parse_b1 :: "host \<Rightarrow> int \<Rightarrow> unit pcomp" where
  "parse_b1 H op = bnd (parse_register H) (\<lambda>rs. bnd (parse_label H) (\<lambda>target. modify (emit_i op 0 rs target)))"

definition is_jump_op :: "int \<Rightarrow> bool" where
  "is_jump_op op \<longleftrightarrow> op = TOK_J_OPCODE \<or> op = TOK_JR_OPCODE"

definition is_link_op :: "int \<Rightarrow> bool" where
  "is_link_op op \<longleftrightarrow> op = TOK_JAL_OPCODE \<or> op = TOK_JALR_OPCODE"

definition parse_j :: "host \<Rightarrow> int \<Rightarrow> unit pcomp" where
  "parse_j H op = bnd (scanner_peek H) (\<lambda>t.
     if t = TOK_REG
     then bnd (parse_register H) (\<lambda>r1. bnd (scanner_peek H) (\<lambda>t.
       if t = TOK_REG
       then bnd (parse_register H) (\<lambda>r2.
         if is_jump_op op then modify (emit_r TOK_JR_OPCODE 0 r2 0)
         else whn (is_link_op op) (modify (emit_r TOK_JALR_OPCODE r1 r2 0)))
       else if is_jump_op op then modify (emit_r TOK_JR_OPCODE 0 r1 0)
       else whn (is_link_op op) (modify (emit_r TOK_JALR_OPCODE 31 r1 0))))
     else bnd (parse_label H) (\<lambda>target.
       if is_jump_op op then modify (emit_j TOK_J_OPCODE target)
       else whn (is_link_op op) (modify (emit_j TOK_JAL_OPCODE target))))"

definition parse_noarg :: "host \<Rightarrow> int \<Rightarrow> unit pcomp" where
  "parse_noarg H op = bnd (scanner_peek H) (\<lambda>t.
     if t = TOK_INT
     then bnd (advance_int H) (\<lambda>n.
       seq (whn (op = TOK_BREAK_OPCODE \<and> n = 1) (parse_error_at ''Breakpoint 1 is reserved for debugger''))
         (modify (emit_r op n 0 0)))
     else modify (emit_r op 0 0 0))"

subsection \<open>Directives\<close>

definition emit_dir_seg :: "ast_seg_kind \<Rightarrow> bool \<Rightarrow> mem_addr \<Rightarrow> pstate \<Rightarrow> pstate" where
  "emit_dir_seg kind has_addr addr p =
     (let p = upd_mach (\<lambda>s. if kind = AST_DIR_TEXT \<or> kind = AST_DIR_KTEXT
            then s\<lparr>data_dir := False, text_dir := True\<rparr>
            else s\<lparr>data_dir := True, text_dir := False, auto_align := True\<rparr>) p
      in ast_append (make_dir_seg kind has_addr addr (mach p)) p)"

definition parse_dir_seg :: "host \<Rightarrow> ast_seg_kind \<Rightarrow> unit pcomp" where
  "parse_dir_seg H kind = bnd (scanner_peek H) (\<lambda>t.
     if t = TOK_INT then bnd (advance_int H) (\<lambda>a. modify (emit_dir_seg kind True a))
     else modify (emit_dir_seg kind False 0))"

definition parse_dir_data :: "host \<Rightarrow> bool \<Rightarrow> unit pcomp" where
  "parse_dir_data H in_kernel = parse_dir_seg H (if in_kernel then AST_DIR_KDATA else AST_DIR_DATA)"

definition parse_dir_text :: "host \<Rightarrow> bool \<Rightarrow> unit pcomp" where
  "parse_dir_text H in_kernel = parse_dir_seg H (if in_kernel then AST_DIR_KTEXT else AST_DIR_TEXT)"

definition add_node :: "(machine \<Rightarrow> ast_node) \<Rightarrow> pstate \<Rightarrow> pstate" where
  "add_node f p = ast_append (f (mach p)) p"

definition parse_dir_globl :: "host \<Rightarrow> unit pcomp" where
  "parse_dir_globl H = seq force_identifier (bnd (scanner_peek H) (\<lambda>t.
     if t \<noteq> TOK_ID then parse_error_at ''Expected identifier after .globl''
     else bnd (advance_str H) (\<lambda>name. modify (add_node (ast_make_dir_globl name)))))"

definition parse_dir_align :: "host \<Rightarrow> nat \<Rightarrow> unit pcomp" where
  "parse_dir_align H n = bnd (parse_expression H n) (\<lambda>v.
     seq (whn (v = 0) (modify (upd_mach (\<lambda>s. s\<lparr>auto_align := False\<rparr>))))
       (modify (add_node (ast_make_dir_align v))))"

definition parse_dir_named :: "host \<Rightarrow> nat \<Rightarrow> (string \<Rightarrow> 32 word \<Rightarrow> machine \<Rightarrow> ast_node) \<Rightarrow> unit pcomp" where
  "parse_dir_named H n mk = seq force_identifier (bnd (scanner_peek H) (\<lambda>t.
     if t \<noteq> TOK_ID then parse_error_at ''Expected ID''
     else bnd (advance_str H) (\<lambda>name. bnd (parse_expression H n) (\<lambda>sz. modify (add_node (mk name sz))))))"

definition parse_dir_extern :: "host \<Rightarrow> nat \<Rightarrow> unit pcomp" where
  "parse_dir_extern H n = parse_dir_named H n ast_make_dir_extern"

definition parse_dir_comm :: "host \<Rightarrow> nat \<Rightarrow> unit pcomp" where
  "parse_dir_comm H n = parse_dir_named H n ast_make_dir_comm"

definition parse_dir_space :: "host \<Rightarrow> nat \<Rightarrow> unit pcomp" where
  "parse_dir_space H n = bnd (parse_expression H n) (\<lambda>v. bnd (gets (\<lambda>p. text_dir (mach p))) (\<lambda>td.
     if td then parse_error_at ''Can't put data in text segment'' else modify (add_node (ast_make_dir_space v))))"

text \<open>The accumulator of a data directive.\<close>

definition data_int_begin :: "data_kind \<Rightarrow> pstate \<Rightarrow> pstate" where
  "data_int_begin kind p = p\<lparr>data_kind_now := kind, data_int_buf := [], data_directive_line := line_no (mach p)\<rparr>"

definition data_int_push :: "32 word \<Rightarrow> unit pcomp" where
  "data_int_push value = bnd (gets expr_unresolved_label) (\<lambda>u.
     bnd (case u of None \<Rightarrow> ret None
          | Some q \<Rightarrow> bnd (on_mach (deref_label (Some q))) (\<lambda>l. ret (Some (label_name l)))) (\<lambda>name.
     bnd (on_mach (make_imm_expr value name False)) (\<lambda>e.
       modify (\<lambda>p. p\<lparr>data_int_buf := data_int_buf p @ [e], expr_unresolved_label := None\<rparr>))))"

definition directive_header :: "pstate \<Rightarrow> ast_header" where
  "directive_header p = (new_node (mach p))\<lparr>source_line := data_directive_line p\<rparr>"

definition data_int_finalize :: "pstate \<Rightarrow> pstate" where
  "data_int_finalize p =
     (if data_int_buf p = [] then p
      else let h = directive_header p; es = data_int_buf p;
               node = (case data_kind_now p of DATA_BYTE \<Rightarrow> AST_DATA_BYTE h es | DATA_HALF \<Rightarrow> AST_DATA_HALF h es
                       | _ \<Rightarrow> AST_DATA_WORD h es)
           in (ast_append node p)\<lparr>data_int_buf := []\<rparr>)"

definition data_fp_begin :: "data_kind \<Rightarrow> pstate \<Rightarrow> pstate" where
  "data_fp_begin kind p = p\<lparr>data_kind_now := kind, data_fp_buf := [], data_directive_line := line_no (mach p)\<rparr>"

definition data_fp_push :: "64 word \<Rightarrow> pstate \<Rightarrow> pstate" where
  "data_fp_push v p = p\<lparr>data_fp_buf := data_fp_buf p @ [v]\<rparr>"

definition data_fp_finalize :: "pstate \<Rightarrow> pstate" where
  "data_fp_finalize p =
     (if data_fp_buf p = [] then p
      else let h = directive_header p; vs = data_fp_buf p;
               node = (if data_kind_now p = DATA_FLOAT then AST_DATA_FLOAT h vs else AST_DATA_DOUBLE h vs)
           in (ast_append node p)\<lparr>data_fp_buf := []\<rparr>)"

text \<open>\<open>at_end\<close>: the next token ends the line.\<close>

definition ends_line :: "int \<Rightarrow> bool" where
  "ends_line t \<longleftrightarrow> t = TOK_NL \<or> t = TOK_EOF"

fun expr_list_loop :: "host \<Rightarrow> nat \<Rightarrow> unit pcomp" where
  "expr_list_loop H 0 = throw Out_Of_Fuel"
| "expr_list_loop H (Suc n) = bnd (parse_expression H n) (\<lambda>v. seq (data_int_push v) (bnd (scanner_peek H) (\<lambda>t.
     if ends_line t then ret () else expr_list_loop H n)))"

definition parse_expr_list :: "host \<Rightarrow> nat \<Rightarrow> unit pcomp" where
  "parse_expr_list H n = seq (expr_list_loop H n) (modify data_int_finalize)"

fun parse_fp_expr_list :: "host \<Rightarrow> nat \<Rightarrow> unit pcomp" where
  "parse_fp_expr_list H 0 = throw Out_Of_Fuel"
| "parse_fp_expr_list H (Suc n) = bnd (scanner_peek H) (\<lambda>t.
     if t \<noteq> TOK_FP then parse_error_at ''Expected floating-point literal''
     else bnd (advance_fp H) (\<lambda>v. seq (modify (data_fp_push v)) (bnd (scanner_peek H) (\<lambda>t.
       if ends_line t then modify data_fp_finalize else parse_fp_expr_list H n))))"

definition parse_dir_ints :: "host \<Rightarrow> nat \<Rightarrow> data_kind \<Rightarrow> unit pcomp" where
  "parse_dir_ints H n kind = seq (modify (data_int_begin kind)) (parse_expr_list H n)"

definition parse_dir_word :: "host \<Rightarrow> nat \<Rightarrow> unit pcomp" where
  "parse_dir_word H n = seq (on_mach (align_datum 2)) (parse_dir_ints H n DATA_WORD)"

definition parse_dir_half :: "host \<Rightarrow> nat \<Rightarrow> unit pcomp" where
  "parse_dir_half H n = seq (on_mach (align_datum 1)) (parse_dir_ints H n DATA_HALF)"

definition parse_dir_byte :: "host \<Rightarrow> nat \<Rightarrow> unit pcomp" where
  "parse_dir_byte H n = parse_dir_ints H n DATA_BYTE"

definition parse_dir_float :: "host \<Rightarrow> nat \<Rightarrow> unit pcomp" where
  "parse_dir_float H n = seq (on_mach (align_datum 2)) (seq (modify (data_fp_begin DATA_FLOAT)) (parse_fp_expr_list H n))"

definition parse_dir_double :: "host \<Rightarrow> nat \<Rightarrow> unit pcomp" where
  "parse_dir_double H n = seq (on_mach (align_datum 3)) (seq (modify (data_fp_begin DATA_DOUBLE)) (parse_fp_expr_list H n))"

text \<open>Strings: \<^verbatim>\<open>strlen\<close> of the decoded text, so that it ends at a NUL in it.\<close>

fun parse_string_list :: "host \<Rightarrow> nat \<Rightarrow> unit pcomp" where
  "parse_string_list H 0 = throw Out_Of_Fuel"
| "parse_string_list H (Suc n) = bnd (scanner_peek H) (\<lambda>t.
     if t \<noteq> TOK_STR then parse_error_at ''Expected string literal''
     else bnd (advance_str H) (\<lambda>str. bnd (gets (\<lambda>p. (text_dir (mach p), null_term p))) (\<lambda>(td, nt).
       seq (if td then parse_error_at ''Can't put data in text segment''
            else modify (add_node (ast_make_data_string (map of_char (takeWhile (\<lambda>c. c \<noteq> NUL) str)) nt)))
        (bnd (scanner_peek H) (\<lambda>t. if ends_line t then ret () else parse_string_list H n)))))"

definition parse_dir_ascii :: "host \<Rightarrow> nat \<Rightarrow> unit pcomp" where
  "parse_dir_ascii H n = seq (modify (\<lambda>p. p\<lparr>null_term := False\<rparr>)) (parse_string_list H n)"

definition parse_dir_asciiz :: "host \<Rightarrow> nat \<Rightarrow> unit pcomp" where
  "parse_dir_asciiz H n = seq (modify (\<lambda>p. p\<lparr>null_term := True\<rparr>)) (parse_string_list H n)"

subsection \<open>Pseudo-instructions\<close>

definition find_op_type :: "int \<Rightarrow> op_type option" where
  "find_op_type op = map_option op_kind (find (\<lambda>r. op_tok r = op) opcode_rows)"

text \<open>Two register operands, and the address operand after a register.\<close>

definition two_regs :: "host \<Rightarrow> (32 word \<Rightarrow> 32 word \<Rightarrow> unit pcomp) \<Rightarrow> unit pcomp" where
  "two_regs H k = bnd (parse_register H) (\<lambda>a. bnd (parse_register H) (\<lambda>b. k a b))"

definition reg_and_addr :: "host \<Rightarrow> 32 word pcomp \<Rightarrow> (32 word \<Rightarrow> 32 word \<Rightarrow> imm_expr \<Rightarrow> (pstate \<Rightarrow> pstate) list) \<Rightarrow> unit pcomp" where
  "reg_and_addr H reg k = bnd reg (\<lambda>rt. bnd (parse_address H) (\<lambda>a. modify (emits (k rt (addr_reg a) (addr_imm a)))))"

definition coprocessor_register :: "host \<Rightarrow> 32 word pcomp" where
  "coprocessor_register H = bnd (scanner_peek H) (\<lambda>t.
     if t = TOK_FP_REG then parse_fp_register H else parse_register H)"

definition pseudo_rotate :: "host \<Rightarrow> bool \<Rightarrow> unit pcomp" where
  "pseudo_rotate H right = two_regs H (\<lambda>rd rs. reg_or_imm H
     (\<lambda>rt. modify (emits ([emit_r TOK_SUBU_OPCODE 1 0 rt] @
        (if right then [emit_r TOK_SLLV_OPCODE 1 1 rs, emit_r TOK_SRLV_OPCODE rd rt rs]
         else [emit_r TOK_SRLV_OPCODE 1 1 rs, emit_r TOK_SLLV_OPCODE rd rt rs]) @
        [emit_r TOK_OR_OPCODE rd rd 1])))
     (\<lambda>imm. bnd (on_mach (eval_imm_expr imm)) (\<lambda>dist. seq (on_mach (check_imm_range imm 0 31))
        (modify (emits
          ((if right then [emit_r_shift TOK_SLL_OPCODE 1 rs (- dist), emit_r_shift TOK_SRL_OPCODE rd rs dist]
            else [emit_r_shift TOK_SRL_OPCODE 1 rs (- dist), emit_r_shift TOK_SLL_OPCODE rd rs dist]) @
           [emit_r TOK_OR_OPCODE rd rd 1]))))))"

definition set_inst :: "int \<Rightarrow> 32 word \<Rightarrow> 32 word \<Rightarrow> 32 word \<Rightarrow> pstate \<Rightarrow> pstate" where
  "set_inst op rd rs rt =
     (if op = TOK_SLE_PSEUDO_OP \<or> op = TOK_SLEU_PSEUDO_OP then set_le_inst op rd rs rt
      else if op = TOK_SGT_PSEUDO_OP \<or> op = TOK_SGTU_PSEUDO_OP then set_gt_inst op rd rs rt
      else if op = TOK_SGE_PSEUDO_OP \<or> op = TOK_SGEU_PSEUDO_OP then set_ge_inst op rd rs rt
      else set_eq_inst op rd rs rt)"

definition pseudo_set :: "host \<Rightarrow> int \<Rightarrow> unit pcomp" where
  "pseudo_set H op = two_regs H (\<lambda>rd rs. reg_or_imm H
     (\<lambda>rt. modify (set_inst op rd rs rt))
     (\<lambda>imm. if is_zero_imm imm then modify (set_inst op rd rs 0)
             else modify (emits [emit_i TOK_ORI_OPCODE 1 0 imm, set_inst op rd rs 1])))"

definition pseudo_abs :: "host \<Rightarrow> unit pcomp" where
  "pseudo_abs H = two_regs H (\<lambda>rd rs. modify (emits (
     (if rd \<noteq> rs then [emit_r TOK_ADDU_OPCODE rd 0 rs] else []) @
     [emit_i TOK_BGEZ_OPCODE 0 rs (branch_offset 3), nop_inst, emit_r TOK_SUB_OPCODE rd 0 rs])))"

definition pseudo_rem :: "host \<Rightarrow> int \<Rightarrow> unit pcomp" where
  "pseudo_rem H op = two_regs H (\<lambda>rd rs. reg_or_imm H
     (\<lambda>rt. modify (div_inst op rd rs rt False))
     (\<lambda>imm. if is_zero_imm imm then parse_error_at ''Divide by zero''
             else modify (emits [emit_i TOK_ORI_OPCODE 1 0 imm, div_inst op rd rs 1 True])))"

definition pseudo_mulo :: "host \<Rightarrow> int \<Rightarrow> unit pcomp" where
  "pseudo_mulo H op = two_regs H (\<lambda>rd rs. reg_or_imm H
     (\<lambda>rt. modify (mult_inst op rd rs rt))
     (\<lambda>imm. if is_zero_imm imm then modify (emit_i TOK_ORI_OPCODE rd 0 imm)
             else modify (emits [emit_i TOK_ORI_OPCODE 1 0 imm, mult_inst op rd rs 1])))"

definition pseudo_move_double :: "host \<Rightarrow> int \<Rightarrow> unit pcomp" where
  "pseudo_move_double H op = bnd (parse_register H) (\<lambda>reg. bnd (coprocessor_register H) (\<lambda>copreg.
     modify (emits [emit_fp_r op 0 copreg reg, emit_fp_r op 0 (copreg + 1) (reg + 1)])))"

definition pseudo_li_d :: "host \<Rightarrow> unit pcomp" where
  "pseudo_li_d H = bnd (parse_fp_register H) (\<lambda>fd. bnd (scanner_peek H) (\<lambda>t.
     if t \<noteq> TOK_FP then parse_error_at ''Expected FP literal''
     else bnd (advance_fp H) (\<lambda>x. modify (emits
       [emit_i TOK_ORI_OPCODE 1 0 (const_imm_expr (ucast x)), emit_fp_r TOK_MTC1_OPCODE 0 fd 1,
        emit_i TOK_ORI_OPCODE 1 0 (const_imm_expr (ucast (drop_bit 32 x))), emit_fp_r TOK_MTC1_OPCODE 0 (fd + 1) 1]))))"

definition pseudo_li_s :: "host \<Rightarrow> unit pcomp" where
  "pseudo_li_s H = bnd (parse_fp_register H) (\<lambda>fd. bnd (scanner_peek H) (\<lambda>t.
     if t \<noteq> TOK_FP then parse_error_at ''Expected FP literal''
     else bnd (advance_fp H) (\<lambda>x. modify (emits
       [emit_i TOK_ORI_OPCODE 1 0 (const_imm_expr (d_to_s H x)), emit_fp_r TOK_MTC1_OPCODE 0 fd 1]))))"

definition two_words :: "int \<Rightarrow> 32 word \<Rightarrow> 32 word \<Rightarrow> imm_expr \<Rightarrow> (pstate \<Rightarrow> pstate) list" where
  "two_words op rt base imm = [emit_i op rt base imm, emit_i op (rt + 1) base (incr_expr_offset imm 4)]"

definition unaligned_word :: "int \<Rightarrow> int \<Rightarrow> 32 word \<Rightarrow> 32 word \<Rightarrow> imm_expr \<Rightarrow> (pstate \<Rightarrow> pstate) list" where
  "unaligned_word left right rt base imm = [emit_i left rt base (incr_expr_offset imm 3), emit_i right rt base imm]"

definition unaligned_load_half :: "int \<Rightarrow> 32 word \<Rightarrow> 32 word \<Rightarrow> imm_expr \<Rightarrow> (pstate \<Rightarrow> pstate) list" where
  "unaligned_load_half op rt base imm =
     [emit_i (if op = TOK_ULH_PSEUDO_OP then TOK_LB_OPCODE else TOK_LBU_OPCODE) rt base (incr_expr_offset imm 1),
      emit_i TOK_LBU_OPCODE 1 base imm, emit_r_shift TOK_SLL_OPCODE rt rt 8, emit_r TOK_OR_OPCODE rt rt 1]"

definition unaligned_store_half :: "32 word \<Rightarrow> 32 word \<Rightarrow> imm_expr \<Rightarrow> (pstate \<Rightarrow> pstate) list" where
  "unaligned_store_half rt base imm =
     [emit_i TOK_SB_OPCODE rt base imm,
      emit_r_shift TOK_SLL_OPCODE 1 rt 24, emit_r_shift TOK_SRL_OPCODE rt rt 8, emit_r TOK_OR_OPCODE rt rt 1,
      emit_i TOK_SB_OPCODE rt base (incr_expr_offset imm 1),
      emit_r_shift TOK_SRL_OPCODE 1 rt 24, emit_r_shift TOK_SLL_OPCODE rt rt 8, emit_r TOK_OR_OPCODE rt rt 1]"

definition load_address :: "32 word \<Rightarrow> 32 word \<Rightarrow> imm_expr \<Rightarrow> (pstate \<Rightarrow> pstate) list" where
  "load_address rt base imm =
     [if base \<noteq> 0 then emit_i TOK_ADDI_OPCODE rt base imm else emit_i TOK_ORI_OPCODE rt 0 imm]"

text \<open>Conditional branches: the comparison and its operands, the branch on its result.\<close>

definition pseudo_bgt :: "host \<Rightarrow> int \<Rightarrow> unit pcomp" where
  "pseudo_bgt H op = bnd (parse_register H) (\<lambda>rs. reg_or_imm H
     (\<lambda>rt. bnd (parse_label H) (\<lambda>target. modify (emits
        [emit_r (if op = TOK_BGT_PSEUDO_OP then TOK_SLT_OPCODE else TOK_SLTU_OPCODE) 1 rt rs,
         emit_i TOK_BNE_OPCODE 0 1 target])))
     (\<lambda>imm. bnd (parse_label H) (\<lambda>target. modify (emits (
        if op = TOK_BGT_PSEUDO_OP
        then [emit_i TOK_SLTI_OPCODE 1 rs (incr_expr_offset imm 1), emit_i TOK_BEQ_OPCODE 0 1 target]
        else [emit_i TOK_ORI_OPCODE 1 0 imm, emit_i TOK_BEQ_OPCODE rs 1 (branch_offset 3),
              emit_r TOK_SLTU_OPCODE 1 rs 1, emit_i TOK_BEQ_OPCODE 0 1 target])))))"

definition pseudo_bge :: "host \<Rightarrow> int \<Rightarrow> unit pcomp" where
  "pseudo_bge H op = bnd (parse_register H) (\<lambda>rs. reg_or_imm H
     (\<lambda>rt. bnd (parse_label H) (\<lambda>target. modify (emits
        [emit_r (if op = TOK_BGE_PSEUDO_OP then TOK_SLT_OPCODE else TOK_SLTU_OPCODE) 1 rs rt,
         emit_i TOK_BEQ_OPCODE 0 1 target])))
     (\<lambda>imm. bnd (parse_label H) (\<lambda>target. modify (emits
        [emit_i (if op = TOK_BGE_PSEUDO_OP then TOK_SLTI_OPCODE else TOK_SLTIU_OPCODE) 1 rs imm,
         emit_i TOK_BEQ_OPCODE 0 1 target]))))"

definition pseudo_blt :: "host \<Rightarrow> int \<Rightarrow> unit pcomp" where
  "pseudo_blt H op = bnd (parse_register H) (\<lambda>rs. reg_or_imm H
     (\<lambda>rt. bnd (parse_label H) (\<lambda>target. modify (emits
        [emit_r (if op = TOK_BLT_PSEUDO_OP then TOK_SLT_OPCODE else TOK_SLTU_OPCODE) 1 rs rt,
         emit_i TOK_BNE_OPCODE 0 1 target])))
     (\<lambda>imm. bnd (parse_label H) (\<lambda>target. modify (emits
        [emit_i (if op = TOK_BLT_PSEUDO_OP then TOK_SLTI_OPCODE else TOK_SLTIU_OPCODE) 1 rs imm,
         emit_i TOK_BNE_OPCODE 0 1 target]))))"

definition pseudo_ble :: "host \<Rightarrow> int \<Rightarrow> unit pcomp" where
  "pseudo_ble H op = bnd (parse_register H) (\<lambda>rs. reg_or_imm H
     (\<lambda>rt. bnd (parse_label H) (\<lambda>target. modify (emits
        [emit_r (if op = TOK_BLE_PSEUDO_OP then TOK_SLT_OPCODE else TOK_SLTU_OPCODE) 1 rt rs,
         emit_i TOK_BEQ_OPCODE 0 1 target])))
     (\<lambda>imm. bnd (parse_label H) (\<lambda>target. modify (emits (
        if op = TOK_BLE_PSEUDO_OP
        then [emit_i TOK_SLTI_OPCODE 1 rs (incr_expr_offset imm 1), emit_i TOK_BNE_OPCODE 0 1 target]
        else [emit_i TOK_ORI_OPCODE 1 0 imm, emit_i TOK_BEQ_OPCODE rs 1 target,
              emit_r TOK_SLTU_OPCODE 1 rs 1, emit_i TOK_BNE_OPCODE 0 1 target])))))"

text \<open>\<^verbatim>\<open>do_parse_pseudo\<close>: the groups of its switch.\<close>

definition pseudo_arith :: "host \<Rightarrow> (int \<times> unit pcomp) list" where
  "pseudo_arith H =
    [(TOK_LI_PSEUDO_OP, bnd (parse_register H) (\<lambda>rt. bnd (parse_imm32 H) (\<lambda>imm. modify (emit_i TOK_ORI_OPCODE rt 0 imm)))),
     (TOK_MOVE_PSEUDO_OP, two_regs H (\<lambda>rd rs. modify (emit_r TOK_ADDU_OPCODE rd 0 rs))),
     (TOK_NEG_PSEUDO_OP, two_regs H (\<lambda>rd rs. modify (emit_r TOK_SUB_OPCODE rd 0 rs))),
     (TOK_NEGU_PSEUDO_OP, two_regs H (\<lambda>rd rs. modify (emit_r TOK_SUBU_OPCODE rd 0 rs))),
     (TOK_NOT_PSEUDO_OP, two_regs H (\<lambda>rd rs. modify (emit_r TOK_NOR_OPCODE rd rs 0))),
     (TOK_ROR_PSEUDO_OP, pseudo_rotate H True), (TOK_ROL_PSEUDO_OP, pseudo_rotate H False),
     (TOK_SLE_PSEUDO_OP, pseudo_set H TOK_SLE_PSEUDO_OP), (TOK_SLEU_PSEUDO_OP, pseudo_set H TOK_SLEU_PSEUDO_OP),
     (TOK_SGT_PSEUDO_OP, pseudo_set H TOK_SGT_PSEUDO_OP), (TOK_SGTU_PSEUDO_OP, pseudo_set H TOK_SGTU_PSEUDO_OP),
     (TOK_SGE_PSEUDO_OP, pseudo_set H TOK_SGE_PSEUDO_OP), (TOK_SGEU_PSEUDO_OP, pseudo_set H TOK_SGEU_PSEUDO_OP),
     (TOK_SEQ_PSEUDO_OP, pseudo_set H TOK_SEQ_PSEUDO_OP), (TOK_SNE_PSEUDO_OP, pseudo_set H TOK_SNE_PSEUDO_OP),
     (TOK_ABS_PSEUDO_OP, pseudo_abs H), (TOK_NOP_PSEUDO_OP, modify nop_inst),
     (TOK_REM_PSEUDO_OP, pseudo_rem H TOK_REM_PSEUDO_OP), (TOK_REMU_PSEUDO_OP, pseudo_rem H TOK_REMU_PSEUDO_OP),
     (TOK_MULO_PSEUDO_OP, pseudo_mulo H TOK_MULO_PSEUDO_OP), (TOK_MULOU_PSEUDO_OP, pseudo_mulo H TOK_MULOU_PSEUDO_OP)]"

definition pseudo_memory :: "host \<Rightarrow> (int \<times> unit pcomp) list" where
  "pseudo_memory H =
    [(TOK_MFC1_D_PSEUDO_OP, pseudo_move_double H TOK_MFC1_OPCODE),
     (TOK_MTC1_D_PSEUDO_OP, pseudo_move_double H TOK_MTC1_OPCODE),
     (TOK_LI_D_PSEUDO_OP, pseudo_li_d H), (TOK_LI_S_PSEUDO_OP, pseudo_li_s H),
     (TOK_L_D_PSEUDO_OP, reg_and_addr H (parse_fp_register H) (\<lambda>r b imm. [emit_i TOK_LDC1_OPCODE r b imm])),
     (TOK_L_S_PSEUDO_OP, reg_and_addr H (parse_fp_register H) (\<lambda>r b imm. [emit_i TOK_LWC1_OPCODE r b imm])),
     (TOK_S_D_PSEUDO_OP, reg_and_addr H (parse_fp_register H) (\<lambda>r b imm. [emit_i TOK_SDC1_OPCODE r b imm])),
     (TOK_S_S_PSEUDO_OP, reg_and_addr H (parse_fp_register H) (\<lambda>r b imm. [emit_i TOK_SWC1_OPCODE r b imm])),
     (TOK_LD_PSEUDO_OP, reg_and_addr H (parse_register H) (two_words TOK_LW_OPCODE)),
     (TOK_SD_PSEUDO_OP, reg_and_addr H (parse_register H) (two_words TOK_SW_OPCODE)),
     (TOK_ULW_PSEUDO_OP, reg_and_addr H (parse_register H) (unaligned_word TOK_LWL_OPCODE TOK_LWR_OPCODE)),
     (TOK_ULH_PSEUDO_OP, reg_and_addr H (parse_register H) (unaligned_load_half TOK_ULH_PSEUDO_OP)),
     (TOK_ULHU_PSEUDO_OP, reg_and_addr H (parse_register H) (unaligned_load_half TOK_ULHU_PSEUDO_OP)),
     (TOK_USW_PSEUDO_OP, reg_and_addr H (parse_register H) (unaligned_word TOK_SWL_OPCODE TOK_SWR_OPCODE)),
     (TOK_USH_PSEUDO_OP, reg_and_addr H (parse_register H) unaligned_store_half),
     (TOK_LA_PSEUDO_OP, reg_and_addr H (parse_register H) load_address)]"

definition pseudo_branches :: "host \<Rightarrow> (int \<times> unit pcomp) list" where
  "pseudo_branches H =
    [(TOK_BEQZ_PSEUDO_OP, parse_b1 H TOK_BEQ_OPCODE), (TOK_BNEZ_PSEUDO_OP, parse_b1 H TOK_BNE_OPCODE),
     (TOK_B_PSEUDO_OP, bnd (parse_label H) (\<lambda>target. modify (emit_i TOK_BGEZ_OPCODE 0 0 target))),
     (TOK_BAL_PSEUDO_OP, bnd (parse_label H) (\<lambda>target. modify (emit_i TOK_BGEZAL_OPCODE 0 0 target))),
     (TOK_BGT_PSEUDO_OP, pseudo_bgt H TOK_BGT_PSEUDO_OP), (TOK_BGTU_PSEUDO_OP, pseudo_bgt H TOK_BGTU_PSEUDO_OP),
     (TOK_BGE_PSEUDO_OP, pseudo_bge H TOK_BGE_PSEUDO_OP), (TOK_BGEU_PSEUDO_OP, pseudo_bge H TOK_BGEU_PSEUDO_OP),
     (TOK_BLT_PSEUDO_OP, pseudo_blt H TOK_BLT_PSEUDO_OP), (TOK_BLTU_PSEUDO_OP, pseudo_blt H TOK_BLTU_PSEUDO_OP),
     (TOK_BLE_PSEUDO_OP, pseudo_ble H TOK_BLE_PSEUDO_OP), (TOK_BLEU_PSEUDO_OP, pseudo_ble H TOK_BLEU_PSEUDO_OP)]"

definition do_parse_pseudo :: "host \<Rightarrow> nat \<Rightarrow> int \<Rightarrow> unit pcomp" where
  "do_parse_pseudo H n op =
     (case map_of (pseudo_arith H @ pseudo_memory H @ pseudo_branches H) op of
        Some m \<Rightarrow> m
      | None \<Rightarrow> seq (parse_error_at ''Pseudo-op not yet supported'') (sync_to_nl H n))"

definition parse_pseudo :: "host \<Rightarrow> nat \<Rightarrow> int \<Rightarrow> unit pcomp" where
  "parse_pseudo H n op = bnd (gets current_pseudo) (\<lambda>saved.
     seq (modify (\<lambda>p. p\<lparr>current_pseudo := Some (ast_make_pseudo (op_token_name op) (mach p))\<rparr>))
    (seq (do_parse_pseudo H n op)
      (modify (\<lambda>p. case current_pseudo p of
         Some node \<Rightarrow> ast_append node (p\<lparr>current_pseudo := saved\<rparr>)
       | None \<Rightarrow> p\<lparr>current_pseudo := saved\<rparr>))))"

subsection \<open>Instructions\<close>

definition parse_div :: "host \<Rightarrow> int \<Rightarrow> 32 word \<Rightarrow> unit pcomp" where
  "parse_div H op r1 = bnd (parse_register H) (\<lambda>r2. bnd (scanner_peek H) (\<lambda>t.
     if ends_line t then modify (emit_r op 0 r1 r2)
     else if t = TOK_REG then bnd (parse_register H) (\<lambda>r3. modify (div_inst op r1 r2 r3 False))
     else bnd (parse_imm32 H) (\<lambda>imm.
       if is_zero_imm imm then parse_error_at ''Divide by zero''
       else modify (emits [emit_i TOK_ORI_OPCODE 1 0 imm, div_inst op r1 r2 1 True]))))"

definition parse_rs_rt :: "host \<Rightarrow> int \<Rightarrow> unit pcomp" where
  "parse_rs_rt H op = bnd (parse_register H) (\<lambda>r1. bnd (scanner_peek H) (\<lambda>t.
     if t \<noteq> TOK_REG \<and> t \<noteq> TOK_INT \<and> t \<noteq> TOK_ID then parse_error_at ''Expected operand for div/mult''
     else if op = TOK_DIV_OPCODE \<or> op = TOK_DIVU_OPCODE then parse_div H op r1
     else bnd (parse_register H) (\<lambda>r2. modify (emit_r op 0 r1 r2))))"

definition parse_rd_rt_rs :: "host \<Rightarrow> int \<Rightarrow> unit pcomp" where
  "parse_rd_rt_rs H op = two_regs H (\<lambda>rd rs. bnd (scanner_peek H) (\<lambda>t.
     if t = TOK_REG then bnd (parse_register H) (\<lambda>rt. modify (emit_r op rd rt rs))
     else if t \<noteq> TOK_INT then parse_error_at ''Expected register or integer shift''
     else bnd (advance_int H) (\<lambda>shamt. bnd (on_mach (op_to_imm_op op)) (\<lambda>sop. modify (emit_r_shift sop rd rs shamt)))))"

text \<open>A condition-code number, 0 when there is none.\<close>

definition opt_int :: "host \<Rightarrow> 32 word pcomp" where
  "opt_int H = bnd (scanner_peek H) (\<lambda>t. if t = TOK_INT then advance_int H else ret 0)"

definition parse_bc :: "host \<Rightarrow> int \<Rightarrow> unit pcomp" where
  "parse_bc H op = bnd (opt_int H) (\<lambda>cc. bnd (parse_label H) (\<lambda>target.
     modify (emit_i op (push_bit 2 cc OR push_bit 1 (of_bool (opcode_is_nullified_branch op)) OR of_bool (opcode_is_true_branch op))
       0 target)))"

definition parse_fp_movc :: "host \<Rightarrow> int \<Rightarrow> unit pcomp" where
  "parse_fp_movc H op = bnd (parse_fp_register H) (\<lambda>fd. bnd (parse_fp_register H) (\<lambda>fs. bnd (scanner_peek H) (\<lambda>t.
     if t = TOK_REG then bnd (parse_register H) (\<lambda>rt. modify (emit_fp_r op fd fs rt))
     else if t = TOK_INT then bnd (advance_int H) (\<lambda>cc. modify (emit_fp_r op fd fs (push_bit 2 (cc AND 7))))
     else modify (emit_fp_r op fd fs 0))))"

definition parse_cop :: "host \<Rightarrow> int \<Rightarrow> unit pcomp" where
  "parse_cop H op = bnd (parse_register H) (\<lambda>reg. bnd (coprocessor_register H) (\<lambda>copreg.
     modify (emit_fp_r op 0 copreg reg)))"

text \<open>\<^verbatim>\<open>parse_asm_code\<close> by operand shape; a token that is no instruction is an error.\<close>

definition parse_shape :: "host \<Rightarrow> nat \<Rightarrow> op_type option \<Rightarrow> int \<Rightarrow> unit pcomp" where
  "parse_shape H n kind op =
     (case kind of
        Some NOARG_TYPE_INST \<Rightarrow> parse_noarg H op
      | Some RD_RS_RT_INST \<Rightarrow> parse_r3 H op
      | Some RD_RT_SHAMT_INST \<Rightarrow> parse_r2sh H op
      | Some RS_INST \<Rightarrow> parse_r1s H op
      | Some RT_RS_IMM_INST \<Rightarrow> parse_i2 H op
      | Some RT_IMM_INST \<Rightarrow> parse_i1t H op
      | Some RT_ADDR_INST \<Rightarrow> parse_i2a H op
      | Some BRANCH_RS_RT_LABEL_INST \<Rightarrow> parse_b2 H op
      | Some BRANCH_RS_LABEL_INST \<Rightarrow> parse_b1 H op
      | Some J_TYPE_INST \<Rightarrow> parse_j H op
      | Some PSEUDO_OP \<Rightarrow> parse_pseudo H n op
      | Some RT_COPREG_INST \<Rightarrow> parse_cop H op
      | Some RD_RS_INST \<Rightarrow> parse_j H op
      | Some RS_RT_INST \<Rightarrow> parse_rs_rt H op
      | Some RD_INST \<Rightarrow> bnd (parse_register H) (\<lambda>rd. modify (emit_r op rd 0 0))
      | Some RD_RT_RS_INST \<Rightarrow> parse_rd_rt_rs H op
      | Some RS_IMM_INST \<Rightarrow> bnd (parse_register H) (\<lambda>rs. bnd (parse_imm16 H) (\<lambda>imm. modify (emit_i op 0 rs imm)))
      | Some BRANCH_COPROC_COND_INST \<Rightarrow> parse_bc H op
      | Some MOVC_TYPE_INST \<Rightarrow> two_regs H (\<lambda>rd rs. bnd (opt_int H) (\<lambda>cc. modify (emit_r op rd rs (push_bit 2 (cc AND 7)))))
      | Some FP_FD_FS_INST \<Rightarrow> bnd (parse_fp_register H) (\<lambda>fd. bnd (parse_fp_register H) (\<lambda>fs. modify (emit_fp_r op fd fs 0)))
      | Some FP_FD_FS_FT_INST \<Rightarrow> bnd (parse_fp_register H) (\<lambda>fd. bnd (parse_fp_register H) (\<lambda>fs.
          bnd (parse_fp_register H) (\<lambda>ft. modify (emit_fp_r op fd fs ft))))
      | Some FP_CMP_FS_FT_INST \<Rightarrow> bnd (opt_int H) (\<lambda>cc. bnd (parse_fp_register H) (\<lambda>fs.
          bnd (parse_fp_register H) (\<lambda>ft. modify (emit_fp_compare op fs ft cc))))
      | Some FP_MOVC_TYPE_INST \<Rightarrow> parse_fp_movc H op
      | Some FP_FT_ADDR_INST \<Rightarrow> reg_and_addr H (parse_fp_register H) (\<lambda>r b imm. [emit_i op r b imm])
      | Some FP_RT_COPREG_INST \<Rightarrow> parse_cop H op
      | _ \<Rightarrow> seq (parse_error_at ''Instruction not yet supported'') (sync_to_nl H n))"

definition parse_asm_code :: "host \<Rightarrow> nat \<Rightarrow> unit pcomp" where
  "parse_asm_code H n = bnd (scanner_advance H) (\<lambda>op. parse_shape H n (find_op_type op) op)"

subsection \<open>Lines and files\<close>

definition directives :: "host \<Rightarrow> nat \<Rightarrow> (int \<times> unit pcomp) list" where
  "directives H n =
    [(TOK_DATA_DIRECTIVE, parse_dir_data H False), (TOK_K_DATA_DIRECTIVE, parse_dir_data H True),
     (TOK_TEXT_DIRECTIVE, parse_dir_text H False), (TOK_K_TEXT_DIRECTIVE, parse_dir_text H True),
     (TOK_GLOBAL_DIRECTIVE, parse_dir_globl H), (TOK_WORD_DIRECTIVE, parse_dir_word H n),
     (TOK_HALF_DIRECTIVE, parse_dir_half H n), (TOK_BYTE_DIRECTIVE, parse_dir_byte H n),
     (TOK_ASCII_DIRECTIVE, parse_dir_ascii H n), (TOK_ASCIIZ_DIRECTIVE, parse_dir_asciiz H n),
     (TOK_FLOAT_DIRECTIVE, parse_dir_float H n), (TOK_DOUBLE_DIRECTIVE, parse_dir_double H n),
     (TOK_SPACE_DIRECTIVE, parse_dir_space H n), (TOK_ALIGN_DIRECTIVE, parse_dir_align H n),
     (TOK_COMM_DIRECTIVE, parse_dir_comm H n), (TOK_EXTERN_DIRECTIVE, parse_dir_extern H n),
     (TOK_ERR_DIRECTIVE, parse_error_at ''.err directive'')]"

definition ignored_directives :: "int list" where
  "ignored_directives =
    [TOK_FILE_DIRECTIVE, TOK_LOC_DIRECTIVE, TOK_FRAME_DIRECTIVE, TOK_MASK_DIRECTIVE, TOK_FMASK_DIRECTIVE,
     TOK_ENT_DIRECTIVE, TOK_END_DIRECTIVE, TOK_LABEL_DIRECTIVE, TOK_LIVEREG_DIRECTIVE, TOK_OPTIONS_DIRECTIVE,
     TOK_BGNB_DIRECTIVE, TOK_ENDB_DIRECTIVE, TOK_ENDR_DIRECTIVE, TOK_ASM0_DIRECTIVE, TOK_ALIAS_DIRECTIVE,
     TOK_SET_DIRECTIVE]"

definition parse_directive :: "host \<Rightarrow> nat \<Rightarrow> int \<Rightarrow> unit pcomp" where
  "parse_directive H n dir_tok =
     (case map_of (directives H n) dir_tok of
        Some m \<Rightarrow> m
      | None \<Rightarrow>
          if dir_tok \<in> set ignored_directives then sync_to_nl H n
          else seq (parse_error_at ''Directive not yet supported'') (sync_to_nl H n))"

definition is_directive :: "int \<Rightarrow> bool" where
  "is_directive tok \<longleftrightarrow> find_op_type tok = Some ASM_DIR"

definition parse_opt_label :: "host \<Rightarrow> nat \<Rightarrow> unit pcomp" where
  "parse_opt_label H n = bnd (advance_str H) (\<lambda>name. bnd (scanner_advance H) (\<lambda>sep.
     if sep = TOK_COLON then modify (add_node (ast_make_label_normal name))
     else bnd (parse_expression H n) (\<lambda>v. modify (add_node (ast_make_label_const name v)))))"

text \<open>The statement of a line, and the check that the line ends after it.\<close>

definition parse_statement :: "host \<Rightarrow> nat \<Rightarrow> int \<Rightarrow> unit pcomp" where
  "parse_statement H n t =
     seq (if is_directive t then bnd (scanner_advance H) (parse_directive H n) else parse_asm_code H n)
      (on_mach (clear_labels H))"

definition end_of_line :: "host \<Rightarrow> nat \<Rightarrow> unit pcomp" where
  "end_of_line H n = bnd (gets (\<lambda>p. parse_error_occurred (mach p))) (\<lambda>err.
     if err then sync_to_nl H n
     else bnd (scanner_peek H) (\<lambda>t.
       if t = TOK_NL then bnd (scanner_advance H) (\<lambda>_. ret ())
       else whn (t \<noteq> TOK_EOF) (seq (parse_error_at ''Extra tokens after instruction'') (sync_to_nl H n))))"

definition parse_line :: "host \<Rightarrow> nat \<Rightarrow> unit pcomp" where
  "parse_line H n = bnd (scanner_peek H) (\<lambda>t.
     if t = TOK_NL then bnd (scanner_advance H) (\<lambda>_. ret ())
     else if t = TOK_EOF then ret ()
     else bnd (if t = TOK_ID then scanner_peek2 H else ret 0) (\<lambda>t2.
       seq (whn (t = TOK_ID \<and> (t2 = TOK_COLON \<or> t2 = TOK_EQUALS)) (parse_opt_label H n))
      (bnd (scanner_peek H) (\<lambda>t.
        if t = TOK_NL then bnd (scanner_advance H) (\<lambda>_. ret ())
        else if t = TOK_EOF then ret ()
        else seq (parse_statement H n t) (end_of_line H n)))))"

definition parser_init :: "string \<Rightarrow> string option \<Rightarrow> pstate \<Rightarrow> pstate" where
  "parser_init file file_name p =
     (let p = upd_mach (\<lambda>s. s\<lparr>parse_errors_seen := 0, parse_error_occurred := False, data_dir := False, text_dir := True\<rparr>)
            ((scanner_init file p)\<lparr>input_file_name := file_name\<rparr>)
      in p\<lparr>current_file := Some (ast_make_file file_name (mach p))\<rparr>)"

fun parse_lines :: "host \<Rightarrow> nat \<Rightarrow> unit pcomp" where
  "parse_lines H 0 = throw Out_Of_Fuel"
| "parse_lines H (Suc n) = bnd (scanner_peek H) (\<lambda>t.
     if t = TOK_EOF then ret ()
     else seq (modify (\<lambda>p. scanner_start_line (upd_mach (\<lambda>s. s\<lparr>parse_error_occurred := False\<rparr>) p)))
       (seq (parse_line H n) (parse_lines H n)))"

text \<open>The dumps of the tree that the options ask for.\<close>

definition dump_text :: "string mcomp \<Rightarrow> unit mcomp" where
  "dump_text m = bnd m (\<lambda>t. modify (\<lambda>s. s\<lparr>console_out := console_out s @ [Con_Text ''%s'' t]\<rparr>))"

definition dump_tree :: "host \<Rightarrow> ast_node \<Rightarrow> unit pcomp" where
  "dump_tree H f =
     bnd (gets (\<lambda>p. (print_ast p, show_expansion p, print_ast_json p))) (\<lambda>(tree, expansion, json).
     seq (whn tree (on_mach (dump_text (ast_print H f))))
    (seq (whn expansion (on_mach (dump_text (print_pseudo_walk H f))))
      (whn json (on_mach (dump_text (ast_print_json H f))))))"

definition parse_file :: "host \<Rightarrow> nat \<Rightarrow> int pcomp" where
  "parse_file H n =
     seq (parse_lines H n)
    (seq (on_mach (clear_labels H))
    (bnd (gets (\<lambda>p. (print_ast_only p, current_file p))) (\<lambda>(only, file).
     seq (case file of Some f \<Rightarrow> dump_tree H f | None \<Rightarrow> ret ())
    (seq (case file of Some f \<Rightarrow> whn (\<not> only) (on_mach (emit_ast H f)) | None \<Rightarrow> ret ())
       (gets (\<lambda>p. parse_errors_seen (mach p)))))))"

end
