(* ===== verification/ScannerProps.thy ===== *)
theory ScannerProps
  imports Parser
begin

text \<open>
  The scanner: the keyword table is searched exactly, and a line written from tokens is read back
  as these tokens, through the lookahead buffer. The second fact is the contract \<open>token_source\<close>
  under which the parser is studied.
\<close>

subsection \<open>Keywords\<close>

lemma opcode_names_ascend: "successively (<) (map op_name opcode_rows)"
  by code_simp

lemma opcode_names_sorted: "sorted_wrt (<) (map op_name opcode_rows)"
  using opcode_names_ascend by (simp add: successively_conv_sorted_wrt)

lemma opcode_name_inj: "i < length opcode_rows \<Longrightarrow> j < length opcode_rows \<Longrightarrow>
    op_name (opcode_rows ! i) = op_name (opcode_rows ! j) \<Longrightarrow> i = j"
  using opcode_names_sorted by (metis length_map linorder_neqE_nat nth_map order_less_irrefl sorted_wrt_nth_less)

lemma cmp_key_to_name_zero [simp]: "cmp_key_to_name k e = 0 \<longleftrightarrow> nvv_name e = k"
  by (auto simp: cmp_key_to_name_def)

lemma cmp_key_to_name_antitone:
  "nvv_name d \<le> nvv_name e \<Longrightarrow> cmp_key_to_name k e \<le> cmp_key_to_name k d"
  by (auto simp: cmp_key_to_name_def)

lemma keyword_nth: "i < length opcode_rows \<Longrightarrow> nvv_name (keyword_tbl ! i) = op_name (opcode_rows ! i)"
  by (simp add: keyword_tbl_def)

lemma keyword_length: "length keyword_tbl = length opcode_rows"
  by (simp add: keyword_tbl_def)

lemma keyword_order: "i \<le> j \<Longrightarrow> j < length keyword_tbl \<Longrightarrow> nvv_name (keyword_tbl ! i) \<le> nvv_name (keyword_tbl ! j)"
  using sorted_wrt_nth_less [OF opcode_names_sorted, of i j]
  by (cases "i = j") (auto simp: keyword_nth keyword_length)

lemma keyword_search:
  "check_keyword name allow =
    (case find (\<lambda>r. op_name r = name) opcode_rows of
       None \<Rightarrow> 0 | Some r \<Rightarrow> if \<not> allow \<and> op_kind r = PSEUDO_OP then 0 else op_tok r)"
proof -
  have c: "cmp_key_to_name name (keyword_tbl ! j) \<le> cmp_key_to_name name (keyword_tbl ! i)"
    if "i \<le> j" "j < length keyword_tbl" for i j
    using that by (intro cmp_key_to_name_antitone keyword_order)
  show ?thesis
  proof (cases "find (\<lambda>r. op_name r = name) opcode_rows")
    case None
    then have n: "op_name r \<noteq> name" if "r \<in> set opcode_rows" for r using that by (auto simp: find_None_iff)
    have "map_string_to_name_val_val keyword_tbl name = None"
    proof (cases "map_string_to_name_val_val keyword_tbl name")
      case (Some e)
      from bsearch_sound [OF Some [unfolded map_string_to_name_val_val_def] order_refl] obtain i
        where i: "i < length keyword_tbl" "e = keyword_tbl ! i" "nvv_name e = name" by auto
      with n [of "opcode_rows ! i"] show ?thesis by (simp add: keyword_nth keyword_length)
    qed
    with None show ?thesis by (simp add: check_keyword_def)
  next
    case (Some r)
    then obtain k where k: "k < length opcode_rows" "op_name (opcode_rows ! k) = name" "r = opcode_rows ! k"
      by (auto simp: find_Some_iff)
    have "bsearch (cmp_key_to_name name) keyword_tbl 0 (length keyword_tbl) \<noteq> None"
      using bsearch_complete [of keyword_tbl "cmp_key_to_name name" 0 k] c k by (simp add: keyword_nth keyword_length)
    then obtain e where e: "bsearch (cmp_key_to_name name) keyword_tbl 0 (length keyword_tbl) = Some e" by auto
    from bsearch_sound [OF e order_refl] obtain i
      where i: "i < length keyword_tbl" "e = keyword_tbl ! i" "nvv_name e = name" by auto
    with k have "i = k" by (intro opcode_name_inj) (simp_all add: keyword_nth keyword_length)
    with e i k Some show ?thesis
      by (simp add: check_keyword_def map_string_to_name_val_val_def keyword_tbl_def)
  qed
qed

text \<open>
  C30: keywords. The binary search over the keyword table, which the C code takes from the
  instruction list and never sorts, finds a name exactly when a row has it, and the token is that
  row's, unless the row is a pseudo-instruction and these are not allowed.
\<close>

theorem keyword_lookup_exact:
  "check_keyword name allow =
    (case find (\<lambda>r. op_name r = name) opcode_rows of
       None \<Rightarrow> 0 | Some r \<Rightarrow> if \<not> allow \<and> op_kind r = PSEUDO_OP then 0 else op_tok r)"
  by (rule keyword_search)

lemma check_keyword_row:
  assumes "r \<in> set opcode_rows" and "op_kind r \<noteq> PSEUDO_OP"
  shows "check_keyword (op_name r) allow = op_tok r"
proof -
  have "find (\<lambda>q. op_name q = op_name r) opcode_rows = Some r"
  proof -
    from assms(1) obtain i where i: "i < length opcode_rows" "r = opcode_rows ! i" by (auto simp: in_set_conv_nth)
    then have "op_name (opcode_rows ! j) \<noteq> op_name r" if "j < i" for j
      using that opcode_name_inj [of j i] by auto
    with i show ?thesis by (auto simp: find_Some_iff intro!: exI [of _ i])
  qed
  with assms(2) show ?thesis by (simp add: keyword_search)
qed

lemma keyword_characters:
  "list_all (\<lambda>r. list_all (\<lambda>c. c \<in> set (''._'' @ ''abcdefghijklmnopqrstuvwxyz0123456789'')) (op_name r) \<and>
     op_name r \<noteq> [] \<and> hd (op_name r) \<in> set (''._'' @ ''abcdefghijklmnopqrstuvwxyz'') \<and>
     length (op_name r) \<le> 20 \<and> op_tok r \<noteq> 0) opcode_rows"
  by code_simp

lemma name_characters:
  "list_all ident_char (''._'' @ ''abcdefghijklmnopqrstuvwxyz0123456789'')"
  "list_all (\<lambda>c. \<not> isdigit c) (''._'' @ ''abcdefghijklmnopqrstuvwxyz'')"
  by (simp_all add: ident_char_def isalnum_def isalpha_def isdigit_def in_range_def)

lemma keyword_text:
  assumes "r \<in> set opcode_rows"
  shows "list_all ident_char (op_name r)" "op_name r \<noteq> []" "\<not> isdigit (hd (op_name r))"
    "length (op_name r) \<le> 20" "op_tok r \<noteq> 0"
proof -
  note k = list_all_iff [THEN iffD1, OF keyword_characters, rule_format, OF assms]
  show "list_all ident_char (op_name r)"
    using k name_characters(1) by (auto simp only: list_all_iff)
  show "\<not> isdigit (hd (op_name r))"
    using k name_characters(2) by (auto simp only: list_all_iff)
qed (use list_all_iff [THEN iffD1, OF keyword_characters, rule_format, OF assms] in blast)+

subsection \<open>Characters of the line buffer\<close>

lemma rest_skip [simp]: "rest_of_line (skip_chars n c) = drop n (rest_of_line c)"
  by (simp add: rest_of_line_def skip_chars_def add.commute)

lemma rest_upd [simp]: "rest_of_line (c\<lparr>force_id_next := b\<rparr>) = rest_of_line c" "rest_of_line (c\<lparr>tok_buf := b2\<rparr>) = rest_of_line c"
  by (simp_all add: rest_of_line_def)

lemma skip_frame [simp]:
  "tok_buf (skip_chars n c) = tok_buf c" "force_id_next (skip_chars n c) = force_id_next c"
  by (simp_all add: skip_chars_def)

lemma rest_nth: "i < length (rest_of_line c) \<Longrightarrow> char_at (line_buf c) (line_pos c + i) = rest_of_line c ! i"
  by (auto simp: char_at_def rest_of_line_def)

lemma peek_char_rest: "rest_of_line c = x # r \<Longrightarrow> peek_char c = x"
  using rest_nth [of 0 c] by (simp add: peek_char_def)

lemma peek_char2_rest: "rest_of_line c = x # y # r \<Longrightarrow> peek_char2 c = y"
  using rest_nth [of 1 c] by (simp add: peek_char2_def)

lemma next_char_rest: "rest_of_line c = x # r \<Longrightarrow> next_char c = skip_chars 1 c"
  by (auto simp: next_char_def rest_of_line_def)

lemma skip_to_char_here:
  assumes "blank_prefix (rest_of_line c) < length (rest_of_line c)"
  shows "skip_to_char c = (True, False, skip_chars (blank_prefix (rest_of_line c)) c)"
proof -
  have "line_pos c + blank_prefix (rest_of_line c) < length (line_buf c)"
    using assms by (simp add: rest_of_line_def)
  then show ?thesis by (subst skip_to_char.simps) (simp add: skip_chars_def Let_def)
qed

subsection \<open>Decimal numbers\<close>

lemma digit_char:
  assumes "d < 10"
  shows "isdigit (char_of (48 + d :: nat))" "of_char (char_of (48 + d)) - of_char CHR ''0'' = (of_nat d :: 32 word)"
proof -
  have c: "of_char (char_of (48 + d :: nat)) = (48 + d :: nat)" using assms by (simp add: of_char_mod_256)
  then show "isdigit (char_of (48 + d :: nat))" using assms by (simp add: isdigit_def in_range_def)
  have "of_char (char_of (48 + d)) = (of_nat (48 + d) :: 32 word)" using of_nat_of_char [of "char_of (48 + d :: nat)", where ?'a = "32 word"] by (simp only: c)
  then show "of_char (char_of (48 + d)) - of_char CHR ''0'' = (of_nat d :: 32 word)" by simp
qed

lemma decimal_digits: "list_all isdigit (decimal n) \<and> decimal n \<noteq> []"
proof (induction n rule: decimal.induct)
  case (1 n)
  then show ?case using digit_char(1) [of "n mod 10"] digit_char(1) [of n] by (simp add: decimal.simps [of n])
qed

lemma dec_value_snoc: "dec_value (ds @ [c]) = dec_value ds * 10 + (of_char c - of_char CHR ''0'')"
  by (simp add: dec_value_def)

lemma dec_value_decimal: "dec_value (decimal n) = of_nat n"
proof (induction n rule: decimal.induct)
  case (1 n)
  show ?case
  proof (cases "n < 10")
    case True
    then show ?thesis using digit_char(2) [OF True] by (simp add: decimal.simps [of n] dec_value_def)
  next
    case False
    have "of_nat (n div 10) * 10 + of_nat (n mod 10) = (of_nat n :: 32 word)"
      by (metis of_nat_add of_nat_mult of_nat_numeral div_mult_mod_eq)
    with False 1 digit_char(2) [of "n mod 10"] show ?thesis by (simp add: decimal.simps [of n] dec_value_snoc)
  qed
qed

subsection \<open>Lexemes\<close>

text \<open>
  Lexemes with the text they are written as and the token they are read back as; a line is
  written with a space before every lexeme and ends with a newline.
\<close>

datatype lexeme = L_Int "32 word" | L_Op char | L_Reg nat | L_Key "op_row" | L_End

fun lex_text :: "lexeme \<Rightarrow> string" where
  "lex_text (L_Int w) = decimal (unat w)"
| "lex_text (L_Op c) = [c]"
| "lex_text (L_Reg n) = CHR ''$'' # decimal n"
| "lex_text (L_Key r) = op_name r"
| "lex_text L_End = [NL]"

fun lex_token :: "lexeme \<Rightarrow> scan_token" where
  "lex_token (L_Int w) = int_token w"
| "lex_token (L_Op c) = plain_token (of_char c) (of_char c)"
| "lex_token (L_Reg n) = \<lparr>tok_type = TOK_REG, tok_val = SV_Int (of_nat n)\<rparr>"
| "lex_token (L_Key r) = \<lparr>tok_type = op_tok r, tok_val = SV_Int (word_of_int (op_tok r))\<rparr>"
| "lex_token L_End = plain_token TOK_NL 0"

fun lex_ok :: "lexeme \<Rightarrow> bool" where
  "lex_ok (L_Op c) = is_punctuation c"
| "lex_ok (L_Reg n) = (n < 32)"
| "lex_ok (L_Key r) = (r \<in> set opcode_rows \<and> op_kind r \<noteq> PSEUDO_OP)"
| "lex_ok _ = True"

fun render :: "lexeme list \<Rightarrow> string" where
  "render [] = []"
| "render (l # ls) = (if l = L_End then [NL] else CHR '' '' # lex_text l) @ render ls"

fun line_ok :: "lexeme list \<Rightarrow> bool" where
  "line_ok [] = True"
| "line_ok (l # ls) = (if l = L_End then ls = [] else lex_ok l \<and> ls \<noteq> [] \<and> line_ok ls)"

text \<open>Scanning changes the scanner, the last value, the line number and the saved line.\<close>

definition forget :: "pstate \<Rightarrow> pstate" where
  "forget p = p\<lparr>mach := (mach p)\<lparr>line_no := 0, saved_line := None\<rparr>, scan_value := SV_Int 0,
     scan := \<lparr>input_file = [], line_buf = [], line_pos = 0, at_eof = False, force_id_next = False, tok_buf = []\<rparr>\<rparr>"

definition scanned :: "pstate \<Rightarrow> pstate \<Rightarrow> bool" where
  "scanned p q \<longleftrightarrow> forget q = forget p"

lemma scanned_refl: "scanned p p"
  by (simp add: scanned_def)

lemma scanned_trans [trans]: "scanned p q \<Longrightarrow> scanned q r \<Longrightarrow> scanned p r"
  by (simp add: scanned_def)

lemma forget_upd [simp]:
  "forget (upd_scan f p) = forget p" "forget (p\<lparr>scan := c\<rparr>) = forget p" "forget (p\<lparr>scan_value := v\<rparr>) = forget p"
  "forget (upd_mach (\<lambda>s. s\<lparr>line_no := g s\<rparr>) p) = forget p" "forget (maybe_snapshot_line p) = forget p"
  "forget (upd_mach (\<lambda>s. s) p) = forget p"
  by (simp_all add: forget_def upd_scan_def upd_mach_def maybe_snapshot_line_def)

lemma line_ok_next:
  assumes "line_ok (l # ls)" and "l \<noteq> L_End"
  obtains c r where "render ls = c # r" "c = CHR '' '' \<or> c = NL"
  using assms by (cases ls) (auto split: if_splits)

lemma takeWhile_stop: "list_all P xs \<Longrightarrow> \<not> P c \<Longrightarrow> takeWhile P (xs @ c # r) = xs"
  by (induction xs) auto

lemma separators:
  "c = CHR '' '' \<or> c = NL \<Longrightarrow> \<not> isdigit c \<and> \<not> isxdigit c \<and> \<not> ident_char c \<and> \<not> register_char c"
  by (auto simp: isdigit_def isxdigit_def ident_char_def register_char_def isalnum_def isalpha_def in_range_def)

lemma digit_value_char: "d < 10 \<Longrightarrow> digit_value (char_of (48 + d)) = d"
  by (simp add: digit_value_def of_char_mod_256)

lemma fold_decimal: "fold (\<lambda>c v. 10 * v + digit_value c) (decimal n) 0 = n"
proof (induction n rule: decimal.induct)
  case (1 n)
  then show ?case
    using digit_value_char [of n] digit_value_char [of "n mod 10"] by (simp add: decimal.simps [of n])
qed

lemma takeWhile_decimal [simp]: "takeWhile isdigit (decimal n) = decimal n"
  using decimal_digits [of n] by (simp add: takeWhile_eq_all_conv list_all_iff)

lemma register_decimal:
  assumes "n < 32"
  shows "register_name_to_number (decimal n) = int n" "length (decimal n) \<le> 2"
proof -
  have a: "atoi (decimal n) = int n"
    using assms by (simp add: atoi_def fold_decimal sint32 unsigned_of_nat take_bit_eq_mod del: of_nat_unat)
  have d: "\<exists>c d. decimal n = [c] \<and> isdigit c \<or> decimal n = [c, d] \<and> isdigit c \<and> isdigit d"
    using assms digit_char(1) [of n] digit_char(1) [of "n mod 10"] digit_char(1) [of "n div 10"]
    by (cases "n < 10") (auto simp: decimal.simps [of n] decimal.simps [of "n div 10"])
  with a show "register_name_to_number (decimal n) = int n" "length (decimal n) \<le> 2"
    by (auto simp: register_name_to_number_def char_at_def Let_def)
qed

subsection \<open>One lexeme\<close>

lemma scan_int_decimal:
  assumes "rest_of_line (scan p) = decimal n @ c # r" and "c = CHR '' '' \<or> c = NL"
  shows "scan_number H False p = Inr (int_token (of_nat n), upd_scan (skip_chars (length (decimal n))) p)"
proof -
  obtain d ds where d: "decimal n = d # ds" "isdigit d" "list_all isdigit ds"
    using decimal_digits [of n] by (cases "decimal n") auto
  have tw: "takeWhile isdigit (rest_of_line (scan p)) = decimal n"
    using assms decimal_digits [of n] separators [of c] by (simp add: takeWhile_stop)
  have "scan_fp_check (rest_of_line (scan p)) = 0"
    unfolding scan_fp_check_def Let_def tw using assms d(1) by auto
  moreover have "peek_char2 (scan p) \<noteq> CHR ''x'' \<and> peek_char2 (scan p) \<noteq> CHR ''X''"
  proof (cases ds)
    case Nil
    with assms d(1) have "peek_char2 (scan p) = c" by (simp add: peek_char2_rest)
    with assms(2) show ?thesis by auto
  next
    case (Cons e es)
    with assms d have "peek_char2 (scan p) = e" "isdigit e" by (simp_all add: peek_char2_rest)
    then show ?thesis by (auto simp: isdigit_def in_range_def)
  qed
  ultimately show ?thesis
    by (simp add: scan_number_def scan_int_def Let_def tw dec_value_decimal int_token_def)
qed

lemma scan_upd [simp]:
  "scan (upd_mach f p) = scan p" "scan (maybe_snapshot_line p) = scan p" "scan (upd_scan g p) = g (scan p)"
  by (simp_all add: upd_mach_def upd_scan_def maybe_snapshot_line_def)

text \<open>What the scanner leaves after a lexeme: the token, the rest of the line, the buffer as it was.\<close>

definition reads_to :: "scan_token \<Rightarrow> string \<Rightarrow> pstate \<Rightarrow> (pstate, scan_token) result \<Rightarrow> bool" where
  "reads_to t rest p r = (case r of Inl e \<Rightarrow> False
     | Inr (u, q) \<Rightarrow> u = t \<and> rest_of_line (scan q) = rest \<and> tok_buf (scan q) = tok_buf (scan p) \<and>
         force_id_next (scan q) = force_id_next (scan p) \<and> scanned p q)"

lemma scan_at_end: "rest_of_line (scan p) = NL # r \<Longrightarrow> reads_to (plain_token TOK_NL 0) r p (scan_at H b p)"
  by (simp add: reads_to_def scan_at_def peek_char_rest next_char_rest scanned_def)

lemma digit_class:
  "isdigit c \<Longrightarrow> c \<noteq> NL \<and> c \<noteq> CHR '';'' \<and> c \<noteq> CHR ''-'' \<and> c \<noteq> CHR '' '' \<and> c \<noteq> TAB \<and> c \<noteq> CHR 0x0D \<and> c \<noteq> CHR '','' \<and> c \<noteq> CHR ''#''"
  by (auto simp: isdigit_def in_range_def)

lemma scan_at_int:
  assumes "rest_of_line (scan p) = decimal n @ c # r" and "c = CHR '' '' \<or> c = NL"
  shows "reads_to (int_token (of_nat n)) (c # r) p (scan_at H b p)"
proof -
  obtain d ds where d: "decimal n = d # ds" "isdigit d" using decimal_digits [of n] by (cases "decimal n") auto
  then have p: "peek_char (scan p) = d" using assms by (simp add: peek_char_rest)
  show ?thesis
    using d digit_class [OF d(2)] assms scan_int_decimal [of "maybe_snapshot_line p" n c r H]
    by (simp add: reads_to_def scan_at_def p scanned_def)
qed

lemma scan_at_op:
  assumes "rest_of_line (scan p) = c # d # r" and "is_punctuation c" and "d = CHR '' '' \<or> d = NL"
  shows "reads_to (plain_token (of_char c) (of_char c)) (d # r) p (scan_at H b p)"
proof -
  have p: "peek_char (scan p) = c" "peek_char2 (scan p) = d"
    using assms by (simp_all add: peek_char_rest peek_char2_rest)
  have n: "next_char (scan p) = skip_chars 1 (scan p)" using assms by (simp add: next_char_rest)
  have c: "c \<noteq> NL" "c \<noteq> CHR '';''" "\<not> isdigit c" "c \<noteq> CHR ''_''" "c \<noteq> CHR ''.''" "\<not> isalpha c" "c \<noteq> CHR ''$''"
    "c \<noteq> QUOTE" "c \<noteq> APOS" "c \<noteq> CHR ''?''"
    using assms(2) by (auto simp: is_punctuation_def isdigit_def isalpha_def in_range_def)
  have d: "\<not> isdigit d" using assms(3) separators by blast
  show ?thesis
    using assms(1,2) by (simp add: reads_to_def scan_at_def p c d n scanned_def)
qed

lemma ident_in_register: "list_all isdigit ds \<Longrightarrow> list_all register_char ds"
  by (auto simp: list_all_iff register_char_def ident_char_def isalnum_def)

lemma scan_at_reg:
  assumes "rest_of_line (scan p) = CHR ''$'' # decimal n @ d # r" and "n < 32" and "d = CHR '' '' \<or> d = NL"
  shows "reads_to \<lparr>tok_type = TOK_REG, tok_val = SV_Int (of_nat n)\<rparr> (d # r) p (scan_at H b p)"
proof -
  have p: "peek_char (scan p) = CHR ''$''" using assms by (simp add: peek_char_rest)
  have n: "next_char (scan p) = skip_chars 1 (scan p)" using assms by (simp add: next_char_rest)
  have w: "takeWhile register_char (decimal n @ d # r) = decimal n"
    using ident_in_register [of "decimal n"] decimal_digits [of n] separators [OF assms(3)] by (simp add: takeWhile_stop)
  have t: "take 63 (decimal n) = decimal n" using register_decimal(2) [OF assms(2)] by simp
  have "char_at (decimal n) 0 \<noteq> CHR ''f''"
    using decimal_digits [of n] by (cases "decimal n") (auto simp: char_at_def isdigit_def in_range_def)
  then show ?thesis
    using assms register_decimal(1) [OF assms(2)]
    by (simp add: reads_to_def scan_at_def p n scanned_def scan_register_def w t isdigit_def isalpha_def in_range_def)
qed

lemma scan_at_key:
  assumes "rest_of_line (scan p) = op_name k @ d # r" and "k \<in> set opcode_rows" and "op_kind k \<noteq> PSEUDO_OP"
    and "d = CHR '' '' \<or> d = NL"
  shows "reads_to \<lparr>tok_type = op_tok k, tok_val = SV_Int (word_of_int (op_tok k))\<rparr> (d # r) p (scan_at H False p)"
proof -
  note k = keyword_text [OF assms(2)]
  obtain x xs where x: "op_name k = x # xs" using k(2) by (cases "op_name k") auto
  have p: "peek_char (scan p) = x" using assms x by (simp add: peek_char_rest)
  have w: "takeWhile ident_char (op_name k @ d # r) = op_name k"
    using k(1) separators [OF assms(4)] by (simp add: takeWhile_stop)
  have t: "take 255 (op_name k) = op_name k" using k(4) by simp
  have c: "x \<noteq> NL" "x \<noteq> CHR '';''" "x \<noteq> CHR ''-''" "\<not> isdigit x" "x = CHR ''_'' \<or> x = CHR ''.'' \<or> isalpha x"
    using k(1,3) x by (auto simp: ident_char_def isalnum_def isdigit_def isalpha_def in_range_def)
  show ?thesis
    using assms(1) k(5) check_keyword_row [OF assms(2,3)]
    by (simp add: reads_to_def scan_at_def p c scanned_def scan_identifier_def w t Let_def)
qed

lemma scan_at_lexeme:
  assumes "line_ok (l # ls)" and "rest_of_line (scan p) = lex_text l @ render ls" and "b \<longrightarrow> (\<forall>k. l \<noteq> L_Key k)"
  shows "reads_to (lex_token l) (render ls) p (scan_at H b p)"
proof (cases "l = L_End")
  case True
  with assms show ?thesis by (auto intro: scan_at_end)
next
  case False
  obtain d r where d: "render ls = d # r" "d = CHR '' '' \<or> d = NL" by (rule line_ok_next [OF assms(1) False])
  show ?thesis
  proof (cases l)
    case (L_Int w)
    then show ?thesis using scan_at_int [OF _ d(2), of p "unat w" r H b] assms d(1) by simp
  next
    case (L_Op c)
    then show ?thesis using scan_at_op [OF _ _ d(2), of p c r H b] assms d(1) by simp
  next
    case (L_Reg n)
    then show ?thesis using scan_at_reg [OF _ _ d(2), of p n r H b] assms d(1) by simp
  next
    case (L_Key k)
    then show ?thesis using scan_at_key [OF _ _ _ d(2), of p k r H] assms d(1) by simp
  qed (use False in simp)
qed

lemma lex_text_start:
  assumes "lex_ok l" and "l \<noteq> L_End"
  obtains c r where "lex_text l = c # r" "blank_prefix (lex_text l @ xs) = 0"
proof (cases "lex_text l")
  case Nil
  with assms show ?thesis using decimal_digits keyword_text(2) by (cases l) auto
next
  case (Cons c r)
  have "c \<noteq> CHR '' '' \<and> c \<noteq> TAB \<and> c \<noteq> CHR 0x0D \<and> c \<noteq> CHR '','' \<and> c \<noteq> CHR ''#''"
  proof (cases l)
    case (L_Int w)
    with Cons decimal_digits [of "unat w"] show ?thesis by (intro conjI) (auto dest: digit_class)
  next
    case (L_Key k)
    with Cons assms keyword_text(1) [of k] have "ident_char c" by auto
    then show ?thesis by (auto simp: ident_char_def isalnum_def isalpha_def isdigit_def in_range_def)
  qed (use Cons assms in \<open>auto simp: is_punctuation_def\<close>)
  with Cons that show ?thesis by simp
qed

text \<open>The scanner reads the first lexeme of a line and is left at the second.\<close>

lemma scan_lexeme:
  assumes "line_ok (l # ls)" and "rest_of_line (scan p) = render (l # ls)"
    and "force_id_next (scan p) \<longrightarrow> (\<forall>k. l \<noteq> L_Key k)"
  shows "\<exists>q. scan_one_token H p = Inr (lex_token l, q) \<and> rest_of_line (scan q) = render ls \<and>
     tok_buf (scan q) = tok_buf (scan p) \<and> \<not> force_id_next (scan q) \<and> scanned p q"
proof -
  let ?c = "(scan p)\<lparr>force_id_next := False\<rparr>" and ?b = "if l = L_End then 0 else 1 :: nat"
  have b: "blank_prefix (rest_of_line ?c) = ?b \<and> ?b < length (rest_of_line ?c) \<and>
    drop ?b (rest_of_line ?c) = lex_text l @ render ls"
  proof (cases "l = L_End")
    case True
    then show ?thesis using assms(2) by simp
  next
    case False
    with assms(1) have "lex_ok l" by simp
    then obtain c r where "lex_text l = c # r" "blank_prefix (lex_text l @ render ls) = 0" using False by (rule lex_text_start)
    then show ?thesis using assms(2) False by simp
  qed
  then have skip: "skip_to_char ?c = (True, False, skip_chars ?b ?c)" using skip_to_char_here [of ?c] by simp
  let ?p = "(upd_mach (\<lambda>s. s) p)\<lparr>scan := skip_chars ?b ?c\<rparr>"
  have "reads_to (lex_token l) (render ls) ?p (scan_at H (force_id_next (scan p)) ?p)"
    using b by (intro scan_at_lexeme [OF assms(1) _ assms(3)]) (simp add: upd_mach_def)
  then show ?thesis
    by (auto simp: scan_one_token_def skip reads_to_def scanned_def split: sum.splits)
qed

subsection \<open>The contract of the token source\<close>

definition plain_tokens :: "scan_token list \<Rightarrow> bool" where
  "plain_tokens ts \<longleftrightarrow> (\<forall>t \<in> set ts. \<forall>r \<in> set opcode_rows. tok_type t \<noteq> op_tok r)"

text \<open>
  What the parser relies on: \<open>faces p ts\<close> tells that the next tokens are \<open>ts\<close>. Peeking shows the
  first one and keeps it, advancing takes it away and delivers its value, and neither changes
  anything but the scanner. The identifier flag is harmless before tokens that are no keywords.
\<close>

locale token_source =
  fixes H :: host and faces :: "pstate \<Rightarrow> scan_token list \<Rightarrow> bool"
  assumes peek: "faces p (t # ts) \<Longrightarrow> \<exists>q. scanner_peek H p = Inr (tok_type t, q) \<and> faces q (t # ts) \<and> scanned p q"
    and advance: "faces p (t # ts) \<Longrightarrow> \<exists>q. scanner_advance H p = Inr (tok_type t, q) \<and> faces q ts \<and> scanned p q \<and>
      (has_value (tok_type t) \<longrightarrow> scan_value q = tok_val t)"
    and forced: "faces p ts \<Longrightarrow> plain_tokens ts \<Longrightarrow> faces (scanner_force_identifier p) ts"
    and elsewhere: "faces p ts \<Longrightarrow> scan q = scan p \<Longrightarrow> faces q ts"

text \<open>The line buffer and the lookahead as a token source.\<close>

definition line_faces :: "pstate \<Rightarrow> scan_token list \<Rightarrow> bool" where
  "line_faces p ts \<longleftrightarrow> (\<exists>ls1 ls2. ts = map lex_token (ls1 @ ls2) \<and> line_ok ls2 \<and> tok_buf (scan p) = map lex_token ls1 \<and>
     rest_of_line (scan p) = render ls2 \<and> (force_id_next (scan p) \<longrightarrow> ls2 \<noteq> [] \<longrightarrow> (\<forall>k. hd ls2 \<noteq> L_Key k)))"

lemma line_facesE:
  assumes "line_faces p ts"
  obtains ls1 ls2 where "ts = map lex_token (ls1 @ ls2)" "line_ok ls2" "tok_buf (scan p) = map lex_token ls1"
    "rest_of_line (scan p) = render ls2" "force_id_next (scan p) \<longrightarrow> ls2 \<noteq> [] \<longrightarrow> (\<forall>k. hd ls2 \<noteq> L_Key k)"
  using assms unfolding line_faces_def by (elim exE conjE) (rule that)

lemma rest_tok_buf [simp]: "rest_of_line (c\<lparr>tok_buf := b\<rparr>) = rest_of_line c"
  by (simp add: rest_of_line_def)

lemma line_ok_tl: "line_ok (l # ls) \<Longrightarrow> line_ok ls"
  by (auto split: if_splits)

lemma fill_one:
  assumes "line_faces p (t # ts)"
  shows "\<exists>q b. ensure_filled H 1 p = Inr ((), q) \<and> line_faces q (t # ts) \<and> scanned p q \<and> tok_buf (scan q) = t # b"
proof -
  obtain ls1 ls2 where l: "t # ts = map lex_token (ls1 @ ls2)" "line_ok ls2" "tok_buf (scan p) = map lex_token ls1"
    "rest_of_line (scan p) = render ls2" "force_id_next (scan p) \<longrightarrow> ls2 \<noteq> [] \<longrightarrow> (\<forall>k. hd ls2 \<noteq> L_Key k)"
    by (rule line_facesE [OF assms])
  show ?thesis
  proof (cases ls1)
    case (Cons x xs)
    then show ?thesis
      using l assms by (intro exI [of _ p] exI [of _ "map lex_token xs"]) (simp add: scanned_refl)
  next
    case Nil
    then obtain x xs where x: "ls2 = x # xs" using l(1) by (cases ls2) auto
    obtain q where q: "scan_one_token H p = Inr (lex_token x, q)" "rest_of_line (scan q) = render xs"
      "tok_buf (scan q) = tok_buf (scan p)" "\<not> force_id_next (scan q)" "scanned p q"
      using scan_lexeme [of x xs p H] l x by auto
    let ?q = "upd_scan (\<lambda>c. c\<lparr>tok_buf := tok_buf c @ [lex_token x]\<rparr>) q"
    have "line_faces ?q (t # ts)"
      unfolding line_faces_def
      by (rule exI [of _ "[x]"], rule exI [of _ xs]) (use l q x Nil line_ok_tl in auto)
    then show ?thesis
      using l q x Nil by (intro exI [of _ ?q] exI [of _ "[]"]) (simp add: scanned_def)
  qed
qed

lemma tl_faces:
  assumes "line_faces p (t # ts)" and "tok_buf (scan p) = t # b" and "scan q = (scan p)\<lparr>tok_buf := b\<rparr>"
  shows "line_faces q ts"
proof -
  obtain ls1 ls2 where l: "t # ts = map lex_token (ls1 @ ls2)" "line_ok ls2" "tok_buf (scan p) = map lex_token ls1"
    "rest_of_line (scan p) = render ls2" "force_id_next (scan p) \<longrightarrow> ls2 \<noteq> [] \<longrightarrow> (\<forall>k. hd ls2 \<noteq> L_Key k)"
    by (rule line_facesE [OF assms(1)])
  then obtain x xs where "ls1 = x # xs" using assms(2) by (cases ls1) auto
  with l assms show ?thesis
    unfolding line_faces_def by (intro exI [of _ xs] exI [of _ ls2]) auto
qed

interpretation scanner_tokens: token_source H line_faces
proof
  fix p t ts assume f: "line_faces p (t # ts)"
  from fill_one [OF this] obtain q b where q: "ensure_filled H 1 p = Inr ((), q)" "line_faces q (t # ts)" "scanned p q"
    "tok_buf (scan q) = t # b" by blast
  then show "\<exists>q. scanner_peek H p = Inr (tok_type t, q) \<and> line_faces q (t # ts) \<and> scanned p q"
    by (auto simp: scanner_peek_def)
  let ?q = "(upd_scan (\<lambda>c. c\<lparr>tok_buf := tl (tok_buf c)\<rparr>) q)
               \<lparr>scan_value := if has_value (tok_type t) then tok_val t else scan_value q\<rparr>"
  have "line_faces ?q ts" using q by (intro tl_faces [OF q(2,4)]) (simp add: upd_scan_def)
  moreover have "scanned p ?q" using q(3) by (simp add: scanned_def)
  ultimately show "\<exists>q. scanner_advance H p = Inr (tok_type t, q) \<and> line_faces q ts \<and> scanned p q \<and>
      (has_value (tok_type t) \<longrightarrow> scan_value q = tok_val t)"
    using q by (intro exI [of _ ?q]) (simp add: scanner_advance_def)
next
  fix p ts assume f: "line_faces p ts" and pl: "plain_tokens ts"
  obtain ls1 ls2 where l: "ts = map lex_token (ls1 @ ls2)" "line_ok ls2" "tok_buf (scan p) = map lex_token ls1"
    "rest_of_line (scan p) = render ls2"
    by (rule line_facesE [OF f])
  have "hd ls2 \<noteq> L_Key k" if "ls2 \<noteq> []" for k
  proof
    assume "hd ls2 = L_Key k"
    with that l(2) have "k \<in> set opcode_rows" "L_Key k \<in> set ls2" by (cases ls2; auto)+
    with pl l(1) show False by (force simp: plain_tokens_def)
  qed
  with l show "line_faces (scanner_force_identifier p) ts"
    unfolding line_faces_def by (intro exI [of _ ls1] exI [of _ ls2]) (simp add: scanner_force_identifier_def)
next
  fix p q :: pstate and ts assume "line_faces p ts" and "scan q = scan p"
  then show "line_faces q ts" by (simp add: line_faces_def)
qed

end
