(* ===== verification/ParserProps.thy ===== *)
theory ParserProps
  imports ScannerProps MemoryProps
begin

text \<open>
  The parser on top of the token source: expressions are read with the usual precedences, the
  written form of an expression is read back as its value.
\<close>

subsection \<open>Expressions\<close>

text \<open>
  Expressions over 32-bit words with their value; \<^verbatim>\<open>x / 0\<close> is 0, and the quotient that does not fit
  has no value.
\<close>

datatype aexp = Num "32 word" | Add aexp aexp | Sub aexp aexp | Mul aexp aexp | Quot aexp aexp

definition quotient :: "32 word \<Rightarrow> 32 word \<Rightarrow> 32 word option" where
  "quotient v r = (if r = 0 then Some 0 else if v = 0x80000000 \<and> r = - 1 then None else Some (sdiv_trunc v r))"

fun aval :: "aexp \<Rightarrow> 32 word option" where
  "aval (Num w) = Some w"
| "aval (Add a b) = (case (aval a, aval b) of (Some x, Some y) \<Rightarrow> Some (x + y) | _ \<Rightarrow> None)"
| "aval (Sub a b) = (case (aval a, aval b) of (Some x, Some y) \<Rightarrow> Some (x - y) | _ \<Rightarrow> None)"
| "aval (Mul a b) = (case (aval a, aval b) of (Some x, Some y) \<Rightarrow> Some (x * y) | _ \<Rightarrow> None)"
| "aval (Quot a b) = (case (aval a, aval b) of (Some x, Some y) \<Rightarrow> quotient x y | _ \<Rightarrow> None)"

text \<open>
  The written form, with parentheses where the context needs them: level 0 is a sum, 1 a product,
  2 a factor.
\<close>

definition paren :: "bool \<Rightarrow> lexeme list \<Rightarrow> lexeme list" where
  "paren b ls = (if b then L_Op CHR ''('' # ls @ [L_Op CHR '')''] else ls)"

fun written :: "nat \<Rightarrow> aexp \<Rightarrow> lexeme list" where
  "written k (Num w) = [L_Int w]"
| "written k (Add a b) = paren (0 < k) (written 0 a @ L_Op CHR ''+'' # written 1 b)"
| "written k (Sub a b) = paren (0 < k) (written 0 a @ L_Op CHR ''-'' # written 1 b)"
| "written k (Mul a b) = paren (1 < k) (written 1 a @ L_Op CHR ''*'' # written 2 b)"
| "written k (Quot a b) = paren (1 < k) (written 1 a @ L_Op CHR ''/'' # written 2 b)"

fun nodes :: "aexp \<Rightarrow> nat" where
  "nodes (Num w) = 1"
| "nodes (Add a b) = nodes a + nodes b + 1"
| "nodes (Sub a b) = nodes a + nodes b + 1"
| "nodes (Mul a b) = nodes a + nodes b + 1"
| "nodes (Quot a b) = nodes a + nodes b + 1"

abbreviation tokens :: "lexeme list \<Rightarrow> scan_token list" where
  "tokens ls \<equiv> map lex_token ls"

lemma token_types [simp]:
  "tok_type (lex_token (L_Int w)) = TOK_INT" "tok_val (lex_token (L_Int w)) = SV_Int w"
  "tok_type (lex_token (L_Op c)) = of_char c"
  by (simp_all add: int_token_def plain_token_def)

lemma plain_token_sel [simp]: "tok_type (plain_token t v) = t" "tok_val (plain_token t v) = SV_Int v"
  by (simp_all add: plain_token_def)

text \<open>The tokens that continue a product and a sum.\<close>

definition ends_term :: "scan_token list \<Rightarrow> bool" where
  "ends_term ts \<longleftrightarrow> ts \<noteq> [] \<and> tok_type (hd ts) \<noteq> TOK_TIMES \<and> tok_type (hd ts) \<noteq> TOK_SLASH"

definition ends_expr :: "scan_token list \<Rightarrow> bool" where
  "ends_expr ts \<longleftrightarrow> ends_term ts \<and> tok_type (hd ts) \<noteq> TOK_PLUS \<and> tok_type (hd ts) \<noteq> TOK_MINUS"

text \<open>
  What the three levels of the parser make of the written form: a factor is read completely, a term
  and an expression up to the loop that looks for more operators, with fuel left.
\<close>

fun is_sum :: "aexp \<Rightarrow> bool" where
  "is_sum (Add a b) = True"
| "is_sum (Sub a b) = True"
| "is_sum _ = False"

definition reads_factor :: "host \<Rightarrow> (pstate \<Rightarrow> scan_token list \<Rightarrow> bool) \<Rightarrow> aexp \<Rightarrow> bool" where
  "reads_factor H faces e \<longleftrightarrow> (\<forall>n p rest v. 12 * nodes e + 2 \<le> n \<longrightarrow> aval e = Some v \<longrightarrow>
     faces p (tokens (written 2 e) @ rest) \<longrightarrow>
     (\<exists>q. parse_factor H n p = Inr (v, q) \<and> faces q rest \<and> scanned p q))"

definition reads_term :: "host \<Rightarrow> (pstate \<Rightarrow> scan_token list \<Rightarrow> bool) \<Rightarrow> aexp \<Rightarrow> bool" where
  "reads_term H faces e \<longleftrightarrow> (\<forall>n p rest v. 12 * nodes e + 3 \<le> n + (if is_sum e then 0 else 7) \<longrightarrow> aval e = Some v \<longrightarrow>
     faces p (tokens (written 1 e) @ rest) \<longrightarrow>
     (\<exists>q m. parse_term H n p = term_loop H m v q \<and> n + (if is_sum e then 0 else 7) \<le> m + 12 * nodes e + 3 \<and>
        faces q rest \<and> scanned p q))"

definition reads_expr :: "host \<Rightarrow> (pstate \<Rightarrow> scan_token list \<Rightarrow> bool) \<Rightarrow> aexp \<Rightarrow> bool" where
  "reads_expr H faces e \<longleftrightarrow> (\<forall>n p rest v. 12 * nodes e \<le> n \<longrightarrow> aval e = Some v \<longrightarrow> ends_term rest \<longrightarrow>
     faces p (tokens (written 0 e) @ rest) \<longrightarrow>
     (\<exists>q m. parse_expr H n p = expr_loop H m v q \<and> n \<le> m + 12 * nodes e \<and> faces q rest \<and> scanned p q))"

lemma reads_factorD:
  assumes "reads_factor H faces e" and "12 * nodes e + 2 \<le> n" and "aval e = Some v"
    and "faces p (tokens (written 2 e) @ rest)"
  obtains q where "parse_factor H n p = Inr (v, q)" "faces q rest" "scanned p q"
  using assms unfolding reads_factor_def by blast

lemma reads_termD:
  assumes "reads_term H faces e" and "12 * nodes e + 3 \<le> n + (if is_sum e then 0 else 7)" and "aval e = Some v"
    and "faces p (tokens (written 1 e) @ rest)"
  obtains q m where "parse_term H n p = term_loop H m v q" "n + (if is_sum e then 0 else 7) \<le> m + 12 * nodes e + 3"
    "faces q rest" "scanned p q"
  using assms unfolding reads_term_def by blast

lemma reads_exprD:
  assumes "reads_expr H faces e" and "12 * nodes e \<le> n" and "aval e = Some v" and "ends_term rest"
    and "faces p (tokens (written 0 e) @ rest)"
  obtains q m where "parse_expr H n p = expr_loop H m v q" "n \<le> m + 12 * nodes e" "faces q rest" "scanned p q"
  using assms unfolding reads_expr_def by blast

context token_source
begin

lemma peek_step:
  assumes "faces p (t # ts)"
  obtains q where "scanner_peek H p = Inr (tok_type t, q)" "faces q (t # ts)" "scanned p q"
  using peek [OF assms] by blast

lemma advance_step:
  assumes "faces p (t # ts)"
  obtains q where "scanner_advance H p = Inr (tok_type t, q)" "faces q ts" "scanned p q"
    "has_value (tok_type t) \<Longrightarrow> scan_value q = tok_val t"
  using advance [OF assms] by blast

lemma advance_int_step:
  assumes "faces p (t # ts)" and "has_value (tok_type t)" and "tok_val t = SV_Int w"
  obtains q where "advance_int H p = Inr (w, q)" "faces q ts" "scanned p q"
proof -
  obtain q where q: "scanner_advance H p = Inr (tok_type t, q)" "faces q ts" "scanned p q" "scan_value q = SV_Int w"
    using advance_step [OF assms(1)] assms(2,3) by metis
  then show thesis by (intro that [of q]) (simp_all add: advance_int_def)
qed

lemma expect_step:
  assumes "faces p (t # ts)"
  obtains q where "expect H (tok_type t) what p = Inr ((), q)" "faces q ts" "scanned p q"
proof -
  obtain q where q: "scanner_peek H p = Inr (tok_type t, q)" "faces q (t # ts)" "scanned p q"
    using peek_step [OF assms] .
  obtain r where r: "scanner_advance H q = Inr (tok_type t, r)" "faces r ts" "scanned q r"
    using advance_step [OF q(2)] .
  with q show thesis using scanned_trans by (intro that [of r]) (auto simp: expect_def)
qed

text \<open>A loop that does not see its operators returns.\<close>

lemma term_loop_end:
  assumes "faces p ts" and "ends_term ts" and "0 < n"
  obtains q where "term_loop H n v p = Inr (v, q)" "faces q ts" "scanned p q"
proof -
  obtain t ts' where t: "ts = t # ts'" using assms(2) by (cases ts) (auto simp: ends_term_def)
  obtain q where q: "scanner_peek H p = Inr (tok_type t, q)" "faces q ts" "scanned p q"
    using peek_step assms(1) unfolding t .
  with assms(2,3) t show thesis by (intro that [of q]) (cases n; auto simp: ends_term_def)+
qed

lemma expr_loop_end:
  assumes "faces p ts" and "ends_expr ts" and "0 < n"
  obtains q where "expr_loop H n v p = Inr (v, q)" "faces q ts" "scanned p q"
proof -
  obtain t ts' where t: "ts = t # ts'" using assms(2) by (cases ts) (auto simp: ends_expr_def ends_term_def)
  obtain q where q: "scanner_peek H p = Inr (tok_type t, q)" "faces q ts" "scanned p q"
    using peek_step assms(1) unfolding t .
  with assms(2,3) t show thesis by (intro that [of q]) (cases n; auto simp: ends_expr_def ends_term_def)+
qed

lemma paren_factor:
  assumes e: "reads_expr H faces e" and w: "written 2 e = L_Op CHR ''('' # written 0 e @ [L_Op CHR '')'']"
  shows "reads_factor H faces e"
  unfolding reads_factor_def
proof (intro allI impI)
  fix n p rest v assume n: "12 * nodes e + 2 \<le> n" and v: "aval e = Some v" and f: "faces p (tokens (written 2 e) @ rest)"
  obtain n' where n': "n = Suc n'" using n by (cases n) auto
  let ?close = "lex_token (L_Op CHR '')'') # rest"
  have f0: "faces p (lex_token (L_Op CHR ''('') # tokens (written 0 e) @ ?close)" using f w by simp
  obtain p1 where p1: "scanner_peek H p = Inr (tok_type (lex_token (L_Op CHR ''('')), p1)"
    "faces p1 (lex_token (L_Op CHR ''('') # tokens (written 0 e) @ ?close)" "scanned p p1"
    by (rule peek_step [OF f0])
  obtain p2 where p2: "scanner_advance H p1 = Inr (tok_type (lex_token (L_Op CHR ''('')), p2)"
    "faces p2 (tokens (written 0 e) @ ?close)" "scanned p1 p2"
    by (rule advance_step [OF p1(2)])
  have ends: "ends_expr ?close" "ends_term ?close" by (simp_all add: ends_expr_def ends_term_def)
  obtain p3 m where p3: "parse_expr H n' p2 = expr_loop H m v p3" "n' \<le> m + 12 * nodes e" "faces p3 ?close" "scanned p2 p3"
    by (rule reads_exprD [OF e _ v ends(2) p2(2), of n']) (use n n' in simp)
  obtain p4 where p4: "expr_loop H m v p3 = Inr (v, p4)" "faces p4 ?close" "scanned p3 p4"
    by (rule expr_loop_end [OF p3(3) ends(1), of m v]) (use p3(2) n n' in simp)
  obtain p5 where p5: "expect H (tok_type (lex_token (L_Op CHR '')''))) ''Expected )'' p4 = Inr ((), p5)" "faces p5 rest" "scanned p4 p5"
    by (rule expect_step [OF p4(2), of "''Expected )''"])
  have "scanned p p5" using p1(3) p2(3) p3(4) p4(3) p5(3) by (simp add: scanned_def)
  then show "\<exists>q. parse_factor H n p = Inr (v, q) \<and> faces q rest \<and> scanned p q"
    using p1(1) p2(1) p3(1) p4(1) p5(1,2) by (intro exI [of _ p5]) (simp add: n')
qed

lemma factor_term:
  assumes e: "reads_factor H faces e" and s: "is_sum e"
  shows "reads_term H faces e"
  unfolding reads_term_def
proof (intro allI impI)
  fix n p rest v assume n: "12 * nodes e + 3 \<le> n + (if is_sum e then 0 else 7)" and v: "aval e = Some v"
    and f: "faces p (tokens (written 1 e) @ rest)"
  obtain n' where n': "n = Suc n'" using n s by (cases n) auto
  have "written 1 e = written 2 e" using s by (cases e) auto
  with f have f2: "faces p (tokens (written 2 e) @ rest)" by simp
  obtain q where q: "parse_factor H n' p = Inr (v, q)" "faces q rest" "scanned p q"
    by (rule reads_factorD [OF e _ v f2, of n']) (use n n' s in simp)
  then show "\<exists>q m. parse_term H n p = term_loop H m v q \<and> n + (if is_sum e then 0 else 7) \<le> m + 12 * nodes e + 3 \<and>
        faces q rest \<and> scanned p q"
    using n' s by (intro exI [of _ q] exI [of _ n']) simp
qed

lemma term_expr:
  assumes e: "reads_term H faces e" and s: "\<not> is_sum e"
  shows "reads_expr H faces e"
  unfolding reads_expr_def
proof (intro allI impI)
  fix n p rest v assume n: "12 * nodes e \<le> n" and v: "aval e = Some v" and r: "ends_term rest"
    and f: "faces p (tokens (written 0 e) @ rest)"
  have "0 < nodes e" by (cases e) auto
  then obtain n' where n': "n = Suc n'" using n by (cases n) auto
  have "written 0 e = written 1 e" using s by (cases e) (auto simp: paren_def)
  with f have f1: "faces p (tokens (written 1 e) @ rest)" by simp
  obtain q m where q: "parse_term H n' p = term_loop H m v q" "n' + (if is_sum e then 0 else 7) \<le> m + 12 * nodes e + 3"
    "faces q rest" "scanned p q"
    by (rule reads_termD [OF e _ v f1, of n']) (use n n' s in simp)
  obtain q2 where q2: "term_loop H m v q = Inr (v, q2)" "faces q2 rest" "scanned q q2"
    by (rule term_loop_end [OF q(3) r, of m v]) (use q(2) n n' s in simp)
  have "scanned p q2" using q(4) q2(3) by (rule scanned_trans)
  then show "\<exists>q m. parse_expr H n p = expr_loop H m v q \<and> n \<le> m + 12 * nodes e \<and> faces q rest \<and> scanned p q"
    using q q2 n' \<open>0 < nodes e\<close> by (intro exI [of _ q2] exI [of _ n']) simp
qed

lemma sum_step:
  assumes a: "reads_expr H faces a" "aval a = Some x" and b: "reads_term H faces b" "aval b = Some y"
    and n: "12 * (nodes a + nodes b + 1) \<le> n" and r: "ends_term rest"
    and c: "c = CHR ''+'' \<and> v = x + y \<or> c = CHR ''-'' \<and> v = x - y"
    and f: "faces p (tokens (written 0 a @ L_Op c # written 1 b) @ rest)"
  shows "\<exists>q m. parse_expr H n p = expr_loop H m v q \<and> n \<le> m + 12 * (nodes a + nodes b + 1) \<and> faces q rest \<and> scanned p q"
proof -
  let ?rest = "tokens (L_Op c # written 1 b) @ rest"
  have f0: "faces p (tokens (written 0 a) @ ?rest)" using f by simp
  have t: "ends_term ?rest" using c by (auto simp: ends_term_def)
  obtain p1 m1 where p1: "parse_expr H n p = expr_loop H m1 x p1" "n \<le> m1 + 12 * nodes a" "faces p1 ?rest" "scanned p p1"
    by (rule reads_exprD [OF a(1) _ a(2) t f0, of n]) (use n in simp)
  obtain m where m: "m1 = Suc m" using p1(2) n by (cases m1) auto
  have f1: "faces p1 (lex_token (L_Op c) # tokens (written 1 b) @ rest)" using p1(3) by simp
  obtain p2 where p2: "scanner_peek H p1 = Inr (tok_type (lex_token (L_Op c)), p2)"
    "faces p2 (lex_token (L_Op c) # tokens (written 1 b) @ rest)" "scanned p1 p2"
    by (rule peek_step [OF f1])
  obtain p3 where p3: "scanner_advance H p2 = Inr (tok_type (lex_token (L_Op c)), p3)"
    "faces p3 (tokens (written 1 b) @ rest)" "scanned p2 p3"
    by (rule advance_step [OF p2(2)])
  obtain p4 m2 where p4: "parse_term H m p3 = term_loop H m2 y p4" "m + (if is_sum b then 0 else 7) \<le> m2 + 12 * nodes b + 3"
    "faces p4 rest" "scanned p3 p4"
    by (rule reads_termD [OF b(1) _ b(2) p3(2), of m]) (use p1(2) n m in simp)
  obtain p5 where p5: "term_loop H m2 y p4 = Inr (y, p5)" "faces p5 rest" "scanned p4 p5"
    by (rule term_loop_end [OF p4(3) r, of m2 y]) (use p4(2) p1(2) n m in \<open>simp split: if_splits\<close>)
  have "scanned p p5" using p1(4) p2(3) p3(3) p4(4) p5(3) by (simp add: scanned_def)
  moreover have "parse_expr H n p = expr_loop H m v p5"
    using c p1(1) p2(1) p3(1) p4(1) p5(1) by (auto simp: m)
  moreover have "n \<le> m + 12 * (nodes a + nodes b + 1)" using p1(2) m by simp
  ultimately show ?thesis using p5(2) by blast
qed

lemma product_step:
  assumes a: "reads_term H faces a" "aval a = Some x" and b: "reads_factor H faces b" "aval b = Some y"
    and n: "12 * (nodes a + nodes b + 1) + 3 \<le> n + 7"
    and c: "c = CHR ''*'' \<and> v = x * y \<or> c = CHR ''/'' \<and> quotient x y = Some v"
    and f: "faces p (tokens (written 1 a @ L_Op c # written 2 b) @ rest)"
  shows "\<exists>q m. parse_term H n p = term_loop H m v q \<and> n + 7 \<le> m + 12 * (nodes a + nodes b + 1) + 3 \<and> faces q rest \<and> scanned p q"
proof -
  let ?rest = "tokens (L_Op c # written 2 b) @ rest"
  have f0: "faces p (tokens (written 1 a) @ ?rest)" using f by simp
  obtain p1 m1 where p1: "parse_term H n p = term_loop H m1 x p1" "n + (if is_sum a then 0 else 7) \<le> m1 + 12 * nodes a + 3"
    "faces p1 ?rest" "scanned p p1"
    by (rule reads_termD [OF a(1) _ a(2) f0, of n]) (use n in simp)
  have m1: "n \<le> m1 + 12 * nodes a + 3" using p1(2) by simp
  obtain m where m: "m1 = Suc m" using m1 n by (cases m1) auto
  have f1: "faces p1 (lex_token (L_Op c) # tokens (written 2 b) @ rest)" using p1(3) by simp
  obtain p2 where p2: "scanner_peek H p1 = Inr (tok_type (lex_token (L_Op c)), p2)"
    "faces p2 (lex_token (L_Op c) # tokens (written 2 b) @ rest)" "scanned p1 p2"
    by (rule peek_step [OF f1])
  obtain p3 where p3: "scanner_advance H p2 = Inr (tok_type (lex_token (L_Op c)), p3)"
    "faces p3 (tokens (written 2 b) @ rest)" "scanned p2 p3"
    by (rule advance_step [OF p2(2)])
  obtain p4 where p4: "parse_factor H m p3 = Inr (y, p4)" "faces p4 rest" "scanned p3 p4"
    by (rule reads_factorD [OF b(1) _ b(2) p3(2), of m]) (use m1 n m in simp)
  have "scanned p p4" using p1(4) p2(3) p3(3) p4(3) by (simp add: scanned_def)
  moreover have "parse_term H n p = term_loop H m v p4"
    using c p1(1) p2(1) p3(1) p4(1) by (auto simp: m term_div_def quotient_def split: if_splits)
  moreover have "n + 7 \<le> m + 12 * (nodes a + nodes b + 1) + 3" using m1 m by simp
  ultimately show ?thesis using p4(2) by blast
qed

lemma reads_number: "reads_factor H faces (Num w)" "reads_term H faces (Num w)" "reads_expr H faces (Num w)"
proof -
  have factor: "\<exists>q. parse_factor H (Suc n) p = Inr (w, q) \<and> faces q rest \<and> scanned p q"
    if start: "faces p (lex_token (L_Int w) # rest)" for n p rest
  proof -
    obtain q where q: "scanner_peek H p = Inr (tok_type (lex_token (L_Int w)), q)" "faces q (lex_token (L_Int w) # rest)" "scanned p q"
      by (rule peek_step [OF start])
    obtain r where r: "advance_int H q = Inr (w, r)" "faces r rest" "scanned q r"
      by (rule advance_int_step [OF q(2), of w]) (simp_all add: has_value_def int_token_def)
    with q scanned_trans [OF q(3) r(3)] show ?thesis by (intro exI [of _ r]) (simp add: int_token_def)
  qed
  show "reads_factor H faces (Num w)"
    unfolding reads_factor_def
  proof (intro allI impI)
    fix n p rest v assume "12 * nodes (Num w) + 2 \<le> n" "aval (Num w) = Some v" "faces p (tokens (written 2 (Num w)) @ rest)"
    then show "\<exists>q. parse_factor H n p = Inr (v, q) \<and> faces q rest \<and> scanned p q"
      using factor [of p rest] by (cases n) auto
  qed
  show t: "reads_term H faces (Num w)"
    unfolding reads_term_def
  proof (intro allI impI)
    fix n p rest v assume n: "12 * nodes (Num w) + 3 \<le> n + (if is_sum (Num w) then 0 else 7)" and "aval (Num w) = Some v"
      and f: "faces p (tokens (written 1 (Num w)) @ rest)"
    then obtain n' where n': "n = Suc (Suc n')" by (cases n; cases "n - 1") auto
    obtain q where "parse_factor H (Suc n') p = Inr (w, q)" "faces q rest" "scanned p q"
      using factor [of p rest n'] f by auto
    then show "\<exists>q m. parse_term H n p = term_loop H m v q \<and> n + (if is_sum (Num w) then 0 else 7) \<le> m + 12 * nodes (Num w) + 3 \<and>
        faces q rest \<and> scanned p q"
      using n' \<open>aval (Num w) = Some v\<close> by (intro exI [of _ q] exI [of _ "Suc n'"]) simp
  qed
  show "reads_expr H faces (Num w)" by (rule term_expr [OF t]) simp
qed

lemma reads_all: "reads_factor H faces e \<and> reads_term H faces e \<and> reads_expr H faces e"
proof (induction e)
  case (Num w)
  then show ?case by (simp add: reads_number)
next
  case (Add a b)
  have e: "reads_expr H faces (Add a b)"
    unfolding reads_expr_def
  proof (intro allI impI)
    fix n p rest v assume *: "12 * nodes (Add a b) \<le> n" "aval (Add a b) = Some v" "ends_term rest"
      "faces p (tokens (written 0 (Add a b)) @ rest)"
    then obtain x y where "aval a = Some x" "aval b = Some y" "v = x + y" by (auto split: option.splits)
    then show "\<exists>q m. parse_expr H n p = expr_loop H m v q \<and> n \<le> m + 12 * nodes (Add a b) \<and> faces q rest \<and> scanned p q"
      using sum_step [of a x b y n rest "CHR ''+''" v p] Add.IH * by (simp add: paren_def)
  qed
  have "reads_factor H faces (Add a b)" by (rule paren_factor [OF e]) (simp add: paren_def)
  with e factor_term [OF this] show ?case by simp
next
  case (Sub a b)
  have e: "reads_expr H faces (Sub a b)"
    unfolding reads_expr_def
  proof (intro allI impI)
    fix n p rest v assume *: "12 * nodes (Sub a b) \<le> n" "aval (Sub a b) = Some v" "ends_term rest"
      "faces p (tokens (written 0 (Sub a b)) @ rest)"
    then obtain x y where "aval a = Some x" "aval b = Some y" "v = x - y" by (auto split: option.splits)
    then show "\<exists>q m. parse_expr H n p = expr_loop H m v q \<and> n \<le> m + 12 * nodes (Sub a b) \<and> faces q rest \<and> scanned p q"
      using sum_step [of a x b y n rest "CHR ''-''" v p] Sub.IH * by (simp add: paren_def)
  qed
  have "reads_factor H faces (Sub a b)" by (rule paren_factor [OF e]) (simp add: paren_def)
  with e factor_term [OF this] show ?case by simp
next
  case (Mul a b)
  have e: "reads_term H faces (Mul a b)"
    unfolding reads_term_def
  proof (intro allI impI)
    fix n p rest v assume *: "12 * nodes (Mul a b) + 3 \<le> n + (if is_sum (Mul a b) then 0 else 7)" "aval (Mul a b) = Some v"
      "faces p (tokens (written 1 (Mul a b)) @ rest)"
    then obtain x y where "aval a = Some x" "aval b = Some y" "v = x * y" by (auto split: option.splits)
    then show "\<exists>q m. parse_term H n p = term_loop H m v q \<and>
        n + (if is_sum (Mul a b) then 0 else 7) \<le> m + 12 * nodes (Mul a b) + 3 \<and> faces q rest \<and> scanned p q"
      using product_step [of a x b y n "CHR ''*''" v p rest] Mul.IH * by (simp add: paren_def)
  qed
  have x: "reads_expr H faces (Mul a b)" by (rule term_expr [OF e]) simp
  have "reads_factor H faces (Mul a b)" by (rule paren_factor [OF x]) (simp add: paren_def)
  with e x show ?case by simp
next
  case (Quot a b)
  have e: "reads_term H faces (Quot a b)"
    unfolding reads_term_def
  proof (intro allI impI)
    fix n p rest v assume *: "12 * nodes (Quot a b) + 3 \<le> n + (if is_sum (Quot a b) then 0 else 7)" "aval (Quot a b) = Some v"
      "faces p (tokens (written 1 (Quot a b)) @ rest)"
    then obtain x y where "aval a = Some x" "aval b = Some y" "quotient x y = Some v" by (auto split: option.splits)
    then show "\<exists>q m. parse_term H n p = term_loop H m v q \<and>
        n + (if is_sum (Quot a b) then 0 else 7) \<le> m + 12 * nodes (Quot a b) + 3 \<and> faces q rest \<and> scanned p q"
      using product_step [of a x b y n "CHR ''/''" v p rest] Quot.IH * by (simp add: paren_def)
  qed
  have x: "reads_expr H faces (Quot a b)" by (rule term_expr [OF e]) simp
  have "reads_factor H faces (Quot a b)" by (rule paren_factor [OF x]) (simp add: paren_def)
  with e x show ?case by simp
qed

lemma expression_read:
  assumes "aval e = Some v" and "faces p (tokens (written 0 e) @ rest)" and "ends_expr rest" and "plain_tokens (tokens (written 0 e) @ rest)"
    and "12 * nodes e < n"
  shows "\<exists>q. parse_expression H n p = Inr (v, q) \<and> faces q rest \<and> scanned (p\<lparr>expr_unresolved_label := None\<rparr>) q"
proof -
  let ?p = "(scanner_force_identifier p)\<lparr>expr_unresolved_label := None\<rparr>"
  have f: "faces ?p (tokens (written 0 e) @ rest)" by (rule elsewhere [OF forced [OF assms(2,4)]]) simp
  have t: "ends_term rest" using assms(3) by (simp add: ends_expr_def)
  obtain q m where q: "parse_expr H n ?p = expr_loop H m v q" "n \<le> m + 12 * nodes e" "faces q rest" "scanned ?p q"
    by (rule reads_exprD [OF conjunct2 [OF conjunct2 [OF reads_all]] _ assms(1) t f, of n]) (use assms(5) in simp)
  obtain r where r: "expr_loop H m v q = Inr (v, r)" "faces r rest" "scanned q r"
    by (rule expr_loop_end [OF q(3) assms(3), of m v]) (use q(2) assms(5) in simp)
  have "scanned (p\<lparr>expr_unresolved_label := None\<rparr>) r"
    using scanned_trans [OF q(4) r(3)]
    by (simp add: scanned_def forget_def scanner_force_identifier_def upd_scan_def)
  with q r show ?thesis by (intro exI [of _ r]) (simp add: parse_expression_def force_identifier_def)
qed

end

subsection \<open>The round trip\<close>

lemma opcode_tokens_large: "list_all (\<lambda>r. 263 < op_tok r) opcode_rows"
  by code_simp

lemma plain_small: "(\<And>t. t \<in> set ts \<Longrightarrow> tok_type t \<le> 263) \<Longrightarrow> plain_tokens ts"
  using opcode_tokens_large by (force simp: plain_tokens_def list_all_iff)

lemma written_tokens: "l \<in> set (written k e) \<Longrightarrow> (\<exists>w. l = L_Int w) \<or> (\<exists>c. l = L_Op c \<and> is_punctuation c)"
  by (induction k e arbitrary: l rule: written.induct) (auto simp: paren_def is_punctuation_def split: if_splits)

lemma line_ok_append: "(\<And>l. l \<in> set ls \<Longrightarrow> lex_ok l \<and> l \<noteq> L_End) \<Longrightarrow> line_ok ks \<Longrightarrow> ks \<noteq> [] \<Longrightarrow> line_ok (ls @ ks)"
  by (induction ls) auto

text \<open>
  C31: expressions. An expression written on a line, with parentheses only where precedence or
  associativity need them and its numbers in decimal, is scanned and parsed back to its value over
  32-bit words; the next token is the end of the line and nothing but the scanner has changed.
\<close>

theorem expression_roundtrip:
  assumes "aval e = Some v" and "tok_buf (scan p) = []" and "rest_of_line (scan p) = render (written 0 e @ [L_End])"
    and "12 * nodes e < n"
  shows "\<exists>q r. parse_expression H n p = Inr (v, q) \<and> scanner_peek H q = Inr (TOK_NL, r) \<and>
    scanned (p\<lparr>expr_unresolved_label := None\<rparr>) r"
proof -
  note w = written_tokens [of _ 0 e]
  have ok: "line_ok (written 0 e @ [L_End])" by (intro line_ok_append) (auto dest!: w)
  have "hd (written 0 e @ [L_End]) \<noteq> L_Key k" for k
    using w [of "hd (written 0 e)"] by (cases "written 0 e") auto
  then have f: "line_faces p (tokens (written 0 e) @ tokens [L_End])"
    using assms(2,3) ok unfolding line_faces_def by (intro exI [of _ "[]"] exI [of _ "written 0 e @ [L_End]"]) simp
  have pl: "plain_tokens (tokens (written 0 e) @ tokens [L_End])"
    by (intro plain_small) (auto dest!: w simp: is_punctuation_def int_token_def)
  obtain q where q: "parse_expression H n p = Inr (v, q)" "line_faces q (tokens [L_End])"
    "scanned (p\<lparr>expr_unresolved_label := None\<rparr>) q"
    using scanner_tokens.expression_read [OF assms(1) f _ pl assms(4), of H] by (auto simp: ends_expr_def ends_term_def)
  then obtain r where "scanner_peek H q = Inr (TOK_NL, r)" "scanned q r"
    using scanner_tokens.peek [of q "lex_token L_End" "[]" H] by auto
  with q scanned_trans show ?thesis by blast
qed

definition at_line :: "string \<Rightarrow> pstate" where
  "at_line text = \<lparr>mach = zero_machine,
     scan = \<lparr>input_file = [], line_buf = text, line_pos = 0, at_eof = False, force_id_next = False, tok_buf = []\<rparr>,
     scan_value = SV_Int 0, scanner_stack = [], input_file_name = None, null_term = False, current_file = None,
     current_pseudo = None, expr_unresolved_label = None, data_kind_now = DATA_WORD, data_int_buf = [],
     data_fp_buf = [], data_directive_line = 0, print_ast = False,
     show_expansion = False, print_ast_json = False, print_ast_only = False\<rparr>"

theorem expression_roundtrip_witness:
  "\<exists>q. parse_expression idle_host 100 (at_line ('' 20 - 2 * ( 3 + 4 )'' @ [NL])) = Inr (6, q)"
proof -
  let ?e = "Sub (Num 20) (Mul (Num 2) (Add (Num 3) (Num 4)))"
  have "aval ?e = Some 6" by simp
  moreover have "tok_buf (scan (at_line ('' 20 - 2 * ( 3 + 4 )'' @ [NL]))) = []" by (simp add: at_line_def)
  moreover have "rest_of_line (scan (at_line ('' 20 - 2 * ( 3 + 4 )'' @ [NL]))) = render (written 0 ?e @ [L_End])"
    by (simp add: at_line_def rest_of_line_def paren_def decimal.simps char_of_def bit_iff_odd_drop_bit)
  ultimately show ?thesis
    using expression_roundtrip [of ?e 6 "at_line ('' 20 - 2 * ( 3 + 4 )'' @ [NL])" 100 idle_host] by auto
qed

end
