(* ===== verification/World.thy ===== *)
theory World
  imports Parser Run
begin

text \<open>
  Starting the simulator (\<^verbatim>\<open>spim-utils.c\<close>): the registers, the memory, the exception handler, the
  files of a program, its arguments and environment on the stack, and running it up to a
  breakpoint.
\<close>

subsection \<open>Registers\<close>

abbreviation REG_SP :: nat where "REG_SP \<equiv> 29"
abbreviation FIR_W :: "32 word" where "FIR_W \<equiv> 0x0008000"
abbreviation FIR_D :: "32 word" where "FIR_D \<equiv> 0x0001000"
abbreviation FIR_S :: "32 word" where "FIR_S \<equiv> 0x0000800"

definition initialize_registers :: "machine \<Rightarrow> machine" where
  "initialize_registers s =
    (let s = s\<lparr>fp_int_view := (\<lambda>_. 0), gpr := (\<lambda>_. 0)(REG_SP := STACK_TOP - BYTES_PER_WORD - 4096),
               HI := 0, LO := 0, PC := 0\<rparr>;
         s = set_cp0 CP0_BadVAddr_Reg 0 s;
         s = set_cp0 CP0_Count_Reg 0 s;
         s = set_cp0 CP0_Compare_Reg 0 s;
         s = set_cp0 CP0_Status_Reg ((CP0_Status_CU AND 0x30000000) OR CP0_Status_IM OR CP0_Status_UM) s;
         s = set_cp0 CP0_Cause_Reg 0 s;
         s = set_cp0 CP0_EPC_Reg 0 s;
         s = set_cp0 CP0_Config_Reg 0 s
     in s\<lparr>coprocessor_1 := (coprocessor_1 s)(FIR_REG := FIR_W OR FIR_D OR FIR_S, FCSR_REG := 0)\<rparr>)"

subsection \<open>Files\<close>

text \<open>
  What the program finds outside: the text of the files it can open, the exception handler that
  \<^verbatim>\<open>#embed\<close> puts into the binary, standard input, and the environment of the process.
\<close>

record outside =
  file_text :: "string \<Rightarrow> string option"
  embedded_exceptions :: string
  stdin_text :: string
  environ :: "byte list list"

text \<open>The part that \<^verbatim>\<open>read_assembly_file\<close> and \<^verbatim>\<open>load_embedded_exception_handler\<close> share.\<close>

definition read_assembly :: "host \<Rightarrow> nat \<Rightarrow> string \<Rightarrow> string \<Rightarrow> unit pcomp" where
  "read_assembly H n text name =
     seq (modify (parser_init text (Some name)))
    (bnd (parse_file H n) (\<lambda>_.
     bnd (gets (\<lambda>p. parse_error_occurred (mach p))) (\<lambda>err.
     seq (on_mach (flush_local_labels n (\<not> err)))
       (modify (upd_mach end_of_assembly_file)))))"

definition read_assembly_file :: "host \<Rightarrow> outside \<Rightarrow> nat \<Rightarrow> string \<Rightarrow> bool pcomp" where
  "read_assembly_file H W n name =
     (case file_text W name of
        None \<Rightarrow> seq (modify (upd_mach (\<lambda>s. s\<lparr>console_out := console_out s @ [Con_Text ''Cannot open file: `%s'' name]\<rparr>))) (ret False)
      | Some text \<Rightarrow> seq (read_assembly H n text name) (ret True))"

definition loaded :: "string \<Rightarrow> unit pcomp" where
  "loaded name = modify (upd_mach (\<lambda>s. s\<lparr>console_out := console_out s @ [Con_Text ''Loaded: %s'' name]\<rparr>))"

definition load_embedded_exception_handler :: "host \<Rightarrow> outside \<Rightarrow> nat \<Rightarrow> bool \<Rightarrow> bool pcomp" where
  "load_embedded_exception_handler H W n print_message =
     seq (read_assembly H n (embedded_exceptions W) ''<embedded exceptions.s>'')
    (seq (whn print_message (loaded ''<embedded exceptions.s>'')) (ret True))"

text \<open>\<^verbatim>\<open>strtok (files, ";")\<close>, called until it finds no more: the parts that are not empty.\<close>

fun strtok :: "char \<Rightarrow> string \<Rightarrow> string \<Rightarrow> string list" where
  "strtok d word [] = (if word = [] then [] else [word])"
| "strtok d word (c # cs) =
     (if c = d then (if word = [] then strtok d [] cs else word # strtok d [] cs) else strtok d (word @ [c]) cs)"

fun load_exception_files :: "host \<Rightarrow> outside \<Rightarrow> nat \<Rightarrow> bool \<Rightarrow> string list \<Rightarrow> unit pcomp" where
  "load_exception_files H W n print_message [] = ret ()"
| "load_exception_files H W n print_message (filename # files) =
     bnd (read_assembly_file H W n filename) (\<lambda>ok.
       if \<not> ok then throw (Fatal_Error ''Cannot read exception handler: %s'')
       else seq (whn print_message (loaded filename)) (load_exception_files H W n print_message files))"

subsection \<open>The world\<close>

text \<open>The initial sizes of the segments, which options can change, with their defaults.\<close>

record segment_sizes =
  initial_text_size :: "32 word"
  initial_data_size :: "32 word"
  initial_data_limit :: "32 word"
  initial_stack_size :: "32 word"
  initial_stack_limit :: "32 word"
  initial_k_text_size :: "32 word"
  initial_k_data_size :: "32 word"
  initial_k_data_limit :: "32 word"

definition default_sizes :: segment_sizes where
  "default_sizes = \<lparr>initial_text_size = 256 * kilo, initial_data_size = 256 * kilo, initial_data_limit = mega,
     initial_stack_size = 64 * kilo, initial_stack_limit = 256 * kilo, initial_k_text_size = 64 * kilo,
     initial_k_data_size = 64 * kilo, initial_k_data_limit = mega\<rparr>"

text \<open>The exception handler: none, the default one (the sentinel), or a list of file names.\<close>

datatype handler_files = No_Handler | Default_Handler | Handler_Files string

definition load_handler :: "host \<Rightarrow> outside \<Rightarrow> nat \<Rightarrow> bool \<Rightarrow> handler_files \<Rightarrow> unit pcomp" where
  "load_handler H W n print_message files =
     (case files of
        No_Handler \<Rightarrow> ret ()
      | Default_Handler \<Rightarrow> bnd (load_embedded_exception_handler H W n print_message) (\<lambda>ok.
          if \<not> ok then throw (Fatal_Error ''Cannot parse embedded exception handler'') else ret ())
      | Handler_Files names \<Rightarrow> load_exception_files H W n print_message (strtok CHR '';'' [] names))"

text \<open>The state before any file is read; \<^verbatim>\<open>initialize_inst_tables\<close> sorts tables that are constants here.\<close>

definition fresh_world :: "segment_sizes \<Rightarrow> machine \<Rightarrow> machine" where
  "fresh_world z s =
    (let s = make_memory (initial_text_size z) (initial_data_size z) (initial_data_limit z) (initial_stack_size z)
               (initial_stack_limit z) (initial_k_text_size z) (initial_k_data_size z) (initial_k_data_limit z) s;
         s = initialize_symbol_table (initialize_registers s)
     in text_begins_at_point TEXT_BOT (data_begins_at_point DATA_BOT
          (k_data_begins_at_point K_DATA_BOT (k_text_begins_at_point K_TEXT_BOT s))))"

definition initialize_world :: "host \<Rightarrow> outside \<Rightarrow> nat \<Rightarrow> segment_sizes \<Rightarrow> handler_files \<Rightarrow> bool \<Rightarrow> unit pcomp" where
  "initialize_world H W n z files print_message =
     seq (modify (upd_mach (fresh_world z)))
    (seq (whn (files \<noteq> No_Handler)
        (bnd (gets (\<lambda>p. (bare_machine (mach p), accept_pseudo_insts (mach p)))) (\<lambda>(old_bare, old_accept).
           seq (modify (upd_mach (\<lambda>s. s\<lparr>bare_machine := False, accept_pseudo_insts := True\<rparr>)))
          (seq (load_handler H W n print_message files)
          (seq (modify (upd_mach (\<lambda>s. s\<lparr>bare_machine := old_bare, accept_pseudo_insts := old_accept\<rparr>)))
            (whn (\<not> old_bare)
              (on_mach (bnd (make_label_global ''main'') (\<lambda>_. bnd (record_label H ''main'' 0 False) (\<lambda>_. ret ()))))))))))
       (modify (\<lambda>p. upd_mach delete_all_breakpoints (scanner_init (stdin_text W) p))))"

definition starting_address :: "mem_addr mcomp" where
  "starting_address = find_symbol_address ''__start''"

subsection \<open>The stack of a program\<close>

definition set_gpr :: "nat \<Rightarrow> reg_word \<Rightarrow> machine \<Rightarrow> machine" where
  "set_gpr r v s = s\<lparr>gpr := (gpr s)(r := v)\<rparr>"

definition move_sp :: "32 word \<Rightarrow> machine \<Rightarrow> machine" where
  "move_sp d s = set_gpr REG_SP (gpr s REG_SP - d) s"

text \<open>The loop of \<^verbatim>\<open>copy_str_to_stack\<close>, over the bytes from the last (the terminator) to the first.\<close>

fun push_bytes :: "host \<Rightarrow> byte list \<Rightarrow> unit mcomp" where
  "push_bytes H [] = ret ()"
| "push_bytes H (b # bs) =
     bnd (gets (\<lambda>s. gpr s REG_SP)) (\<lambda>sp. seq (mem_write_byte H sp (scast b)) (seq (modify (move_sp 1)) (push_bytes H bs)))"

definition copy_str_to_stack :: "host \<Rightarrow> byte list \<Rightarrow> mem_addr mcomp" where
  "copy_str_to_stack H str = seq (push_bytes H (0 # rev str)) (gets (\<lambda>s. gpr s REG_SP + 1))"

definition copy_int_to_stack :: "host \<Rightarrow> 32 word \<Rightarrow> mem_addr mcomp" where
  "copy_int_to_stack H n =
     bnd (gets (\<lambda>s. gpr s REG_SP)) (\<lambda>sp. seq (mem_write_word H sp n)
       (seq (modify (move_sp BYTES_PER_WORD)) (gets (\<lambda>s. gpr s REG_SP + BYTES_PER_WORD))))"

text \<open>The array \<open>addrs\<close> has room for \<open>MAX_ARGS\<close> addresses; writing past it is undefined.\<close>

abbreviation MAX_ARGS :: nat where "MAX_ARGS \<equiv> 10000"

fun copy_strs :: "host \<Rightarrow> nat \<Rightarrow> byte list list \<Rightarrow> mem_addr list mcomp" where
  "copy_strs H j [] = ret []"
| "copy_strs H j (str # strs) =
     bnd (copy_str_to_stack H str) (\<lambda>a. if j < MAX_ARGS then bnd (copy_strs H (j + 1) strs) (\<lambda>as. ret (a # as)) else throw Crash)"

text \<open>The loops that push a vector from its last address to its first and leave its address in \<open>r\<close>.\<close>

fun push_vector :: "host \<Rightarrow> nat \<Rightarrow> mem_addr list \<Rightarrow> unit mcomp" where
  "push_vector H r [] = ret ()"
| "push_vector H r (a # as) = bnd (copy_int_to_stack H a) (\<lambda>x. seq (modify (set_gpr r x)) (push_vector H r as))"

definition null_terminated_vector :: "host \<Rightarrow> nat \<Rightarrow> mem_addr list \<Rightarrow> unit mcomp" where
  "null_terminated_vector H r as = bnd (copy_int_to_stack H 0) (\<lambda>_. push_vector H r (rev as))"

definition align_sp :: "machine \<Rightarrow> machine" where
  "align_sp s = set_gpr REG_SP (((gpr s REG_SP AND NOT 3) - BYTES_PER_WORD) AND NOT 7) s"

definition initialize_run_stack :: "host \<Rightarrow> outside \<Rightarrow> byte list list \<Rightarrow> unit mcomp" where
  "initialize_run_stack H W argv =
     seq (modify (set_gpr REG_SP (STACK_TOP - 1)))
    (bnd (copy_strs H 0 (environ W)) (\<lambda>env.
     bnd (copy_strs H (length env) argv) (\<lambda>args.
     seq (modify align_sp)
    (seq (null_terminated_vector H REG_A2 env)
    (seq (null_terminated_vector H REG_A1 args)
    (seq (modify (set_gpr REG_A0 (of_nat (length argv))))
      (bnd (gets (\<lambda>s. gpr s REG_SP)) (\<lambda>sp. mem_write_word H sp (of_nat (length argv))))))))))"

definition is_blank :: "byte \<Rightarrow> bool" where
  "is_blank c \<longleftrightarrow> c = 32 \<or> c = 9"

lemma next_word_shorter:
  "takeWhile (\<lambda>c. \<not> is_blank c) (dropWhile is_blank args) \<noteq> [] \<Longrightarrow>
    length (dropWhile (\<lambda>c. \<not> is_blank c) (dropWhile is_blank args)) < length args"
  using length_dropWhile_le [of is_blank args] length_dropWhile_le [of "\<lambda>c. \<not> is_blank c"]
    arg_cong [OF takeWhile_dropWhile_id [of "\<lambda>c. \<not> is_blank c" "dropWhile is_blank args"], of length]
  by (cases "takeWhile (\<lambda>c. \<not> is_blank c) (dropWhile is_blank args)") auto

lemma no_word_left:
  assumes "takeWhile (\<lambda>c. \<not> is_blank c) (dropWhile is_blank args) = []"
  shows "dropWhile (\<lambda>c. \<not> is_blank c) (dropWhile is_blank args) = []"
proof -
  have "dropWhile is_blank args = []"
    using assms hd_dropWhile [of is_blank args] by (cases "dropWhile is_blank args") (auto split: if_splits)
  then show ?thesis by (simp only: dropWhile.simps)
qed

text \<open>The outer loop of \<^verbatim>\<open>initialize_stack\<close>; \<open>room\<close> is how many more words \<open>argv\<close> takes.\<close>

function argument_words :: "nat \<Rightarrow> byte list \<Rightarrow> byte list list" where
  "argument_words room args =
     (if args = [] then []
      else let a = dropWhile is_blank args;
               word = takeWhile (\<lambda>c. \<not> is_blank c) a;
               args = dropWhile (\<lambda>c. \<not> is_blank c) a
           in if word = [] then argument_words room args
              else word # (if room = 1 then [] else argument_words (room - 1) (drop 1 args)))"
  by pat_completeness auto

termination argument_words
proof (relation "measure (\<lambda>(room, args). length args)", goal_cases)
  case (2 room args a word rest)
  then show ?case using no_word_left [of args] by simp
next
  case (3 room args a word rest)
  then show ?case using next_word_shorter [of args] by (cases rest) auto
qed simp

declare argument_words.simps [simp del]

definition initialize_stack :: "host \<Rightarrow> outside \<Rightarrow> byte list \<Rightarrow> unit mcomp" where
  "initialize_stack H W command_line = initialize_run_stack H W (argument_words MAX_ARGS command_line)"

subsection \<open>Running\<close>

definition step_over_breakpoint :: "host \<Rightarrow> nat \<Rightarrow> mem_addr \<Rightarrow> bool \<Rightarrow> mem_addr mcomp" where
  "step_over_breakpoint H fuel pc display =
     bnd (gets (\<lambda>s. if PC s = 0 then pc else PC s)) (\<lambda>addr.
     seq (delete_breakpoint H addr)
    (seq (modify (\<lambda>s. s\<lparr>exception_occurred := False\<rparr>))
    (bnd (run_spim H fuel addr 1 display) (\<lambda>_.
     seq (add_breakpoint H addr) (gets PC)))))"

text \<open>Whether the run stopped at a breakpoint, and whether it can be continued.\<close>

definition run_program :: "host \<Rightarrow> nat \<Rightarrow> mem_addr \<Rightarrow> nat \<Rightarrow> bool \<Rightarrow> bool \<Rightarrow> (bool \<times> bool) mcomp" where
  "run_program H fuel pc steps display cont_bkpt =
     bnd (if cont_bkpt then inst_is_breakpoint pc else ret False) (\<lambda>over.
     bnd (if over then step_over_breakpoint H fuel pc display else ret pc) (\<lambda>pc.
     seq (modify (\<lambda>s. s\<lparr>exception_occurred := False\<rparr>))
    (bnd (run_spim H fuel pc (if over then steps - 1 else steps) display) (\<lambda>continuable.
     bnd (gets (\<lambda>s. exception_occurred s \<and> CP0_ExCode s = of_int (exc_val ExcCode_Bp))) (\<lambda>bp.
     if bp then seq (modify (\<lambda>s. set_cp0 CP0_Status_Reg (CP0_Status s AND NOT CP0_Status_EXL) s)) (ret (True, continuable))
     else ret (False, continuable))))))"

end
