(* ===== verification/WorldProps.thy ===== *)
theory WorldProps
  imports World DataProps
begin

text \<open>
  The start of a program: what \<^verbatim>\<open>initialize_run_stack\<close> leaves on the stack for \<^verbatim>\<open>main\<close>. Every push
  writes below what is already there, so the pieces are proved one at a time and kept.
\<close>

subsection \<open>Pushing\<close>

abbreviation sp :: "machine \<Rightarrow> nat" where
  "sp s \<equiv> unat (gpr s REG_SP)"

definition stack_room :: "nat \<Rightarrow> machine \<Rightarrow> bool" where
  "stack_room n s \<longleftrightarrow> mem_ok s \<and> unat (stack_bot s) + n \<le> sp s + 1 \<and> sp s < 0x80000000"

text \<open>
  \<open>n\<close> bytes were pushed, with the registers \<open>R\<close> as scratch: nothing but registers and memory has
  changed, and memory only at or below the old stack pointer (or in the word it points to).
\<close>

definition off_stack :: "machine \<Rightarrow> machine" where
  "off_stack s = s\<lparr>gpr := (\<lambda>_. 0), data_modified := True, data_seg_b := (\<lambda>_. 0), stack_seg_b := (\<lambda>_. 0), k_data_seg_b := (\<lambda>_. 0)\<rparr>"

abbreviation stack_frame :: "machine \<Rightarrow> machine \<Rightarrow> bool" where
  "stack_frame s t \<equiv> off_stack t = off_stack s"

definition pushed :: "nat \<Rightarrow> nat set \<Rightarrow> nat \<Rightarrow> machine \<Rightarrow> machine \<Rightarrow> bool" where
  "pushed w R n s t \<longleftrightarrow> stack_frame s t \<and> gpr t REG_SP = gpr s REG_SP - of_nat n \<and> n \<le> sp s + 1 \<and> mem_ok t \<and>
     (\<forall>r. r \<noteq> REG_SP \<and> r \<notin> R \<longrightarrow> gpr t r = gpr s r) \<and>
     (\<forall>b. sp s + w < unat b \<longrightarrow> mem_byte t b = mem_byte s b)"

lemma stack_frame_fields:
  assumes "stack_frame s t"
  shows "stack_bot t = stack_bot s \<and> data_top t = data_top s \<and> k_data_top t = k_data_top s"
  using arg_cong [OF assms, of stack_bot] arg_cong [OF assms, of data_top] arg_cong [OF assms, of k_data_top]
  by (simp add: off_stack_def)

lemma set_gpr_frame [simp]: "stack_frame s (set_gpr r v s)" "mem_ok (set_gpr r v s) = mem_ok s"
  "mem_byte (set_gpr r v s) = mem_byte s" "gpr (set_gpr r v s) = (gpr s)(r := v)"
  "stack_bot (set_gpr r v s) = stack_bot s"
  by (auto simp: set_gpr_def off_stack_def mem_ok_def mem_byte_def fun_eq_iff in_data_def in_stack_def in_k_data_def)

lemma write_frame: "same_but_data s t \<Longrightarrow> stack_frame s t \<and> gpr t = gpr s \<and> stack_bot t = stack_bot s"
  by (auto simp: same_but_data_iff off_stack_def)

lemma sp_sub: "n \<le> sp s \<Longrightarrow> gpr t REG_SP = gpr s REG_SP - of_nat n \<Longrightarrow> sp t = sp s - n"
  using unat_sub32 [of "of_nat n" "gpr s REG_SP"] unat32_less [of "gpr s REG_SP"]
  by (simp add: unsigned_of_nat take_bit_eq_mod word_le_nat_alt)

lemma stack_ref: "stack_room n s \<Longrightarrow> 0 < n \<Longrightarrow> data_ref s (gpr s REG_SP)"
  by (auto simp: stack_room_def data_ref_def in_stack_def word_le_nat_alt word_less_nat_alt)

lemma pushed_sp: "pushed w R n s t \<Longrightarrow> n \<le> sp s \<Longrightarrow> sp t = sp s - n"
  by (rule sp_sub) (simp_all add: pushed_def)

lemma stack_room_pos: "stack_room n s \<Longrightarrow> n \<le> sp s"
proof -
  assume a: "stack_room n s"
  then have "unat (data_top s) \<le> unat (stack_bot s)" "0x10000000 \<le> unat (data_top s)"
    by (auto simp: stack_room_def mem_ok_def word_le_nat_alt)
  with a show ?thesis by (simp add: stack_room_def)
qed

lemma pushed_room: "stack_room (n + k) s \<Longrightarrow> pushed w R n s t \<Longrightarrow> stack_room k t"
  using stack_room_pos [of "n + k" s] pushed_sp [of w R n s t]
  by (auto simp: stack_room_def pushed_def dest!: stack_frame_fields)

lemma pushed_refl [simp]: "mem_ok s \<Longrightarrow> pushed w R 0 s s"
  by (simp add: pushed_def)

lemma pushed_trans:
  assumes "pushed w R i s t" and "pushed w R j t u" and "i + j \<le> sp s"
  shows "pushed w R (i + j) s u"
proof -
  have "sp t = sp s - i" using pushed_sp [OF assms(1)] assms(3) by simp
  with assms show ?thesis by (auto simp: pushed_def)
qed

subsection \<open>What lies in memory\<close>

definition string_at :: "machine \<Rightarrow> mem_addr \<Rightarrow> byte list \<Rightarrow> bool" where
  "string_at s a str \<longleftrightarrow> unat a + length str < 2 ^ 32 \<and>
     (\<forall>i\<le>length str. mem_byte s (a + of_nat i) = Some ((str @ [0]) ! i))"

definition word_at :: "machine \<Rightarrow> mem_addr \<Rightarrow> 32 word \<Rightarrow> bool" where
  "word_at s a v \<longleftrightarrow> unat a + 3 < 2 ^ 32 \<and> (\<forall>i<4. mem_byte s (a + of_nat i) = Some (byte_of i v))"

text \<open>A vector of words with a null at its end.\<close>

definition vector_at :: "machine \<Rightarrow> mem_addr \<Rightarrow> 32 word list \<Rightarrow> bool" where
  "vector_at s a vs \<longleftrightarrow> unat a + 4 * length vs + 3 < 2 ^ 32 \<and> (\<forall>i<length vs. word_at s (a + of_nat (4 * i)) (vs ! i)) \<and>
     word_at s (a + of_nat (4 * length vs)) 0"

lemma above_add: "unat (a :: 32 word) + k < 2 ^ 32 \<Longrightarrow> i \<le> k \<Longrightarrow> unat (a + of_nat i) = unat a + i"
  by (subst unat_plus_if') (auto simp: unsigned_of_nat take_bit_eq_mod)

lemma byte_kept:
  assumes "pushed w R n s t" and "sp s + w < unat a" and "unat a + k < 2 ^ 32" and "i \<le> k"
  shows "mem_byte t (a + of_nat i) = mem_byte s (a + of_nat i)"
proof -
  have "sp s + w < unat (a + of_nat i)" unfolding above_add [OF assms(3,4)] using assms(2) by simp
  with assms(1) show ?thesis by (simp add: pushed_def)
qed

lemma string_kept: "string_at s a str \<Longrightarrow> pushed w R n s t \<Longrightarrow> sp s + w < unat a \<Longrightarrow> string_at t a str"
  unfolding string_at_def using byte_kept [of w R n s t a "length str"] by simp

lemma word_kept: "word_at s a v \<Longrightarrow> pushed w R n s t \<Longrightarrow> sp s + w < unat a \<Longrightarrow> word_at t a v"
  unfolding word_at_def using byte_kept [of w R n s t a 3] by simp

lemma vector_kept:
  assumes "vector_at s a vs" and "pushed w R n s t" and "sp s + w < unat a"
  shows "vector_at t a vs"
proof -
  have "sp s + w < unat (a + of_nat (4 * i))" if "i \<le> length vs" for i
  proof -
    have "unat (a + of_nat (4 * i)) = unat a + 4 * i"
      by (rule above_add [where k = "4 * length vs"]) (use assms(1) that in \<open>simp_all add: vector_at_def\<close>)
    with assms(3) show ?thesis by simp
  qed
  with assms(1) show ?thesis unfolding vector_at_def by (auto intro: word_kept [OF _ assms(2)])
qed

subsection \<open>Strings\<close>

lemma push_byte:
  assumes "stack_room 1 s"
  shows "\<exists>t. mem_write_byte H (gpr s REG_SP) v s = Inr ((), t) \<and> pushed 0 {} 1 s (move_sp 1 t) \<and>
    mem_byte (move_sp 1 t) (gpr s REG_SP) = Some (byte_of 0 v)"
proof -
  from mem_write_byte_in [of s "gpr s REG_SP" H v] assms stack_ref [OF assms]
  obtain t where t: "mem_write_byte H (gpr s REG_SP) v s = Inr ((), t)"
    "mem_byte t = abs_write_byte (gpr s REG_SP) v (mem_byte s)" "same_but_data s t"
    by (auto simp: stack_room_def)
  with assms write_frame [OF t(3)] same_but_data_mem_ok [OF t(3)] show ?thesis
    by (auto simp: pushed_def move_sp_def abs_write_byte_def stack_room_def )
qed

lemma push_bytes_ok:
  "stack_room (length bs) s \<Longrightarrow>
    \<exists>t. push_bytes H bs s = Inr ((), t) \<and> pushed 0 {} (length bs) s t \<and>
      (\<forall>i<length bs. mem_byte t (gpr s REG_SP - of_nat i) = Some (bs ! i))"
proof (induction bs arbitrary: s)
  case Nil
  then show ?case by (simp add: stack_room_def)
next
  case (Cons b bs)
  then have "stack_room 1 s" by (simp add: stack_room_def)
  from push_byte [OF this, of H "scast b"] obtain m where
    m: "mem_write_byte H (gpr s REG_SP) (scast b) s = Inr ((), m)" "pushed 0 {} 1 s (move_sp 1 m)"
       "mem_byte (move_sp 1 m) (gpr s REG_SP) = Some b" by auto
  let ?u = "move_sp 1 m"
  from Cons.prems have r: "stack_room (length bs) ?u" by (intro pushed_room [OF _ m(2)]) simp
  from Cons.IH [OF this] obtain t where t: "push_bytes H bs ?u = Inr ((), t)" "pushed 0 {} (length bs) ?u t"
    "\<forall>i<length bs. mem_byte t (gpr ?u REG_SP - of_nat i) = Some (bs ! i)" by auto
  have n: "1 + length bs \<le> sp s" using stack_room_pos [OF Cons.prems] by simp
  have "sp ?u = sp s - 1" using pushed_sp [OF m(2)] n by simp
  then have "mem_byte t (gpr s REG_SP) = Some b" using t(2) m(3) n by (simp add: pushed_def)
  moreover have "gpr ?u REG_SP = gpr s REG_SP - 1" using m(2) by (simp add: pushed_def)
  ultimately have "mem_byte t (gpr s REG_SP - of_nat i) = Some ((b # bs) ! i)" if "i < length (b # bs)" for i
    using that t(3) by (cases i) (auto simp: diff_diff_eq)
  moreover have "push_bytes H (b # bs) s = Inr ((), t)" using m(1) t(1) by simp
  moreover have "pushed 0 {} (length (b # bs)) s t" using pushed_trans [OF m(2) t(2) n] by simp
  ultimately show ?case by blast
qed

lemma copy_str_ok:
  assumes "stack_room (length str + 1) s"
  shows "\<exists>t. copy_str_to_stack H str s = Inr (gpr t REG_SP + 1, t) \<and> pushed 0 {} (length str + 1) s t \<and>
    string_at t (gpr t REG_SP + 1) str \<and> sp t < unat (gpr t REG_SP + 1)"
proof -
  let ?bs = "0 # rev str"
  from push_bytes_ok [of ?bs s H] assms obtain t where t: "push_bytes H ?bs s = Inr ((), t)"
    "pushed 0 {} (length str + 1) s t" "\<forall>i<length ?bs. mem_byte t (gpr s REG_SP - of_nat i) = Some (?bs ! i)" by auto
  have n: "length str + 1 \<le> sp s" by (rule stack_room_pos [OF assms])
  have spt: "sp t = sp s - (length str + 1)" by (rule pushed_sp [OF t(2) n])
  have "sp s < 0x80000000" using assms by (simp add: stack_room_def)
  then have a: "unat (gpr t REG_SP + 1) = sp t + 1" using spt n by (subst unat_plus_if') simp
  have "mem_byte t (gpr t REG_SP + 1 + of_nat i) = Some ((str @ [0]) ! i)" if i: "i \<le> length str" for i
  proof -
    have "gpr t REG_SP + 1 + of_nat i = gpr s REG_SP - of_nat (length str - i)"
      using t(2) i by (simp add: pushed_def of_nat_diff)
    moreover have "length str - i < length ?bs" by simp
    moreover have "?bs ! (length str - i) = (str @ [0]) ! i"
      using i by (cases "i = length str") (auto simp: nth_Cons' rev_nth nth_append Suc_diff_Suc)
    ultimately show ?thesis using t(3) by (simp del: of_nat_diff)
  qed
  then have "string_at t (gpr t REG_SP + 1) str" using a spt n \<open>sp s < _\<close> by (simp add: string_at_def)
  with t a show ?thesis by (auto simp: copy_str_to_stack_def)
qed

abbreviation strings_size :: "byte list list \<Rightarrow> nat" where
  "strings_size strs \<equiv> sum_list (map (\<lambda>str. length str + 1) strs)"

text \<open>The strings lie above the stack pointer.\<close>

definition strings_at :: "machine \<Rightarrow> mem_addr list \<Rightarrow> byte list list \<Rightarrow> bool" where
  "strings_at s as strs \<longleftrightarrow> list_all2 (string_at s) as strs"

lemma strings_kept:
  assumes "strings_at s as strs" and "pushed w R n s t" and "\<forall>a\<in>set as. sp s + w < unat a"
  shows "strings_at t as strs"
  using assms(1,3) unfolding strings_at_def
  by (auto simp: list_all2_conv_all_nth intro!: string_kept [OF _ assms(2)])

lemma copy_strs_ok:
  "stack_room (strings_size strs) s \<Longrightarrow> j + length strs \<le> MAX_ARGS \<Longrightarrow>
    \<exists>t as. copy_strs H j strs s = Inr (as, t) \<and> pushed 0 {} (strings_size strs) s t \<and>
      strings_at t as strs \<and> (\<forall>a\<in>set as. sp t < unat a)"
proof (induction strs arbitrary: s j)
  case Nil
  then show ?case by (simp add: stack_room_def strings_at_def)
next
  case (Cons str strs)
  let ?m = "length str + 1" and ?n = "strings_size strs"
  have n: "?m + ?n \<le> sp s" using stack_room_pos [OF Cons.prems(1)] by simp
  have "stack_room ?m s" using Cons.prems(1) by (simp add: stack_room_def)
  from copy_str_ok [OF this, of H] obtain u where
    u: "copy_str_to_stack H str s = Inr (gpr u REG_SP + 1, u)" "pushed 0 {} ?m s u"
       "string_at u (gpr u REG_SP + 1) str" "sp u < unat (gpr u REG_SP + 1)" by auto
  have "stack_room ?n u" using Cons.prems(1) by (intro pushed_room [OF _ u(2)]) simp
  from Cons.IH [OF this, of "j + 1"] Cons.prems(2) obtain t as where
    t: "copy_strs H (j + 1) strs u = Inr (as, t)" "pushed 0 {} ?n u t" "strings_at t as strs" "\<forall>a\<in>set as. sp t < unat a" by auto
  have "sp u = sp s - ?m" "sp t = sp u - ?n" using pushed_sp [OF u(2)] pushed_sp [OF t(2)] n by simp_all
  then have a: "sp t < unat (gpr u REG_SP + 1)" using u(4) by simp
  have "string_at t (gpr u REG_SP + 1) str" using u(3,4) by (intro string_kept [OF _ t(2)]) simp_all
  then have "strings_at t ((gpr u REG_SP + 1) # as) (str # strs)" using t(3) by (simp add: strings_at_def)
  moreover have "copy_strs H j (str # strs) s = Inr ((gpr u REG_SP + 1) # as, t)"
    using u(1) t(1) Cons.prems(2) by simp
  moreover have "pushed 0 {} (strings_size (str # strs)) s t" using pushed_trans [OF u(2) t(2) n] by simp
  ultimately show ?case using a t(4) by (intro exI conjI ballI) (assumption | auto)+
qed

subsection \<open>Vectors\<close>

lemma byte_of_parts4: "i < 4 \<Longrightarrow> abs_write_word a v m (a + of_nat i) = Some (byte_of i v)"
  by (cases "i = 0"; cases "i = 1"; cases "i = 2"; cases "i = 3") (auto simp: abs_write_word_def)

lemma write_top:
  assumes "stack_room 4 s" and "gpr s REG_SP AND 3 = 0"
  shows "\<exists>t. mem_write_word H (gpr s REG_SP) v s = Inr ((), t) \<and> pushed 3 {} 0 s t \<and> gpr t = gpr s \<and>
    word_at t (gpr s REG_SP) v"
proof -
  have r: "mem_ok s" "sp s < 0x80000000" using assms(1) by (simp_all add: stack_room_def)
  from mem_write_word_in [OF r(1) stack_ref [OF assms(1)] assms(2), of H v]
  obtain t where t: "mem_write_word H (gpr s REG_SP) v s = Inr ((), t)"
    "mem_byte t = abs_write_word (gpr s REG_SP) v (mem_byte s)" "same_but_data s t" by auto
  have u: "unat (gpr s REG_SP + of_nat k) = sp s + k" if "k < 4" for k
    by (rule aligned4_plus [OF assms(2) that])
  have "mem_byte t b = mem_byte s b" if "sp s + 3 < unat b" for b
    using that u [of 0] u [of 1] u [of 2] u [of 3] by (auto simp: t(2) abs_write_word_def)
  then have "pushed 3 {} 0 s t"
    using write_frame [OF t(3)] same_but_data_mem_ok [OF t(3)] r by (simp add: pushed_def)
  moreover have "word_at t (gpr s REG_SP) v"
    using r(2) by (simp add: word_at_def t(2) byte_of_parts4)
  ultimately show ?thesis using t(1) write_frame [OF t(3)] by blast
qed

lemma push_word:
  assumes "stack_room 4 s" and "gpr s REG_SP AND 3 = 0"
  shows "\<exists>t. copy_int_to_stack H v s = Inr (gpr s REG_SP, t) \<and> pushed 3 {} 4 s t \<and> word_at t (gpr s REG_SP) v"
proof -
  from write_top [OF assms, of H v] obtain t where
    t: "mem_write_word H (gpr s REG_SP) v s = Inr ((), t)" "pushed 3 {} 0 s t" "gpr t = gpr s" "word_at t (gpr s REG_SP) v"
    by auto
  then have "pushed 3 {} 4 s (move_sp 4 t)" "word_at (move_sp 4 t) (gpr s REG_SP) v"
    using stack_room_pos [OF assms(1)] by (simp_all add: pushed_def move_sp_def word_at_def)
  with t(1,3) show ?thesis by (auto simp: copy_int_to_stack_def move_sp_def)
qed

lemma set_gpr_pushed:
  "pushed w R n s t \<Longrightarrow> r \<noteq> REG_SP \<Longrightarrow> pushed w (insert r R) n s (set_gpr r v t)"
  by (auto simp: pushed_def)

lemma pushed_mono: "pushed w R n s t \<Longrightarrow> R \<subseteq> R' \<Longrightarrow> w \<le> w' \<Longrightarrow> pushed w' R' n s t"
  by (auto simp: pushed_def)

lemma aligned4_sub: "(a :: 32 word) AND 3 = 0 \<Longrightarrow> (a - 4) AND 3 = 0"
  unfolding aligned4_iff by (subst unat_sub_if') (simp; presburger)

lemma word_at_set_gpr [simp]: "word_at (set_gpr r v s) a x = word_at s a x"
  by (simp add: word_at_def)

lemma push_vector_ok:
  "stack_room (4 * length xs) s \<Longrightarrow> gpr s REG_SP AND 3 = 0 \<Longrightarrow> r \<noteq> REG_SP \<Longrightarrow>
    \<exists>t. push_vector H r xs s = Inr ((), t) \<and> pushed 3 {r} (4 * length xs) s t \<and>
      (\<forall>i<length xs. word_at t (gpr s REG_SP - of_nat (4 * i)) (xs ! i)) \<and>
      (xs \<noteq> [] \<longrightarrow> gpr t r = gpr t REG_SP + 4) \<and> gpr t REG_SP AND 3 = 0"
proof (induction xs arbitrary: s)
  case Nil
  then show ?case by (simp add: stack_room_def)
next
  case (Cons x xs)
  let ?n = "4 * length xs"
  have n: "4 + ?n \<le> sp s" using stack_room_pos [OF Cons.prems(1)] by simp
  have "stack_room 4 s" using Cons.prems(1) by (simp add: stack_room_def)
  from push_word [OF this Cons.prems(2), of H x] obtain m where
    m: "copy_int_to_stack H x s = Inr (gpr s REG_SP, m)" "pushed 3 {} 4 s m" "word_at m (gpr s REG_SP) x" by auto
  let ?u = "set_gpr r (gpr s REG_SP) m"
  have u: "pushed 3 {r} 4 s ?u" using set_gpr_pushed [OF m(2)] Cons.prems(3) by simp
  have sp: "gpr ?u REG_SP = gpr s REG_SP - 4" using u by (simp add: pushed_def)
  have "stack_room ?n ?u" using Cons.prems(1) by (intro pushed_room [OF _ u]) simp
  from Cons.IH [OF this _ Cons.prems(3)] sp aligned4_sub [OF Cons.prems(2)] obtain t where
    t: "push_vector H r xs ?u = Inr ((), t)" "pushed 3 {r} ?n ?u t"
       "\<forall>i<length xs. word_at t (gpr ?u REG_SP - of_nat (4 * i)) (xs ! i)"
       "xs \<noteq> [] \<longrightarrow> gpr t r = gpr t REG_SP + 4" "gpr t REG_SP AND 3 = 0" by auto
  have "sp ?u = sp s - 4" using pushed_sp [OF u] n by simp
  then have "word_at t (gpr s REG_SP) x" using m(3) n by (intro word_kept [OF _ t(2)]) simp_all
  then have "word_at t (gpr s REG_SP - of_nat (4 * i)) ((x # xs) ! i)" if "i < length (x # xs)" for i
    using that t(3) unfolding sp by (cases i) (auto simp: diff_diff_eq algebra_simps)
  moreover have "gpr t r = gpr t REG_SP + 4" if "xs = []" using t(1) that sp Cons.prems(3) by auto
  moreover have "push_vector H r (x # xs) s = Inr ((), t)" using m(1) t(1) by simp
  moreover have "pushed 3 {r} (4 * length (x # xs)) s t" using pushed_trans [OF u t(2) n] by simp
  ultimately show ?case using t(4,5) by blast
qed

lemma vector_from_below:
  fixes b :: "32 word"
  assumes "\<forall>i<length as. word_at t (b - of_nat (4 * i)) (rev as ! i)" and "word_at t (b + 4) 0"
    and "c = b - of_nat (4 * length as) + 4" and "unat c + 4 * length as + 3 < 2 ^ 32"
  shows "vector_at t c as"
proof -
  have "word_at t (c + of_nat (4 * i)) (as ! i)" if "i < length as" for i
  proof -
    let ?j = "length as - Suc i"
    have "c + of_nat (4 * i) = b - of_nat (4 * ?j)"
      using that by (simp add: assms(3) of_nat_diff algebra_simps)
    moreover have "word_at t (b - of_nat (4 * ?j)) (as ! i)"
      using assms(1) that by (auto simp: rev_nth dest!: spec [of _ ?j])
    ultimately show ?thesis by simp
  qed
  moreover have "c + of_nat (4 * length as) = b + 4" by (simp add: assms(3))
  ultimately show ?thesis using assms(2,4) unfolding vector_at_def by metis
qed

lemma null_terminated_vector_ok:
  assumes "stack_room (4 * length as + 4) s" and "gpr s REG_SP AND 3 = 0" and "r \<noteq> REG_SP"
  shows "\<exists>t. null_terminated_vector H r as s = Inr ((), t) \<and> pushed 3 {r} (4 * length as + 4) s t \<and>
    vector_at t (gpr t REG_SP + 4) as \<and> (as \<noteq> [] \<longrightarrow> gpr t r = gpr t REG_SP + 4) \<and>
    gpr t REG_SP AND 3 = 0 \<and> unat (gpr t REG_SP + 4) = sp t + 4"
proof -
  let ?n = "4 * length (rev as)"
  have n: "4 + ?n \<le> sp s" using stack_room_pos [OF assms(1)] by simp
  have "stack_room 4 s" using assms(1) by (simp add: stack_room_def)
  from push_word [OF this assms(2), of H 0] obtain m where
    m: "copy_int_to_stack H 0 s = Inr (gpr s REG_SP, m)" "pushed 3 {} 4 s m" "word_at m (gpr s REG_SP) 0" by auto
  have p: "pushed 3 {r} 4 s m" by (rule pushed_mono [OF m(2)]) auto
  have sp: "gpr m REG_SP = gpr s REG_SP - 4" using m(2) by (simp add: pushed_def)
  have "stack_room ?n m" using assms(1) by (intro pushed_room [OF _ m(2)]) (simp add: add.commute)
  from push_vector_ok [OF this _ assms(3), of H] sp aligned4_sub [OF assms(2)] obtain t where
    t: "push_vector H r (rev as) m = Inr ((), t)" "pushed 3 {r} ?n m t"
       "\<forall>i<length (rev as). word_at t (gpr m REG_SP - of_nat (4 * i)) (rev as ! i)"
       "as \<noteq> [] \<longrightarrow> gpr t r = gpr t REG_SP + 4" "gpr t REG_SP AND 3 = 0" by auto
  have spm: "sp m = sp s - 4" "sp t = sp m - ?n" using pushed_sp [OF m(2)] pushed_sp [OF t(2)] n by simp_all
  then have "word_at t (gpr s REG_SP) 0" using m(3) n by (intro word_kept [OF _ t(2)]) simp_all
  moreover have u: "unat (gpr t REG_SP + 4) = sp t + 4"
    using above_add [of "gpr t REG_SP" 4 4] unat32_less [of "gpr s REG_SP"] spm assms(1)
    by (auto simp: stack_room_def)
  moreover have "unat (gpr t REG_SP + 4) + 4 * length as + 3 < 2 ^ 32"
    using u spm n assms(1) by (simp add: stack_room_def)
  ultimately have "vector_at t (gpr t REG_SP + 4) as"
    using t(2,3) by (intro vector_from_below [where b = "gpr m REG_SP"]) (simp_all add: sp pushed_def)
  moreover have "pushed 3 {r} (4 * length as + 4) s t" using pushed_trans [OF p t(2) n] by (simp add: add.commute)
  ultimately show ?thesis using m(1) t u by (intro exI [of _ t]) (simp add: null_terminated_vector_def)
qed

lemma low_masks: "(NOT 3 :: 32 word) = push_bit 2 (- 1)" "(NOT 7 :: 32 word) = push_bit 3 (- 1)"
  by (simp_all add: push_bit_minus_one_eq_not_mask mask_eq_exp_minus_1)

lemma align_down:
  fixes x :: nat
  assumes "14 \<le> x"
  shows "(x div 4 * 4 - 4) div 8 * 8 + 3 < x" and "x \<le> (x div 4 * 4 - 4) div 8 * 8 + 14"
    and "(x div 4 * 4 - 4) div 8 * 8 mod 4 = 0"
proof -
  let ?y = "x div 4 * 4 - 4"
  have a: "x div 4 * 4 + x mod 4 = x" "x mod 4 < 4" by simp_all
  have b: "?y div 8 * 8 + ?y mod 8 = ?y" "?y mod 8 < 8" by simp_all
  show "?y div 8 * 8 + 3 < x" "x \<le> ?y div 8 * 8 + 14" using a b assms by linarith+
  have "?y div 8 * 8 = 4 * (2 * (?y div 8))" by simp
  then show "?y div 8 * 8 mod 4 = 0" by (simp only: mod_mult_self1_is_0)
qed

lemma align_sp_ok:
  assumes "stack_room (n + 14) s"
  shows "stack_room n (align_sp s)" and "sp (align_sp s) + 3 < sp s" and "gpr (align_sp s) REG_SP AND 3 = 0"
    and "sp s \<le> sp (align_sp s) + 14"
proof -
  have n: "n + 14 \<le> sp s" by (rule stack_room_pos [OF assms])
  have a: "unat (gpr s REG_SP AND NOT 3) = sp s div 4 * 4" unfolding low_masks align_mask by simp
  have "unat ((gpr s REG_SP AND NOT 3) - 4) = sp s div 4 * 4 - 4"
    using a n by (subst unat_sub32) (simp_all add: word_le_nat_alt)
  then have b: "sp (align_sp s) = (sp s div 4 * 4 - 4) div 8 * 8"
    unfolding align_sp_def low_masks(2) by (simp only: set_gpr_frame fun_upd_same align_mask) simp
  have s: "sp (align_sp s) + 3 < sp s" "sp s \<le> sp (align_sp s) + 14" "sp (align_sp s) mod 4 = 0"
    unfolding b using n by (simp_all only: align_down [where x = "sp s"])
  then show "sp (align_sp s) + 3 < sp s" "sp s \<le> sp (align_sp s) + 14" "gpr (align_sp s) REG_SP AND 3 = 0"
    by (simp_all add: aligned4_iff)
  show "stack_room n (align_sp s)" using assms s by (simp add: stack_room_def) (simp add: align_sp_def)
qed

subsection \<open>The stack of main\<close>

definition stack_need :: "byte list list \<Rightarrow> byte list list \<Rightarrow> nat" where
  "stack_need env argv = strings_size env + (strings_size argv + (4 * length env + 4 + (4 * length argv + 4 + 4) + 14))"

text \<open>
  What \<open>main\<close> finds: at the stack pointer the number of arguments, above it the vector of their
  addresses and the vector of the addresses of the environment, each ended by a null.
\<close>

definition program_stack :: "byte list list \<Rightarrow> byte list list \<Rightarrow> machine \<Rightarrow> bool" where
  "program_stack env argv t \<longleftrightarrow>
     (let args = gpr t REG_SP + 4; envp = args + of_nat (4 * length argv + 4)
      in gpr t REG_A0 = of_nat (length argv) \<and> word_at t (gpr t REG_SP) (of_nat (length argv)) \<and>
         (\<exists>as. vector_at t args as \<and> strings_at t as argv) \<and> (argv \<noteq> [] \<longrightarrow> gpr t REG_A1 = args) \<and>
         (\<exists>es. vector_at t envp es \<and> strings_at t es env) \<and> (env \<noteq> [] \<longrightarrow> gpr t REG_A2 = envp))"

lemma string_at_set_gpr [simp]: "string_at (set_gpr r v s) = string_at s"
  by (simp add: fun_eq_iff string_at_def)

lemma strings_at_set_gpr [simp]: "strings_at (set_gpr r v s) as strs = strings_at s as strs"
  "vector_at (set_gpr r v s) a vs = vector_at s a vs"
  by (simp_all add: strings_at_def vector_at_def)

lemma strings_length: "strings_at s as strs \<Longrightarrow> length as = length strs"
  by (simp add: strings_at_def list_all2_lengthD)

text \<open>The two vectors and the count, below the strings.\<close>

lemma push_vectors_ok:
  assumes "stack_room (4 * length es + 4 + (4 * length as + 4 + 4)) s" and "gpr s REG_SP AND 3 = 0"
    and "length as = length argv" and "length es = length env"
    and "strings_at s as argv" and "strings_at s es env" and "\<forall>a\<in>set as \<union> set es. sp s + 3 < unat a"
  shows "\<exists>t. seq (null_terminated_vector H REG_A2 es) (seq (null_terminated_vector H REG_A1 as)
     (seq (modify (set_gpr REG_A0 (of_nat (length argv))))
       (bnd (gets (\<lambda>s. gpr s REG_SP)) (\<lambda>sp. mem_write_word H sp (of_nat (length argv)))))) s = Inr ((), t) \<and>
    program_stack env argv t \<and> stack_frame s t"
proof -
  let ?m = "4 * length es + 4" and ?n = "4 * length as + 4"
  note room = stack_room_pos [OF assms(1)]
  have "stack_room ?m s" using assms(1) by (simp add: stack_room_def)
  from null_terminated_vector_ok [OF this assms(2), of REG_A2 H] obtain u where
    u: "null_terminated_vector H REG_A2 es s = Inr ((), u)" "pushed 3 {REG_A2} ?m s u"
       "vector_at u (gpr u REG_SP + 4) es" "es \<noteq> [] \<longrightarrow> gpr u REG_A2 = gpr u REG_SP + 4"
       "gpr u REG_SP AND 3 = 0" "unat (gpr u REG_SP + 4) = sp u + 4" by auto
  have r2: "stack_room (?n + 4) u" by (rule pushed_room [OF assms(1) u(2)])
  then have "stack_room ?n u" by (simp add: stack_room_def)
  from null_terminated_vector_ok [OF this u(5), of REG_A1 H] obtain v where
    v: "null_terminated_vector H REG_A1 as u = Inr ((), v)" "pushed 3 {REG_A1} ?n u v"
       "vector_at v (gpr v REG_SP + 4) as" "as \<noteq> [] \<longrightarrow> gpr v REG_A1 = gpr v REG_SP + 4"
       "gpr v REG_SP AND 3 = 0" "unat (gpr v REG_SP + 4) = sp v + 4" by auto
  let ?w = "set_gpr REG_A0 (of_nat (length argv)) v"
  have w: "pushed 3 {REG_A0, REG_A1} ?n u ?w" using set_gpr_pushed [OF v(2), of REG_A0] by simp
  have r4: "stack_room 4 ?w" by (rule pushed_room [OF r2 w])
  from write_top [OF r4, of H "of_nat (length argv)"] v(5) obtain t where
    t: "mem_write_word H (gpr v REG_SP) (of_nat (length argv)) ?w = Inr ((), t)" "pushed 3 {} 0 ?w t"
       "gpr t = gpr ?w" "word_at t (gpr v REG_SP) (of_nat (length argv))" by auto
  have ss: "sp u = sp s - ?m" "sp v = sp u - ?n" using pushed_sp [OF u(2)] pushed_sp [OF v(2)] room by simp_all
  have sw: "sp ?w = sp v" by simp
  have k: "strings_at t xs strs" if "strings_at s xs strs" "\<forall>a\<in>set xs. sp s + 3 < unat a" for xs strs
  proof -
    have "strings_at u xs strs" by (rule strings_kept [OF that(1) u(2) that(2)])
    then have "strings_at ?w xs strs" using that(2) ss(1) by (intro strings_kept [OF _ w]) auto
    then show ?thesis using that(2) ss sw by (intro strings_kept [OF _ t(2)]) auto
  qed
  have "vector_at t (gpr v REG_SP + 4) as"
    by (rule vector_kept [OF _ t(2)]) (use v(3,6) in simp_all)
  moreover have "gpr u REG_SP = gpr v REG_SP + of_nat ?n" using v(2) by (simp add: pushed_def)
  then have e: "gpr v REG_SP + 4 + of_nat (4 * length argv + 4) = gpr u REG_SP + 4" using assms(3) by simp
  have "vector_at ?w (gpr u REG_SP + 4) es" by (rule vector_kept [OF u(3) w]) (use u(6) in simp)
  then have "vector_at t (gpr u REG_SP + 4) es"
    by (rule vector_kept [OF _ t(2)]) (use u(6) ss sw room in simp)
  ultimately have "program_stack env argv t"
    using k [of as argv] k [of es env] assms(3-7) t(3,4) v(2,4) u(4) e
    unfolding program_stack_def Let_def by (auto simp: pushed_def)
  moreover have "stack_frame s t" using t(2) v(2) u(2) by (simp add: pushed_def)
  ultimately show ?thesis using u(1) v(1) t(1) by (intro exI [of _ t]) simp
qed

text \<open>
  C32: the stack of a program. With room on the stack \<^verbatim>\<open>initialize_run_stack\<close> returns; register \<open>$a0\<close>
  and the word at \<open>$sp\<close> hold the number of arguments, above it lie the vector of arguments and that of the
  environment, each ended by a null and pointing to the strings with their terminators,
  \<open>$a1\<close> and \<open>$a2\<close> point to the vectors that are not empty, and nothing but registers and
  memory has changed.
\<close>

theorem arguments_reach_main:
  assumes "mem_ok s" and "unat (stack_bot s) + stack_need (environ W) argv \<le> 0x80000000"
    and "length (environ W) + length argv \<le> MAX_ARGS"
  shows "\<exists>t. initialize_run_stack H W argv s = Inr ((), t) \<and> program_stack (environ W) argv t \<and> stack_frame s t"
proof -
  let ?s = "set_gpr REG_SP (STACK_TOP - 1) s" and ?e = "strings_size (environ W)" and ?a = "strings_size argv"
  let ?v = "4 * length (environ W) + 4 + (4 * length argv + 4 + 4)"
  have r: "stack_room (?e + (?a + (?v + 14))) ?s" using assms(1,2) by (simp add: stack_room_def stack_need_def)
  note pos = stack_room_pos [OF r]
  have "stack_room ?e ?s" using r by (simp add: stack_room_def)
  from copy_strs_ok [OF this, of 0 H] assms(3) obtain u es where
    u: "copy_strs H 0 (environ W) ?s = Inr (es, u)" "pushed 0 {} ?e ?s u" "strings_at u es (environ W)"
       "\<forall>a\<in>set es. sp u < unat a" by auto
  have ru: "stack_room (?a + (?v + 14)) u" by (rule pushed_room [OF r u(2)])
  note le = strings_length [OF u(3)]
  have "stack_room ?a u" using ru by (simp add: stack_room_def)
  from copy_strs_ok [OF this, of "length es" H] assms(3) le obtain v as where
    v: "copy_strs H (length es) argv u = Inr (as, v)" "pushed 0 {} ?a u v" "strings_at v as argv"
       "\<forall>a\<in>set as. sp v < unat a" by auto
  have rv: "stack_room (?v + 14) v" by (rule pushed_room [OF ru v(2)])
  have "sp v = sp u - ?a" using pushed_sp [OF v(2)] stack_room_pos [OF ru] by simp
  then have es: "strings_at v es (environ W)" "\<forall>a\<in>set es. sp v < unat a"
    using u(4) by (auto intro: strings_kept [OF u(3) v(2)])
  note al = align_sp_ok [OF rv]
  have "\<exists>t. seq (null_terminated_vector H REG_A2 es) (seq (null_terminated_vector H REG_A1 as)
     (seq (modify (set_gpr REG_A0 (of_nat (length argv))))
       (bnd (gets (\<lambda>s. gpr s REG_SP)) (\<lambda>sp. mem_write_word H sp (of_nat (length argv)))))) (align_sp v) = Inr ((), t) \<and>
    program_stack (environ W) argv t \<and> stack_frame (align_sp v) t"
  proof (rule push_vectors_ok)
    show "stack_room (4 * length es + 4 + (4 * length as + 4 + 4)) (align_sp v)"
      using al(1) le strings_length [OF v(3)] by simp
    show "\<forall>a\<in>set as \<union> set es. sp (align_sp v) + 3 < unat a" using v(4) es(2) al(2) by fastforce
  qed (use al(3) le strings_length [OF v(3)] v(3) es(1) in \<open>simp_all add: align_sp_def\<close>)
  then obtain t where t: "seq (null_terminated_vector H REG_A2 es) (seq (null_terminated_vector H REG_A1 as)
     (seq (modify (set_gpr REG_A0 (of_nat (length argv))))
       (bnd (gets (\<lambda>s. gpr s REG_SP)) (\<lambda>sp. mem_write_word H sp (of_nat (length argv)))))) (align_sp v) = Inr ((), t)"
    "program_stack (environ W) argv t" "stack_frame (align_sp v) t" by blast
  have "stack_frame s t" using t(3) v(2) u(2) by (simp add: align_sp_def pushed_def)
  moreover have "initialize_run_stack H W argv s = Inr ((), t)"
    unfolding initialize_run_stack_def using u(1) v(1) le t(1) by simp
  ultimately show ?thesis using t(2) by blast
qed

definition one_variable :: outside where
  "one_variable = \<lparr>file_text = (\<lambda>_. None), embedded_exceptions = [], stdin_text = [], environ = [[88, 61, 49]]\<rparr>"

theorem arguments_reach_main_witness:
  "\<exists>t. initialize_run_stack idle_host one_variable (argument_words MAX_ARGS [97, 32, 98, 99]) default_memory = Inr ((), t) \<and>
     gpr t REG_A0 = 2 \<and> (\<exists>as. vector_at t (gpr t REG_A1) as \<and> strings_at t as [[97], [98, 99]])"
proof -
  have a: "argument_words MAX_ARGS [97, 32, 98, 99] = [[97], [98, 99]]"
    by (simp add: argument_words.simps is_blank_def)
  have e: "environ one_variable = [[88, 61, 49]]" by (simp add: one_variable_def)
  have "mem_ok default_memory" using default_memory_inv by (simp add: mem_inv_def)
  moreover have "unat (stack_bot default_memory) + stack_need (environ one_variable) [[97], [98, 99]] \<le> 0x80000000"
    by (simp add: default_memory_fields stack_need_def e)
  ultimately show ?thesis
    using arguments_reach_main [of default_memory one_variable "[[97], [98, 99]]" idle_host]
    unfolding a by (auto simp: e program_stack_def Let_def)
qed

end
