(* ===== verification/RunProps.thy ===== *)
theory RunProps
  imports WorldProps
begin

text \<open>
  Running a program from the debugger: what \<^verbatim>\<open>run_program\<close> does at a breakpoint.
\<close>

subsection \<open>A breakpoint on the exit system call\<close>

text \<open>
  The machine stands at \<open>pc\<close>, where a breakpoint replaces the system call \<open>exit\<close>; there are no
  interrupts, no delayed loads and no narration, and the console is not mapped.
\<close>

definition at_exit_breakpoint :: "mem_addr \<Rightarrow> nat \<Rightarrow> nat \<Rightarrow> mips_instruction \<Rightarrow> mips_instruction \<Rightarrow> machine \<Rightarrow> bool" where
  "at_exit_breakpoint pc k q brk exit s \<longleftrightarrow>
     in_text s pc \<and> pc AND 3 = 0 \<and> PC s = pc \<and> break_inst s = Some k \<and> text_seg s (text_index pc) = Some k \<and>
     bkpts s = [(pc, q)] \<and> q \<noteq> k \<and> inst_heap s k = Some brk \<and> inst_heap s q = Some exit \<and>
     OPCODE brk = TOK_BREAK_OPCODE \<and> RD brk = 1 \<and> inst_expr brk = None \<and>
     OPCODE exit = TOK_SYSCALL_OPCODE \<and> inst_expr exit = None \<and> gpr s REG_V0 = 10 \<and>
     \<not> status_ie s \<and> \<not> mapped_io s \<and> \<not> delayed_loads s \<and> explain_level (explain s) = 0"

lemma exec_syscall: "OPCODE i = TOK_SYSCALL_OPCODE \<Longrightarrow> exec_inst H D i = op_syscall H i"
  by (simp add: exec_inst_def switch_cases_def cases_1_def cases_2_def cases_3_def cases_4_def cases_5_def
      cases_6_def cases_7_def cases_8_def cases_9_def cases_10_def cases_11_def cases_12_def cases_13_def)

lemma exec_exit:
  assumes "OPCODE i = TOK_SYSCALL_OPCODE" and "gpr s REG_V0 = 10"
  shows "exec_inst H D i s = Inr (Some False, s\<lparr>spim_return_value := 0\<rparr>)"
proof -
  have "do_syscall H s = Inr (False, s\<lparr>spim_return_value := 0\<rparr>)" using assms(2) by (simp add: do_syscall_def)
  then show ?thesis by (simp add: exec_syscall [OF assms(1)] op_syscall_def bnd_def)
qed

lemma exec_break: "OPCODE i = TOK_BREAK_OPCODE \<Longrightarrow> exec_inst H D i = op_break i"
  by (simp add: exec_inst_def switch_cases_def cases_1_def cases_2_def cases_3_def cases_4_def cases_5_def
      cases_6_def cases_7_def cases_8_def cases_9_def cases_10_def cases_11_def cases_12_def cases_13_def)

text \<open>The state in which the first instruction of a run is executed.\<close>

definition entry :: "mem_addr \<Rightarrow> machine \<Rightarrow> machine" where
  "entry pc s = s\<lparr>gpr := (gpr s)(0 := 0), PC := pc, exception_occurred := False, force_break := False,
     timer_polls := timer_polls s + 1\<rparr>"

lemma run_stops_at_once:
  assumes "in_text s pc" and "pc AND 3 = 0" and "text_seg s (text_index pc) = Some p"
    and "inst_heap s p = Some i" and "inst_expr i = None"
    and "\<not> status_ie s" and "\<not> mapped_io s" and "\<not> delayed_loads s" and "\<not> timer_expired H (timer_polls s)"
    and "\<And>D. exec_inst H D i (entry pc s) = Inr (Some b, t)" and "0 < n"
    and "explain_level (explain s) = 0"
  shows "run_spim H (Suc fuel) pc n display s = Inr (b, t)"
proof -
  from assms(11) obtain m where n: "n = Suc m" by (cases n) auto
  let ?u = "s\<lparr>PC := pc, force_break := False\<rparr>" and ?D = "\<lambda>pc. bnd (run_spim H fuel pc 1 display) (\<lambda>_. ret ())"
  have "fetch_step H D display ?u = Inr (Some b, t)" for D
  proof -
    have e: "(poll_timer H (?u\<lparr>gpr := (gpr ?u)(0 := 0)\<rparr>))\<lparr>exception_occurred := False\<rparr> = entry pc s"
      using assms(9) by (simp add: poll_timer_def entry_def Let_def)
    have "mem_read_inst pc (entry pc s) = Inr (Some p, entry pc s)"
      using assms(1,2,3) by (simp add: mem_read_inst_def in_text_def entry_def)
    moreover have "deref_inst (Some p) (entry pc s) = Inr (i, entry pc s)"
      using assms(4) by (simp add: deref_inst_def entry_def)
    moreover have "run_inst H D display i (entry pc s) = Inr (Some b, t)"
      using assms(5,8,10,12) by (simp add: run_inst_def undefined_symbol_def DO_DELAYED_UPDATE_def entry_def bnd_def seq_def)
    moreover have "PC (entry pc s) = pc" "\<not> exception_occurred (entry pc s)" by (simp_all add: entry_def)
    ultimately show ?thesis unfolding fetch_step_def using e by simp
  qed
  then have "chunk H ?D display n (s\<lparr>PC := pc\<rparr>) = Inr (Some b, t)"
    using assms(6,7) unfolding n
    by (simp add: chunk_def io_poll_def whn_def take_interrupt_def interrupt_pending_def status_ie_def)
  then show ?thesis using assms(7,11) by (subst run_spim.simps) (simp add: Let_def run_chunks.simps)
qed

lemma step_through [simp]:
  "bnd (ret x) f = f x" "bnd (gets g) f' s = f' (g s) s" "bnd (modify h) f'' s = f'' () (h s)" "seq (modify h) m s = m (h s)"
  by (simp_all add: fun_eq_iff bnd_def seq_def)

text \<open>Taking the only breakpoint out of the text, and putting one in.\<close>

lemma delete_only:
  assumes "in_text s pc" and "pc AND 3 = 0" and "bkpts s = [(pc, q)]"
  shows "delete_breakpoint H pc s =
    Inr ((), s\<lparr>text_seg := (text_seg s)(text_index pc := Some q), text_modified := True, bkpts := []\<rparr>)"
  using assms by (simp add: delete_breakpoint_def mem_write_inst_def in_text_def seq_def bnd_assoc)

lemma add_first:
  assumes "in_text s pc" and "pc AND 3 = 0" and "break_inst s = Some k" and "text_seg s (text_index pc) = Some q" and "q \<noteq> k"
  shows "add_breakpoint H pc s =
    Inr ((), s\<lparr>exception_occurred := False, text_modified := True,
      text_seg := (text_seg s)(text_index pc := Some k), bkpts := (pc, q) # bkpts s\<rparr>)"
  using assms by (simp add: add_breakpoint_def set_breakpoint_def make_break_inst_def mem_read_inst_def
      mem_write_inst_def in_text_def)

lemma break_raises:
  "exception_occurred (raise_exception ExcCode_Bp s)" "CP0_ExCode (raise_exception ExcCode_Bp s) = 9"
  "PC (raise_exception ExcCode_Bp s) = PC s" "status_ie (raise_exception ExcCode_Bp s) = status_ie s"
  by (simp_all add: raise_exception_def record_epc_def latch_first_bad_def set_cp0_def Let_def CP0_ExCode_def
      set_exc_code_def status_ie_def word_eq_bits bit_simps)

text \<open>The end of \<^verbatim>\<open>run_program\<close> at a breakpoint: EXL is cleared, so only CP0 has changed.\<close>

definition break_reported :: "machine \<Rightarrow> machine" where
  "break_reported s =
    (let t = raise_exception ExcCode_Bp s in set_cp0 CP0_Status_Reg (CP0_Status t AND NOT CP0_Status_EXL) t)"

lemma break_reported_frame: "\<exists>c. break_reported s = s\<lparr>exception_occurred := True, coprocessor_0 := c\<rparr>"
  by (auto simp: break_reported_def raise_exception_def record_epc_def latch_first_bad_def set_cp0_def Let_def)

lemma break_reported_status: "status_ie (break_reported s) = status_ie s"
  by (simp add: break_reported_def raise_exception_def record_epc_def latch_first_bad_def set_cp0_def Let_def
      status_ie_def word_eq_bits bit_simps)

lemma at_exit_break_reported:
  "at_exit_breakpoint pc k q brk exit (break_reported s) = at_exit_breakpoint pc k q brk exit s"
proof -
  obtain c where c: "break_reported s = s\<lparr>exception_occurred := True, coprocessor_0 := c\<rparr>"
    using break_reported_frame by blast
  show ?thesis using break_reported_status [of s]
    unfolding at_exit_breakpoint_def by (simp add: c in_text_def)
qed

text \<open>
  C33: the exit that is never taken. Where a breakpoint stands on the system call \<open>exit\<close>, \<^verbatim>\<open>run_program\<close>
  with \<^verbatim>\<open>cont_bkpt\<close> (the commands \<open>continue\<close> and \<open>step 2\<close>) executes the system call in the single step over the
  breakpoint, drops its answer that the program has ended, and runs on from the same address into the breakpoint it has just
  put back. It reports a breakpoint in a program that can continue, in the state in which it started.
\<close>

theorem exit_under_breakpoint_is_lost:
  assumes "at_exit_breakpoint pc k q brk exit s" and "\<And>n. \<not> timer_expired H n" and "1 < steps" and "pc \<noteq> 0"
  shows "\<exists>t. run_program H (Suc fuel) pc steps False True s = Inr ((True, True), t) \<and>
    at_exit_breakpoint pc k q brk exit t"
proof -
  note a = assms(1) [unfolded at_exit_breakpoint_def]
  let ?d = "s\<lparr>text_seg := (text_seg s)(text_index pc := Some q), text_modified := True, bkpts := [], exception_occurred := False\<rparr>"
  let ?x = "(entry pc ?d)\<lparr>spim_return_value := 0\<rparr>"
  let ?b = "?x\<lparr>exception_occurred := False, text_modified := True,
      text_seg := (text_seg ?x)(text_index pc := Some k), bkpts := [(pc, q)]\<rparr>"
  let ?t = "raise_exception ExcCode_Bp (entry pc (?b\<lparr>exception_occurred := False\<rparr>))"
  have "exec_inst H D exit (entry pc ?d) = Inr (Some False, ?x)" for D
    using a exec_exit [of exit "entry pc ?d" H D] by (simp add: entry_def)
  then have x: "run_spim H (Suc fuel) pc 1 False ?d = Inr (False, ?x)"
    using a assms(2) by (intro run_stops_at_once [where i = exit and p = q]) (simp_all add: in_text_def status_ie_def)
  have "add_breakpoint H pc ?x = Inr ((), ?b)"
    using a by (subst add_first [where q = q]) (simp_all add: in_text_def entry_def)
  then have over: "step_over_breakpoint H (Suc fuel) pc False s = Inr (pc, ?b)"
    using a x delete_only [of s pc q H] assms(4) by (simp add: step_over_breakpoint_def entry_def)
  have "exec_inst H D brk (entry pc (?b\<lparr>exception_occurred := False\<rparr>)) = Inr (Some True, ?t)" for D
    using a by (simp add: exec_break op_break_def)
  then have r: "run_spim H (Suc fuel) pc (steps - 1) False (?b\<lparr>exception_occurred := False\<rparr>) = Inr (True, ?t)"
    using a assms(2,3) by (intro run_stops_at_once [where i = brk and p = k]) (simp_all add: in_text_def status_ie_def entry_def)
  have "inst_is_breakpoint pc s = Inr (True, s)"
    using a by (simp add: inst_is_breakpoint_def make_break_inst_def mem_read_inst_def in_text_def)
  with over r have "run_program H (Suc fuel) pc steps False True s =
      Inr ((True, True), break_reported (entry pc (?b\<lparr>exception_occurred := False\<rparr>)))"
    by (simp add: run_program_def break_raises break_reported_def Let_def)
  moreover have "at_exit_breakpoint pc k q brk exit (entry pc (?b\<lparr>exception_occurred := False\<rparr>))"
    using a by (simp add: at_exit_breakpoint_def entry_def in_text_def status_ie_def)
  then have "at_exit_breakpoint pc k q brk exit (break_reported (entry pc (?b\<lparr>exception_occurred := False\<rparr>)))"
    by (simp only: at_exit_break_reported)
  ultimately show ?thesis by blast
qed

definition exit_trap :: machine where
  "exit_trap = zero_machine\<lparr>text_top := 0x400100, PC := 0x400020, break_inst := Some 1, bkpts := [(0x400020, 0)],
     text_seg := (\<lambda>_. None)(8 := Some 1), gpr := (\<lambda>_. 0)(REG_V0 := 10),
     inst_heap := [0 \<mapsto> make_r_type_inst TOK_SYSCALL_OPCODE 0 0 0, 1 \<mapsto> make_r_type_inst TOK_BREAK_OPCODE 1 0 0]\<rparr>"

theorem exit_under_breakpoint_is_lost_witness:
  "\<exists>t. run_program idle_host 1 0x400020 1000 False True exit_trap = Inr ((True, True), t) \<and> PC t = 0x400020"
proof -
  let ?b = "make_r_type_inst TOK_BREAK_OPCODE 1 0 0" and ?e = "make_r_type_inst TOK_SYSCALL_OPCODE 0 0 0"
  have "at_exit_breakpoint 0x400020 1 0 ?b ?e exit_trap"
    by (simp add: at_exit_breakpoint_def exit_trap_def zero_machine_def in_text_def text_index_def status_ie_def
        make_r_type_inst_def silent_def SET_OPCODE_def zero_inst_def OPCODE_def SET_RS_def SET_RT_def SET_RD_def SET_SHAMT_def RD_def)
  from exit_under_breakpoint_is_lost [OF this, of idle_host 1000 0] show ?thesis
    by (auto simp: idle_host_def at_exit_breakpoint_def)
qed

subsection \<open>Setting and deleting\<close>

lemma delete_from_none: "a \<notin> fst ` set bs \<Longrightarrow> delete_from H a kept bs = ret False"
  by (induction bs arbitrary: kept) auto

text \<open>
  C34: a breakpoint leaves no trace. Setting a breakpoint on an instruction that has none and
  deleting it again restores the text and the list of breakpoints.
\<close>

theorem breakpoint_roundtrip:
  assumes "in_text s a" and "a AND 3 = 0" and "break_inst s = Some k"
    and "text_seg s (text_index a) = Some q" and "q \<noteq> k" and "a \<notin> fst ` set (bkpts s)"
  shows "seq (add_breakpoint H a) (delete_breakpoint H a) s = Inr ((), s\<lparr>exception_occurred := False, text_modified := True\<rparr>)"
proof -
  let ?t = "s\<lparr>exception_occurred := False, text_modified := True, text_seg := (text_seg s)(text_index a := Some k),
    bkpts := (a, q) # bkpts s\<rparr>"
  have r: "(text_seg s)(text_index a := Some q) = text_seg s" using assms(4) by (simp add: fun_upd_idem)
  have "delete_breakpoint H a ?t = Inr ((), s\<lparr>exception_occurred := False, text_modified := True\<rparr>)"
    using assms(1,2) r
    by (simp add: delete_breakpoint_def delete_from_none [OF assms(6)] mem_write_inst_def in_text_def seq_def bnd_assoc)
  then show ?thesis by (simp add: seq_def bnd_def add_first [OF assms(1-5)])
qed

theorem breakpoint_roundtrip_witness:
  "\<exists>t. seq (add_breakpoint idle_host 0x400020) (delete_breakpoint idle_host 0x400020)
     (exit_trap\<lparr>text_seg := (\<lambda>_. None)(8 := Some 0), bkpts := []\<rparr>) = Inr ((), t) \<and> text_seg t 8 = Some 0"
proof -
  let ?s = "exit_trap\<lparr>text_seg := (\<lambda>_. None)(8 := Some 0), bkpts := []\<rparr>"
  have "in_text ?s 0x400020" "break_inst ?s = Some 1" "text_seg ?s (text_index 0x400020) = Some 0"
    by (simp_all add: exit_trap_def zero_machine_def in_text_def text_index_def)
  from breakpoint_roundtrip [OF this(1) _ this(2,3), of idle_host] show ?thesis by simp
qed

subsection \<open>Single steps\<close>

text \<open>
  C35: an exception is lost when instructions are displayed. At the end of a step the simulator
  prints the next instruction, which clears the exception flag, before it tests the flag: with
  display off the handler is entered, with display on the program goes on after the faulting
  instruction, with the cause of the exception left in CP0.
\<close>

theorem display_loses_exception:
  assumes "exception_occurred s" and "in_text s (PC s + 4)" and "(PC s + 4) AND 3 = 0"
    and "break_inst s = Some k" and "text_seg s (text_index (PC s + 4)) = p" and "p \<noteq> Some k"
    and "format_inst_text p (PC s + 4) (s\<lparr>PC := PC s + 4, exception_occurred := False\<rparr>) = Inr (txt, v)"
    and "explain_level (explain s) = 0"
  shows "(\<exists>t. finish_step H False i s = Inr ((), t) \<and> PC t = EXCEPTION_ADDR) \<and>
    finish_step H True i s = Inr ((), s\<lparr>PC := PC s + 4, exception_occurred := False,
      console_out := console_out s @ [Con_Text ''%s'' txt]\<rparr>)"
proof -
  let ?u = "s\<lparr>PC := PC s + 4, exception_occurred := False\<rparr>"
  have ne: "PC s + 4 \<noteq> 0" using assms(2) by (auto simp: in_text_def)
  have v: "v = ?u" using format_inst_reads [of p "PC s + 4" ?u] assms(7) by simp
  have r: "mem_read_inst (PC s + 4) ?u = Inr (p, ?u)"
    using assms(2,3,5) by (simp add: mem_read_inst_def in_text_def)
  have "inst_is_breakpoint (PC s + 4) ?u = Inr (False, ?u)"
    using r assms(4,6) by (simp add: inst_is_breakpoint_def make_break_inst_def bnd_def seq_def)
  then have "format_an_inst H 2 p (PC s + 4) ?u = Inr (txt, ?u)"
    using assms(7) ne unfolding numeral_2_eq_2 v by (simp add: bnd_def)
  then have "inst_to_string H (PC s + 4) (s\<lparr>PC := PC s + 4\<rparr>) = Inr (txt, ?u)"
    using r by (simp add: inst_to_string_def bnd_def)
  then have "finish_step H True i s = Inr ((), ?u\<lparr>console_out := console_out s @ [Con_Text ''%s'' txt]\<rparr>)"
    using assms(8) by (simp add: finish_step_def print_inst_def bnd_def seq_def)
  moreover have "\<exists>t. finish_step H False i s = Inr ((), t) \<and> PC t = EXCEPTION_ADDR"
    using assms(1,8) handle_exception_frame [of "s\<lparr>PC := PC s + 4\<rparr>"] by (auto simp: finish_step_def seq_def bnd_def)
  ultimately show ?thesis by simp
qed

definition overflowed :: machine where
  "overflowed = raise_exception ExcCode_Ov (zero_machine\<lparr>text_top := 0x400100, PC := 0x400020, break_inst := Some 1\<rparr>)"

theorem display_loses_exception_witness:
  "\<exists>t. finish_step idle_host True zero_inst overflowed = Inr ((), t) \<and> PC t = 0x400024 \<and> CP0_ExCode t = 12"
proof -
  have o: "exception_occurred overflowed" "in_text overflowed (PC overflowed + 4)" "PC overflowed = 0x400020"
    "break_inst overflowed = Some 1" "text_seg overflowed (text_index (PC overflowed + 4)) = None" "CP0_ExCode overflowed = 12" "explain_level (explain overflowed) = 0"
    by (simp_all add: overflowed_def zero_machine_def raise_exception_def record_epc_def latch_first_bad_def
        set_cp0_def Let_def in_text_def CP0_ExCode_def set_exc_code_def status_exl_def silent_def)
  have "\<exists>t v. format_inst_text None a s = Inr (t, v)" for a s by (simp add: format_inst_text_def)
  then obtain t v where "format_inst_text None (PC overflowed + 4)
      (overflowed\<lparr>PC := PC overflowed + 4, exception_occurred := False\<rparr>) = Inr (t, v)" by blast
  from display_loses_exception [OF o(1,2) _ o(4,5) _ this o(7), of idle_host zero_inst] o show ?thesis by (simp add: CP0_ExCode_def)
qed

end
