(* ===== verification/Repl.thy ===== *)
theory Repl
  imports World Display
begin

text \<open>
  The command loop (\<^verbatim>\<open>spim.c\<close>, built with \<^verbatim>\<open>HAVE_LIBEDIT\<close>): a line is read, pushed on the scanner as a
  source of its own, scanned into a command and executed; \<^verbatim>\<open>run_error\<close> and \<^verbatim>\<open>exit\<close> leave the command.
  The terminal modes are the flag \<^verbatim>\<open>console_state_saved\<close>; the function-local statics of
  \<^verbatim>\<open>parse_spim_command\<close> are fields of the state.
\<close>

subsection \<open>State\<close>

datatype command =
    UNKNOWN_CMD | EXIT_CMD | READ_CMD | RUN_CMD | STEP_CMD | PRINT_CMD | PRINT_SYM_CMD
  | PRINT_ALL_REGS_CMD | REINITIALIZE_CMD | ASM_CMD | REDO_CMD | NOP_CMD | HELP_CMD
  | CONTINUE_CMD | SET_BKPT_CMD | DELETE_BKPT_CMD | LIST_BKPT_CMD | DUMPNATIVE_TEXT_CMD
  | DUMP_TEXT_CMD | DISASM_CMD | ARGS_CMD

record repl =
  pst :: pstate
  program_argv :: "byte list list"
  prev_cmd :: command
  prev_token :: int
  run_addr :: mem_addr
  step_count :: "32 word"
  print_loc :: "32 word"
  bkpt_addr :: mem_addr
  console_state_saved :: bool
  dumped :: "(string \<times> bool \<times> 32 word list) list"

type_synonym 'a rcomp = "(repl, 'a) comp"

text \<open>
  What the loop takes from the command line: the sizes of the segments, the exception handler, which
  files can be written, and the fuel of its calls.
\<close>

record session =
  outer :: outside
  sizes :: segment_sizes
  handler :: handler_files
  can_write :: "string \<Rightarrow> bool"
  fuel :: nat

definition on_pst :: "'a pcomp \<Rightarrow> 'a rcomp" where
  "on_pst m r = (case m (pst r) of Inl (e, p) \<Rightarrow> Inl (e, r\<lparr>pst := p\<rparr>) | Inr (x, p) \<Rightarrow> Inr (x, r\<lparr>pst := p\<rparr>))"

definition on_machine :: "'a mcomp \<Rightarrow> 'a rcomp" where
  "on_machine m = on_pst (on_mach m)"

definition say :: "string \<Rightarrow> 32 word list \<Rightarrow> unit rcomp" where
  "say fmt args = on_machine (write_message fmt args)"

definition say_text :: "string \<Rightarrow> string \<Rightarrow> unit rcomp" where
  "say_text fmt t = on_machine (modify (\<lambda>s. s\<lparr>console_out := console_out s @ [Con_Text fmt t]\<rparr>))"

subsection \<open>The console\<close>

definition console_to_program :: "repl \<Rightarrow> repl" where
  "console_to_program r =
     (if mapped_io (mach (pst r)) \<and> \<not> console_state_saved r then r\<lparr>console_state_saved := True\<rparr> else r)"

definition console_to_spim :: "repl \<Rightarrow> repl" where
  "console_to_spim r = r\<lparr>console_state_saved := False\<rparr>"

subsection \<open>Reading a command\<close>

definition read_token :: "host \<Rightarrow> int rcomp" where
  "read_token H =
     bnd (on_pst (scanner_advance H)) (\<lambda>t.
       if t = TOK_EOF then seq (modify console_to_spim) (throw Exit_Spim) else ret t)"

fun flush_to_newline :: "host \<Rightarrow> nat \<Rightarrow> unit rcomp" where
  "flush_to_newline H 0 = throw Out_Of_Fuel"
| "flush_to_newline H (Suc n) = bnd (read_token H) (\<lambda>t. if t = TOK_NL then ret () else flush_to_newline H n)"

definition scanned_int :: "32 word rcomp" where
  "scanned_int = bnd (gets (\<lambda>r. scan_value (pst r))) (\<lambda>v. case v of SV_Int i \<Rightarrow> ret i | _ \<Rightarrow> throw Crash)"

definition scanned_str :: "string rcomp" where
  "scanned_str = bnd (gets (\<lambda>r. scan_value (pst r))) (\<lambda>v. case v of SV_Str t \<Rightarrow> ret t | _ \<Rightarrow> throw Crash)"

definition get_opt_int :: "host \<Rightarrow> nat \<Rightarrow> 32 word rcomp" where
  "get_opt_int H n =
     bnd (read_token H) (\<lambda>t.
       if t = TOK_INT then seq (flush_to_newline H n) scanned_int
       else if t = TOK_NL then ret 0
       else seq (flush_to_newline H n) (ret 0))"

text \<open>The loop over equal characters, with the count of characters that must still match.\<close>

fun str_prefix :: "string \<Rightarrow> string \<Rightarrow> int \<Rightarrow> bool" where
  "str_prefix (c # cs) (d # ds) min_match = (if c = d then str_prefix cs ds (min_match - 1) else False)"
| "str_prefix [] ds min_match = (min_match \<le> 0)"
| "str_prefix (c # cs) [] min_match = False"

text \<open>The chain of tests of \<^verbatim>\<open>read_assembly_command\<close>: name, least abbreviation, command.\<close>

definition command_table :: "(string \<times> int \<times> command) list" where
  "command_table =
     [(''exit'', 2, EXIT_CMD), (''quit'', 2, EXIT_CMD), (''print'', 1, PRINT_CMD),
      (''print_symbols'', 7, PRINT_SYM_CMD), (''print_all_regs'', 7, PRINT_ALL_REGS_CMD),
      (''run'', 2, RUN_CMD), (''args'', 2, ARGS_CMD), (''read'', 2, READ_CMD), (''load'', 2, READ_CMD),
      (''reinitialize'', 6, REINITIALIZE_CMD), (''step'', 1, STEP_CMD), (''help'', 1, HELP_CMD),
      (''continue'', 1, CONTINUE_CMD), (''breakpoint'', 2, SET_BKPT_CMD), (''delete'', 1, DELETE_BKPT_CMD),
      (''list'', 2, LIST_BKPT_CMD), (''dumpnative'', 5, DUMPNATIVE_TEXT_CMD), (''dump'', 4, DUMP_TEXT_CMD),
      (''disasm'', 3, DISASM_CMD)]"

definition command_of :: "string \<Rightarrow> command" where
  "command_of word =
     (case find (\<lambda>(name, n, _). str_prefix word name n) command_table of
        Some (_, _, cmd) \<Rightarrow> cmd
      | None \<Rightarrow> if char_at word 0 = CHR ''?'' then HELP_CMD
                else if char_at word 0 = CHR ''.'' then ASM_CMD else UNKNOWN_CMD)"

definition read_assembly_command :: "host \<Rightarrow> command rcomp" where
  "read_assembly_command H =
     bnd (read_token H) (\<lambda>t.
       if t = TOK_NL then ret REDO_CMD
       else if t \<noteq> TOK_ID then ret UNKNOWN_CMD
       else bnd scanned_str (\<lambda>word. ret (command_of word)))"

subsection \<open>Printing\<close>

definition print_reg :: "32 word \<Rightarrow> unit rcomp" where
  "print_reg n =
     (if n < 32 then bnd (gets (\<lambda>r. gpr (mach (pst r)) (unat n))) (\<lambda>v. say ''Reg %d = 0x%08x (%d)'' [n, v, v])
      else throw Crash)"

definition print_fp_reg :: "32 word \<Rightarrow> unit rcomp" where
  "print_fp_reg n =
     (if n < 32
      then on_machine (modify (\<lambda>s. s\<lparr>console_out := console_out s @
             (if n AND 1 = 0 then [Con_Message ''FP reg %d = %g (double)'' [n], Con_Double (fp_double_view s (unat n div 2))] else []) @
             [Con_Message ''FP reg %d = %g (single)'' [n], Con_Float (FPR_S (unat n) s)]\<rparr>))
      else throw Crash)"

definition to_lower :: "char \<Rightarrow> char" where
  "to_lower c = (if CHR ''A'' \<le> c \<and> c \<le> CHR ''Z'' then char_of (of_char c + 32 :: nat) else c)"

definition named_registers :: "machine \<Rightarrow> (string \<times> string \<times> 32 word) list" where
  "named_registers s =
     [(''pc'', ''PC'', PC s), (''hi'', ''HI'', HI s), (''lo'', ''LO'', LO s),
      (''fpcond'', ''FCSR'', coprocessor_1 s FCSR_REG), (''cause'', ''Cause'', CP0_Cause s),
      (''epc'', ''EPC'', CP0_EPC s), (''status'', ''Status'', CP0_Status s), (''badvaddr'', ''BadVAddr'', CP0_BadVAddr s)]"

text \<open>The copy of the name in a buffer of 100 characters, where the terminator of a longer name does not fit.\<close>

definition print_reg_from_string :: "string \<Rightarrow> bool rcomp" where
  "print_reg_from_string reg_num =
     (if 100 \<le> length reg_num then throw Crash
      else bnd (gets (\<lambda>r. named_registers (mach (pst r)))) (\<lambda>regs.
        let s = map to_lower reg_num;
            s1 = (if s \<noteq> [] \<and> hd s = CHR ''$'' then tl s else s)
        in case map_of regs s1 of
             None \<Rightarrow> ret False
           | Some (name, v) \<Rightarrow> seq (say (name @ '' = 0x%08x (%d)'') [v, v]) (ret True)))"

definition print_all_regs :: "host \<Rightarrow> bool \<Rightarrow> unit rcomp" where
  "print_all_regs H hex = bnd (gets (\<lambda>r. format_registers H (printf_g H ''%#-13.6g'') hex hex (mach (pst r)))) (say_text ''%s'')"

subsection \<open>Commands\<close>

definition finish_as :: "command \<Rightarrow> bool rcomp" where
  "finish_as cmd = seq (modify (\<lambda>r. r\<lparr>prev_cmd := cmd\<rparr>)) (ret False)"

definition flush_unless :: "bool \<Rightarrow> host \<Rightarrow> session \<Rightarrow> unit rcomp" where
  "flush_unless b H S = whn (\<not> b) (flush_to_newline H (fuel S))"

text \<open>The token of the operand, or the one before when the command is repeated.\<close>

definition operand_token :: "host \<Rightarrow> bool \<Rightarrow> int rcomp" where
  "operand_token H redo = (if redo then gets prev_token else read_token H)"

definition cmd_exit :: "bool rcomp" where
  "cmd_exit = seq (modify console_to_spim) (throw Exit_Spim)"

definition cmd_read :: "host \<Rightarrow> session \<Rightarrow> bool \<Rightarrow> bool rcomp" where
  "cmd_read H S redo =
     bnd (operand_token H redo) (\<lambda>t.
     seq (flush_unless redo H S)
    (seq (if t = TOK_STR
          then bnd scanned_str (\<lambda>name. seq (bnd (on_pst (read_assembly_file H (outer S) (fuel S) name)) (\<lambda>_. ret ()))
                 (on_pst (modify scanner_pop_source)))
          else say ''Must supply a filename to read'' [])
      (finish_as READ_CMD)))"

text \<open>A run reports the breakpoint it stopped at.\<close>

definition run_and_report :: "host \<Rightarrow> session \<Rightarrow> mem_addr \<Rightarrow> nat \<Rightarrow> bool \<Rightarrow> bool \<Rightarrow> unit rcomp" where
  "run_and_report H S addr steps display cont_bkpt =
     bnd (on_machine (run_program H (fuel S) addr steps display cont_bkpt)) (\<lambda>(bp, continuable).
       whn bp (bnd (gets (\<lambda>r. PC (mach (pst r)))) (\<lambda>pc. say ''Breakpoint encountered at 0x%08x'' [pc])))"

abbreviation DEFAULT_RUN_STEPS :: nat where "DEFAULT_RUN_STEPS \<equiv> 2147483647"

definition report_undefined :: "unit rcomp" where
  "report_undefined =
     bnd (on_machine undefined_symbol_string) (\<lambda>u. case u of None \<Rightarrow> ret ()
       | Some names \<Rightarrow> say_text ''The following symbols are undefined: %s'' names)"

definition cmd_run :: "host \<Rightarrow> session \<Rightarrow> bool \<Rightarrow> bool rcomp" where
  "cmd_run H S redo =
     bnd (if redo then gets run_addr else get_opt_int H (fuel S)) (\<lambda>a.
     bnd (if a = 0 then on_machine starting_address else ret a) (\<lambda>addr.
     seq (modify (\<lambda>r. r\<lparr>run_addr := addr\<rparr>))
    (bnd (gets program_argv) (\<lambda>argv.
     seq (on_machine (initialize_run_stack H (outer S) argv))
    (seq (modify console_to_program)
    (seq (whn (addr \<noteq> 0) (seq report_undefined (run_and_report H S addr DEFAULT_RUN_STEPS False False)))
    (seq (modify console_to_spim) (finish_as RUN_CMD))))))))"

definition cmd_continue :: "host \<Rightarrow> session \<Rightarrow> bool rcomp" where
  "cmd_continue H S =
     bnd (gets (\<lambda>r. PC (mach (pst r)))) (\<lambda>pc.
     seq (whn (pc \<noteq> 0) (seq (modify console_to_program)
           (seq (run_and_report H S pc DEFAULT_RUN_STEPS False True) (modify console_to_spim))))
       (finish_as CONTINUE_CMD))"

definition cmd_step :: "host \<Rightarrow> session \<Rightarrow> bool \<Rightarrow> bool rcomp" where
  "cmd_step H S redo =
     bnd (if redo then gets step_count else get_opt_int H (fuel S)) (\<lambda>n.
     bnd (gets (\<lambda>r. PC (mach (pst r)))) (\<lambda>pc.
     bnd (if pc = 0 then on_machine starting_address else ret pc) (\<lambda>addr.
     seq (modify (\<lambda>r. r\<lparr>step_count := (if n = 0 then 1 else n)\<rparr>))
    (seq (whn (addr \<noteq> 0) (seq (modify console_to_program)
           (seq (run_and_report H S addr (nat (sint (if n = 0 then 1 else n))) True True) (modify console_to_spim))))
      (finish_as STEP_CMD)))))"

text \<open>
  \<open>print N\<close> or \<open>print N($reg)\<close>; the result is whether the end of the line is consumed.
\<close>

definition set_loc :: "32 word \<Rightarrow> unit rcomp" where
  "set_loc v = modify (\<lambda>r. r\<lparr>print_loc := v\<rparr>)"

definition show_memory :: "host \<Rightarrow> 32 word \<Rightarrow> unit rcomp" where
  "show_memory H a = seq (set_loc a) (on_machine (print_mem H a))"

definition print_based :: "host \<Rightarrow> 32 word \<Rightarrow> bool rcomp" where
  "print_based H off =
     bnd (read_token H) (\<lambda>reg_tok.
     bnd (if reg_tok = TOK_REG then bnd scanned_int (\<lambda>v. ret (sint v)) else ret (-1)) (\<lambda>reg.
     bnd (if reg_tok = TOK_REG then read_token H else ret 0) (\<lambda>close.
     seq (if reg < 0 \<or> close \<noteq> TOK_RPAREN then say ''expected $reg) after '' []
          else if reg < 32 then bnd (gets (\<lambda>r. gpr (mach (pst r)) (nat reg))) (\<lambda>b. show_memory H (b + off))
          else throw Crash)
       (ret (reg_tok = TOK_NL \<or> close = TOK_NL)))))"

definition print_number :: "host \<Rightarrow> bool \<Rightarrow> bool rcomp" where
  "print_number H redo =
     (if redo then bnd (gets print_loc) (\<lambda>l. seq (show_memory H (l + 4)) (ret False))
      else bnd scanned_int (\<lambda>v. bnd (read_token H) (\<lambda>t.
        if t = TOK_LPAREN then print_based H v
        else seq (show_memory H v) (ret (t = TOK_NL)))))"

definition print_name :: "host \<Rightarrow> bool \<Rightarrow> unit rcomp" where
  "print_name H redo =
     bnd scanned_str (\<lambda>name. bnd (print_reg_from_string name) (\<lambda>is_reg.
       if is_reg then ret ()
       else bnd (gets print_loc) (\<lambda>l.
            bnd (if redo then ret (l + 4) else on_machine (find_symbol_address name)) (\<lambda>a.
            seq (set_loc a)
              (if a \<noteq> 0 then on_machine (print_mem H a) else say_text ''Unknown label: %s'' name)))))"

definition print_numbered :: "(32 word \<Rightarrow> unit rcomp) \<Rightarrow> 32 word \<Rightarrow> bool \<Rightarrow> unit rcomp" where
  "print_numbered pr d redo =
     bnd (if redo then bnd (gets print_loc) (\<lambda>l. ret (l + d)) else scanned_int) (\<lambda>l. seq (set_loc l) (pr l))"

definition cmd_print :: "host \<Rightarrow> session \<Rightarrow> bool \<Rightarrow> bool rcomp" where
  "cmd_print H S redo =
     bnd (operand_token H redo) (\<lambda>t.
     bnd (if t = TOK_REG then seq (print_numbered print_reg 1 redo) (ret False)
          else if t = TOK_FP_REG then seq (print_numbered print_fp_reg 2 redo) (ret False)
          else if t = TOK_INT then print_number H redo
          else if t = TOK_ID then seq (print_name H redo) (ret False)
          else seq (say ''Print what?'' []) (ret False)) (\<lambda>consumed_nl.
     seq (flush_unless (redo \<or> consumed_nl) H S)
    (seq (modify (\<lambda>r. r\<lparr>prev_token := t\<rparr>)) (finish_as PRINT_CMD))))"

definition cmd_print_symbols :: "host \<Rightarrow> session \<Rightarrow> bool \<Rightarrow> bool rcomp" where
  "cmd_print_symbols H S redo = seq (on_machine print_symbols) (seq (flush_unless redo H S) (finish_as NOP_CMD))"

definition cmd_print_all_regs :: "host \<Rightarrow> session \<Rightarrow> bool \<Rightarrow> bool rcomp" where
  "cmd_print_all_regs H S redo =
     bnd (operand_token H redo) (\<lambda>t.
     bnd (if t = TOK_ID then bnd scanned_str (\<lambda>w. ret (w = ''hex'')) else ret False) (\<lambda>hex.
     seq (print_all_regs H hex)
    (seq (flush_unless redo H S) (finish_as NOP_CMD))))"

definition startup_message :: "string list" where
  "startup_message =
     [''SPIM %s'', ''Copyright 1990-2023 by James Larus.'', ''All Rights Reserved.'',
      ''SPIM is distributed under a BSD license.'', ''See the file README for a full copyright notice.'']"

definition write_startup_message :: "unit rcomp" where
  "write_startup_message = on_machine (modify (\<lambda>s. s\<lparr>console_out := console_out s @ map (\<lambda>t. Con_Message t []) startup_message\<rparr>))"

definition cmd_reinitialize :: "host \<Rightarrow> session \<Rightarrow> bool rcomp" where
  "cmd_reinitialize H S =
     seq (flush_to_newline H (fuel S))
    (seq (bnd (gets (\<lambda>r. quiet (mach (pst r)))) (\<lambda>q.
           on_pst (initialize_world H (outer S) (fuel S) (sizes S) (handler S) (\<not> q))))
    (bnd (gets program_argv) (\<lambda>argv.
     seq (on_machine (initialize_run_stack H (outer S) argv))
    (seq write_startup_message
    (seq (on_machine explain_clear_suggestions) (finish_as NOP_CMD))))))"

definition cmd_asm :: "host \<Rightarrow> session \<Rightarrow> bool rcomp" where
  "cmd_asm H S = bnd (on_pst (parse_file H (fuel S))) (\<lambda>_. finish_as ASM_CMD)"

text \<open>The words of \<open>args\<close>; tokens of other kinds are skipped.\<close>

definition bytes_of :: "string \<Rightarrow> byte list" where
  "bytes_of t = map of_char t"

fun arg_words :: "host \<Rightarrow> nat \<Rightarrow> byte list list rcomp" where
  "arg_words H 0 = throw Out_Of_Fuel"
| "arg_words H (Suc n) =
     bnd (read_token H) (\<lambda>t.
       if t = TOK_NL \<or> t = 0 then ret []
       else if t = TOK_STR \<or> t = TOK_ID then bnd scanned_str (\<lambda>w. bnd (arg_words H n) (\<lambda>ws. ret (bytes_of w # ws)))
       else if t = TOK_INT then bnd scanned_int (\<lambda>i. bnd (arg_words H n) (\<lambda>ws. ret (bytes_of (fmt_int i) # ws)))
       else arg_words H n)"

definition cmd_args :: "host \<Rightarrow> session \<Rightarrow> bool rcomp" where
  "cmd_args H S =
     bnd (gets program_argv) (\<lambda>argv.
     bnd (arg_words H (fuel S)) (\<lambda>ws.
     seq (modify (\<lambda>r. r\<lparr>program_argv := (case argv of [] \<Rightarrow> bytes_of ''<repl>'' | a # _ \<Rightarrow> a) # ws\<rparr>)) (finish_as ARGS_CMD)))"

definition help_text :: "string list" where
  "help_text =
     [''SPIM is a MIPS32 simulator.'', ''Its top-level commands are:'', ''exit  -- Exit the simulator'',
      ''quit  -- Exit the simulator'', ''read FILE -- Read FILE containing assembly code into memory'',
      ''load FILE -- Same as read'', ''run <ADDR> -- Start the program at (optional) ADDRESS'',
      ''args <ARG ...> -- Set the args the next run will pass to the program;'',
      ''                  argv[0] stays as the loaded program path.  args'',
      ''                  with no operands clears the args.'',
      ''step <N> -- Step the program for N instructions (default 1)'',
      ''continue -- Continue program execution without stepping'', ''print $N -- Print register N'',
      ''print $fN -- Print floating point register N'', ''print ADDR -- Print contents of memory at ADDRESS'',
      ''print_symbols -- Print all global symbols'', ''print_all_regs -- Print all MIPS registers'',
      ''print_all_regs hex -- Print all MIPS registers in hex'',
      ''reinitialize -- Clear the memory and registers'',
      ''breakpoint <ADDR> -- Set a breakpoint at address ADDR'',
      ''delete <ADDR> -- Delete breakpoint at address ADDR'', ''list -- List all breakpoints'',
      ''dump [ FILE ] -- Dump binary code to spim.dump or FILE in network byte order'',
      ''dumpnative [ FILE ] -- Dump binary code to spim.dump or FILE in host byte order'',
      ''disasm -- Print a disassembly listing of the loaded text segment'',
      ''. -- Rest of line is assembly instruction to execute'', ''<cr> -- Newline reexecutes previous command'',
      ''? -- Print this message'', ''Most commands can be abbreviated to their unique prefix'',
      ''e.g., ex(it), re(ad), l(oad), ru(n), s(tep), p(rint)'']"

definition cmd_help :: "host \<Rightarrow> session \<Rightarrow> bool \<Rightarrow> bool rcomp" where
  "cmd_help H S redo =
     seq (flush_unless redo H S)
    (seq (on_machine (modify (\<lambda>s. s\<lparr>console_out := console_out s @ map (\<lambda>t. Con_Message t []) help_text\<rparr>)))
      (finish_as HELP_CMD))"

text \<open>\<open>breakpoint\<close> and \<open>delete\<close>; a bad operand is reported and leaves the address of the time before.\<close>

definition breakpoint_address :: "bool \<Rightarrow> int \<Rightarrow> unit rcomp" where
  "breakpoint_address redo t =
     (let set_addr = (\<lambda>a. modify (\<lambda>r. r\<lparr>bkpt_addr := a\<rparr>));
          next_addr = modify (\<lambda>r. r\<lparr>bkpt_addr := bkpt_addr r + 4\<rparr>)
      in if t = TOK_INT then (if redo then next_addr else bnd scanned_int set_addr)
         else if t = TOK_ID
         then (if redo then next_addr else bnd scanned_str (\<lambda>name. bnd (on_machine (find_symbol_address name)) set_addr))
         else say ''Must supply an address for breakpoint'' [])"

definition cmd_breakpoint :: "host \<Rightarrow> session \<Rightarrow> command \<Rightarrow> bool \<Rightarrow> bool rcomp" where
  "cmd_breakpoint H S cmd redo =
     bnd (operand_token H redo) (\<lambda>t.
     seq (flush_unless redo H S)
    (seq (breakpoint_address redo t)
    (bnd (gets bkpt_addr) (\<lambda>a.
     seq (on_machine (if cmd = SET_BKPT_CMD then add_breakpoint H a else delete_breakpoint H a)) (finish_as cmd)))))"

definition cmd_list :: "host \<Rightarrow> session \<Rightarrow> bool \<Rightarrow> bool rcomp" where
  "cmd_list H S redo =
     seq (flush_unless redo H S) (seq (on_machine (modify list_breakpoints)) (finish_as LIST_BKPT_CMD))"

text \<open>The encodings of the text from \<open>a\<close> to \<open>b\<close>; no instruction encodes to 0.\<close>

fun dump_words :: "nat \<Rightarrow> mem_addr \<Rightarrow> mem_addr \<Rightarrow> 32 word list mcomp" where
  "dump_words 0 a b = throw Out_Of_Fuel"
| "dump_words (Suc n) a b =
     (if a < b
      then bnd (mem_read_inst a) (\<lambda>p.
           bnd (if p = None then ret 0 else bnd (deref_inst p) encode_inst) (\<lambda>w.
           bnd (dump_words n (a + BYTES_PER_WORD) b) (\<lambda>ws. ret (w # ws))))
      else ret [])"

text \<open>The file, whether its words are in network byte order, and the words.\<close>

definition cmd_dump :: "host \<Rightarrow> session \<Rightarrow> command \<Rightarrow> bool \<Rightarrow> bool rcomp" where
  "cmd_dump H S cmd redo =
     bnd (operand_token H redo) (\<lambda>t.
     if t \<noteq> TOK_STR \<and> t \<noteq> TOK_NL then seq (say ''usage: %s [ filename ]'' []) (ret False)
     else bnd (if t = TOK_STR then scanned_str else ret ''spim.dump'') (\<lambda>name.
       if \<not> can_write S name then seq (say_text ''%s'' name) (ret False)
       else bnd (on_machine (seq (modify (user_kernel_text_segment False))
              (bnd (find_symbol_address ''__eoth'') (\<lambda>a. bnd (gets current_text_pc) (\<lambda>b.
                 bnd (dump_words (fuel S) a b) (\<lambda>ws. ret (a, ws))))))) (\<lambda>(a, ws).
            seq (modify (\<lambda>r. r\<lparr>dumped := dumped r @ [(name, cmd = DUMP_TEXT_CMD, ws)]\<rparr>))
           (seq (say ''Dumped %d words starting at 0x%08x to file %s'' [of_nat (length ws), a]) (finish_as cmd)))))"

definition cmd_disasm :: "host \<Rightarrow> session \<Rightarrow> bool \<Rightarrow> bool rcomp" where
  "cmd_disasm H S redo =
     seq (on_machine (print_text_listing H (fuel S))) (seq (flush_unless redo H S) (finish_as NOP_CMD))"

definition cmd_unknown :: "host \<Rightarrow> session \<Rightarrow> bool rcomp" where
  "cmd_unknown H S = seq (flush_to_newline H (fuel S)) (seq (say ''Unknown spim command'' []) (ret False))"

subsection \<open>Dispatch\<close>

definition execute :: "host \<Rightarrow> session \<Rightarrow> bool \<Rightarrow> command \<Rightarrow> bool rcomp" where
  "execute H S redo cmd =
     (case cmd of
        EXIT_CMD \<Rightarrow> cmd_exit
      | READ_CMD \<Rightarrow> cmd_read H S redo
      | RUN_CMD \<Rightarrow> cmd_run H S redo
      | CONTINUE_CMD \<Rightarrow> cmd_continue H S
      | STEP_CMD \<Rightarrow> cmd_step H S redo
      | PRINT_CMD \<Rightarrow> cmd_print H S redo
      | PRINT_SYM_CMD \<Rightarrow> cmd_print_symbols H S redo
      | PRINT_ALL_REGS_CMD \<Rightarrow> cmd_print_all_regs H S redo
      | REINITIALIZE_CMD \<Rightarrow> cmd_reinitialize H S
      | ASM_CMD \<Rightarrow> cmd_asm H S
      | REDO_CMD \<Rightarrow> ret True
      | NOP_CMD \<Rightarrow> finish_as NOP_CMD
      | ARGS_CMD \<Rightarrow> cmd_args H S
      | HELP_CMD \<Rightarrow> cmd_help H S redo
      | SET_BKPT_CMD \<Rightarrow> cmd_breakpoint H S cmd redo
      | DELETE_BKPT_CMD \<Rightarrow> cmd_breakpoint H S cmd redo
      | LIST_BKPT_CMD \<Rightarrow> cmd_list H S redo
      | DUMPNATIVE_TEXT_CMD \<Rightarrow> cmd_dump H S cmd redo
      | DUMP_TEXT_CMD \<Rightarrow> cmd_dump H S cmd redo
      | DISASM_CMD \<Rightarrow> cmd_disasm H S redo
      | UNKNOWN_CMD \<Rightarrow> cmd_unknown H S)"

definition parse_spim_command :: "host \<Rightarrow> session \<Rightarrow> bool \<Rightarrow> bool rcomp" where
  "parse_spim_command H S redo =
     bnd (if redo then gets prev_cmd else read_assembly_command H) (execute H S redo)"

text \<open>
  One turn of \<^verbatim>\<open>top_level\<close>: a line that is read (it is pushed and popped), and the repetition of
  the last command when the line asks for it. \<^verbatim>\<open>run_error\<close> comes back to the loop, which pops the line if
  it is still pushed and forgets the repetition.
\<close>

definition recovered :: "(repl \<Rightarrow> repl) \<Rightarrow> bool rcomp \<Rightarrow> bool rcomp" where
  "recovered unwind m r =
     (case m r of Inl (Run_Error msg, r') \<Rightarrow> Inr (False, unwind (console_to_spim r')) | x \<Rightarrow> x)"

definition pop_line :: "repl \<Rightarrow> repl" where
  "pop_line r = r\<lparr>pst := scanner_pop_source (pst r)\<rparr>"

definition read_eval :: "host \<Rightarrow> session \<Rightarrow> string \<Rightarrow> unit rcomp" where
  "read_eval H S line =
     bnd (recovered pop_line (seq (on_pst (scanner_push_source (line @ [NL])))
            (bnd (parse_spim_command H S False) (\<lambda>redo. seq (modify pop_line) (ret redo))))) (\<lambda>redo.
       if redo then bnd (recovered id (parse_spim_command H S True)) (\<lambda>_. ret ()) else ret ())"

text \<open>The loop over the lines the user types; the end of input leaves the simulator.\<close>

fun top_level :: "host \<Rightarrow> session \<Rightarrow> string list \<Rightarrow> unit rcomp" where
  "top_level H S [] = seq (say [] []) (seq (modify console_to_spim) (throw Exit_Spim))"
| "top_level H S (line # lines) = seq (read_eval H S line) (top_level H S lines)"

end
