(* ===== verification/CommandLine.thy ===== *)
theory CommandLine
  imports Repl
begin

text \<open>
  The program \<^verbatim>\<open>spim\<close> itself (\<^verbatim>\<open>main\<close> of \<^verbatim>\<open>spim.c\<close>): the options and their order, the loading of files
  while the options are read, and what is done then: the command loop, a dump, an assembled file,
  or a run, with the exit status. A written file is its name and its text. The listing is a flag here.
\<close>

subsection \<open>State\<close>

text \<open>
  \<open>settings\<close> holds the sizes of the segments and the exception handler the options choose;
  \<open>last_file\<close> is the command line from the last loaded \<^verbatim>\<open>-file\<close> on.
\<close>

record cli =
  session_repl :: repl
  settings :: session
  load_exception_handler :: bool
  assemble :: bool
  dump_user_segments :: bool
  dump_all_segments :: bool
  listing :: "string option"
  world_initialized :: bool
  assembly_file_attempted :: bool
  assembly_file_loaded :: bool
  last_file :: "string list"
  print_usage_msg :: bool
  written :: "(string \<times> string) list"

type_synonym 'a ccomp = "(cli, 'a) comp"

definition on_repl :: "'a rcomp \<Rightarrow> 'a ccomp" where
  "on_repl m c =
     (case m (session_repl c) of
        Inl (e, r) \<Rightarrow> Inl (e, c\<lparr>session_repl := r\<rparr>)
      | Inr (x, r) \<Rightarrow> Inr (x, c\<lparr>session_repl := r\<rparr>))"

definition on_parser :: "'a pcomp \<Rightarrow> 'a ccomp" where
  "on_parser m = on_repl (on_pst m)"

definition on_state :: "'a mcomp \<Rightarrow> 'a ccomp" where
  "on_state m = on_repl (on_machine m)"

definition upd_state :: "(machine \<Rightarrow> machine) \<Rightarrow> cli \<Rightarrow> cli" where
  "upd_state f c = c\<lparr>session_repl := (session_repl c)\<lparr>pst := upd_mach f (pst (session_repl c))\<rparr>\<rparr>"

definition set_level :: "nat \<Rightarrow> cli \<Rightarrow> cli" where
  "set_level n = upd_state (\<lambda>s. s\<lparr>explain := (explain s)\<lparr>explain_level := n\<rparr>\<rparr>)"

definition cli_state :: "cli \<Rightarrow> machine" where
  "cli_state c = mach (pst (session_repl c))"

definition complain :: "string \<Rightarrow> string \<Rightarrow> cli \<Rightarrow> cli" where
  "complain fmt t c =
     (upd_state (\<lambda>s. s\<lparr>console_out := console_out s @ [Con_Text fmt t]\<rparr>) c)\<lparr>print_usage_msg := True\<rparr>"

subsection \<open>Options without operand\<close>

text \<open>The flags, by their two spellings.\<close>

definition flag_options :: "(string \<times> string \<times> (cli \<Rightarrow> cli)) list" where
  "flag_options =
     [(''-asm'', ''-a'', upd_state (\<lambda>s. s\<lparr>bare_machine := False, delayed_branches := False, delayed_loads := False\<rparr>)),
      (''-bare'', ''-b'', upd_state (\<lambda>s. s\<lparr>bare_machine := True, delayed_branches := True, delayed_loads := True, quiet := True\<rparr>)),
      (''-delayed_branches'', ''-db'', upd_state (\<lambda>s. s\<lparr>delayed_branches := True\<rparr>)),
      (''-delayed_loads'', ''-dl'', upd_state (\<lambda>s. s\<lparr>delayed_loads := True\<rparr>)),
      (''-exception'', ''-e'', \<lambda>c. c\<lparr>load_exception_handler := True\<rparr>),
      (''-noexception'', ''-ne'', \<lambda>c. c\<lparr>load_exception_handler := False\<rparr>),
      (''-mapped_io'', ''-mio'', upd_state (\<lambda>s. s\<lparr>mapped_io := True\<rparr>)),
      (''-nomapped_io'', ''-nmio'', upd_state (\<lambda>s. s\<lparr>mapped_io := False\<rparr>)),
      (''-pseudo'', ''-p'', upd_state (\<lambda>s. s\<lparr>accept_pseudo_insts := True\<rparr>)),
      (''-nopseudo'', ''-np'', upd_state (\<lambda>s. s\<lparr>accept_pseudo_insts := False\<rparr>)),
      (''-quiet'', ''-q'', upd_state (\<lambda>s. s\<lparr>quiet := True\<rparr>)),
      (''-noquiet'', ''-nq'', upd_state (\<lambda>s. s\<lparr>quiet := False\<rparr>)),
      (''-noexplain'', ''-nx'', set_level 0),
      (''-trap'', ''-t'', \<lambda>c. c\<lparr>load_exception_handler := True\<rparr>),
      (''-notrap'', ''-nt'', \<lambda>c. c\<lparr>load_exception_handler := False\<rparr>)]"

definition set_dump :: "(pstate \<Rightarrow> pstate) \<Rightarrow> cli \<Rightarrow> cli" where
  "set_dump f c = c\<lparr>session_repl := (session_repl c)\<lparr>pst := (f (pst (session_repl c)))\<lparr>print_ast_only := True\<rparr>\<rparr>\<rparr>"

text \<open>The flags that are tested after the file names, with one spelling.\<close>

definition mode_options :: "(string \<times> (cli \<Rightarrow> cli)) list" where
  "mode_options =
     [(''-assemble'', \<lambda>c. c\<lparr>assemble := True\<rparr>),
      (''-print-ast'', set_dump (\<lambda>p. p\<lparr>print_ast := True\<rparr>)),
      (''-show-expansion'', set_dump (\<lambda>p. p\<lparr>show_expansion := True\<rparr>)),
      (''-print-ast-json'', set_dump (\<lambda>p. p\<lparr>print_ast_json := True\<rparr>)),
      (''-dump'', \<lambda>c. c\<lparr>dump_user_segments := True\<rparr>),
      (''-full_dump'', \<lambda>c. c\<lparr>dump_all_segments := True\<rparr>)]"

subsection \<open>Options with an operand\<close>

text \<open>\<^verbatim>\<open>atoi\<close>: white space, a sign, digits.\<close>

definition is_c_space :: "char \<Rightarrow> bool" where
  "is_c_space c \<longleftrightarrow> c = CHR '' '' \<or> in_range CHR 0x09 CHR 0x0D c"

definition signed_atoi :: "string \<Rightarrow> int" where
  "signed_atoi str =
     (let t = dropWhile is_c_space str
      in if t \<noteq> [] \<and> hd t = CHR ''-'' then - atoi (tl t) else if t \<noteq> [] \<and> hd t = CHR ''+'' then atoi (tl t) else atoi t)"

definition set_segment :: "(32 word \<Rightarrow> segment_sizes \<Rightarrow> segment_sizes) \<Rightarrow> string \<Rightarrow> cli \<Rightarrow> cli" where
  "set_segment f v c =
     c\<lparr>settings := (settings c)\<lparr>sizes := f (word_of_int (signed_atoi v)) (sizes (settings c))\<rparr>\<rparr>"

definition size_options :: "(string \<times> string \<times> (string \<Rightarrow> cli \<Rightarrow> cli)) list" where
  "size_options =
     [(''-stext'', ''-st'', set_segment (\<lambda>w z. z\<lparr>initial_text_size := w\<rparr>)),
      (''-sdata'', ''-sd'', set_segment (\<lambda>w z. z\<lparr>initial_data_size := w\<rparr>)),
      (''-ldata'', ''-ld'', set_segment (\<lambda>w z. z\<lparr>initial_data_limit := w\<rparr>)),
      (''-sstack'', ''-ss'', set_segment (\<lambda>w z. z\<lparr>initial_stack_size := w\<rparr>)),
      (''-lstack'', ''-ls'', set_segment (\<lambda>w z. z\<lparr>initial_stack_limit := w\<rparr>)),
      (''-sktext'', ''-skt'', set_segment (\<lambda>w z. z\<lparr>initial_k_text_size := w\<rparr>)),
      (''-skdata'', ''-skd'', set_segment (\<lambda>w z. z\<lparr>initial_k_data_size := w\<rparr>)),
      (''-lkdata'', ''-lkd'', set_segment (\<lambda>w z. z\<lparr>initial_k_data_limit := w\<rparr>))]"

definition find_option :: "(string \<times> string \<times> 'a) list \<Rightarrow> string \<Rightarrow> 'a option" where
  "find_option opts a = map_option (\<lambda>(_, _, f). f) (find (\<lambda>(long, short, _). a = long \<or> a = short) opts)"

definition starts_with :: "string \<Rightarrow> string \<Rightarrow> bool" where
  "starts_with p a \<longleftrightarrow> take (length p) a = p"

definition is_level :: "string \<Rightarrow> bool" where
  "is_level v \<longleftrightarrow> length v = 1 \<and> in_range CHR ''0'' CHR ''4'' (hd v)"

definition explain_equals :: "string \<Rightarrow> cli \<Rightarrow> cli" where
  "explain_equals a c =
     (let v = tl (dropWhile (\<lambda>x. x \<noteq> CHR ''='') a)
      in if is_level v then set_level (digit_value (hd v)) c
         else complain ''spimulator: %s requires a level in 0..4'' a c)"

text \<open>
  The options that take the next argument if it suits them: what is left of the arguments, and the
  new state. \<^verbatim>\<open>argv[++i]\<close> after the last argument is null: no exception file, and a crash of \<^verbatim>\<open>atoi\<close>.
\<close>

definition explain_option :: "string list \<Rightarrow> string list ccomp" where
  "explain_option rest =
     (case rest of
        v # rest' \<Rightarrow> if is_level v then seq (modify (set_level (digit_value (hd v)))) (ret rest')
                     else seq (modify (set_level 3)) (ret rest)
      | [] \<Rightarrow> seq (modify (set_level 3)) (ret rest))"

definition handler_option :: "string list \<Rightarrow> string list ccomp" where
  "handler_option rest =
     seq (modify (\<lambda>c. c\<lparr>settings := (settings c)\<lparr>handler := (case rest of [] \<Rightarrow> No_Handler | f # _ \<Rightarrow> Handler_Files f)\<rparr>,
                        load_exception_handler := True\<rparr>))
       (ret (tl rest))"

definition size_option :: "(string \<Rightarrow> cli \<Rightarrow> cli) \<Rightarrow> string list \<Rightarrow> string list ccomp" where
  "size_option f rest = (case rest of [] \<Rightarrow> throw Crash | v # rest' \<Rightarrow> seq (modify (f v)) (ret rest'))"

definition listing_option :: "string list \<Rightarrow> string list ccomp" where
  "listing_option rest =
     (case rest of
        [] \<Rightarrow> seq (modify (complain ''-listing requires a filename argument'' [])) (ret [])
      | path # rest' \<Rightarrow>
          seq (modify (\<lambda>c. if path = ''-'' \<or> can_write (settings c) path then c\<lparr>listing := Some path\<rparr>
                           else complain ''Cannot open listing file'' path c))
            (ret rest'))"

subsection \<open>Files\<close>

text \<open>\<^verbatim>\<open>load_exception_handler ? exception_file_name : nullptr\<close>.\<close>

definition chosen_settings :: "cli \<Rightarrow> session" where
  "chosen_settings c = (if load_exception_handler c then settings c else (settings c)\<lparr>handler := No_Handler\<rparr>)"

definition start_world :: "host \<Rightarrow> unit ccomp" where
  "start_world H =
     bnd (gets (\<lambda>c. (chosen_settings c, quiet (cli_state c)))) (\<lambda>(S, q).
       on_parser (initialize_world H (outer S) (fuel S) (sizes S) (handler S) (\<not> q)))"

text \<open>Whether the file was read.\<close>

definition load_file :: "host \<Rightarrow> string \<Rightarrow> bool ccomp" where
  "load_file H name =
     bnd (gets world_initialized) (\<lambda>i.
     seq (whn (\<not> i) (start_world H))
    (seq (modify (\<lambda>c. c\<lparr>world_initialized := True, assembly_file_attempted := True\<rparr>))
    (bnd (gets settings) (\<lambda>S. on_parser (read_assembly_file H (outer S) (fuel S) name)))))"

definition note_file :: "string list \<Rightarrow> cli \<Rightarrow> cli" where
  "note_file from c = c\<lparr>assembly_file_loaded := True, last_file := from\<rparr>"

definition set_program_args :: "string list \<Rightarrow> cli \<Rightarrow> cli" where
  "set_program_args args c = c\<lparr>session_repl := (session_repl c)\<lparr>program_argv := map bytes_of args\<rparr>\<rparr>"

text \<open>A file that cannot be read ends the loop over the arguments.\<close>

definition explicit_file :: "host \<Rightarrow> string list \<Rightarrow> string list ccomp" where
  "explicit_file H from =
     bnd (load_file H (hd from)) (\<lambda>ok.
       if ok then seq (modify (note_file from)) (ret (tl from)) else ret [])"

definition positional_file :: "host \<Rightarrow> string list \<Rightarrow> string list ccomp" where
  "positional_file H from =
     bnd (gets assembly_file_loaded) (\<lambda>loaded.
       if loaded then ret []
       else bnd (load_file H (hd from)) (\<lambda>ok.
              seq (whn ok (modify (\<lambda>c. set_program_args from (note_file from c)))) (ret [])))"

text \<open>One argument: what is left of the command line after it.\<close>

definition parse_argument :: "host \<Rightarrow> string \<Rightarrow> string list \<Rightarrow> string list ccomp" where
  "parse_argument H a rest =
     (case find_option flag_options a of
        Some f \<Rightarrow> seq (modify f) (ret rest)
      | None \<Rightarrow>
        if a \<in> {''-exception_file'', ''-ef'', ''-trap_file'', ''-tf''} then handler_option rest
        else if starts_with ''-explain='' a \<or> starts_with ''-x='' a then seq (modify (explain_equals a)) (ret rest)
        else if a = ''-explain'' \<or> a = ''-x'' then explain_option rest
        else case find_option size_options a of
          Some f \<Rightarrow> size_option f rest
        | None \<Rightarrow>
          if (a = ''-file'' \<or> a = ''-f'') \<and> rest \<noteq> [] then explicit_file H rest
          else if char_at a 0 \<noteq> CHR ''-'' then positional_file H (a # rest)
          else case map_of mode_options a of
            Some f \<Rightarrow> seq (modify f) (ret rest)
          | None \<Rightarrow> if a = ''-listing'' then listing_option rest
                    else seq (modify (complain ''Unknown argument: %s (ignored)'' a)) (ret rest))"

text \<open>The loop over the arguments; the fuel is their number.\<close>

fun parse_arguments :: "host \<Rightarrow> nat \<Rightarrow> string list \<Rightarrow> unit ccomp" where
  "parse_arguments H n [] = ret ()"
| "parse_arguments H 0 (a # rest) = throw Out_Of_Fuel"
| "parse_arguments H (Suc n) (a # rest) = bnd (parse_argument H a rest) (parse_arguments H n)"

subsection \<open>Files that are written\<close>

fun data_words :: "host \<Rightarrow> nat \<Rightarrow> mem_addr \<Rightarrow> mem_addr \<Rightarrow> 32 word list mcomp" where
  "data_words H 0 a b = throw Out_Of_Fuel"
| "data_words H (Suc n) a b =
     (if a < b
      then bnd (mem_read_word H a) (\<lambda>w. bnd (data_words H n (a + BYTES_PER_WORD) b) (\<lambda>ws. ret (w # ws)))
      else ret [])"

definition fmt_x :: "32 word \<Rightarrow> string" where
  "fmt_x w = ''0x'' @ hexadecimal (unat w)"

text \<open>The words from \<open>a\<close> on, with a comma after each but the one at \<open>b - 4\<close>.\<close>

fun word_list_text :: "mem_addr \<Rightarrow> mem_addr \<Rightarrow> 32 word list \<Rightarrow> string" where
  "word_list_text a b [] = []"
| "word_list_text a b (w # ws) =
     fmt_x w @ (if a \<noteq> b - BYTES_PER_WORD then '', '' else []) @ word_list_text (a + BYTES_PER_WORD) b ws"

definition section_text :: "string \<Rightarrow> mem_addr \<Rightarrow> mem_addr \<Rightarrow> 32 word list \<Rightarrow> string" where
  "section_text name a b ws =
     name @ '' # '' @ fmt_x a @ '' .. '' @ fmt_x b @ [NL] @ ''.word '' @ word_list_text a b ws @ [NL]"

definition assembled_text :: "nat \<Rightarrow> string mcomp" where
  "assembled_text n =
     seq (modify (user_kernel_text_segment False))
    (bnd (find_symbol_address ''__eoth'') (\<lambda>a. bnd (gets current_text_pc) (\<lambda>b.
     bnd (dump_words n a b) (\<lambda>ws. ret (section_text ''.text'' a b ws)))))"

definition assembled_data :: "host \<Rightarrow> nat \<Rightarrow> string mcomp" where
  "assembled_data H n =
     seq (modify (user_kernel_data_segment False))
    (bnd (gets (\<lambda>s. if bare_machine s then 0 else DATA_BOT)) (\<lambda>a. bnd (gets current_data_pc) (\<lambda>b.
     bnd (data_words H n a b) (\<lambda>ws. ret (if a < b then section_text ''.data'' a b ws else [])))))"

text \<open>True is failure, and the exit status 1.\<close>

definition write_file :: "string \<Rightarrow> string \<Rightarrow> unit ccomp" where
  "write_file name t = modify (\<lambda>c. c\<lparr>written := written c @ [(name, t)]\<rparr>)"

definition write_assembled_code :: "host \<Rightarrow> string \<Rightarrow> bool ccomp" where
  "write_assembled_code H program_name =
     bnd (gets (\<lambda>c. (parse_error_occurred (cli_state c), settings c))) (\<lambda>(err, S).
       if err then ret True
       else if \<not> can_write S (program_name @ ''.out'') then ret True
       else bnd (on_state (assembled_text (fuel S))) (\<lambda>t.
            bnd (on_state (assembled_data H (fuel S))) (\<lambda>d.
            seq (write_file (program_name @ ''.out'') (t @ d)) (ret False))))"

text \<open>A file that cannot be opened is written to all the same.\<close>

definition dump_file :: "string \<Rightarrow> (nat \<Rightarrow> string mcomp) \<Rightarrow> unit ccomp" where
  "dump_file name text_of =
     bnd (gets settings) (\<lambda>S. bnd (on_state (text_of (fuel S))) (\<lambda>t.
       if can_write S name then write_file name t else throw Crash))"

definition dump_data_seg :: "host \<Rightarrow> bool \<Rightarrow> unit ccomp" where
  "dump_data_seg H kernel_also =
     dump_file ''data.asm'' (\<lambda>n.
       if kernel_also then format_data_segs H n
       else bnd (gets data_top) (\<lambda>top. bnd (format_mem H n DATA_BOT top) (\<lambda>t. ret (TAB # ''DATA'' @ [NL] @ t))))"

definition dump_text_seg :: "host \<Rightarrow> bool \<Rightarrow> unit ccomp" where
  "dump_text_seg H kernel_also =
     dump_file ''text.asm'' (\<lambda>n.
       bnd (gets (\<lambda>s. (text_top s, k_text_top s))) (\<lambda>(top, ktop).
       bnd (format_insts H n TEXT_BOT top) (\<lambda>t.
       if kernel_also
       then bnd (format_insts H n K_TEXT_BOT ktop) (\<lambda>k. ret (t @ [NL, TAB] @ ''KERNEL'' @ [NL] @ k))
       else ret ([NL, TAB] @ ''USER TEXT SEGMENT'' @ [NL] @ t))))"

subsection \<open>What the program does\<close>

definition status_or :: "32 word \<Rightarrow> 32 word ccomp" where
  "status_or n = gets (\<lambda>c. let v = spim_return_value (cli_state c) in if v \<noteq> 0 then v else n)"

text \<open>The run: \<^verbatim>\<open>run_error\<close> comes back here. The result is a status when symbols are undefined.\<close>

definition try_run :: "host \<Rightarrow> session \<Rightarrow> 32 word option rcomp" where
  "try_run H S =
     bnd (on_machine undefined_symbol_string) (\<lambda>u. case u of
       Some names \<Rightarrow> seq (say_text ''The following symbols are undefined: %s'' names)
         (bnd (gets (\<lambda>r. spim_return_value (mach (pst r)))) (\<lambda>v. ret (Some (if v \<noteq> 0 then v else 1))))
     | None \<Rightarrow> bnd (on_machine starting_address) (\<lambda>a.
         bnd (on_machine (run_program H (fuel S) a DEFAULT_RUN_STEPS False False)) (\<lambda>_. ret None)))"

definition run_or_recover :: "host \<Rightarrow> session \<Rightarrow> 32 word option rcomp" where
  "run_or_recover H S r = (case try_run H S r of Inl (Run_Error msg, r') \<Rightarrow> Inr (None, console_to_spim r') | x \<Rightarrow> x)"

definition exit_status :: "machine \<Rightarrow> machine" where
  "exit_status s =
     (if first_bad_exception s \<noteq> -1 \<and> spim_return_value s = 0
      then s\<lparr>spim_return_value := word_of_int (128 + first_bad_exception s)\<rparr> else s)"

definition run_batch :: "host \<Rightarrow> 32 word ccomp" where
  "run_batch H =
     bnd (gets settings) (\<lambda>S.
     seq (on_repl (modify console_to_program))
    (bnd (gets (\<lambda>c. program_argv (session_repl c))) (\<lambda>argv.
     seq (on_state (initialize_run_stack H (outer S) argv))
    (bnd (on_repl (run_or_recover H S)) (\<lambda>undef.
     seq (on_repl (modify console_to_spim))
       (case undef of
          Some v \<Rightarrow> ret v
        | None \<Rightarrow> seq (modify (upd_state exit_status)) (status_or 0)))))))"

definition interactive :: "host \<Rightarrow> string list \<Rightarrow> 32 word ccomp" where
  "interactive H lines =
     seq (start_world H)
    (bnd (gets chosen_settings) (\<lambda>S.
     bnd (gets (\<lambda>c. program_argv (session_repl c))) (\<lambda>argv.
     seq (on_state (initialize_run_stack H (outer S) argv))
    (seq (on_parser (modify (\<lambda>p. (scanner_init (stdin_text (outer S)) p)\<lparr>input_file_name := Some ''<standard input>''\<rparr>)))
    (seq (on_repl (top_level H S lines)) (ret 0))))))"

text \<open>The usage message, its lines without their indentation.\<close>

definition usage_text :: "string list" where
  "usage_text =
     [''Usage: spim'',
      ''-bare Bare machine (no pseudo-ops, delayed branches and loads)'',
      ''-asm Extended machine (pseudo-ops, no delayed branches and loads) (default)'',
      ''-delayed_branches Execute delayed branches'',
      ''-delayed_loads Execute delayed loads'',
      ''-exception Load exception handler (default)'',
      ''-noexception Do not load exception handler'',
      ''-exception_file <file> Specify exception handler in place of default'',
      ''-quiet Do not print warnings'',
      ''-noquiet Print warnings (default)'',
      ''-explain [N] Narrate every instruction (teaching mode).'',
      ''Level N selects detail: 1 = semantic, 2 = + interactive,'',
      ''3 = + bit-layout (default when N omitted; historical behavior),'',
      ''4 = + progressive decoder walkthrough.'',
      ''Also accepts -explain=N. Short form: -x.'',
      ''-noexplain Disable teaching mode (default)'',
      ''-mapped_io Enable memory-mapped IO'',
      ''-nomapped_io Do not enable memory-mapped IO (default)'',
      ''-file <file> [-file <file> ...] <args>'',
      ''Assembly code file(s) and arguments to program.'',
      ''Multiple -file (or -f) options accumulate into one'',
      ''symbol table; forward references resolve across files.'',
      ''-assemble Write assembled code to <file>.out'',
      ''-listing <file> Write assemble-time event trace to <file> (use - for stderr)'',
      ''-print-ast Parse to AST, print it to stderr, and exit without emitting any code'',
      ''-print-ast-json Parse to AST, dump JSON to stdout (for tooling), and exit'',
      ''-show-expansion Parse to AST, print just the pseudo-op wrappers + their expansion, and exit'',
      ''-dump Write user data and text segments into files'',
      ''-full_dump Write user and kernel data and text into files.'']"

text \<open>What \<^verbatim>\<open>main\<close> does with the files it has loaded.\<close>

definition finish_loaded :: "host \<Rightarrow> 32 word ccomp" where
  "finish_loaded H =
     bnd (gets (\<lambda>c. c)) (\<lambda>c.
       if 0 < parse_errors_seen (cli_state c) then status_or 2
       else if print_ast_only (pst (session_repl c)) then ret 0
       else if assemble c
       then (case program_argv (session_repl c) of
               [] \<Rightarrow> throw Crash
             | a # _ \<Rightarrow> bnd (write_assembled_code H (map (\<lambda>b. char_of (unat b)) a)) (\<lambda>b. ret (if b then 1 else 0)))
       else if dump_user_segments c then seq (dump_data_seg H False) (seq (dump_text_seg H False) (status_or 0))
       else if dump_all_segments c then seq (dump_data_seg H True) (seq (dump_text_seg H True) (status_or 0))
       else run_batch H)"

text \<open>The value of \<^verbatim>\<open>main\<close> on the arguments after the program's name, with the lines that the user types.\<close>

definition main :: "host \<Rightarrow> string list \<Rightarrow> string list \<Rightarrow> 32 word ccomp" where
  "main H args lines =
     seq (parse_arguments H (length args) args)
    (seq (modify (\<lambda>c. if assembly_file_loaded c \<and> program_argv (session_repl c) = []
                      then set_program_args (last_file c) c else c))
    (bnd (gets (\<lambda>c. (print_usage_msg c, assembly_file_loaded c, assembly_file_attempted c))) (\<lambda>(usage, loaded, attempted).
     seq (whn usage (on_state (modify (\<lambda>s. s\<lparr>console_out := console_out s @ map (\<lambda>t. Con_Message t []) usage_text\<rparr>))))
       (if loaded then finish_loaded H else if attempted then status_or 2 else interactive H lines))))"

text \<open>The state in which \<^verbatim>\<open>main\<close> begins, over a parser state; \<open>env\<close> is \<^verbatim>\<open>SPIM_EXCEPTION_HANDLER\<close>.\<close>

definition begin_repl :: "pstate \<Rightarrow> repl" where
  "begin_repl p = \<lparr>pst = p, program_argv = [], prev_cmd = NOP_CMD, prev_token = 0, run_addr = 0, step_count = 0, print_loc = 0,
     bkpt_addr = 0, console_state_saved = False, dumped = []\<rparr>"

definition begin_main :: "session \<Rightarrow> string option \<Rightarrow> pstate \<Rightarrow> cli" where
  "begin_main S env p =
     \<lparr>session_repl = begin_repl (upd_mach (\<lambda>s. s\<lparr>first_bad_exception := -1, bare_machine := False, delayed_branches := False,
         delayed_loads := False, mapped_io := False, quiet := False, spim_return_value := 0,
         accept_pseudo_insts := True, explain := silent\<rparr>) (p\<lparr>print_ast := False, show_expansion := False, print_ast_json := False, print_ast_only := False\<rparr>)),
      settings = S\<lparr>sizes := default_sizes,
                    handler := (case env of None \<Rightarrow> Default_Handler | Some f \<Rightarrow> Handler_Files f)\<rparr>,
      load_exception_handler = True, assemble = False, dump_user_segments = False,
      dump_all_segments = False, listing = None,
      world_initialized = False, assembly_file_attempted = False, assembly_file_loaded = False, last_file = [],
      print_usage_msg = False, written = []\<rparr>"

end
