(* ===== verification/AstPrintProps.thy ===== *)
theory AstPrintProps
  imports AstPrint ScannerProps MemoryProps
begin

text \<open>
  The JSON dump of a syntax tree is a JSON document, from which a reader recovers the tree: the
  values of JSON with their written form and a reader of it, what the dump of a node says as a value,
  and that the text of the dump is that value's.
\<close>

subsection \<open>JSON\<close>

datatype json =
    J_Null
  | J_Bool bool
  | J_Num string
  | J_Str string
  | J_Arr "json list"
  | J_Obj "(string \<times> json) list"

fun json_text :: "json \<Rightarrow> string" where
  "json_text J_Null = ''null''"
| "json_text (J_Bool b) = json_bool b"
| "json_text (J_Num t) = t"
| "json_text (J_Str t) = json_escape_string t"
| "json_text (J_Arr js) = json_list (map json_text js)"
| "json_text (J_Obj ms) = ''{'' @ joined '','' (map (\<lambda>(k, j). json_escape_string k @ '':'' @ json_text j) ms) @ ''}''"

text \<open>The numbers of JSON: an optional minus, digits without leading zeros, a fraction, an exponent.\<close>

definition number_char :: "char \<Rightarrow> bool" where
  "number_char c \<longleftrightarrow> isdigit c \<or> c \<in> {CHR ''-'', CHR ''+'', CHR ''.'', CHR ''e'', CHR ''E''}"

definition all_digits :: "string \<Rightarrow> bool" where
  "all_digits t \<longleftrightarrow> t \<noteq> [] \<and> (\<forall>c \<in> set t. isdigit c)"

definition is_exponent :: "string \<Rightarrow> bool" where
  "is_exponent t \<longleftrightarrow> t = [] \<or> hd t \<in> {CHR ''e'', CHR ''E''} \<and>
     all_digits (if tl t \<noteq> [] \<and> hd (tl t) \<in> {CHR ''+'', CHR ''-''} then tl (tl t) else tl t)"

definition is_fraction :: "string \<Rightarrow> bool" where
  "is_fraction t \<longleftrightarrow> is_exponent t \<or>
     (hd t = CHR ''.'' \<and> takeWhile isdigit (tl t) \<noteq> [] \<and> is_exponent (dropWhile isdigit (tl t)))"

definition json_number :: "string \<Rightarrow> bool" where
  "json_number t \<longleftrightarrow>
     (let u = (if t \<noteq> [] \<and> hd t = CHR ''-'' then tl t else t); i = takeWhile isdigit u
      in i \<noteq> [] \<and> (hd i = CHR ''0'' \<longrightarrow> length i = 1) \<and> is_fraction (dropWhile isdigit u))"

text \<open>The values that have a written form.\<close>

fun json_ok :: "json \<Rightarrow> bool" where
  "json_ok (J_Num t) \<longleftrightarrow> json_number t \<and> (\<forall>c \<in> set t. number_char c)"
| "json_ok (J_Arr js) \<longleftrightarrow> (\<forall>j \<in> set js. json_ok j)"
| "json_ok (J_Obj ms) \<longleftrightarrow> (\<forall>(k, j) \<in> set ms. json_ok j)"
| "json_ok j \<longleftrightarrow> True"

subsection \<open>A reader\<close>

definition json_escape :: "char \<Rightarrow> char option" where
  "json_escape c = map_of [(QUOTE, QUOTE), (BSLASH, BSLASH), (CHR ''/'', CHR ''/''), (CHR ''n'', NL),
     (CHR ''r'', CHR 0x0D), (CHR ''t'', TAB), (CHR ''b'', CHR 0x08), (CHR ''f'', CHR 0x0C)] c"

definition hex4 :: "string \<Rightarrow> nat" where
  "hex4 t = unat (fold (\<lambda>c v. 16 * v + xdigit_value c) (take 4 t) 0)"

text \<open>The characters of a string up to its closing quote; only code units below 256 are characters here.\<close>

fun read_string :: "nat \<Rightarrow> string \<Rightarrow> (string \<times> string) option" where
  "read_string 0 t = None"
| "read_string (Suc n) t =
     (case t of
        [] \<Rightarrow> None
      | c # cs \<Rightarrow>
          if c = QUOTE then Some ([], cs)
          else if (of_char c :: nat) < 0x20 then None
          else if c \<noteq> BSLASH then map_option (apfst ((#) c)) (read_string n cs)
          else (case cs of
              [] \<Rightarrow> None
            | d # ds \<Rightarrow>
                if d = CHR ''u''
                then if 4 \<le> length ds \<and> (\<forall>x \<in> set (take 4 ds). isxdigit x) \<and> hex4 ds < 256
                     then map_option (apfst ((#) (char_of (hex4 ds)))) (read_string n (drop 4 ds)) else None
                else (case json_escape d of
                    None \<Rightarrow> None
                  | Some x \<Rightarrow> map_option (apfst ((#) x)) (read_string n ds))))"

definition read_number :: "string \<Rightarrow> (json \<times> string) option" where
  "read_number t =
     (let u = takeWhile number_char t in if json_number u then Some (J_Num u, dropWhile number_char t) else None)"

fun read_json :: "nat \<Rightarrow> string \<Rightarrow> (json \<times> string) option"
  and read_items :: "nat \<Rightarrow> string \<Rightarrow> (json list \<times> string) option"
  and read_members :: "nat \<Rightarrow> string \<Rightarrow> ((string \<times> json) list \<times> string) option" where
  "read_json 0 t = None"
| "read_json (Suc n) t =
     (if take 4 t = ''null'' then Some (J_Null, drop 4 t)
      else if take 4 t = ''true'' then Some (J_Bool True, drop 4 t)
      else if take 5 t = ''false'' then Some (J_Bool False, drop 5 t)
      else case t of
          [] \<Rightarrow> None
        | c # cs \<Rightarrow>
            if c = QUOTE then map_option (apfst J_Str) (read_string n cs)
            else if c = CHR ''['' then
              (if cs \<noteq> [] \<and> hd cs = CHR '']'' then Some (J_Arr [], tl cs) else map_option (apfst J_Arr) (read_items n cs))
            else if c = CHR ''{'' then
              (if cs \<noteq> [] \<and> hd cs = CHR ''}'' then Some (J_Obj [], tl cs) else map_option (apfst J_Obj) (read_members n cs))
            else read_number t)"
| "read_items 0 t = None"
| "read_items (Suc n) t =
     (case read_json n t of
        None \<Rightarrow> None
      | Some (j, u) \<Rightarrow>
          if u \<noteq> [] \<and> hd u = CHR '','' then map_option (apfst ((#) j)) (read_items n (tl u))
          else if u \<noteq> [] \<and> hd u = CHR '']'' then Some ([j], tl u) else None)"
| "read_members 0 t = None"
| "read_members (Suc n) t =
     (if t = [] \<or> hd t \<noteq> QUOTE then None
      else case read_string n (tl t) of
        None \<Rightarrow> None
      | Some (k, v) \<Rightarrow>
          if v = [] \<or> hd v \<noteq> CHR '':'' then None
          else case read_json n (tl v) of
            None \<Rightarrow> None
          | Some (j, u) \<Rightarrow>
              if u \<noteq> [] \<and> hd u = CHR '','' then map_option (apfst ((#) (k, j))) (read_members n (tl u))
              else if u \<noteq> [] \<and> hd u = CHR ''}'' then Some ([(k, j)], tl u) else None)"

text \<open>What may follow a value.\<close>

definition value_ends :: "string \<Rightarrow> bool" where
  "value_ends t \<longleftrightarrow> t = [] \<or> hd t \<in> {CHR '','', CHR '']'', CHR ''}'', NL}"

subsection \<open>Reading what is written\<close>

lemma pad_left_4: "pad_left 4 c [a] = [c, c, c, a]" "pad_left 4 c [a, b] = [c, c, a, b]"
  by (simp_all add: pad_left_def numeral_eq_Suc)

lemma hex4_control:
  assumes "n < 32"
  shows "hex4 (pad_left 4 CHR ''0'' (hexadecimal n) @ t) = n" and "length (pad_left 4 CHR ''0'' (hexadecimal n)) = 4"
    and "\<forall>x \<in> set (pad_left 4 CHR ''0'' (hexadecimal n)). isxdigit x"
proof -
  have "\<forall>n < 32. hex4 (pad_left 4 CHR ''0'' (hexadecimal n) @ t) = n \<and> length (pad_left 4 CHR ''0'' (hexadecimal n)) = 4 \<and>
    (\<forall>x \<in> set (pad_left 4 CHR ''0'' (hexadecimal n)). isxdigit x)"
    unfolding all_less_32 all_less_16 all_less_8
    by (simp add: hex4_def pad_left_4 hexadecimal.simps hex_digit_def xdigit_value_def isxdigit_def isdigit_def
        in_range_def char_of_def bit_iff_odd_drop_bit)
  with assms show "hex4 (pad_left 4 CHR ''0'' (hexadecimal n) @ t) = n" "length (pad_left 4 CHR ''0'' (hexadecimal n)) = 4"
    "\<forall>x \<in> set (pad_left 4 CHR ''0'' (hexadecimal n)). isxdigit x" by auto
qed

lemma read_json_char:
  "read_string (Suc n) (json_char c @ t) = map_option (apfst ((#) c)) (read_string n t)"
proof -
  consider "c \<in> {QUOTE, BSLASH, NL, CHR 0x0D, TAB, CHR 0x08, CHR 0x0C}"
    | "c \<notin> {QUOTE, BSLASH, NL, CHR 0x0D, TAB, CHR 0x08, CHR 0x0C}" "(of_char c :: nat) < 32"
    | "c \<notin> {QUOTE, BSLASH, NL, CHR 0x0D, TAB, CHR 0x08, CHR 0x0C}" "\<not> (of_char c :: nat) < 32" by blast
  then show ?thesis
  proof cases
    case 1
    then show ?thesis by (auto simp: json_char_def json_escape_def)
  next
    case 2
    then have "json_char c = [BSLASH, CHR ''u''] @ pad_left 4 CHR ''0'' (hexadecimal (of_char c))"
      by (simp add: json_char_def)
    with 2 hex4_control [OF 2(2)] show ?thesis by simp
  next
    case 3
    then show ?thesis by (simp add: json_char_def)
  qed
qed

lemma read_string_ok:
  "length t < n \<Longrightarrow> read_string n (concat (map json_char t) @ QUOTE # rest) = Some (t, rest)"
proof (induction t arbitrary: n)
  case Nil
  then show ?case by (cases n) simp_all
next
  case (Cons c t)
  then obtain m where "n = Suc m" "length t < m" by (cases n) auto
  with Cons.IH [of m] show ?case by (simp add: read_json_char del: read_string.simps)
qed

lemma joined_Cons: "joined sep (t # ts) = (if ts = [] then t else t @ sep @ joined sep ts)"
  by (cases ts) simp_all

lemma read_number_ok:
  assumes "json_number t" and "\<forall>c \<in> set t. number_char c" and "value_ends rest"
  shows "read_number (t @ rest) = Some (J_Num t, rest)"
proof -
  have "rest = [] \<or> \<not> number_char (hd rest)"
    using assms(3) by (auto simp: value_ends_def number_char_def isdigit_def in_range_def)
  then have "takeWhile number_char rest = []" "dropWhile number_char rest = rest" by (cases rest; simp)+
  with assms(1,2) show ?thesis by (simp add: read_number_def)
qed

lemma number_start:
  assumes "json_number t"
  obtains c u where "t = c # u" and "isdigit c \<or> c = CHR ''-''"
  using assms by (cases t) (auto simp: json_number_def Let_def split: if_splits)

text \<open>A value starts with a character that does not end an array or an object.\<close>

lemma json_text_start:
  assumes "json_ok j"
  shows "json_text j \<noteq> [] \<and> hd (json_text j) \<noteq> CHR '']'' \<and> hd (json_text j) \<noteq> CHR ''}''"
proof (cases j)
  case (J_Num t)
  with assms obtain c u where "t = c # u" "isdigit c \<or> c = CHR ''-''" using number_start [of t] by auto
  then show ?thesis using J_Num by (auto simp: isdigit_def in_range_def)
qed (auto simp: json_bool_def json_escape_string_def json_list_def)

lemma read_items_ok:
  assumes "\<And>j n rest. j \<in> set js \<Longrightarrow> length (json_text j) \<le> n \<Longrightarrow> value_ends rest \<Longrightarrow>
      read_json n (json_text j @ rest) = Some (j, rest)"
    and "js \<noteq> []" and "length (joined '','' (map json_text js)) < n"
  shows "read_items n (joined '','' (map json_text js) @ CHR '']'' # rest) = Some (js, rest)"
  using assms
proof (induction js arbitrary: n)
  case (Cons j js)
  obtain m where n: "n = Suc m" using Cons.prems(3) by (cases n) auto
  have j: "read_json m (json_text j @ x) = Some (j, x)" if "value_ends x" for x
    using Cons.prems(1) [of j m x] Cons.prems(3) that n by (simp add: joined_Cons split: if_splits)
  show ?case
  proof (cases "js = []")
    case True
    then show ?thesis using j n by (simp add: value_ends_def)
  next
    case False
    with Cons.prems(3) n have "length (joined '','' (map json_text js)) < m" by (simp add: joined_Cons)
    with False Cons.IH [of m] Cons.prems(1) have
      "read_items m (joined '','' (map json_text js) @ CHR '']'' # rest) = Some (js, rest)" by simp
    with False j n show ?thesis by (simp add: joined_Cons value_ends_def)
  qed
qed simp

text \<open>A member of an object.\<close>

definition member_text :: "string \<times> json \<Rightarrow> string" where
  "member_text m = json_escape_string (fst m) @ '':'' @ json_text (snd m)"

lemma member_read:
  assumes "read_json n (json_text j @ u) = Some (j, u)" and "length (member_text (k, j)) \<le> Suc n"
  shows "read_members (Suc n) (member_text (k, j) @ u) =
     (if u \<noteq> [] \<and> hd u = CHR '','' then map_option (apfst ((#) (k, j))) (read_members n (tl u))
      else if u \<noteq> [] \<and> hd u = CHR ''}'' then Some ([(k, j)], tl u) else None)"
proof -
  have "length k \<le> length (concat (map json_char k))"
    by (induction k) (auto simp: json_char_def intro: order_trans)
  with assms(2) have "length k < n" by (simp add: member_text_def json_escape_string_def)
  from read_string_ok [OF this, of "CHR '':'' # json_text j @ u"] assms(1) show ?thesis
    by (simp add: member_text_def json_escape_string_def)
qed

lemma read_members_ok:
  assumes "\<And>k j n rest. (k, j) \<in> set ms \<Longrightarrow> length (json_text j) \<le> n \<Longrightarrow> value_ends rest \<Longrightarrow>
      read_json n (json_text j @ rest) = Some (j, rest)"
    and "ms \<noteq> []" and "length (joined '','' (map member_text ms)) < n"
  shows "read_members n (joined '','' (map member_text ms) @ CHR ''}'' # rest) = Some (ms, rest)"
  using assms
proof (induction ms arbitrary: n)
  case (Cons m ms)
  obtain k j where m: "m = (k, j)" by force
  obtain l where n: "n = Suc l" using Cons.prems(3) by (cases n) auto
  have len: "length (member_text (k, j)) \<le> l" using Cons.prems(3) n m by (simp add: joined_Cons split: if_splits)
  then have j: "read_json l (json_text j @ x) = Some (j, x)" if "value_ends x" for x
    using Cons.prems(1) [of k j l x] that m by (simp add: member_text_def)
  note r = member_read [OF j le_SucI [OF len]]
  show ?case
  proof (cases "ms = []")
    case True
    then show ?thesis using r [of "CHR ''}'' # rest"] m n by (simp add: value_ends_def del: read_members.simps)
  next
    case False
    with Cons.prems(3) n have "length (joined '','' (map member_text ms)) < l" by (simp add: joined_Cons)
    then have "read_members l (joined '','' (map member_text ms) @ CHR ''}'' # rest) = Some (ms, rest)"
      using False by (intro Cons.IH) (auto intro: Cons.prems(1))
    with False r [of "CHR '','' # joined '','' (map member_text ms) @ CHR ''}'' # rest"] m n show ?thesis
      by (simp add: joined_Cons value_ends_def del: read_members.simps)
  qed
qed simp

lemma member_text_eq:
  "(\<lambda>(k, j). json_escape_string k @ CHR '':'' # json_text j) = member_text"
  by (auto simp: member_text_def)

lemma json_read_back:
  assumes "json_ok j" and "length (json_text j) \<le> n" and "value_ends rest"
  shows "read_json n (json_text j @ rest) = Some (j, rest)"
  using assms
proof (induction j arbitrary: n rest)
  case J_Null
  then show ?case by (cases n) simp_all
next
  case (J_Bool b)
  then show ?case by (cases n; cases b) (simp_all add: json_bool_def)
next
  case (J_Num t)
  then obtain c u where "t = c # u" "isdigit c \<or> c = CHR ''-''" using number_start [of t] by auto
  moreover from this have "c \<notin> {CHR ''n'', CHR ''t'', CHR ''f'', QUOTE, CHR ''['', CHR ''{''}"
    by (auto simp: isdigit_def in_range_def)
  ultimately show ?case using J_Num read_number_ok [of t rest] by (cases n) auto
next
  case (J_Str t)
  then obtain m where n: "n = Suc m" by (cases n) (auto simp: json_escape_string_def)
  have "length t \<le> length (concat (map json_char t))"
    by (induction t) (auto simp: json_char_def intro: order_trans)
  with J_Str n read_string_ok [of t m rest] show ?case by (simp add: json_escape_string_def)
next
  case (J_Arr js)
  then obtain m where n: "n = Suc m" by (cases n) (auto simp: json_list_def)
  show ?case
  proof (cases js)
    case Nil
    with n show ?thesis by (simp add: json_list_def)
  next
    case (Cons j js')
    from J_Arr.prems(1) Cons have "hd (joined '','' (map json_text js) @ CHR '']'' # rest) \<noteq> CHR '']''"
      using json_text_start [of j] by (simp add: joined_Cons)
    moreover have "read_items m (joined '','' (map json_text js) @ CHR '']'' # rest) = Some (js, rest)"
      using J_Arr.prems n Cons by (intro read_items_ok J_Arr.IH) (auto simp: json_list_def)
    ultimately show ?thesis using n by (simp add: json_list_def)
  qed
next
  case (J_Obj ms)
  then obtain m where n: "n = Suc m" by (cases n) auto
  show ?case
  proof (cases ms)
    case Nil
    with n show ?thesis by simp
  next
    case (Cons x ms')
    have "hd (joined '','' (map member_text ms) @ CHR ''}'' # rest) = QUOTE"
      using Cons by (simp add: joined_Cons member_text_def json_escape_string_def)
    moreover have "length (joined '','' (map member_text ms)) < m" using J_Obj.prems(2) n by (simp add: member_text_eq)
    then have "read_members m (joined '','' (map member_text ms) @ CHR ''}'' # rest) = Some (ms, rest)"
      using J_Obj.prems(1) Cons by (intro read_members_ok J_Obj.IH) auto
    ultimately show ?thesis using n by (simp add: member_text_eq)
  qed
qed

subsection \<open>What a dump says\<close>

definition int_json :: "int \<Rightarrow> json" where
  "int_json i = J_Num (fmt_d i)"

definition word_json :: "32 word \<Rightarrow> json" where
  "word_json w = int_json (sint w)"

definition symbol_json :: "machine \<Rightarrow> ptr \<Rightarrow> json" where
  "symbol_json s p = (case p of None \<Rightarrow> J_Null
     | Some q \<Rightarrow> (case label_heap s q of None \<Rightarrow> J_Null | Some l \<Rightarrow> J_Str (label_name l)))"

definition imm_json :: "machine \<Rightarrow> imm_expr \<Rightarrow> json" where
  "imm_json s e = J_Obj [(''offset'', word_json (expr_offset e)), (''symbol'', symbol_json s (expr_symbol e)),
     (''pc_relative'', J_Bool (expr_pc_relative e))]"

definition op_json :: "int \<Rightarrow> (string \<times> json) list" where
  "op_json op = [(''op'', int_json op), (''mnemonic'', J_Str (op_token_name op))]"

definition values_json :: "json list \<Rightarrow> (string \<times> json) list" where
  "values_json vs = [(''count'', int_json (int (length vs))), (''values'', J_Arr vs)]"

definition named_json :: "string \<Rightarrow> (string \<times> json) list" where
  "named_json name = [(''name'', J_Str name)]"

fun fields_json :: "host \<Rightarrow> machine \<Rightarrow> ast_node \<Rightarrow> (string \<times> json) list" where
  "fields_json H s (AST_INST_R _ op rd rs rt) =
     op_json op @ [(''rd'', word_json rd), (''rs'', word_json rs), (''rt'', word_json rt)]"
| "fields_json H s (AST_INST_R_SHIFT _ op rd rt shamt) =
     op_json op @ [(''rd'', word_json rd), (''rt'', word_json rt), (''shamt'', word_json shamt)]"
| "fields_json H s (AST_INST_I _ op rt rs imm) =
     op_json op @ [(''rt'', word_json rt), (''rs'', word_json rs), (''imm'', imm_json s imm)]"
| "fields_json H s (AST_INST_J _ op target) = op_json op @ [(''target'', imm_json s target)]"
| "fields_json H s (AST_INST_FP_R _ op fd fs ft) =
     op_json op @ [(''fd'', word_json fd), (''fs'', word_json fs), (''ft'', word_json ft)]"
| "fields_json H s (AST_INST_FP_COMPARE _ op fs ft cc) =
     op_json op @ [(''fs'', word_json fs), (''ft'', word_json ft), (''cc'', word_json cc)]"
| "fields_json H s (AST_DATA_BYTE _ es) = values_json (map (imm_json s) es)"
| "fields_json H s (AST_DATA_HALF _ es) = values_json (map (imm_json s) es)"
| "fields_json H s (AST_DATA_WORD _ es) = values_json (map (imm_json s) es)"
| "fields_json H s (AST_DATA_FLOAT _ vs) = values_json (map (\<lambda>v. J_Num (printf_g H ''%.17g'' v)) vs)"
| "fields_json H s (AST_DATA_DOUBLE _ vs) = values_json (map (\<lambda>v. J_Num (printf_g H ''%.17g'' v)) vs)"
| "fields_json H s (AST_DATA_STRING _ bytes nul) =
     [(''length'', int_json (int (length bytes))), (''null_terminate'', J_Bool nul),
      (''value'', J_Str (map (\<lambda>b. char_of (unat b)) bytes))]"
| "fields_json H s (AST_DIR_SEG _ kind has_addr addr) = (if has_addr then [(''start_addr'', int_json (uint addr))] else [])"
| "fields_json H s (AST_DIR_ALIGN _ n) = [(''n'', word_json n)]"
| "fields_json H s (AST_DIR_SPACE _ sz) = [(''size'', word_json sz)]"
| "fields_json H s (AST_DIR_GLOBL _ name) = named_json name"
| "fields_json H s (AST_DIR_EXTERN _ name sz) = named_json name @ [(''size'', word_json sz)]"
| "fields_json H s (AST_DIR_COMM _ name sz) = named_json name @ [(''size'', word_json sz)]"
| "fields_json H s (AST_LABEL_DEF _ kind name v) =
     named_json name @ (case kind of
         AST_LABEL_NORMAL \<Rightarrow> [(''label_kind'', J_Str ''placement'')]
       | AST_LABEL_CONST \<Rightarrow> [(''label_kind'', J_Str ''constant''), (''value'', word_json v)])"
| "fields_json H s (AST_ERROR _ message) = [(''message'', J_Str (case message of Some m \<Rightarrow> m | None \<Rightarrow> []))]"
| "fields_json H s (AST_PSEUDO _ mnemonic _) = [(''mnemonic'', J_Str mnemonic)]"
| "fields_json H s (AST_FILE _ file _) = (case file of Some f \<Rightarrow> [(''source_file'', J_Str f)] | None \<Rightarrow> [])"

definition body_json :: "host \<Rightarrow> machine \<Rightarrow> ast_node \<Rightarrow> (string \<times> json) list" where
  "body_json H s n =
     (''kind'', J_Str (kind_name n)) # (''source_line'', word_json (source_line (node_header n))) # fields_json H s n"

fun node_json :: "host \<Rightarrow> machine \<Rightarrow> ast_node \<Rightarrow> json" where
  "node_json H s (AST_PSEUDO h m cs) =
     J_Obj (body_json H s (AST_PSEUDO h m cs) @ [(''children'', J_Arr (map (node_json H s) cs))])"
| "node_json H s (AST_FILE h f cs) =
     J_Obj (body_json H s (AST_FILE h f cs) @ [(''children'', J_Arr (map (node_json H s) cs))])"
| "node_json H s n = J_Obj (body_json H s n)"

text \<open>The expressions and the doubles of a tree.\<close>

fun expressions :: "ast_node \<Rightarrow> imm_expr list" where
  "expressions (AST_INST_I _ _ _ _ imm) = [imm]"
| "expressions (AST_INST_J _ _ target) = [target]"
| "expressions (AST_DATA_BYTE _ es) = es"
| "expressions (AST_DATA_HALF _ es) = es"
| "expressions (AST_DATA_WORD _ es) = es"
| "expressions (AST_PSEUDO _ _ cs) = concat (map expressions cs)"
| "expressions (AST_FILE _ _ cs) = concat (map expressions cs)"
| "expressions _ = []"

fun doubles :: "ast_node \<Rightarrow> 64 word list" where
  "doubles (AST_DATA_FLOAT _ vs) = vs"
| "doubles (AST_DATA_DOUBLE _ vs) = vs"
| "doubles (AST_PSEUDO _ _ cs) = concat (map doubles cs)"
| "doubles (AST_FILE _ _ cs) = concat (map doubles cs)"
| "doubles _ = []"

definition symbol_live :: "machine \<Rightarrow> imm_expr \<Rightarrow> bool" where
  "symbol_live s e \<longleftrightarrow> (case expr_symbol e of None \<Rightarrow> True | Some q \<Rightarrow> label_heap s q \<noteq> None)"

definition written_number :: "string \<Rightarrow> bool" where
  "written_number t \<longleftrightarrow> json_number t \<and> (\<forall>c \<in> set t. number_char c)"

subsection \<open>The dump is the text of what it says\<close>

definition members_after :: "(string \<times> json) list \<Rightarrow> string" where
  "members_after ms = concat (map (\<lambda>m. CHR '','' # member_text m) ms)"

lemma members_after_append: "members_after (ms @ ns) = members_after ms @ members_after ns"
  by (simp add: members_after_def)

lemma object_text: "json_text (J_Obj (m # ms)) = ''{'' @ member_text m @ members_after ms @ ''}''"
proof -
  have "joined '','' (map member_text (m # ms)) = member_text m @ members_after ms"
    by (induction ms arbitrary: m) (simp_all add: joined_Cons members_after_def)
  then show ?thesis by (simp add: member_text_eq)
qed

text \<open>Keys and other names of the dump need no escapes.\<close>

definition plain_name :: "string \<Rightarrow> bool" where
  "plain_name t \<longleftrightarrow> list_all (\<lambda>c. json_char c = [c]) t"

lemma plain_escape: "plain_name t \<Longrightarrow> json_escape_string t = QUOTE # t @ [QUOTE]"
proof -
  assume "plain_name t"
  then have "concat (map json_char t) = t" by (induction t) (simp_all add: plain_name_def)
  then show ?thesis by (simp add: json_escape_string_def)
qed

lemma key_text: "plain_name name \<Longrightarrow> members_after ((name, j) # ms) = json_key name @ json_text j @ members_after ms"
  by (simp add: members_after_def member_text_def plain_escape json_key_def)

lemma plain_Cons [simp]:
  "plain_name []" "plain_name (c # t) \<longleftrightarrow> json_char c = [c] \<and> plain_name t"
  by (simp_all add: plain_name_def)

lemma member_lists: "members_after [] = []"
  by (simp add: members_after_def)

lemma number_texts:
  "json_text (word_json w) = fmt_int w" "json_text (int_json i) = fmt_d i"
  "decimal (length xs) = fmt_d (int (length xs))" "decimal (unat a) = fmt_d (uint a)"
  by (simp_all add: word_json_def int_json_def fmt_int_def fmt_d_def)

lemma plain_keys:
  "plain_name ''offset''" "plain_name ''symbol''" "plain_name ''pc_relative''" "plain_name ''op''" "plain_name ''mnemonic''"
  "plain_name ''rd''" "plain_name ''rs''" "plain_name ''rt''" "plain_name ''shamt''" "plain_name ''imm''" "plain_name ''target''"
  "plain_name ''fd''" "plain_name ''fs''" "plain_name ''ft''" "plain_name ''cc''" "plain_name ''count''" "plain_name ''values''"
  "plain_name ''length''" "plain_name ''null_terminate''" "plain_name ''value''" "plain_name ''start_addr''" "plain_name ''n''"
  "plain_name ''size''" "plain_name ''name''" "plain_name ''label_kind''" "plain_name ''placement''" "plain_name ''constant''"
  "plain_name ''message''" "plain_name ''source_file''" "plain_name ''kind''" "plain_name ''source_line''" "plain_name ''children''"
  by (simp_all add: json_char_def)

declare plain_Cons [simp del]

lemmas dump_text_simps = key_text plain_keys member_lists number_texts

lemma json_imm_text:
  assumes "symbol_live s e"
  shows "json_imm e s = Inr (json_text (imm_json s e), s)"
proof -
  have "expr_name e s = Inr (case expr_symbol e of None \<Rightarrow> None | Some q \<Rightarrow> map_option label_name (label_heap s q), s)"
    using assms by (auto simp: expr_name_def symbol_live_def deref_label_def bnd_def ret_def split: option.splits)
  then show ?thesis using assms
    by (auto simp: json_imm_def imm_json_def object_text dump_text_simps symbol_json_def symbol_live_def member_text_def
        plain_escape json_key_def split: option.splits)
qed

lemma texts_imm:
  "\<forall>e \<in> set es. symbol_live s e \<Longrightarrow> texts json_imm es s = Inr (map json_text (map (imm_json s) es), s)"
  by (induction es) (simp_all add: json_imm_text)

lemma values_text:
  "members_after (values_json vs) = json_values (map json_text vs)"
  by (simp add: values_json_def json_values_def dump_text_simps fmt_length_def)

lemma fields_text:
  assumes "\<forall>e \<in> set (expressions n). symbol_live s e"
  shows "json_fields H n s = Inr (members_after (fields_json H s n), s)"
  using assms
proof (cases n)
  case (AST_LABEL_DEF h kind name v)
  then show ?thesis by (cases kind) (simp_all add: dump_text_simps named_json_def json_word_def plain_escape)
next
  case (AST_FILE h f cs)
  then show ?thesis by (cases f) (simp_all add: dump_text_simps)
qed (simp_all add: dump_text_simps op_json_def json_op_def json_word_def named_json_def json_imm_text texts_imm values_text
      comp_def fmt_length_def)

lemma kind_plain: "plain_name (kind_name n)"
proof (cases n)
  case (AST_DIR_SEG h kind has addr)
  then show ?thesis by (cases kind) (simp_all add: plain_name_def json_char_def)
qed (simp_all add: plain_name_def json_char_def)

lemma body_text:
  assumes "\<forall>e \<in> set (expressions n). symbol_live s e"
  shows "json_body H n s =
    Inr (''{'' @ member_text (''kind'', J_Str (kind_name n)) @ members_after (tl (body_json H s n)), s)"
  using fields_text [OF assms, of H]
  by (simp add: json_body_def body_json_def json_kind_header_def dump_text_simps member_text_def plain_escape kind_plain)

lemma node_object:
  "json_text (J_Obj (body_json H s n @ ms)) =
    ''{'' @ member_text (''kind'', J_Str (kind_name n)) @ members_after (tl (body_json H s n)) @ members_after ms @ ''}''"
  by (simp add: body_json_def object_text members_after_append [symmetric] del: json_text.simps)

lemma leaf_object:
  "json_text (J_Obj (body_json H s n)) =
    ''{'' @ member_text (''kind'', J_Str (kind_name n)) @ members_after (tl (body_json H s n)) @ ''}''"
  using node_object [of H s n "[]"] by (simp add: member_lists del: json_text.simps(6))

lemma node_text:
  "\<forall>e \<in> set (expressions n). symbol_live s e \<Longrightarrow> json_node H n s = Inr (json_text (node_json H s n), s)"
  "\<forall>n \<in> set ns. \<forall>e \<in> set (expressions n). symbol_live s e \<Longrightarrow>
    json_nodes H ns s = Inr (map json_text (map (node_json H s) ns), s)"
proof (induction H n and H ns rule: json_node_json_nodes.induct)
  case (1 H h m cs)
  then show ?case using body_text [of "AST_PSEUDO h m cs" s H]
    by (simp add: node_object dump_text_simps comp_def del: json_text.simps(6))
next
  case (2 H h f cs)
  then show ?case using body_text [of "AST_FILE h f cs" s H]
    by (simp add: node_object dump_text_simps comp_def del: json_text.simps(6))
qed (simp_all add: body_text leaf_object del: json_text.simps(6))

lemma decimal_lead: "n \<noteq> 0 \<Longrightarrow> hd (decimal n) \<noteq> CHR ''0''"
proof (induction n rule: decimal.induct)
  case (1 n)
  show ?case
  proof (cases "n < 10")
    case True
    have "(of_char (char_of (48 + n)) :: nat) = 48 + n" using True by (simp add: of_char_mod_256)
    with 1 True show ?thesis by (auto simp: decimal.simps [of n] dest: arg_cong [of _ _ "of_char :: char \<Rightarrow> nat"])
  next
    case False
    with 1 decimal_digits [of "n div 10"] show ?thesis by (simp add: decimal.simps [of n])
  qed
qed

lemma int_written: "written_number (fmt_d i)"
proof -
  have d: "json_number (decimal n)" "json_number (CHR ''-'' # decimal n)" for n
  proof -
    have "hd (decimal n) = CHR ''0'' \<Longrightarrow> length (decimal n) = 1" using decimal_lead [of n] by (cases "n = 0") (simp_all add: decimal.simps)
    moreover have "dropWhile isdigit (decimal n) = []" using decimal_digits [of n] by (simp add: list_all_iff)
    moreover have "hd (decimal n) \<noteq> CHR ''-''" using decimal_digits [of n] digit_class by (cases "decimal n") auto
    ultimately show "json_number (decimal n)" "json_number (CHR ''-'' # decimal n)"
      using decimal_digits [of n] by (simp_all add: json_number_def is_fraction_def is_exponent_def)
  qed
  have "\<forall>c \<in> set (decimal n). number_char c" for n
    using decimal_digits [of n] by (auto simp: list_all_iff number_char_def)
  with d show ?thesis by (auto simp: written_number_def fmt_d_def number_char_def)
qed

lemma imm_json_ok: "json_ok (imm_json s e)"
  using int_written [unfolded written_number_def]
  by (simp add: imm_json_def word_json_def int_json_def symbol_json_def split: option.splits)

lemma body_json_ok:
  assumes "\<forall>v \<in> set (doubles n). written_number (printf_g H ''%.17g'' v)"
  shows "\<forall>(k, j) \<in> set (body_json H s n). json_ok j"
  using assms int_written [unfolded written_number_def] imm_json_ok
  by (cases n) (auto simp: body_json_def op_json_def named_json_def values_json_def word_json_def int_json_def
      written_number_def split: option.splits ast_label_kind.splits if_splits)

lemma node_json_ok:
  "\<forall>v \<in> set (doubles n). written_number (printf_g H ''%.17g'' v) \<Longrightarrow> json_ok (node_json H s n)"
proof (induction H s n rule: node_json.induct)
  case (1 H s h m cs)
  then show ?case using body_json_ok [of "AST_PSEUDO h m cs" H s] by auto
next
  case (2 H s h f cs)
  then show ?case using body_json_ok [of "AST_FILE h f cs" H s] by auto
qed (unfold node_json.simps json_ok.simps, (rule body_json_ok, assumption)+)

text \<open>
  C36: the JSON dump of a tree is a JSON document that a reader takes apart into the tree again.
  Where the symbols it refers to exist and the C library prints its floating-point data as JSON numbers
  (it does not for infinities and NaNs: a tree of \<^verbatim>\<open>.double 1e999\<close> is outside the theorem), \<^verbatim>\<open>ast_print_json\<close> returns and changes
  nothing, and the reader finds exactly the kinds, lines, fields, strings and children of the nodes. The reader has the syntax of
  RFC 8259 over bytes: in a string it takes any byte from 0x20 on but the quote and the backslash, and does not check that these are valid UTF-8, which
  \<^verbatim>\<open>json_escape_string\<close> does not ensure either. The values of the floating-point data come back as the text the library printed. An
  expression is written as the code writes it, \<^verbatim>\<open>{"offset":N,"symbol":null,"pc_relative":false}\<close>, also without a symbol, where the comment at its head announces
  \<^verbatim>\<open>{"value":N,"symbol":null}\<close>.
\<close>

theorem json_dump_roundtrip:
  assumes "\<And>e. e \<in> set (expressions n) \<Longrightarrow> symbol_live s e"
    and "\<And>v. v \<in> set (doubles n) \<Longrightarrow> written_number (printf_g H ''%.17g'' v)"
  shows "\<exists>t. ast_print_json H n s = Inr (t, s) \<and> read_json (length t) t = Some (node_json H s n, [NL])"
proof -
  let ?t = "json_text (node_json H s n)"
  have "ast_print_json H n s = Inr (?t @ [NL], s)"
    using node_text(1) [of n s H] assms(1) by (simp add: ast_print_json_def)
  moreover have "json_ok (node_json H s n)" using assms(2) by (intro node_json_ok) simp
  from json_read_back [OF this, of "length (?t @ [NL])" "[NL]"]
  have "read_json (length (?t @ [NL])) (?t @ [NL]) = Some (node_json H s n, [NL])" by (simp add: value_ends_def)
  ultimately show ?thesis by blast
qed

definition sample_tree :: ast_node where
  "sample_tree = AST_FILE \<lparr>source_line = 1, src_text = None\<rparr> (Some ''a.s'')
     [AST_LABEL_DEF \<lparr>source_line = 2, src_text = None\<rparr> AST_LABEL_NORMAL ''x'' 0,
      AST_DATA_DOUBLE \<lparr>source_line = 2, src_text = None\<rparr> [0],
      AST_DATA_STRING \<lparr>source_line = 3, src_text = None\<rparr> [10, 34, 1] True,
      AST_PSEUDO \<lparr>source_line = 4, src_text = None\<rparr> ''li''
        [AST_INST_I \<lparr>source_line = 4, src_text = None\<rparr> TOK_ORI_OPCODE 4 0 (const_imm_expr 7)]]"

theorem json_dump_roundtrip_witness:
  "\<exists>t. ast_print_json idle_host sample_tree zero_machine = Inr (t, zero_machine) \<and>
    read_json (length t) t = Some (node_json idle_host zero_machine sample_tree, [NL])"
proof (rule json_dump_roundtrip)
  show "symbol_live zero_machine e" if "e \<in> set (expressions sample_tree)" for e
    using that by (simp add: sample_tree_def symbol_live_def const_imm_expr_def make_imm_expr_def)
  show "written_number (printf_g idle_host ''%.17g'' v)" if "v \<in> set (doubles sample_tree)" for v
    by (simp add: idle_host_def written_number_def json_number_def is_fraction_def is_exponent_def number_char_def
        isdigit_def in_range_def)
qed

end
