(* ===== verification/ExplainProps.thy ===== *)
theory ExplainProps
  imports Safety
begin

text \<open>
  What the teaching mode does to the program it narrates: it leaves the registers alone, it announces
  the wrong address for a branch, and it takes exceptions away from the handler.
\<close>

subsection \<open>Registers\<close>

definition registers :: "machine \<Rightarrow> (nat \<Rightarrow> reg_word) \<times> reg_word \<times> reg_word \<times> mem_addr \<times> (nat \<Rightarrow> 32 word) \<times> (nat \<Rightarrow> reg_word)" where
  "registers s = (gpr s, HI s, LO s, PC s, fp_int_view s, coprocessor_1 s)"

lemma registers_set_cp0 [simp]: "registers (set_cp0 n v s) = registers s"
  by (simp add: registers_def set_cp0_def)

lemma registers_raise [simp]: "registers (raise_bad_vaddr e a s) = registers s"
  by (simp add: raise_bad_vaddr_def registers_def set_cp0_def, subst (1 2 3 4 5 6) raise_exception_frame) simp

lemma registers_updates [simp]:
  "registers (s\<lparr>console_out := c\<rparr>) = registers s" "registers (s\<lparr>explain := n\<rparr>) = registers s"
  "registers (s\<lparr>exception_occurred := b\<rparr>) = registers s" "registers (s\<lparr>stack_seg_b := m, stack_bot := a\<rparr>) = registers s"
  "registers (s\<lparr>inst_heap := h, next_obj := k\<rparr>) = registers s" "registers (s\<lparr>break_inst := p\<rparr>) = registers s"
  "registers (s\<lparr>bkpts := bs\<rparr>) = registers s" "registers (s\<lparr>text_modified := b\<rparr>) = registers s"
  "registers (s\<lparr>text_seg := t\<rparr>) = registers s" "registers (s\<lparr>k_text_seg := t\<rparr>) = registers s"
  "registers (s\<lparr>data_modified := b\<rparr>) = registers s" "registers (s\<lparr>data_seg_b := m\<rparr>) = registers s"
  "registers (s\<lparr>stack_seg_b := m\<rparr>) = registers s" "registers (s\<lparr>k_data_seg_b := m\<rparr>) = registers s"
  by (simp_all add: registers_def)

lemma registers_io [simp]:
  "registers (read_recv_buffer s) = registers s" "registers (write_trans_control v s) = registers s"
  "registers (write_trans_buffer v s) = registers s" "registers (write_recv_control v s) = registers s"
  "registers (write_stack_cell a v m s) = registers s" "registers (free_inst q s) = registers s"
  "registers (error_out f x s) = registers s"
  by (simp_all add: read_recv_buffer_def write_trans_control_def write_trans_buffer_def write_recv_control_def
      write_stack_cell_def free_inst_def error_out_def RAISE_INTERRUPT_def CLEAR_INTERRUPT_def put_console_char_def Let_def)
    (simp_all add: registers_def)

text \<open>Computations that end with the registers they began with.\<close>

abbreviation has_regs :: "(nat \<Rightarrow> reg_word) \<times> reg_word \<times> reg_word \<times> mem_addr \<times> (nat \<Rightarrow> 32 word) \<times> (nat \<Rightarrow> reg_word) \<Rightarrow>
    machine \<Rightarrow> bool" where
  "has_regs v s \<equiv> registers s = v"

lemma regs_bnd [simp]:
  "registers (final (m s)) = registers s \<Longrightarrow> (\<And>x t. registers (final (f x t)) = registers t) \<Longrightarrow>
   registers (final (bnd m f s)) = registers s"
  by (cases "m s") (auto simp: bnd_def)

lemma regs_seq [simp]:
  "registers (final (m s)) = registers s \<Longrightarrow> (\<And>t. registers (final (n t)) = registers t) \<Longrightarrow>
   registers (final (seq m n s)) = registers s"
  by (simp add: seq_def)

lemma regs_memory [simp]:
  "registers (final (expand_stack H n s)) = registers s" "registers (final (deref_inst p s)) = registers s"
  "registers (final (new_inst i s)) = registers s" "registers (final (read_memory_mapped_IO a s)) = registers s"
  "registers (final (write_memory_mapped_IO a w s)) = registers s"
  by (simp_all add: expand_stack_def new_inst_def read_memory_mapped_IO_def write_memory_mapped_IO_def Let_def
      deref_inst_reads)

lemma regs_text [simp]:
  "registers (final (read_text_as_data a m s)) = registers s" "registers (final (write_text_as_data a w m s)) = registers s"
  by (simp_all add: read_text_as_data_def write_text_as_data_def Let_def split: option.split)

lemma regs_slow [simp]:
  "registers (final (bad_mem_read H a m s)) = registers s" "registers (final (bad_mem_write H a w m s)) = registers s"
  by (simp_all add: bad_mem_read_def bad_mem_write_def)

lemma regs_reads [simp]:
  "registers (final (mem_read_byte H a s)) = registers s" "registers (final (mem_read_half H a s)) = registers s"
  "registers (final (mem_read_word H a s)) = registers s" "registers (final (mem_read_inst a s)) = registers s"
  by (simp_all add: mem_read_byte_def mem_read_half_def mem_read_word_def mem_read_inst_def bad_text_read_def)

lemma regs_writes [simp]:
  "registers (final (mem_write_word H a w s)) = registers s" "registers (final (mem_write_inst H a p s)) = registers s"
  by (simp_all add: mem_write_word_def mem_write_inst_def bad_text_write_def Let_def)

lemma regs_breakpoints [simp]:
  "registers (final (make_break_inst s)) = registers s" "registers (final (inst_is_breakpoint a s)) = registers s"
  "registers (final (set_breakpoint H a s)) = registers s" "registers (final (add_breakpoint H a s)) = registers s"
  by (simp_all add: make_break_inst_def inst_is_breakpoint_def set_breakpoint_def add_breakpoint_def split: option.split)

lemma regs_delete_from [simp]: "registers (final (delete_from H a kept bs s)) = registers s"
  by (induction bs arbitrary: kept s) auto

lemma regs_format [simp]: "registers (final (format_an_inst H fuel p a s)) = registers s"
  by (induction fuel arbitrary: p s) (auto simp: delete_breakpoint_def format_inst_reads)

interpretation narrated_registers: narration_invariant "has_regs v" H for v H
proof
  show "keeps (has_regs v) (peek_byte H a)" "keeps (has_regs v) (peek_half H a)" "keeps (has_regs v) (peek_word H a)" for a
    unfolding peek_byte_def peek_half_def peek_word_def by (intro keeps_peek; simp add: keeps_def)+
qed (simp_all add: keeps_def)

text \<open>
  C37: narrating a step changes no register. Whatever the level, the snapshot before an instruction and the
  narration after it end, also when they end in an abort, with the general registers, HI, LO, the PC and the
  floating-point registers they began with.
\<close>

theorem narration_keeps_registers:
  "registers (final (explain_before H i a s)) = registers s \<and> registers (final (explain_after H i s)) = registers s"
  using narrated_registers.before narrated_registers.after_narration by (simp add: keeps_def)

subsection \<open>Branches\<close>

text \<open>The verdicts of the templates of branches, on the values of the two source registers.\<close>

definition branch_verdicts :: "(int \<times> (reg_word \<Rightarrow> reg_word \<Rightarrow> bool)) list" where
  "branch_verdicts =
     map (\<lambda>(op, _, _, test). (op, test)) branch_2reg_cases @
     map (\<lambda>(op, _, _, test). (op, \<lambda>a b. test a)) branch_1reg_cases"

lemma exec_branches:
  "OPCODE i = TOK_BEQ_OPCODE \<Longrightarrow> exec_inst H D i = comp_case (op_beq D) i"
  "OPCODE i = TOK_BNE_OPCODE \<Longrightarrow> exec_inst H D i = comp_case (op_bne D) i"
  "OPCODE i = TOK_BGEZ_OPCODE \<Longrightarrow> exec_inst H D i = comp_case (op_bgez D) i"
  "OPCODE i = TOK_BGTZ_OPCODE \<Longrightarrow> exec_inst H D i = comp_case (op_bgtz D) i"
  "OPCODE i = TOK_BLEZ_OPCODE \<Longrightarrow> exec_inst H D i = comp_case (op_blez D) i"
  "OPCODE i = TOK_BLTZ_OPCODE \<Longrightarrow> exec_inst H D i = comp_case (op_bltz D) i"
  by (simp_all add: exec_inst_def switch_cases_def cases_1_def cases_2_def cases_3_def cases_4_def cases_5_def
      cases_6_def cases_7_def cases_8_def cases_9_def cases_10_def cases_11_def cases_12_def cases_13_def)

lemma sign_bit_zero: "SIGN_BIT v = 0 \<longleftrightarrow> 0 \<le>s v"
proof -
  have "SIGN_BIT v = 0 \<longleftrightarrow> \<not> bit v 31"
    by (simp add: SIGN_BIT_def word_eq_bits bit_simps)
  then show ?thesis using bit_last_iff [of v] by (simp add: word_sle_eq not_less)
qed

lemma sign_tests:
  "v \<noteq> 0 \<and> SIGN_BIT v = 0 \<longleftrightarrow> 0 <s v" "v = 0 \<or> v <s 0 \<longleftrightarrow> v \<le>s 0" "SIGN_BIT v \<noteq> 0 \<longleftrightarrow> v <s 0"
  unfolding sign_bit_zero using signed.less_le signed.not_le signed.le_less by metis+

lemma verdict_cases:
  assumes "(op, test) \<in> set branch_verdicts"
  obtains "op = TOK_BEQ_OPCODE" "test = (=)" | "op = TOK_BNE_OPCODE" "test = (\<noteq>)"
  | "op = TOK_BGEZ_OPCODE" "test = (\<lambda>a b. 0 \<le>s a)" | "op = TOK_BGTZ_OPCODE" "test = (\<lambda>a b. 0 <s a)"
  | "op = TOK_BLEZ_OPCODE" "test = (\<lambda>a b. a \<le>s 0)" | "op = TOK_BLTZ_OPCODE" "test = (\<lambda>a b. a <s 0)"
  using assms by (auto simp: branch_verdicts_def branch_2reg_cases_def branch_1reg_cases_def)

lemma exec_verdict:
  assumes "(OPCODE i, test) \<in> set branch_verdicts"
  shows "exec_inst H D i s = seq (BRANCH_INST D (test (rs_v i s) (rt_v i s)) (branch_target i s) False) (ret None) s"
  using assms
  by (cases rule: verdict_cases)
    (simp_all add: exec_branches comp_case_def op_beq_def op_bne_def op_bgez_def op_bgtz_def op_blez_def op_bltz_def
      branch_if_def seq_def bnd_def sign_tests, simp_all add: sign_bit_zero)

text \<open>
  C39: without delayed branches, the default mode, the narration of a branch gives the right verdict and the wrong address. After the
  snapshot of \<^verbatim>\<open>explain_before\<close> a branch is taken exactly when the comparison the template shows
  holds, and it goes to the word before the address the template announces. (With delayed branches \<^verbatim>\<open>BRANCH_INST\<close> adds the word
  that the template adds, and the announced address is the right one.)
\<close>

theorem narrated_branch_is_one_word_off:
  assumes "(OPCODE i, test) \<in> set branch_verdicts" and "snap_PC (explain s) = PC s" and "snap_R (explain s) = gpr s"
    and "\<not> delayed_branches s"
  shows "\<exists>t. exec_inst H D i s = Inr (None, t) \<and>
    PC t + BYTES_PER_WORD =
      (if test (snap (RS i) s) (snap (RT i) s) then narrated_target i s - BYTES_PER_WORD else PC s + BYTES_PER_WORD)"
  using assms(2-)
  by (simp add: exec_verdict [OF assms(1)] BRANCH_INST_def JUMP_INST_def snap_def narrated_target_def branch_target_def
      Let_def seq_def bnd_def)

theorem narrated_branch_is_one_word_off_witness:
  "\<exists>t. exec_inst idle_host (\<lambda>_. ret ()) (zero_inst\<lparr>inst_opcode := TOK_BEQ_OPCODE, inst_imm := 4\<rparr>) zero_machine = Inr (None, t) \<and>
    PC t + 4 = 0x10"
proof -
  let ?i = "zero_inst\<lparr>inst_opcode := TOK_BEQ_OPCODE, inst_imm := 4\<rparr>"
  have "(OPCODE ?i, (=)) \<in> set branch_verdicts"
    by (simp add: branch_verdicts_def branch_2reg_cases_def OPCODE_def)
  from narrated_branch_is_one_word_off [OF this, of zero_machine idle_host "\<lambda>_. ret ()"] show ?thesis
    by (simp add: zero_machine_def silent_def snap_def narrated_target_def BRANCH_OFFSET_def IOFFSET_def IMM_def sign_ex_def)
qed

subsection \<open>Exceptions\<close>

text \<open>A peek leaves the exception flag as it was, also when the read aborts.\<close>

lemma read_aborts:
  "mem_read_byte H a s = Inl (e, t) \<Longrightarrow> exception_occurred t = exception_occurred s"
  "mem_read_half H a s = Inl (e, t) \<Longrightarrow> exception_occurred t = exception_occurred s"
  "mem_read_word H a s = Inl (e, t) \<Longrightarrow> exception_occurred t = exception_occurred s"
  by (auto simp: mem_read_byte_def mem_read_half_def mem_read_word_def bad_mem_read_def read_text_as_data_def
      read_memory_mapped_IO_def deref_inst_def expand_stack_def seq_def bnd_def Let_def
      split: if_splits option.splits sum.splits)

lemma peek_keeps_flag:
  assumes "\<And>e t. rd s = Inl (e, t) \<Longrightarrow> exception_occurred t = exception_occurred s"
  shows "exception_occurred (final (peek rd s)) = exception_occurred s"
proof (cases "rd s")
  case (Inl a)
  then show ?thesis using assms by (cases a) (simp add: peek_def bnd_def)
next
  case (Inr b)
  then show ?thesis by (cases b) (simp add: peek_def bnd_def seq_def set_cp0_def)
qed

interpretation flag_clear: template_invariant "\<lambda>s. \<not> exception_occurred s" H for H
  by unfold_locales
    (auto simp: keeps_def peek_byte_def peek_half_def peek_word_def peek_keeps_flag read_aborts)

text \<open>An address in the text segment whose instruction is not the breakpoint instruction.\<close>

definition plain_text :: "mem_addr \<Rightarrow> machine \<Rightarrow> bool" where
  "plain_text pc s \<longleftrightarrow> in_text s pc \<and> pc AND 3 = 0 \<and> break_inst s \<noteq> None \<and> text_seg s (text_index pc) \<noteq> break_inst s"

lemma plain_text_updates [simp]:
  "plain_text pc (s\<lparr>console_out := c\<rparr>) = plain_text pc s" "plain_text pc (s\<lparr>explain := n\<rparr>) = plain_text pc s"
  "plain_text pc (s\<lparr>exception_occurred := b\<rparr>) = plain_text pc s" "plain_text pc (s\<lparr>PC := a\<rparr>) = plain_text pc s"
  by (simp_all add: plain_text_def in_text_def)

lemma string_of_plain_text:
  assumes "plain_text pc s"
  shows "inst_to_string H pc s = format_inst_text (text_seg s (text_index pc)) pc (s\<lparr>exception_occurred := False\<rparr>)"
proof -
  let ?u = "s\<lparr>exception_occurred := False\<rparr>" and ?p = "text_seg s (text_index pc)"
  have r: "mem_read_inst pc ?u = Inr (?p, ?u)"
    using assms by (simp add: plain_text_def mem_read_inst_def in_text_def)
  then have "inst_is_breakpoint pc ?u = Inr (False, ?u)"
    using assms by (auto simp: plain_text_def inst_is_breakpoint_def make_break_inst_def bnd_def seq_def)
  then have "format_an_inst H 2 ?p pc ?u = format_inst_text ?p pc ?u"
    unfolding numeral_2_eq_2 by (auto simp: bnd_def)
  with r show ?thesis by (simp add: inst_to_string_def seq_def bnd_def)
qed

lemma notes_then [simp]:
  "seq (write_text t) m s = m (s\<lparr>console_out := console_out s @ [Con_Text ''%s'' t]\<rparr>)"
  "seq (upd_explain f) m s = m (s\<lparr>explain := f (explain s)\<rparr>)"
  "bnd (gets g) h s = h (g s) s"
  by (simp_all add: write_text_def upd_explain_def seq_def bnd_def)

lemma string_ends:
  "plain_text pc s \<Longrightarrow> final (inst_to_string H pc s) = s\<lparr>exception_occurred := False\<rparr>"
  by (simp add: string_of_plain_text format_inst_reads)

lemma after_string:
  assumes "plain_text pc s" and "\<And>dis. keeps (\<lambda>s. \<not> exception_occurred s) (f dis)"
  shows "\<not> exception_occurred (final (bnd (inst_to_string H pc) f s))"
proof (cases "inst_to_string H pc s")
  case (Inl a)
  then show ?thesis using string_ends [OF assms(1), of H] by (cases a) (simp add: bnd_def)
next
  case (Inr b)
  then show ?thesis
    using string_ends [OF assms(1), of H] assms(2) by (cases b) (simp add: bnd_def keeps_def)
qed

lemma seq_units: "seq (seq a b) c = seq a (seq b c)" "seq a (ret ()) = a" "seq (ret ()) a = a"
  by (simp_all add: seq_def bnd_assoc) (auto simp: fun_eq_iff bnd_def split: sum.split)

lemma header_clears:
  assumes "plain_text pc s"
  shows "\<not> exception_occurred (final (explain_print_step_header H pc i s))"
proof -
  have f: "keeps (\<lambda>s. \<not> exception_occurred s) (case e of None \<Rightarrow> throw Crash | Some enc \<Rightarrow>
      (let (dasm, source) = split_listing dis
       in seq (write_text (g enc dasm)) (case source of Some src \<Rightarrow> whn (src \<noteq> []) (write_text (h src)) | None \<Rightarrow> ret ())))"
    for e dis g h
    unfolding Let_def split_def by (intro flag_clear.says)
  have s: "\<not> exception_occurred (final (bnd (inst_to_string H pc) (\<lambda>dis. case inst_encode i of None \<Rightarrow> throw Crash | Some enc \<Rightarrow>
      (let (dasm, source) = split_listing dis
       in seq (write_text (g enc dasm)) (case source of Some src \<Rightarrow> whn (src \<noteq> []) (write_text (h src)) | None \<Rightarrow> ret ()))) u))"
    if "plain_text pc u" for u g h
    using that by (intro after_string f)
  show ?thesis
    unfolding explain_print_step_header_def in_order.simps seq_units whn_def
    using assms by (cases "legend_emitted (explain s)") (simp_all only: if_True if_False not_True_eq_False
        not_False_eq_True seq_units notes_then s [unfolded whn_def] plain_text_updates)
qed

lemma narrated_flag:
  assumes "explain_level (explain s) \<noteq> 0" and "plain_text (snap_PC (explain s)) s" and "explain_after H i s = Inr ((), u)"
  shows "\<not> exception_occurred u"
proof -
  from assms(1,3) obtain r v where "explain_print_step_header H (snap_PC (explain s)) i r = Inr ((), v)"
      and r: "plain_text (snap_PC (explain s)) r" and v: "narrate_step H (explain_level (explain s)) i v = Inr ((), u)"
    using assms(2) by (auto simp: explain_after_def reset_touched_def seq_units seq_Inr_iff)
  then have "\<not> exception_occurred v" using header_clears [OF r, of H i] by simp
  then show ?thesis using flag_clear.narrated_step v by (metis keepsD final.simps(2))
qed

lemma silent_handles:
  assumes "exception_occurred s"
  shows "\<exists>u. finish_step H False i (s\<lparr>explain := silent\<rparr>) = Inr ((), u) \<and> PC u = EXCEPTION_ADDR"
proof -
  let ?s = "s\<lparr>explain := silent, PC := PC s + BYTES_PER_WORD\<rparr>"
  have "explain_after H i ?s = Inr ((), ?s)" by (rule explain_off) (simp add: silent_def)
  then have "finish_step H False i (s\<lparr>explain := silent\<rparr>) = Inr ((), handle_exception ?s)"
    using assms by (simp add: finish_step_def seq_def bnd_def)
  moreover have "PC (handle_exception ?s) = EXCEPTION_ADDR"
    by (rule exE [OF handle_exception_frame [of ?s]], simp)
  ultimately show ?thesis by blast
qed

text \<open>
  C38: the teaching mode takes exceptions away from the handler. At the end of a step, before it tests the exception
  flag, the simulator narrates the step, and printing the instruction clears the flag: where the handler would be
  entered at level 0, the program goes on with the next instruction at every other level.
\<close>

theorem narration_loses_exception:
  assumes "exception_occurred s" and "explain_level (explain s) \<noteq> 0" and "plain_text (snap_PC (explain s)) s"
    and "finish_step H False i s = Inr ((), t)"
  shows "PC t = PC s + BYTES_PER_WORD \<and> \<not> exception_occurred t \<and>
    (\<exists>u. finish_step H False i (s\<lparr>explain := silent\<rparr>) = Inr ((), u) \<and> PC u = EXCEPTION_ADDR)"
proof -
  let ?s = "s\<lparr>PC := PC s + BYTES_PER_WORD\<rparr>"
  from assms(4) obtain u where u: "explain_after H i ?s = Inr ((), u)"
      and t: "t = (if exception_occurred u then handle_exception u else u)"
    by (auto simp: finish_step_def seq_Inr_iff)
  have "\<not> exception_occurred u" using assms(2,3) u by (intro narrated_flag [of ?s H i]) simp_all
  moreover have "registers u = registers ?s"
    using keepsD [OF narrated_registers.after_narration [of "registers ?s" H i], of ?s] u by simp
  moreover have "\<exists>u. finish_step H False i (s\<lparr>explain := silent\<rparr>) = Inr ((), u) \<and> PC u = EXCEPTION_ADDR"
    using assms(1) by (intro silent_handles)
  ultimately show ?thesis using t by (simp add: registers_def)
qed

text \<open>A state at level 1 whose step holds no instruction: its narration returns.\<close>

definition level_1_at :: "mem_addr \<Rightarrow> machine \<Rightarrow> bool" where
  "level_1_at pc s \<longleftrightarrow> plain_text pc s \<and> text_seg s = (\<lambda>_. None) \<and> explain_level (explain s) = 1 \<and>
     snap_PC (explain s) = pc \<and> pending_pseudo_name (explain s) = None"

definition returns :: "(machine \<Rightarrow> bool) \<Rightarrow> 'a mcomp \<Rightarrow> bool" where
  "returns P m \<longleftrightarrow> (\<forall>s. P s \<longrightarrow> (\<exists>x t. m s = Inr (x, t) \<and> P t))"

lemma returns_intros:
  "returns P (ret x)" "(\<And>s. P s \<Longrightarrow> returns P (f (g s))) \<Longrightarrow> returns P (bnd (gets g) f)"
  "returns P m \<Longrightarrow> returns P n \<Longrightarrow> returns P (seq m n)" "(b \<Longrightarrow> returns P m) \<Longrightarrow> returns P (whn b m)"
  by (auto simp: returns_def whn_def seq_Inr_iff)

lemma level_1_notes:
  "returns (level_1_at pc) (write_text t)" "returns (level_1_at pc) reset_touched"
  "returns (level_1_at pc) (upd_explain (legend_emitted_update (\<lambda>_. True)))"
  by (simp_all add: returns_def write_text_def reset_touched_def upd_explain_def level_1_at_def)

lemma level_1_string:
  "(\<And>d. returns (level_1_at pc) (f d)) \<Longrightarrow> returns (level_1_at pc) (bnd (inst_to_string H pc) f)"
  by (auto simp: returns_def level_1_at_def bnd_def string_of_plain_text format_inst_text_def Let_def)

lemma zero_inst_encode: "inst_encode zero_inst = Some 0"
proof -
  have "map_int_to_name_val_val (sort_table i_opcode_tbl) 0 = None"
  proof (rule ccontr)
    assume "map_int_to_name_val_val (sort_table i_opcode_tbl) 0 \<noteq> None"
    then obtain e where "map_int_to_name_val_val (sort_table i_opcode_tbl) 0 = Some e" by blast
    from lookup_sound [OF this] have "0 \<in> set (map op_tok opcode_rows)" by (force simp: i_opcode_tbl_def)
    then show False by (auto simp: tokens_consecutive)
  qed
  then show ?thesis by (simp add: inst_encode_def zero_inst_def OPCODE_def)
qed

lemma level_1_returns: "returns (level_1_at pc) (explain_after H zero_inst)"
proof -
  have src: "inst_source zero_inst = None" by (simp add: zero_inst_def)
  have pseudo: "returns (level_1_at pc) (say_pseudo 1 zero_inst)"
    unfolding say_pseudo_def by (rule returns_intros) (simp add: src level_1_at_def returns_intros)
  have shown: "returns (level_1_at pc) (case source of Some x \<Rightarrow> whn (x \<noteq> []) (write_text (h x)) | None \<Rightarrow> ret ())" for source h
    by (cases source) (auto intro: returns_intros level_1_notes)
  have header: "returns (level_1_at pc) (explain_print_step_header H pc zero_inst)"
    unfolding explain_print_step_header_def in_order.simps zero_inst_encode option.case Let_def split_def
    by (intro returns_intros level_1_notes level_1_string shown)
  have rest: "returns (level_1_at pc) (narrate_step H 1 zero_inst)"
    unfolding narrate_step_def in_order.simps
    by (simp add: returns_intros level_1_notes pseudo [unfolded One_nat_def])
  have "returns (level_1_at pc) (bnd (gets (\<lambda>s. snap_PC (explain s))) (\<lambda>pc. explain_print_step_header H pc zero_inst))"
    using header by (intro returns_intros(2)) (simp only: level_1_at_def)
  then show ?thesis
    unfolding explain_after_def
    using rest by (intro returns_intros(2)) (auto simp only: level_1_at_def [of pc s for s] in_order.simps intro!: returns_intros(1,3,4) level_1_notes)
qed

definition narrated_trap :: machine where
  "narrated_trap = zero_machine\<lparr>text_top := 0x400100, PC := 0x400020, exception_occurred := True, break_inst := Some 1,
     explain := silent\<lparr>explain_level := 1, snap_PC := 0x400020, legend_emitted := True\<rparr>\<rparr>"

lemma narrated_trap_plain: "plain_text 0x400020 narrated_trap"
  by (simp add: narrated_trap_def plain_text_def in_text_def zero_machine_def)

lemma narrated_trap_returns: "\<exists>t. finish_step idle_host False zero_inst narrated_trap = Inr ((), t)"
proof -
  have "level_1_at 0x400020 (narrated_trap\<lparr>PC := 0x400024\<rparr>)"
    unfolding level_1_at_def plain_text_updates
    by (rule conjI [OF narrated_trap_plain]) (simp add: narrated_trap_def zero_machine_def silent_def)
  with level_1_returns obtain t where "explain_after idle_host zero_inst (narrated_trap\<lparr>PC := 0x400024\<rparr>) = Inr ((), t)"
    unfolding returns_def by fastforce
  moreover have "PC narrated_trap = 0x400020" by (simp add: narrated_trap_def)
  ultimately show ?thesis by (simp add: finish_step_def seq_def bnd_def)
qed

theorem narration_loses_exception_witness:
  "\<exists>t. finish_step idle_host False zero_inst narrated_trap = Inr ((), t) \<and> PC t = 0x400024"
proof -
  obtain t where "finish_step idle_host False zero_inst narrated_trap = Inr ((), t)" using narrated_trap_returns by blast
  with narration_loses_exception [of narrated_trap idle_host zero_inst t] show ?thesis
    using narrated_trap_plain by (auto simp: narrated_trap_def)
qed

subsection \<open>Peeking\<close>

text \<open>
  A peek at an address that is not a multiple of four puts the exception flag and the bad address back, and leaves the
  exception level set in the status register and the exception recorded as the first one: what the narration reads
  before a store of a byte changes how the next exception is taken and the exit status of the simulator.
\<close>

lemma peek_leaves_exception_level:
  assumes "a AND 3 \<noteq> 0"
  shows "\<exists>u. peek_word H a s = Inr (0, u) \<and> exception_occurred u = exception_occurred s \<and> CP0_BadVAddr u = CP0_BadVAddr s \<and>
    CP0_Status u AND CP0_Status_EXL \<noteq> 0 \<and> first_bad_exception u \<noteq> - 1"
proof -
  have "mem_read_word H a s = Inr (0, raise_bad_vaddr ExcCode_AdEL a s)"
    using assms by (simp add: mem_read_word_def bad_mem_read_def)
  moreover have "CP0_Status (raise_exception ExcCode_AdEL s) AND CP0_Status_EXL = CP0_Status_EXL"
    by (simp add: raise_exception_def Let_def set_cp0_def word_ao_absorbs)
  moreover have "first_bad_exception (raise_exception ExcCode_AdEL s) \<noteq> - 1"
    by (simp add: raise_exception_def Let_def set_cp0_def record_epc_def latch_first_bad_def)
  ultimately show ?thesis
    by (simp add: peek_word_def peek_def seq_def bnd_def raise_bad_vaddr_def set_cp0_def)
qed

end
