(* ===== verification/Loading.thy ===== *)
theory Loading
  imports Safety World
begin

text \<open>
  Loading a program keeps the address space well formed. \<open>loader_invariant\<close> is the contract under which a predicate on
  the machine survives the assembler's back end, the scanner, the parser and the reading of files: it extends the
  contract of runs (\<open>view_invariant\<close>) by the growth of the kernel data segment and by the modes that loading the
  exception handler sets, neither of which an instruction does. What
  assembling writes besides memory (labels, location counters, flags) is invisible to such a predicate.
\<close>

subsection \<open>Updates that neither the layout nor the settings show\<close>

definition unseen :: "(machine \<Rightarrow> machine) \<Rightarrow> bool" where
  "unseen f \<longleftrightarrow> (\<forall>s. config_view (f s) = config_view s \<and> layout_view (f s) = layout_view s)"

lemma unseen_views: "unseen f \<Longrightarrow> config_view (f s) = config_view s" "unseen f \<Longrightarrow> layout_view (f s) = layout_view s"
  by (simp_all add: unseen_def)

lemma unseen_fields [simp]:
  "unseen (error_text fmt name)" "unseen (error_out f x)" "unseen (parse_error m)" "unseen (parse_warn m)"
  "unseen (upd_label q h)" "unseen (upd_inst q g)" "unseen (free_inst q)" "unseen (add_use q u)" "unseen (push_local q)"
  "unseen (cons_label q)" "unseen (user_kernel_data_segment b)" "unseen (user_kernel_text_segment b)"
  "unseen end_of_assembly_file" "unseen enable_data_alignment" "unseen (emit_source_set t)" "unseen emit_source_clear"
  "unseen (begin_node h')"
  by (auto simp: unseen_def config_view_def layout_view_def error_text_def error_out_def parse_error_def parse_warn_def
      upd_label_def upd_inst_def free_inst_def add_use_def push_local_def cons_label_def user_kernel_data_segment_def
      user_kernel_text_segment_def end_of_assembly_file_def enable_data_alignment_def emit_source_set_def
      emit_source_clear_def begin_node_def)

lemma unseen_updates [simp]:
  "unseen (\<lambda>s. s\<lparr>label_heap := a s, next_obj := b s, label_hash_table := c s\<rparr>)" "unseen (\<lambda>s. s\<lparr>label_hash_table := c s\<rparr>)"
  "unseen (\<lambda>s. s\<lparr>local_labels := d s\<rparr>)" "unseen (\<lambda>s. s\<lparr>console_out := e s\<rparr>)" "unseen (\<lambda>s. s\<lparr>this_line_labels := f s\<rparr>)"
  "unseen (\<lambda>s. s\<lparr>next_data_pc := g s\<rparr>)" "unseen (\<lambda>s. s\<lparr>next_k_data_pc := g s\<rparr>)" "unseen (\<lambda>s. s\<lparr>auto_align := h s\<rparr>)"
  "unseen (\<lambda>s. s\<lparr>exception_occurred := h s\<rparr>)" "unseen (\<lambda>s. s\<lparr>line_no := i s\<rparr>)" "unseen (\<lambda>s. s\<lparr>saved_line := j s\<rparr>)"
  "unseen (\<lambda>s. s\<lparr>parse_error_occurred := h s\<rparr>)" "unseen (\<lambda>s. s\<lparr>line_no := i s, saved_line := j s\<rparr>)"
  "unseen (\<lambda>s. s\<lparr>data_dir := h s, text_dir := k s\<rparr>)" "unseen (\<lambda>s. s\<lparr>data_dir := h s, text_dir := k s, auto_align := l s\<rparr>)"
  "unseen (\<lambda>s. s\<lparr>parse_errors_seen := m s, parse_error_occurred := h s, data_dir := k s, text_dir := l s\<rparr>)"
  by (simp_all add: unseen_def config_view_def layout_view_def)

lemma unseen_bump_lui [simp]: "unseen (bump_lui p)"
  by (cases p) (simp_all add: bump_lui_def upd_inst_def unseen_def config_view_def layout_view_def)

lemma unseen_seg [simp]: "unseen (emit_seg kind b a)"
  by (cases kind) (auto simp: unseen_def emit_seg_def Let_def user_kernel_text_segment_def user_kernel_data_segment_def
      set_text_pc_def set_data_pc_def enable_data_alignment_def config_view_def layout_view_def)

lemma unseen_fix [simp]: "unseen (fix_current_label_address a)"
proof -
  have "config_view (fold (\<lambda>q. upd_label q h) qs s) = config_view s \<and> layout_view (fold (\<lambda>q. upd_label q h) qs s) = layout_view s"
    for qs h and s :: machine
    by (induction qs arbitrary: s) (simp_all add: unseen_views [OF unseen_fields(5)])
  then show ?thesis by (simp add: unseen_def fix_current_label_address_def)
qed

text \<open>A predicate of the machine, on the parser's state.\<close>

definition at_mach :: "(machine \<Rightarrow> bool) \<Rightarrow> pstate \<Rightarrow> bool" where
  "at_mach I p = I (mach p)"

text \<open>The same for the parser's state.\<close>

definition hidden :: "(pstate \<Rightarrow> pstate) \<Rightarrow> bool" where
  "hidden f \<longleftrightarrow> (\<forall>p. config_view (mach (f p)) = config_view (mach p) \<and> layout_view (mach (f p)) = layout_view (mach p))"

lemma hidden_same: "(\<And>p. mach (f p) = mach p) \<Longrightarrow> hidden f"
  by (simp add: hidden_def)

lemma hidden_mach [simp]: "unseen f \<Longrightarrow> hidden (upd_mach f)"
  by (simp add: hidden_def unseen_def upd_mach_def)

lemma mach_append [simp]: "mach (ast_append node p) = mach p"
  by (simp add: ast_append_def split: option.split)

lemma hidden_nodes [simp]:
  "hidden (upd_scan g)" "hidden (ast_append node)" "hidden (emit_r op a b c)" "hidden (emit_r_shift op a b c)"
  "hidden (emit_i op a b e)" "hidden (emit_j op e)" "hidden (emit_fp_r op a b c)" "hidden (emit_fp_compare op a b c)"
  "hidden nop_inst" "hidden trap_inst" "hidden (add_node mk)" "hidden (data_int_begin kind)" "hidden (data_fp_begin kind)"
  "hidden (data_fp_push v)" "hidden scanner_force_identifier"
  by (rule hidden_same, simp add: upd_scan_def emit_r_def emit_r_shift_def emit_i_def emit_j_def emit_fp_r_def
      emit_fp_compare_def nop_inst_def trap_inst_def add_node_def data_int_begin_def data_fp_begin_def data_fp_push_def
      scanner_force_identifier_def)+

lemma hidden_finalize [simp]: "hidden data_int_finalize" "hidden data_fp_finalize"
  by (rule hidden_same, simp add: data_int_finalize_def data_fp_finalize_def Let_def)+

lemma hidden_emits [simp]: "list_all hidden fs \<Longrightarrow> hidden (emits fs)"
proof (induction fs)
  case Nil
  show ?case by (rule hidden_same) (simp add: emits_def)
next
  case (Cons f fs)
  then have "hidden f" "hidden (emits fs)" by simp_all
  then show ?case by (simp add: hidden_def emits_def)
qed

lemma hidden_expansions [simp]:
  "hidden (div_inst op a b c k)" "hidden (mult_inst op a b c)" "hidden (set_inst op a b c)"
  by (auto simp: div_inst_def mult_inst_def set_inst_def set_le_inst_def set_gt_inst_def set_ge_inst_def set_eq_inst_def
      Let_def)

lemma unseen_errors_out [simp]: "unseen (errors_out n fmt t)"
proof -
  have "config_view (errors_out n fmt t s) = config_view s \<and> layout_view (errors_out n fmt t s) = layout_view s" for s
    by (induction n arbitrary: s) (simp_all add: unseen_views [OF unseen_fields(1)])
  then show ?thesis by (simp add: unseen_def)
qed

lemma unseen_bad_hex [simp]: "unseen bad_hex"
  by (simp add: bad_hex_def)

lemma hidden_lines [simp]:
  "hidden (\<lambda>p. (upd_mach (\<lambda>s. if b then s\<lparr>saved_line := None\<rparr> else s) p)\<lparr>scan := c\<rparr>)"
  "hidden (\<lambda>p. (upd_scan g p)\<lparr>scan_value := v p\<rparr>)" "hidden (\<lambda>p. p\<lparr>expr_unresolved_label := None\<rparr>)"
  "hidden (\<lambda>p. if expr_unresolved_label p = None then p\<lparr>expr_unresolved_label := u\<rparr> else p)"
  "hidden (\<lambda>p. p\<lparr>data_int_buf := d p, expr_unresolved_label := u\<rparr>)" "hidden (\<lambda>p. p\<lparr>null_term := b\<rparr>)"
  "hidden (\<lambda>p. p\<lparr>current_pseudo := q p\<rparr>)"
  "hidden (\<lambda>p. case current_pseudo p of Some node \<Rightarrow> ast_append node (p\<lparr>current_pseudo := saved\<rparr>) | None \<Rightarrow> p\<lparr>current_pseudo := saved\<rparr>)"
  "hidden maybe_snapshot_line" "hidden (scanner_init file)" "hidden (emit_dir_seg kind b a)" "hidden (parser_init file name)"
  "hidden (\<lambda>p. scanner_start_line (upd_mach (\<lambda>s. s\<lparr>parse_error_occurred := False\<rparr>) p))"
  by (simp_all add: hidden_def upd_scan_def maybe_snapshot_line_def scanner_init_def emit_dir_seg_def parser_init_def upd_mach_def
      scanner_start_line_def config_view_def layout_view_def Let_def split: option.split)

subsection \<open>Growth of the kernel data segment\<close>

lemma expand_k_data_layout:
  assumes "alloc_bounded H" and "mem_inv s"
  shows "mem_inv (final (expand_k_data H n s))"
proof -
  let ?old = "k_data_top s - K_DATA_BOT" and ?d = "ROUND_UP n 4"
  show ?thesis
  proof (cases "n <s 0 \<or> k_data_size_limit s <s ?old + ?d \<or> \<not> alloc_ok H (to_size_t (?old + ?d))")
    case True
    then show ?thesis using assms(2) by (auto simp: expand_k_data_def Let_def)
  next
    case False
    then have n: "\<not> n <s 0" and lim: "\<not> k_data_size_limit s <s ?old + ?d" and ok: "alloc_ok H (to_size_t (?old + ?d))"
      by auto
    have b: "K_DATA_BOT \<le> k_data_top s" "k_data_top s AND 3 = 0" "unat ?old \<le> unat (k_data_size_limit s)"
        "unat (k_data_size_limit s) \<le> 0x6fff0000"
      using assms(2) by (simp_all add: mem_inv_def mem_ok_def limits_ok_def)
    have g: "unat (?old + ?d) = unat ?old + unat ?d" "unat (?old + ?d) \<le> unat (k_data_size_limit s)"
      using grown_size [OF assms(1) ok b(3) _ lim round_up_request(2) [OF n]] b(4) by simp_all
    have kt: "unat (k_data_top s) = 0x90000000 + unat ?old" using b(1) by (simp add: unat_sub32 word_le_nat_alt)
    have top: "unat (k_data_top s + ?d) = 0x90000000 + unat (?old + ?d)"
      using kt g b(4) by (simp add: unat_add32)
    have "unat ?d mod 4 = 0" using round_up_request [OF n] by auto
    then have al: "(k_data_top s + ?d) AND 3 = 0"
      using b(2) kt top g(1) by (simp add: aligned4_iff) presburger
    let ?t = "final (expand_k_data H n s)"
    have t: "k_data_top ?t = k_data_top s + ?d" "data_top ?t = data_top s" "stack_bot ?t = stack_bot s"
        "data_size_limit ?t = data_size_limit s" "stack_size_limit ?t = stack_size_limit s"
        "k_data_size_limit ?t = k_data_size_limit s"
      using n lim ok by (simp_all add: expand_k_data_def Let_def)
    have "unat (k_data_top s + ?d - K_DATA_BOT) = unat (?old + ?d)"
      using top by (simp add: unat_sub32 word_le_nat_alt)
    then show ?thesis
      using assms(2) al top g b(4) unfolding mem_inv_def mem_ok_def limits_ok_def t by (simp add: word_le_nat_alt)
  qed
qed

lemma keeps_lookup:
  assumes "list_all (\<lambda>e. keeps J (snd e)) t" and "keeps J d"
  shows "keeps J (case map_of t k of None \<Rightarrow> d | Some m \<Rightarrow> m)"
  using assms by (auto simp: list_all_iff split: option.split dest!: map_of_SomeD)

text \<open>What follows keeps what has been established.\<close>

lemma keeps_then: "J (final (m s)) \<Longrightarrow> keeps J n \<Longrightarrow> J (final (seq m n s))"
  by (auto simp: seq_def bnd_def keepsD split: sum.splits)

lemma keeps_gets_of: "(\<And>s. J s \<Longrightarrow> keeps J (k (f s))) \<Longrightarrow> keeps J (bnd (gets f) k)"
  by (simp add: keeps_def)

subsection \<open>The back end\<close>

locale loader_invariant = view_invariant +
  assumes grow_kernel: "keeps I (expand_k_data H n)"
    and modes: "I s \<Longrightarrow> I (s\<lparr>bare_machine := b, accept_pseudo_insts := c\<rparr>)"
begin

lemma change: "unseen f \<Longrightarrow> keeps I (modify f)"
  by (rule change_insts) (simp_all add: unseen_def)

lemma kept: "unseen f \<Longrightarrow> I s \<Longrightarrow> I (f s)"
  using change keepsD [of I "modify f"] by fastforce

lemma label_kept: "keeps I (deref_label p)"
  by (rule keepsI) (simp add: deref_label_def split: option.split)

lemma encode_kept: "keeps I (encode_inst i)" "keeps I (deref_expr i)"
  unfolding encode_inst_def deref_expr_def by (intro keeps_intros)+

lemmas base_kept = keeps_bnd keeps_seq keeps_gets keeps_whn keeps_if keeps_ret keeps_throw keeps_option keeps_let
  label_kept encode_kept deref_kept writes reads fetch allocate grow grow_kernel write_inst change

lemma chain_kept: "keeps I (find_in_chain name qs)"
  by (induction qs; unfold find_in_chain.simps; intro base_kept; assumption)

lemma table_kept:
  "keeps I (get_hash name)" "keeps I (label_is_defined name)" "keeps I (lookup_label name)" "keeps I (make_label_global name)"
  "keeps I (make_imm_expr v symb b)" "keeps I (eval_imm_expr e)" "keeps I (make_addr_expr v symb r)"
  unfolding get_hash_def label_is_defined_def lookup_label_def make_label_global_def make_imm_expr_def eval_imm_expr_def
    make_addr_expr_def split_def Let_def
  by (intro base_kept chain_kept; simp)+

lemmas table_intros = base_kept chain_kept table_kept

lemma uses_kept: "keeps I (copy_inst q)" "keeps I (record_inst_uses_symbol q symb)" "keeps I (record_data_uses_symbol a symb)"
    "keeps I (symbol_known p)" "keeps I (lui_before e p)" "keeps I (compensate_lui e a)" "keeps I (reference_value i e a)"
  unfolding copy_inst_def record_inst_uses_symbol_def record_data_uses_symbol_def symbol_known_def lui_before_def
    compensate_lui_def reference_value_def
  by (intro table_intros; simp)+

lemma resolution_kept: "keeps I (resolve_inst H q a)" "keeps I (resolve_a_label_sub H symb inst a)" "keeps I (resolve_a_label H symb q)"
    "keeps I (resolve_use H q u)"
  unfolding resolve_inst_def resolve_a_label_sub_def resolve_a_label_def resolve_use_def split_def Let_def
  by (intro table_intros uses_kept print; simp)+

lemma resolve_uses_kept: "keeps I (resolve_uses_of H symb us)"
  by (induction us; unfold resolve_uses_of.simps; intro base_kept resolution_kept; assumption)

lemma define_kept: "keeps I (resolve_label_uses H symb)" "keeps I (record_label H name a b)" "keeps I (unlink_label b l)"
    "keeps I (find_symbol_address name)"
  unfolding resolve_label_uses_def record_label_def unlink_label_def find_symbol_address_def split_def
  by (intro table_intros resolve_uses_kept; simp)+

lemma flush_kept: "keeps I (flush_from fuel b p)"
  by (induction fuel b p rule: flush_from.induct; unfold flush_from.simps; intro base_kept define_kept; assumption)

lemma flush_local_kept: "keeps I (flush_local_labels fuel b)"
  unfolding flush_local_labels_def by (intro base_kept flush_kept) simp

lemmas symbol_intros = table_intros uses_kept resolution_kept resolve_uses_kept define_kept flush_local_kept

lemma clear_kept: "keeps I (clear_label_list H qs)"
  by (induction qs; unfold clear_label_list.simps; intro symbol_intros; (assumption | simp))

lemma clear_labels_kept: "keeps I (clear_labels H)"
  unfolding clear_labels_def by (intro base_kept clear_kept)

lemma align_kept: "keeps I (align_data n)" "keeps I (align_text n)"
proof -
  have "I (s\<lparr>data_auto_alignment := b\<rparr>)" "I (s\<lparr>text_auto_alignment := b\<rparr>)" "I (s\<lparr>next_data_pc := a\<rparr>)"
      "I (s\<lparr>next_k_data_pc := a\<rparr>)" "I (s\<lparr>next_text_pc := a\<rparr>)" "I (s\<lparr>next_k_text_pc := a\<rparr>)" if "I s" for s b a
    by (rule insts_free [OF _ _ that]; simp add: config_view_def layout_view_def)+
  then show "keeps I (align_data n)" "keeps I (align_text n)"
    by (auto simp: align_data_def align_text_def keeps_def split: option.split intro: kept [OF unseen_fix])
qed

lemma increment_text_kept: "keeps I (increment_text_pc n)"
proof -
  have "I (s\<lparr>next_text_pc := a\<rparr>)" "I (s\<lparr>next_k_text_pc := a\<rparr>)" if "I s" for s a
    by (rule insts_free [OF _ _ that]; simp add: config_view_def layout_view_def)+
  then show ?thesis by (auto simp: increment_text_pc_def keeps_def Let_def)
qed

lemma stores_kept: "keeps I (set_data_alignment n)" "keeps I (increment_data_pc H n)" "keeps I (store_byte H v)" "keeps I (store_half H v)"
    "keeps I (store_word H v)" "keeps I (store_double H d)" "keeps I (store_float H d)"
  unfolding set_data_alignment_def increment_data_pc_def store_byte_def store_half_def store_word_def store_double_def
    store_float_def split_def Let_def
  by (intro base_kept align_kept; simp)+

lemma bytes_kept: "keeps I (store_bytes_of H bs)"
  by (induction bs; unfold store_bytes_of.simps; intro base_kept stores_kept; assumption)

text \<open>The builders of instructions.\<close>

lemma store_inst_kept: "keeps I (annotate_and_encode q)" "keeps I (store_instruction H q)"
proof -
  have "unseen (\<lambda>s. upd_inst q (g s) s)" for g :: "machine \<Rightarrow> mips_instruction \<Rightarrow> mips_instruction"
    by (simp add: unseen_def upd_inst_def config_view_def layout_view_def)
  then show a: "keeps I (annotate_and_encode q)"
    unfolding annotate_and_encode_def by (intro base_kept; simp)
  show "keeps I (store_instruction H q)"
    unfolding store_instruction_def split_def by (intro base_kept stores_kept increment_text_kept a; simp)
qed

lemma register_kept: "keeps I (emit_inst H i)" "keeps I (r_type_inst H op a b c)" "keeps I (r_co_type_inst H op a b c)"
    "keeps I (r_sh_type_inst H op a b v)" "keeps I (r_cond_type_inst H op a b v)"
  unfolding emit_inst_def r_type_inst_def r_co_type_inst_def r_sh_type_inst_def r_cond_type_inst_def Let_def
  by (intro base_kept store_inst_kept; simp)+

lemma imm_kept: "keeps I (imm_op_to_op op)" "keeps I (op_to_imm_op op)" "keeps I (gp_offset e r)"
  unfolding imm_op_to_op_def op_to_imm_op_def gp_offset_def Let_def by (intro base_kept)+

lemma full_word_kept:
  assumes "\<And>op rt rs e. keeps I (J op rt rs e)"
  shows "keeps I (i_type_inst_full_word H J op rt rs e b v)"
  unfolding i_type_inst_full_word_def load_store_full_word_def produce_immediate_def Let_def
  by (intro base_kept imm_kept register_kept assms)

lemma i_type_kept: "keeps I (i_type_inst H fuel op rt rs e)"
proof (induction fuel arbitrary: op rt rs e)
  case 0
  show ?case unfolding i_type_inst.simps by (rule keeps_throw)
next
  case (Suc fuel)
  show ?case unfolding i_type_inst.simps
    by (intro symbol_intros store_inst_kept full_word_kept Suc; simp)
qed

lemma j_type_kept: "keeps I (j_type_inst H op e)"
  unfolding j_type_inst_def Let_def by (intro symbol_intros store_inst_kept)

lemmas inst_intros = symbol_intros register_kept i_type_kept j_type_kept stores_kept bytes_kept align_kept clear_labels_kept

lemma directives_kept: "keeps I (store_string H bs b)" "keeps I (align_datum n)" "keeps I (define_here H name)"
    "keeps I (emit_label H kind name v)"
proof -
  have "unseen (align_labels_to n)"
    by (auto simp: unseen_def align_labels_to_def unseen_views [OF unseen_fix])
  then show "keeps I (align_datum n)" unfolding align_datum_def by (intro inst_intros)
  show "keeps I (emit_label H kind name v)"
    unfolding emit_label_def by (cases kind) (simp_all only: ast_label_kind.case, (intro inst_intros; simp)+)
qed (unfold store_string_def define_here_def, (intro inst_intros; simp)+)

lemma ints_kept:
  assumes "\<And>v. keeps I (store v)"
  shows "keeps I (emit_data_ints store es)"
  by (induction es; unfold emit_data_ints.simps; intro inst_intros assms; assumption)

lemma fps_kept:
  assumes "\<And>v. keeps I (store v)"
  shows "keeps I (emit_data_fps store vs)"
  by (induction vs; unfold emit_data_fps.simps; intro inst_intros assms; assumption)

lemma leaf_kept: "keeps I (emit_leaf H n)"
  by (cases n) (simp_all only: emit_leaf.simps, (intro inst_intros directives_kept ints_kept fps_kept; simp)+)

lemma tree_kept: "keeps I (emit_one H n)" "keeps I (emit_children H ns)"
proof -
  have "G = H \<Longrightarrow> keeps I (emit_one G n)" and "K = H \<Longrightarrow> keeps I (emit_children K ns)" for G K n ns
    by (induction G n and K ns rule: emit_one_emit_children.induct)
      (simp_all only: emit_one.simps emit_children.simps, (intro inst_intros leaf_kept; simp)+)
  then show "keeps I (emit_one H n)" "keeps I (emit_children H ns)" by blast+
qed

lemma ast_kept: "keeps I (emit_ast H f)"
  unfolding emit_ast_def by (cases f) (simp_all only: ast_node.case, (intro inst_intros tree_kept; simp)+)

text \<open>The scanner.\<close>

lemma on_mach_kept: "keeps I m \<Longrightarrow> keeps (at_mach I) (on_mach m)"
  by (auto simp: keeps_def on_mach_def at_mach_def split: sum.splits dest!: keepsD) 

lemma hidden_kept: "hidden f \<Longrightarrow> keeps (at_mach I) (modify f)"
  by (auto simp: keeps_def at_mach_def hidden_def intro: insts_free)

lemmas parse_base = keeps_bnd keeps_seq keeps_gets keeps_whn keeps_if keeps_ret keeps_throw keeps_option keeps_let
  on_mach_kept hidden_kept

lemma text_kept: "keeps (at_mach I) (scan_fp H neg n)" "keeps (at_mach I) (scan_int neg)" "keeps (at_mach I) (scan_escape_char r)"
    "keeps (at_mach I) (name_token name)" "keeps (at_mach I) (close_char v)"
  unfolding scan_fp_def scan_int_def scan_escape_char_def name_token_def close_char_def Let_def
  by (intro parse_base table_kept label_kept; simp)+

lemma token_kept: "keeps (at_mach I) (scan_identifier b)" "keeps (at_mach I) scan_register" "keeps (at_mach I) scan_string"
    "keeps (at_mach I) scan_char" "keeps (at_mach I) (scan_number H neg)"
  unfolding scan_identifier_def scan_register_def scan_string_def scan_char_def scan_number_def Let_def split_def
  by (intro parse_base text_kept; simp)+

lemma scan_at_kept: "keeps (at_mach I) (scan_at H b)"
  unfolding scan_at_def Let_def split_def by (intro parse_base token_kept; simp)

lemma scan_one_kept: "keeps (at_mach I) (scan_one_token H)"
  unfolding scan_one_token_def split_def by (intro parse_base scan_at_kept; simp)

lemma filled_kept: "keeps (at_mach I) (ensure_filled H n)"
  by (induction n; unfold ensure_filled.simps; intro parse_base scan_one_kept; (assumption | simp))

lemma peek_kept: "keeps (at_mach I) (scanner_peek H)" "keeps (at_mach I) (scanner_peek2 H)" "keeps (at_mach I) (scanner_advance H)"
  unfolding scanner_peek_def scanner_peek2_def scanner_advance_def by (intro parse_base filled_kept; simp)+

text \<open>The operands.\<close>

lemma val_kept:
  assumes "\<And>i. keeps J (f i)" "\<And>t. keeps J (g t)" "\<And>d. keeps J (h d)"
  shows "keeps J (case v of SV_Int i \<Rightarrow> f i | SV_Str t \<Rightarrow> g t | SV_Fp d \<Rightarrow> h d)"
  using assms by (cases v) simp_all

lemmas parse_intros = parse_base val_kept peek_kept table_kept label_kept

lemma advance_kept: "keeps (at_mach I) (advance_int H)" "keeps (at_mach I) (advance_str H)" "keeps (at_mach I) (advance_fp H)"
    "keeps (at_mach I) (parse_error_at msg)" "keeps (at_mach I) force_identifier"
  unfolding advance_int_def advance_str_def advance_fp_def parse_error_at_def force_identifier_def
  by (intro parse_intros; simp)+

lemmas advance_intros = parse_intros advance_kept

lemma sync_kept: "keeps (at_mach I) (sync_to_nl H n)"
  by (induction n; unfold sync_to_nl.simps; intro advance_intros; assumption)

lemma expect_kept: "keeps (at_mach I) (expect H t what)"
  unfolding expect_def by (intro advance_intros)

lemma register_operand_kept: "keeps (at_mach I) (parse_register H)" "keeps (at_mach I) (parse_fp_register H)"
    "keeps (at_mach I) (parse_abs_addr H)" "keeps (at_mach I) (term_div a b)" "keeps (at_mach I) (factor_name H)"
  unfolding parse_register_def parse_fp_register_def parse_abs_addr_def term_div_def factor_name_def
  by (intro advance_intros; simp)+

lemmas operand_intros = advance_intros sync_kept expect_kept register_operand_kept

lemma expr_kept: "keeps (at_mach I) (parse_factor H n)" "keeps (at_mach I) (parse_term H n)" "keeps (at_mach I) (term_loop H n v)"
    "keeps (at_mach I) (parse_expr H n)" "keeps (at_mach I) (expr_loop H n v)"
proof (induction n arbitrary: v)
  case 0
  show "keeps (at_mach I) (parse_factor H 0)" "keeps (at_mach I) (parse_term H 0)" "keeps (at_mach I) (term_loop H 0 v)"
    "keeps (at_mach I) (parse_expr H 0)" "keeps (at_mach I) (expr_loop H 0 v)" for v
    by (unfold parse_factor.simps parse_term.simps term_loop.simps parse_expr.simps expr_loop.simps; rule keeps_throw)+
next
  case (Suc n)
  show "keeps (at_mach I) (parse_factor H (Suc n))" "keeps (at_mach I) (parse_term H (Suc n))"
    "keeps (at_mach I) (term_loop H (Suc n) v)" "keeps (at_mach I) (parse_expr H (Suc n))"
    "keeps (at_mach I) (expr_loop H (Suc n) v)" for v
    by (unfold parse_factor.simps parse_term.simps term_loop.simps parse_expr.simps expr_loop.simps; intro operand_intros Suc)+
qed

lemma expression_kept: "keeps (at_mach I) (parse_expression H n)"
  unfolding parse_expression_def by (intro operand_intros expr_kept; simp)

lemma range_kept: "keeps I (check_imm_range e lo hi)" "keeps I (check_uimm_range e lo hi)"
  unfolding check_imm_range_def check_uimm_range_def by (intro table_intros uses_kept; simp)+

lemma immediate_kept: "keeps (at_mach I) (parse_imm32 H)" "keeps (at_mach I) (parse_label H)" "keeps (at_mach I) (opt_base H)"
  unfolding parse_imm32_def parse_label_def opt_base_def by (intro operand_intros)+

lemma checked_kept: "keeps (at_mach I) (parse_imm16 H)" "keeps (at_mach I) (parse_uimm16 H)" "keeps (at_mach I) (parse_address H)"
  unfolding parse_imm16_def parse_uimm16_def parse_address_def by (intro operand_intros immediate_kept range_kept)+

lemmas shape_intros = operand_intros expression_kept immediate_kept checked_kept imm_kept range_kept

lemma reg_or_imm_kept:
  assumes "\<And>r. keeps (at_mach I) (f r)" "\<And>e. keeps (at_mach I) (g e)"
  shows "keeps (at_mach I) (reg_or_imm H f g)"
  unfolding reg_or_imm_def by (intro shape_intros assms)

lemma two_regs_kept:
  assumes "\<And>a b. keeps (at_mach I) (k a b)"
  shows "keeps (at_mach I) (two_regs H k)"
  unfolding two_regs_def by (intro shape_intros assms)

text \<open>The instructions, by operand shape.\<close>

lemma shapes_kept: "keeps (at_mach I) (emit_sub_imm op rd rs e)" "keeps (at_mach I) (parse_r2sh H op)" "keeps (at_mach I) (parse_r1s H op)"
    "keeps (at_mach I) (parse_i2 H op)" "keeps (at_mach I) (parse_i1t H op)" "keeps (at_mach I) (parse_i2a H op)"
    "keeps (at_mach I) (parse_b2 H op)" "keeps (at_mach I) (parse_b1 H op)" "keeps (at_mach I) (parse_j H op)"
    "keeps (at_mach I) (parse_noarg H op)" "keeps (at_mach I) (opt_int H)" "keeps (at_mach I) (coprocessor_register H)"
  unfolding emit_sub_imm_def parse_r2sh_def parse_r1s_def parse_i2_def parse_i1t_def parse_i2a_def parse_b2_def parse_b1_def
    parse_j_def parse_noarg_def opt_int_def coprocessor_register_def
  by (intro shape_intros reg_or_imm_kept; simp)+

lemma r3_kept: "keeps (at_mach I) (parse_r3 H op)" "keeps (at_mach I) (parse_div H op r1)"
  unfolding parse_r3_def parse_div_def by (intro shape_intros shapes_kept reg_or_imm_kept; simp)+

lemma addr_kept:
  assumes "keeps (at_mach I) reg" "\<And>a b e. list_all hidden (k a b e)"
  shows "keeps (at_mach I) (reg_and_addr H reg k)"
  unfolding reg_and_addr_def by (intro shape_intros assms hidden_emits)

lemmas op_intros = shape_intros shapes_kept r3_kept reg_or_imm_kept two_regs_kept addr_kept

lemma arith_kept: "keeps (at_mach I) (pseudo_rotate H b)" "keeps (at_mach I) (pseudo_set H op)" "keeps (at_mach I) (pseudo_abs H)"
    "keeps (at_mach I) (pseudo_rem H op)" "keeps (at_mach I) (pseudo_mulo H op)" "keeps (at_mach I) (pseudo_move_double H op)"
    "keeps (at_mach I) (pseudo_li_d H)" "keeps (at_mach I) (pseudo_li_s H)"
  unfolding pseudo_rotate_def pseudo_set_def pseudo_abs_def pseudo_rem_def pseudo_mulo_def pseudo_move_double_def
    pseudo_li_d_def pseudo_li_s_def
  by (intro op_intros; simp)+

lemma branches_kept: "keeps (at_mach I) (pseudo_bgt H op)" "keeps (at_mach I) (pseudo_bge H op)" "keeps (at_mach I) (pseudo_blt H op)"
    "keeps (at_mach I) (pseudo_ble H op)"
  unfolding pseudo_bgt_def pseudo_bge_def pseudo_blt_def pseudo_ble_def by (intro op_intros; simp)+

lemma arith_table: "list_all (\<lambda>e. keeps (at_mach I) (snd e)) (pseudo_arith H)"
  unfolding pseudo_arith_def list.pred_inject snd_conv by (intro conjI TrueI op_intros arith_kept; simp)

lemma memory_table: "list_all (\<lambda>e. keeps (at_mach I) (snd e)) (pseudo_memory H)"
  unfolding pseudo_memory_def list.pred_inject snd_conv
  by (intro conjI TrueI op_intros arith_kept; simp add: two_words_def unaligned_word_def unaligned_load_half_def
      unaligned_store_half_def load_address_def)

lemma branch_table: "list_all (\<lambda>e. keeps (at_mach I) (snd e)) (pseudo_branches H)"
  unfolding pseudo_branches_def list.pred_inject snd_conv by (intro conjI TrueI op_intros branches_kept; simp)

lemma unknown_kept: "keeps (at_mach I) (seq (parse_error_at msg) (sync_to_nl H n))"
  by (intro op_intros)

lemma pseudo_kept: "keeps (at_mach I) (do_parse_pseudo H n op)" "keeps (at_mach I) (parse_pseudo H n op)"
proof -
  have "list_all (\<lambda>e. keeps (at_mach I) (snd e)) (pseudo_arith H @ pseudo_memory H @ pseudo_branches H)"
    by (simp add: arith_table memory_table branch_table)
  then show a: "keeps (at_mach I) (do_parse_pseudo H n op)"
    unfolding do_parse_pseudo_def by (rule keeps_lookup [OF _ unknown_kept])
  show "keeps (at_mach I) (parse_pseudo H n op)"
    unfolding parse_pseudo_def by (intro op_intros a; simp)
qed

lemma operands_kept: "keeps (at_mach I) (parse_rs_rt H op)" "keeps (at_mach I) (parse_rd_rt_rs H op)" "keeps (at_mach I) (parse_bc H op)"
    "keeps (at_mach I) (parse_fp_movc H op)" "keeps (at_mach I) (parse_cop H op)"
  unfolding parse_rs_rt_def parse_rd_rt_rs_def parse_bc_def parse_fp_movc_def parse_cop_def by (intro op_intros; simp)+

lemma shape_kept: "keeps (at_mach I) (parse_shape H n kind op)"
proof (cases kind)
  case None
  then show ?thesis unfolding parse_shape_def by (simp only: option.case unknown_kept)
next
  case (Some k)
  then show ?thesis
    unfolding parse_shape_def
    by (cases k) (simp_all only: option.case op_type.case, (intro op_intros operands_kept pseudo_kept; simp)+)
qed

lemma code_kept: "keeps (at_mach I) (parse_asm_code H n)"
  unfolding parse_asm_code_def by (intro op_intros shape_kept)

text \<open>The directives.\<close>

lemma segment_kept: "keeps (at_mach I) (parse_dir_seg H kind)" "keeps (at_mach I) (parse_dir_globl H)"
    "keeps (at_mach I) (parse_dir_align H n)" "keeps (at_mach I) (parse_dir_named H n mk)" "keeps (at_mach I) (parse_dir_space H n)"
    "keeps (at_mach I) (data_int_push v)"
  unfolding parse_dir_seg_def parse_dir_globl_def parse_dir_align_def parse_dir_named_def parse_dir_space_def data_int_push_def
  by (intro op_intros; simp)+

lemma list_kept: "keeps (at_mach I) (expr_list_loop H n)" "keeps (at_mach I) (parse_fp_expr_list H n)"
    "keeps (at_mach I) (parse_string_list H n)"
proof (induction n)
  case 0
  show "keeps (at_mach I) (expr_list_loop H 0)" "keeps (at_mach I) (parse_fp_expr_list H 0)" "keeps (at_mach I) (parse_string_list H 0)"
    by (unfold expr_list_loop.simps parse_fp_expr_list.simps parse_string_list.simps; rule keeps_throw)+
next
  case (Suc n)
  show "keeps (at_mach I) (expr_list_loop H (Suc n))" "keeps (at_mach I) (parse_fp_expr_list H (Suc n))"
    "keeps (at_mach I) (parse_string_list H (Suc n))"
    by (unfold expr_list_loop.simps parse_fp_expr_list.simps parse_string_list.simps split_def;
        intro op_intros segment_kept Suc; simp)+
qed

lemma values_kept: "keeps (at_mach I) (parse_dir_ints H n kind)"
  unfolding parse_dir_ints_def parse_expr_list_def by (intro op_intros list_kept; simp)

lemma directive_table: "list_all (\<lambda>e. keeps (at_mach I) (snd e)) (directives H n)"
  unfolding directives_def list.pred_inject snd_conv parse_dir_data_def parse_dir_text_def parse_dir_word_def
    parse_dir_half_def parse_dir_byte_def parse_dir_ascii_def parse_dir_asciiz_def parse_dir_float_def parse_dir_double_def
    parse_dir_comm_def parse_dir_extern_def
  by (intro conjI TrueI op_intros segment_kept list_kept values_kept directives_kept; simp)

lemma directive_kept: "keeps (at_mach I) (parse_directive H n t)"
  unfolding parse_directive_def by (rule keeps_lookup [OF directive_table]) (intro op_intros)

text \<open>Lines and files.\<close>

lemma statement_kept: "keeps (at_mach I) (parse_opt_label H n)" "keeps (at_mach I) (parse_statement H n t)"
    "keeps (at_mach I) (end_of_line H n)"
  unfolding parse_opt_label_def parse_statement_def end_of_line_def
  by (intro op_intros directive_kept code_kept clear_labels_kept; simp)+

lemma line_kept: "keeps (at_mach I) (parse_line H n)"
  unfolding parse_line_def by (intro op_intros statement_kept)

lemma lines_kept: "keeps (at_mach I) (parse_lines H n)"
  by (induction n; unfold parse_lines.simps; intro op_intros line_kept; (assumption | simp))

text \<open>The printers only read.\<close>

lemma imm_text_kept: "keeps I (print_imm e)" "keeps I (json_imm e)"
  unfolding print_imm_def json_imm_def expr_name_def by (intro base_kept)+

lemma texts_kept:
  assumes "\<And>x. keeps I (f x)"
  shows "keeps I (texts f xs)"
  by (induction xs; unfold texts.simps; intro base_kept assms; assumption)

lemma leaf_text_kept: "keeps I (print_leaf G n)" "keeps I (json_fields G n)"
  by (cases n; simp only: print_leaf.simps json_fields.simps; intro base_kept texts_kept imm_text_kept)+

lemma head_kept: "keeps I (print_head G n d)" "keeps I (json_body G n)"
  unfolding print_head_def json_body_def by (intro base_kept leaf_text_kept)+

lemma dump_kept: "keeps I (print_node G n d)" "keeps I (print_chain G ns d)"
  by (induction G n d and G ns d rule: print_node_print_chain.induct)
    (simp_all only: print_node.simps print_chain.simps, (intro base_kept head_kept; assumption)+)

lemma walk_kept: "keeps I (print_pseudo_walk G n)" "keeps I (print_pseudo_in_chain G ns)"
  by (induction G n and G ns rule: print_pseudo_walk_print_pseudo_in_chain.induct)
    (simp_all only: print_pseudo_walk.simps print_pseudo_in_chain.simps ast_print_def, (intro base_kept dump_kept; assumption)+)

lemma json_kept: "keeps I (json_node G n)" "keeps I (json_nodes G ns)"
  by (induction G n and G ns rule: json_node_json_nodes.induct)
    (simp_all only: json_node.simps json_nodes.simps, (intro base_kept head_kept; assumption)+)

lemma dump_tree_kept: "keeps (at_mach I) (dump_tree H f)"
  unfolding dump_tree_def dump_text_def split_def ast_print_def ast_print_json_def
  by (intro parse_base base_kept dump_kept walk_kept json_kept; simp)

lemma file_kept: "keeps (at_mach I) (parse_file H n)"
  unfolding parse_file_def split_def by (intro parse_base lines_kept clear_labels_kept dump_tree_kept ast_kept)

subsection \<open>Reading files\<close>

lemma assembly_kept: "keeps (at_mach I) (read_assembly H n t name)" "keeps (at_mach I) (loaded name)"
  unfolding read_assembly_def loaded_def by (intro parse_base file_kept flush_local_kept; simp)+

lemma reading_kept: "keeps (at_mach I) (read_assembly_file H W n name)" "keeps (at_mach I) (load_embedded_exception_handler H W n b)"
  unfolding read_assembly_file_def load_embedded_exception_handler_def by (intro parse_base assembly_kept; simp)+

lemma exception_files_kept: "keeps (at_mach I) (load_exception_files H W n b names)"
  by (induction names; unfold load_exception_files.simps; intro parse_base reading_kept assembly_kept; assumption)

lemma handler_kept: "keeps (at_mach I) (load_handler H W n b files)"
  unfolding load_handler_def
  by (cases files) (simp_all only: handler_files.case, (intro parse_base reading_kept exception_files_kept)+)

subsection \<open>Starting and running\<close>

text \<open>What \<^verbatim>\<open>initialize_world\<close> does after it has made the registers and the memory.\<close>

lemma modes_kept: "keeps (at_mach I) (modify (upd_mach (\<lambda>s. s\<lparr>bare_machine := b, accept_pseudo_insts := c\<rparr>)))"
  by (rule keepsI) (simp add: at_mach_def upd_mach_def modes)

lemma world_made:
  assumes fresh: "\<And>s. I (fresh_world z s)"
  shows "at_mach I (final (initialize_world H W n z files b p))"
proof -
  have "hidden (\<lambda>p. upd_mach delete_all_breakpoints (scanner_init t p))" for t
    by (simp add: hidden_def upd_mach_def scanner_init_def delete_all_breakpoints_def config_view_def layout_view_def)
  then have last: "keeps (at_mach I) (modify (\<lambda>p. upd_mach delete_all_breakpoints (scanner_init t p)))" for t
    by (rule hidden_kept)
  have first: "at_mach I (upd_mach (fresh_world z) p)" by (simp add: at_mach_def upd_mach_def fresh)
  show ?thesis
    unfolding initialize_world_def split_def
    by (rule keeps_then [of "at_mach I"], simp add: first)
      (intro keeps_seq keeps_whn keeps_bnd keeps_gets keeps_ret on_mach_kept modes_kept handler_kept table_kept define_kept last)
qed

lemma unseen_gpr [simp]: "unseen (set_gpr r v)" "unseen (move_sp d)" "unseen align_sp"
  by (simp_all add: unseen_def set_gpr_def move_sp_def align_sp_def config_view_def layout_view_def)

lemma push_kept: "keeps I (push_bytes H bs)"
  by (induction bs; unfold push_bytes.simps; intro base_kept; (assumption | simp))

lemma copy_kept: "keeps I (copy_str_to_stack H str)" "keeps I (copy_int_to_stack H w)"
  unfolding copy_str_to_stack_def copy_int_to_stack_def by (intro base_kept push_kept; simp)+

lemma strs_kept: "keeps I (copy_strs H j strs)"
  by (induction strs arbitrary: j; unfold copy_strs.simps; intro base_kept copy_kept; assumption)

lemma push_vector_kept: "keeps I (push_vector H r as)"
  by (induction as; unfold push_vector.simps; intro base_kept copy_kept; (assumption | simp))

lemma stack_kept: "keeps I (initialize_run_stack H W argv)"
  unfolding initialize_run_stack_def null_terminated_vector_def
  by (intro base_kept strs_kept push_vector_kept copy_kept; simp)

lemma program_kept: "keeps I (run_program H fuel pc steps display cont)"
proof -
  have "unseen (\<lambda>s. set_cp0 r (v s) s)" for r v
    by (simp add: unseen_def set_cp0_def config_view_def layout_view_def)
  then show ?thesis
    unfolding run_program_def step_over_breakpoint_def by (intro base_kept is_break run_spim delete add; simp)
qed

end

subsection \<open>The layout of the address space\<close>

interpretation loading: loader_invariant "layout_inv H" H for H
proof unfold_locales
  show "keeps (layout_inv H) (expand_k_data H n)" for n
    by (rule keepsI) (simp add: layout_inv_def expand_k_data_layout)
  show "layout_inv H s \<Longrightarrow> layout_inv H (s\<lparr>bare_machine := b, accept_pseudo_insts := c\<rparr>)" for s b c
    using mem_inv_view [of "s\<lparr>bare_machine := b, accept_pseudo_insts := c\<rparr>" s] by (simp add: layout_inv_def layout_view_def)
qed

text \<open>The ends of the text segments, which nothing moves but \<^verbatim>\<open>make_memory\<close>.\<close>

lemma text_ok_view: "layout_view t = layout_view s \<Longrightarrow> text_ok t = text_ok s"
  by (simp add: text_ok_def layout_view_def)

lemma text_ok_grown:
  "text_ok (final (expand_stack H n s)) = text_ok s" "text_ok (final (expand_data H n s)) = text_ok s"
  "text_ok (final (expand_k_data H n s)) = text_ok s" "text_ok (final (new_inst i s)) = text_ok s"
  by (simp_all add: expand_stack_def expand_data_def expand_k_data_def new_inst_def error_out_def text_ok_def Let_def)

interpretation text_ends: loader_invariant text_ok H for H
proof unfold_locales
  show "same_view s t \<Longrightarrow> text_ok s \<Longrightarrow> text_ok t" for s t using text_ok_view [of t s] by (simp add: same_view_def)
  show "keeps text_ok (write_text_as_data a v m)" for a v m by (rule keepsI) (simp add: text_ok_view [OF write_text_frame(1)])
  show "text_ok s \<Longrightarrow> text_ok (s\<lparr>bare_machine := b, accept_pseudo_insts := c\<rparr>)" for s b c by (simp add: text_ok_def)
  show "layout_view t = layout_view s \<Longrightarrow> text_ok s \<Longrightarrow> text_ok t" for s t using text_ok_view [of t s] by simp
qed (simp_all add: keeps_def text_ok_grown)

text \<open>The sizes under which \<^verbatim>\<open>make_memory\<close> makes a well-formed address space.\<close>

definition sizes_ok :: "segment_sizes \<Rightarrow> bool" where
  "sizes_ok z \<longleftrightarrow>
     initial_data_size z \<le> initial_data_limit z \<and> 65536 \<le> initial_data_limit z \<and> initial_data_limit z AND 3 = 0 \<and>
     initial_stack_size z \<le> initial_stack_limit z \<and> initial_stack_limit z AND 3 = 0 \<and>
     unat (initial_data_limit z) + unat (initial_stack_limit z) \<le> 0x70000000 \<and>
     initial_k_data_size z \<le> initial_k_data_limit z \<and> initial_k_data_limit z AND 3 = 0 \<and>
     initial_k_data_limit z \<le> 0x6fff0000 \<and>
     initial_text_size z \<le> 0x0fc00000 \<and> initial_text_size z AND 3 = 0 \<and>
     initial_k_text_size z \<le> 0x10000000 \<and> initial_k_text_size z AND 3 = 0"

lemma free_labels_layout: "layout_view (free_labels qs s) = layout_view s"
  by (simp add: free_labels_def layout_view_def)

lemma fresh_world_layout:
  assumes "sizes_ok z"
  shows "mem_inv (fresh_world z s)" "text_ok (fresh_world z s)"
proof -
  define m where "m = make_memory (initial_text_size z) (initial_data_size z) (initial_data_limit z) (initial_stack_size z)
     (initial_stack_limit z) (initial_k_text_size z) (initial_k_data_size z) (initial_k_data_limit z) s"
  have "mem_inv m"
    using assms unfolding sizes_ok_def word_le_nat_alt aligned4_iff
    by (intro make_memory_layout [OF _ _ _ _ _ _ _ _ _ m_def]) simp_all
  moreover have "text_ok m"
    using assms unfolding sizes_ok_def word_le_nat_alt aligned4_iff
    by (intro make_memory_text [OF _ _ _ _ m_def]) simp_all
  moreover have "layout_view (fresh_world z s) = layout_view m"
    using free_labels_layout unfolding fresh_world_def Let_def m_def [symmetric]
    by (simp add: layout_view_def text_begins_at_point_def k_text_begins_at_point_def data_begins_at_point_def
        k_data_begins_at_point_def initialize_symbol_table_def initialize_registers_def set_cp0_def Let_def)
  ultimately show "mem_inv (fresh_world z s)" "text_ok (fresh_world z s)" using mem_inv_view text_ok_view by blast+
qed

lemma default_sizes_ok: "sizes_ok default_sizes"
  by (simp add: sizes_ok_def default_sizes_def)

end
