(* ===== verification/Sessions.thy ===== *)
theory Sessions
  imports Loading CommandLine ParserProps
begin

text \<open>
  Every session at the command loop keeps the address space well formed: the commands that print, read files, run, step,
  set breakpoints and start anew are taken through the contract of \<open>loader_invariant\<close>, with the recovery from
  \<^verbatim>\<open>run_error\<close> between the lines.
\<close>

subsection \<open>The state of the command loop\<close>

definition at_repl :: "(machine \<Rightarrow> bool) \<Rightarrow> repl \<Rightarrow> bool" where
  "at_repl I r = at_mach I (pst r)"

lemma at_repl_modify: "(\<And>r. mach (pst (f r)) = mach (pst r)) \<Longrightarrow> keeps (at_repl I) (modify f)"
  by (rule keeps_modify) (simp add: at_repl_def at_mach_def)

lemma on_pst_kept: "keeps (at_mach I) m \<Longrightarrow> keeps (at_repl I) (on_pst m)"
  by (auto simp: keeps_def on_pst_def at_repl_def split: sum.splits)

lemma on_machine_kept: "keeps (at_mach I) (on_mach m) \<Longrightarrow> keeps (at_repl I) (on_machine m)"
  unfolding on_machine_def by (rule on_pst_kept)

lemma recovered_kept:
  assumes "keeps (at_repl I) m" and "\<And>r. at_repl I r \<Longrightarrow> at_repl I (u r)"
  shows "keeps (at_repl I) (recovered u m)"
proof (rule keepsI)
  fix r assume "at_repl I r"
  then have "at_repl I (final (m r))" using keepsD [OF assms(1)] by blast
  moreover have "at_repl I (console_to_spim x)" if "at_repl I x" for x
    using that by (simp add: at_repl_def console_to_spim_def)
  ultimately show "at_repl I (final (recovered u m r))"
    using assms(2) by (auto simp: recovered_def split: sum.split abort.split)
qed

subsection \<open>What the commands do to the machine\<close>

context loader_invariant
begin

lemma machine_kept: "keeps I m \<Longrightarrow> keeps (at_repl I) (on_machine m)"
  by (rule on_machine_kept [OF on_mach_kept])

lemma console_kept: "keeps I (write_message fmt args)" "keeps I (write_text t)" "keeps I explain_clear_suggestions"
  unfolding write_message_def write_text_def explain_clear_suggestions_def upd_explain_def
  by (rule change, simp add: unseen_def config_view_def layout_view_def)+

lemma labels_kept: "keeps I (deref_labels qs)"
  by (induction qs; unfold deref_labels.simps; intro base_kept; assumption)

lemma listing_kept: "keeps I table_labels" "keeps I print_symbols" "keeps I undefined_symbol_string"
  unfolding print_symbols_def undefined_symbol_string_def table_labels_def Let_def by (intro base_kept labels_kept; simp)+

lemma format_insts_kept: "keeps I (format_insts H n a b)"
  by (induction n arbitrary: a; unfold format_insts.simps; intro base_kept format; assumption)

lemma text_listing_kept: "keeps I (print_text_listing H n)"
  unfolding print_text_listing_def by (intro base_kept format_insts_kept console_kept)

lemma memory_kept: "keeps I (print_mem H a)"
proof -
  have "keeps I (bnd (mem_read_word H b) (\<lambda>v. write_message t (ws v)))" for b t ws
    by (intro base_kept console_kept)
  then show ?thesis
    using print by (auto simp: keeps_def print_mem_def Let_def intro: keepsD [OF console_kept(1)])
qed

lemma words_kept: "keeps I (dump_words n a b)"
  by (induction n arbitrary: a; unfold dump_words.simps; intro base_kept; assumption)

lemma asm_kept: "keeps (at_mach I) (modify scanner_pop_source)" "keeps (at_mach I) (scanner_push_source t)"
proof -
  have "hidden scanner_pop_source"
    by (auto simp: hidden_def scanner_pop_source_def config_view_def layout_view_def split: list.split)
  then show "keeps (at_mach I) (modify scanner_pop_source)" by (rule hidden_kept)
  have "hidden (\<lambda>p. scanner_init t (p\<lparr>scanner_stack := st p\<rparr>))" for st
    by (simp add: hidden_def scanner_init_def config_view_def layout_view_def)
  then show "keeps (at_mach I) (scanner_push_source t)"
    unfolding scanner_push_source_def by (intro parse_base; simp)
qed

lemmas repl_base = keeps_bnd keeps_seq keeps_gets keeps_whn keeps_if keeps_ret keeps_throw keeps_option keeps_let
  machine_kept on_pst_kept val_kept

lemma say_kept: "keeps (at_repl I) (say fmt args)" "keeps (at_repl I) (say_text fmt t)"
  unfolding say_def say_text_def by (intro repl_base console_kept change; simp)+

lemma fields_kept:
  "keeps (at_repl I) (modify console_to_spim)" "keeps (at_repl I) (modify console_to_program)"
  "keeps (at_repl I) (modify (\<lambda>r. r\<lparr>prev_cmd := c\<rparr>))" "keeps (at_repl I) (modify (\<lambda>r. r\<lparr>run_addr := a\<rparr>))"
  "keeps (at_repl I) (modify (\<lambda>r. r\<lparr>step_count := a\<rparr>))" "keeps (at_repl I) (modify (\<lambda>r. r\<lparr>print_loc := a\<rparr>))"
  "keeps (at_repl I) (modify (\<lambda>r. r\<lparr>prev_token := t\<rparr>))" "keeps (at_repl I) (modify (\<lambda>r. r\<lparr>program_argv := v\<rparr>))"
  "keeps (at_repl I) (modify (\<lambda>r. r\<lparr>bkpt_addr := a\<rparr>))" "keeps (at_repl I) (modify (\<lambda>r. r\<lparr>bkpt_addr := bkpt_addr r + 4\<rparr>))"
  "keeps (at_repl I) (modify (\<lambda>r. r\<lparr>dumped := dumped r @ [x]\<rparr>))"
  by (rule at_repl_modify, simp add: console_to_spim_def console_to_program_def)+

lemma input_kept: "keeps (at_repl I) (read_token H)" "keeps (at_repl I) scanned_int" "keeps (at_repl I) scanned_str"
  unfolding read_token_def scanned_int_def scanned_str_def by (intro repl_base fields_kept peek_kept)+

lemma flush_line_kept: "keeps (at_repl I) (flush_to_newline H n)"
  by (induction n; unfold flush_to_newline.simps; intro repl_base input_kept; assumption)

lemma operand_kept: "keeps (at_repl I) (get_opt_int H n)" "keeps (at_repl I) (flush_unless b H S)"
    "keeps (at_repl I) (operand_token H b)" "keeps (at_repl I) (read_assembly_command H)" "keeps (at_repl I) (finish_as c)"
  unfolding get_opt_int_def flush_unless_def operand_token_def read_assembly_command_def finish_as_def
  by (intro repl_base input_kept flush_line_kept fields_kept)+

lemmas repl_intros = repl_base say_kept fields_kept input_kept flush_line_kept operand_kept

subsection \<open>The commands\<close>

lemma print_parts_kept: "keeps (at_repl I) (print_reg w)" "keeps (at_repl I) (print_fp_reg w)" "keeps (at_repl I) (print_reg_from_string t)"
    "keeps (at_repl I) (print_all_regs H b)" "keeps (at_repl I) (set_loc w)" "keeps (at_repl I) (show_memory H a)"
  unfolding print_reg_def print_fp_reg_def print_reg_from_string_def print_all_regs_def set_loc_def show_memory_def
    split_def Let_def
  by (intro repl_intros change memory_kept; simp)+

lemma print_numbered_kept:
  assumes "\<And>l. keeps (at_repl I) (pr l)"
  shows "keeps (at_repl I) (print_numbered pr d redo)"
  unfolding print_numbered_def by (intro repl_intros print_parts_kept assms)

lemma print_operand_kept: "keeps (at_repl I) (print_based H w)" "keeps (at_repl I) (print_number H b)" "keeps (at_repl I) (print_name H b)"
  unfolding print_number_def print_name_def print_based_def by (intro repl_intros print_parts_kept define_kept memory_kept)+

lemma print_commands_kept: "keeps (at_repl I) (cmd_print H S b)" "keeps (at_repl I) (cmd_print_symbols H S b)"
    "keeps (at_repl I) (cmd_print_all_regs H S b)" "keeps (at_repl I) (cmd_help H S b)" "keeps (at_repl I) (cmd_list H S b)"
    "keeps (at_repl I) (cmd_disasm H S b)" "keeps (at_repl I) (cmd_unknown H S)" "keeps (at_repl I) cmd_exit"
  unfolding cmd_print_def cmd_print_symbols_def cmd_print_all_regs_def cmd_help_def cmd_list_def cmd_disasm_def cmd_unknown_def
    cmd_exit_def
  by (intro repl_intros print_parts_kept print_operand_kept print_numbered_kept listing_kept text_listing_kept change;
      simp add: unseen_def list_breakpoints_def config_view_def layout_view_def)+

lemma run_parts_kept: "keeps (at_repl I) (run_and_report H S a n d c)" "keeps (at_repl I) report_undefined"
  unfolding run_and_report_def report_undefined_def split_def by (intro repl_intros program_kept listing_kept)+

lemma run_commands_kept: "keeps (at_repl I) (cmd_run H S b)" "keeps (at_repl I) (cmd_continue H S)" "keeps (at_repl I) (cmd_step H S b)"
  unfolding cmd_run_def cmd_continue_def cmd_step_def starting_address_def
  by (intro repl_intros run_parts_kept stack_kept define_kept)+

lemma arg_words_kept: "keeps (at_repl I) (arg_words H n)"
  by (induction n; unfold arg_words.simps; intro repl_intros; assumption)

lemma breakpoint_operand_kept: "keeps (at_repl I) (breakpoint_address b t)"
  unfolding breakpoint_address_def Let_def by (intro repl_intros define_kept)

lemma file_commands_kept: "keeps (at_repl I) (cmd_read H S b)" "keeps (at_repl I) (cmd_asm H S)" "keeps (at_repl I) (cmd_args H S)"
    "keeps (at_repl I) (cmd_dump H S c b)" "keeps (at_repl I) (cmd_breakpoint H S c b)"
  unfolding cmd_read_def cmd_asm_def cmd_args_def cmd_dump_def cmd_breakpoint_def split_def
  by (intro repl_intros reading_kept asm_kept file_kept arg_words_kept base_kept define_kept words_kept breakpoint_operand_kept
      delete add; simp)+

text \<open>With a \<^verbatim>\<open>reinitialize\<close> that keeps the predicate, so does every line.\<close>

lemma execute_kept:
  assumes "\<And>s. I (fresh_world (sizes S) s)"
  shows "keeps (at_repl I) (execute H S b c)"
proof -
  have "keeps (at_repl I) (cmd_reinitialize H S)"
    unfolding cmd_reinitialize_def write_startup_message_def
    by (intro repl_intros keepsI [of _ "initialize_world _ _ _ _ _ _"] world_made assms stack_kept console_kept change; simp)
  then show ?thesis
    unfolding execute_def
    by (cases c) (simp_all only: command.case, (intro repl_intros print_commands_kept run_commands_kept file_commands_kept)+)
qed

lemma line_read_kept:
  assumes "\<And>s. I (fresh_world (sizes S) s)"
  shows "keeps (at_repl I) (read_eval H S l)"
proof -
  have pop: "at_repl I r \<Longrightarrow> at_repl I (pop_line r)" for r
    using keepsD [OF asm_kept(1), of "pst r"] by (simp add: at_repl_def pop_line_def)
  then have "keeps (at_repl I) (modify pop_line)" by (rule keeps_modify)
  with pop show ?thesis
    unfolding read_eval_def parse_spim_command_def
    by (intro repl_intros recovered_kept asm_kept execute_kept assms) simp_all
qed

lemma session_kept:
  assumes "\<And>s. I (fresh_world (sizes S) s)"
  shows "keeps (at_repl I) (top_level H S ls)"
  by (induction ls; unfold top_level.simps; intro repl_intros line_read_kept assms; assumption)

end

subsection \<open>Sessions\<close>

text \<open>The predicate on the machine, and the sizes of the segments, which nothing changes after the options.\<close>

definition at_cli :: "(machine \<Rightarrow> bool) \<Rightarrow> segment_sizes \<Rightarrow> cli \<Rightarrow> bool" where
  "at_cli I z c \<longleftrightarrow> at_repl I (session_repl c) \<and> sizes (settings c) = z"

lemma on_repl_kept: "keeps (at_repl I) m \<Longrightarrow> keeps (at_cli I z) (on_repl m)"
  by (auto simp: keeps_def on_repl_def at_cli_def split: sum.splits)

lemma at_cli_modify: "(\<And>c. session_repl (f c) = session_repl c \<and> settings (f c) = settings c) \<Longrightarrow> keeps (at_cli I z) (modify f)"
  by (rule keeps_modify) (simp add: at_cli_def)

lemma chosen_sizes: "sizes (chosen_settings c) = sizes (settings c)"
  by (simp add: chosen_settings_def)

context loader_invariant
begin

lemmas cli_base = keeps_bnd keeps_seq keeps_gets keeps_whn keeps_if keeps_ret keeps_throw keeps_option on_repl_kept machine_kept

lemma batch_kept: "keeps (at_cli I z) (run_batch H)"
proof -
  have r: "keeps (at_repl I) (run_or_recover H S)" for S
  proof (rule keepsI)
    fix r assume "at_repl I r"
    moreover have "keeps (at_repl I) (try_run H S)"
      unfolding try_run_def starting_address_def by (intro repl_intros listing_kept define_kept program_kept)
    ultimately have "at_repl I (final (try_run H S r))" by (rule keepsD [rotated])
    then show "at_repl I (final (run_or_recover H S r))"
      by (auto simp: run_or_recover_def at_repl_def console_to_spim_def split: sum.split abort.split)
  qed
  have "unseen exit_status" by (simp add: unseen_def exit_status_def config_view_def layout_view_def)
  then have "I s \<Longrightarrow> I (exit_status s)" for s by (rule kept)
  then have "keeps (at_cli I z) (modify (upd_state exit_status))"
    by (intro keeps_modify) (simp add: at_cli_def at_repl_def at_mach_def upd_state_def upd_mach_def)
  then show ?thesis
    unfolding run_batch_def status_or_def on_state_def by (intro cli_base fields_kept stack_kept r)
qed

lemma start_made:
  assumes "\<And>s. I (fresh_world (sizes (settings c)) s)"
  shows "at_cli I (sizes (settings c)) (final (start_world H c))"
proof -
  let ?S = "chosen_settings c" and ?p = "pst (session_repl c)"
  let ?m = "initialize_world H (outer ?S) (fuel ?S) (sizes ?S) (handler ?S) (\<not> quiet (cli_state c))"
  have "at_mach I (final (?m ?p))" by (rule world_made) (simp add: chosen_sizes assms)
  moreover have "start_world H c = on_parser ?m c" by (simp add: start_world_def bnd_def gets_def)
  ultimately show ?thesis
    by (auto simp: on_parser_def on_repl_def on_pst_def at_cli_def at_repl_def split: sum.splits)
qed

text \<open>The files that are loaded first, and the two ways to go on.\<close>

lemma load_made:
  assumes fresh: "\<And>s. I (fresh_world (sizes (settings c)) s)" and old: "world_initialized c \<Longrightarrow> I (cli_state c)"
  shows "at_cli I (sizes (settings c)) (final (load_file H name c))"
proof -
  let ?J = "at_cli I (sizes (settings c))" and ?k = "\<lambda>S. on_parser (read_assembly_file H (outer S) (fuel S) name)"
  let ?note = "\<lambda>c. c\<lparr>world_initialized := True, assembly_file_attempted := True\<rparr>"
  have "keeps ?J (modify ?note)" by (rule at_cli_modify) simp
  then have r: "keeps ?J (seq (modify ?note) (bnd (gets settings) ?k))"
    unfolding on_parser_def by (intro cli_base on_pst_kept reading_kept)
  have s: "?J (final (whn (\<not> world_initialized c) (start_world H) c))"
    using start_made [OF fresh] old by (simp add: at_cli_def at_repl_def at_mach_def cli_state_def)
  have "load_file H name c = seq (whn (\<not> world_initialized c) (start_world H)) (seq (modify ?note) (bnd (gets settings) ?k)) c"
    unfolding load_file_def by (rule bnd_Inr [OF gets_app])
  moreover have "?J (final (seq (whn (\<not> world_initialized c) (start_world H)) (seq (modify ?note) (bnd (gets settings) ?k)) c))"
    by (rule keeps_then [of ?J]) (rule s r)+
  ultimately show ?thesis by simp
qed

lemma interactive_made:
  assumes "\<And>s. I (fresh_world (sizes (settings c)) s)"
  shows "at_cli I (sizes (settings c)) (final (interactive H ls c))"
proof -
  let ?J = "at_cli I (sizes (settings c))"
  have "keeps (at_repl I) (top_level H (chosen_settings d) ls)" if "?J d" for d
    using that assms by (intro session_kept) (simp add: at_cli_def chosen_sizes)
  moreover have "hidden (\<lambda>p. (scanner_init t p)\<lparr>input_file_name := n\<rparr>)" for t n
    by (simp add: hidden_def scanner_init_def config_view_def layout_view_def)
  ultimately have rest: "keeps ?J (bnd (gets chosen_settings) (\<lambda>S. bnd (gets (\<lambda>c. program_argv (session_repl c))) (\<lambda>argv.
     seq (on_repl (on_machine (initialize_run_stack H (outer S) argv)))
    (seq (on_repl (on_pst (modify (\<lambda>p. (scanner_init (stdin_text (outer S)) p)\<lparr>input_file_name := Some ''<standard input>''\<rparr>))))
    (seq (on_repl (top_level H S ls)) (ret 0))))))"
    by (intro keeps_gets_of) (intro cli_base stack_kept on_pst_kept hidden_kept; simp)
  show ?thesis
    unfolding interactive_def on_state_def on_parser_def
    by (rule keeps_then [of ?J]) (rule start_made [OF assms] rest)+
qed

end

subsection \<open>The property\<close>

text \<open>A session to begin with: one file, no handler.\<close>

definition one_file :: outside where
  "one_file = \<lparr>file_text = [''a.s'' \<mapsto> ''main: addiu $sp, $sp, -4''], embedded_exceptions = [], stdin_text = [], environ = []\<rparr>"

definition first_session :: session where
  "first_session = \<lparr>outer = one_file, sizes = default_sizes, handler = No_Handler, can_write = (\<lambda>_. False), fuel = 100\<rparr>"

abbreviation first_cli :: cli where
  "first_cli \<equiv> begin_main first_session None (at_line [])"

lemma begin_settings: "sizes (settings (begin_main S env p)) = default_sizes" "\<not> world_initialized (begin_main S env p)"
  by (simp_all add: begin_main_def)

text \<open>
  C40: whatever the user does, the address space stays well formed. With segment sizes that fit each other (those of the text segments
  word multiples that end below the data segments; the options of the command line are not checked, the default sizes do), a session at
  the command loop (the exception handler that it loads, and any lines: files that are read, programs that run, steps,
  breakpoints, assembled lines, new starts) ends in a state whose data, stack and kernel data segments are disjoint, word aligned and within their
  limits and whose text segments are word aligned and apart from these, however it ends; so does a file given on the command line, alone or after others, and then the run of the
  program.
\<close>

theorem sessions_keep_memory_well_formed:
  assumes "alloc_bounded H" and "sizes_ok (sizes (settings c))"
    and "world_initialized c \<Longrightarrow> mem_inv (cli_state c) \<and> text_ok (cli_state c)"
    and "t \<in> {cli_state (final (interactive H lines c)), cli_state (final (load_file H name c)),
      cli_state (final (bnd (load_file H name) (\<lambda>_. run_batch H) c))}"
  shows "mem_inv t \<and> text_ok t \<and> length (segments_at t a) \<le> 1"
proof -
  have fresh: "layout_inv H (fresh_world (sizes (settings c)) s)" "text_ok (fresh_world (sizes (settings c)) s)" for s
    using fresh_world_layout [OF assms(2)] by (simp_all add: layout_inv_def)
  have old: "world_initialized c \<Longrightarrow> layout_inv H (cli_state c)" "world_initialized c \<Longrightarrow> text_ok (cli_state c)"
    using assms(3) by (simp_all add: layout_inv_def)
  have at: "I (cli_state d)" if "at_cli I z d" for I z d
    using that by (simp add: at_cli_def at_repl_def at_mach_def cli_state_def)
  note load = loading.load_made [OF fresh(1) old(1), of name] text_ends.load_made [OF fresh(2) old(2), where H = H and name = name]
  have "at_cli (layout_inv H) (sizes (settings c)) (final (bnd (load_file H name) (\<lambda>_. run_batch H) c))"
    "at_cli text_ok (sizes (settings c)) (final (bnd (load_file H name) (\<lambda>_. run_batch H) c))"
    using load keepsD [OF loading.batch_kept] keepsD [OF text_ends.batch_kept] by (auto simp: bnd_def split: sum.split)
  then have "layout_inv H t \<and> text_ok t"
    using assms(4) at load loading.interactive_made [OF fresh(1), of lines] text_ends.interactive_made [OF fresh(2), where H = H and ls = lines]
    by blast
  then have "mem_inv t" "text_ok t" using assms(1) by (simp_all add: layout_inv_def)
  then show ?thesis using segments_disjoint(1) by blast
qed

theorem sessions_keep_memory_well_formed_witness:
  "mem_inv (cli_state (final (interactive idle_host [''read'', ''run'', ''step 3''] first_cli))) \<and>
   text_ok (cli_state (final (bnd (load_file idle_host ''a.s'') (\<lambda>_. run_batch idle_host) first_cli)))"
  using sessions_keep_memory_well_formed [OF idle_host_bounded, of first_cli _ "[''read'', ''run'', ''step 3'']" "''a.s''" 0]
  by (simp add: begin_settings default_sizes_ok)

end
