(* ===== verification/Spec2Isabelle.thy ===== *)
theory Spec2Isabelle
  imports Encodings MemoryProps Safety SymbolProps DataProps ParserProps RunProps CommandLine AstPrintProps ExplainProps Sessions
begin

text \<open>
  Spimulator: a verification development.

  The program (\<^verbatim>\<open>src/src\<close>, \<^verbatim>\<open>src/include\<close>) is a MIPS-32 simulator in C: an assembler that fills
  simulated memory with decoded instructions, an interpreter that runs them, a small operating
  system (system calls, exceptions, a memory-mapped console) and a debugger. Every part works on
  one set of global variables; the model collects them in the record \<open>machine\<close> (theory
  \<open>Machine\<close>), and every C function that changes them is a computation \<open>'a mcomp\<close>, a function from
  a machine to the value and the machine after it, or to the reason it stopped (an error, an
  exit, a crash of the C program) and the machine at that moment.

  Theories, in the order in which they build on each other:

    \<^item> \<open>Prelude\<close>: the machine computations and the generic facts on words, bits, lists and on
      computations that preserve a predicate (\<open>keeps\<close>).
    \<^item> \<open>Machine\<close>: the constants of \<^verbatim>\<open>memory.h\<close>, \<^verbatim>\<open>registers.h\<close>, \<^verbatim>\<open>spim.h\<close>; the instruction
      representation of \<^verbatim>\<open>instruction.h\<close> with its overlaid fields; labels (\<^verbatim>\<open>symbol-table.h\<close>);
      the state; \<^verbatim>\<open>raise_exception\<close> (\<^verbatim>\<open>run.c\<close>).
    \<^item> \<open>Opcodes\<close>: the instruction list \<^verbatim>\<open>opcodes.h\<close>, row by row, and the three tables built from it.
    \<^item> \<open>Codec\<close>: \<^verbatim>\<open>inst_encode\<close> and \<^verbatim>\<open>inst_decode\<close> (\<^verbatim>\<open>instruction.c\<close>). \<open>Encodings\<close> proves
      the round trip of every instruction whose operands fit their fields (and what becomes of fields without room), the
      range of every decoded register number, and two decoder faults, one of them for all floating-point compares.
    \<^item> \<open>Exceptions\<close>: \<^verbatim>\<open>handle_exception\<close> (\<^verbatim>\<open>syscall.c\<close>), the CP0 timer (\<^verbatim>\<open>run.c\<close>); exception
      entry is precise (the state after it is given bit by bit), exceptions in a handler keep the saved context, the
      timer fires on the match.
    \<^item> \<open>Memory\<close>: \<^verbatim>\<open>memory.c\<close>, whole: segments, their growth, readers and writers with the slow
      paths, code written as data, the console registers. \<open>WordArith\<close> and \<open>MemoryLaws\<close> hold
      the address arithmetic; \<open>MemoryProps\<close> states the layout invariant (\<open>mem_inv\<close> for data, stack and
      kernel data, \<open>text_ok\<close> for the ends of the text segments, which only \<^verbatim>\<open>make_memory\<close> moves), the abstract byte
      memory and the refinement of the accessors to it, growth and faults at every width, and the transmitter.
    \<^item> \<open>Multiply\<close>: the partial-product multiplication and the accumulating forms (\<^verbatim>\<open>run.c\<close>), and
      that they are the 64-bit operations.
    \<^item> \<open>Fpu\<close>: the floating-point cases of \<^verbatim>\<open>run_spim\<close>; \<open>Syscall\<close>: \<^verbatim>\<open>do_syscall\<close> and the console
      readers of \<^verbatim>\<open>spim.c\<close>; \<open>Cpu\<close>: the integer cases of \<^verbatim>\<open>run_spim\<close> with its branch, jump and
      load macros.
    \<^item> \<open>Text\<close>: \<^verbatim>\<open>printf\<close> conversions and the string stream (\<^verbatim>\<open>string-stream.c\<close>); \<open>Disasm\<close>: the
      text of an instruction, names and classes of opcodes (\<^verbatim>\<open>instruction.c\<close>).
    \<^item> \<open>Breakpoints\<close>: breakpoints (\<^verbatim>\<open>spim-utils.c\<close>, \<^verbatim>\<open>instruction.c\<close>) and what printing an
      instruction does to them.
    \<^item> \<open>ExplainText\<close>: the texts of the teaching mode (\<^verbatim>\<open>explain.c\<close>): legend, bit layouts, decoding
      frames, categories, pseudo-instructions. \<open>Explain\<close>: its computations, the snapshot before an
      instruction and the narration after it, with one template per opcode. \<open>Narration\<close>: the locales
      \<open>template_invariant\<close> and \<open>narration_invariant\<close>, the contract under which a predicate survives
      the narration. \<open>ExplainProps\<close>: the narration keeps the registers, gives the right verdict and the
      wrong address for a branch, and takes exceptions away from the handler.
    \<^item> \<open>Run\<close>: the switch of \<^verbatim>\<open>run_spim\<close> as a table of cases in the order of the source, one step,
      the chunks between polls of the console, and the loop.
    \<^item> \<open>Invariant\<close>: the locale \<open>machine_invariant\<close>, the contract of the storage operations under
      which a predicate survives a whole run, proved once for every case of the interpreter.
    \<^item> \<open>Safety\<close>: the locales \<open>storage_invariant\<close> (slow paths of memory), \<open>debug_invariant\<close>
      (breakpoints) and \<open>view_invariant\<close>, each implying the next contract, interpreted on the
      layout, the instruction pointers and the settings; the properties of whole runs.

    \<^item> \<open>Symbols\<close>: \<^verbatim>\<open>symbol-table.c\<close>, whole: the hash table of labels as heap objects in chains,
      forward references and their resolution, the list of local labels. \<open>SymbolProps\<close> refines
      it to a finite map from names to labels and states what a second definition does.
    \<^item> \<open>Data\<close>: \<^verbatim>\<open>data.c\<close>, whole: location counters, alignment, the stores behind the data
      directives. \<open>DataProps\<close> refines the stores to writes of the abstract byte memory, in the user
      segment with its growth, in the kernel segment while there is room.
    \<^item> \<open>Assembler\<close>: the assembling half of \<^verbatim>\<open>instruction.c\<close>: instructions from opcode and
      operands, the expansion of immediates that do not fit, \<^verbatim>\<open>store_instruction\<close>.
    \<^item> \<open>Ast\<close>: the syntax tree of \<^verbatim>\<open>ast.h\<close>, its constructors and \<^verbatim>\<open>emit_ast\<close> (\<^verbatim>\<open>parser.c\<close>), which
      walks it and drives the back end. \<open>AstPrint\<close>: the three dumps of the tree (\<^verbatim>\<open>ast.c\<close>);
      \<open>AstPrintProps\<close>: a reader of JSON and that it reads the JSON dump back to the tree.
    \<^item> \<open>Scanner\<close>: \<^verbatim>\<open>scanner.c\<close>, whole: the line buffer, every token, the lookahead buffer and the
      stack of sources. \<open>ScannerProps\<close>: the keyword search is exact; the contract
      \<open>token_source\<close>, under which a line written from tokens is read back as them.
    \<^item> \<open>Pseudo\<close>: the helpers of \<^verbatim>\<open>pseudo-op.c\<close> and \<^verbatim>\<open>parser.c\<close> that expand pseudo-instructions.
    \<^item> \<open>Parser\<close>: the recursive-descent parser of \<^verbatim>\<open>parser.c\<close> from operands to files. \<open>ParserProps\<close>:
      a written expression is parsed back to its value.

    \<^item> \<open>World\<close>: \<^verbatim>\<open>spim-utils.c\<close> from the initial state to \<^verbatim>\<open>run_program\<close>: the exception handler, the
      files of a program, its arguments and environment on the stack, the step over a breakpoint.
      \<open>WorldProps\<close>: the stack a program starts with. \<open>RunProps\<close>: setting and deleting breakpoints,
      and two ways in which stepping and displaying change what a program does.
    \<^item> \<open>Display\<close>: \<^verbatim>\<open>display-utils.c\<close> and \<^verbatim>\<open>print_mem\<close>: registers, instructions and memory as text.
    \<^item> \<open>Repl\<close>: the command loop of \<^verbatim>\<open>spim.c\<close> with all its commands; \<open>CommandLine\<close>: \<^verbatim>\<open>main\<close>, its
      options, the batch run and its exit status, the files it writes.
    \<^item> \<open>Loading\<close>: the locale \<open>loader_invariant\<close>, the contract of runs extended to the assembler's back end,
      the scanner, the parser, reading files and starting the world. \<open>Sessions\<close> takes it through every command
      of the loop and through the command line. It is interpreted on the layout and on the ends of the text segments:
      with sizes that fit each other the address space stays well formed in any session.

  Parameters. What the C code takes from outside \<^verbatim>\<open>src\<close> is the record \<open>host\<close>: the sizes and
  contents the allocator grants, the console input, the file system calls, number parsing, the
  interval timer and the arithmetic of the host's floating-point unit. Theorems that rely on one
  of them name the assumption (\<open>alloc_bounded\<close>: a granted block can be addressed).

  Fuel. \<^verbatim>\<open>run_spim\<close> calls itself for a delay slot; its fuel bounds the nesting, and without delayed
  branches it is shown not to matter. \<^verbatim>\<open>format_an_inst\<close> recurs once below a recorded breakpoint, and
  has two levels. The parser's fuel counts the tokens it may still consume (the calls of
  the expression grammar are bounded by twelve for each node of the expression), the walk of the
  local labels has one unit for each label of a list that ends, and \<^verbatim>\<open>i_type_inst\<close> calls itself
  a fixed number of levels deep, \<open>I_TYPE_FUEL\<close>. Running out is the abort \<open>Out_Of_Fuel\<close>, so a
  theorem that a result is returned rules it out.

  Not modelled. The assembler events (\<^verbatim>\<open>assembler-event.c\<close>) notify observers of a listing and change
  nothing of the machine; \<^verbatim>\<open>dump-opcodes.c\<close> is a tool of the build. Line editing, history and completion of
  the command loop belong to a library; an interrupt from the keyboard is left out. Two details of the C code are
  out of reach of the model: \<open>explain_after\<close> is given the instruction, where the C code reads it through a pointer that is stale
  when the instruction has overwritten its own cell; and \<open>emit_data_ints\<close> and \<open>json_imm\<close> have no case for the null
  expression, which the parser never puts into a tree.
\<close>

end
